(* ===== verification/Prelude.thy ===== *)
theory Prelude
  imports Main "HOL-Library.Word" "HOL-Library.List_Lexorder" "HOL-Library.Product_Lexorder"
    "HOL-Library.AList" "HOL-Library.Sublist"
begin

text \<open>
  Shared vocabulary of the development: identifiers, instants and texts; the workspace
  scoping test every store query carries; SQL row selection over lists of rows; the pieces
  of Go's \<open>strings\<close> package the program uses; and the named collections and generic list
  lemmas the component theories rely on.

  A Go string is its sequence of code points (type \<open>ustr\<close>): every text column holds valid
  UTF-8, and all the code's operations on strings (concatenation, \<open>range\<close> loops, rune
  counts, substring tests) act on code points.  Where the code counts bytes,
  \<open>byte_len\<close> is the length of the UTF-8 encoding.
\<close>

section \<open>Identifiers, instants, texts\<close>

type_synonym uuid = "128 word"
type_synonym instant = int     \<comment> \<open>nanoseconds since the Unix epoch\<close>
type_synonym rune = nat
type_synonym ustr = "rune list"

abbreviation lit :: "string \<Rightarrow> ustr" where
  "lit s \<equiv> map of_char s"

definition utf8_len :: "rune \<Rightarrow> nat" where
  "utf8_len r = (if r < 128 then 1 else if r < 2048 then 2 else if r < 65536 then 3 else 4)"

definition byte_len :: "ustr \<Rightarrow> nat" where
  "byte_len s = sum_list (map utf8_len s)"

section \<open>Named collections\<close>

named_theorems row_defs \<open>definitions of single-row updates and predicates\<close>
named_theorems scope_rules \<open>facts about workspace scoping\<close>
named_theorems selection \<open>facts about row selection\<close>

section \<open>Workspace scoping\<close>

text \<open>
  The SQL predicate \<open>$n IS NULL OR workspace_id = $n\<close>: an unscoped caller sees every row,
  a scoped caller exactly the rows of its workspace (a NULL \<open>workspace_id\<close> never equals it).
\<close>

definition in_scope :: "uuid option \<Rightarrow> uuid option \<Rightarrow> bool" where
  "in_scope scope ws = (case scope of None \<Rightarrow> True | Some s \<Rightarrow> ws = Some s)"

lemma in_scope_simps [simp, scope_rules]:
  "in_scope None ws"
  "in_scope (Some s) ws \<longleftrightarrow> ws = Some s"
  by (simp_all add: in_scope_def)

section \<open>Selecting rows\<close>

text \<open>
  \<open>first_row P rows\<close> is \<open>SELECT \<dots> WHERE P LIMIT 1\<close> in table order, \<open>update_rows\<close> is
  \<open>UPDATE \<dots> WHERE P\<close>, \<open>pick_best\<close> is \<open>ORDER BY \<dots> LIMIT 1\<close>.
\<close>

definition first_row :: "('r \<Rightarrow> bool) \<Rightarrow> 'r list \<Rightarrow> 'r option" where
  "first_row P rows = List.find P rows"

definition update_rows :: "('r \<Rightarrow> bool) \<Rightarrow> ('r \<Rightarrow> 'r) \<Rightarrow> 'r list \<Rightarrow> 'r list" where
  "update_rows P f rows = map (\<lambda>r. if P r then f r else r) rows"

fun pick_best :: "('r \<Rightarrow> 'r \<Rightarrow> bool) \<Rightarrow> 'r list \<Rightarrow> 'r option" where
  "pick_best better [] = None"
| "pick_best better (r # rs) =
     (case pick_best better rs of
        None \<Rightarrow> Some r
      | Some b \<Rightarrow> Some (if better b r then b else r))"

lemma first_row_Some [selection]:
  "first_row P rows = Some r \<Longrightarrow> r \<in> set rows \<and> P r"
  by (auto simp: first_row_def find_Some_iff)

lemma first_row_None [selection]:
  "first_row P rows = None \<longleftrightarrow> (\<forall>r \<in> set rows. \<not> P r)"
  by (auto simp: first_row_def find_None_iff)

lemma first_row_append:
  "first_row P (xs @ ys) = (case first_row P xs of None \<Rightarrow> first_row P ys | Some r \<Rightarrow> Some r)"
  by (induction xs) (auto simp: first_row_def)

lemma update_rows_simps [simp]:
  "update_rows P f [] = []"
  "update_rows P f (r # rs) = (if P r then f r else r) # update_rows P f rs"
  "length (update_rows P f rows) = length rows"
  by (simp_all add: update_rows_def)

lemma set_update_rows:
  "set (update_rows P f rows) = f ` {r \<in> set rows. P r} \<union> {r \<in> set rows. \<not> P r}"
  by (auto simp: update_rows_def)

lemma update_rows_append [simp]:
  "update_rows P f (xs @ ys) = update_rows P f xs @ update_rows P f ys"
  by (simp add: update_rows_def)

lemma update_rows_id: "(\<And>r. r \<in> set rows \<Longrightarrow> \<not> P r) \<Longrightarrow> update_rows P f rows = rows"
  by (induction rows) auto

lemma map_update_rows:
  "(\<And>r. g (f r) = g r) \<Longrightarrow> map g (update_rows P f rows) = map g rows"
  by (induction rows) auto

lemma filter_update_rows:
  "(\<And>r. P r \<Longrightarrow> Q (f r) = Q r) \<Longrightarrow>
     filter Q (update_rows P f rows) = update_rows P f (filter Q rows)"
  by (induction rows) auto

lemma pick_best_None [simp]: "pick_best better rs = None \<longleftrightarrow> rs = []"
  by (cases rs) (auto split: option.splits)

lemma pick_best_mem [selection]: "pick_best better rs = Some b \<Longrightarrow> b \<in> set rs"
  by (induction rs arbitrary: b) (auto split: option.splits if_splits)

lemma pick_best_top [selection]:
  assumes "pick_best better rs = Some b" and "r \<in> set rs"
    and trans: "\<And>x y z. better x y \<Longrightarrow> better y z \<Longrightarrow> better x z"
    and total: "\<And>x y. \<not> better x y \<Longrightarrow> better y x"
  shows "better b r"
  using assms(1,2)
proof (induction rs arbitrary: b r)
  case Nil
  then show ?case by simp
next
  case (Cons a rs)
  have refl: "better x x" for x using total by blast
  show ?case
  proof (cases "pick_best better rs")
    case None
    with Cons.prems show ?thesis by (auto simp: refl)
  next
    case (Some c)
    with Cons.prems have b: "b = (if better c a then c else a)" by simp
    show ?thesis
    proof (cases "r = a")
      case True
      with b show ?thesis by (simp add: refl)
    next
      case False
      with Cons.prems have "r \<in> set rs" by simp
      with Some have "better c r" by (rule Cons.IH)
      with b show ?thesis using total trans by (metis (full_types))
    qed
  qed
qed

section \<open>Keys that stay unique\<close>

lemma distinct_map_unique:
  "distinct (map f xs) \<Longrightarrow> x \<in> set xs \<Longrightarrow> y \<in> set xs \<Longrightarrow> f x = f y \<Longrightarrow> x = y"
  by (induction xs) (auto simp: image_iff)

lemma distinct_map_filter: "distinct (map f xs) \<Longrightarrow> distinct (map f (filter P xs))"
  by (induction xs) auto

end
