(* ===== verification/Outcome_Model.thy ===== *)
theory Outcome_Model
  imports Prelude
begin

text \<open>
  The outcome bounded context (\<open>internal/outcome\<close>, \<open>internal/storage/sqlite/outcome.go\<close>):
  the rows of the \<open>outcomes\<close> and \<open>evaluations\<close> tables, the field-by-field merge that
  \<open>FinalizeDraft\<close> performs, and every operation of the two stores behind
  \<open>outcome.StoreIface\<close>.  Operations of the Postgres store carry the suffix \<open>_pg\<close>, those of
  the SQLite store \<open>_sq\<close>; each takes the instant of the call, the identifier the call
  would generate and the tables, and returns an error or the result with the new tables.

  Columns that are NULL or empty read back alike (\<open>notes\<close>, \<open>related_rule_ids\<close>) and are
  one value here.
\<close>

section \<open>JSON documents of the metrics column\<close>

text \<open>
  The bytes of a \<open>metrics\<close> value, classified as \<open>encoding/json\<close> classifies them.
  \<open>JObj layout members\<close> is an object with its members in document order, \<open>layout\<close> stands
  for the whitespace around them (0: the compact form \<open>json.Marshal\<close> writes, 1: the form
  jsonb prints, which is the compact form of the empty object); member values stay raw.  \<open>JBad\<close> is text that is not JSON.
\<close>

datatype json =
    JNull
  | JObj nat "(ustr \<times> ustr) list"
  | JArr "json list"
  | JScalar ustr
  | JBad ustr

type_synonym members = "(ustr \<times> ustr) list"

text \<open>Filling a Go map from the members in order: the last value of a repeated key stays.\<close>

definition collect_members :: "members \<Rightarrow> members" where
  "collect_members kvs = fold (\<lambda>(k, v) m. AList.update k v m) kvs []"

definition unmarshal_object :: "json \<Rightarrow> members option" where
  "unmarshal_object j = (case j of
     JNull \<Rightarrow> Some []
   | JObj l kvs \<Rightarrow> Some (collect_members kvs)
   | _ \<Rightarrow> None)"

definition marshal_object :: "members \<Rightarrow> json" where
  "marshal_object m = JObj 0 (sort_key fst m)"

text \<open>The cast \<open>::jsonb\<close> keeps one value per key and orders the keys by length, then bytes.\<close>

definition jsonb_members :: "members \<Rightarrow> members" where
  "jsonb_members kvs = sort_key (\<lambda>(k, v). (byte_len k, k)) (collect_members kvs)"

definition jsonb_object :: "members \<Rightarrow> json" where
  "jsonb_object kvs = JObj (if kvs = [] then 0 else 1) (jsonb_members kvs)"

fun jsonb :: "json \<Rightarrow> json option" where
  "jsonb (JObj l kvs) = Some (jsonb_object kvs)"
| "jsonb (JBad s) = None"
| "jsonb j = Some j"

text \<open>
  The jsonb operator \<open>||\<close>: two objects give the union with the second object's value on a
  common key; in every other case a value that is not an array counts as a one-element
  array and the two arrays are concatenated.
\<close>

fun json_elems :: "json \<Rightarrow> json list" where
  "json_elems (JArr js) = js"
| "json_elems j = [j]"

fun jsonb_concat :: "json \<Rightarrow> json \<Rightarrow> json" where
  "jsonb_concat (JObj l a) (JObj l' b) = jsonb_object (a @ b)"
| "jsonb_concat x y = JArr (json_elems x @ json_elems y)"

definition json_lookup :: "json option \<Rightarrow> ustr \<Rightarrow> ustr option" where
  "json_lookup d = (case d of
     None \<Rightarrow> Map.empty
   | Some j \<Rightarrow> (case unmarshal_object j of None \<Rightarrow> Map.empty | Some m \<Rightarrow> map_of m))"

lemma map_of_collect_fold:
  "map_of (fold (\<lambda>(k, v) m. AList.update k v m) kvs m) = map_of m ++ map_of (rev kvs)"
proof (induction kvs arbitrary: m)
  case Nil
  then show ?case by simp
next
  case (Cons kv kvs)
  show ?case
    by (cases kv) (simp add: Cons.IH update_conv' map_add_assoc [symmetric] fun_eq_iff map_add_def
        split: option.splits)
qed

lemma map_of_collect [simp]: "map_of (collect_members kvs) = map_of (rev kvs)"
  by (simp add: collect_members_def map_of_collect_fold)

lemma distinct_collect_fold:
  "distinct (map fst m) \<Longrightarrow>
     distinct (map fst (fold (\<lambda>(k, v) m. AList.update k v m) kvs m))"
  by (induction kvs arbitrary: m) (auto simp: distinct_update split: prod.splits)

lemma distinct_collect [simp]: "distinct (map fst (collect_members kvs))"
  by (simp add: collect_members_def distinct_collect_fold)

lemma distinct_sort_key: "distinct (map fst m) \<Longrightarrow> distinct (map fst (sort_key f m))"
  by (simp add: distinct_map)

lemma map_of_same_set:
  assumes "distinct (map fst m)" and "distinct (map fst m')" and "set m = set m'"
  shows "map_of m = map_of m'"
  using assms by (metis map_of_eq_Some_iff option.exhaust ext)

lemma map_of_sort_key: "distinct (map fst m) \<Longrightarrow> map_of (sort_key f m) = map_of m"
  by (rule map_of_same_set) (simp_all add: distinct_sort_key)

lemma map_of_rev_distinct: "distinct (map fst m) \<Longrightarrow> map_of (rev m) = map_of m"
  by (rule map_of_same_set) (simp_all add: distinct_map)

lemma map_of_jsonb_members [simp]: "map_of (jsonb_members kvs) = map_of (rev kvs)"
  by (simp add: jsonb_members_def map_of_sort_key)

lemma distinct_jsonb_members [simp]: "distinct (map fst (jsonb_members kvs))"
  by (simp add: jsonb_members_def distinct_sort_key)

lemma json_lookup_simps [simp]:
  "json_lookup None = Map.empty"
  "json_lookup (Some JNull) = Map.empty"
  "json_lookup (Some (JObj l kvs)) = map_of (rev kvs)"
  by (simp_all add: json_lookup_def unmarshal_object_def)

lemma json_lookup_jsonb_object [simp]: "json_lookup (Some (jsonb_object kvs)) = map_of (rev kvs)"
  by (simp add: jsonb_object_def map_of_rev_distinct)

lemma json_lookup_marshal [simp]:
  "distinct (map fst m) \<Longrightarrow> json_lookup (Some (marshal_object m)) = map_of m"
  by (simp add: marshal_object_def map_of_rev_distinct map_of_sort_key distinct_sort_key)


section \<open>Rows\<close>

datatype oresult = Success | Failure | Partial | Unknown | Regressed

record outcome =
  o_id :: uuid
  o_workspace :: "uuid option"
  o_entity_type :: string
  o_entity_id :: uuid
  o_result :: oresult
  o_metrics :: "json option"
  o_notes :: ustr
  o_rule_ids :: "uuid list"
  o_session :: "uuid option"
  o_supersedes :: "uuid option"
  o_created :: instant
  o_updated :: instant

record evaluation =
  ev_id :: uuid
  ev_workspace :: "uuid option"
  ev_outcome :: uuid
  ev_analysis :: ustr
  ev_lessons :: ustr
  ev_suggestions :: ustr
  ev_created :: instant

record outcome_params =
  p_workspace :: "uuid option"
  p_entity_type :: string
  p_entity_id :: uuid
  p_result :: oresult
  p_metrics :: "json option"
  p_notes :: ustr
  p_rule_ids :: "uuid list"
  p_session :: "uuid option"
  p_supersedes :: "uuid option"

record evaluation_params =
  ep_workspace :: "uuid option"
  ep_outcome :: uuid
  ep_analysis :: ustr
  ep_lessons :: ustr
  ep_suggestions :: ustr

record outcome_db =
  outcomes :: "outcome list"
  evaluations :: "evaluation list"

datatype outcome_error =
    ErrNotFound
  | ErrDraftAlreadyFinalized
  | ErrUnique          \<comment> \<open>primary key or \<open>idx_outcomes_one_open_draft\<close>\<close>
  | ErrBadMetrics      \<comment> \<open>the jsonb cast or the JSON merge failed\<close>
  | ErrRetriesExceeded

definition MaxRelatedRuleIDsTotal :: nat where
  "MaxRelatedRuleIDsTotal = 100"

definition MaxNotesTotalRunes :: nat where
  "MaxNotesTotalRunes = 5000"

section \<open>The merge helpers\<close>

text \<open>\<open>DedupeUUIDsPreserveOrder\<close>: the loop over \<open>ids\<close> with its \<open>seen\<close> set.\<close>

fun dedupe_loop :: "uuid list \<Rightarrow> uuid list \<Rightarrow> uuid list" where
  "dedupe_loop seen [] = []"
| "dedupe_loop seen (i # ids) =
     (if i \<in> set seen then dedupe_loop seen ids else i # dedupe_loop (i # seen) ids)"

definition DedupeUUIDsPreserveOrder :: "uuid list \<Rightarrow> uuid list" where
  "DedupeUUIDsPreserveOrder ids = dedupe_loop [] ids"

text \<open>
  \<open>keep_capped\<close> is the rule the two cap functions share: keep \<open>capLimit\<close> elements, but
  never fewer than the \<open>n\<close> that were stored before.
\<close>

definition keep_capped :: "nat \<Rightarrow> 'a list \<Rightarrow> nat \<Rightarrow> 'a list" where
  "keep_capped n merged capLimit =
     (if length merged \<le> capLimit then merged
      else let keep = (if n > capLimit then n else capLimit)
           in if keep \<ge> length merged then merged else take keep merged)"

definition CapRelatedRuleIDs :: "uuid list \<Rightarrow> uuid list \<Rightarrow> nat \<Rightarrow> uuid list" where
  "CapRelatedRuleIDs existing merged capLimit = keep_capped (length existing) merged capLimit"

definition CapNotesTotal :: "ustr \<Rightarrow> ustr \<Rightarrow> nat \<Rightarrow> ustr \<times> bool" where
  "CapNotesTotal existing merged capLimit =
     (if length merged \<le> capLimit then (merged, False)
      else let keep = (if length existing > capLimit then length existing else capLimit)
           in if keep \<ge> length merged then (merged, False) else (take keep merged, True))"

definition NotesTruncated :: "ustr \<Rightarrow> ustr \<Rightarrow> bool" where
  "NotesTruncated finalNotes newNotes =
     (if newNotes = [] then False else \<not> suffix newNotes finalNotes)"

fun RelatedRuleIDsTruncated :: "uuid list \<Rightarrow> uuid list \<Rightarrow> bool" where
  "RelatedRuleIDsTruncated finalIDs [] = False"
| "RelatedRuleIDsTruncated finalIDs (i # newIDs) =
     (if i \<notin> set finalIDs then True else RelatedRuleIDsTruncated finalIDs newIDs)"

text \<open>The merges the SQLite store computes in Go.\<close>

definition nn :: ustr where
  "nn = [10, 10]"

definition appendNotes :: "ustr \<Rightarrow> ustr \<Rightarrow> ustr" where
  "appendNotes existing incoming =
     (if incoming = [] then existing
      else if existing = [] then incoming
      else existing @ nn @ incoming)"

definition unionRelatedRuleIDs :: "uuid list \<Rightarrow> uuid list \<Rightarrow> uuid list" where
  "unionRelatedRuleIDs existing incoming =
     (if incoming = [] then existing else dedupe_loop [] (existing @ incoming))"

definition mergeMetricsPreferExisting ::
  "json option \<Rightarrow> json option \<Rightarrow> outcome_error + json option" where
  "mergeMetricsPreferExisting existing incoming =
     (case incoming of
        None \<Rightarrow> Inr existing
      | Some inc \<Rightarrow>
          (case unmarshal_object inc of
             None \<Rightarrow> Inl ErrBadMetrics
           | Some incMap \<Rightarrow>
               (case existing of
                  None \<Rightarrow> Inr (Some (marshal_object incMap))
                | Some ex \<Rightarrow>
                    (case unmarshal_object ex of
                       None \<Rightarrow> Inl ErrBadMetrics
                     | Some exMap \<Rightarrow>
                         Inr (Some (marshal_object
                           (fold (\<lambda>(k, v) m. AList.update k v m) exMap incMap)))))))"

lemma dedupe_loop_set: "set (dedupe_loop seen ids) = set ids - set seen"
  by (induction seen ids rule: dedupe_loop.induct) auto

lemma dedupe_loop_distinct: "distinct (dedupe_loop seen ids)"
  by (induction seen ids rule: dedupe_loop.induct) (auto simp: dedupe_loop_set)

lemma dedupe_loop_cong: "set seen = set seen' \<Longrightarrow> dedupe_loop seen ids = dedupe_loop seen' ids"
proof (induction ids arbitrary: seen seen')
  case Nil
  then show ?case by simp
next
  case (Cons i ids)
  from Cons.prems have "set (i # seen) = set (i # seen')" by simp
  then have "dedupe_loop (i # seen) ids = dedupe_loop (i # seen') ids" by (rule Cons.IH)
  with Cons.IH [OF Cons.prems] Cons.prems show ?case by simp
qed

lemma dedupe_loop_append:
  "dedupe_loop seen (xs @ ys) = dedupe_loop seen xs @ dedupe_loop (rev xs @ seen) ys"
proof (induction xs arbitrary: seen)
  case Nil
  then show ?case by simp
next
  case (Cons x xs)
  have "dedupe_loop (rev xs @ x # seen) ys = dedupe_loop (rev xs @ seen) ys" if "x \<in> set seen"
    using that by (intro dedupe_loop_cong) auto
  then show ?case by (simp add: Cons.IH)
qed

lemma dedupe_loop_fresh:
  "distinct ids \<Longrightarrow> dedupe_loop seen ids = filter (\<lambda>i. i \<notin> set seen) ids"
proof (induction ids arbitrary: seen)
  case Nil
  then show ?case by simp
next
  case (Cons i ids)
  then have "filter (\<lambda>j. j \<notin> set (i # seen)) ids = filter (\<lambda>j. j \<notin> set seen) ids"
    by (intro filter_cong) auto
  with Cons show ?case by simp
qed

lemma dedupe_loop_filter_seen:
  "dedupe_loop (seen @ seen') ids = filter (\<lambda>i. i \<notin> set seen) (dedupe_loop seen' ids)"
proof (induction ids arbitrary: seen')
  case Nil
  then show ?case by simp
next
  case (Cons i ids)
  have swap: "dedupe_loop (i # seen @ seen') ids = dedupe_loop (seen @ i # seen') ids"
    by (rule dedupe_loop_cong) auto
  have drop: "dedupe_loop (seen @ i # seen') ids = dedupe_loop (seen @ seen') ids" if "i \<in> set seen"
    using that by (intro dedupe_loop_cong) auto
  consider "i \<in> set seen'" | "i \<notin> set seen'" "i \<in> set seen" | "i \<notin> set seen'" "i \<notin> set seen"
    by blast
  then show ?case
  proof cases
    case 1
    then show ?thesis by (simp add: Cons.IH)
  next
    case 2
    then show ?thesis by (simp add: Cons.IH [symmetric] drop)
  next
    case 3
    then show ?thesis by (simp add: Cons.IH [symmetric] swap)
  qed
qed

lemma dedupe_loop_filter:
  "dedupe_loop seen ids = filter (\<lambda>i. i \<notin> set seen) (dedupe_loop [] ids)"
  using dedupe_loop_filter_seen [of seen "[]" ids] by simp

lemma keep_capped_take: "keep_capped n merged c = take (max c n) merged"
  by (simp add: keep_capped_def Let_def max_def)

lemma CapNotesTotal_fst: "fst (CapNotesTotal ex merged c) = take (max c (length ex)) merged"
  by (auto simp: CapNotesTotal_def Let_def max_def)

lemma CapNotesTotal_snd: "snd (CapNotesTotal ex merged c) \<longleftrightarrow> take (max c (length ex)) merged \<noteq> merged"
  by (auto simp: CapNotesTotal_def Let_def max_def)

lemma RelatedRuleIDsTruncated_iff: "RelatedRuleIDsTruncated f n \<longleftrightarrow> \<not> set n \<subseteq> set f"
  by (induction n) auto

end
