(* ===== verification/Outcome_Stores.thy ===== *)
theory Outcome_Stores
  imports Outcome_Model
begin

text \<open>
  The two implementations of \<open>outcome.StoreIface\<close>: \<open>internal/outcome/store.go\<close> (Postgres,
  suffix \<open>_pg\<close>) and \<open>internal/storage/sqlite/outcome.go\<close> (SQLite, suffix \<open>_sq\<close>), operation
  by operation.  A statement that violates the primary key or the partial unique index
  \<open>idx_outcomes_one_open_draft\<close> is \<open>ErrUnique\<close>; transport failures of the database are not
  modelled.  Ties of \<open>ORDER BY created_at DESC\<close> keep table order.
\<close>

section \<open>Tables, scopes, timestamps\<close>

text \<open>Postgres keeps microseconds, the SQLite timestamp text milliseconds.\<close>

definition pg_ts :: "instant \<Rightarrow> instant" where
  "pg_ts t = (t div 1000) * 1000"

definition sq_ts :: "instant \<Rightarrow> instant" where
  "sq_ts t = (t div 1000000) * 1000000"

definition draft_key :: "uuid option \<Rightarrow> uuid" where
  "draft_key ws = (case ws of None \<Rightarrow> 0 | Some w \<Rightarrow> w)"

definition open_draft :: "uuid option \<Rightarrow> string \<Rightarrow> uuid \<Rightarrow> outcome \<Rightarrow> bool" where
  "open_draft ws et eid r \<longleftrightarrow> o_result r = Unknown \<and> draft_key (o_workspace r) = draft_key ws \<and>
     o_entity_type r = et \<and> o_entity_id r = eid"

definition draft_conflict :: "outcome \<Rightarrow> outcome_db \<Rightarrow> bool" where
  "draft_conflict r db \<longleftrightarrow> o_result r = Unknown \<and>
     list_ex (open_draft (o_workspace r) (o_entity_type r) (o_entity_id r)) (outcomes db)"

definition insert_outcome :: "outcome \<Rightarrow> outcome_db \<Rightarrow> outcome_error + outcome \<times> outcome_db" where
  "insert_outcome r db =
     (if o_id r \<in> set (map o_id (outcomes db)) \<or> draft_conflict r db then Inl ErrUnique
      else Inr (r, db\<lparr>outcomes := outcomes db @ [r]\<rparr>))"

definition of_entity :: "uuid option \<Rightarrow> string \<Rightarrow> uuid \<Rightarrow> outcome \<Rightarrow> bool" where
  "of_entity ws et eid r \<longleftrightarrow>
     o_entity_type r = et \<and> o_entity_id r = eid \<and> in_scope ws (o_workspace r)"

text \<open>\<open>ORDER BY created_at DESC, id DESC\<close>.\<close>

definition newer :: "outcome \<Rightarrow> outcome \<Rightarrow> bool" where
  "newer a b \<longleftrightarrow> o_created b < o_created a \<or> (o_created b = o_created a \<and> o_id b \<le> o_id a)"

definition draft_row :: "uuid \<Rightarrow> uuid option \<Rightarrow> outcome \<Rightarrow> bool" where
  "draft_row i ws r \<longleftrightarrow> o_id r = i \<and> o_result r = Unknown \<and> in_scope ws (o_workspace r)"

section \<open>The Postgres store\<close>

definition metrics_arg_pg :: "json option \<Rightarrow> json option option" where
  "metrics_arg_pg m = (case m of None \<Rightarrow> Some None | Some j \<Rightarrow> map_option Some (jsonb j))"

definition CreateOutcome_pg ::
  "instant \<Rightarrow> uuid \<Rightarrow> outcome_params \<Rightarrow> outcome_db \<Rightarrow> outcome_error + outcome \<times> outcome_db" where
  "CreateOutcome_pg now nid p db =
     (case metrics_arg_pg (p_metrics p) of
        None \<Rightarrow> Inl ErrBadMetrics
      | Some m \<Rightarrow> insert_outcome
          \<lparr>o_id = nid, o_workspace = p_workspace p, o_entity_type = p_entity_type p,
           o_entity_id = p_entity_id p, o_result = p_result p, o_metrics = m,
           o_notes = p_notes p, o_rule_ids = p_rule_ids p, o_session = p_session p,
           o_supersedes = p_supersedes p, o_created = pg_ts now, o_updated = pg_ts now\<rparr> db)"

definition GetOutcomeByID_pg :: "uuid \<Rightarrow> uuid option \<Rightarrow> outcome_db \<Rightarrow> outcome_error + outcome" where
  "GetOutcomeByID_pg i ws db =
     (case first_row (\<lambda>r. o_id r = i \<and> in_scope ws (o_workspace r)) (outcomes db) of
        None \<Rightarrow> Inl ErrNotFound | Some r \<Rightarrow> Inr r)"

definition ListRecentOutcomes_pg ::
  "uuid option \<Rightarrow> string \<Rightarrow> int \<Rightarrow> outcome_db \<Rightarrow> outcome list" where
  "ListRecentOutcomes_pg ws et limit db =
     (let limit' = (if limit \<le> 0 then 20 else limit)
      in take (nat limit') (sort_key (\<lambda>r. - o_created r)
           (filter (\<lambda>r. in_scope ws (o_workspace r) \<and> (et = [] \<or> o_entity_type r = et)) (outcomes db))))"

definition CreateEvaluation_pg ::
  "instant \<Rightarrow> uuid \<Rightarrow> evaluation_params \<Rightarrow> outcome_db \<Rightarrow> outcome_error + evaluation \<times> outcome_db" where
  "CreateEvaluation_pg now nid p db =
     (let e = \<lparr>ev_id = nid, ev_workspace = ep_workspace p, ev_outcome = ep_outcome p,
               ev_analysis = ep_analysis p,
               ev_lessons = (if ep_lessons p = [] then lit ''[]'' else ep_lessons p),
               ev_suggestions = (if ep_suggestions p = [] then lit ''[]'' else ep_suggestions p),
               ev_created = pg_ts now\<rparr>
      in if nid \<in> set (map ev_id (evaluations db)) then Inl ErrUnique
         else Inr (e, db\<lparr>evaluations := evaluations db @ [e]\<rparr>))"

definition ListEvaluationsByOutcomeID_pg ::
  "uuid \<Rightarrow> uuid option \<Rightarrow> outcome_db \<Rightarrow> evaluation list" where
  "ListEvaluationsByOutcomeID_pg i ws db =
     sort_key ev_created
       (filter (\<lambda>e. ev_outcome e = i \<and> in_scope ws (ev_workspace e)) (evaluations db))"

definition ListFailedOutcomes_pg :: "uuid option \<Rightarrow> int \<Rightarrow> outcome_db \<Rightarrow> outcome list" where
  "ListFailedOutcomes_pg ws limit db =
     (let limit' = (if limit \<le> 0 then 20 else limit)
      in take (nat limit') (sort_key (\<lambda>r. - o_created r)
           (filter (\<lambda>r. (o_result r = Failure \<or> o_result r = Regressed) \<and>
              in_scope ws (o_workspace r)) (outcomes db))))"

definition PruneOlderThan_pg :: "instant \<Rightarrow> outcome_db \<Rightarrow> nat \<times> outcome_db" where
  "PruneOlderThan_pg cutoff db =
     (let old = map o_id (filter (\<lambda>r. o_created r < pg_ts cutoff) (outcomes db));
          db1 = db\<lparr>evaluations := filter (\<lambda>e. ev_outcome e \<notin> set old) (evaluations db)\<rparr>
      in (length (filter (\<lambda>r. o_created r < pg_ts cutoff) (outcomes db)),
          db1\<lparr>outcomes := filter (\<lambda>r. \<not> o_created r < pg_ts cutoff) (outcomes db1)\<rparr>))"

definition ExistsForEntity_pg :: "uuid option \<Rightarrow> string \<Rightarrow> uuid \<Rightarrow> outcome_db \<Rightarrow> bool" where
  "ExistsForEntity_pg ws et eid db = list_ex (of_entity ws et eid) (outcomes db)"

definition GetLatestForEntity_pg ::
  "uuid option \<Rightarrow> string \<Rightarrow> uuid \<Rightarrow> outcome_db \<Rightarrow> outcome_error + outcome" where
  "GetLatestForEntity_pg ws et eid db =
     (case pick_best newer (filter (of_entity ws et eid) (outcomes db)) of
        None \<Rightarrow> Inl ErrNotFound | Some r \<Rightarrow> Inr r)"

text \<open>The \<open>SET\<close> clause of \<open>FinalizeDraft\<close>, column by column, on the bound parameters.\<close>

definition finalize_set_pg :: "instant \<Rightarrow> json option \<Rightarrow> outcome_params \<Rightarrow> outcome \<Rightarrow> outcome" where
  "finalize_set_pg now m p r =
     (let newIDs = DedupeUUIDsPreserveOrder (p_rule_ids p)
      in r\<lparr>o_result := p_result p,
           o_metrics := (case m of None \<Rightarrow> o_metrics r
             | Some j \<Rightarrow> Some (jsonb_concat j
                 (case o_metrics r of None \<Rightarrow> JObj 0 [] | Some e \<Rightarrow> e))),
           o_notes := (if p_notes p = [] then o_notes r
             else take (max MaxNotesTotalRunes (length (o_notes r)))
                    (if o_notes r = [] then p_notes p else o_notes r @ nn @ p_notes p)),
           o_rule_ids := (if newIDs = [] then o_rule_ids r
             else take (max MaxRelatedRuleIDsTotal (length (o_rule_ids r)))
                    (o_rule_ids r @ filter (\<lambda>i. i \<notin> set (o_rule_ids r)) newIDs)),
           o_session := (case o_session r of None \<Rightarrow> p_session p | Some s \<Rightarrow> Some s),
           o_updated := pg_ts now\<rparr>)"

definition FinalizeDraft_pg ::
  "instant \<Rightarrow> uuid \<Rightarrow> outcome_params \<Rightarrow> outcome_db \<Rightarrow> outcome_error + outcome \<times> outcome_db" where
  "FinalizeDraft_pg now i p db =
     (case metrics_arg_pg (p_metrics p) of
        None \<Rightarrow> Inl ErrBadMetrics
      | Some m \<Rightarrow>
          (case first_row (draft_row i (p_workspace p)) (outcomes db) of
             None \<Rightarrow> Inl ErrDraftAlreadyFinalized
           | Some r \<Rightarrow>
               Inr (finalize_set_pg now m p r,
                    db\<lparr>outcomes := update_rows (draft_row i (p_workspace p))
                                     (finalize_set_pg now m p) (outcomes db)\<rparr>)))"

definition SeedDraft_pg ::
  "instant \<Rightarrow> uuid \<Rightarrow> uuid option \<Rightarrow> string \<Rightarrow> uuid \<Rightarrow> outcome_db
     \<Rightarrow> outcome_error + (outcome \<times> bool) \<times> outcome_db" where
  "SeedDraft_pg now nid ws et eid db =
     (case GetLatestForEntity_pg ws et eid db of
        Inr latest \<Rightarrow> Inr ((latest, False), db)
      | Inl ErrNotFound \<Rightarrow>
          (let r = \<lparr>o_id = nid, o_workspace = ws, o_entity_type = et, o_entity_id = eid,
                    o_result = Unknown, o_metrics = None, o_notes = [], o_rule_ids = [],
                    o_session = None, o_supersedes = None,
                    o_created = pg_ts now, o_updated = pg_ts now\<rparr>
           in if draft_conflict r db
              then (case GetLatestForEntity_pg ws et eid db of
                      Inl e \<Rightarrow> Inl e | Inr existing \<Rightarrow> Inr ((existing, False), db))
              else (case insert_outcome r db of
                      Inl e \<Rightarrow> Inl e | Inr (r', db') \<Rightarrow> Inr ((r', True), db')))
      | Inl e \<Rightarrow> Inl e)"

section \<open>The SQLite store\<close>

definition getByID_sq :: "uuid \<Rightarrow> outcome_db \<Rightarrow> outcome_error + outcome" where
  "getByID_sq i db =
     (case first_row (\<lambda>r. o_id r = i) (outcomes db) of None \<Rightarrow> Inl ErrNotFound | Some r \<Rightarrow> Inr r)"

definition CreateOutcome_sq ::
  "instant \<Rightarrow> uuid \<Rightarrow> outcome_params \<Rightarrow> outcome_db \<Rightarrow> outcome_error + outcome \<times> outcome_db" where
  "CreateOutcome_sq now nid p db =
     (case insert_outcome
          \<lparr>o_id = nid, o_workspace = p_workspace p, o_entity_type = p_entity_type p,
           o_entity_id = p_entity_id p, o_result = p_result p, o_metrics = p_metrics p,
           o_notes = p_notes p, o_rule_ids = p_rule_ids p, o_session = p_session p,
           o_supersedes = p_supersedes p, o_created = sq_ts now, o_updated = sq_ts now\<rparr> db of
        Inl e \<Rightarrow> Inl e
      | Inr (r, db') \<Rightarrow> (case getByID_sq nid db' of Inl e \<Rightarrow> Inl e | Inr r' \<Rightarrow> Inr (r', db')))"

definition GetOutcomeByID_sq :: "uuid \<Rightarrow> uuid option \<Rightarrow> outcome_db \<Rightarrow> outcome_error + outcome" where
  "GetOutcomeByID_sq i ws db =
     (case first_row (\<lambda>r. o_id r = i \<and> in_scope ws (o_workspace r)) (outcomes db) of
        None \<Rightarrow> Inl ErrNotFound | Some r \<Rightarrow> Inr r)"

definition ListRecentOutcomes_sq ::
  "uuid option \<Rightarrow> string \<Rightarrow> int \<Rightarrow> outcome_db \<Rightarrow> outcome list" where
  "ListRecentOutcomes_sq ws et limit db =
     (let limit' = (if limit \<le> 0 then 20 else limit)
      in take (nat limit') (sort_key (\<lambda>r. - o_created r)
           (filter (\<lambda>r. in_scope ws (o_workspace r) \<and> (et = [] \<or> o_entity_type r = et)) (outcomes db))))"

definition getEvalByID_sq :: "uuid \<Rightarrow> outcome_db \<Rightarrow> outcome_error + evaluation" where
  "getEvalByID_sq i db =
     (case first_row (\<lambda>e. ev_id e = i) (evaluations db) of None \<Rightarrow> Inl ErrNotFound | Some e \<Rightarrow> Inr e)"

definition CreateEvaluation_sq ::
  "instant \<Rightarrow> uuid \<Rightarrow> evaluation_params \<Rightarrow> outcome_db \<Rightarrow> outcome_error + evaluation \<times> outcome_db" where
  "CreateEvaluation_sq now nid p db =
     (let e = \<lparr>ev_id = nid, ev_workspace = ep_workspace p, ev_outcome = ep_outcome p,
               ev_analysis = ep_analysis p,
               ev_lessons = (if ep_lessons p = [] then lit ''[]'' else ep_lessons p),
               ev_suggestions = (if ep_suggestions p = [] then lit ''[]'' else ep_suggestions p),
               ev_created = sq_ts now\<rparr>
      in if nid \<in> set (map ev_id (evaluations db)) then Inl ErrUnique
         else let db' = db\<lparr>evaluations := evaluations db @ [e]\<rparr>
              in (case getEvalByID_sq nid db' of Inl err \<Rightarrow> Inl err | Inr e' \<Rightarrow> Inr (e', db')))"

definition ListEvaluationsByOutcomeID_sq ::
  "uuid \<Rightarrow> uuid option \<Rightarrow> outcome_db \<Rightarrow> evaluation list" where
  "ListEvaluationsByOutcomeID_sq i ws db =
     sort_key ev_created
       (filter (\<lambda>e. ev_outcome e = i \<and> in_scope ws (ev_workspace e)) (evaluations db))"

definition ListFailedOutcomes_sq :: "uuid option \<Rightarrow> int \<Rightarrow> outcome_db \<Rightarrow> outcome list" where
  "ListFailedOutcomes_sq ws limit db =
     (let limit' = (if limit \<le> 0 then 20 else limit)
      in take (nat limit') (sort_key (\<lambda>r. - o_created r)
           (filter (\<lambda>r. (o_result r = Failure \<or> o_result r = Regressed) \<and>
              in_scope ws (o_workspace r)) (outcomes db))))"

definition PruneOlderThan_sq :: "instant \<Rightarrow> outcome_db \<Rightarrow> nat \<times> outcome_db" where
  "PruneOlderThan_sq cutoff db =
     (let old = map o_id (filter (\<lambda>r. o_created r < sq_ts cutoff) (outcomes db));
          db1 = db\<lparr>evaluations := filter (\<lambda>e. ev_outcome e \<notin> set old) (evaluations db)\<rparr>
      in (length (filter (\<lambda>r. o_created r < sq_ts cutoff) (outcomes db)),
          db1\<lparr>outcomes := filter (\<lambda>r. \<not> o_created r < sq_ts cutoff) (outcomes db1)\<rparr>))"

definition ExistsForEntity_sq :: "uuid option \<Rightarrow> string \<Rightarrow> uuid \<Rightarrow> outcome_db \<Rightarrow> bool" where
  "ExistsForEntity_sq ws et eid db = list_ex (of_entity ws et eid) (outcomes db)"

definition GetLatestForEntity_sq ::
  "uuid option \<Rightarrow> string \<Rightarrow> uuid \<Rightarrow> outcome_db \<Rightarrow> outcome_error + outcome" where
  "GetLatestForEntity_sq ws et eid db =
     (case pick_best newer (filter (of_entity ws et eid) (outcomes db)) of
        None \<Rightarrow> Inl ErrNotFound | Some r \<Rightarrow> Inr r)"

text \<open>
  The values \<open>FinalizeDraft\<close> computes in Go from the row it read inside its serializable
  transaction, and the row its \<open>UPDATE\<close> writes.
\<close>

definition finalize_merge_sq ::
  "instant \<Rightarrow> outcome_params \<Rightarrow> outcome \<Rightarrow> outcome_error + outcome" where
  "finalize_merge_sq now p existing =
     (case mergeMetricsPreferExisting (o_metrics existing) (p_metrics p) of
        Inl e \<Rightarrow> Inl e
      | Inr mergedMetrics \<Rightarrow>
          (let mergedNotes = appendNotes (o_notes existing) (p_notes p);
               mergedRuleIDs = unionRelatedRuleIDs (o_rule_ids existing) (p_rule_ids p);
               cappedRuleIDs = CapRelatedRuleIDs (o_rule_ids existing) mergedRuleIDs MaxRelatedRuleIDsTotal;
               (cappedNotes, truncated) = CapNotesTotal (o_notes existing) mergedNotes MaxNotesTotalRunes;
               mergedNotes' = (if truncated then cappedNotes else mergedNotes);
               mergedSession = (case o_session existing of None \<Rightarrow> p_session p | Some s \<Rightarrow> Some s)
           in Inr (existing\<lparr>o_result := p_result p, o_metrics := mergedMetrics,
                 o_notes := mergedNotes', o_rule_ids := cappedRuleIDs,
                 o_session := mergedSession, o_updated := sq_ts now\<rparr>)))"

definition FinalizeDraft_sq ::
  "instant \<Rightarrow> uuid \<Rightarrow> outcome_params \<Rightarrow> outcome_db \<Rightarrow> outcome_error + outcome \<times> outcome_db" where
  "FinalizeDraft_sq now i p db =
     (case first_row (draft_row i (p_workspace p)) (outcomes db) of
        None \<Rightarrow> Inl ErrDraftAlreadyFinalized
      | Some existing \<Rightarrow>
          (case finalize_merge_sq now p existing of
             Inl e \<Rightarrow> Inl e
           | Inr r' \<Rightarrow>
               Inr (r', db\<lparr>outcomes :=
                 update_rows (draft_row i (p_workspace p)) (\<lambda>_. r') (outcomes db)\<rparr>)))"

definition SeedDraft_sq ::
  "instant \<Rightarrow> uuid \<Rightarrow> uuid option \<Rightarrow> string \<Rightarrow> uuid \<Rightarrow> outcome_db
     \<Rightarrow> outcome_error + (outcome \<times> bool) \<times> outcome_db" where
  "SeedDraft_sq now nid ws et eid db =
     (case GetLatestForEntity_sq ws et eid db of
        Inr latest \<Rightarrow> Inr ((latest, False), db)
      | Inl ErrNotFound \<Rightarrow>
          (let r = \<lparr>o_id = nid, o_workspace = ws, o_entity_type = et, o_entity_id = eid,
                    o_result = Unknown, o_metrics = None, o_notes = [], o_rule_ids = [],
                    o_session = None, o_supersedes = None,
                    o_created = sq_ts now, o_updated = sq_ts now\<rparr>
           in if draft_conflict r db
              then (case GetLatestForEntity_sq ws et eid db of
                      Inl e \<Rightarrow> Inl e | Inr existing \<Rightarrow> Inr ((existing, False), db))
              else (case insert_outcome r db of
                      Inl e \<Rightarrow> Inl e
                    | Inr (_, db') \<Rightarrow>
                        (case getByID_sq nid db' of
                           Inl e \<Rightarrow> Inl e | Inr created \<Rightarrow> Inr ((created, True), db'))))
      | Inl e \<Rightarrow> Inl e)"

end
