(* ===== verification/Outcome_Interface.thy ===== *)
theory Outcome_Interface
  imports Outcome_Laws
begin

text \<open>
  The contract of \<open>outcome.StoreIface\<close> towards the lifecycle orchestration, as the locale
  \<open>outcome_store\<close>: what \<open>GetLatestForEntity\<close>, \<open>CreateOutcome\<close> and \<open>FinalizeDraft\<close> promise
  on a database that satisfies the table invariant.  Inside it: the invariant is kept, and
  a write is append-only.  The locale is interpreted on both backends, \<open>pg\<close> and \<open>sq\<close>.
\<close>

section \<open>The table invariant\<close>

text \<open>What the MCP boundary guarantees of a call's parameters (\<open>parseRecordOutcomeArgs\<close>).\<close>

definition params_ok :: "outcome_params \<Rightarrow> bool" where
  "params_ok p \<longleftrightarrow> distinct (p_rule_ids p) \<and> object_doc (p_metrics p)"

definition row_ok :: "outcome \<Rightarrow> bool" where
  "row_ok r \<longleftrightarrow> distinct (o_rule_ids r) \<and> object_doc (o_metrics r)"

text \<open>The columns of the partial unique index \<open>idx_outcomes_one_open_draft\<close>.\<close>

definition index_key :: "outcome \<Rightarrow> uuid \<times> string \<times> uuid" where
  "index_key r = (draft_key (o_workspace r), o_entity_type r, o_entity_id r)"

definition drafts :: "outcome list \<Rightarrow> outcome list" where
  "drafts rs = filter (\<lambda>r. o_result r = Unknown) rs"

definition outcome_inv :: "outcome_db \<Rightarrow> bool" where
  "outcome_inv db \<longleftrightarrow> distinct (map o_id (outcomes db)) \<and>
     distinct (map index_key (drafts (outcomes db))) \<and> (\<forall>r \<in> set (outcomes db). row_ok r)"

lemma outcome_invD:
  assumes "outcome_inv db"
  shows "distinct (map o_id (outcomes db))" "distinct (map index_key (drafts (outcomes db)))"
    "r \<in> set (outcomes db) \<Longrightarrow> row_ok r"
  using assms by (auto simp: outcome_inv_def)

lemma outcome_inv_unique:
  "outcome_inv db \<Longrightarrow> r \<in> set (outcomes db) \<Longrightarrow> r' \<in> set (outcomes db) \<Longrightarrow> o_id r = o_id r' \<Longrightarrow> r = r'"
  by (rule distinct_map_unique [OF outcome_invD(1)])

lemma open_draft_index: "open_draft (o_workspace r) (o_entity_type r) (o_entity_id r) x \<longleftrightarrow>
    o_result x = Unknown \<and> index_key x = index_key r"
  by (auto simp: open_draft_def index_key_def)

lemma draft_conflict_index: "draft_conflict r db \<longleftrightarrow>
    o_result r = Unknown \<and> index_key r \<in> set (map index_key (drafts (outcomes db)))"
  by (auto simp: draft_conflict_def open_draft_index drafts_def list_ex_iff image_iff)

text \<open>Replacing the row with a given id.\<close>

definition replace_row :: "uuid \<Rightarrow> outcome \<Rightarrow> outcome list \<Rightarrow> outcome list" where
  "replace_row i r' rs = map (\<lambda>x. if o_id x = i then r' else x) rs"

lemma replace_row_ids: "o_id r' = i \<Longrightarrow> map o_id (replace_row i r' rs) = map o_id rs"
  by (induction rs) (auto simp: replace_row_def)

lemma set_replace_row:
  "x \<in> set (replace_row i r' rs) \<Longrightarrow> x = r' \<or> (x \<in> set rs \<and> o_id x \<noteq> i)"
  by (auto simp: replace_row_def)

lemma replace_row_fresh: "i \<notin> o_id ` set rs \<Longrightarrow> replace_row i r' rs = rs"
  by (induction rs) (auto simp: replace_row_def)

lemma replace_row_drafts:
  assumes "distinct (map o_id rs)" "r \<in> set rs" "o_id r = i" "o_id r' = i" "index_key r' = index_key r"
    "o_result r = Unknown" "distinct (map index_key (drafts rs))"
  shows "distinct (map index_key (drafts (replace_row i r' rs))) \<and>
         set (map index_key (drafts (replace_row i r' rs))) \<subseteq> set (map index_key (drafts rs))"
  using assms
proof (induction rs)
  case Nil
  then show ?case by simp
next
  case (Cons x rs)
  show ?case
  proof (cases "o_id x = i")
    case True
    with Cons.prems have "x = r" by (auto simp: image_iff)
    moreover have "replace_row i r' rs = rs"
      using Cons.prems True by (intro replace_row_fresh) auto
    ultimately show ?thesis
      using Cons.prems by (auto simp: drafts_def replace_row_def)
  next
    case False
    with Cons.prems have "r \<in> set rs" by auto
    with Cons.prems have "distinct (map index_key (drafts (replace_row i r' rs))) \<and>
         set (map index_key (drafts (replace_row i r' rs))) \<subseteq> set (map index_key (drafts rs))"
      by (intro Cons.IH) (auto simp: drafts_def split: if_splits)
    with False Cons.prems(7) show ?thesis
      by (auto simp: drafts_def replace_row_def split: if_splits)
  qed
qed

lemma update_rows_replace:
  assumes "distinct (map o_id rs)" "r \<in> set rs" "draft_row i ws r" "f r = r'"
  shows "update_rows (draft_row i ws) f rs = replace_row i r' rs"
  using assms
proof (induction rs)
  case Nil
  then show ?case by simp
next
  case (Cons x rs)
  show ?case
  proof (cases "o_id x = i")
    case True
    with Cons.prems have x: "x = r" by (auto simp: image_iff draft_row_def)
    with Cons.prems True have fresh: "i \<notin> o_id ` set rs" by auto
    then have "update_rows (draft_row i ws) f rs = rs"
      by (intro update_rows_id) (auto simp: draft_row_def)
    with fresh x Cons.prems True show ?thesis
      using replace_row_fresh [OF fresh] by (simp add: replace_row_def)
  next
    case False
    with Cons.prems have "r \<in> set rs" by (auto simp: draft_row_def)
    with Cons False show ?thesis by (simp add: replace_row_def draft_row_def)
  qed
qed

section \<open>The contract\<close>

text \<open>The row a \<open>CreateOutcome\<close> call adds, up to the layout of its metrics document.\<close>

definition created_from :: "instant \<Rightarrow> uuid \<Rightarrow> outcome_params \<Rightarrow> outcome \<Rightarrow> bool" where
  "created_from ts nid p r \<longleftrightarrow> o_id r = nid \<and> o_workspace r = p_workspace p \<and>
     o_entity_type r = p_entity_type p \<and> o_entity_id r = p_entity_id p \<and> o_result r = p_result p \<and>
     o_notes r = p_notes p \<and> o_rule_ids r = p_rule_ids p \<and> o_session r = p_session p \<and>
     o_supersedes r = p_supersedes p \<and> o_created r = ts \<and>
     (params_ok p \<longrightarrow> row_ok r \<and> json_lookup (o_metrics r) = json_lookup (p_metrics p))"

definition merge_of :: "instant \<Rightarrow> outcome_params \<Rightarrow> outcome \<Rightarrow> outcome \<Rightarrow> bool" where
  "merge_of ts p r r' \<longleftrightarrow> (\<exists>mm. r' = merged_row ts mm p r \<and> object_doc mm \<and>
     json_lookup mm = json_lookup (p_metrics p) ++ json_lookup (o_metrics r))"

lemma merge_of_extends: "row_ok r \<Longrightarrow> merge_of ts p r r' \<Longrightarrow> extends r r'"
  by (auto simp: merge_of_def row_ok_def intro!: extends_merged_row)

lemma merge_of_fields:
  assumes "merge_of ts p r r'"
  shows "o_id r' = o_id r" "o_workspace r' = o_workspace r" "o_entity_type r' = o_entity_type r"
    "o_entity_id r' = o_entity_id r" "o_result r' = p_result p" "o_created r' = o_created r"
    "o_supersedes r' = o_supersedes r" "index_key r' = index_key r"
  using assms by (auto simp: merge_of_def index_key_def)

lemma merge_of_row_ok: "row_ok r \<Longrightarrow> merge_of ts p r r' \<Longrightarrow> row_ok r'"
  by (auto simp: merge_of_def row_ok_def merged_row_distinct)

locale outcome_store =
  fixes clock :: "instant \<Rightarrow> instant"
    and latest :: "uuid option \<Rightarrow> string \<Rightarrow> uuid \<Rightarrow> outcome_db \<Rightarrow> outcome_error + outcome"
    and create :: "instant \<Rightarrow> uuid \<Rightarrow> outcome_params \<Rightarrow> outcome_db \<Rightarrow> outcome_error + outcome \<times> outcome_db"
    and finalize :: "instant \<Rightarrow> uuid \<Rightarrow> outcome_params \<Rightarrow> outcome_db \<Rightarrow> outcome_error + outcome \<times> outcome_db"
  assumes latest_Inr: "latest ws et eid db = Inr r \<Longrightarrow> r \<in> set (outcomes db) \<and> of_entity ws et eid r \<and>
        (\<forall>r' \<in> set (outcomes db). of_entity ws et eid r' \<longrightarrow> newer r r')"
    and latest_Inl: "latest ws et eid db = Inl e \<Longrightarrow>
        e = ErrNotFound \<and> (\<forall>r' \<in> set (outcomes db). \<not> of_entity ws et eid r')"
    and create_Inr: "create now nid p db = Inr (r, db') \<Longrightarrow>
        db' = db\<lparr>outcomes := outcomes db @ [r]\<rparr> \<and> created_from (clock now) nid p r \<and>
        nid \<notin> o_id ` set (outcomes db) \<and> \<not> draft_conflict r db"
    and create_Inl: "create now nid p db = Inl e \<Longrightarrow> params_ok p \<Longrightarrow> e = ErrUnique \<and>
        (nid \<in> o_id ` set (outcomes db) \<or>
         (p_result p = Unknown \<and>
          (\<exists>x \<in> set (outcomes db). open_draft (p_workspace p) (p_entity_type p) (p_entity_id p) x)))"
    and finalize_Inr: "finalize now i p db = Inr (r', db') \<Longrightarrow> outcome_inv db \<Longrightarrow> params_ok p \<Longrightarrow>
        (\<exists>r \<in> set (outcomes db). draft_row i (p_workspace p) r \<and> merge_of (clock now) p r r') \<and>
        db' = db\<lparr>outcomes := replace_row i r' (outcomes db)\<rparr>"
    and finalize_Inl: "finalize now i p db = Inl e \<Longrightarrow> outcome_inv db \<Longrightarrow> params_ok p \<Longrightarrow>
        e = ErrDraftAlreadyFinalized \<and> (\<forall>r \<in> set (outcomes db). \<not> draft_row i (p_workspace p) r)"
begin

lemma create_keeps:
  assumes "create now nid p db = Inr (r, db')" and "outcome_inv db" and "params_ok p"
  shows "outcome_inv db'"
  using create_Inr [OF assms(1)] assms(2,3)
  by (auto simp: outcome_inv_def created_from_def draft_conflict_index drafts_def)

lemma finalize_keeps:
  assumes "finalize now i p db = Inr (r', db')" and "outcome_inv db" and "params_ok p"
  shows "outcome_inv db'"
proof -
  from finalize_Inr [OF assms] obtain r where r: "r \<in> set (outcomes db)"
    "draft_row i (p_workspace p) r" "merge_of (clock now) p r r'"
    and db': "db' = db\<lparr>outcomes := replace_row i r' (outcomes db)\<rparr>" by blast
  note f = merge_of_fields [OF r(3)]
  have "row_ok r'" using merge_of_row_ok outcome_invD(3) [OF assms(2) r(1)] r(3) by blast
  moreover have "distinct (map index_key (drafts (replace_row i r' (outcomes db))))"
    using replace_row_drafts [of "outcomes db" r i r'] r f outcome_invD(1,2) [OF assms(2)]
    by (simp add: draft_row_def)
  ultimately show ?thesis
    using db' f(1) r(2) outcome_invD [OF assms(2)] set_replace_row
    by (fastforce simp: outcome_inv_def replace_row_ids draft_row_def)
qed

text \<open>Every stored row survives a write: a terminal row verbatim, a draft extended.\<close>

lemma finalize_rows:
  assumes "finalize now i p db = Inr (r', db')" and "outcome_inv db" and "params_ok p"
    and "x \<in> set (outcomes db)"
  shows "\<exists>y \<in> set (outcomes db'). extends x y \<and> (o_id x \<noteq> i \<longrightarrow> y = x) \<and> (o_result x \<noteq> Unknown \<longrightarrow> y = x)"
proof -
  from finalize_Inr [OF assms(1-3)] obtain r where r: "r \<in> set (outcomes db)"
    "draft_row i (p_workspace p) r" "merge_of (clock now) p r r'"
    and db': "db' = db\<lparr>outcomes := replace_row i r' (outcomes db)\<rparr>" by blast
  show ?thesis
  proof (cases "o_id x = i")
    case True
    with r(1,2) assms(2,4) have "x = r" by (auto simp: draft_row_def intro: outcome_inv_unique)
    moreover have "r' \<in> set (outcomes db')"
      using db' True assms(4) by (force simp: replace_row_def)
    ultimately show ?thesis
      using merge_of_extends [OF outcome_invD(3) [OF assms(2) r(1)] r(3)] r(2) True
      by (auto simp: draft_row_def)
  next
    case False
    with db' assms(4) have "x \<in> set (outcomes db')" by (force simp: replace_row_def)
    with False show ?thesis by auto
  qed
qed

lemma create_rows: "create now nid p db = Inr (r, db') \<Longrightarrow> x \<in> set (outcomes db) \<Longrightarrow> x \<in> set (outcomes db')"
  by (drule create_Inr) auto

lemma finalize_result: "finalize now i p db = Inr (r', db') \<Longrightarrow> outcome_inv db \<Longrightarrow> params_ok p \<Longrightarrow>
    r' \<in> set (outcomes db') \<and> o_id r' = i \<and> o_result r' = p_result p \<and> length (outcomes db') = length (outcomes db)"
  by (drule (2) finalize_Inr) (auto simp: replace_row_def draft_row_def merge_of_fields image_iff)

end

section \<open>The two stores keep it\<close>

lemma newer_trans: "newer x y \<Longrightarrow> newer y z \<Longrightarrow> newer x z"
  by (auto simp: newer_def)

lemma newer_total: "\<not> newer x y \<Longrightarrow> newer y x"
  by (auto simp: newer_def)

lemma latest_pg_Inr:
  "GetLatestForEntity_pg ws et eid db = Inr r \<Longrightarrow> r \<in> set (outcomes db) \<and> of_entity ws et eid r \<and>
     (\<forall>r' \<in> set (outcomes db). of_entity ws et eid r' \<longrightarrow> newer r r')"
  using pick_best_mem [of newer "filter (of_entity ws et eid) (outcomes db)" r]
    pick_best_top [of newer "filter (of_entity ws et eid) (outcomes db)" r, OF _ _ newer_trans newer_total]
  by (auto simp: GetLatestForEntity_pg_def split: option.splits)

lemma latest_pg_Inl: "GetLatestForEntity_pg ws et eid db = Inl e \<Longrightarrow>
    e = ErrNotFound \<and> (\<forall>r' \<in> set (outcomes db). \<not> of_entity ws et eid r')"
  by (auto simp: GetLatestForEntity_pg_def filter_empty_conv split: option.splits)

lemma latest_sq_pg: "GetLatestForEntity_sq = GetLatestForEntity_pg"
  by (simp add: fun_eq_iff GetLatestForEntity_pg_def GetLatestForEntity_sq_def)

lemma jsonb_object: "object_doc m \<Longrightarrow> metrics_arg_pg m = Some m' \<Longrightarrow>
    object_doc m' \<and> json_lookup m' = json_lookup m"
  by (auto simp: metrics_arg_pg_def map_of_rev_distinct elim!: object_docE)

lemma metrics_arg_object: "object_doc m \<Longrightarrow> metrics_arg_pg m \<noteq> None"
  by (auto simp: metrics_arg_pg_def elim!: object_docE)

lemma insert_outcome_Inr: "insert_outcome r db = Inr (r', db') \<Longrightarrow>
    r' = r \<and> db' = db\<lparr>outcomes := outcomes db @ [r]\<rparr> \<and> o_id r \<notin> o_id ` set (outcomes db) \<and>
    \<not> draft_conflict r db"
  by (auto simp: insert_outcome_def split: if_splits)

lemma insert_outcome_Inl: "insert_outcome r db = Inl e \<Longrightarrow>
    e = ErrUnique \<and> (o_id r \<in> o_id ` set (outcomes db) \<or> draft_conflict r db)"
  by (auto simp: insert_outcome_def split: if_splits)

lemma getByID_sq_inserted:
  "o_id r \<notin> o_id ` set rs \<Longrightarrow> getByID_sq (o_id r) (db\<lparr>outcomes := rs @ [r]\<rparr>) = Inr r"
proof -
  assume "o_id r \<notin> o_id ` set rs"
  then have "List.find (\<lambda>x. o_id x = o_id r) (rs @ [r]) = Some r"
    by (induction rs) auto
  then show ?thesis by (simp add: getByID_sq_def first_row_def)
qed

lemma CreateOutcome_sq_insert:
  "CreateOutcome_sq now nid p db = insert_outcome
     \<lparr>o_id = nid, o_workspace = p_workspace p, o_entity_type = p_entity_type p,
      o_entity_id = p_entity_id p, o_result = p_result p, o_metrics = p_metrics p,
      o_notes = p_notes p, o_rule_ids = p_rule_ids p, o_session = p_session p,
      o_supersedes = p_supersedes p, o_created = sq_ts now, o_updated = sq_ts now\<rparr> db"
  (is "_ = insert_outcome ?r db")
proof (cases "insert_outcome ?r db")
  case (Inl e)
  then show ?thesis by (simp add: CreateOutcome_sq_def)
next
  case (Inr q)
  then obtain r' db' where q: "q = (r', db')" by (cases q)
  with Inr insert_outcome_Inr [of ?r db r' db']
  have "r' = ?r" "db' = db\<lparr>outcomes := outcomes db @ [?r]\<rparr>" "nid \<notin> o_id ` set (outcomes db)" by auto
  with q Inr getByID_sq_inserted [of ?r "outcomes db" db] show ?thesis
    by (simp add: CreateOutcome_sq_def)
qed

lemma create_pg_Inr: "CreateOutcome_pg now nid p db = Inr (r, db') \<Longrightarrow>
    db' = db\<lparr>outcomes := outcomes db @ [r]\<rparr> \<and> created_from (pg_ts now) nid p r \<and>
    nid \<notin> o_id ` set (outcomes db) \<and> \<not> draft_conflict r db"
  by (auto simp: CreateOutcome_pg_def created_from_def params_ok_def row_ok_def jsonb_object
      split: option.splits dest!: insert_outcome_Inr)

lemma create_pg_Inl: "CreateOutcome_pg now nid p db = Inl e \<Longrightarrow> params_ok p \<Longrightarrow> e = ErrUnique \<and>
    (nid \<in> o_id ` set (outcomes db) \<or> (p_result p = Unknown \<and>
      (\<exists>x \<in> set (outcomes db). open_draft (p_workspace p) (p_entity_type p) (p_entity_id p) x)))"
  using metrics_arg_object [of "p_metrics p"]
  by (auto simp: CreateOutcome_pg_def params_ok_def draft_conflict_def list_ex_iff
      split: option.splits dest!: insert_outcome_Inl)

lemma create_sq_Inr: "CreateOutcome_sq now nid p db = Inr (r, db') \<Longrightarrow>
    db' = db\<lparr>outcomes := outcomes db @ [r]\<rparr> \<and> created_from (sq_ts now) nid p r \<and>
    nid \<notin> o_id ` set (outcomes db) \<and> \<not> draft_conflict r db"
  by (auto simp: CreateOutcome_sq_insert created_from_def params_ok_def row_ok_def
      dest!: insert_outcome_Inr)

lemma create_sq_Inl: "CreateOutcome_sq now nid p db = Inl e \<Longrightarrow> params_ok p \<Longrightarrow> e = ErrUnique \<and>
    (nid \<in> o_id ` set (outcomes db) \<or> (p_result p = Unknown \<and>
      (\<exists>x \<in> set (outcomes db). open_draft (p_workspace p) (p_entity_type p) (p_entity_id p) x)))"
  by (auto simp: CreateOutcome_sq_insert draft_conflict_def list_ex_iff dest!: insert_outcome_Inl)

lemma finalize_pg_Inr:
  assumes "FinalizeDraft_pg now i p db = Inr (r', db')" and "outcome_inv db" and "params_ok p"
  shows "(\<exists>r \<in> set (outcomes db). draft_row i (p_workspace p) r \<and> merge_of (pg_ts now) p r r') \<and>
         db' = db\<lparr>outcomes := replace_row i r' (outcomes db)\<rparr>"
proof -
  from assms(1) obtain m r where m: "metrics_arg_pg (p_metrics p) = Some m"
    and fr: "first_row (draft_row i (p_workspace p)) (outcomes db) = Some r"
    and r': "r' = finalize_set_pg now m p r"
    and db': "db' = db\<lparr>outcomes := update_rows (draft_row i (p_workspace p))
                        (finalize_set_pg now m p) (outcomes db)\<rparr>"
    by (auto simp: FinalizeDraft_pg_def split: option.splits)
  from first_row_Some [OF fr] have r: "r \<in> set (outcomes db)" "draft_row i (p_workspace p) r" by auto
  from outcome_invD(3) [OF assms(2) r(1)] have "distinct (o_rule_ids r)" "object_doc (o_metrics r)"
    by (auto simp: row_ok_def)
  with metrics_pg_objects [of "o_metrics r" "p_metrics p"] assms(3) m r'
  have "merge_of (pg_ts now) p r r'"
    by (auto simp: merge_of_def params_ok_def finalize_set_pg_merged)
  with r db' r' update_rows_replace [OF outcome_invD(1) [OF assms(2)] r] show ?thesis by auto
qed

lemma finalize_pg_Inl: "FinalizeDraft_pg now i p db = Inl e \<Longrightarrow> outcome_inv db \<Longrightarrow> params_ok p \<Longrightarrow>
    e = ErrDraftAlreadyFinalized \<and> (\<forall>r \<in> set (outcomes db). \<not> draft_row i (p_workspace p) r)"
  using metrics_arg_object [of "p_metrics p"]
  by (auto simp: FinalizeDraft_pg_def params_ok_def first_row_None split: option.splits)

lemma finalize_sq_Inr:
  assumes "FinalizeDraft_sq now i p db = Inr (r', db')" and "outcome_inv db" and "params_ok p"
  shows "(\<exists>r \<in> set (outcomes db). draft_row i (p_workspace p) r \<and> merge_of (sq_ts now) p r r') \<and>
         db' = db\<lparr>outcomes := replace_row i r' (outcomes db)\<rparr>"
proof -
  from assms(1) obtain r where fr: "first_row (draft_row i (p_workspace p)) (outcomes db) = Some r"
    and r': "finalize_merge_sq now p r = Inr r'"
    and db': "db' = db\<lparr>outcomes := update_rows (draft_row i (p_workspace p)) (\<lambda>_. r') (outcomes db)\<rparr>"
    by (auto simp: FinalizeDraft_sq_def split: option.splits sum.splits)
  from first_row_Some [OF fr] have r: "r \<in> set (outcomes db)" "draft_row i (p_workspace p) r" by auto
  from outcome_invD(3) [OF assms(2) r(1)] have "object_doc (o_metrics r)"
    by (auto simp: row_ok_def)
  with mergeMetrics_objects [of "o_metrics r" "p_metrics p"] assms(3) r'
  have "merge_of (sq_ts now) p r r'"
    by (auto simp: merge_of_def params_ok_def finalize_merge_sq_merged)
  with r db' update_rows_replace [OF outcome_invD(1) [OF assms(2)] r, of "\<lambda>_. r'"] show ?thesis by auto
qed

lemma finalize_sq_Inl:
  assumes "FinalizeDraft_sq now i p db = Inl e" and "outcome_inv db" and "params_ok p"
  shows "e = ErrDraftAlreadyFinalized \<and> (\<forall>r \<in> set (outcomes db). \<not> draft_row i (p_workspace p) r)"
proof (cases "first_row (draft_row i (p_workspace p)) (outcomes db)")
  case None
  with assms(1) show ?thesis by (auto simp: FinalizeDraft_sq_def first_row_None)
next
  case (Some r)
  then have "object_doc (o_metrics r)"
    using first_row_Some outcome_invD(3) [OF assms(2)] by (fastforce simp: row_ok_def)
  with Some assms(1,3) mergeMetrics_objects [of "o_metrics r" "p_metrics p"] show ?thesis
    by (auto simp: FinalizeDraft_sq_def params_ok_def finalize_merge_sq_merged)
qed

lemmas pg_laws = latest_pg_Inr latest_pg_Inl create_pg_Inr create_pg_Inl finalize_pg_Inr finalize_pg_Inl
lemmas sq_laws = latest_pg_Inr latest_pg_Inl create_sq_Inr create_sq_Inl finalize_sq_Inr finalize_sq_Inl

interpretation pg: outcome_store pg_ts GetLatestForEntity_pg CreateOutcome_pg FinalizeDraft_pg
  by unfold_locales (blast dest: pg_laws)+

interpretation sq: outcome_store sq_ts GetLatestForEntity_sq CreateOutcome_sq FinalizeDraft_sq
  unfolding latest_sq_pg by unfold_locales (blast dest: sq_laws)+

end
