(* ===== verification/Outcome_Lifecycle.thy ===== *)
theory Outcome_Lifecycle
  imports Outcome_Interface
begin

text \<open>
  \<open>internal/outcome/lifecycle.go\<close>: \<open>RecordExecutionResult\<close>, the single convergence point of
  \<open>record_outcome\<close> and \<open>finish_work\<close>, with its predicates.  The store is a record of the
  three operations the code calls; \<open>env\<close> is what other callers do to the database between
  the statements of this call (\<open>\<lambda>k s. s\<close>: nobody interferes).
\<close>

section \<open>What counts as new\<close>

datatype LifecycleAction =
    ActionCreated
  | ActionFinalizedDraft
  | ActionSuperseded
  | ActionReplayedIdempotent
  | ActionDraftPreserved
  | ActionDraftEnriched

definition hasNewContent :: "outcome_params \<Rightarrow> bool" where
  "hasNewContent params \<longleftrightarrow>
     p_notes params \<noteq> [] \<or> p_metrics params \<noteq> None \<or> p_rule_ids params \<noteq> [] \<or> p_session params \<noteq> None"

text \<open>\<open>strings.Split(s, "\<close>\<open>\\n\\n\<close>\<open>")\<close>, left to right.\<close>

fun split_nn :: "ustr \<Rightarrow> ustr \<Rightarrow> ustr list" where
  "split_nn acc [] = [rev acc]"
| "split_nn acc [c] = [rev (c # acc)]"
| "split_nn acc (c # d # s) =
     (if c = 10 \<and> d = 10 then rev acc # split_nn [] s else split_nn (c # acc) (d # s))"

definition notesHasNewContent :: "ustr \<Rightarrow> ustr \<Rightarrow> bool" where
  "notesHasNewContent existing incoming =
     (if incoming = [] then False
      else if existing = [] then True
      else if existing = incoming then False
      else incoming \<notin> set (split_nn [] existing))"

definition metricsHasNewKey :: "json option \<Rightarrow> json option \<Rightarrow> bool" where
  "metricsHasNewKey existing incoming =
     (case incoming of
        None \<Rightarrow> False
      | Some inc \<Rightarrow>
          (case unmarshal_object inc of
             None \<Rightarrow> True
           | Some incomingMap \<Rightarrow>
               (let existingMap = (case existing of None \<Rightarrow> [] | Some ex \<Rightarrow>
                      (case unmarshal_object ex of None \<Rightarrow> [] | Some m \<Rightarrow> m))
                in list_ex (\<lambda>k. k \<notin> set (map fst existingMap)) (map fst incomingMap))))"

definition relatedRuleIDsHasNew :: "uuid list \<Rightarrow> uuid list \<Rightarrow> bool" where
  "relatedRuleIDsHasNew existing incoming = list_ex (\<lambda>i. i \<notin> set existing) incoming"

definition workSessionIDHasNew :: "uuid option \<Rightarrow> uuid option \<Rightarrow> bool" where
  "workSessionIDHasNew existing incoming \<longleftrightarrow> incoming \<noteq> None \<and> existing = None"

definition workSessionIDDiffers :: "uuid option \<Rightarrow> uuid option \<Rightarrow> bool" where
  "workSessionIDDiffers existing incoming =
     (case incoming of None \<Rightarrow> False | Some i \<Rightarrow> existing = None \<or> existing \<noteq> Some i)"

definition isIdempotentReplay :: "outcome \<Rightarrow> outcome_params \<Rightarrow> bool" where
  "isIdempotentReplay latest params =
     (if o_result latest \<noteq> p_result params then False
      else if o_notes latest \<noteq> p_notes params then False
      else if o_metrics latest \<noteq> p_metrics params then False
      else if relatedRuleIDsHasNew (o_rule_ids latest) (p_rule_ids params) then False
      else \<not> workSessionIDDiffers (o_session latest) (p_session params))"

definition isDraftIdempotentReplay :: "outcome \<Rightarrow> outcome_params \<Rightarrow> bool" where
  "isDraftIdempotentReplay latest params \<longleftrightarrow>
     \<not> notesHasNewContent (o_notes latest) (p_notes params) \<and>
     \<not> metricsHasNewKey (o_metrics latest) (p_metrics params) \<and>
     \<not> relatedRuleIDsHasNew (o_rule_ids latest) (p_rule_ids params) \<and>
     \<not> workSessionIDHasNew (o_session latest) (p_session params)"

section \<open>RecordExecutionResult\<close>

record store_iface =
  si_clock :: "instant \<Rightarrow> instant"
  si_latest :: "uuid option \<Rightarrow> string \<Rightarrow> uuid \<Rightarrow> outcome_db \<Rightarrow> outcome_error + outcome"
  si_create :: "instant \<Rightarrow> uuid \<Rightarrow> outcome_params \<Rightarrow> outcome_db \<Rightarrow> outcome_error + outcome \<times> outcome_db"
  si_finalize :: "instant \<Rightarrow> uuid \<Rightarrow> outcome_params \<Rightarrow> outcome_db \<Rightarrow> outcome_error + outcome \<times> outcome_db"

definition pg_store :: store_iface where
  "pg_store = \<lparr>si_clock = pg_ts, si_latest = GetLatestForEntity_pg,
     si_create = CreateOutcome_pg, si_finalize = FinalizeDraft_pg\<rparr>"

definition sq_store :: store_iface where
  "sq_store = \<lparr>si_clock = sq_ts, si_latest = GetLatestForEntity_sq,
     si_create = CreateOutcome_sq, si_finalize = FinalizeDraft_sq\<rparr>"

definition supersede_params :: "outcome \<Rightarrow> outcome_params \<Rightarrow> outcome_params" where
  "supersede_params latest params =
     (let merged = DedupeUUIDsPreserveOrder (o_rule_ids latest @ p_rule_ids params)
      in params\<lparr>p_supersedes := Some (o_id latest),
                p_rule_ids := CapRelatedRuleIDs (o_rule_ids latest) merged MaxRelatedRuleIDsTotal\<rparr>)"

type_synonym record_result = "outcome_error + outcome \<times> LifecycleAction \<times> ustr"

definition maxFinalizeDraftRetries :: nat where
  "maxFinalizeDraftRetries = 3"

text \<open>
  The \<open>for\<close> loop; the counter is the number of attempts left.  \<open>env\<close> runs before each read
  (index \<open>2 * k + 1\<close>) and between the read and the write (index \<open>2 * k\<close>).  Exhausting the
  loop is \<open>ErrRetriesExceeded\<close>, which wraps \<open>ErrDraftAlreadyFinalized\<close> in the code.
\<close>

fun record_loop :: "store_iface \<Rightarrow> (nat \<Rightarrow> outcome_db \<Rightarrow> outcome_db) \<Rightarrow> (nat \<Rightarrow> instant) \<Rightarrow> uuid
    \<Rightarrow> outcome_params \<Rightarrow> nat \<Rightarrow> outcome_db \<Rightarrow> record_result \<times> outcome_db" where
  "record_loop si env now nid params 0 s = (Inl ErrRetriesExceeded, s)"
| "record_loop si env now nid params (Suc k) s =
     (let s0 = env (2 * k + 1) s; s1 = env (2 * k) s0 in
      case si_latest si (p_workspace params) (p_entity_type params) (p_entity_id params) s0 of
        Inl ErrNotFound \<Rightarrow>
          (case si_create si (now k) nid params s1 of
             Inl e \<Rightarrow> (Inl e, s1)
           | Inr (r, s2) \<Rightarrow> (Inr (r, ActionCreated, []), s2))
      | Inl e \<Rightarrow> (Inl e, s0)
      | Inr latest \<Rightarrow>
          if o_result latest = Unknown then
            if p_result params = Unknown \<and> \<not> hasNewContent params
            then (Inr (latest, ActionDraftPreserved, o_notes latest), s0)
            else if p_result params = Unknown \<and> isDraftIdempotentReplay latest params
            then (Inr (latest, ActionReplayedIdempotent, o_notes latest), s0)
            else
              (let action = (if p_result params = Unknown then ActionDraftEnriched
                             else ActionFinalizedDraft) in
               case si_finalize si (now k) (o_id latest) params s1 of
                 Inl ErrDraftAlreadyFinalized \<Rightarrow> record_loop si env now nid params k s1
               | Inl e \<Rightarrow> (Inl e, s1)
               | Inr (finalized, s2) \<Rightarrow> (Inr (finalized, action, o_notes latest), s2))
          else if isIdempotentReplay latest params
          then (Inr (latest, ActionReplayedIdempotent, o_notes latest), s0)
          else
            (case si_create si (now k) nid (supersede_params latest params) s1 of
               Inl e \<Rightarrow> (Inl e, s1)
             | Inr (r, s2) \<Rightarrow> (Inr (r, ActionSuperseded, []), s2)))"

definition RecordExecutionResult ::
  "store_iface \<Rightarrow> (nat \<Rightarrow> outcome_db \<Rightarrow> outcome_db) \<Rightarrow> (nat \<Rightarrow> instant) \<Rightarrow> uuid
     \<Rightarrow> outcome_params \<Rightarrow> outcome_db \<Rightarrow> record_result \<times> outcome_db" where
  "RecordExecutionResult si env now nid params s =
     record_loop si env now nid params maxFinalizeDraftRetries s"

text \<open>The environment of a call nobody interferes with.\<close>

definition alone :: "nat \<Rightarrow> outcome_db \<Rightarrow> outcome_db" where
  "alone k s = s"

lemma alone_simp [simp]: "alone k s = s"
  by (simp add: alone_def)

section \<open>The predicates say whether the merge would change the row\<close>

lemma relatedRuleIDsHasNew_iff: "relatedRuleIDsHasNew ex inc \<longleftrightarrow> \<not> set inc \<subseteq> set ex"
  by (auto simp: relatedRuleIDsHasNew_def list_ex_iff)

lemma unmarshal_object_dom: "object_doc (Some j) \<Longrightarrow>
    \<exists>m. unmarshal_object j = Some m \<and> distinct (map fst m) \<and> map_of m = json_lookup (Some j)"
  by (auto simp: unmarshal_object_def elim!: object_docE)

lemma new_key_iff:
  "list_ex (\<lambda>k. k \<notin> set (map fst m')) (map fst m) \<longleftrightarrow> \<not> dom (map_of m) \<subseteq> dom (map_of m')"
  by (auto simp: list_ex_iff dom_map_of_conv_image_fst)

lemma metricsHasNewKey_iff:
  assumes "object_doc ex" and "object_doc inc"
  shows "metricsHasNewKey ex inc \<longleftrightarrow> \<not> dom (json_lookup inc) \<subseteq> dom (json_lookup ex)"
proof (cases inc)
  case None
  then show ?thesis by (simp add: metricsHasNewKey_def)
next
  case (Some j)
  with unmarshal_object_dom [of j] assms(2) obtain m where
    m: "unmarshal_object j = Some m" "map_of m = json_lookup inc" by auto
  obtain m' where "(case ex of None \<Rightarrow> [] | Some e \<Rightarrow> (case unmarshal_object e of None \<Rightarrow> [] | Some m \<Rightarrow> m)) = m'"
      and "map_of m' = json_lookup ex"
    using unmarshal_object_dom assms(1) by (cases ex) fastforce+
  with m Some show ?thesis
    by (simp only: metricsHasNewKey_def option.case Let_def new_key_iff)
qed

lemma split_nn_whole: "10 \<notin> set s \<Longrightarrow> split_nn acc s = [rev acc @ s]"
  by (induction acc s rule: split_nn.induct) auto

lemma split_nn_append:
  "ex = [] \<or> last ex \<noteq> 10 \<Longrightarrow> 10 \<notin> set inc \<Longrightarrow> inc \<in> set (split_nn acc (ex @ nn @ inc))"
proof (induction acc ex rule: split_nn.induct)
  case (1 acc)
  then show ?case by (cases inc) (simp_all add: nn_def split_nn_whole)
next
  case (2 acc c)
  then show ?case by (cases inc) (simp_all add: nn_def split_nn_whole)
next
  case (3 acc c d s)
  then show ?case by (auto split: if_splits)
qed

text \<open>After an untruncated merge the same notes are no longer new.\<close>

lemma notesHasNewContent_appended:
  assumes "ex = [] \<or> last ex \<noteq> 10" and "10 \<notin> set inc"
  shows "\<not> notesHasNewContent (appendNotes ex inc) inc"
  using split_nn_append [OF assms, of "[]"]
  by (auto simp: notesHasNewContent_def appendNotes_def split: if_splits)

end
