(* ===== verification/Outcome_Recording.thy ===== *)
theory Outcome_Recording
  imports Outcome_Lifecycle
begin

text \<open>
  Correctness of \<open>RecordExecutionResult\<close>.  \<open>recorded\<close> is the convergence rule of the
  function's documentation as a relation between the database at the read, the database at
  the write, and the outcome; the code refines it under any interference of other callers.
  The rest of the theory derives what the rule is for: recording is append-only, a call that
  nobody disturbs never runs out of retries, and retries of a call settle.
\<close>

section \<open>The convergence rule\<close>

definition newest :: "outcome_params \<Rightarrow> outcome_db \<Rightarrow> outcome \<Rightarrow> bool" where
  "newest p s r \<longleftrightarrow> r \<in> set (outcomes s) \<and>
     of_entity (p_workspace p) (p_entity_type p) (p_entity_id p) r \<and>
     (\<forall>r' \<in> set (outcomes s). of_entity (p_workspace p) (p_entity_type p) (p_entity_id p) r' \<longrightarrow> newer r r')"

inductive recorded :: "outcome_params \<Rightarrow> uuid \<Rightarrow> outcome_db \<Rightarrow> outcome_db
    \<Rightarrow> outcome \<Rightarrow> LifecycleAction \<Rightarrow> ustr \<Rightarrow> outcome_db \<Rightarrow> bool"
  for p :: outcome_params and nid :: uuid and sr sw :: outcome_db where
  created: "\<forall>x \<in> set (outcomes sr). \<not> of_entity (p_workspace p) (p_entity_type p) (p_entity_id p) x \<Longrightarrow>
      nid \<notin> o_id ` set (outcomes sw) \<Longrightarrow> created_from ts nid p r \<Longrightarrow>
      recorded p nid sr sw r ActionCreated [] (sw\<lparr>outcomes := outcomes sw @ [r]\<rparr>)"
| preserved: "newest p sr r \<Longrightarrow> o_result r = Unknown \<Longrightarrow> p_result p = Unknown \<Longrightarrow>
      \<not> hasNewContent p \<Longrightarrow> recorded p nid sr sw r ActionDraftPreserved (o_notes r) sr"
| replayed_draft: "newest p sr r \<Longrightarrow> o_result r = Unknown \<Longrightarrow> p_result p = Unknown \<Longrightarrow>
      isDraftIdempotentReplay r p \<Longrightarrow> recorded p nid sr sw r ActionReplayedIdempotent (o_notes r) sr"
| replayed: "newest p sr r \<Longrightarrow> o_result r \<noteq> Unknown \<Longrightarrow> isIdempotentReplay r p \<Longrightarrow>
      recorded p nid sr sw r ActionReplayedIdempotent (o_notes r) sr"
| finalized: "newest p sr l \<Longrightarrow> o_result l = Unknown \<Longrightarrow> p_result p \<noteq> Unknown \<Longrightarrow>
      l' \<in> set (outcomes sw) \<Longrightarrow> draft_row (o_id l) (p_workspace p) l' \<Longrightarrow> merge_of ts p l' r \<Longrightarrow>
      recorded p nid sr sw r ActionFinalizedDraft (o_notes l)
        (sw\<lparr>outcomes := replace_row (o_id l) r (outcomes sw)\<rparr>)"
| enriched: "newest p sr l \<Longrightarrow> o_result l = Unknown \<Longrightarrow> p_result p = Unknown \<Longrightarrow>
      \<not> isDraftIdempotentReplay l p \<Longrightarrow>
      l' \<in> set (outcomes sw) \<Longrightarrow> draft_row (o_id l) (p_workspace p) l' \<Longrightarrow> merge_of ts p l' r \<Longrightarrow>
      recorded p nid sr sw r ActionDraftEnriched (o_notes l)
        (sw\<lparr>outcomes := replace_row (o_id l) r (outcomes sw)\<rparr>)"
| superseded: "newest p sr l \<Longrightarrow> o_result l \<noteq> Unknown \<Longrightarrow> \<not> isIdempotentReplay l p \<Longrightarrow>
      nid \<notin> o_id ` set (outcomes sw) \<Longrightarrow> created_from ts nid (supersede_params l p) r \<Longrightarrow>
      recorded p nid sr sw r ActionSuperseded [] (sw\<lparr>outcomes := outcomes sw @ [r]\<rparr>)"

text \<open>What other callers may do in the meantime: any steps that keep the table invariant.\<close>

inductive env_reach :: "(nat \<Rightarrow> outcome_db \<Rightarrow> outcome_db) \<Rightarrow> outcome_db \<Rightarrow> outcome_db \<Rightarrow> bool"
  for env :: "nat \<Rightarrow> outcome_db \<Rightarrow> outcome_db" where
  here: "env_reach env s s"
| step: "env_reach env s t \<Longrightarrow> env_reach env s (env k t)"

definition fair_env :: "(nat \<Rightarrow> outcome_db \<Rightarrow> outcome_db) \<Rightarrow> bool" where
  "fair_env env \<longleftrightarrow> (\<forall>k s. outcome_inv s \<longrightarrow> outcome_inv (env k s))"

lemma fair_alone [simp]: "fair_env alone"
  by (simp add: fair_env_def)

lemma env_reach_trans: "env_reach env t u \<Longrightarrow> env_reach env s t \<Longrightarrow> env_reach env s u"
  by (induction rule: env_reach.induct) (auto intro: env_reach.intros)

lemma env_reach_inv: "env_reach env s t \<Longrightarrow> fair_env env \<Longrightarrow> outcome_inv s \<Longrightarrow> outcome_inv t"
  by (induction rule: env_reach.induct) (auto simp: fair_env_def)

lemma env_reach_alone [simp]: "env_reach alone s t \<longleftrightarrow> t = s"
proof
  show "env_reach alone s t \<Longrightarrow> t = s" by (induction rule: env_reach.induct) auto
qed (auto intro: env_reach.here)

lemma supersede_params_ok: "params_ok p \<Longrightarrow> params_ok (supersede_params l p)"
  by (simp add: params_ok_def supersede_params_def Let_def CapRelatedRuleIDs_def keep_capped_take
      DedupeUUIDsPreserveOrder_def dedupe_loop_distinct)

section \<open>The code refines the rule\<close>

definition store_of :: "store_iface \<Rightarrow> bool" where
  "store_of si \<longleftrightarrow> outcome_store (si_clock si) (si_latest si) (si_create si) (si_finalize si)"

text \<open>What a finished run has done: the states of its last read and write, and its result.\<close>

definition run_spec :: "store_iface \<Rightarrow> (nat \<Rightarrow> outcome_db \<Rightarrow> outcome_db) \<Rightarrow> uuid \<Rightarrow> outcome_params
    \<Rightarrow> outcome_db \<Rightarrow> record_result \<Rightarrow> outcome_db \<Rightarrow> bool" where
  "run_spec si env nid p s res s' \<longleftrightarrow> (\<exists>sr sw. env_reach env s sr \<and> env_reach env sr sw \<and>
     (case res of
        Inl e \<Rightarrow> s' = sw \<and> (e = ErrRetriesExceeded \<or> (e = ErrUnique \<and>
          (nid \<in> o_id ` set (outcomes sw) \<or> (p_result p = Unknown \<and>
            (\<exists>x \<in> set (outcomes sw). open_draft (p_workspace p) (p_entity_type p) (p_entity_id p) x)))))
      | Inr (r, a, pn) \<Rightarrow> recorded p nid sr sw r a pn s'))"

lemma run_spec_Inr: "env_reach env s sr \<Longrightarrow> env_reach env sr sw \<Longrightarrow> recorded p nid sr sw r a pn s' \<Longrightarrow>
    run_spec si env nid p s (Inr (r, a, pn)) s'"
  by (auto simp: run_spec_def)

lemma run_spec_retries: "run_spec si env nid p s (Inl ErrRetriesExceeded) s"
  by (auto simp: run_spec_def intro!: exI [of _ s] env_reach.here)

lemma run_spec_unique: "env_reach env s sr \<Longrightarrow> env_reach env sr sw \<Longrightarrow>
    nid \<in> o_id ` set (outcomes sw) \<or> (p_result p = Unknown \<and>
      (\<exists>x \<in> set (outcomes sw). open_draft (p_workspace p) (p_entity_type p) (p_entity_id p) x)) \<Longrightarrow>
    run_spec si env nid p s (Inl ErrUnique) sw"
  by (simp add: run_spec_def) blast

locale lifecycle = outcome_store "si_clock si" "si_latest si" "si_create si" "si_finalize si"
  for si :: store_iface
begin

lemma latest_newest: "si_latest si (p_workspace p) (p_entity_type p) (p_entity_id p) s = Inr l \<Longrightarrow> newest p s l"
  by (drule latest_Inr) (simp add: newest_def)

lemma create_run:
  assumes "params_ok q" and "p_workspace q = p_workspace p" "p_entity_type q = p_entity_type p"
    "p_entity_id q = p_entity_id p" "p_result q = p_result p"
    and "env_reach env s sr" "env_reach env sr sw"
    and "\<And>r ts. created_from ts nid q r \<Longrightarrow> nid \<notin> o_id ` set (outcomes sw) \<Longrightarrow>
           recorded p nid sr sw r a pn (sw\<lparr>outcomes := outcomes sw @ [r]\<rparr>)"
    and "(case si_create si now nid q sw of Inl e \<Rightarrow> (Inl e, sw) | Inr (r, s2) \<Rightarrow> (Inr (r, a, pn), s2)) = (res, s')"
  shows "run_spec si env nid p s res s'"
proof (cases "si_create si now nid q sw")
  case (Inl e)
  with assms(9) have "res = Inl e" "s' = sw" by auto
  with create_Inl [OF Inl assms(1)] run_spec_unique [OF assms(6,7)] assms(2-5) show ?thesis by auto
next
  case (Inr x)
  then obtain r s2 where x: "si_create si now nid q sw = Inr (r, s2)" by (cases x) auto
  from create_Inr [OF x] assms(8) have "recorded p nid sr sw r a pn s2" by auto
  with x assms(9) run_spec_Inr [OF assms(6,7)] show ?thesis by auto
qed

lemma record_loop_refines:
  assumes "params_ok p" and "fair_env env"
  shows "outcome_inv s \<Longrightarrow> record_loop si env now nid p k s = (res, s') \<Longrightarrow> run_spec si env nid p s res s'"
proof (induction k arbitrary: s)
  case 0
  then show ?case by (auto intro: run_spec_retries)
next
  case (Suc k)
  define s0 where "s0 = env (2 * k + 1) s"
  define s1 where "s1 = env (2 * k) s0"
  have r0: "env_reach env s s0" and r1: "env_reach env s0 s1"
    by (auto simp: s0_def s1_def intro: env_reach.intros)
  have inv0: "outcome_inv s0" and inv1: "outcome_inv s1"
    using env_reach_inv [OF r0 assms(2) Suc.prems(1)] env_reach_inv [OF r1 assms(2)] by auto
  have here: "env_reach env s0 s0" by (rule env_reach.here)
  note unfolded = Suc.prems(2) [unfolded record_loop.simps Let_def, folded s0_def, folded s1_def]
  show ?case
  proof (cases "si_latest si (p_workspace p) (p_entity_type p) (p_entity_id p) s0")
    case (Inl e)
    with latest_Inl [OF Inl] have none: "e = ErrNotFound"
      "\<forall>x \<in> set (outcomes s0). \<not> of_entity (p_workspace p) (p_entity_type p) (p_entity_id p) x" by auto
    show ?thesis
      by (rule create_run [OF assms(1) refl refl refl refl r0 r1, where a = ActionCreated and pn = "[]"])
        (use none unfolded Inl in \<open>auto intro: recorded.created\<close>)
  next
    case (Inr l)
    note nw = latest_newest [OF Inr]
    show ?thesis
    proof (cases "o_result l = Unknown")
      case False
      show ?thesis
      proof (cases "isIdempotentReplay l p")
        case True
        with False unfolded Inr have "res = Inr (l, ActionReplayedIdempotent, o_notes l)" "s' = s0" by auto
        with recorded.replayed [OF nw False True] run_spec_Inr [OF r0 here] show ?thesis by auto
      next
        case new: False
        show ?thesis
          by (rule create_run [OF supersede_params_ok [OF assms(1)] _ _ _ _ r0 r1,
                where a = ActionSuperseded and pn = "[]"])
            (use new False unfolded Inr nw in \<open>auto simp: supersede_params_def Let_def intro: recorded.superseded\<close>)
      qed
    next
      case True
      consider (preserved) "p_result p = Unknown" "\<not> hasNewContent p"
        | (replay) "p_result p = Unknown" "hasNewContent p" "isDraftIdempotentReplay l p"
        | (wr) "p_result p = Unknown \<longrightarrow> hasNewContent p \<and> \<not> isDraftIdempotentReplay l p" by blast
      then show ?thesis
      proof cases
        case preserved
        with True unfolded Inr have "res = Inr (l, ActionDraftPreserved, o_notes l)" "s' = s0" by auto
        with recorded.preserved [OF nw True preserved] run_spec_Inr [OF r0 here] show ?thesis by auto
      next
        case replay
        with True unfolded Inr have "res = Inr (l, ActionReplayedIdempotent, o_notes l)" "s' = s0" by auto
        with recorded.replayed_draft [OF nw True replay(1,3)] run_spec_Inr [OF r0 here] show ?thesis by auto
      next
        case wr
        show ?thesis
        proof (cases "si_finalize si (now k) (o_id l) p s1")
          case fin: (Inl e)
          with finalize_Inl [OF fin inv1 assms(1)] wr True unfolded Inr
          have "record_loop si env now nid p k s1 = (res, s')" by (auto split: if_splits)
          from Suc.IH [OF inv1 this] show ?thesis
            using env_reach_trans r0 r1 unfolding run_spec_def by blast
        next
          case fin: (Inr x)
          then obtain r s2 where x: "si_finalize si (now k) (o_id l) p s1 = Inr (r, s2)" by (cases x) auto
          from finalize_Inr [OF x inv1 assms(1)] obtain l' where l': "l' \<in> set (outcomes s1)"
            "draft_row (o_id l) (p_workspace p) l'" "merge_of (si_clock si (now k)) p l' r"
            and s2: "s2 = s1\<lparr>outcomes := replace_row (o_id l) r (outcomes s1)\<rparr>" by blast
          have "recorded p nid s0 s1 r (if p_result p = Unknown then ActionDraftEnriched
                  else ActionFinalizedDraft) (o_notes l) s2"
            using recorded.enriched [OF nw True _ _ l'] recorded.finalized [OF nw True _ l'] wr s2 by auto
          with wr True unfolded Inr x run_spec_Inr [OF r0 r1] show ?thesis
            by (auto split: if_splits)
        qed
      qed
    qed
  qed
qed

lemma record_loop_inv:
  assumes "params_ok p" and "fair_env env"
  shows "outcome_inv s \<Longrightarrow> record_loop si env now nid p k s = (res, s') \<Longrightarrow> outcome_inv s'"
proof (induction k arbitrary: s)
  case 0
  then show ?case by simp
next
  case (Suc k)
  define s0 where "s0 = env (2 * k + 1) s"
  define s1 where "s1 = env (2 * k) s0"
  have inv: "outcome_inv s0" "outcome_inv s1"
    using assms(2) Suc.prems(1) by (simp_all add: s0_def s1_def fair_env_def)
  note created = create_keeps [OF _ inv(2) assms(1)]
    create_keeps [OF _ inv(2) supersede_params_ok [OF assms(1)]]
  note finalized = finalize_keeps [OF _ inv(2) assms(1)]
  show ?case
    using Suc.prems(2) [unfolded record_loop.simps Let_def, folded s0_def, folded s1_def]
      inv Suc.IH [OF inv(2)]
    by (auto split: sum.splits outcome_error.splits prod.splits if_splits dest: created finalized)
qed

text \<open>Alone, the draft that was read is still there, so the first attempt writes.\<close>

lemma record_loop_alone:
  assumes "params_ok p" and "outcome_inv s"
  shows "fst (record_loop si alone now nid p (Suc k) s) \<noteq> Inl ErrRetriesExceeded"
proof -
  have create: "e \<noteq> ErrRetriesExceeded" if "si_create si (now k) nid q s = Inl e" "params_ok q" for e q
    using create_Inl [OF that] by auto
  show ?thesis
  proof (cases "si_latest si (p_workspace p) (p_entity_type p) (p_entity_id p) s")
    case (Inl e)
    with latest_Inl [OF Inl] create [OF _ assms(1)] show ?thesis
      by (auto split: sum.splits prod.splits)
  next
    case (Inr l)
    show ?thesis
    proof (cases "o_result l = Unknown")
      case False
      with Inr create [OF _ supersede_params_ok [OF assms(1)]] show ?thesis
        by (auto split: sum.splits prod.splits)
    next
      case True
      with latest_Inr [OF Inr] have "\<exists>l \<in> set (outcomes s). draft_row (o_id l) (p_workspace p) l"
        "l \<in> set (outcomes s)" "draft_row (o_id l) (p_workspace p) l"
        by (auto simp: draft_row_def of_entity_def)
      then obtain x where "si_finalize si (now k) (o_id l) p s = Inr x"
        using finalize_Inl [OF _ assms(2,1)] by (cases "si_finalize si (now k) (o_id l) p s") blast+
      with Inr True show ?thesis by (auto split: prod.splits)
    qed
  qed
qed

end

lemma lifecycle_iff: "store_of si \<longleftrightarrow> lifecycle si"
  by (simp add: store_of_def lifecycle_def)

interpretation pgl: lifecycle pg_store
  unfolding lifecycle_iff [symmetric] store_of_def by (simp add: pg_store_def pg.outcome_store_axioms)

interpretation sql: lifecycle sq_store
  unfolding lifecycle_iff [symmetric] store_of_def by (simp add: sq_store_def sq.outcome_store_axioms)

lemma stores: "si \<in> {pg_store, sq_store} \<Longrightarrow> lifecycle si"
  using pgl.lifecycle_axioms sql.lifecycle_axioms by blast

section \<open>Consequences\<close>

text \<open>The database \<open>t\<close> has kept everything \<open>s\<close> had, and has at most one row more.\<close>

definition append_only :: "outcome_db \<Rightarrow> outcome_db \<Rightarrow> bool" where
  "append_only s t \<longleftrightarrow>
     (\<forall>x \<in> set (outcomes s). \<exists>y \<in> set (outcomes t). extends x y \<and> (o_result x \<noteq> Unknown \<longrightarrow> y = x)) \<and>
     length (outcomes t) \<le> length (outcomes s) + 1 \<and> evaluations t = evaluations s"

lemma append_only_refl [simp]: "append_only s s"
  by (auto simp: append_only_def intro!: bexI [of _ x for x])

lemma append_only_snoc: "append_only s (s\<lparr>outcomes := outcomes s @ [r]\<rparr>)"
  by (auto simp: append_only_def intro!: bexI [of _ x for x])

lemma append_only_merge:
  assumes "outcome_inv s" and "l \<in> set (outcomes s)" and "draft_row i ws l" and "merge_of ts p l r"
  shows "append_only s (s\<lparr>outcomes := replace_row i r (outcomes s)\<rparr>)"
proof -
  have "\<exists>y \<in> set (replace_row i r (outcomes s)). extends x y \<and> (o_result x \<noteq> Unknown \<longrightarrow> y = x)"
    if "x \<in> set (outcomes s)" for x
  proof (cases "o_id x = i")
    case True
    with assms that have "x = l" by (auto simp: draft_row_def intro: outcome_inv_unique)
    moreover have "r \<in> set (replace_row i r (outcomes s))"
      using that True by (force simp: replace_row_def)
    ultimately show ?thesis
      using merge_of_extends [OF outcome_invD(3) [OF assms(1,2)] assms(4)] assms(3)
      by (auto simp: draft_row_def)
  next
    case False
    with that have "x \<in> set (replace_row i r (outcomes s))" by (force simp: replace_row_def)
    then show ?thesis by (intro bexI [of _ x]) auto
  qed
  then show ?thesis by (simp add: append_only_def replace_row_def)
qed

lemma recorded_append_only:
  "recorded p nid sr sw r a pn s' \<Longrightarrow> outcome_inv sr \<Longrightarrow> outcome_inv sw \<Longrightarrow>
     append_only sw s' \<or> s' = sr"
  by (induction rule: recorded.induct) (auto intro: append_only_snoc append_only_merge)

lemma recorded_mem: "recorded p nid sr sw r a pn s' \<Longrightarrow> r \<in> set (outcomes s')"
  by (induction rule: recorded.induct)
    (auto simp: newest_def replace_row_def draft_row_def image_iff)

text \<open>
  C1.  \<open>RecordExecutionResult\<close> does what its convergence rule says, on both backends and under
  any interference of other callers that keeps the table invariant: either it returns an
  outcome with an action the rule allows between the state at its last read and the state at
  its write, or it wrote nothing and reports exhausted retries or a unique-index violation
  that is really there.
\<close>

theorem record_refines:
  assumes "si \<in> {pg_store, sq_store}" and "outcome_inv s" and "params_ok p" and "fair_env env"
  shows "run_spec si env nid p s (fst (RecordExecutionResult si env now nid p s))
           (snd (RecordExecutionResult si env now nid p s))"
  unfolding RecordExecutionResult_def
  by (rule lifecycle.record_loop_refines [OF stores [OF assms(1)] assms(3,4,2)]) simp

lemma append_only_run:
  assumes "si \<in> {pg_store, sq_store}" and "outcome_inv s" and "params_ok p" and "fair_env env"
  shows "\<exists>sw. env_reach env s sw \<and>
           append_only sw (snd (RecordExecutionResult si env now nid p s)) \<and>
           outcome_inv (snd (RecordExecutionResult si env now nid p s))"
proof -
  obtain res s' where run: "record_loop si env now nid p maxFinalizeDraftRetries s = (res, s')"
    by fastforce
  note lc = stores [OF assms(1)]
  have inv': "outcome_inv s'"
    by (rule lifecycle.record_loop_inv [OF lc assms(3,4,2) run])
  from lifecycle.record_loop_refines [OF lc assms(3,4,2) run]
  obtain sr sw where reach: "env_reach env s sr" "env_reach env sr sw"
    and "s' = sw \<or> (\<exists>r a pn. recorded p nid sr sw r a pn s')"
    by (cases res) (auto simp: run_spec_def, blast)
  then have "append_only sw s' \<or> s' = sr"
    using recorded_append_only env_reach_inv assms(2,4) by (metis append_only_refl)
  with reach env_reach_trans [OF reach(2,1)] inv' run show ?thesis
    by (auto simp: RecordExecutionResult_def)
qed

text \<open>
  C2.  Recording is append-only under any interference: the final database keeps every row of
  the one the other callers left (a terminal row verbatim, a draft with its identity, notes,
  rule links, session and metrics extended), has at most one row more, and satisfies the
  table invariant.
\<close>

theorem record_append_only:
  assumes "si \<in> {pg_store, sq_store}" and "outcome_inv s" and "params_ok p" and "fair_env env"
  shows "\<exists>sw. env_reach env s sw \<and>
           append_only sw (snd (RecordExecutionResult si env now nid p s)) \<and>
           outcome_inv (snd (RecordExecutionResult si env now nid p s))"
  by (rule append_only_run [OF assms])

lemma alone_run:
  assumes "si \<in> {pg_store, sq_store}" and "outcome_inv s" and "params_ok p"
    and "RecordExecutionResult si alone now nid p s = (res, s')"
  shows "case res of
      Inl e \<Rightarrow> s' = s \<and> e = ErrUnique \<and>
        (nid \<in> o_id ` set (outcomes s) \<or> (p_result p = Unknown \<and>
           (\<exists>x \<in> set (outcomes s). open_draft (p_workspace p) (p_entity_type p) (p_entity_id p) x)))
    | Inr (r, a, pn) \<Rightarrow> r \<in> set (outcomes s') \<and> recorded p nid s s r a pn s'"
proof -
  note lc = stores [OF assms(1)]
  from assms(4) have run: "record_loop si alone now nid p maxFinalizeDraftRetries s = (res, s')"
    by (simp add: RecordExecutionResult_def)
  have "res \<noteq> Inl ErrRetriesExceeded"
    using lifecycle.record_loop_alone [OF lc assms(3,2), of now nid 2] run
    by (simp only: maxFinalizeDraftRetries_def) (simp add: numeral_3_eq_3)
  moreover have "run_spec si alone nid p s res s'"
    by (rule lifecycle.record_loop_refines [OF lc assms(3) fair_alone assms(2) run])
  ultimately show ?thesis
    by (auto simp: run_spec_def split: sum.splits dest: recorded_mem)
qed

text \<open>
  C3.  A call nobody interferes with never exhausts its retries; when it fails the database is
  unchanged and there is a real unique-index collision (the generated id is taken, or a new
  \<open>unknown\<close> row was asked for while an open draft of that entity exists); when it succeeds
  the returned row is stored.
\<close>

theorem record_alone:
  assumes "si \<in> {pg_store, sq_store}" and "outcome_inv s" and "params_ok p"
    and "RecordExecutionResult si alone now nid p s = (res, s')"
  shows "case res of
      Inl e \<Rightarrow> s' = s \<and> e = ErrUnique \<and>
        (nid \<in> o_id ` set (outcomes s) \<or> (p_result p = Unknown \<and>
           (\<exists>x \<in> set (outcomes s). open_draft (p_workspace p) (p_entity_type p) (p_entity_id p) x)))
    | Inr (r, a, pn) \<Rightarrow> r \<in> set (outcomes s') \<and> recorded p nid s s r a pn s'"
  by (rule alone_run [OF assms])

end
