(* ===== verification/Outcome_Retry.thy ===== *)
theory Outcome_Retry
  imports Outcome_Recording
begin

text \<open>
  What a second call of \<open>RecordExecutionResult\<close> does after a first one: the retries that
  settle (no second row), the supersession chain, and the two cases where a byte-identical
  retry is not recognised, against the documentation of \<open>isIdempotentReplay\<close>.
\<close>

section \<open>The row a call works on\<close>

lemma newer_antisym: "newer a b \<Longrightarrow> newer b a \<Longrightarrow> o_id a = o_id b"
  by (auto simp: newer_def)

lemma newest_unique:
  assumes "outcome_inv s" and "newest p s r" and "newest p s l"
  shows "l = r"
  using assms newer_antisym [of r l] by (auto simp: newest_def intro: outcome_inv_unique)

lemma of_entity_created: "created_from ts nid p r \<Longrightarrow>
    of_entity (p_workspace p) (p_entity_type p) (p_entity_id p) r"
  by (auto simp: created_from_def of_entity_def in_scope_def split: option.splits)

lemma supersede_params_simps [simp]:
  "p_workspace (supersede_params l p) = p_workspace p" "p_entity_type (supersede_params l p) = p_entity_type p"
  "p_entity_id (supersede_params l p) = p_entity_id p" "p_result (supersede_params l p) = p_result p"
  "p_notes (supersede_params l p) = p_notes p" "p_metrics (supersede_params l p) = p_metrics p"
  "p_session (supersede_params l p) = p_session p" "p_supersedes (supersede_params l p) = Some (o_id l)"
  by (simp_all add: supersede_params_def Let_def)

lemma created_from_supersede: "created_from ts nid (supersede_params l p) r \<Longrightarrow> params_ok p \<Longrightarrow>
    created_from ts nid (p\<lparr>p_rule_ids := o_rule_ids r, p_supersedes := Some (o_id l)\<rparr>) r"
  using supersede_params_ok [of p l]
  by (auto simp: created_from_def params_ok_def row_ok_def)

lemma newest_snoc:
  assumes "of_entity (p_workspace p) (p_entity_type p) (p_entity_id p) r"
    and "\<And>x. x \<in> set (outcomes s) \<Longrightarrow>
           of_entity (p_workspace p) (p_entity_type p) (p_entity_id p) x \<Longrightarrow> newer r x"
  shows "newest p (s\<lparr>outcomes := outcomes s @ [r]\<rparr>) r"
  using assms by (auto simp: newest_def newer_def)

lemma newer_same_keys: "o_created r = o_created l \<Longrightarrow> o_id r = o_id l \<Longrightarrow> newer r x = newer l x"
  by (simp add: newer_def)

lemma newest_replace:
  assumes "newest p s l" and "o_id r = o_id l" "o_created r = o_created l" "o_workspace r = o_workspace l"
    "o_entity_type r = o_entity_type l" "o_entity_id r = o_entity_id l"
  shows "newest p (s\<lparr>outcomes := replace_row (o_id l) r (outcomes s)\<rparr>) r"
proof -
  have "newer r r" by (simp add: newer_def)
  with assms show ?thesis
    by (auto simp: newest_def of_entity_def replace_row_def image_iff newer_same_keys [of r l]
        dest!: set_replace_row [unfolded replace_row_def])
qed

text \<open>
  After an undisturbed call the returned row is the newest of its entity, provided a
  superseding row got a later \<open>created_at\<close> than the rows it joins.
\<close>

lemma recorded_newest:
  assumes "recorded p nid s s r a pn s'" and "outcome_inv s"
    and "a = ActionSuperseded \<longrightarrow> (\<forall>x \<in> set (outcomes s). o_created x < o_created r)"
  shows "newest p s' r"
  using assms(1)
proof cases
  case (created ts)
  then show ?thesis by (auto intro!: newest_snoc of_entity_created)
next
  case (superseded l ts)
  with assms(3) show ?thesis
    using of_entity_created [OF superseded(8)]
    by (auto simp: newer_def intro!: newest_snoc)
next
  case (finalized l l' ts)
  then have "l' = l" using assms(2) by (auto simp: newest_def draft_row_def intro: outcome_inv_unique)
  with finalized show ?thesis by (auto simp: merge_of_fields intro!: newest_replace)
next
  case (enriched l l' ts)
  then have "l' = l" using assms(2) by (auto simp: newest_def draft_row_def intro: outcome_inv_unique)
  with enriched show ?thesis by (auto simp: merge_of_fields intro!: newest_replace)
qed simp_all

text \<open>The branch a call takes, read off the newest row.\<close>

lemma record_three: "RecordExecutionResult si env now nid p s = record_loop si env now nid p (Suc 2) s"
  by (simp add: RecordExecutionResult_def maxFinalizeDraftRetries_def numeral_3_eq_3)

context lifecycle
begin

lemma latest_is_newest:
  assumes "outcome_inv s" and "newest p s r"
  shows "si_latest si (p_workspace p) (p_entity_type p) (p_entity_id p) s = Inr r"
proof (cases "si_latest si (p_workspace p) (p_entity_type p) (p_entity_id p) s")
  case (Inl e)
  with latest_Inl [OF Inl] assms(2) show ?thesis by (auto simp: newest_def)
next
  case (Inr l)
  with latest_newest [OF Inr] newest_unique [OF assms] show ?thesis by simp
qed

lemma run_replays:
  assumes "outcome_inv s" and "newest p s r"
    and "if o_result r = Unknown then p_result p = Unknown \<and> hasNewContent p \<and> isDraftIdempotentReplay r p
         else isIdempotentReplay r p"
  shows "RecordExecutionResult si alone now nid p s = (Inr (r, ActionReplayedIdempotent, o_notes r), s)"
  unfolding record_three record_loop.simps
  using assms(3) by (simp add: latest_is_newest [OF assms(1,2)] split: if_splits)

lemma run_supersedes:
  assumes "outcome_inv s" and "newest p s l" and "o_result l \<noteq> Unknown" and "\<not> isIdempotentReplay l p"
  shows "RecordExecutionResult si alone now nid p s =
    (case si_create si (now 2) nid (supersede_params l p) s of
       Inl e \<Rightarrow> (Inl e, s) | Inr (r, s2) \<Rightarrow> (Inr (r, ActionSuperseded, []), s2))"
  unfolding record_three record_loop.simps
  using assms(3,4) by (simp add: latest_is_newest [OF assms(1,2)])

lemma run_creates:
  assumes "\<forall>x \<in> set (outcomes s). \<not> of_entity (p_workspace p) (p_entity_type p) (p_entity_id p) x"
  shows "RecordExecutionResult si alone now nid p s =
    (case si_create si (now 2) nid p s of
       Inl e \<Rightarrow> (Inl e, s) | Inr (r, s2) \<Rightarrow> (Inr (r, ActionCreated, []), s2))"
proof (cases "si_latest si (p_workspace p) (p_entity_type p) (p_entity_id p) s")
  case (Inl e)
  with latest_Inl [OF Inl] show ?thesis unfolding record_three record_loop.simps by simp
next
  case (Inr l)
  with latest_Inr [OF Inr] assms show ?thesis by auto
qed

text \<open>A terminal call that is not a replay of the terminal row it finds always adds a row.\<close>

lemma run_supersedes_terminal:
  assumes "outcome_inv s" and "params_ok p" and "newest p s l" and "o_result l \<noteq> Unknown"
    and "\<not> isIdempotentReplay l p" and "p_result p \<noteq> Unknown" and "nid \<notin> o_id ` set (outcomes s)"
  shows "\<exists>r. RecordExecutionResult si alone now nid p s =
      (Inr (r, ActionSuperseded, []), s\<lparr>outcomes := outcomes s @ [r]\<rparr>) \<and>
    o_result r = p_result p \<and> o_notes r = p_notes p \<and> o_supersedes r = Some (o_id l)"
proof (cases "si_create si (now 2) nid (supersede_params l p) s")
  case (Inl e)
  with create_Inl [OF Inl supersede_params_ok [OF assms(2)]] assms(6,7) show ?thesis by auto
next
  case (Inr x)
  then obtain r s2 where x: "si_create si (now 2) nid (supersede_params l p) s = Inr (r, s2)"
    by (cases x) auto
  with create_Inr [OF x] show ?thesis
    by (auto simp: run_supersedes [OF assms(1,3-5)] created_from_def)
qed

end

lemma record_inv:
  assumes "si \<in> {pg_store, sq_store}" and "outcome_inv s" and "params_ok p"
    and "RecordExecutionResult si alone now nid p s = (res, s')"
  shows "outcome_inv s'"
  using lifecycle.record_loop_inv [OF stores [OF assms(1)] assms(3) fair_alone assms(2)] assms(4)
  by (simp add: RecordExecutionResult_def)

section \<open>Retries that settle\<close>

lemma notesHasNewContent_same [simp]: "\<not> notesHasNewContent n n"
  by (simp add: notesHasNewContent_def)

lemma nothing_new_created:
  assumes "created_from ts nid q r" and "params_ok q" and "10 \<notin> set (p_notes q)"
    and "p_notes q = p_notes p" "p_metrics q = p_metrics p" "p_session q = p_session p"
    and "set (p_rule_ids p) \<subseteq> set (o_rule_ids r)" and "params_ok p"
  shows "isDraftIdempotentReplay r p"
  using assms
  by (auto simp: isDraftIdempotentReplay_def created_from_def relatedRuleIDsHasNew_iff row_ok_def
      metricsHasNewKey_iff params_ok_def workSessionIDHasNew_def)

lemma nothing_new_merged:
  assumes "merge_of ts p l r" and "params_ok p" and "10 \<notin> set (p_notes p)"
    and "o_notes l = [] \<or> last (o_notes l) \<noteq> 10"
    and "length (o_notes l) + 2 + length (p_notes p) \<le> MaxNotesTotalRunes"
    and "set (p_rule_ids p) \<subseteq> set (o_rule_ids r)"
  shows "isDraftIdempotentReplay r p"
proof -
  from assms(1) obtain mm where r: "r = merged_row ts mm p l" "object_doc mm"
    "json_lookup mm = json_lookup (p_metrics p) ++ json_lookup (o_metrics l)"
    by (auto simp: merge_of_def)
  have "length (appendNotes (o_notes l) (p_notes p)) \<le> max MaxNotesTotalRunes (length (o_notes l))"
    using assms(5) by (auto simp: appendNotes_def nn_def)
  then have "o_notes r = appendNotes (o_notes l) (p_notes p)"
    by (simp add: r(1) merged_row_def)
  with notesHasNewContent_appended [OF assms(4,3)] have "\<not> notesHasNewContent (o_notes r) (p_notes p)"
    by simp
  moreover have "\<not> metricsHasNewKey (o_metrics r) (p_metrics p)"
    using r assms(2) by (simp add: metricsHasNewKey_iff params_ok_def)
  moreover have "\<not> workSessionIDHasNew (o_session r) (p_session p)"
    by (auto simp: r(1) merged_row_def workSessionIDHasNew_def split: option.splits)
  ultimately show ?thesis
    using assms(6) by (simp add: isDraftIdempotentReplay_def relatedRuleIDsHasNew_iff)
qed


lemma recorded_new_row:
  assumes "recorded p nid sr sw r a pn s'" and "a \<in> {ActionCreated, ActionSuperseded}"
  shows "\<exists>ts q. created_from ts nid q r \<and> p_result q = p_result p \<and> p_notes q = p_notes p \<and>
           p_session q = p_session p"
  using assms(1)
proof cases
  case (superseded l ts)
  then show ?thesis by (intro exI [of _ ts] exI [of _ "supersede_params l p"]) simp
qed (use assms(2) in auto)

text \<open>
   Retrying a terminal call settles as well when the first call made the row (created or
  superseded), its rule links fit, and the store hands back the metrics bytes it was given;
  the second call returns that row and writes nothing.
\<close>

theorem retry_terminal_settles:
  assumes "si \<in> {pg_store, sq_store}" and "outcome_inv s" and "params_ok p"
    and "RecordExecutionResult si alone now nid p s = (Inr (r, a, pn), s')"
    and "p_result p \<noteq> Unknown" and "a \<in> {ActionCreated, ActionSuperseded}"
    and "o_metrics r = p_metrics p"
    and "\<not> RelatedRuleIDsTruncated (o_rule_ids r) (p_rule_ids p)"
    and "a = ActionSuperseded \<longrightarrow> (\<forall>x \<in> set (outcomes s). o_created x < o_created r)"
  shows "RecordExecutionResult si alone now' nid' p s' = (Inr (r, ActionReplayedIdempotent, o_notes r), s')"
proof -
  note lc = stores [OF assms(1)] and inv' = record_inv [OF assms(1-4)]
  from alone_run [OF assms(1-4)] have rec: "recorded p nid s s r a pn s'" by simp
  from recorded_newest [OF rec assms(2,9)] have nw: "newest p s' r" .
  from recorded_new_row [OF rec assms(6)] obtain ts q where "created_from ts nid q r"
    "p_result q = p_result p" "p_notes q = p_notes p" "p_session q = p_session p" by blast
  with assms(5,7,8) have "o_result r \<noteq> Unknown \<and> isIdempotentReplay r p"
    by (auto simp: created_from_def isIdempotentReplay_def relatedRuleIDsHasNew_iff
        RelatedRuleIDsTruncated_iff workSessionIDDiffers_def split: option.splits)
  with lifecycle.run_replays [OF lc inv' nw] show ?thesis by simp
qed

section \<open>Supersession\<close>

lemma union_capped:
  assumes "distinct ex"
  shows "prefix ex (CapRelatedRuleIDs ex (DedupeUUIDsPreserveOrder (ex @ inc)) c)"
proof -
  have "dedupe_loop [] ex = ex" using assms by (simp add: dedupe_loop_fresh)
  then have "prefix ex (DedupeUUIDsPreserveOrder (ex @ inc))"
    by (simp add: DedupeUUIDsPreserveOrder_def dedupe_loop_append)
  then show ?thesis
    by (auto simp: CapRelatedRuleIDs_def keep_capped_take intro: prefix_take_longer)
qed

text \<open>
   A superseding call leaves the superseded row as it is, names it, and inherits all its
  rule links: they are the first links of the new row, followed by new ones of the call,
  without repetition and within the cap of 100 (or the inherited number); when all of them
  fit none of the call's links is lost.
\<close>

theorem supersede_inherits:
  assumes "si \<in> {pg_store, sq_store}" and "outcome_inv s" and "params_ok p"
    and "RecordExecutionResult si alone now nid p s = (Inr (r, ActionSuperseded, pn), s')"
  shows "\<exists>l. newest p s l \<and> o_result l \<noteq> Unknown \<and> l \<in> set (outcomes s') \<and> l \<noteq> r \<and>
           o_supersedes r = Some (o_id l) \<and> o_result r = p_result p \<and> o_notes r = p_notes p \<and>
           prefix (o_rule_ids l) (o_rule_ids r) \<and> distinct (o_rule_ids r) \<and>
           set (o_rule_ids r) \<subseteq> set (o_rule_ids l) \<union> set (p_rule_ids p) \<and>
           length (o_rule_ids r) \<le> max MaxRelatedRuleIDsTotal (length (o_rule_ids l)) \<and>
           (card (set (o_rule_ids l) \<union> set (p_rule_ids p)) \<le> MaxRelatedRuleIDsTotal \<longrightarrow>
              set (p_rule_ids p) \<subseteq> set (o_rule_ids r))"
proof -
  from alone_run [OF assms] have "recorded p nid s s r ActionSuperseded pn s'" by simp
  then show ?thesis
  proof cases
    case (superseded l ts)
    let ?u = "DedupeUUIDsPreserveOrder (o_rule_ids l @ p_rule_ids p)"
    have l: "l \<in> set (outcomes s)" "distinct (o_rule_ids l)"
      using superseded(3) outcome_invD(3) [OF assms(2)] by (auto simp: newest_def row_ok_def)
    have ids: "o_rule_ids r = take (max MaxRelatedRuleIDsTotal (length (o_rule_ids l))) ?u"
      using superseded(7)
      by (simp add: created_from_def supersede_params_def Let_def CapRelatedRuleIDs_def keep_capped_take)
    have u: "distinct ?u" "set ?u = set (o_rule_ids l) \<union> set (p_rule_ids p)"
      by (simp_all add: DedupeUUIDsPreserveOrder_def dedupe_loop_distinct dedupe_loop_set)
    have "length ?u = card (set (o_rule_ids l) \<union> set (p_rule_ids p))"
      using u distinct_card [OF u(1)] by simp
    then have "card (set (o_rule_ids l) \<union> set (p_rule_ids p)) \<le> MaxRelatedRuleIDsTotal \<longrightarrow>
        o_rule_ids r = ?u" by (simp add: ids)
    moreover have "prefix (o_rule_ids l) (o_rule_ids r)"
      using union_capped [OF l(2), of "p_rule_ids p" MaxRelatedRuleIDsTotal]
      by (simp add: ids CapRelatedRuleIDs_def keep_capped_take)
    moreover have "set (o_rule_ids r) \<subseteq> set ?u" by (simp add: ids set_take_subset)
    moreover have "length (o_rule_ids r) \<le> max MaxRelatedRuleIDsTotal (length (o_rule_ids l))"
      "distinct (o_rule_ids r)" using u by (simp_all add: ids)
    moreover have "o_id r = nid" "o_supersedes r = Some (o_id l)" "o_result r = p_result p"
      "o_notes r = p_notes p" using superseded(7) by (simp_all add: created_from_def)
    moreover from this superseded(6) l have "l \<noteq> r" by auto
    ultimately show ?thesis
      using superseded(2-4) l u by (intro exI [of _ l]) auto
  qed
qed

section \<open>Retries that are not recognised\<close>

text \<open>
   Retrying the call that finalized a draft with notes, byte for byte, is not recognised as
  a replay when it carries notes: the finalized row holds the draft's notes before the call's,
  so the second call adds a superseding row with the same verdict.  The documentation of
  \<open>isIdempotentReplay\<close> promises the existing row, and the draft branch says there is no
  duplicate-finalize case.
\<close>

theorem finalize_retry_duplicates:
  assumes "si \<in> {pg_store, sq_store}" and "outcome_inv s" and "params_ok p"
    and "RecordExecutionResult si alone now nid p s = (Inr (r, ActionFinalizedDraft, pn), s')"
    and "pn \<noteq> []" and "p_notes p \<noteq> []" and "length (p_notes p) < MaxNotesTotalRunes"
    and "nid' \<notin> o_id ` set (outcomes s')"
  shows "\<exists>r'. RecordExecutionResult si alone now' nid' p s' =
             (Inr (r', ActionSuperseded, []), s'\<lparr>outcomes := outcomes s' @ [r']\<rparr>) \<and>
           o_result r' = o_result r \<and> o_supersedes r' = Some (o_id r)"
proof -
  note lc = stores [OF assms(1)] and inv' = record_inv [OF assms(1-4)]
  from alone_run [OF assms(1-4)] have rec: "recorded p nid s s r ActionFinalizedDraft pn s'" by simp
  from recorded_newest [OF rec assms(2)] have nw: "newest p s' r" by simp
  from rec have "o_result r = p_result p \<and> p_result p \<noteq> Unknown \<and> o_notes r \<noteq> p_notes p"
  proof cases
    case (finalized l l' ts)
    then have "l' = l" using assms(2) by (auto simp: newest_def draft_row_def intro: outcome_inv_unique)
    with finalized obtain mm where r: "r = merged_row ts mm p l" by (auto simp: merge_of_def)
    have "length (o_notes r) > length (p_notes p)"
      using r finalized(1) assms(5-7) by (auto simp: merged_row_def appendNotes_def nn_def)
    with r finalized show ?thesis by auto
  qed
  with lifecycle.run_supersedes_terminal [OF lc inv' assms(3) nw _ _ _ assms(8), of now'] show ?thesis
    by (auto simp: isIdempotentReplay_def)
qed

lemma CreateOutcome_pg_metrics:
  "CreateOutcome_pg now nid p s = Inr (r, s') \<Longrightarrow> Some (o_metrics r) = metrics_arg_pg (p_metrics p)"
  by (auto simp: CreateOutcome_pg_def split: option.splits dest!: insert_outcome_Inr)

text \<open>
   On Postgres a terminal call with a compact non-empty metrics document is never recognised
  on retry: jsonb prints the stored document differently from the bytes of the call, the
  comparison is on bytes, and the second identical call adds a superseding row.  The SQLite
  backend replays (C5).
\<close>

theorem pg_metrics_retry_duplicates:
  assumes "outcome_inv s" and "params_ok p"
    and "RecordExecutionResult pg_store alone now nid p s = (Inr (r, ActionCreated, pn), s')"
    and "p_metrics p = Some (JObj 0 kvs)" and "kvs \<noteq> []" and "p_result p \<noteq> Unknown"
    and "nid' \<notin> o_id ` set (outcomes s')"
  shows "\<exists>r'. RecordExecutionResult pg_store alone now' nid' p s' =
             (Inr (r', ActionSuperseded, []), s'\<lparr>outcomes := outcomes s' @ [r']\<rparr>) \<and>
           o_result r' = o_result r \<and> o_notes r' = o_notes r \<and> o_supersedes r' = Some (o_id r)"
proof -
  have si: "pg_store \<in> {pg_store, sq_store}" by simp
  note lc = stores [OF si] and inv' = record_inv [OF si assms(1-3)]
  from alone_run [OF si assms(1-3)] have rec: "recorded p nid s s r ActionCreated pn s'" by simp
  from recorded_newest [OF rec assms(1)] have nw: "newest p s' r" by simp
  from rec have "o_result r = p_result p \<and> o_notes r = p_notes p \<and> o_metrics r \<noteq> p_metrics p"
  proof cases
    case (created ts)
    from lifecycle.run_creates [OF lc created(3), of now nid] assms(3)
    have "CreateOutcome_pg (now 2) nid p s = Inr (r, s')"
      by (auto simp: pg_store_def split: sum.splits)
    then have "Some (o_metrics r) = metrics_arg_pg (p_metrics p)" by (rule CreateOutcome_pg_metrics)
    with assms(4,5) have "o_metrics r \<noteq> p_metrics p"
      by (simp add: metrics_arg_pg_def jsonb_object_def)
    with created(5) show ?thesis by (simp add: created_from_def)
  qed
  with lifecycle.run_supersedes_terminal [OF lc inv' assms(2) nw _ _ assms(6,7), of now'] assms(6) show ?thesis
    by (auto simp: isIdempotentReplay_def)
qed

text \<open>
   When an \<open>unknown\<close> call supersedes a terminal row within the resolution of
  \<open>created_at\<close> and its random id is the smaller one, the new draft is not the row
  \<open>GetLatestForEntity\<close> returns, and every later \<open>unknown\<close> call for the entity fails on
  \<open>idx_outcomes_one_open_draft\<close> instead of reaching the open draft.
\<close>

theorem hidden_draft_blocks:
  assumes "si \<in> {pg_store, sq_store}" and "outcome_inv s" and "params_ok p"
    and "RecordExecutionResult si alone now nid p s = (Inr (r, ActionSuperseded, pn), s')"
    and "p_result p = Unknown" and "newest p s l" and "o_created r = o_created l" and "o_id r < o_id l"
  shows "RecordExecutionResult si alone now' nid' p s' = (Inl ErrUnique, s')"
proof -
  note lc = stores [OF assms(1)] and inv' = record_inv [OF assms(1-4)]
  from alone_run [OF assms(1-4)] have rec: "recorded p nid s s r ActionSuperseded pn s'" by simp
  from rec obtain ts where l: "o_result l \<noteq> Unknown" "created_from ts nid (supersede_params l p) r"
    and s': "s' = s\<lparr>outcomes := outcomes s @ [r]\<rparr>"
    using newest_unique [OF assms(2,6)] by cases auto
  have "newer l r" using assms(7,8) by (simp add: newer_def)
  with assms(6) have nw: "newest p s' l" by (auto simp: newest_def s')
  have idle: "\<not> isIdempotentReplay l p" using l(1) assms(5) by (auto simp: isIdempotentReplay_def)
  show ?thesis
  proof (cases "si_create si (now' 2) nid' (supersede_params l p) s'")
    case (Inl e)
    with lifecycle.run_supersedes [OF lc inv' nw l(1) idle] show ?thesis
      using outcome_store.create_Inl [OF lc [unfolded lifecycle_def] Inl supersede_params_ok [OF assms(3)]]
      by auto
  next
    case (Inr x)
    then obtain r2 s2 where x: "si_create si (now' 2) nid' (supersede_params l p) s' = Inr (r2, s2)"
      by (cases x) auto
    from outcome_store.create_Inr [OF lc [unfolded lifecycle_def] x] obtain ts2 where
      "created_from ts2 nid' (supersede_params l p) r2" "\<not> draft_conflict r2 s'" by auto
    with l(2) assms(5) show ?thesis
      by (auto simp: draft_conflict_def open_draft_def s' created_from_def)
  qed
qed

end
