(* ===== verification/Outcome_Parity.thy ===== *)
theory Outcome_Parity
  imports Outcome_Retry
begin

text \<open>
  The two backends compared operation by operation: on databases that agree row by row (the
  metrics documents as maps, not as text) every operation of \<open>outcome.StoreIface\<close> gives
  related results and related databases.  Then the table invariant over every sequence of
  operations of either store.
\<close>

section \<open>Related lists of rows\<close>

lemma rel_filter:
  "list_all2 R xs ys \<Longrightarrow> (\<And>x y. R x y \<Longrightarrow> P x = Q y) \<Longrightarrow> list_all2 R (filter P xs) (filter Q ys)"
  by (induction rule: list_all2_induct) auto

lemma rel_first_row:
  "list_all2 R xs ys \<Longrightarrow> (\<And>x y. R x y \<Longrightarrow> P x = Q y) \<Longrightarrow> rel_option R (first_row P xs) (first_row Q ys)"
  by (induction rule: list_all2_induct) (auto simp: first_row_def)

lemma rel_update_rows:
  "list_all2 R xs ys \<Longrightarrow> (\<And>x y. R x y \<Longrightarrow> P x = Q y) \<Longrightarrow>
     (\<And>x y. x \<in> set xs \<Longrightarrow> y \<in> set ys \<Longrightarrow> R x y \<Longrightarrow> P x \<Longrightarrow> R (f x) (g y)) \<Longrightarrow>
     list_all2 R (update_rows P f xs) (update_rows Q g ys)"
  by (induction rule: list_all2_induct) auto

lemma rel_insort:
  "list_all2 R xs ys \<Longrightarrow> (\<And>x y. R x y \<Longrightarrow> f x = (f y :: 'b :: linorder)) \<Longrightarrow> R x y \<Longrightarrow>
     list_all2 R (insort_key f x xs) (insort_key f y ys)"
  by (induction rule: list_all2_induct) auto

lemma rel_sort:
  assumes "list_all2 R xs ys" and "\<And>x y. R x y \<Longrightarrow> f x = (f y :: 'b :: linorder)"
  shows "list_all2 R (sort_key f xs) (sort_key f ys)"
  using assms(1)
  by (induction rule: list_all2_induct) (auto simp: sort_key_def intro!: rel_insort assms(2))

lemma rel_take: "list_all2 R xs ys \<Longrightarrow> list_all2 R (take n xs) (take n ys)"
  by (rule list_all2_takeI)

lemma rel_pick_best:
  assumes "list_all2 R xs ys" and better: "\<And>x y x' y'. R x y \<Longrightarrow> R x' y' \<Longrightarrow> B x x' = B y y'"
  shows "rel_option R (pick_best B xs) (pick_best B ys)"
  using assms(1)
proof (induction rule: list_all2_induct)
  case Nil
  then show ?case by simp
next
  case (Cons x xs y ys)
  from Cons.IH show ?case
    by (cases "pick_best B xs"; cases "pick_best B ys") (use Cons better in auto)
qed

lemma rel_list_ex: "list_all2 R xs ys \<Longrightarrow> (\<And>x y. R x y \<Longrightarrow> P x = Q y) \<Longrightarrow> list_ex P xs = list_ex Q ys"
  by (induction rule: list_all2_induct) auto

lemma rel_map_eq: "list_all2 R xs ys \<Longrightarrow> (\<And>x y. R x y \<Longrightarrow> f x = g y) \<Longrightarrow> map f xs = map g ys"
  by (induction rule: list_all2_induct) auto

section \<open>Related databases\<close>

definition same_db :: "outcome_db \<Rightarrow> outcome_db \<Rightarrow> bool" where
  "same_db A B \<longleftrightarrow> list_all2 same_row (outcomes A) (outcomes B) \<and> evaluations A = evaluations B"

abbreviation same_call :: "outcome_error + outcome \<times> outcome_db \<Rightarrow> outcome_error + outcome \<times> outcome_db \<Rightarrow> bool" where
  "same_call \<equiv> rel_sum (=) (rel_prod same_row same_db)"

lemma same_row_tests:
  assumes "same_row a b"
  shows "draft_row i ws a = draft_row i ws b" "of_entity ws et eid a = of_entity ws et eid b"
    "open_draft ws et eid a = open_draft ws et eid b"
  using same_row_fields [OF assms] by (auto simp: draft_row_def of_entity_def open_draft_def)

lemma same_row_newer: "same_row a b \<Longrightarrow> same_row a' b' \<Longrightarrow> newer a a' = newer b b'"
  using same_row_fields [of a b] same_row_fields [of a' b'] by (simp add: newer_def)

lemma same_draft_conflict: "same_row a b \<Longrightarrow> same_db A B \<Longrightarrow> draft_conflict a A = draft_conflict b B"
  using same_row_fields [of a b] rel_list_ex [of same_row "outcomes A" "outcomes B"] same_row_tests(3)
  by (simp add: draft_conflict_def same_db_def)

lemma same_insert:
  assumes "same_row a b" and "same_db A B"
  shows "same_call (insert_outcome a A) (insert_outcome b B)"
proof -
  have "map o_id (outcomes A) = map o_id (outcomes B)"
    using assms(2) rel_map_eq [of same_row _ _ o_id o_id] same_row_fields(1) by (auto simp: same_db_def)
  with assms same_row_fields(1) [OF assms(1)] same_draft_conflict [OF assms] show ?thesis
    by (auto simp: insert_outcome_def same_db_def list_all2_appendI simp del: set_map)
qed

lemma CreateOutcome_parity:
  assumes "same_db A B" and "params_ok p" and "1000000 dvd now"
  shows "same_call (CreateOutcome_pg now nid p A) (CreateOutcome_sq now nid p B)"
proof -
  obtain m where m: "metrics_arg_pg (p_metrics p) = Some m"
    using metrics_arg_object assms(2) by (fastforce simp: params_ok_def)
  with jsonb_object [of "p_metrics p" m] assms(2) show ?thesis
    unfolding CreateOutcome_sq_insert CreateOutcome_pg_def
    by (auto simp: ts_millis [OF assms(3)] params_ok_def same_row_def intro!: same_insert [OF _ assms(1)])
qed

lemma FinalizeDraft_parity:
  assumes "same_db A B" and "params_ok p" and "1000000 dvd now" and "distinct (map o_id (outcomes B))"
  shows "same_call (FinalizeDraft_pg now i p A) (FinalizeDraft_sq now i p B)"
proof -
  let ?P = "draft_row i (p_workspace p)"
  have rows: "list_all2 same_row (outcomes A) (outcomes B)" using assms(1) by (simp add: same_db_def)
  obtain m where m: "metrics_arg_pg (p_metrics p) = Some m"
    using metrics_arg_object assms(2) by (fastforce simp: params_ok_def)
  have "rel_option same_row (first_row ?P (outcomes A)) (first_row ?P (outcomes B))"
    by (rule rel_first_row [OF rows]) (rule same_row_tests)
  then consider (none) "first_row ?P (outcomes A) = None" "first_row ?P (outcomes B) = None"
    | (some) a b where "first_row ?P (outcomes A) = Some a" "first_row ?P (outcomes B) = Some b" "same_row a b"
    by (auto elim: option.rel_cases)
  then show ?thesis
  proof cases
    case none
    with m show ?thesis by (simp add: FinalizeDraft_pg_def FinalizeDraft_sq_def)
  next
    case some
    have fin: "\<exists>y'. finalize_merge_sq now p y = Inr y' \<and> same_row (finalize_set_pg now m p x) y'"
      if "same_row x y" for x y
      using finalize_rows_same [OF that _ assms(3), of p] assms(2) m by (auto simp: params_ok_def)
    obtain b' where b': "finalize_merge_sq now p b = Inr b'" "same_row (finalize_set_pg now m p a) b'"
      using fin [OF some(3)] by blast
    have only: "y = b" if "y \<in> set (outcomes B)" "?P y" for y
      using distinct_map_unique [OF assms(4) that(1)] first_row_Some [OF some(2)] that(2)
      by (auto simp: draft_row_def)
    have "same_row (finalize_set_pg now m p x) b'"
      if "x \<in> set (outcomes A)" "y \<in> set (outcomes B)" "same_row x y" "?P x" for x y
      using that(4) only [OF that(2)] same_row_tests(1) [OF that(3)] fin [OF that(3)] b'(1) by auto
    then have "list_all2 same_row (update_rows ?P (finalize_set_pg now m p) (outcomes A))
        (update_rows ?P (\<lambda>_. b') (outcomes B))"
      by (intro rel_update_rows [OF rows] same_row_tests) auto
    with m some b' assms(1) show ?thesis
      by (simp add: FinalizeDraft_pg_def FinalizeDraft_sq_def same_db_def)
  qed
qed

lemma GetLatest_parity:
  assumes "same_db A B"
  shows "rel_sum (=) same_row (GetLatestForEntity_pg ws et eid A) (GetLatestForEntity_sq ws et eid B)"
proof -
  have "rel_option same_row (pick_best newer (filter (of_entity ws et eid) (outcomes A)))
      (pick_best newer (filter (of_entity ws et eid) (outcomes B)))"
    using assms by (intro rel_pick_best rel_filter same_row_newer same_row_tests) (auto simp: same_db_def)
  then show ?thesis
    by (auto simp: GetLatestForEntity_pg_def GetLatestForEntity_sq_def elim: option.rel_cases
        split: option.splits)
qed

lemma ListRecent_parity:
  assumes "same_db A B"
  shows "list_all2 same_row (ListRecentOutcomes_pg ws et n A) (ListRecentOutcomes_sq ws et n B)"
  using assms unfolding ListRecentOutcomes_pg_def ListRecentOutcomes_sq_def Let_def
  by (intro rel_take rel_sort rel_filter) (auto simp: same_db_def same_row_fields)

lemma ListFailed_parity:
  assumes "same_db A B"
  shows "list_all2 same_row (ListFailedOutcomes_pg ws n A) (ListFailedOutcomes_sq ws n B)"
  using assms unfolding ListFailedOutcomes_pg_def ListFailedOutcomes_sq_def Let_def
  by (intro rel_take rel_sort rel_filter) (auto simp: same_db_def same_row_fields)

lemma Prune_parity:
  assumes "same_db A B" and "1000000 dvd now"
  shows "rel_prod (=) same_db (PruneOlderThan_pg now A) (PruneOlderThan_sq now B)"
proof -
  let ?old = "\<lambda>r. o_created r < now"
  have rows: "list_all2 same_row (outcomes A) (outcomes B)" and ev: "evaluations A = evaluations B"
    using assms(1) by (simp_all add: same_db_def)
  have old: "list_all2 same_row (filter ?old (outcomes A)) (filter ?old (outcomes B))"
    and young: "list_all2 same_row (filter (\<lambda>r. \<not> ?old r) (outcomes A)) (filter (\<lambda>r. \<not> ?old r) (outcomes B))"
    by (auto intro!: rel_filter [OF rows] simp: same_row_fields)
  have ids: "map o_id (filter ?old (outcomes A)) = map o_id (filter ?old (outcomes B))"
    by (rule rel_map_eq [OF old]) (rule same_row_fields)
  show ?thesis
    using old young ev ids list_all2_lengthD [OF old]
    by (simp add: PruneOlderThan_pg_def PruneOlderThan_sq_def Let_def ts_millis [OF assms(2)] same_db_def
        flip: set_map)
qed

lemma SeedDraft_parity:
  assumes "same_db A B" and "1000000 dvd now"
  shows "rel_sum (=) (rel_prod (rel_prod same_row (=)) same_db)
           (SeedDraft_pg now nid ws et eid A) (SeedDraft_sq now nid ws et eid B)"
proof -
  define r where "r = \<lparr>o_id = nid, o_workspace = ws, o_entity_type = et, o_entity_id = eid,
      o_result = Unknown, o_metrics = None, o_notes = [], o_rule_ids = [], o_session = None,
      o_supersedes = None, o_created = now, o_updated = now\<rparr>"
  have r: "same_row r r" "o_id r = nid" by (simp_all add: r_def same_row_def)
  have sq: "(case insert_outcome r B of Inl e \<Rightarrow> Inl e
      | Inr (x, db') \<Rightarrow> (case getByID_sq nid db' of Inl e \<Rightarrow> Inl e | Inr c \<Rightarrow> Inr ((c, True), db')))
    = (case insert_outcome r B of Inl e \<Rightarrow> Inl e | Inr (c, db') \<Rightarrow> Inr ((c, True), db'))"
    using getByID_sq_inserted [of r "outcomes B" B] r(2)
    by (auto split: sum.splits dest!: insert_outcome_Inr)
  have ts: "pg_ts now = now" "sq_ts now = now" using ts_millis [OF assms(2)] by auto
  have pg_eq: "SeedDraft_pg now nid ws et eid A = (case GetLatestForEntity_pg ws et eid A of
      Inr l \<Rightarrow> Inr ((l, False), A)
    | Inl ErrNotFound \<Rightarrow> (if draft_conflict r A
        then (case GetLatestForEntity_pg ws et eid A of Inl e \<Rightarrow> Inl e | Inr x \<Rightarrow> Inr ((x, False), A))
        else (case insert_outcome r A of Inl e \<Rightarrow> Inl e | Inr (c, db') \<Rightarrow> Inr ((c, True), db')))
    | Inl e \<Rightarrow> Inl e)"
    unfolding SeedDraft_pg_def Let_def ts r_def by (rule refl)
  have sq_eq: "SeedDraft_sq now nid ws et eid B = (case GetLatestForEntity_sq ws et eid B of
      Inr l \<Rightarrow> Inr ((l, False), B)
    | Inl ErrNotFound \<Rightarrow> (if draft_conflict r B
        then (case GetLatestForEntity_sq ws et eid B of Inl e \<Rightarrow> Inl e | Inr x \<Rightarrow> Inr ((x, False), B))
        else (case insert_outcome r B of Inl e \<Rightarrow> Inl e | Inr (c, db') \<Rightarrow> Inr ((c, True), db')))
    | Inl e \<Rightarrow> Inl e)"
    unfolding SeedDraft_sq_def Let_def ts r_def sq [unfolded r_def] by (rule refl)
  show ?thesis
    using GetLatest_parity [OF assms(1), of ws et eid] same_draft_conflict [OF r(1) assms(1)]
      same_insert [OF r(1) assms(1)] assms(1)
    unfolding pg_eq sq_eq
    by (auto split: sum.splits outcome_error.splits prod.splits)
qed


section \<open>Every sequence of operations\<close>

text \<open>
  One step of a running system on either backend: any operation of \<open>StoreIface\<close> that writes,
  with any arguments the callers may pass; failed calls change nothing.
\<close>

inductive outcome_step :: "outcome_db \<Rightarrow> outcome_db \<Rightarrow> bool" where
  create_pg: "params_ok p \<Longrightarrow> CreateOutcome_pg now nid p s = Inr (r, t) \<Longrightarrow> outcome_step s t"
| create_sq: "params_ok p \<Longrightarrow> CreateOutcome_sq now nid p s = Inr (r, t) \<Longrightarrow> outcome_step s t"
| finalize_pg: "params_ok p \<Longrightarrow> FinalizeDraft_pg now i p s = Inr (r, t) \<Longrightarrow> outcome_step s t"
| finalize_sq: "params_ok p \<Longrightarrow> FinalizeDraft_sq now i p s = Inr (r, t) \<Longrightarrow> outcome_step s t"
| seed_pg: "SeedDraft_pg now nid ws et eid s = Inr (r, t) \<Longrightarrow> outcome_step s t"
| seed_sq: "SeedDraft_sq now nid ws et eid s = Inr (r, t) \<Longrightarrow> outcome_step s t"
| evaluate_pg: "CreateEvaluation_pg now nid ep s = Inr (e, t) \<Longrightarrow> outcome_step s t"
| evaluate_sq: "CreateEvaluation_sq now nid ep s = Inr (e, t) \<Longrightarrow> outcome_step s t"
| prune_pg: "PruneOlderThan_pg now s = (n, t) \<Longrightarrow> outcome_step s t"
| prune_sq: "PruneOlderThan_sq now s = (n, t) \<Longrightarrow> outcome_step s t"
| recording: "si \<in> {pg_store, sq_store} \<Longrightarrow> params_ok p \<Longrightarrow>
    RecordExecutionResult si alone now' nid p s = (res, t) \<Longrightarrow> outcome_step s t"

inductive outcome_reach :: "outcome_db \<Rightarrow> bool" where
  empty: "outcome_reach \<lparr>outcomes = [], evaluations = []\<rparr>"
| step: "outcome_reach s \<Longrightarrow> outcome_step s t \<Longrightarrow> outcome_reach t"

definition eval_inv :: "outcome_db \<Rightarrow> bool" where
  "eval_inv db \<longleftrightarrow> distinct (map ev_id (evaluations db))"

lemma insert_draft_keeps:
  assumes "insert_outcome r s = Inr (x, t)" and "outcome_inv s" and "row_ok r"
  shows "outcome_inv t \<and> evaluations t = evaluations s"
  using insert_outcome_Inr [OF assms(1)] assms(2,3)
  by (auto simp: outcome_inv_def draft_conflict_index drafts_def)

lemma seed_pg_keeps:
  assumes "SeedDraft_pg now nid ws et eid s = Inr (r, t)" and "outcome_inv s"
  shows "outcome_inv t \<and> evaluations t = evaluations s"
  using assms
  by (auto simp: SeedDraft_pg_def Let_def row_ok_def
      split: sum.splits outcome_error.splits if_splits prod.splits
      dest!: insert_draft_keeps [OF _ assms(2)])

lemma seed_sq_keeps:
  assumes "SeedDraft_sq now nid ws et eid s = Inr (r, t)" and "outcome_inv s"
  shows "outcome_inv t \<and> evaluations t = evaluations s"
  using assms
  by (auto simp: SeedDraft_sq_def Let_def row_ok_def
      split: sum.splits outcome_error.splits if_splits prod.splits
      dest!: insert_draft_keeps [OF _ assms(2)])

lemma drafts_filter: "drafts (filter P rs) = filter P (drafts rs)"
  by (simp add: drafts_def conj_commute)

lemma prune_keeps:
  "outcome_inv s \<Longrightarrow> outcomes t = filter P (outcomes s) \<Longrightarrow> outcome_inv t"
  by (simp add: outcome_inv_def distinct_map_filter drafts_filter)

lemma evaluate_keeps:
  assumes "evaluations t = evaluations s @ [e] \<and> outcomes t = outcomes s \<and> ev_id e \<notin> ev_id ` set (evaluations s)"
    and "outcome_inv s" and "eval_inv s"
  shows "outcome_inv t \<and> eval_inv t"
  using assms by (auto simp: outcome_inv_def eval_inv_def)

lemma evaluate_pg_step: "CreateEvaluation_pg now nid ep s = Inr (e, t) \<Longrightarrow>
    evaluations t = evaluations s @ [e] \<and> outcomes t = outcomes s \<and> ev_id e \<notin> ev_id ` set (evaluations s)"
  by (auto simp: CreateEvaluation_pg_def Let_def split: if_splits)

lemma getEvalByID_sq_inserted:
  "ev_id e \<notin> ev_id ` set es \<Longrightarrow> getEvalByID_sq (ev_id e) (db\<lparr>evaluations := es @ [e]\<rparr>) = Inr e"
proof -
  assume "ev_id e \<notin> ev_id ` set es"
  then have "List.find (\<lambda>x. ev_id x = ev_id e) (es @ [e]) = Some e"
    by (induction es) auto
  then show ?thesis by (simp add: getEvalByID_sq_def first_row_def)
qed

lemma CreateEvaluation_sq_insert:
  "CreateEvaluation_sq now nid ep s =
     (let e = \<lparr>ev_id = nid, ev_workspace = ep_workspace ep, ev_outcome = ep_outcome ep,
               ev_analysis = ep_analysis ep,
               ev_lessons = (if ep_lessons ep = [] then lit ''[]'' else ep_lessons ep),
               ev_suggestions = (if ep_suggestions ep = [] then lit ''[]'' else ep_suggestions ep),
               ev_created = sq_ts now\<rparr>
      in if nid \<in> set (map ev_id (evaluations s)) then Inl ErrUnique
         else Inr (e, s\<lparr>evaluations := evaluations s @ [e]\<rparr>))"
proof (cases "nid \<in> set (map ev_id (evaluations s))")
  case True
  then show ?thesis by (simp add: CreateEvaluation_sq_def Let_def)
next
  case False
  then show ?thesis
    using getEvalByID_sq_inserted [of "\<lparr>ev_id = nid, ev_workspace = ep_workspace ep, ev_outcome = ep_outcome ep,
               ev_analysis = ep_analysis ep,
               ev_lessons = (if ep_lessons ep = [] then lit ''[]'' else ep_lessons ep),
               ev_suggestions = (if ep_suggestions ep = [] then lit ''[]'' else ep_suggestions ep),
               ev_created = sq_ts now\<rparr>" "evaluations s" s]
    by (simp add: CreateEvaluation_sq_def Let_def)
qed

lemma evaluate_sq_step: "CreateEvaluation_sq now nid ep s = Inr (e, t) \<Longrightarrow>
    evaluations t = evaluations s @ [e] \<and> outcomes t = outcomes s \<and> ev_id e \<notin> ev_id ` set (evaluations s)"
  by (auto simp: CreateEvaluation_sq_insert Let_def split: if_splits)

lemma eval_inv_eq: "evaluations t = evaluations s \<Longrightarrow> eval_inv s \<Longrightarrow> eval_inv t"
  by (simp add: eval_inv_def)

lemma write_evaluations:
  "CreateOutcome_pg now nid p s = Inr (r, t) \<Longrightarrow> evaluations t = evaluations s"
  "CreateOutcome_sq now nid p s = Inr (r, t) \<Longrightarrow> evaluations t = evaluations s"
  "FinalizeDraft_pg now i p s = Inr (r, t) \<Longrightarrow> evaluations t = evaluations s"
  "FinalizeDraft_sq now i p s = Inr (r, t) \<Longrightarrow> evaluations t = evaluations s"
  by (auto simp: FinalizeDraft_pg_def FinalizeDraft_sq_def dest!: create_pg_Inr create_sq_Inr
      split: option.splits sum.splits)

lemma record_evaluations:
  assumes "si \<in> {pg_store, sq_store}" and "params_ok p" and "outcome_inv s"
    and "RecordExecutionResult si alone now nid p s = (res, t)"
  shows "evaluations t = evaluations s"
  using append_only_run [OF assms(1,3,2) fair_alone, of now nid] assms(4)
  by (auto simp: append_only_def)

lemma outcome_step_keeps: "outcome_step s t \<Longrightarrow> outcome_inv s \<Longrightarrow> eval_inv s \<Longrightarrow> outcome_inv t \<and> eval_inv t"
proof (induction rule: outcome_step.induct)
  case (create_pg p now nid s r t)
  then show ?case using pg.create_keeps write_evaluations(1) eval_inv_eq by blast
next
  case (create_sq p now nid s r t)
  then show ?case using sq.create_keeps write_evaluations(2) eval_inv_eq by blast
next
  case (finalize_pg p now i s r t)
  then show ?case using pg.finalize_keeps write_evaluations(3) eval_inv_eq by blast
next
  case (finalize_sq p now i s r t)
  then show ?case using sq.finalize_keeps write_evaluations(4) eval_inv_eq by blast
next
  case (seed_pg now nid ws et eid s r t)
  then show ?case using seed_pg_keeps eval_inv_eq by blast
next
  case (seed_sq now nid ws et eid s r t)
  then show ?case using seed_sq_keeps eval_inv_eq by blast
next
  case (evaluate_pg now nid ep s e t)
  then show ?case using evaluate_keeps [OF evaluate_pg_step] by blast
next
  case (evaluate_sq now nid ep s e t)
  then show ?case using evaluate_keeps [OF evaluate_sq_step] by blast
next
  case (prune_pg now s n t)
  then show ?case
    using prune_keeps [of s t "\<lambda>r. \<not> o_created r < pg_ts now"]
    by (auto simp: PruneOlderThan_pg_def Let_def eval_inv_def distinct_map_filter)
next
  case (prune_sq now s n t)
  then show ?case
    using prune_keeps [of s t "\<lambda>r. \<not> o_created r < sq_ts now"]
    by (auto simp: PruneOlderThan_sq_def Let_def eval_inv_def distinct_map_filter)
next
  case (recording si p now' nid s res t)
  then show ?case
    using record_inv [OF recording(1) _ recording(2,3)] record_evaluations [OF recording(1,2) _ recording(3)]
      eval_inv_eq by blast
qed

text \<open>
  C6.  In every database either backend can reach by any sequence of its operations (pruning
  and concurrent recordings included) outcome ids are unique, each entity has at most one
  open draft per workspace, every row has distinct rule links and an object as metrics, and
  evaluation ids are unique.
\<close>

theorem outcome_reach_inv:
  assumes "outcome_reach s"
  shows "outcome_inv s \<and> eval_inv s"
  using assms
proof (induction rule: outcome_reach.induct)
  case empty
  then show ?case by (simp add: outcome_inv_def eval_inv_def drafts_def)
next
  case (step s t)
  then show ?case using outcome_step_keeps by blast
qed

end
