(* ===== verification/Outcome_Witnesses.thy ===== *)
theory Outcome_Witnesses
  imports Outcome_Parity
begin

text \<open>
  Concrete instances of the properties of the outcome context: a task with a seeded draft, the
  same task with a finalized row, and calls on them, evaluated on the model.
\<close>

section \<open>Databases and calls\<close>

definition ex_row :: outcome where
  "ex_row = \<lparr>o_id = 2, o_workspace = Some 7, o_entity_type = ''task'', o_entity_id = 5, o_result = Unknown,
     o_metrics = Some (JObj 0 [(lit ''m'', lit ''2'')]), o_notes = lit ''seed'', o_rule_ids = [3],
     o_session = Some 9, o_supersedes = None, o_created = 1000000, o_updated = 1000000\<rparr>"

definition ex_draft_db :: outcome_db where
  "ex_draft_db = \<lparr>outcomes = [ex_row], evaluations = []\<rparr>"

definition ex_done_db :: outcome_db where
  "ex_done_db = \<lparr>outcomes = [ex_row\<lparr>o_result := Success\<rparr>], evaluations = []\<rparr>"

definition ex_empty_db :: outcome_db where
  "ex_empty_db = \<lparr>outcomes = [], evaluations = []\<rparr>"

definition ex_call :: outcome_params where
  "ex_call = \<lparr>p_workspace = Some 7, p_entity_type = ''task'', p_entity_id = 5, p_result = Unknown,
     p_metrics = Some (JObj 0 [(lit ''n'', lit ''1'')]), p_notes = lit ''late'', p_rule_ids = [3, 4],
     p_session = None, p_supersedes = None\<rparr>"

definition ex_now :: "nat \<Rightarrow> instant" where
  "ex_now k = 9000000"

text \<open>Another caller that finalizes the draft between the read and the write of each attempt.\<close>

definition ex_rival :: "nat \<Rightarrow> outcome_db \<Rightarrow> outcome_db" where
  "ex_rival k s = (if even k then (case FinalizeDraft_sq 3000000 2
      (ex_call\<lparr>p_result := Failure, p_metrics := None\<rparr>) s of Inl e \<Rightarrow> s | Inr (r, t) \<Rightarrow> t) else s)"

abbreviation ex_run :: "store_iface \<Rightarrow> outcome_params \<Rightarrow> outcome_db \<Rightarrow> record_result \<times> outcome_db" where
  "ex_run si p s \<equiv> RecordExecutionResult si alone ex_now 11 p s"

lemma pg_mem: "pg_store \<in> {pg_store, sq_store}" and sq_mem: "sq_store \<in> {pg_store, sq_store}"
  by simp_all

lemma ex_draft_ok: "outcome_inv ex_draft_db" "params_ok ex_call"
  by code_simp+

lemma ex_done_ok: "outcome_inv ex_done_db"
  by code_simp

lemma ex_empty_ok: "outcome_inv ex_empty_db"
  by code_simp

lemma ex_rival_fair: "fair_env ex_rival"
  unfolding fair_env_def ex_rival_def
proof (intro allI impI)
  fix k s
  assume inv: "outcome_inv s"
  have ok: "params_ok (ex_call\<lparr>p_result := Failure, p_metrics := None\<rparr>)" by code_simp
  show "outcome_inv (if even k then (case FinalizeDraft_sq 3000000 2
      (ex_call\<lparr>p_result := Failure, p_metrics := None\<rparr>) s of Inl e \<Rightarrow> s | Inr (r, t) \<Rightarrow> t) else s)"
    using sq.finalize_keeps [OF _ inv ok] inv by (auto split: sum.splits)
qed

section \<open>The properties at these inputs\<close>

text \<open>The rival wins the first race; the second attempt supersedes its row.\<close>

lemma record_refines_witness:
  "run_spec sq_store ex_rival 11 (ex_call\<lparr>p_result := Success\<rparr>) ex_draft_db
     (fst (RecordExecutionResult sq_store ex_rival ex_now 11 (ex_call\<lparr>p_result := Success\<rparr>) ex_draft_db))
     (snd (RecordExecutionResult sq_store ex_rival ex_now 11 (ex_call\<lparr>p_result := Success\<rparr>) ex_draft_db)) \<and>
   length (outcomes (snd (RecordExecutionResult sq_store ex_rival ex_now 11
     (ex_call\<lparr>p_result := Success\<rparr>) ex_draft_db))) = 2"
proof
  have ok: "params_ok (ex_call\<lparr>p_result := Success\<rparr>)" by code_simp
  show "run_spec sq_store ex_rival 11 (ex_call\<lparr>p_result := Success\<rparr>) ex_draft_db
     (fst (RecordExecutionResult sq_store ex_rival ex_now 11 (ex_call\<lparr>p_result := Success\<rparr>) ex_draft_db))
     (snd (RecordExecutionResult sq_store ex_rival ex_now 11 (ex_call\<lparr>p_result := Success\<rparr>) ex_draft_db))"
    by (rule record_refines [OF _ ex_draft_ok(1) ok ex_rival_fair]) simp
  show "length (outcomes (snd (RecordExecutionResult sq_store ex_rival ex_now 11
     (ex_call\<lparr>p_result := Success\<rparr>) ex_draft_db))) = 2" by code_simp
qed

lemma record_append_only_witness:
  "\<exists>sw. env_reach ex_rival ex_draft_db sw \<and>
     append_only sw (snd (RecordExecutionResult pg_store ex_rival ex_now 11 ex_call ex_draft_db)) \<and>
     outcome_inv (snd (RecordExecutionResult pg_store ex_rival ex_now 11 ex_call ex_draft_db))"
  by (rule record_append_only [OF _ ex_draft_ok ex_rival_fair]) simp

section \<open>Runs\<close>

text \<open>The call enriches the draft; on Postgres the metrics document is printed by jsonb.\<close>

definition ex_enriched :: "nat \<Rightarrow> outcome" where
  "ex_enriched layout = ex_row\<lparr>o_metrics := Some (JObj layout [(lit ''m'', lit ''2''), (lit ''n'', lit ''1'')]),
     o_notes := lit ''seed'' @ nn @ lit ''late'', o_rule_ids := [3, 4], o_updated := 9000000\<rparr>"

abbreviation one_row :: "outcome \<Rightarrow> outcome_db" where
  "one_row r \<equiv> \<lparr>outcomes = [r], evaluations = []\<rparr>"

lemma run_enrich:
  "ex_run pg_store ex_call ex_draft_db =
     (Inr (ex_enriched 1, ActionDraftEnriched, lit ''seed''), one_row (ex_enriched 1))"
  by code_simp

lemma record_alone_witness: "ex_enriched 1 \<in> set (outcomes (one_row (ex_enriched 1)))"
  using record_alone [OF pg_mem ex_draft_ok run_enrich] by simp


text \<open>A terminal verdict on the finalized row supersedes it, on SQLite.\<close>

abbreviation ex_final :: outcome_params where
  "ex_final \<equiv> ex_call\<lparr>p_result := Regressed\<rparr>"

definition ex_superseding :: outcome where
  "ex_superseding = ex_row\<lparr>o_id := 11, o_result := Regressed, o_metrics := p_metrics ex_call,
     o_notes := lit ''late'', o_rule_ids := [3, 4], o_session := None, o_supersedes := Some 2,
     o_created := 9000000, o_updated := 9000000\<rparr>"

lemma ex_final_ok: "params_ok ex_final"
  by code_simp

lemma run_supersede:
  "ex_run sq_store ex_final ex_done_db = (Inr (ex_superseding, ActionSuperseded, []),
     \<lparr>outcomes = [ex_row\<lparr>o_result := Success\<rparr>, ex_superseding], evaluations = []\<rparr>)"
  by code_simp

lemma retry_terminal_settles_witness:
  "RecordExecutionResult sq_store alone ex_now 12 ex_final
       \<lparr>outcomes = [ex_row\<lparr>o_result := Success\<rparr>, ex_superseding], evaluations = []\<rparr> =
     (Inr (ex_superseding, ActionReplayedIdempotent, o_notes ex_superseding),
      \<lparr>outcomes = [ex_row\<lparr>o_result := Success\<rparr>, ex_superseding], evaluations = []\<rparr>)"
  by (rule retry_terminal_settles [OF sq_mem ex_done_ok ex_final_ok run_supersede])
    (simp_all add: ex_call_def ex_superseding_def ex_done_db_def ex_row_def)

lemma supersede_inherits_witness: "prefix [3] (o_rule_ids ex_superseding)"
  using supersede_inherits [OF sq_mem ex_done_ok ex_final_ok run_supersede]
  by (auto simp: newest_def ex_done_db_def ex_row_def)

text \<open>Finalizing the draft, and the same call again.\<close>

lemma run_finalize:
  "ex_run sq_store ex_final ex_draft_db = (Inr ((ex_enriched 0)\<lparr>o_result := Regressed\<rparr>,
     ActionFinalizedDraft, lit ''seed''), one_row ((ex_enriched 0)\<lparr>o_result := Regressed\<rparr>))"
  by code_simp

lemma finalize_retry_duplicates_witness:
  "\<exists>r'. RecordExecutionResult sq_store alone ex_now 12 ex_final (one_row ((ex_enriched 0)\<lparr>o_result := Regressed\<rparr>)) =
     (Inr (r', ActionSuperseded, []), (one_row ((ex_enriched 0)\<lparr>o_result := Regressed\<rparr>))\<lparr>outcomes :=
        outcomes (one_row ((ex_enriched 0)\<lparr>o_result := Regressed\<rparr>)) @ [r']\<rparr>) \<and>
     o_result r' = o_result ((ex_enriched 0)\<lparr>o_result := Regressed\<rparr>) \<and>
     o_supersedes r' = Some (o_id ((ex_enriched 0)\<lparr>o_result := Regressed\<rparr>))"
  by (rule finalize_retry_duplicates [OF sq_mem ex_draft_ok(1) ex_final_ok run_finalize])
    (simp_all add: ex_call_def ex_enriched_def ex_row_def MaxNotesTotalRunes_def)

text \<open>The first recording of an entity on Postgres, and the same call again.\<close>

definition ex_first :: outcome where
  "ex_first = ex_superseding\<lparr>o_metrics := Some (JObj 1 [(lit ''n'', lit ''1'')]), o_supersedes := None\<rparr>"

lemma run_first:
  "ex_run pg_store ex_final ex_empty_db = (Inr (ex_first, ActionCreated, []), one_row ex_first)"
  by code_simp

lemma pg_metrics_retry_duplicates_witness:
  "\<exists>r'. RecordExecutionResult pg_store alone ex_now 12 ex_final (one_row ex_first) =
     (Inr (r', ActionSuperseded, []), (one_row ex_first)\<lparr>outcomes := outcomes (one_row ex_first) @ [r']\<rparr>) \<and>
     o_result r' = o_result ex_first \<and> o_notes r' = o_notes ex_first \<and> o_supersedes r' = Some (o_id ex_first)"
  by (rule pg_metrics_retry_duplicates [OF ex_empty_ok ex_final_ok run_first, where kvs = "[(lit ''n'', lit ''1'')]"])
    (simp_all add: ex_call_def ex_first_def ex_superseding_def)

text \<open>The terminal row has id 20 and the instant of the call, the generated id is 11.\<close>

definition ex_tie_row :: outcome where
  "ex_tie_row = ex_row\<lparr>o_id := 20, o_result := Success, o_created := 9000000\<rparr>"

definition ex_tied :: outcome where
  "ex_tied = ex_superseding\<lparr>o_result := Unknown, o_supersedes := Some 20\<rparr>"

lemma run_tie:
  "ex_run sq_store ex_call (one_row ex_tie_row) = (Inr (ex_tied, ActionSuperseded, []),
     \<lparr>outcomes = [ex_tie_row, ex_tied], evaluations = []\<rparr>)"
  by code_simp

lemma hidden_draft_blocks_witness:
  "RecordExecutionResult sq_store alone ex_now 12 ex_call \<lparr>outcomes = [ex_tie_row, ex_tied], evaluations = []\<rparr> =
     (Inl ErrUnique, \<lparr>outcomes = [ex_tie_row, ex_tied], evaluations = []\<rparr>)"
proof -
  have ok: "outcome_inv (one_row ex_tie_row)" by code_simp
  have nw: "newest ex_call (one_row ex_tie_row) ex_tie_row" unfolding newest_def by code_simp
  show ?thesis
    by (rule hidden_draft_blocks [OF sq_mem ok ex_draft_ok(2) run_tie _ nw])
      (simp_all add: ex_call_def ex_tied_def ex_tie_row_def ex_superseding_def)
qed


lemma outcome_reach_inv_witness:
  "outcome_inv (snd (ex_run sq_store ex_final (snd (projr (SeedDraft_sq 0 2 (Some 7) ''task'' 5 ex_empty_db)))))"
proof -
  have seed: "SeedDraft_sq 0 2 (Some 7) ''task'' 5 ex_empty_db =
      Inr (fst (projr (SeedDraft_sq 0 2 (Some 7) ''task'' 5 ex_empty_db)),
           snd (projr (SeedDraft_sq 0 2 (Some 7) ''task'' 5 ex_empty_db)))" by code_simp
  let ?s = "snd (projr (SeedDraft_sq 0 2 (Some 7) ''task'' 5 ex_empty_db))"
  have "outcome_reach ?s"
    by (rule outcome_reach.step [OF _ outcome_step.seed_sq [OF seed]])
      (simp add: ex_empty_db_def outcome_reach.empty)
  then have "outcome_reach (snd (ex_run sq_store ex_final ?s))"
    by (rule outcome_reach.step) (rule outcome_step.recording [OF _ ex_final_ok prod.collapse [symmetric]], simp)
  then show ?thesis using outcome_reach_inv by blast
qed

end
