(* ===== verification/Rule_Stores.thy ===== *)
theory Rule_Stores
  imports Outcome_Stores Complex_Main
begin

text \<open>
  Behavior rules: \<open>internal/behaviorrule\<close> (Postgres, suffix \<open>_pg\<close>) and
  \<open>internal/storage/sqlite/behaviorrule.go\<close> (suffix \<open>_sq\<close>).  The confidence column is
  \<open>NUMERIC(5,2)\<close> in Postgres, an integer number of hundredths here, and \<open>REAL\<close> in SQLite, a
  rational number rounded to 53 significant bits after every operation.
\<close>

section \<open>Rows\<close>

datatype rule_status = Proposed | Active | Rejected | Deprecated

record 'c behavior_rule =
  br_id :: uuid
  br_workspace :: "uuid option"
  br_condition :: ustr
  br_action :: ustr
  br_source_type :: string
  br_source :: "uuid option"
  br_confidence :: 'c
  br_status :: rule_status
  br_created :: instant
  br_updated :: instant

record rule_params =
  rp_workspace :: "uuid option"
  rp_condition :: ustr
  rp_action :: ustr
  rp_source_type :: string
  rp_source :: "uuid option"
  rp_confidence :: rat

record rule_filter =
  rf_workspace :: "uuid option"
  rf_status :: "rule_status option"
  rf_limit :: int

datatype rule_error = RuleNotFound | RuleInvalidOutcome | RuleConstraint

definition AllowedSourceTypes :: "string list" where
  "AllowedSourceTypes = [''reflection'', ''outcome'', ''manual'']"

text \<open>The workspace argument of a call: its own, or else the store's scope.\<close>

definition ws_arg :: "uuid option \<Rightarrow> uuid option \<Rightarrow> uuid option" where
  "ws_arg scope own = (case own of None \<Rightarrow> scope | Some w \<Rightarrow> Some w)"

definition rule_row :: "uuid option \<Rightarrow> uuid \<Rightarrow> 'c behavior_rule \<Rightarrow> bool" where
  "rule_row scope i r \<longleftrightarrow> br_id r = i \<and> in_scope scope (br_workspace r)"

text \<open>One \<open>UPDATE \<dots> RETURNING\<close>; no row is \<open>ErrNotFound\<close>.\<close>

definition update_rule :: "uuid option \<Rightarrow> uuid \<Rightarrow> ('c behavior_rule \<Rightarrow> 'c behavior_rule)
    \<Rightarrow> 'c behavior_rule list \<Rightarrow> rule_error + 'c behavior_rule \<times> 'c behavior_rule list" where
  "update_rule scope i f rules =
     (case first_row (rule_row scope i) rules of
        None \<Rightarrow> Inl RuleNotFound
      | Some r \<Rightarrow> Inr (f r, update_rows (rule_row scope i) f rules))"

section \<open>The Postgres store\<close>

text \<open>A value stored into \<open>NUMERIC(5,2)\<close> is rounded to hundredths, half away from zero.\<close>

definition numeric_hundredths :: "rat \<Rightarrow> int" where
  "numeric_hundredths c = (if c < 0 then - \<lfloor>- c * 100 + 1 / 2\<rfloor> else \<lfloor>c * 100 + 1 / 2\<rfloor>)"

definition Propose_pg :: "uuid option \<Rightarrow> instant \<Rightarrow> uuid \<Rightarrow> rule_params \<Rightarrow> int behavior_rule list
    \<Rightarrow> rule_error + int behavior_rule \<times> int behavior_rule list" where
  "Propose_pg scope now nid p rules =
     (let confidence = (if rp_confidence p \<le> 0 \<or> rp_confidence p > 1 then 1 / 2 else rp_confidence p);
          r = \<lparr>br_id = nid, br_workspace = ws_arg scope (rp_workspace p), br_condition = rp_condition p,
               br_action = rp_action p, br_source_type = rp_source_type p, br_source = rp_source p,
               br_confidence = numeric_hundredths confidence, br_status = Proposed,
               br_created = pg_ts now, br_updated = pg_ts now\<rparr>
      in if nid \<in> set (map br_id rules) \<or> rp_source_type p \<notin> set AllowedSourceTypes
         then Inl RuleConstraint else Inr (r, rules @ [r]))"

definition List_pg :: "uuid option \<Rightarrow> rule_filter \<Rightarrow> int behavior_rule list \<Rightarrow> int behavior_rule list" where
  "List_pg scope p rules =
     (let limit = (if rf_limit p \<le> 0 then 20 else rf_limit p)
      in take (nat limit) (sort_key (\<lambda>r. - br_created r)
           (filter (\<lambda>r. in_scope (ws_arg scope (rf_workspace p)) (br_workspace r) \<and>
              (case rf_status p of None \<Rightarrow> True | Some st \<Rightarrow> br_status r = st)) rules)))"

definition ApplyOutcome_pg :: "uuid option \<Rightarrow> instant \<Rightarrow> uuid \<Rightarrow> string \<Rightarrow> int behavior_rule list
    \<Rightarrow> rule_error + int behavior_rule \<times> int behavior_rule list" where
  "ApplyOutcome_pg scope now i outcome rules =
     (if outcome = ''success'' then
        update_rule scope i (\<lambda>r. r\<lparr>br_status := (if br_status r = Proposed then Active else br_status r),
          br_confidence := min (br_confidence r + 5) 100, br_updated := pg_ts now\<rparr>) rules
      else if outcome = ''failure'' then
        update_rule scope i (\<lambda>r. r\<lparr>br_confidence := max (br_confidence r - 10) 0, br_updated := pg_ts now\<rparr>) rules
      else Inl RuleInvalidOutcome)"

definition Deprecate_pg :: "uuid option \<Rightarrow> instant \<Rightarrow> uuid \<Rightarrow> int behavior_rule list
    \<Rightarrow> rule_error + int behavior_rule \<times> int behavior_rule list" where
  "Deprecate_pg scope now i rules =
     update_rule scope i (\<lambda>r. r\<lparr>br_status := Deprecated, br_updated := pg_ts now\<rparr>) rules"

definition PruneRules_pg :: "instant \<Rightarrow> int behavior_rule list \<Rightarrow> nat \<times> int behavior_rule list" where
  "PruneRules_pg cutoff rules =
     (let gone = (\<lambda>r. br_status r \<in> {Rejected, Deprecated} \<and> br_created r < pg_ts cutoff)
      in (length (filter gone rules), filter (\<lambda>r. \<not> gone r) rules))"

section \<open>The SQLite store\<close>

text \<open>
  Rounding to an IEEE double: scale until the significand has 53 bits, round to even.  The
  confidences lie in \<open>[0, 1.05]\<close>, so neither overflow nor subnormal numbers occur; \<open>scale_bits\<close>
  has fuel for every normal double.
\<close>

fun scale_bits :: "nat \<Rightarrow> rat \<Rightarrow> nat" where
  "scale_bits 0 x = 0"
| "scale_bits (Suc n) x = (if x \<ge> 4503599627370496 then 0 else Suc (scale_bits n (2 * x)))"

definition round_even :: "rat \<Rightarrow> int" where
  "round_even x = (let f = \<lfloor>x\<rfloor>; d = x - of_int f in
     if d < 1 / 2 then f else if d > 1 / 2 then f + 1 else if even f then f else f + 1)"

definition fl_pos :: "rat \<Rightarrow> rat" where
  "fl_pos x = (let k = scale_bits 1074 x in of_int (round_even (x * 2 ^ k)) / 2 ^ k)"

definition fl :: "rat \<Rightarrow> rat" where
  "fl x = (if x = 0 then 0 else if x < 0 then - fl_pos (- x) else fl_pos x)"

definition Propose_sq :: "uuid option \<Rightarrow> instant \<Rightarrow> uuid \<Rightarrow> rule_params \<Rightarrow> rat behavior_rule list
    \<Rightarrow> rule_error + rat behavior_rule \<times> rat behavior_rule list" where
  "Propose_sq scope now nid p rules =
     (let confidence = (if rp_confidence p \<le> 0 \<or> rp_confidence p > 1 then 1 / 2 else rp_confidence p);
          r = \<lparr>br_id = nid, br_workspace = ws_arg scope (rp_workspace p), br_condition = rp_condition p,
               br_action = rp_action p, br_source_type = rp_source_type p, br_source = rp_source p,
               br_confidence = confidence, br_status = Proposed,
               br_created = sq_ts now, br_updated = sq_ts now\<rparr>
      in if nid \<in> set (map br_id rules) \<or> rp_source_type p \<notin> set AllowedSourceTypes
         then Inl RuleConstraint else Inr (r, rules @ [r]))"

definition List_sq :: "uuid option \<Rightarrow> rule_filter \<Rightarrow> rat behavior_rule list \<Rightarrow> rat behavior_rule list" where
  "List_sq scope p rules =
     (let limit = (if rf_limit p \<le> 0 then 20 else rf_limit p)
      in take (nat limit) (sort_key (\<lambda>r. - br_created r)
           (filter (\<lambda>r. in_scope (ws_arg scope (rf_workspace p)) (br_workspace r) \<and>
              (case rf_status p of None \<Rightarrow> True | Some st \<Rightarrow> br_status r = st)) rules)))"

definition ApplyOutcome_sq :: "uuid option \<Rightarrow> instant \<Rightarrow> uuid \<Rightarrow> string \<Rightarrow> rat behavior_rule list
    \<Rightarrow> rule_error + rat behavior_rule \<times> rat behavior_rule list" where
  "ApplyOutcome_sq scope now i outcome rules =
     (if outcome = ''success'' then
        update_rule scope i (\<lambda>r. r\<lparr>br_status := (if br_status r = Proposed then Active else br_status r),
          br_confidence := min (fl (br_confidence r + fl (5 / 100))) 1, br_updated := sq_ts now\<rparr>) rules
      else if outcome = ''failure'' then
        update_rule scope i (\<lambda>r. r\<lparr>br_confidence := max (fl (br_confidence r - fl (10 / 100))) 0,
          br_updated := sq_ts now\<rparr>) rules
      else Inl RuleInvalidOutcome)"

definition Deprecate_sq :: "uuid option \<Rightarrow> instant \<Rightarrow> uuid \<Rightarrow> rat behavior_rule list
    \<Rightarrow> rule_error + rat behavior_rule \<times> rat behavior_rule list" where
  "Deprecate_sq scope now i rules =
     update_rule scope i (\<lambda>r. r\<lparr>br_status := Deprecated, br_updated := sq_ts now\<rparr>) rules"

definition PruneRules_sq :: "instant \<Rightarrow> rat behavior_rule list \<Rightarrow> nat \<times> rat behavior_rule list" where
  "PruneRules_sq cutoff rules =
     (let gone = (\<lambda>r. br_status r \<in> {Rejected, Deprecated} \<and> br_created r < sq_ts cutoff)
      in (length (filter gone rules), filter (\<lambda>r. \<not> gone r) rules))"

section \<open>The weekly governance job\<close>

text \<open>
  The operations of \<open>behaviorrule.StoreIface\<close> the job calls, and the outcome listing;
  \<open>ri_low\<close> is the comparison of a confidence with 0.10.
\<close>

record 'c rule_iface =
  ri_apply :: "instant \<Rightarrow> uuid \<Rightarrow> string \<Rightarrow> 'c behavior_rule list
     \<Rightarrow> rule_error + 'c behavior_rule \<times> 'c behavior_rule list"
  ri_deprecate :: "instant \<Rightarrow> uuid \<Rightarrow> 'c behavior_rule list
     \<Rightarrow> rule_error + 'c behavior_rule \<times> 'c behavior_rule list"
  ri_list :: "rule_filter \<Rightarrow> 'c behavior_rule list \<Rightarrow> 'c behavior_rule list"
  ri_low :: "'c \<Rightarrow> bool"

definition pg_rules :: "uuid option \<Rightarrow> int rule_iface" where
  "pg_rules scope = \<lparr>ri_apply = ApplyOutcome_pg scope, ri_deprecate = Deprecate_pg scope,
     ri_list = List_pg scope, ri_low = (\<lambda>c. c < 10)\<rparr>"

definition sq_rules :: "uuid option \<Rightarrow> rat rule_iface" where
  "sq_rules scope = \<lparr>ri_apply = ApplyOutcome_sq scope, ri_deprecate = Deprecate_sq scope,
     ri_list = List_sq scope, ri_low = (\<lambda>c. c < fl (10 / 100))\<rparr>"

definition days :: "int \<Rightarrow> instant" where
  "days n = n * 86400000000000"

definition behaviorGovernanceOutcomeLimit :: int where "behaviorGovernanceOutcomeLimit = 200"
definition behaviorGovernanceLookbackDays :: int where "behaviorGovernanceLookbackDays = 7"
definition behaviorGovernanceMinActiveDays :: int where "behaviorGovernanceMinActiveDays = 30"
definition behaviorGovernanceActiveRuleLimit :: int where "behaviorGovernanceActiveRuleLimit = 100"

fun vote_of :: "oresult \<Rightarrow> string option" where
  "vote_of Success = Some ''success''"
| "vote_of Failure = Some ''failure''"
| "vote_of Regressed = Some ''failure''"
| "vote_of Partial = None"
| "vote_of Unknown = None"

text \<open>The inner loop over \<open>o.RelatedRuleIDs\<close>: every error is logged and skipped.\<close>

fun apply_votes :: "'c rule_iface \<Rightarrow> instant \<Rightarrow> string \<Rightarrow> uuid list \<Rightarrow> nat \<times> 'c behavior_rule list
    \<Rightarrow> nat \<times> 'c behavior_rule list" where
  "apply_votes ri now brOutcome [] (applyCount, rules) = (applyCount, rules)"
| "apply_votes ri now brOutcome (ruleID # ruleIDs) (applyCount, rules) =
     (case ri_apply ri now ruleID brOutcome rules of
        Inl applyErr \<Rightarrow> apply_votes ri now brOutcome ruleIDs (applyCount, rules)
      | Inr (r, rules') \<Rightarrow> apply_votes ri now brOutcome ruleIDs (applyCount + 1, rules'))"

fun outcome_votes :: "'c rule_iface \<Rightarrow> instant \<Rightarrow> uuid list \<Rightarrow> instant \<Rightarrow> outcome list
    \<Rightarrow> nat \<times> 'c behavior_rule list \<Rightarrow> nat \<times> 'c behavior_rule list" where
  "outcome_votes ri now superseded cutoff [] acc = acc"
| "outcome_votes ri now superseded cutoff (r # rs) acc =
     (if o_id r \<in> set superseded then outcome_votes ri now superseded cutoff rs acc
      else if o_created r < cutoff then outcome_votes ri now superseded cutoff rs acc
      else if o_rule_ids r = [] then outcome_votes ri now superseded cutoff rs acc
      else (case vote_of (o_result r) of
              None \<Rightarrow> outcome_votes ri now superseded cutoff rs acc
            | Some brOutcome \<Rightarrow> outcome_votes ri now superseded cutoff rs
                (apply_votes ri now brOutcome (o_rule_ids r) acc)))"

definition superseded_ids :: "outcome list \<Rightarrow> uuid list" where
  "superseded_ids rs = concat (map (\<lambda>r. case o_supersedes r of None \<Rightarrow> [] | Some i \<Rightarrow> [i]) rs)"

fun deprecate_loop :: "'c rule_iface \<Rightarrow> instant \<Rightarrow> instant \<Rightarrow> 'c behavior_rule list
    \<Rightarrow> nat \<times> 'c behavior_rule list \<Rightarrow> nat \<times> 'c behavior_rule list" where
  "deprecate_loop ri now threshold [] acc = acc"
| "deprecate_loop ri now threshold (r # rs) (n, rules) =
     (if \<not> ri_low ri (br_confidence r) then deprecate_loop ri now threshold rs (n, rules)
      else if br_created r > threshold then deprecate_loop ri now threshold rs (n, rules)
      else (case ri_deprecate ri now (br_id r) rules of
              Inl depErr \<Rightarrow> deprecate_loop ri now threshold rs (n, rules)
            | Inr (r', rules') \<Rightarrow> deprecate_loop ri now threshold rs (n + 1, rules')))"

definition autoDeprecateStaleLowConfidenceRules :: "'c rule_iface \<Rightarrow> instant \<Rightarrow> uuid option
    \<Rightarrow> 'c behavior_rule list \<Rightarrow> nat \<times> 'c behavior_rule list" where
  "autoDeprecateStaleLowConfidenceRules ri now ws rules =
     (let activeRules = ri_list ri \<lparr>rf_workspace = ws, rf_status = Some Active,
            rf_limit = behaviorGovernanceActiveRuleLimit\<rparr> rules;
          deprecateThreshold = now - days behaviorGovernanceMinActiveDays
      in deprecate_loop ri now deprecateThreshold activeRules (0, rules))"

text \<open>\<open>recent\<close> is what \<open>ListRecentOutcomes\<close> returned; the counts are those of the log lines.\<close>

definition runBehaviorGovernance :: "'c rule_iface \<Rightarrow> instant \<Rightarrow> uuid option \<Rightarrow> outcome list
    \<Rightarrow> 'c behavior_rule list \<Rightarrow> nat \<times> nat \<times> 'c behavior_rule list" where
  "runBehaviorGovernance ri now ws recent rules =
     (let cutoff = now - days behaviorGovernanceLookbackDays;
          (applyCount, rules1) = outcome_votes ri now (superseded_ids recent) cutoff recent (0, rules);
          (deprecated, rules2) = autoDeprecateStaleLowConfidenceRules ri now ws rules1
      in (applyCount, deprecated, rules2))"

definition runBehaviorGovernance_pg :: "uuid option \<Rightarrow> instant \<Rightarrow> outcome_db \<Rightarrow> int behavior_rule list
    \<Rightarrow> nat \<times> nat \<times> int behavior_rule list" where
  "runBehaviorGovernance_pg ws now db rules =
     runBehaviorGovernance (pg_rules ws) now ws
       (ListRecentOutcomes_pg ws [] behaviorGovernanceOutcomeLimit db) rules"

definition runBehaviorGovernance_sq :: "uuid option \<Rightarrow> instant \<Rightarrow> outcome_db \<Rightarrow> rat behavior_rule list
    \<Rightarrow> nat \<times> nat \<times> rat behavior_rule list" where
  "runBehaviorGovernance_sq ws now db rules =
     runBehaviorGovernance (sq_rules ws) now ws
       (ListRecentOutcomes_sq ws [] behaviorGovernanceOutcomeLimit db) rules"

end
