(* ===== verification/Governance.thy ===== *)
theory Governance
  imports Rule_Stores
begin

text \<open>
  What the weekly governance job does to the rules, and what every operation on them keeps.
  The locale \<open>rule_store\<close> is the contract of \<open>behaviorrule.StoreIface\<close> towards the job; it is
  interpreted on both backends.  Inside it the loops are shown equal to one pass over the
  table: each rule counts the votes of the ballots, then the stale ones retire.
\<close>

section \<open>The specification\<close>

text \<open>The votes that count: from outcomes of the window that nothing in the listing supersedes.\<close>

definition ballots :: "instant \<Rightarrow> outcome list \<Rightarrow> (string \<times> uuid list) list" where
  "ballots cutoff recent = concat (map (\<lambda>r.
     if o_id r \<in> set (superseded_ids recent) \<or> o_created r < cutoff \<or> o_rule_ids r = [] then []
     else (case vote_of (o_result r) of None \<Rightarrow> [] | Some v \<Rightarrow> [(v, o_rule_ids r)])) recent)"

definition tally :: "(string \<Rightarrow> 'c behavior_rule \<Rightarrow> 'c behavior_rule) \<Rightarrow> uuid option
    \<Rightarrow> (string \<times> uuid list) list \<Rightarrow> 'c behavior_rule \<Rightarrow> 'c behavior_rule" where
  "tally bump scope bs r = (if in_scope scope (br_workspace r)
     then fold (\<lambda>(v, ids). bump v ^^ count_list ids (br_id r)) bs r else r)"

text \<open>The rules the job looks at when it retires: the newest hundred active ones in scope.\<close>

definition active_page :: "uuid option \<Rightarrow> 'c behavior_rule list \<Rightarrow> 'c behavior_rule list" where
  "active_page scope rules = take 100 (sort_key (\<lambda>r. - br_created r)
     (filter (\<lambda>r. in_scope scope (br_workspace r) \<and> br_status r = Active) rules))"

definition bump_pg :: "instant \<Rightarrow> string \<Rightarrow> int behavior_rule \<Rightarrow> int behavior_rule" where
  "bump_pg now v r = (if v = ''success''
     then r\<lparr>br_status := (if br_status r = Proposed then Active else br_status r),
            br_confidence := min (br_confidence r + 5) 100, br_updated := pg_ts now\<rparr>
     else r\<lparr>br_confidence := max (br_confidence r - 10) 0, br_updated := pg_ts now\<rparr>)"

definition bump_sq :: "instant \<Rightarrow> string \<Rightarrow> rat behavior_rule \<Rightarrow> rat behavior_rule" where
  "bump_sq now v r = (if v = ''success''
     then r\<lparr>br_status := (if br_status r = Proposed then Active else br_status r),
            br_confidence := min (fl (br_confidence r + fl (5 / 100))) 1, br_updated := sq_ts now\<rparr>
     else r\<lparr>br_confidence := max (fl (br_confidence r - fl (10 / 100))) 0, br_updated := sq_ts now\<rparr>)"

text \<open>Retiring: with unique ids this touches exactly the rows of the page that qualify.\<close>

definition retire :: "('c \<Rightarrow> bool) \<Rightarrow> uuid option \<Rightarrow> instant \<Rightarrow> instant \<Rightarrow> 'c behavior_rule list
    \<Rightarrow> 'c behavior_rule \<Rightarrow> 'c behavior_rule" where
  "retire low scope stamped now page r = (if \<exists>x \<in> set page. br_id x = br_id r \<and> low (br_confidence x) \<and>
        \<not> br_created x > now - days behaviorGovernanceMinActiveDays \<and> in_scope scope (br_workspace r)
     then r\<lparr>br_status := Deprecated, br_updated := stamped\<rparr> else r)"

lemma retire_keys [simp]: "br_id (retire low scope st now page r) = br_id r"
  "br_workspace (retire low scope st now page r) = br_workspace r"
  "br_created (retire low scope st now page r) = br_created r"
  "br_confidence (retire low scope st now page r) = br_confidence r"
  by (simp_all add: retire_def)

lemma retire_cases: "retire low scope st now page r = r \<or> (\<exists>x \<in> set page. br_id x = br_id r \<and>
    low (br_confidence x) \<and> br_created x \<le> now - days behaviorGovernanceMinActiveDays \<and>
    br_status (retire low scope st now page r) = Deprecated)"
  by (auto simp: retire_def not_less)

lemma retire_Cons: "retire low scope st now (x # page) r =
    retire low scope st now page (retire low scope st now [x] r)"
  by (auto simp: retire_def)

section \<open>The contract of the store\<close>

lemma update_rule_rows:
  "(case update_rule scope i f rules of Inl e \<Rightarrow> rules | Inr (r, rules') \<Rightarrow> rules') =
     update_rows (rule_row scope i) f rules"
  by (auto simp: update_rule_def first_row_None intro!: update_rows_id [symmetric] split: option.splits)

lemma update_rule_Inr: "update_rule scope i f rules = Inr (r, rules') \<Longrightarrow>
    rules' = update_rows (rule_row scope i) f rules \<and> (\<exists>x \<in> set rules. rule_row scope i x \<and> r = f x)"
  by (auto simp: update_rule_def dest: first_row_Some split: option.splits)

locale rule_store =
  fixes ri :: "'c rule_iface" and scope :: "uuid option"
    and bump :: "instant \<Rightarrow> string \<Rightarrow> 'c behavior_rule \<Rightarrow> 'c behavior_rule"
    and stamp :: "instant \<Rightarrow> instant" and in_range :: "'c \<Rightarrow> bool"
  assumes apply_law: "v = ''success'' \<or> v = ''failure'' \<Longrightarrow>
        ri_apply ri now i v rules = update_rule scope i (bump now v) rules"
    and deprecate_law: "ri_deprecate ri now i rules =
        update_rule scope i (\<lambda>r. r\<lparr>br_status := Deprecated, br_updated := stamp now\<rparr>) rules"
    and list_law: "ri_list ri \<lparr>rf_workspace = scope, rf_status = Some Active,
        rf_limit = behaviorGovernanceActiveRuleLimit\<rparr> rules = active_page scope rules"
    and bump_keys: "br_id (bump now v r) = br_id r" "br_workspace (bump now v r) = br_workspace r"
        "br_created (bump now v r) = br_created r"
    and bump_range: "in_range (br_confidence r) \<Longrightarrow> in_range (br_confidence (bump now v r))"
    and bump_status: "br_status (bump now v r) =
        (if v = ''success'' \<and> br_status r = Proposed then Active else br_status r)"
begin

lemma bump_pow_keys [simp]:
  "br_id ((bump now v ^^ n) r) = br_id r" "br_workspace ((bump now v ^^ n) r) = br_workspace r"
  "br_created ((bump now v ^^ n) r) = br_created r"
  by (induction n) (simp_all add: bump_keys)

lemma bump_pow_range: "in_range (br_confidence r) \<Longrightarrow> in_range (br_confidence ((bump now v ^^ n) r))"
  by (induction n) (simp_all add: bump_range)

lemma apply_votes_rules:
  assumes "v = ''success'' \<or> v = ''failure''"
  shows "snd (apply_votes ri now v ids (n, rules)) =
    map (\<lambda>r. if in_scope scope (br_workspace r) then (bump now v ^^ count_list ids (br_id r)) r else r) rules"
proof (induction ids arbitrary: n rules)
  case Nil
  then show ?case by (simp add: map_idI)
next
  case (Cons i ids)
  let ?rows = "update_rows (rule_row scope i) (bump now v) rules"
  have "snd (apply_votes ri now v (i # ids) (n, rules)) =
      map (\<lambda>r. if in_scope scope (br_workspace r) then (bump now v ^^ count_list ids (br_id r)) r else r) ?rows"
  proof (cases "update_rule scope i (bump now v) rules")
    case (Inl e)
    with update_rule_rows [where scope = scope and i = i and f = "bump now v" and rules = rules] Cons.IH show ?thesis
      by (simp add: apply_law [OF assms])
  next
    case (Inr x)
    then obtain r rules' where "x = (r, rules')" by (cases x)
    with Inr update_rule_rows [where scope = scope and i = i and f = "bump now v" and rules = rules] Cons.IH show ?thesis
      by (simp add: apply_law [OF assms])
  qed
  also have "\<dots> = map (\<lambda>r. if in_scope scope (br_workspace r)
      then (bump now v ^^ count_list (i # ids) (br_id r)) r else r) rules"
    by (auto simp: update_rows_def rule_row_def bump_keys funpow_swap1)
  finally show ?case .
qed

lemma vote_of_range: "vote_of x = Some v \<Longrightarrow> v = ''success'' \<or> v = ''failure''"
  by (cases x) auto

lemma tally_keys [simp]:
  "br_id (tally (bump now) scope bs r) = br_id r"
  "br_workspace (tally (bump now) scope bs r) = br_workspace r"
  "br_created (tally (bump now) scope bs r) = br_created r"
proof -
  have "br_id (fold (\<lambda>(v, ids). bump now v ^^ count_list ids i) bs r) = br_id r \<and>
    br_workspace (fold (\<lambda>(v, ids). bump now v ^^ count_list ids i) bs r) = br_workspace r \<and>
    br_created (fold (\<lambda>(v, ids). bump now v ^^ count_list ids i) bs r) = br_created r" for i
    by (induction bs arbitrary: r) auto
  then show "br_id (tally (bump now) scope bs r) = br_id r"
    "br_workspace (tally (bump now) scope bs r) = br_workspace r"
    "br_created (tally (bump now) scope bs r) = br_created r" by (auto simp: tally_def)
qed

lemma tally_Cons: "tally (bump now) scope (b # bs) r = tally (bump now) scope bs (tally (bump now) scope [b] r)"
  by (cases b) (simp add: tally_def)

lemma tally_range: "in_range (br_confidence r) \<Longrightarrow> in_range (br_confidence (tally (bump now) scope bs r))"
proof (induction bs arbitrary: r)
  case Nil
  then show ?case by (simp add: tally_def)
next
  case (Cons b bs)
  have "in_range (br_confidence (tally (bump now) scope [b] r))"
    using Cons.prems by (cases b) (simp add: tally_def bump_pow_range)
  then show ?case by (subst tally_Cons) (rule Cons.IH)
qed

lemma bump_pow_status: "br_status r \<noteq> Proposed \<Longrightarrow> br_status ((bump now v ^^ n) r) = br_status r"
  by (induction n) (simp_all add: bump_status)

lemma bump_pow_proposed: "br_status r = Proposed \<Longrightarrow> br_status ((bump now v ^^ n) r) \<in> {Proposed, Active}"
  by (induction n) (auto simp: bump_status)

lemma tally_status: "br_status (tally (bump now) scope bs r) = br_status r \<or>
    (br_status r = Proposed \<and> br_status (tally (bump now) scope bs r) = Active)"
proof (induction bs arbitrary: r)
  case Nil
  then show ?case by (simp add: tally_def)
next
  case (Cons b bs)
  have "br_status (tally (bump now) scope [b] r) = br_status r \<or>
      (br_status r = Proposed \<and> br_status (tally (bump now) scope [b] r) = Active)"
    using bump_pow_status [of r "count_list (snd b) (br_id r)" now "fst b"]
      bump_pow_proposed [of r "count_list (snd b) (br_id r)" now "fst b"]
    by (cases b; cases "br_status r = Proposed") (auto simp: tally_def)
  with Cons.IH [of "tally (bump now) scope [b] r"] tally_Cons [of now b bs r] show ?case by auto
qed

lemma outcome_votes_rules:
  "snd (outcome_votes ri now old cutoff rs (n, rules)) =
     map (tally (bump now) scope (concat (map (\<lambda>r.
       if o_id r \<in> set old \<or> o_created r < cutoff \<or> o_rule_ids r = [] then []
       else (case vote_of (o_result r) of None \<Rightarrow> [] | Some v \<Rightarrow> [(v, o_rule_ids r)])) rs))) rules"
proof (induction rs arbitrary: n rules)
  case Nil
  then show ?case by (simp add: tally_def map_idI)
next
  case (Cons x rs)
  show ?case
  proof (cases "o_id x \<in> set old \<or> o_created x < cutoff \<or> o_rule_ids x = [] \<or> vote_of (o_result x) = None")
    case True
    then show ?thesis using Cons.IH [of n rules] by auto
  next
    case False
    then obtain v where v: "vote_of (o_result x) = Some v" by auto
    obtain n' rules' where av: "apply_votes ri now v (o_rule_ids x) (n, rules) = (n', rules')"
      by fastforce
    with apply_votes_rules [OF vote_of_range [OF v], of now "o_rule_ids x" n rules]
    have "rules' = map (tally (bump now) scope [(v, o_rule_ids x)]) rules"
      by (auto simp: tally_def)
    moreover have "map (tally (bump now) scope bs) (map (tally (bump now) scope [b]) rules) =
        map (tally (bump now) scope (b # bs)) rules" for b bs
      by (simp only: map_map comp_def tally_Cons [symmetric])
    ultimately show ?thesis using False v av Cons.IH [of n' rules'] by simp
  qed
qed

lemma deprecate_loop_rules:
  "snd (deprecate_loop ri now (now - days behaviorGovernanceMinActiveDays) page (n, rules)) =
     map (retire (ri_low ri) scope (stamp now) now page) rules"
proof (induction page arbitrary: n rules)
  case Nil
  then show ?case by (simp add: retire_def)
next
  case (Cons x page)
  show ?case
  proof (cases "ri_low ri (br_confidence x) \<and> \<not> br_created x > now - days behaviorGovernanceMinActiveDays")
    case False
    then have "retire (ri_low ri) scope (stamp now) now (x # page) r = retire (ri_low ri) scope (stamp now) now page r" for r by (auto simp: retire_def)
    with False Cons.IH show ?thesis by auto
  next
    case True
    let ?f = "\<lambda>r. r\<lparr>br_status := Deprecated, br_updated := stamp now\<rparr>"
    have one: "update_rows (rule_row scope (br_id x)) ?f rules = map (retire (ri_low ri) scope (stamp now) now [x]) rules"
      using True by (auto simp: update_rows_def retire_def rule_row_def)
    have "snd (deprecate_loop ri now (now - days behaviorGovernanceMinActiveDays) (x # page) (n, rules)) =
        map (retire (ri_low ri) scope (stamp now) now page) (update_rows (rule_row scope (br_id x)) ?f rules)"
    proof (cases "update_rule scope (br_id x) ?f rules")
      case (Inl e)
      with update_rule_rows [where scope = scope and i = "br_id x" and f = ?f and rules = rules]
      have "update_rows (rule_row scope (br_id x)) ?f rules = rules" by simp
      with Inl True Cons.IH show ?thesis by (simp add: deprecate_law)
    next
      case (Inr y)
      then obtain r rules' where y: "y = (r, rules')" by (cases y)
      with Inr update_rule_Inr [of scope "br_id x" ?f rules r rules']
      have "rules' = update_rows (rule_row scope (br_id x)) ?f rules" by simp
      with Inr y True Cons.IH show ?thesis by (simp add: deprecate_law)
    qed
    also have "\<dots> = map (retire (ri_low ri) scope (stamp now) now (x # page)) rules"
      unfolding one map_map comp_def by (simp only: retire_Cons [symmetric])
    finally show ?thesis .
  qed
qed

lemma governance_rules:
  "snd (snd (runBehaviorGovernance ri now scope recent rules)) =
     (let voted = map (tally (bump now) scope (ballots (now - days behaviorGovernanceLookbackDays) recent)) rules
      in map (retire (ri_low ri) scope (stamp now) now (active_page scope voted)) voted)"
proof -
  obtain n rules1 where ov: "outcome_votes ri now (superseded_ids recent)
      (now - days behaviorGovernanceLookbackDays) recent (0, rules) = (n, rules1)" by fastforce
  have r1: "rules1 = map (tally (bump now) scope (ballots (now - days behaviorGovernanceLookbackDays) recent)) rules"
    using outcome_votes_rules [of now "superseded_ids recent" "now - days behaviorGovernanceLookbackDays" recent 0 rules]
    by (simp add: ov ballots_def)
  show ?thesis
    using deprecate_loop_rules [where page = "active_page scope rules1" and n = 0 and rules = rules1]
    by (simp add: runBehaviorGovernance_def ov autoDeprecateStaleLowConfidenceRules_def list_law r1 [symmetric]
        Let_def split: prod.splits)
qed

end

section \<open>The two backends\<close>

lemma round_even_le: "x \<le> of_int n \<Longrightarrow> round_even x \<le> n"
proof -
  assume x: "x \<le> of_int n"
  then have f: "\<lfloor>x\<rfloor> \<le> n" by linarith
  show ?thesis
  proof (cases "\<lfloor>x\<rfloor> = n")
    case True
    with x have "x - of_int \<lfloor>x\<rfloor> \<le> 0" by simp
    with True show ?thesis by (simp add: round_even_def Let_def)
  next
    case False
    with f show ?thesis by (simp add: round_even_def Let_def)
  qed
qed

lemma round_even_ge: "0 \<le> x \<Longrightarrow> 0 \<le> round_even x"
  by (auto simp: round_even_def Let_def)

lemma fl_pos_bounds: "0 \<le> x \<Longrightarrow> 0 \<le> fl_pos x" "x \<le> 1 \<Longrightarrow> fl_pos x \<le> 1"
proof -
  let ?k = "scale_bits 1074 x"
  show "0 \<le> x \<Longrightarrow> 0 \<le> fl_pos x"
    using round_even_ge [of "x * 2 ^ ?k"] by (simp add: fl_pos_def Let_def)
  assume "x \<le> 1"
  then have "x * 2 ^ ?k \<le> of_int (2 ^ ?k)" by (simp add: mult_left_le_one_le)
  then have "round_even (x * 2 ^ ?k) \<le> 2 ^ ?k" by (rule round_even_le)
  then have "(of_int (round_even (x * 2 ^ ?k)) :: rat) \<le> of_int (2 ^ ?k)" by (simp only: of_int_le_iff)
  then show "fl_pos x \<le> 1" by (simp add: fl_pos_def Let_def divide_le_eq)
qed

lemma fl_bounds: "0 \<le> x \<Longrightarrow> 0 \<le> fl x" "x \<le> 1 \<Longrightarrow> fl x \<le> 1"
  using fl_pos_bounds [of x] fl_pos_bounds(1) [of "- x"] by (auto simp: fl_def)

lemma apply_bump:
  "v = ''success'' \<or> v = ''failure'' \<Longrightarrow> ApplyOutcome_pg scope now i v rules = update_rule scope i (bump_pg now v) rules"
  "v = ''success'' \<or> v = ''failure'' \<Longrightarrow> ApplyOutcome_sq scope now i v srules = update_rule scope i (bump_sq now v) srules"
  by (auto simp: ApplyOutcome_pg_def ApplyOutcome_sq_def bump_pg_def [abs_def] bump_sq_def [abs_def])

lemma list_active_page:
  "List_pg scope \<lparr>rf_workspace = scope, rf_status = Some Active, rf_limit = behaviorGovernanceActiveRuleLimit\<rparr> rules =
     active_page scope rules"
  "List_sq scope \<lparr>rf_workspace = scope, rf_status = Some Active, rf_limit = behaviorGovernanceActiveRuleLimit\<rparr> srules =
     active_page scope srules"
  by (simp_all add: List_pg_def List_sq_def active_page_def ws_arg_def behaviorGovernanceActiveRuleLimit_def
      Let_def split: option.splits)

lemma bump_keys_both:
  "br_id (bump_pg now v r) = br_id r" "br_workspace (bump_pg now v r) = br_workspace r"
  "br_created (bump_pg now v r) = br_created r"
  "br_id (bump_sq now v q) = br_id q" "br_workspace (bump_sq now v q) = br_workspace q"
  "br_created (bump_sq now v q) = br_created q"
  "br_status (bump_pg now v r) = (if v = ''success'' \<and> br_status r = Proposed then Active else br_status r)"
  "br_status (bump_sq now v q) = (if v = ''success'' \<and> br_status q = Proposed then Active else br_status q)"
  by (simp_all add: bump_pg_def bump_sq_def)

lemma sq_range: "0 \<le> c \<and> c \<le> 1 \<Longrightarrow> 0 \<le> min (fl (c + fl (5 / 100))) 1" "0 \<le> c \<and> c \<le> 1 \<Longrightarrow> max (fl (c - fl (10 / 100))) 0 \<le> 1"
  using fl_bounds(1) [of "c + fl (5 / 100)"] fl_bounds(1) [of "5 / 100"]
    fl_bounds(2) [of "c - fl (10 / 100)"] fl_bounds(1) [of "10 / 100"] by auto

lemma bump_range_both:
  "0 \<le> br_confidence r \<and> br_confidence r \<le> 100 \<Longrightarrow>
     0 \<le> br_confidence (bump_pg now v r) \<and> br_confidence (bump_pg now v r) \<le> 100"
  "0 \<le> br_confidence q \<and> br_confidence q \<le> 1 \<Longrightarrow>
     0 \<le> br_confidence (bump_sq now v q) \<and> br_confidence (bump_sq now v q) \<le> 1"
proof -
  show "0 \<le> br_confidence r \<and> br_confidence r \<le> 100 \<Longrightarrow>
     0 \<le> br_confidence (bump_pg now v r) \<and> br_confidence (bump_pg now v r) \<le> 100"
    by (simp add: bump_pg_def)
  assume c: "0 \<le> br_confidence q \<and> br_confidence q \<le> 1"
  show "0 \<le> br_confidence (bump_sq now v q) \<and> br_confidence (bump_sq now v q) \<le> 1"
    using sq_range [OF c] unfolding bump_sq_def by (cases "v = ''success''") simp_all
qed

interpretation pgr: rule_store "pg_rules scope" scope bump_pg pg_ts "\<lambda>c. 0 \<le> c \<and> c \<le> 100" for scope
proof unfold_locales
  show "ri_deprecate (pg_rules scope) now i rules = update_rule scope i
      (\<lambda>r. r\<lparr>br_status := Deprecated, br_updated := pg_ts now\<rparr>) rules" for now i rules
    by (simp add: pg_rules_def Deprecate_pg_def)
qed (simp_all add: pg_rules_def apply_bump list_active_page bump_keys_both bump_range_both)

interpretation sqr: rule_store "sq_rules scope" scope bump_sq sq_ts "\<lambda>c. 0 \<le> c \<and> c \<le> 1" for scope
proof unfold_locales
  show "ri_deprecate (sq_rules scope) now i rules = update_rule scope i
      (\<lambda>r. r\<lparr>br_status := Deprecated, br_updated := sq_ts now\<rparr>) rules" for now i rules
    by (simp add: sq_rules_def Deprecate_sq_def)
qed (simp_all add: sq_rules_def apply_bump list_active_page bump_keys_both bump_range_both)

text \<open>
  C7.  One run of the governance job, on either backend, is exactly: every rule in scope counts
  its votes on the ballots of the week in listing order (a success adds 0.05 up to 1.00 and
  activates a proposed rule, a failure or regression subtracts 0.10 down to 0.00), then of the
  newest hundred active rules those below 0.10 that are thirty days old are deprecated.
  Nothing else changes: stale rule ids and rules of other workspaces are skipped.
\<close>

theorem governance_is_tally:
  "snd (snd (runBehaviorGovernance_pg ws now db rules)) =
     (let voted = map (tally (bump_pg now) ws (ballots (now - days behaviorGovernanceLookbackDays)
                        (ListRecentOutcomes_pg ws [] behaviorGovernanceOutcomeLimit db))) rules
      in map (retire (\<lambda>c. c < 10) ws (pg_ts now) now (active_page ws voted)) voted) \<and>
   snd (snd (runBehaviorGovernance_sq ws now db srules)) =
     (let voted = map (tally (bump_sq now) ws (ballots (now - days behaviorGovernanceLookbackDays)
                        (ListRecentOutcomes_sq ws [] behaviorGovernanceOutcomeLimit db))) srules
      in map (retire (\<lambda>c. c < fl (10 / 100)) ws (sq_ts now) now (active_page ws voted)) voted)"
  unfolding runBehaviorGovernance_pg_def runBehaviorGovernance_sq_def pgr.governance_rules sqr.governance_rules
  by (simp add: pg_rules_def sq_rules_def)

section \<open>Votes that must not count\<close>

lemma tally_no_links:
  assumes "\<And>v ids. (v, ids) \<in> set bs \<Longrightarrow> br_id r \<notin> set ids"
  shows "tally bump scope bs r = r"
proof -
  have "fold (\<lambda>(v, ids). bump v ^^ count_list ids (br_id r)) bs r = r"
    using assms
  proof (induction bs)
    case (Cons b bs)
    obtain v ids where b: "b = (v, ids)" by (cases b)
    with Cons.prems [of v ids] have "count_list ids (br_id r) = 0" by (simp add: count_list_0_iff)
    moreover have "fold (\<lambda>(v, ids). bump v ^^ count_list ids (br_id r)) bs r = r"
      by (rule Cons.IH, rule Cons.prems) auto
    ultimately show ?case by (simp add: b)
  qed simp
  then show ?thesis by (simp add: tally_def)
qed

lemma ballots_origin:
  assumes "(v, ids) \<in> set (ballots cutoff recent)"
  shows "\<exists>x \<in> set recent. o_rule_ids x = ids \<and> vote_of (o_result x) = Some v \<and>
           o_id x \<notin> set (superseded_ids recent) \<and> \<not> o_created x < cutoff"
  using assms by (auto simp: ballots_def split: if_splits option.splits)

lemma superseded_ids_iff: "i \<in> set (superseded_ids recent) \<longleftrightarrow> (\<exists>y \<in> set recent. o_supersedes y = Some i)"
  by (auto simp: superseded_ids_def split: option.splits) (metis option.exhaust)

text \<open>
   A rule that only superseded, outdated, partial or open outcomes of the listing link to is
  not moved by the job: it keeps its confidence, and its status unless it was already an
  active rule below 0.10 and at least thirty days old, which may retire.
\<close>

theorem governance_ignores_superseded:
  assumes "distinct (map br_id rules)" and "r \<in> set rules"
    and "\<forall>x \<in> set (ListRecentOutcomes_pg ws [] behaviorGovernanceOutcomeLimit db).
           br_id r \<in> set (o_rule_ids x) \<longrightarrow>
             (\<exists>y \<in> set (ListRecentOutcomes_pg ws [] behaviorGovernanceOutcomeLimit db).
                o_supersedes y = Some (o_id x)) \<or>
             o_created x < now - days behaviorGovernanceLookbackDays \<or> o_result x \<in> {Partial, Unknown}"
  shows "\<exists>r' \<in> set (snd (snd (runBehaviorGovernance_pg ws now db rules))).
           br_id r' = br_id r \<and> br_confidence r' = br_confidence r \<and>
           (r' = r \<or> (br_status r = Active \<and> br_status r' = Deprecated \<and> br_confidence r < 10 \<and>
              br_created r \<le> now - days behaviorGovernanceMinActiveDays))"
proof -
  let ?bs = "ballots (now - days behaviorGovernanceLookbackDays)
      (ListRecentOutcomes_pg ws [] behaviorGovernanceOutcomeLimit db)"
  let ?t = "tally (bump_pg now) ws ?bs"
  let ?voted = "map ?t rules"
  let ?r' = "retire (\<lambda>c. c < 10) ws (pg_ts now) now (active_page ws ?voted) r"
  have same: "?t r = r"
  proof (rule tally_no_links)
    fix v ids
    assume "(v, ids) \<in> set ?bs"
    from ballots_origin [OF this] assms(3) show "br_id r \<notin> set ids"
      by (auto simp: superseded_ids_iff)
  qed
  have "?r' \<in> set (snd (snd (runBehaviorGovernance_pg ws now db rules)))"
    unfolding runBehaviorGovernance_pg_def pgr.governance_rules Let_def
    using assms(2) same by (force simp: pg_rules_def image_iff)
  moreover have only: "x = r" if "x \<in> set (active_page ws ?voted)" "br_id x = br_id r" for x
  proof -
    from that(1) have "x \<in> set ?voted" by (auto simp: active_page_def dest!: in_set_takeD)
    then obtain y where "y \<in> set rules" "x = ?t y" by auto
    moreover from this that(2) have "y = r"
      by (intro distinct_map_unique [OF assms(1) _ assms(2)]) simp_all
    ultimately show ?thesis using same by simp
  qed
  moreover have "br_status x = Active" if "x \<in> set (active_page ws ?voted)" for x
    using that by (auto simp: active_page_def dest!: in_set_takeD)
  moreover note retire_cases [of "\<lambda>c. c < 10" ws "pg_ts now" now "active_page ws ?voted" r]
  ultimately show ?thesis
    using retire_keys by (metis (no_types, lifting))
qed

end
