(* ===== verification/Rule_Lifecycle.thy ===== *)
theory Rule_Lifecycle
  imports Governance
begin

text \<open>
  The life cycle of behavior rules over every operation of both stores, the rounding
  difference between \<open>NUMERIC(5,2)\<close> and \<open>REAL\<close> at the retirement threshold, and concrete
  instances of the governance properties.
\<close>

section \<open>Life cycle\<close>

definition rule_inv :: "('c \<Rightarrow> bool) \<Rightarrow> 'c behavior_rule list \<Rightarrow> bool" where
  "rule_inv in_range rules \<longleftrightarrow> distinct (map br_id rules) \<and> (\<forall>r \<in> set rules. in_range (br_confidence r))"

abbreviation inv_pg :: "int behavior_rule list \<Rightarrow> bool" where
  "inv_pg \<equiv> rule_inv (\<lambda>c. 0 \<le> c \<and> c \<le> 100)"

abbreviation inv_sq :: "rat behavior_rule list \<Rightarrow> bool" where
  "inv_sq \<equiv> rule_inv (\<lambda>c. 0 \<le> c \<and> c \<le> 1)"

text \<open>A rule is activated once, may be deprecated at any time, and never comes back.\<close>

definition status_flow :: "rule_status \<Rightarrow> rule_status \<Rightarrow> bool" where
  "status_flow a b \<longleftrightarrow> a = b \<or> (a = Proposed \<and> b = Active) \<or> b = Deprecated"

definition evolves :: "'c behavior_rule list \<Rightarrow> 'c behavior_rule list \<Rightarrow> bool" where
  "evolves rules rules' \<longleftrightarrow> (\<forall>r \<in> set rules.
     (\<exists>r' \<in> set rules'. br_id r' = br_id r \<and> br_workspace r' = br_workspace r \<and>
        br_created r' = br_created r \<and> status_flow (br_status r) (br_status r')) \<or>
     br_status r \<in> {Rejected, Deprecated})"

inductive rule_step_pg :: "int behavior_rule list \<Rightarrow> int behavior_rule list \<Rightarrow> bool" where
  "Propose_pg scope now nid p s = Inr (r, t) \<Longrightarrow> rule_step_pg s t"
| "ApplyOutcome_pg scope now i v s = Inr (r, t) \<Longrightarrow> rule_step_pg s t"
| "Deprecate_pg scope now i s = Inr (r, t) \<Longrightarrow> rule_step_pg s t"
| "PruneRules_pg cutoff s = (n, t) \<Longrightarrow> rule_step_pg s t"
| "runBehaviorGovernance_pg ws now db s = (n, d, t) \<Longrightarrow> rule_step_pg s t"

inductive rule_step_sq :: "rat behavior_rule list \<Rightarrow> rat behavior_rule list \<Rightarrow> bool" where
  "Propose_sq scope now nid p s = Inr (r, t) \<Longrightarrow> rule_step_sq s t"
| "ApplyOutcome_sq scope now i v s = Inr (r, t) \<Longrightarrow> rule_step_sq s t"
| "Deprecate_sq scope now i s = Inr (r, t) \<Longrightarrow> rule_step_sq s t"
| "PruneRules_sq cutoff s = (n, t) \<Longrightarrow> rule_step_sq s t"
| "runBehaviorGovernance_sq ws now db s = (n, d, t) \<Longrightarrow> rule_step_sq s t"

lemma evolves_map:
  assumes "\<And>r. br_id (f r) = br_id r \<and> br_workspace (f r) = br_workspace r \<and>
             br_created (f r) = br_created r \<and> status_flow (br_status r) (br_status (f r))"
  shows "evolves rules (map f rules)"
  unfolding evolves_def using assms by (intro ballI disjI1) (auto simp: image_iff)

lemma inv_map:
  assumes "rule_inv P rules" and "\<And>r. br_id (f r) = br_id r"
    and "\<And>r. P (br_confidence r) \<Longrightarrow> P (br_confidence (f r))"
  shows "rule_inv P (map f rules)"
proof -
  have "map br_id (map f rules) = map br_id rules" using assms(2) by simp
  with assms show ?thesis by (auto simp: rule_inv_def simp del: map_map)
qed

lemma update_rule_step:
  assumes "update_rule scope i f rules = Inr (r, t)" and "rule_inv P rules"
    and "\<And>r. br_id (f r) = br_id r \<and> br_workspace (f r) = br_workspace r \<and>
             br_created (f r) = br_created r \<and> status_flow (br_status r) (br_status (f r))"
    and "\<And>r. P (br_confidence r) \<Longrightarrow> P (br_confidence (f r))"
  shows "rule_inv P t \<and> evolves rules t"
proof -
  have "t = map (\<lambda>r. if rule_row scope i r then f r else r) rules"
    using update_rule_Inr [OF assms(1)] by (simp add: update_rows_def)
  then show ?thesis
    using assms(3,4)
    by (auto intro!: inv_map [OF assms(2)] evolves_map simp: status_flow_def)
qed

lemma propose_step:
  assumes "rule_inv P s" and "br_id r \<notin> br_id ` set s" and "P (br_confidence r)"
  shows "rule_inv P (s @ [r]) \<and> evolves s (s @ [r])"
  using assms by (auto simp: rule_inv_def evolves_def status_flow_def)

lemma prune_step:
  assumes "rule_inv P s"
  shows "rule_inv P (filter (\<lambda>r. \<not> (br_status r \<in> {Rejected, Deprecated} \<and> b r)) s) \<and>
         evolves s (filter (\<lambda>r. \<not> (br_status r \<in> {Rejected, Deprecated} \<and> b r)) s)"
  using assms by (fastforce simp: rule_inv_def evolves_def status_flow_def distinct_map_filter)

context rule_store
begin

lemma governance_step:
  assumes "rule_inv in_range rules"
  shows "rule_inv in_range (snd (snd (runBehaviorGovernance ri now scope recent rules))) \<and>
         evolves rules (snd (snd (runBehaviorGovernance ri now scope recent rules)))"
proof -
  let ?t = "tally (bump now) scope (ballots (now - days behaviorGovernanceLookbackDays) recent)"
  let ?page = "active_page scope (map ?t rules)"
  let ?f = "\<lambda>r. retire (ri_low ri) scope (stamp now) now ?page (?t r)"
  have eq: "snd (snd (runBehaviorGovernance ri now scope recent rules)) = map ?f rules"
    by (simp add: governance_rules Let_def)
  have "status_flow (br_status r) (br_status (?f r))" for r
    using tally_status [of now "ballots (now - days behaviorGovernanceLookbackDays) recent" r]
      retire_cases [of "ri_low ri" scope "stamp now" now ?page "?t r"]
    by (auto simp: status_flow_def)
  then show ?thesis
    unfolding eq by (auto intro!: inv_map [OF assms] evolves_map tally_range)
qed

end

lemma hundredths_range: "0 < c \<Longrightarrow> c \<le> 1 \<Longrightarrow> 0 \<le> numeric_hundredths c \<and> numeric_hundredths c \<le> 100"
  by (auto simp: numeric_hundredths_def floor_le_iff)

lemma Propose_pg_step:
  assumes "Propose_pg scope now nid p s = Inr (r, t)" and "inv_pg s"
  shows "inv_pg t \<and> evolves s t"
proof -
  from assms(1) have "t = s @ [r]" "br_id r \<notin> br_id ` set s"
    "br_confidence r = numeric_hundredths (if rp_confidence p \<le> 0 \<or> rp_confidence p > 1 then 1 / 2 else rp_confidence p)"
    by (auto simp: Propose_pg_def Let_def split: if_splits)
  moreover have "0 \<le> br_confidence r \<and> br_confidence r \<le> 100"
    using calculation(3) by (simp only:) (rule hundredths_range, auto)
  ultimately show ?thesis using propose_step [OF assms(2)] by blast
qed

lemma Propose_sq_step:
  assumes "Propose_sq scope now nid p s = Inr (r, t)" and "inv_sq s"
  shows "inv_sq t \<and> evolves s t"
proof -
  from assms(1) have "t = s @ [r]" "br_id r \<notin> br_id ` set s" "0 \<le> br_confidence r \<and> br_confidence r \<le> 1"
    by (auto simp: Propose_sq_def Let_def split: if_splits)
  then show ?thesis using propose_step [OF assms(2)] by blast
qed

lemma ApplyOutcome_pg_step:
  assumes "ApplyOutcome_pg scope now i v s = Inr (r, t)" and "inv_pg s"
  shows "inv_pg t \<and> evolves s t"
proof -
  have "v = ''success'' \<or> v = ''failure''"
    using assms(1) by (auto simp: ApplyOutcome_pg_def split: if_splits)
  with assms(1) have "update_rule scope i (bump_pg now v) s = Inr (r, t)" by (simp add: apply_bump)
  from update_rule_step [OF this assms(2)] show ?thesis
    using bump_range_both(1) by (auto simp: bump_keys_both status_flow_def)
qed

lemma ApplyOutcome_sq_step:
  assumes "ApplyOutcome_sq scope now i v s = Inr (r, t)" and "inv_sq s"
  shows "inv_sq t \<and> evolves s t"
proof -
  have "v = ''success'' \<or> v = ''failure''"
    using assms(1) by (auto simp: ApplyOutcome_sq_def split: if_splits)
  with assms(1) have "update_rule scope i (bump_sq now v) s = Inr (r, t)" by (simp add: apply_bump)
  from update_rule_step [OF this assms(2)] show ?thesis
    using bump_range_both(2) by (auto simp: bump_keys_both status_flow_def)
qed

lemma Deprecate_step:
  "Deprecate_pg scope now i s = Inr (r, t) \<Longrightarrow> inv_pg s \<Longrightarrow> inv_pg t \<and> evolves s t"
  "Deprecate_sq scope now i s' = Inr (r', t') \<Longrightarrow> inv_sq s' \<Longrightarrow> inv_sq t' \<and> evolves s' t'"
  unfolding Deprecate_pg_def Deprecate_sq_def
  by (erule (1) update_rule_step; simp add: status_flow_def)+

lemma rule_step_pg_keeps: "rule_step_pg s t \<Longrightarrow> inv_pg s \<Longrightarrow> inv_pg t \<and> evolves s t"
proof (induction rule: rule_step_pg.induct)
  case (4 cutoff s n t)
  then show ?case
    using prune_step [OF 4(2), of "\<lambda>r. br_created r < pg_ts cutoff"] by (auto simp: PruneRules_pg_def Let_def)
next
  case (5 ws now db s n d t)
  then show ?case
    using pgr.governance_step [OF 5(2), of ws now "ListRecentOutcomes_pg ws [] behaviorGovernanceOutcomeLimit db"]
    by (simp add: runBehaviorGovernance_pg_def)
qed (blast dest: Propose_pg_step ApplyOutcome_pg_step Deprecate_step)+

lemma rule_step_sq_keeps: "rule_step_sq s t \<Longrightarrow> inv_sq s \<Longrightarrow> inv_sq t \<and> evolves s t"
proof (induction rule: rule_step_sq.induct)
  case (4 cutoff s n t)
  then show ?case
    using prune_step [OF 4(2), of "\<lambda>r. br_created r < sq_ts cutoff"] by (auto simp: PruneRules_sq_def Let_def)
next
  case (5 ws now db s n d t)
  then show ?case
    using sqr.governance_step [OF 5(2), of ws now "ListRecentOutcomes_sq ws [] behaviorGovernanceOutcomeLimit db"]
    by (simp add: runBehaviorGovernance_sq_def)
qed (blast dest: Propose_sq_step ApplyOutcome_sq_step Deprecate_step)+

lemma rule_runs:
  "rule_step_pg\<^sup>*\<^sup>* s t \<Longrightarrow> inv_pg s \<Longrightarrow> inv_pg t"
  "rule_step_sq\<^sup>*\<^sup>* s' t' \<Longrightarrow> inv_sq s' \<Longrightarrow> inv_sq t'"
proof -
  show "inv_pg t" if "rule_step_pg\<^sup>*\<^sup>* s t" "inv_pg s"
    using that by (induction rule: rtranclp_induct) (auto dest: rule_step_pg_keeps)
  show "inv_sq t'" if "rule_step_sq\<^sup>*\<^sup>* s' t'" "inv_sq s'"
    using that by (induction rule: rtranclp_induct) (auto dest: rule_step_sq_keeps)
qed


section \<open>The two confidence columns at the threshold\<close>

definition ex_rule :: "'c \<Rightarrow> 'c behavior_rule" where
  "ex_rule c = \<lparr>br_id = 3, br_workspace = Some 7, br_condition = [], br_action = [], br_source_type = ''manual'',
     br_source = None, br_confidence = c, br_status = Active, br_created = 0, br_updated = 0\<rparr>"

text \<open>Two failed tasks of the week that link rule 3, and the moment of the job.\<close>

definition ex_failures :: outcome_db where
  "ex_failures = \<lparr>outcomes = map (\<lambda>i. \<lparr>o_id = i, o_workspace = Some 7, o_entity_type = ''task'', o_entity_id = i,
     o_result = Failure, o_metrics = None, o_notes = [], o_rule_ids = [3], o_session = None, o_supersedes = None,
     o_created = days 59, o_updated = days 59\<rparr>) [1, 2], evaluations = []\<rparr>"

lemma scale_bits_eq:
  "4503599627370496 \<le> x * 2 ^ k \<Longrightarrow> x * 2 ^ k < 9007199254740992 \<Longrightarrow> k < n \<Longrightarrow> scale_bits n x = k"
proof (induction n x arbitrary: k rule: scale_bits.induct)
  case (1 x)
  then show ?case by simp
next
  case (2 n x)
  show ?case
  proof (cases k)
    case 0
    with 2 show ?thesis by simp
  next
    case (Suc l)
    have "x < 4503599627370496"
    proof (rule ccontr)
      assume "\<not> x < 4503599627370496"
      then have "4503599627370496 * 2 ^ k \<le> x * 2 ^ k" by (intro mult_right_mono) auto
      moreover have "(2 :: rat) \<le> 2 ^ k" using Suc by simp
      ultimately show False using 2(3) by linarith
    qed
    with Suc 2 show ?thesis by (simp add: mult.assoc mult.left_commute)
  qed
qed

lemma round_even_eq: "of_int m - 1 / 2 < x \<Longrightarrow> x < of_int m + 1 / 2 \<Longrightarrow> round_even x = m"
proof -
  assume x: "of_int m - 1 / 2 < x" "x < of_int m + 1 / 2"
  consider "\<lfloor>x\<rfloor> = m" | "\<lfloor>x\<rfloor> = m - 1" using x by linarith
  then show ?thesis
    using x by cases (simp_all add: round_even_def Let_def)
qed

lemma fl_value:
  assumes "0 < x" "4503599627370496 \<le> x * 2 ^ k" "x * 2 ^ k < 9007199254740992" "k < 1074"
    "of_int m - 1 / 2 < x * 2 ^ k" "x * 2 ^ k < of_int m + 1 / 2"
  shows "fl x = of_int m / 2 ^ k"
  using assms by (simp add: fl_def fl_pos_def Let_def scale_bits_eq round_even_eq)

lemma fl_steps:
  "fl (1 / 10) = 3602879701896397 / 36028797018963968"
  "fl (3 / 10) = 5404319552844595 / 18014398509481984"
  "fl (7205759403792793 / 36028797018963968) = 7205759403792793 / 36028797018963968"
  "fl (900719925474099 / 9007199254740992) = 900719925474099 / 9007199254740992"
  using fl_value [of "1 / 10" 56 7205759403792794] fl_value [of "3 / 10" 54 5404319552844595]
    fl_value [of "7205759403792793 / 36028797018963968" 55 7205759403792793]
    fl_value [of "900719925474099 / 9007199254740992" 56 7205759403792792]
  by simp_all

lemma ex_ballots:
  "ballots (days 60 - days behaviorGovernanceLookbackDays)
     (ListRecentOutcomes_pg (Some 7) [] behaviorGovernanceOutcomeLimit ex_failures) = [(''failure'', [3]), (''failure'', [3])]"
  "ballots (days 60 - days behaviorGovernanceLookbackDays)
     (ListRecentOutcomes_sq (Some 7) [] behaviorGovernanceOutcomeLimit ex_failures) = [(''failure'', [3]), (''failure'', [3])]"
  by code_simp+

lemma ex_failed_sq:
  "tally (bump_sq now) (Some 7) [(''failure'', [3]), (''failure'', [3])] (ex_rule (fl (30 / 100))) =
     (ex_rule (900719925474099 / 9007199254740992))\<lparr>br_updated := sq_ts now\<rparr>"
  by (simp add: tally_def bump_sq_def ex_rule_def fl_steps)

text \<open>
   The two backends part at the threshold: an old active rule of confidence 0.30 with two
  failed outcomes in the week ends at exactly 0.10 on Postgres and stays active, and at
  0.09999999999999998 on SQLite, where the same job deprecates it.
\<close>

theorem threshold_rounding:
  "map (\<lambda>r. (br_confidence r, br_status r))
     (snd (snd (runBehaviorGovernance_pg (Some 7) (days 60) ex_failures [ex_rule 30]))) = [(10, Active)] \<and>
   map (\<lambda>r. (br_confidence r, br_status r))
     (snd (snd (runBehaviorGovernance_sq (Some 7) (days 60) ex_failures [ex_rule (fl (30 / 100))]))) =
       [(900719925474099 / 9007199254740992, Deprecated)]"
proof
  show "map (\<lambda>r. (br_confidence r, br_status r))
     (snd (snd (runBehaviorGovernance_pg (Some 7) (days 60) ex_failures [ex_rule 30]))) = [(10, Active)]"
    by code_simp
  show "map (\<lambda>r. (br_confidence r, br_status r))
     (snd (snd (runBehaviorGovernance_sq (Some 7) (days 60) ex_failures [ex_rule (fl (30 / 100))]))) =
       [(900719925474099 / 9007199254740992, Deprecated)]"
    unfolding runBehaviorGovernance_sq_def sqr.governance_rules ex_ballots
    by (simp add: ex_failed_sq [simplified], simp add: Let_def sq_rules_def retire_def active_page_def
        ex_rule_def days_def behaviorGovernanceMinActiveDays_def fl_steps)
qed

section \<open>Instances\<close>

text \<open>A failure that a partial verdict superseded: rule 3 keeps its confidence.\<close>

definition ex_superseded :: outcome_db where
  "ex_superseded = \<lparr>outcomes = [
     \<lparr>o_id = 1, o_workspace = Some 7, o_entity_type = ''task'', o_entity_id = 1, o_result = Failure,
      o_metrics = None, o_notes = [], o_rule_ids = [3], o_session = None, o_supersedes = None,
      o_created = days 58, o_updated = days 58\<rparr>,
     \<lparr>o_id = 2, o_workspace = Some 7, o_entity_type = ''task'', o_entity_id = 1, o_result = Partial,
      o_metrics = None, o_notes = [], o_rule_ids = [3], o_session = None, o_supersedes = Some 1,
      o_created = days 59, o_updated = days 59\<rparr>], evaluations = []\<rparr>"

lemma governance_ignores_superseded_witness:
  "\<exists>r' \<in> set (snd (snd (runBehaviorGovernance_pg (Some 7) (days 60) ex_superseded [ex_rule 50]))).
     br_id r' = 3 \<and> br_confidence r' = 50 \<and> br_status r' = Active"
proof -
  have page: "\<forall>x \<in> set (ListRecentOutcomes_pg (Some 7) [] behaviorGovernanceOutcomeLimit ex_superseded).
      br_id (ex_rule 50) \<in> set (o_rule_ids x) \<longrightarrow>
        (\<exists>y \<in> set (ListRecentOutcomes_pg (Some 7) [] behaviorGovernanceOutcomeLimit ex_superseded).
           o_supersedes y = Some (o_id x)) \<or>
        o_created x < days 60 - days behaviorGovernanceLookbackDays \<or> o_result x \<in> {Partial, Unknown}"
    by code_simp
  have f: "br_id (ex_rule 50) = 3" "br_confidence (ex_rule 50) = (50 :: int)" "br_status (ex_rule 50) = Active"
    by (simp_all add: ex_rule_def)
  from governance_ignores_superseded [OF _ _ page, of "[ex_rule 50]"] obtain r' where
    r': "r' \<in> set (snd (snd (runBehaviorGovernance_pg (Some 7) (days 60) ex_superseded [ex_rule 50])))"
    "br_id r' = 3" "br_confidence r' = 50" "r' = ex_rule 50"
    by (auto simp: f)
  with f show ?thesis by (intro bexI [OF _ r'(1)]) simp
qed


end
