(* ===== verification/Texts.thy ===== *)
theory Texts
  imports Prelude
begin

text \<open>
  The text functions of the program: the pieces of Go's \<open>strings\<close> and \<open>unicode\<close> packages it
  calls, SQLite's two-argument \<open>TRIM\<close>, \<open>internal/sanitize/notes.go\<close>,
  \<open>internal/validator/repo_name.go\<close>, \<open>internal/gtd/actor.go\<close>, and the canonical text of a
  UUID.
\<close>

section \<open>Spaces and case\<close>

text \<open>
  \<open>unicode.IsSpace\<close>: the Latin-1 switch and the \<open>White_Space\<close> table.  \<open>strings.ToLower\<close> is exact
  for the comparisons with ASCII literals it is used for: besides the ASCII letters the two
  code points whose lower case is ASCII are mapped, every other code point stays non-ASCII.
\<close>

definition is_space :: "rune \<Rightarrow> bool" where
  "is_space r = (if r \<le> 255 then r \<in> {9, 10, 11, 12, 13, 32, 133, 160}
     else r = 5760 \<or> (8192 \<le> r \<and> r \<le> 8202) \<or> r \<in> {8232, 8233, 8239, 8287, 12288})"

definition trim_by :: "(rune \<Rightarrow> bool) \<Rightarrow> ustr \<Rightarrow> ustr" where
  "trim_by P s = rev (dropWhile P (rev (dropWhile P s)))"

definition TrimSpace :: "ustr \<Rightarrow> ustr" where
  "TrimSpace s = trim_by is_space s"

definition sql_trim :: "ustr \<Rightarrow> ustr \<Rightarrow> ustr" where
  "sql_trim s chars = trim_by (\<lambda>r. r \<in> set chars) s"

definition lower_rune :: "rune \<Rightarrow> rune" where
  "lower_rune r = (if 65 \<le> r \<and> r \<le> 90 then r + 32 else if r = 304 then 105 else if r = 8490 then 107 else r)"

definition ToLower :: "ustr \<Rightarrow> ustr" where
  "ToLower s = map lower_rune s"

lemma dropWhile_Nil_iff: "dropWhile P xs = [] \<longleftrightarrow> (\<forall>x \<in> set xs. P x)"
  by (rule dropWhile_eq_Nil_conv)

lemma trim_by_Nil [simp]: "trim_by P s = [] \<longleftrightarrow> (\<forall>r \<in> set s. P r)"
proof
  assume "trim_by P s = []"
  then have "\<forall>x \<in> set (dropWhile P s). P x" by (simp add: trim_by_def dropWhile_Nil_iff)
  then have "dropWhile P s = []"
    using hd_dropWhile [of P s] hd_in_set [of "dropWhile P s"] by blast
  then show "\<forall>r \<in> set s. P r" by (simp add: dropWhile_Nil_iff)
qed (simp add: trim_by_def dropWhile_Nil_iff [THEN iffD2])

section \<open>Actors\<close>

definition actorRegistry :: "(ustr \<times> ustr list) list" where
  "actorRegistry = [(lit ''claude'', [lit ''claude-code'', lit ''claude (engineer dispatch)'']),
     (lit ''codex'', [lit ''codex lead'']), (lit ''human'', [])]"

definition CanonicalActors :: "ustr list" where
  "CanonicalActors = map fst actorRegistry"

text \<open>\<open>buildActorAliases\<close>: the flattened lookup table.\<close>

definition actorAliases :: "(ustr \<times> ustr) list" where
  "actorAliases = fold (\<lambda>(canonical, aliases) m.
      fold (\<lambda>a m. AList.update (ToLower (TrimSpace a)) canonical m) aliases (AList.update canonical canonical m))
    actorRegistry []"

definition NormalizeActor :: "ustr \<Rightarrow> ustr option" where
  "NormalizeActor raw = map_of actorAliases (ToLower (TrimSpace raw))"

definition AssigneeSpaceChars :: ustr where
  "AssigneeSpaceChars = [9, 10, 11, 12, 13, 32, 133, 160, 5760, 8192, 8193, 8194, 8195,
     8196, 8197, 8198, 8199, 8200, 8201, 8202, 8232, 8233, 8239, 8287, 12288]"

lemma AssigneeSpaceChars_is_space: "r \<in> set AssigneeSpaceChars \<longleftrightarrow> is_space r"
proof
  show "r \<in> set AssigneeSpaceChars \<Longrightarrow> is_space r"
    by (auto simp: AssigneeSpaceChars_def is_space_def)
  have "r \<in> {8192, 8193, 8194, 8195, 8196, 8197, 8198, 8199, 8200, 8201, 8202}"
    if "8192 \<le> r" "r \<le> 8202"
  proof -
    from that have "r \<in> set [8192..<8203]" unfolding set_upt atLeastLessThan_iff by linarith
    also have "[8192..<8203] = [8192, 8193, 8194, 8195, 8196, 8197, 8198, 8199, 8200, 8201, 8202]"
      by (simp add: upt_rec_numeral)
    finally show ?thesis by simp
  qed
  then show "is_space r \<Longrightarrow> r \<in> set AssigneeSpaceChars"
    by (auto simp: AssigneeSpaceChars_def is_space_def split: if_splits)
qed

lemma sql_trim_TrimSpace: "sql_trim s AssigneeSpaceChars = TrimSpace s"
proof -
  have "(\<lambda>r. r \<in> set AssigneeSpaceChars) = is_space" by (simp add: fun_eq_iff AssigneeSpaceChars_is_space)
  then show ?thesis by (simp add: sql_trim_def TrimSpace_def)
qed

lemma actorAliases_eq: "actorAliases =
    [(lit ''claude'', lit ''claude''), (lit ''claude-code'', lit ''claude''),
     (lit ''claude (engineer dispatch)'', lit ''claude''), (lit ''codex'', lit ''codex''),
     (lit ''codex lead'', lit ''codex''), (lit ''human'', lit ''human'')]"
  by (simp add: actorAliases_def actorRegistry_def ToLower_def lower_rune_def TrimSpace_def trim_by_def
      is_space_def)

lemma NormalizeActor_canonical: "NormalizeActor raw = Some a \<Longrightarrow> a \<in> set CanonicalActors"
  by (auto simp: NormalizeActor_def actorAliases_eq CanonicalActors_def actorRegistry_def split: if_splits)

lemma NormalizeActor_not_blank: "NormalizeActor raw = Some a \<Longrightarrow> TrimSpace a \<noteq> []"
  by (drule NormalizeActor_canonical) (auto simp: CanonicalActors_def actorRegistry_def TrimSpace_def is_space_def)

section \<open>sanitize.Notes\<close>

definition isAnsiFinal :: "rune \<Rightarrow> bool" where
  "isAnsiFinal r \<longleftrightarrow> r \<ge> 64 \<and> r \<le> 126"

text \<open>\<open>skipAnsi\<close> on the text after the ESC character: what is left of it.\<close>

fun skip_csi :: "ustr \<Rightarrow> ustr" where
  "skip_csi [] = []"
| "skip_csi (c # s) = (if isAnsiFinal c then s else skip_csi s)"

fun skipAnsi :: "ustr \<Rightarrow> ustr" where
  "skipAnsi [] = []"
| "skipAnsi (c # s) = (if c \<noteq> 91 then s else skip_csi s)"

lemma skip_csi_length: "length (skip_csi s) \<le> length s"
  by (induction s) auto

lemma skipAnsi_length: "length (skipAnsi s) \<le> length s"
  using skip_csi_length by (cases s) (auto intro: le_SucI)

definition visible_rune :: "rune \<Rightarrow> bool" where
  "visible_rune r \<longleftrightarrow> r = 9 \<or> (r \<ge> 32 \<and> r \<noteq> 127 \<and> (r < 128 \<or> r > 159))"

function strip_controls :: "ustr \<Rightarrow> ustr" where
  "strip_controls [] = []"
| "strip_controls (r # s) =
     (if r = 27 then strip_controls (skipAnsi s)
      else if visible_rune r then r # strip_controls s else strip_controls s)"
  by pat_completeness auto

termination
  by (relation "measure length") (auto simp: skipAnsi_length le_imp_less_Suc)

definition Notes :: "ustr \<Rightarrow> ustr" where
  "Notes s = (let b = strip_controls s in if length b > 500 then take 500 b else b)"

lemma strip_controls_visible: "r \<in> set (strip_controls s) \<Longrightarrow> visible_rune r \<and> r \<noteq> 27"
  by (induction s rule: strip_controls.induct) (auto split: if_splits simp: visible_rune_def)

lemma strip_controls_id: "(\<forall>r \<in> set s. visible_rune r) \<Longrightarrow> strip_controls s = s"
  by (induction s) (auto simp: visible_rune_def)

lemma Notes_visible: "r \<in> set (Notes s) \<Longrightarrow> visible_rune r"
  using strip_controls_visible by (auto simp: Notes_def Let_def split: if_splits dest: in_set_takeD)

section \<open>Repository names\<close>

definition isSegmentStart :: "rune \<Rightarrow> bool" where
  "isSegmentStart c \<longleftrightarrow> (c \<ge> 97 \<and> c \<le> 122) \<or> (c \<ge> 65 \<and> c \<le> 90) \<or> (c \<ge> 48 \<and> c \<le> 57) \<or> c = 95"

definition isSegmentByte :: "rune \<Rightarrow> bool" where
  "isSegmentByte c \<longleftrightarrow> isSegmentStart c \<or> c = 46 \<or> c = 45"

text \<open>
  The byte loop; a non-ASCII code point is a run of bytes none of which is accepted, and is
  rejected here as one.  The length limit counts bytes.
\<close>

fun repo_scan :: "bool \<Rightarrow> ustr \<Rightarrow> bool" where
  "repo_scan segmentStart [] = (\<not> segmentStart)"
| "repo_scan segmentStart (c # s) =
     (if c = 47 then (if segmentStart then False else repo_scan True s)
      else if segmentStart then (if \<not> isSegmentStart c then False else repo_scan False s)
      else if \<not> isSegmentByte c then False
      else repo_scan segmentStart s)"

definition ValidRepoPathMax :: "ustr \<Rightarrow> nat \<Rightarrow> bool" where
  "ValidRepoPathMax s maxLen = (if byte_len s = 0 \<or> byte_len s > maxLen then False else repo_scan True s)"

definition ValidRepoPath :: "ustr \<Rightarrow> bool" where
  "ValidRepoPath s = ValidRepoPathMax s 100"

definition IsValidRepoName :: "ustr \<Rightarrow> bool" where
  "IsValidRepoName name \<longleftrightarrow> name = [] \<or> ValidRepoPath name"

definition RepoNameOrEmpty :: "ustr \<Rightarrow> ustr" where
  "RepoNameOrEmpty name = (if IsValidRepoName name then name else [])"

text \<open>The rule as the documented pattern: segments joined by slashes.\<close>

definition segment :: "ustr \<Rightarrow> bool" where
  "segment s \<longleftrightarrow> s \<noteq> [] \<and> isSegmentStart (hd s) \<and> (\<forall>c \<in> set (tl s). isSegmentByte c)"

fun join_slash :: "ustr list \<Rightarrow> ustr" where
  "join_slash [] = []"
| "join_slash [s] = s"
| "join_slash (s # t # ts) = s @ 47 # join_slash (t # ts)"

lemma byte_not_slash: "isSegmentByte c \<Longrightarrow> c \<noteq> 47" "isSegmentStart c \<Longrightarrow> c \<noteq> 47"
  by (auto simp: isSegmentByte_def isSegmentStart_def)

lemma scan_bytes: "(\<forall>c \<in> set s. isSegmentByte c) \<Longrightarrow> repo_scan False (s @ t) = repo_scan False t"
  by (induction s) (auto dest: byte_not_slash)

lemma scan_segment: "segment s \<Longrightarrow> repo_scan True (s @ t) = repo_scan False t"
  by (cases s) (auto simp: segment_def scan_bytes dest: byte_not_slash)

lemma scan_segments: "ss \<noteq> [] \<Longrightarrow> (\<forall>s \<in> set ss. segment s) \<Longrightarrow> repo_scan True (join_slash ss)"
proof (induction ss rule: join_slash.induct)
  case (2 s)
  then show ?case using scan_segment [of s "[]"] by simp
next
  case (3 s t ts)
  then show ?case using scan_segment [of s "47 # join_slash (t # ts)"] by simp
qed simp

lemma join_slash_push: "ss \<noteq> [] \<Longrightarrow> join_slash ((c # hd ss) # tl ss) = c # join_slash ss"
  by (cases ss rule: join_slash.cases) auto

lemma scan_parses:
  "(repo_scan True s \<longrightarrow> (\<exists>ss. ss \<noteq> [] \<and> (\<forall>x \<in> set ss. segment x) \<and> s = join_slash ss)) \<and>
   (repo_scan False s \<longrightarrow> (\<exists>b ss. (\<forall>c \<in> set b. isSegmentByte c) \<and> (\<forall>x \<in> set ss. segment x) \<and>
      s = join_slash (b # ss)))"
proof (induction s)
  case Nil
  show ?case by (auto intro!: exI [of _ "[]"])
next
  case (Cons c s)
  have first: "\<exists>ss. ss \<noteq> [] \<and> (\<forall>x \<in> set ss. segment x) \<and> c # s = join_slash ss" if "repo_scan True (c # s)"
  proof -
    from that have c: "isSegmentStart c" "repo_scan False s" by (auto split: if_splits)
    with Cons.IH obtain b ss where b: "\<forall>c \<in> set b. isSegmentByte c" "\<forall>x \<in> set ss. segment x"
      "s = join_slash (b # ss)" by blast
    then have "c # s = join_slash ((c # b) # ss)" using join_slash_push [of "b # ss" c] by simp
    moreover have "segment (c # b)" using c b by (simp add: segment_def)
    ultimately show ?thesis using b(2) by (intro exI [of _ "(c # b) # ss"]) simp
  qed
  have later: "\<exists>b ss. (\<forall>c \<in> set b. isSegmentByte c) \<and> (\<forall>x \<in> set ss. segment x) \<and> c # s = join_slash (b # ss)"
    if scan: "repo_scan False (c # s)"
  proof (cases "c = 47")
    case True
    with scan have "repo_scan True s" by simp
    with Cons.IH obtain ss where ss: "ss \<noteq> []" "\<forall>x \<in> set ss. segment x" "s = join_slash ss" by blast
    with True have "c # s = join_slash ([] # ss)" by (cases ss) auto
    with ss show ?thesis by (intro exI [of _ "[]"] exI [of _ ss]) simp
  next
    case False
    with scan have c: "isSegmentByte c" "repo_scan False s" by (auto split: if_splits)
    with Cons.IH obtain b ss where b: "\<forall>c \<in> set b. isSegmentByte c" "\<forall>x \<in> set ss. segment x"
      "s = join_slash (b # ss)" by blast
    then have "c # s = join_slash ((c # b) # ss)" using join_slash_push [of "b # ss" c] by simp
    with c b show ?thesis by (intro exI [of _ "c # b"] exI [of _ ss]) auto
  qed
  from first later show ?case by blast
qed

lemma repo_scan_iff: "repo_scan True s \<longleftrightarrow> (\<exists>ss. ss \<noteq> [] \<and> (\<forall>x \<in> set ss. segment x) \<and> s = join_slash ss)"
  using scan_parses scan_segments by blast

section \<open>UUID text\<close>

definition hex_digit :: "nat \<Rightarrow> rune" where
  "hex_digit d = (if d < 10 then 48 + d else 87 + d)"

definition uuid_nibbles :: "uuid \<Rightarrow> nat list" where
  "uuid_nibbles i = map (\<lambda>k. unat (take_bit 4 (drop_bit (4 * (31 - k)) i))) [0..<32]"

text \<open>\<open>uuid.UUID.String\<close>: 8-4-4-4-12 lower-case hexadecimal digits.\<close>

definition uuid_text :: "uuid \<Rightarrow> ustr" where
  "uuid_text i = (let h = map hex_digit (uuid_nibbles i) in
     take 8 h @ 45 # take 4 (drop 8 h) @ 45 # take 4 (drop 12 h) @ 45 # take 4 (drop 16 h) @ 45 # drop 20 h)"

text \<open>\<open>%d\<close> of a natural number.\<close>

fun decimal :: "nat \<Rightarrow> ustr" where
  "decimal n = (if n < 10 then [48 + n] else decimal (n div 10) @ [48 + n mod 10])"

declare decimal.simps [simp del]

end
