(* ===== verification/Gtd_Model.thy ===== *)
theory Gtd_Model
  imports Texts Outcome_Stores
begin

text \<open>
  The GTD tables of the SQLite backend (\<open>internal/storage/sqlite/schema.sql\<close>) and the task
  and project operations of \<open>internal/storage/sqlite/gtd.go\<close> with the domain rules of
  \<open>internal/gtd\<close>.  Every operation takes the store's workspace scope, the instant of the call
  and the identifier it would generate.  \<open>env\<close> stands for what other connections of the pool
  do between two statements of an operation that is not one transaction.

  The columns the model decides on are typed; \<open>env n\<close> is applied before the n-th later statement.
  Array columns (\<open>checklist\<close>, \<open>commit_shas\<close>) hold their decoded value.  The id of an
  \<open>activity_log\<close> row is left out; \<open>Candidate_Detect\<close>, which quotes it, takes it as a parameter.  Closed text columns are datatypes or
  checked against their CHECK constraint; a violated constraint is \<open>GConstraint\<close>.
\<close>

section \<open>Rows\<close>

datatype task_status = Pending | InProgress | Completed | Cancelled
datatype project_status = ProjActive | ProjCompleted | ProjArchived | ProjOnHold
datatype vision_status = VisionOpen | VisionDiscussing | VisionMaturing | VisionPromoted | VisionDismissed

record task =
  t_id :: uuid
  t_workspace :: "uuid option"
  t_project :: "uuid option"
  t_title :: ustr
  t_description :: "ustr option"
  t_status :: task_status
  t_priority :: int
  t_importance :: "int option"
  t_context :: "ustr option"
  t_assignee :: "ustr option"
  t_due :: "instant option"
  t_artifact :: "ustr option"
  t_checklist :: "ustr list"
  t_kind :: string
  t_branch :: "ustr option"
  t_pr_url :: "ustr option"
  t_commit_shas :: "ustr list"
  t_vision_item :: "uuid option"
  t_created :: instant
  t_updated :: instant
  t_area :: ustr

record project =
  pj_id :: uuid
  pj_workspace :: "uuid option"
  pj_goal :: "uuid option"
  pj_name :: ustr
  pj_title :: ustr
  pj_description :: "ustr option"
  pj_status :: project_status
  pj_area :: ustr
  pj_priority :: int
  pj_repo :: "ustr option"
  pj_created :: instant
  pj_updated :: instant

record activity =
  a_workspace :: "uuid option"
  a_actor :: ustr
  a_project :: "uuid option"
  a_action :: string
  a_notes :: "ustr option"
  a_created :: instant

text \<open>
  \<open>work_sessions\<close>, \<open>work_session_tasks\<close>, \<open>work_session_evidence\<close> (migrations 21, 22, 65, 66): the tables
  of the session store, which the deletions of this store update too.
\<close>

datatype session_status = Planned | SessionActive | Checkpointed | SessionDone | SessionCancelled | Archived

record work_session =
  wk_id :: uuid
  wk_workspace :: uuid
  wk_repo :: ustr
  wk_project :: "uuid option"
  wk_title :: ustr
  wk_goal :: ustr
  wk_status :: session_status
  wk_source :: string
  wk_plan :: "uuid option"
  wk_current_task :: "uuid option"
  wk_summary :: "ustr option"
  wk_started :: "instant option"
  wk_checkpoint :: "instant option"
  wk_completed :: "instant option"
  wk_created :: instant
  wk_updated :: instant
  wk_pack :: "uuid option"
  wk_verification :: "string option"
  wk_command :: "ustr option"
  wk_excerpt :: "ustr option"
  wk_outcome :: "uuid option"
  wk_result :: "string option"
  wk_branch :: "ustr option"

record session_task =
  st_session :: uuid
  st_task :: uuid
  st_role :: string
  st_created :: instant

record session_evidence =
  we_id :: uuid
  we_workspace :: "uuid option"
  we_session :: uuid
  we_type :: string
  we_status :: string
  we_command :: "ustr option"
  we_artifact :: "ustr option"
  we_excerpt :: "ustr option"
  we_created :: instant

text \<open>\<open>completion_candidates\<close> (migration 42): \<open>(task_id, reason)\<close> is unique.\<close>

datatype candidate_status = CandidatePending | CandidateAccepted | CandidateRejected | CandidateAutoApplied

record candidate =
  cc_id :: uuid
  cc_workspace :: "uuid option"
  cc_task :: uuid
  cc_repo :: "ustr option"
  cc_reason :: string
  cc_evidence :: "ustr list"
  cc_confidence :: string
  cc_artifact :: "ustr option"
  cc_status :: candidate_status
  cc_detected :: instant
  cc_resolved :: "instant option"

text \<open>Of the other tables that point at tasks or projects, the key and the references.\<close>

record vision_item =
  vi_id :: uuid
  vi_project :: "uuid option"
  vi_promoted :: "uuid option"
  vi_status :: vision_status

record doc_row =           \<comment> \<open>\<open>decisions\<close> and \<open>knowledge_items\<close>\<close>
  dr_id :: uuid
  dr_task :: "uuid option"
  dr_project :: "uuid option"

record project_ref_row =   \<comment> \<open>\<open>session_handoffs\<close> and \<open>procedural_memories\<close>\<close>
  pr_id :: uuid
  pr_project :: "uuid option"

datatype payload = PayProject project | PayTask task

record tombstone =
  tb_workspace :: "uuid option"
  tb_deletion :: uuid
  tb_entity :: uuid
  tb_project :: "uuid option"
  tb_payload :: payload
  tb_deleted_by :: ustr
  tb_deleted_at :: instant

record gtd_db =
  tasks :: "task list"
  projects :: "project list"
  activity_log :: "activity list"
  work_sessions :: "work_session list"
  session_tasks :: "session_task list"
  evidence :: "session_evidence list"
  candidates :: "candidate list"
  vision_items :: "vision_item list"
  decisions :: "doc_row list"
  knowledge_items :: "doc_row list"
  handoffs :: "project_ref_row list"
  procedural :: "project_ref_row list"
  tombstones :: "tombstone list"

datatype gtd_error =
    GNotFound
  | GConflict
  | GInvalidAssignee
  | GAssigneeRequired
  | GProjectNotFound
  | GInvalidRepoName
  | GProjectTasksChanged
  | GConstraint
  | GDatabase string        \<comment> \<open>a failed statement, by the name of the step\<close>

section \<open>Helpers of the store\<close>

definition nullIfEmpty :: "ustr \<Rightarrow> ustr option" where
  "nullIfEmpty s = (if s = [] then None else Some s)"

definition areaOrUnsorted :: "ustr \<Rightarrow> ustr" where
  "areaOrUnsorted a = (if a = [] then lit ''unsorted'' else a)"

definition ValidTaskKinds :: "string list" where
  "ValidTaskKinds = [''general'', ''fix-pr'', ''feature'', ''refactor'', ''research'', ''chore'']"

text \<open>The CHECK constraints of the two tables.\<close>

definition task_check :: "task \<Rightarrow> bool" where
  "task_check t \<longleftrightarrow> 1 \<le> t_priority t \<and> t_priority t \<le> 5 \<and>
     (case t_importance t of None \<Rightarrow> True | Some n \<Rightarrow> 1 \<le> n \<and> n \<le> 3) \<and> t_kind t \<in> set ValidTaskKinds"

definition project_check :: "project \<Rightarrow> bool" where
  "project_check p \<longleftrightarrow> 1 \<le> pj_priority p \<and> pj_priority p \<le> 5"

definition RequireAssigneeForInProgress :: "ustr \<Rightarrow> task_status \<Rightarrow> gtd_error option" where
  "RequireAssigneeForInProgress assignee status =
     (if status \<noteq> InProgress then None
      else if TrimSpace assignee = [] then Some GAssigneeRequired
      else None)"

definition text_of :: "ustr option \<Rightarrow> ustr" where
  "text_of x = (case x of None \<Rightarrow> [] | Some s \<Rightarrow> s)"

definition task_row :: "uuid option \<Rightarrow> uuid \<Rightarrow> task \<Rightarrow> bool" where
  "task_row scope i t \<longleftrightarrow> t_id t = i \<and> in_scope scope (t_workspace t)"

definition project_row :: "uuid option \<Rightarrow> uuid \<Rightarrow> project \<Rightarrow> bool" where
  "project_row scope i p \<longleftrightarrow> pj_id p = i \<and> in_scope scope (pj_workspace p)"

definition taskByID :: "uuid option \<Rightarrow> uuid \<Rightarrow> gtd_db \<Rightarrow> gtd_error + task" where
  "taskByID scope i db = (case first_row (task_row scope i) (tasks db) of None \<Rightarrow> Inl GNotFound | Some t \<Rightarrow> Inr t)"

definition projectByID :: "uuid option \<Rightarrow> uuid \<Rightarrow> gtd_db \<Rightarrow> gtd_error + project" where
  "projectByID scope i db =
     (case first_row (project_row scope i) (projects db) of None \<Rightarrow> Inl GNotFound | Some p \<Rightarrow> Inr p)"

section \<open>Creating\<close>

record create_task_params =
  ct_project :: "uuid option"
  ct_title :: ustr
  ct_description :: ustr
  ct_priority :: int
  ct_assignee :: ustr
  ct_due :: "instant option"
  ct_importance :: "int option"
  ct_context :: ustr
  ct_kind :: string
  ct_branch :: "ustr option"
  ct_pr_url :: "ustr option"
  ct_vision :: "uuid option"
  ct_area :: ustr

text \<open>The gate and the \<open>INSERT\<close> that \<open>CreateTask\<close> and \<open>CreateTaskTx\<close> both run.\<close>

definition create_assignee :: "ustr \<Rightarrow> gtd_error + ustr" where
  "create_assignee assignee =
     (if TrimSpace assignee \<noteq> [] then
        (case NormalizeActor assignee of None \<Rightarrow> Inl GInvalidAssignee | Some normalized \<Rightarrow> Inr normalized)
      else Inr assignee)"

definition non_empty :: "ustr option \<Rightarrow> ustr option" where
  "non_empty x = (case x of None \<Rightarrow> None | Some s \<Rightarrow> if s = [] then None else Some s)"

definition new_task :: "(instant \<Rightarrow> instant) \<Rightarrow> uuid option \<Rightarrow> instant \<Rightarrow> uuid \<Rightarrow> create_task_params \<Rightarrow> ustr
    \<Rightarrow> uuid option \<Rightarrow> task" where
  "new_task ts scope now nid p assignee vision =
     \<lparr>t_id = nid, t_workspace = scope, t_project = ct_project p, t_title = ct_title p,
      t_description = nullIfEmpty (ct_description p), t_status = Pending,
      t_priority = (if ct_priority p = 0 then 3 else ct_priority p),
      t_importance = ct_importance p, t_context = nullIfEmpty (ct_context p),
      t_assignee = nullIfEmpty assignee, t_due = map_option ts (ct_due p), t_artifact = None,
      t_checklist = [], t_kind = (if ct_kind p = [] then ''general'' else ct_kind p),
      t_branch = non_empty (ct_branch p), t_pr_url = non_empty (ct_pr_url p),
      t_commit_shas = [], t_vision_item = vision, t_created = ts now, t_updated = ts now,
      t_area = areaOrUnsorted (ct_area p)\<rparr>"

text \<open>The SQLite \<open>INSERT\<close> names no \<open>vision_item_id\<close> column.\<close>

definition CreateTaskTx :: "uuid option \<Rightarrow> instant \<Rightarrow> uuid \<Rightarrow> create_task_params \<Rightarrow> gtd_db
    \<Rightarrow> gtd_error + uuid \<times> gtd_db" where
  "CreateTaskTx scope now nid p s =
     (case create_assignee (ct_assignee p) of
        Inl e \<Rightarrow> Inl e
      | Inr assignee \<Rightarrow>
          (let t = new_task sq_ts scope now nid p assignee None
           in if nid \<in> set (map t_id (tasks s)) \<or> \<not> task_check t then Inl GConstraint
              else Inr (nid, s\<lparr>tasks := tasks s @ [t]\<rparr>)))"

definition CreateTask :: "(nat \<Rightarrow> gtd_db \<Rightarrow> gtd_db) \<Rightarrow> uuid option \<Rightarrow> instant \<Rightarrow> uuid
    \<Rightarrow> create_task_params \<Rightarrow> gtd_db \<Rightarrow> (gtd_error + task) \<times> gtd_db" where
  "CreateTask env scope now nid p s =
     (case CreateTaskTx scope now nid p s of
        Inl e \<Rightarrow> (Inl e, s)
      | Inr (i, s1) \<Rightarrow> (let s2 = env 0 s1 in (taskByID scope i s2, s2)))"

record create_project_params =
  cp_goal :: "uuid option"
  cp_name :: ustr
  cp_title :: ustr
  cp_description :: ustr
  cp_area :: ustr
  cp_priority :: int
  cp_repo :: ustr

definition defaultProjectArea :: ustr where
  "defaultProjectArea = lit ''projects''"

definition project_of :: "uuid option \<Rightarrow> instant \<Rightarrow> uuid \<Rightarrow> create_project_params \<Rightarrow> project" where
  "project_of scope now nid p =
     \<lparr>pj_id = nid, pj_workspace = scope, pj_goal = cp_goal p, pj_name = cp_name p,
      pj_title = cp_title p, pj_description = nullIfEmpty (cp_description p), pj_status = ProjActive,
      pj_area = (if cp_area p = [] then defaultProjectArea else cp_area p),
      pj_priority = (if cp_priority p = 0 then 3 else cp_priority p),
      pj_repo = nullIfEmpty (cp_repo p), pj_created = sq_ts now, pj_updated = sq_ts now\<rparr>"

definition CreateProject :: "(nat \<Rightarrow> gtd_db \<Rightarrow> gtd_db) \<Rightarrow> uuid option \<Rightarrow> instant \<Rightarrow> uuid
    \<Rightarrow> create_project_params \<Rightarrow> gtd_db \<Rightarrow> (gtd_error + project) \<times> gtd_db" where
  "CreateProject env scope now nid p s =
     (if \<not> IsValidRepoName (cp_repo p) then (Inl GInvalidRepoName, s)
      else
        (let r = project_of scope now nid p
         in if nid \<in> set (map pj_id (projects s)) \<or> cp_name p \<in> set (map pj_name (projects s)) then (Inl GConflict, s)
            else if \<not> project_check r then (Inl GConstraint, s)
            else (let s1 = env 0 (s\<lparr>projects := projects s @ [r]\<rparr>) in (projectByID scope nid s1, s1))))"

section \<open>Status changes\<close>

text \<open>\<open>updateTaskStatusSQL\<close>, \<open>updateTaskStatusGuardedSQL\<close>, \<open>beginTaskStatusSQL\<close>: their WHERE clauses.\<close>

definition assignee_clause :: "task_status \<Rightarrow> task \<Rightarrow> bool" where
  "assignee_clause status t \<longleftrightarrow> status \<noteq> InProgress \<or> sql_trim (text_of (t_assignee t)) AssigneeSpaceChars \<noteq> []"

definition set_status :: "task_status \<Rightarrow> instant \<Rightarrow> task \<Rightarrow> task" where
  "set_status status now t = t\<lparr>t_status := status, t_updated := sq_ts now\<rparr>"

definition gate_existing :: "uuid option \<Rightarrow> uuid \<Rightarrow> task_status \<Rightarrow> gtd_db \<Rightarrow> gtd_error option" where
  "gate_existing scope i status db =
     (if status \<noteq> InProgress then None
      else case taskByID scope i db of
          Inl e \<Rightarrow> Some e
        | Inr existing \<Rightarrow> RequireAssigneeForInProgress (text_of (t_assignee existing)) status)"

text \<open>The \<open>return s.taskByID(ctx, id)\<close> that ends a write: a statement of its own.\<close>

definition reread :: "(nat \<Rightarrow> gtd_db \<Rightarrow> gtd_db) \<Rightarrow> uuid option \<Rightarrow> uuid \<Rightarrow> gtd_db \<Rightarrow> (gtd_error + task) \<times> gtd_db" where
  "reread env scope i s = (let s' = env 2 s in (taskByID scope i s', s'))"

definition UpdateTaskStatus :: "(nat \<Rightarrow> gtd_db \<Rightarrow> gtd_db) \<Rightarrow> uuid option \<Rightarrow> instant \<Rightarrow> uuid \<Rightarrow> task_status
    \<Rightarrow> gtd_db \<Rightarrow> (gtd_error + task) \<times> gtd_db" where
  "UpdateTaskStatus env scope now i status s =
     (case gate_existing scope i status s of
        Some e \<Rightarrow> (Inl e, s)
      | None \<Rightarrow>
          (let s1 = env 0 s;
               hit = (\<lambda>t. task_row scope i t \<and> assignee_clause status t)
           in if list_ex hit (tasks s1)
              then (let s2 = s1\<lparr>tasks := update_rows hit (set_status status now) (tasks s1)\<rparr>
                    in reread env scope i s2)
              else (let s2 = env 1 s1
                    in (case gate_existing scope i status s2 of Some e \<Rightarrow> Inl e | None \<Rightarrow> Inl GNotFound, s2))))"

definition UpdateTaskStatusGuarded :: "(nat \<Rightarrow> gtd_db \<Rightarrow> gtd_db) \<Rightarrow> uuid option \<Rightarrow> instant \<Rightarrow> uuid
    \<Rightarrow> task_status \<Rightarrow> task_status \<Rightarrow> gtd_db \<Rightarrow> (gtd_error + task) \<times> gtd_db" where
  "UpdateTaskStatusGuarded env scope now i status expected s =
     (case gate_existing scope i status s of
        Some e \<Rightarrow> (Inl e, s)
      | None \<Rightarrow>
          (let s1 = env 0 s;
               hit = (\<lambda>t. task_row scope i t \<and> t_status t = expected \<and> assignee_clause status t)
           in if list_ex hit (tasks s1)
              then (let s2 = s1\<lparr>tasks := update_rows hit (set_status status now) (tasks s1)\<rparr>
                    in reread env scope i s2)
              else (let s2 = env 1 s1
                    in (case taskByID scope i s2 of
                          Inl e \<Rightarrow> Inl e
                        | Inr t \<Rightarrow>
                            if t_status t \<noteq> expected then Inl GConflict
                            else if status = InProgress then
                              (case RequireAssigneeForInProgress (text_of (t_assignee t)) status of
                                 Some e \<Rightarrow> Inl e | None \<Rightarrow> Inl GConflict)
                            else Inl GConflict, s2))))"

definition complete_row :: "instant \<Rightarrow> ustr option \<Rightarrow> task \<Rightarrow> task" where
  "complete_row now artifact t = t\<lparr>t_status := Completed,
     t_artifact := (case artifact of None \<Rightarrow> t_artifact t | Some a \<Rightarrow> Some a), t_updated := sq_ts now\<rparr>"

definition CompleteTask :: "(nat \<Rightarrow> gtd_db \<Rightarrow> gtd_db) \<Rightarrow> uuid option \<Rightarrow> instant \<Rightarrow> uuid \<Rightarrow> ustr option \<Rightarrow> gtd_db
    \<Rightarrow> (gtd_error + task) \<times> gtd_db" where
  "CompleteTask env scope now i artifact s =
     (if list_ex (task_row scope i) (tasks s)
      then reread env scope i (s\<lparr>tasks := update_rows (task_row scope i) (complete_row now artifact) (tasks s)\<rparr>)
      else (Inl GNotFound, s))"

section \<open>BeginTask\<close>

text \<open>
  \<open>gtd.BeginTaskOrchestration\<close> over a \<open>BeginTaskAdapter\<close>.  An adapter keeps one row between
  its calls (SQLite: \<open>existingTitle\<close>, set by \<open>ReadExisting\<close>; Postgres: \<open>result\<close>, set by
  \<open>GuardedUpdate\<close>); the model threads it as \<open>task option\<close>.  The calls between \<open>BeginTx\<close> and
  \<open>Commit\<close> are one transaction: other connections act before it (\<open>env 0\<close>), before the re-read
  of a blocked guard (\<open>env 1\<close>) and after the commit (\<open>env 2\<close>).
\<close>

record begin_adapter =
  ba_read :: "gtd_db \<Rightarrow> gtd_error + task \<times> task option"
  ba_guarded_update :: "task option \<Rightarrow> gtd_db \<Rightarrow> bool \<times> task option \<times> gtd_db"
  ba_resolve_blocked :: "gtd_db \<Rightarrow> gtd_error + task"
  ba_log :: "task option \<Rightarrow> gtd_db \<Rightarrow> gtd_db"
  ba_commit :: "task option \<Rightarrow> gtd_db \<Rightarrow> (gtd_error + task) \<times> gtd_db"

definition BeginTaskOrchestration :: "(nat \<Rightarrow> gtd_db \<Rightarrow> gtd_db) \<Rightarrow> begin_adapter \<Rightarrow> gtd_db
    \<Rightarrow> (gtd_error + task) \<times> gtd_db" where
  "BeginTaskOrchestration env ad s =
     (case ba_read ad s of
        Inl e \<Rightarrow> (Inl e, s)
      | Inr (existing, st) \<Rightarrow>
          if t_status existing = InProgress then (Inr existing, s)
          else (case RequireAssigneeForInProgress (text_of (t_assignee existing)) InProgress of
              Some e \<Rightarrow> (Inl e, s)
            | None \<Rightarrow>
                (let s1 = env 0 s;
                     (blocked, st', s2) = ba_guarded_update ad st s1
                 in if blocked then (let s3 = env 1 s1 in (ba_resolve_blocked ad s3, s3))
                    else ba_commit ad st' (ba_log ad st' s2))))"

definition begin_guard :: "uuid option \<Rightarrow> uuid \<Rightarrow> task \<Rightarrow> bool" where
  "begin_guard scope i t \<longleftrightarrow> task_row scope i t \<and> t_status t \<noteq> InProgress \<and> assignee_clause InProgress t"

text \<open>\<open>ResolveGuardBlocked\<close>, the same three-way answer on both backends.\<close>

definition resolve_blocked :: "(gtd_db \<Rightarrow> gtd_error + task) \<Rightarrow> gtd_db \<Rightarrow> gtd_error + task" where
  "resolve_blocked get s =
     (case get s of
        Inl e \<Rightarrow> Inl e
      | Inr t \<Rightarrow> if t_status t = InProgress then Inr t
                 else (case RequireAssigneeForInProgress (text_of (t_assignee t)) InProgress of
                         Some e \<Rightarrow> Inl e | None \<Rightarrow> Inl GNotFound))"

definition begin_log_row :: "uuid option \<Rightarrow> instant \<Rightarrow> ustr \<Rightarrow> activity" where
  "begin_log_row scope at title =
     \<lparr>a_workspace = scope, a_actor = lit ''system'', a_project = None, a_action = ''work_session_started'',
      a_notes = Some (Notes (lit ''task: '' @ title)), a_created = at\<rparr>"

definition sqlite_begin_adapter :: "(nat \<Rightarrow> gtd_db \<Rightarrow> gtd_db) \<Rightarrow> uuid option \<Rightarrow> instant \<Rightarrow> uuid \<Rightarrow> begin_adapter" where
  "sqlite_begin_adapter env scope now i =
     \<lparr>ba_read = (\<lambda>s. case taskByID scope i s of Inl e \<Rightarrow> Inl e | Inr t \<Rightarrow> Inr (t, Some t)),
      ba_guarded_update = (\<lambda>st s. (\<not> list_ex (begin_guard scope i) (tasks s), st,
         s\<lparr>tasks := update_rows (begin_guard scope i) (set_status InProgress now) (tasks s)\<rparr>)),
      ba_resolve_blocked = resolve_blocked (taskByID scope i),
      ba_log = (\<lambda>st s. s\<lparr>activity_log := activity_log s @
         [begin_log_row scope (sq_ts now) (case st of None \<Rightarrow> [] | Some existing \<Rightarrow> t_title existing)]\<rparr>),
      ba_commit = (\<lambda>st s. reread env scope i s)\<rparr>"

definition BeginTask :: "(nat \<Rightarrow> gtd_db \<Rightarrow> gtd_db) \<Rightarrow> uuid option \<Rightarrow> instant \<Rightarrow> uuid \<Rightarrow> gtd_db
    \<Rightarrow> (gtd_error + task) \<times> gtd_db" where
  "BeginTask env scope now i s = BeginTaskOrchestration env (sqlite_begin_adapter env scope now i) s"

section \<open>Closing by merged pull requests\<close>

datatype match_reason = MatchReasonPRURLExact | MatchReasonBranchNameExact

record pr_match =
  m_task :: uuid
  m_reason :: match_reason
  m_pr_url :: ustr
  m_head_ref :: ustr
  m_body_excerpt :: ustr

definition open_status :: "task_status \<Rightarrow> bool" where
  "open_status st \<longleftrightarrow> st = Pending \<or> st = InProgress"

fun reason_text :: "match_reason \<Rightarrow> ustr" where
  "reason_text MatchReasonPRURLExact = lit ''pr_url_exact''"
| "reason_text MatchReasonBranchNameExact = lit ''branch_name_exact''"

definition close_notes :: "pr_match \<Rightarrow> ustr" where
  "close_notes m =
     lit ''auto-closed by reconcile_merged_prs reason='' @ reason_text (m_reason m) @
     lit '' pr_url='' @ m_pr_url m @ lit '' head_ref='' @ m_head_ref m @
     (if m_body_excerpt m = [] then [] else lit '' body='' @ m_body_excerpt m)"

definition close_hit :: "uuid option \<Rightarrow> pr_match \<Rightarrow> task \<Rightarrow> bool" where
  "close_hit scope m t \<longleftrightarrow> task_row scope (m_task m) t \<and> open_status (t_status t)"

definition close_row :: "instant \<Rightarrow> pr_match \<Rightarrow> task \<Rightarrow> task" where
  "close_row at m t = t\<lparr>t_status := Completed, t_artifact := Some (m_pr_url m), t_pr_url := Some (m_pr_url m),
     t_updated := at\<rparr>"

definition close_log_row :: "uuid option \<Rightarrow> instant \<Rightarrow> pr_match \<Rightarrow> activity" where
  "close_log_row scope at m =
     \<lparr>a_workspace = scope, a_actor = lit ''system'', a_project = None, a_action = ''pr_auto_close'',
      a_notes = Some (Notes (close_notes m)), a_created = at\<rparr>"

text \<open>
  One transaction: \<open>fault k\<close> says that its \<open>k\<close>-th statement fails (the update of the \<open>n\<close>-th match
  is statement \<open>2 * n\<close>, its log row \<open>2 * n + 1\<close>, the commit comes after the last), and the deferred
  rollback then restores the state the transaction started from.
\<close>

fun batch_close :: "(nat \<Rightarrow> bool) \<Rightarrow> uuid option \<Rightarrow> instant \<Rightarrow> nat \<Rightarrow> pr_match list \<Rightarrow> uuid list \<times> gtd_db
    \<Rightarrow> gtd_error + uuid list \<times> gtd_db" where
  "batch_close fault scope at n [] (applied, s) =
     (if fault (2 * n) then Inl (GDatabase ''commit'') else Inr (applied, s))"
| "batch_close fault scope at n (m # ms) (applied, s) =
     (if fault (2 * n) then Inl (GDatabase ''update'')
      else if \<not> list_ex (close_hit scope m) (tasks s) then batch_close fault scope at (Suc n) ms (applied, s)
      else if fault (2 * n + 1) then Inl (GDatabase ''activity_log'')
      else batch_close fault scope at (Suc n) ms (m_task m # applied,
             s\<lparr>tasks := update_rows (close_hit scope m) (close_row at m) (tasks s),
               activity_log := activity_log s @ [close_log_row scope at m]\<rparr>))"

definition BatchCompleteTasksByPRMatch :: "(nat \<Rightarrow> bool) \<Rightarrow> uuid option \<Rightarrow> instant \<Rightarrow> pr_match list \<Rightarrow> gtd_db
    \<Rightarrow> (gtd_error + uuid list) \<times> gtd_db" where
  "BatchCompleteTasksByPRMatch fault scope now matches s =
     (if matches = [] then (Inr [], s)
      else case batch_close fault scope (sq_ts now) 0 matches ([], s) of
          Inl e \<Rightarrow> (Inl e, s)
        | Inr (applied, s') \<Rightarrow> (Inr applied, s'))"

section \<open>Updating\<close>

record update_task_params =
  ut_title :: "ustr option"
  ut_description :: "ustr option"
  ut_priority :: "int option"
  ut_importance :: "int option"
  ut_assignee :: "ustr option"
  ut_due :: "instant option"
  ut_context :: "ustr option"
  ut_status :: "task_status option"
  ut_kind :: "string option"
  ut_branch :: "ustr option"
  ut_pr_url :: "ustr option"
  ut_area :: "ustr option"
  ut_project :: "uuid option option"      \<comment> \<open>\<open>Some None\<close> clears, \<open>Some (Some p)\<close> sets\<close>
  ut_append_sha :: "ustr option"

record mergedTaskFields =
  mf_title :: ustr
  mf_description :: "ustr option"
  mf_priority :: int
  mf_importance :: "int option"
  mf_assignee :: "ustr option"
  mf_due :: "instant option"
  mf_context :: "ustr option"
  mf_status :: task_status
  mf_kind :: string
  mf_branch :: "ustr option"
  mf_pr_url :: "ustr option"

definition keep :: "'a \<Rightarrow> 'a option \<Rightarrow> 'a" where
  "keep old new = (case new of None \<Rightarrow> old | Some x \<Rightarrow> x)"

definition keep_text :: "ustr option \<Rightarrow> ustr option \<Rightarrow> ustr option" where
  "keep_text old new = (case new of None \<Rightarrow> old | Some x \<Rightarrow> nullIfEmpty x)"

definition mergeTaskFields :: "(instant \<Rightarrow> instant) \<Rightarrow> task \<Rightarrow> update_task_params \<Rightarrow> mergedTaskFields" where
  "mergeTaskFields ts existing p =
     \<lparr>mf_title = keep (t_title existing) (ut_title p),
      mf_description = keep_text (t_description existing) (ut_description p),
      mf_priority = keep (t_priority existing) (ut_priority p),
      mf_importance = (case ut_importance p of None \<Rightarrow> t_importance existing | Some n \<Rightarrow> Some n),
      mf_assignee = keep_text (t_assignee existing) (ut_assignee p),
      mf_due = map_option ts (case ut_due p of None \<Rightarrow> t_due existing | Some d \<Rightarrow> Some d),
      mf_context = keep_text (t_context existing) (ut_context p),
      mf_status = keep (t_status existing) (ut_status p),
      mf_kind = keep (t_kind existing) (ut_kind p),
      mf_branch = keep_text (t_branch existing) (ut_branch p),
      mf_pr_url = keep_text (t_pr_url existing) (ut_pr_url p)\<rparr>"

text \<open>The assignee gate of \<open>UpdateTask\<close>: a blank value is an explicit clear.\<close>

definition update_assignee :: "ustr option \<Rightarrow> gtd_error + ustr option" where
  "update_assignee a =
     (case a of
        None \<Rightarrow> Inr None
      | Some raw \<Rightarrow>
          if TrimSpace raw = [] then Inr (Some [])
          else (case NormalizeActor raw of None \<Rightarrow> Inl GInvalidAssignee | Some normalized \<Rightarrow> Inr (Some normalized)))"

definition resolveProjectWrite :: "uuid option \<Rightarrow> uuid option option \<Rightarrow> gtd_db \<Rightarrow> gtd_error + uuid option option" where
  "resolveProjectWrite scope ref s =
     (case ref of
        None \<Rightarrow> Inr None
      | Some None \<Rightarrow> Inr (Some None)
      | Some (Some pid) \<Rightarrow> (case projectByID scope pid s of Inl _ \<Rightarrow> Inl GProjectNotFound | Inr _ \<Rightarrow> Inr (Some (Some pid))))"

text \<open>The SET clause: \<open>commit_shas\<close>, \<open>area\<close> and \<open>project_id\<close> are decided against the stored row.\<close>

definition write_fields :: "instant \<Rightarrow> mergedTaskFields \<Rightarrow> update_task_params \<Rightarrow> uuid option option \<Rightarrow> task \<Rightarrow> task" where
  "write_fields at m p ref t =
     t\<lparr>t_title := mf_title m, t_description := mf_description m, t_priority := mf_priority m,
       t_importance := mf_importance m, t_assignee := mf_assignee m, t_due := mf_due m,
       t_context := mf_context m, t_status := mf_status m, t_kind := mf_kind m,
       t_branch := mf_branch m, t_pr_url := mf_pr_url m,
       t_commit_shas := (case ut_append_sha p of None \<Rightarrow> t_commit_shas t | Some c \<Rightarrow> t_commit_shas t @ [c]),
       t_area := keep (t_area t) (ut_area p), t_project := keep (t_project t) ref, t_updated := at\<rparr>"

definition UpdateTask :: "(nat \<Rightarrow> gtd_db \<Rightarrow> gtd_db) \<Rightarrow> uuid option \<Rightarrow> instant \<Rightarrow> uuid \<Rightarrow> update_task_params
    \<Rightarrow> gtd_db \<Rightarrow> (gtd_error + task) \<times> gtd_db" where
  "UpdateTask env scope now i p s =
     (case taskByID scope i s of
        Inl e \<Rightarrow> (Inl e, s)
      | Inr existing \<Rightarrow>
          (let s0 = env 0 s in
           case resolveProjectWrite scope (ut_project p) s0 of
             Inl e \<Rightarrow> (Inl e, s0)
           | Inr ref \<Rightarrow>
               (case update_assignee (ut_assignee p) of
                  Inl e \<Rightarrow> (Inl e, s0)
                | Inr a \<Rightarrow>
                    (let m = mergeTaskFields sq_ts existing (p\<lparr>ut_assignee := a\<rparr>) in
                     case RequireAssigneeForInProgress (text_of (mf_assignee m)) (mf_status m) of
                       Some e \<Rightarrow> (Inl e, s0)
                     | None \<Rightarrow>
                         (let s1 = env 1 s0;
                              rows = update_rows (task_row scope i) (write_fields (sq_ts now) m p ref) (tasks s1)
                          in if \<not> list_ex (task_row scope i) (tasks s1) then (Inl GNotFound, s1)
                             else if \<not> list_all task_check (filter (task_row scope i) rows) then (Inl GConstraint, s1)
                             else reread env scope i (s1\<lparr>tasks := rows\<rparr>))))))"

record update_project_params =
  up_title :: ustr
  up_description :: ustr
  up_area :: ustr
  up_priority :: int
  up_status :: project_status
  up_goal :: "uuid option"
  up_repo :: "ustr option"

definition write_project :: "instant \<Rightarrow> update_project_params \<Rightarrow> project \<Rightarrow> project" where
  "write_project at p r =
     r\<lparr>pj_title := up_title p, pj_description := nullIfEmpty (up_description p),
       pj_area := (if up_area p = [] then defaultProjectArea else up_area p),
       pj_priority := (if up_priority p = 0 then 3 else up_priority p), pj_status := up_status p,
       pj_goal := up_goal p, pj_repo := keep_text (pj_repo r) (up_repo p), pj_updated := at\<rparr>"

definition UpdateProject :: "(nat \<Rightarrow> gtd_db \<Rightarrow> gtd_db) \<Rightarrow> uuid option \<Rightarrow> instant \<Rightarrow> uuid
    \<Rightarrow> update_project_params \<Rightarrow> gtd_db \<Rightarrow> (gtd_error + project) \<times> gtd_db" where
  "UpdateProject env scope now i p s =
     (if (case up_repo p of None \<Rightarrow> False | Some r \<Rightarrow> \<not> IsValidRepoName r) then (Inl GInvalidRepoName, s)
      else
        (let rows = update_rows (project_row scope i) (write_project (sq_ts now) p) (projects s)
         in if \<not> list_ex (project_row scope i) (projects s) then (Inl GNotFound, s)
            else if \<not> list_all project_check (filter (project_row scope i) rows) then (Inl GConstraint, s)
            else (let s1 = env 0 (s\<lparr>projects := rows\<rparr>) in (projectByID scope i s1, s1))))"

definition UpdateProjectStatus :: "(nat \<Rightarrow> gtd_db \<Rightarrow> gtd_db) \<Rightarrow> uuid option \<Rightarrow> instant \<Rightarrow> uuid
    \<Rightarrow> project_status \<Rightarrow> gtd_db \<Rightarrow> (gtd_error + project) \<times> gtd_db" where
  "UpdateProjectStatus env scope now i status s =
     (if \<not> list_ex (project_row scope i) (projects s) then (Inl GNotFound, s)
      else
        (let s1 = env 0 (s\<lparr>projects := update_rows (project_row scope i)
               (\<lambda>r. r\<lparr>pj_status := status, pj_updated := sq_ts now\<rparr>) (projects s)\<rparr>)
         in (projectByID scope i s1, s1)))"

end
