(* ===== verification/Gtd_Postgres.thy ===== *)
theory Gtd_Postgres
  imports Gtd_Model
begin

text \<open>
  The Postgres task operations of \<open>internal/gtd/store.go\<close> with the queries of
  \<open>sql/queries/gtd.sql\<close>, over the same rows.  A write is one \<open>UPDATE \<dots> RETURNING\<close>, so its
  result is the row it wrote; timestamps have microsecond precision; \<open>getTaskByID\<close> and
  \<open>UpdateTask\<close> do not select \<open>vision_item_id\<close>.
\<close>

definition no_vision :: "task \<Rightarrow> task" where
  "no_vision t = t\<lparr>t_vision_item := None\<rparr>"

definition getTaskByID :: "uuid option \<Rightarrow> uuid \<Rightarrow> gtd_db \<Rightarrow> gtd_error + task" where
  "getTaskByID scope i s =
     (case first_row (task_row scope i) (tasks s) of None \<Rightarrow> Inl GNotFound | Some t \<Rightarrow> Inr (no_vision t))"

section \<open>Creating\<close>

definition CreateTask_pg :: "uuid option \<Rightarrow> instant \<Rightarrow> uuid \<Rightarrow> create_task_params \<Rightarrow> gtd_db
    \<Rightarrow> (gtd_error + task) \<times> gtd_db" where
  "CreateTask_pg scope now nid p s =
     (case create_assignee (ct_assignee p) of
        Inl e \<Rightarrow> (Inl e, s)
      | Inr assignee \<Rightarrow>
          (let t = new_task pg_ts scope now nid p assignee (ct_vision p)
           in if nid \<in> set (map t_id (tasks s)) \<or> \<not> task_check t then (Inl GConstraint, s)
              else (Inr t, s\<lparr>tasks := tasks s @ [t]\<rparr>)))"

section \<open>Status changes\<close>

definition set_status_pg :: "task_status \<Rightarrow> instant \<Rightarrow> task \<Rightarrow> task" where
  "set_status_pg status now t = t\<lparr>t_status := status, t_updated := pg_ts now\<rparr>"

definition gate_existing_pg :: "uuid option \<Rightarrow> uuid \<Rightarrow> task_status \<Rightarrow> gtd_db \<Rightarrow> gtd_error option" where
  "gate_existing_pg scope i status s =
     (if status \<noteq> InProgress then None
      else case getTaskByID scope i s of
          Inl e \<Rightarrow> Some e
        | Inr existing \<Rightarrow> RequireAssigneeForInProgress (text_of (t_assignee existing)) status)"

text \<open>\<open>UPDATE \<dots> WHERE hit RETURNING *\<close> of one row.\<close>

definition update_returning :: "(task \<Rightarrow> bool) \<Rightarrow> (task \<Rightarrow> task) \<Rightarrow> gtd_db \<Rightarrow> (task \<times> gtd_db) option" where
  "update_returning hit f s =
     (case first_row hit (tasks s) of
        None \<Rightarrow> None
      | Some t \<Rightarrow> Some (f t, s\<lparr>tasks := update_rows hit f (tasks s)\<rparr>))"

definition UpdateTaskStatus_pg :: "(nat \<Rightarrow> gtd_db \<Rightarrow> gtd_db) \<Rightarrow> uuid option \<Rightarrow> instant \<Rightarrow> uuid \<Rightarrow> task_status
    \<Rightarrow> gtd_db \<Rightarrow> (gtd_error + task) \<times> gtd_db" where
  "UpdateTaskStatus_pg env scope now i status s =
     (case gate_existing_pg scope i status s of
        Some e \<Rightarrow> (Inl e, s)
      | None \<Rightarrow>
          (let s1 = env 0 s in
           case update_returning (\<lambda>t. task_row scope i t \<and> assignee_clause status t) (set_status_pg status now) s1 of
             Some (t, s2) \<Rightarrow> (Inr t, s2)
           | None \<Rightarrow>
               (let s2 = env 1 s1
                in (case gate_existing_pg scope i status s2 of Some e \<Rightarrow> Inl e | None \<Rightarrow> Inl GNotFound, s2))))"

definition UpdateTaskStatusGuarded_pg :: "(nat \<Rightarrow> gtd_db \<Rightarrow> gtd_db) \<Rightarrow> uuid option \<Rightarrow> instant \<Rightarrow> uuid
    \<Rightarrow> task_status \<Rightarrow> task_status \<Rightarrow> gtd_db \<Rightarrow> (gtd_error + task) \<times> gtd_db" where
  "UpdateTaskStatusGuarded_pg env scope now i status expected s =
     (case gate_existing_pg scope i status s of
        Some e \<Rightarrow> (Inl e, s)
      | None \<Rightarrow>
          (let s1 = env 0 s in
           case update_returning (\<lambda>t. task_row scope i t \<and> t_status t = expected \<and> assignee_clause status t)
                  (set_status_pg status now) s1 of
             Some (t, s2) \<Rightarrow> (Inr t, s2)
           | None \<Rightarrow>
               (let s2 = env 1 s1
                in (case getTaskByID scope i s2 of
                      Inl e \<Rightarrow> Inl e
                    | Inr t \<Rightarrow>
                        if t_status t \<noteq> expected then Inl GConflict
                        else if status = InProgress then
                          (case RequireAssigneeForInProgress (text_of (t_assignee t)) status of
                             Some e \<Rightarrow> Inl e | None \<Rightarrow> Inl GConflict)
                        else Inl GConflict, s2))))"

definition complete_row_pg :: "instant \<Rightarrow> ustr option \<Rightarrow> task \<Rightarrow> task" where
  "complete_row_pg now artifact t = t\<lparr>t_status := Completed,
     t_artifact := (case artifact of None \<Rightarrow> t_artifact t | Some a \<Rightarrow> Some a), t_updated := pg_ts now\<rparr>"

definition CompleteTask_pg :: "uuid option \<Rightarrow> instant \<Rightarrow> uuid \<Rightarrow> ustr option \<Rightarrow> gtd_db
    \<Rightarrow> (gtd_error + task) \<times> gtd_db" where
  "CompleteTask_pg scope now i artifact s =
     (case update_returning (task_row scope i) (complete_row_pg now artifact) s of
        None \<Rightarrow> (Inl GNotFound, s) | Some (t, s') \<Rightarrow> (Inr t, s'))"

section \<open>BeginTask\<close>

text \<open>
  \<open>BeginTaskStatus\<close> compares \<open>workspace_id\<close> with a plain \<open>uuid.UUID\<close> argument, for which
  \<open>GuardedUpdate\<close> passes \<open>s.workspaceID.Bytes\<close>: all zeros when the store has no workspace.
\<close>

definition begin_guard_pg :: "uuid option \<Rightarrow> uuid \<Rightarrow> task \<Rightarrow> bool" where
  "begin_guard_pg scope i t \<longleftrightarrow> t_id t = i \<and>
     t_workspace t = Some (case scope of None \<Rightarrow> 0 | Some w \<Rightarrow> w) \<and>
     t_status t \<noteq> InProgress \<and> sql_trim (text_of (t_assignee t)) AssigneeSpaceChars \<noteq> []"

definition pg_begin_adapter :: "uuid option \<Rightarrow> instant \<Rightarrow> uuid \<Rightarrow> begin_adapter" where
  "pg_begin_adapter scope now i =
     \<lparr>ba_read = (\<lambda>s. case getTaskByID scope i s of Inl e \<Rightarrow> Inl e | Inr t \<Rightarrow> Inr (t, None)),
      ba_guarded_update = (\<lambda>st s.
         case update_returning (begin_guard_pg scope i) (set_status_pg InProgress now) s of
           None \<Rightarrow> (True, st, s) | Some (t, s') \<Rightarrow> (False, Some t, s')),
      ba_resolve_blocked = resolve_blocked (getTaskByID scope i),
      ba_log = (\<lambda>st s. s\<lparr>activity_log := activity_log s @
         [begin_log_row scope (pg_ts now) (case st of None \<Rightarrow> [] | Some result \<Rightarrow> t_title result)]\<rparr>),
      ba_commit = (\<lambda>st s. (case st of None \<Rightarrow> Inl GNotFound | Some result \<Rightarrow> Inr result, s))\<rparr>"

definition BeginTask_pg :: "(nat \<Rightarrow> gtd_db \<Rightarrow> gtd_db) \<Rightarrow> uuid option \<Rightarrow> instant \<Rightarrow> uuid \<Rightarrow> gtd_db
    \<Rightarrow> (gtd_error + task) \<times> gtd_db" where
  "BeginTask_pg env scope now i s = BeginTaskOrchestration env (pg_begin_adapter scope now i) s"

section \<open>Closing by merged pull requests\<close>

text \<open>
  \<open>applyOnePRMatch\<close> runs its \<open>UPDATE\<close> on \<open>s.dbtx\<close>, the pool the store was built on, and its log
  row on \<open>qtx\<close>, the transaction: an update takes effect when it runs, the log rows at the commit.
  \<open>fault\<close> numbers the statements as in the SQLite model.
\<close>

fun apply_matches_pg :: "(nat \<Rightarrow> bool) \<Rightarrow> uuid option \<Rightarrow> instant \<Rightarrow> nat \<Rightarrow> pr_match list
    \<Rightarrow> uuid list \<times> activity list \<times> gtd_db \<Rightarrow> (gtd_error + uuid list) \<times> gtd_db" where
  "apply_matches_pg fault scope at n [] (applied, pending, s) =
     (if fault (2 * n) then (Inl (GDatabase ''commit''), s)
      else (Inr applied, s\<lparr>activity_log := activity_log s @ pending\<rparr>))"
| "apply_matches_pg fault scope at n (m # ms) (applied, pending, s) =
     (if fault (2 * n) then (Inl (GDatabase ''update task''), s)
      else if \<not> list_ex (close_hit scope m) (tasks s)
      then apply_matches_pg fault scope at (Suc n) ms (applied, pending, s)
      else
        (let s1 = s\<lparr>tasks := update_rows (close_hit scope m) (close_row at m) (tasks s)\<rparr>
         in if fault (2 * n + 1) then (Inl (GDatabase ''activity log''), s1)
            else apply_matches_pg fault scope at (Suc n) ms
                   (m_task m # applied, pending @ [close_log_row scope at m], s1)))"

definition BatchCompleteTasksByPRMatch_pg :: "(nat \<Rightarrow> bool) \<Rightarrow> uuid option \<Rightarrow> instant \<Rightarrow> pr_match list \<Rightarrow> gtd_db
    \<Rightarrow> (gtd_error + uuid list) \<times> gtd_db" where
  "BatchCompleteTasksByPRMatch_pg fault scope now matches s =
     (if matches = [] then (Inr [], s)
      else apply_matches_pg fault scope (pg_ts now) 0 matches ([], [], s))"

section \<open>Updating\<close>

definition checkTaskProject :: "uuid option \<Rightarrow> uuid option option \<Rightarrow> gtd_db \<Rightarrow> gtd_error option" where
  "checkTaskProject scope ref s =
     (case ref of
        Some (Some pid) \<Rightarrow>
          (case projectByID scope pid s of
             Inl e \<Rightarrow> if e = GNotFound then Some GProjectNotFound else Some e
           | Inr _ \<Rightarrow> None)
      | _ \<Rightarrow> None)"

definition resolveAssigneeForUpdate :: "ustr option \<Rightarrow> ustr option \<Rightarrow> task_status \<Rightarrow> gtd_error + ustr option" where
  "resolveAssigneeForUpdate new existing status =
     (case (case new of
              None \<Rightarrow> Inr existing
            | Some raw \<Rightarrow>
                if TrimSpace raw \<noteq> []
                then (case NormalizeActor raw of None \<Rightarrow> Inl GInvalidAssignee | Some a \<Rightarrow> Inr (nullIfEmpty a))
                else Inr (nullIfEmpty [])) of
        Inl e \<Rightarrow> Inl e
      | Inr assignee \<Rightarrow>
          (case RequireAssigneeForInProgress (text_of assignee) status of
             Some e \<Rightarrow> Inl e | None \<Rightarrow> Inr assignee))"

definition UpdateTask_pg :: "(nat \<Rightarrow> gtd_db \<Rightarrow> gtd_db) \<Rightarrow> uuid option \<Rightarrow> instant \<Rightarrow> uuid \<Rightarrow> update_task_params
    \<Rightarrow> gtd_db \<Rightarrow> (gtd_error + task) \<times> gtd_db" where
  "UpdateTask_pg env scope now i p s =
     (case getTaskByID scope i s of
        Inl e \<Rightarrow> (Inl e, s)
      | Inr existing \<Rightarrow>
          (let s0 = env 0 s in
           case checkTaskProject scope (ut_project p) s0 of
             Some e \<Rightarrow> (Inl e, s0)
           | None \<Rightarrow>
               (let m = mergeTaskFields pg_ts existing p in
                case resolveAssigneeForUpdate (ut_assignee p) (t_assignee existing) (mf_status m) of
                  Inl e \<Rightarrow> (Inl e, s0)
                | Inr assignee \<Rightarrow>
                    (let s1 = env 1 s0 in
                     case update_returning (task_row scope i)
                            (write_fields (pg_ts now) (m\<lparr>mf_assignee := assignee\<rparr>) p (ut_project p)) s1 of
                       None \<Rightarrow> (Inl GNotFound, s1)
                     | Some (t, s2) \<Rightarrow> if task_check t then (Inr (no_vision t), s2) else (Inl GConstraint, s1)))))"

end
