(* ===== verification/Gtd_Invariant.thy ===== *)
theory Gtd_Invariant
  imports Gtd_Postgres
begin

text \<open>
  The invariant of the GTD tables and its preservation by every task and project operation of
  both backends, whatever other connections do between the statements as long as they keep it
  too: identifiers and project names stay unique, the CHECK constraints hold, a task in progress
  has an owner, a stored repository name is valid, and the deletion tombstones stay grouped.
\<close>

section \<open>The invariant\<close>

definition task_ok :: "task \<Rightarrow> bool" where
  "task_ok t \<longleftrightarrow> task_check t \<and> (t_status t = InProgress \<longrightarrow> TrimSpace (text_of (t_assignee t)) \<noteq> [])"

definition project_ok :: "project \<Rightarrow> bool" where
  "project_ok p \<longleftrightarrow> project_check p \<and> IsValidRepoName (text_of (pj_repo p))"

definition tombstone_ok :: "tombstone \<Rightarrow> bool" where
  "tombstone_ok b \<longleftrightarrow>
     (case tb_payload b of
        PayTask t \<Rightarrow> task_ok t \<and> tb_entity b = t_id t
      | PayProject p \<Rightarrow> project_check p \<and> tb_entity b = pj_id p \<and> tb_project b = Some (pj_id p))"

definition is_project_tomb :: "tombstone \<Rightarrow> bool" where
  "is_project_tomb b = (case tb_payload b of PayProject _ \<Rightarrow> True | PayTask _ \<Rightarrow> False)"

text \<open>A group is what one delete wrote: one time, at most one project, each task once.\<close>

definition groups_ok :: "tombstone list \<Rightarrow> bool" where
  "groups_ok bs \<longleftrightarrow> list_all tombstone_ok bs \<and>
     distinct (map (\<lambda>b. (tb_deletion b, tb_entity b, is_project_tomb b)) bs) \<and>
     distinct (map tb_deletion (filter is_project_tomb bs)) \<and>
     (\<forall>a \<in> set bs. \<forall>b \<in> set bs. tb_deletion a = tb_deletion b \<longrightarrow> tb_deleted_at a = tb_deleted_at b)"

definition gtd_inv :: "gtd_db \<Rightarrow> bool" where
  "gtd_inv s \<longleftrightarrow> distinct (map t_id (tasks s)) \<and> distinct (map pj_id (projects s)) \<and>
     distinct (map pj_name (projects s)) \<and> list_all task_ok (tasks s) \<and> list_all project_ok (projects s) \<and>
     groups_ok (tombstones s)"

definition rely :: "(nat \<Rightarrow> gtd_db \<Rightarrow> gtd_db) \<Rightarrow> bool" where
  "rely env \<longleftrightarrow> (\<forall>n s. gtd_inv s \<longrightarrow> gtd_inv (env n s))"

definition quiet :: "nat \<Rightarrow> gtd_db \<Rightarrow> gtd_db" where
  "quiet n s = s"

named_theorems keeps \<open>facts that an update of the tables keeps the invariant\<close>

lemma quiet_simp [simp]: "quiet n s = s"
  by (simp add: quiet_def)

lemma rely_quiet [simp]: "rely quiet"
  by (simp add: rely_def)

lemma relyD: "rely env \<Longrightarrow> gtd_inv s \<Longrightarrow> gtd_inv (env n s)"
  by (simp add: rely_def)

lemma gtd_inv_task: "gtd_inv s \<Longrightarrow> t \<in> set (tasks s) \<Longrightarrow> task_ok t"
  by (simp add: gtd_inv_def list_all_iff)

lemma gtd_inv_project: "gtd_inv s \<Longrightarrow> p \<in> set (projects s) \<Longrightarrow> project_ok p"
  by (simp add: gtd_inv_def list_all_iff)

lemma gtd_inv_tables [simp]:
  "gtd_inv (s\<lparr>activity_log := l\<rparr>) = gtd_inv s"
  by (simp add: gtd_inv_def)

lemma gtd_inv_update_tasks [keeps]:
  assumes "gtd_inv s" and "\<And>t. t_id (f t) = t_id t"
    and "\<And>t. t \<in> set (tasks s) \<Longrightarrow> P t \<Longrightarrow> task_ok (f t)"
  shows "gtd_inv (s\<lparr>tasks := update_rows P f (tasks s)\<rparr>)"
  using assms by (auto simp: gtd_inv_def list_all_iff map_update_rows set_update_rows)

lemma gtd_inv_add_task [keeps]:
  "gtd_inv s \<Longrightarrow> t_id t \<notin> set (map t_id (tasks s)) \<Longrightarrow> task_ok t \<Longrightarrow> gtd_inv (s\<lparr>tasks := tasks s @ [t]\<rparr>)"
  by (auto simp: gtd_inv_def)

lemma gtd_inv_update_projects [keeps]:
  assumes "gtd_inv s" and "\<And>p. pj_id (f p) = pj_id p" and "\<And>p. pj_name (f p) = pj_name p"
    and "\<And>p. p \<in> set (projects s) \<Longrightarrow> P p \<Longrightarrow> project_ok (f p)"
  shows "gtd_inv (s\<lparr>projects := update_rows P f (projects s)\<rparr>)"
  using assms by (auto simp: gtd_inv_def list_all_iff map_update_rows set_update_rows)

lemma gtd_inv_add_project [keeps]:
  "gtd_inv s \<Longrightarrow> pj_id p \<notin> set (map pj_id (projects s)) \<Longrightarrow> pj_name p \<notin> set (map pj_name (projects s)) \<Longrightarrow>
     project_ok p \<Longrightarrow> gtd_inv (s\<lparr>projects := projects s @ [p]\<rparr>)"
  by (auto simp: gtd_inv_def)

section \<open>Rows of one id\<close>

lemma first_row_unique:
  assumes "distinct (map t_id ts)" and "t \<in> set ts" and "task_row scope i t"
  shows "first_row (task_row scope i) ts = Some t"
proof (cases "first_row (task_row scope i) ts")
  case None
  with assms show ?thesis by (simp add: first_row_None)
next
  case (Some u)
  then have "u \<in> set ts" "task_row scope i u" by (simp_all add: first_row_Some)
  with assms have "u = t" by (intro distinct_map_unique [of t_id ts]) (simp_all add: task_row_def)
  with Some show ?thesis by simp
qed

lemma taskByID_row:
  "gtd_inv s \<Longrightarrow> t \<in> set (tasks s) \<Longrightarrow> task_row scope i t \<Longrightarrow> taskByID scope i s = Inr t"
  by (simp add: taskByID_def gtd_inv_def first_row_unique)

lemma taskByID_Inr: "taskByID scope i s = Inr t \<longleftrightarrow> first_row (task_row scope i) (tasks s) = Some t"
  by (simp add: taskByID_def split: option.split)

lemma taskByID_InrD: "taskByID scope i s = Inr t \<Longrightarrow> t \<in> set (tasks s) \<and> task_row scope i t"
  by (simp add: taskByID_Inr first_row_Some)

lemma taskByID_Inl: "taskByID scope i s = Inl e \<longleftrightarrow> e = GNotFound \<and> \<not> list_ex (task_row scope i) (tasks s)"
  by (auto simp: taskByID_def list_ex_iff first_row_None split: option.split dest: first_row_Some)

lemma getTaskByID_eq: "getTaskByID scope i s = (case taskByID scope i s of Inl e \<Rightarrow> Inl e | Inr t \<Rightarrow> Inr (no_vision t))"
  by (simp add: getTaskByID_def taskByID_def split: option.split)

lemma no_vision_simps [simp]:
  "t_status (no_vision t) = t_status t" "t_assignee (no_vision t) = t_assignee t"
  "t_id (no_vision t) = t_id t" "t_title (no_vision t) = t_title t" "t_vision_item (no_vision t) = None"
  "t_description (no_vision t) = t_description t" "t_priority (no_vision t) = t_priority t"
  "t_importance (no_vision t) = t_importance t" "t_due (no_vision t) = t_due t"
  "t_context (no_vision t) = t_context t" "t_kind (no_vision t) = t_kind t"
  "t_branch (no_vision t) = t_branch t" "t_pr_url (no_vision t) = t_pr_url t"
  by (simp_all add: no_vision_def)

lemma gate_existing_pg_eq: "gate_existing_pg = gate_existing"
  by (intro ext) (simp add: gate_existing_pg_def gate_existing_def getTaskByID_eq split: sum.split)

section \<open>The owner of a task in progress\<close>

lemma assignee_clause_iff:
  "assignee_clause st t \<longleftrightarrow> (st = InProgress \<longrightarrow> TrimSpace (text_of (t_assignee t)) \<noteq> [])"
  by (auto simp: assignee_clause_def sql_trim_TrimSpace)

lemma RequireAssignee_None:
  "RequireAssigneeForInProgress a st = None \<longleftrightarrow> (st = InProgress \<longrightarrow> TrimSpace a \<noteq> [])"
  by (simp add: RequireAssigneeForInProgress_def)

lemma task_ok_set_status [keeps]:
  "task_ok t \<Longrightarrow> assignee_clause st t \<Longrightarrow> task_ok (set_status st now t)"
  "task_ok t \<Longrightarrow> assignee_clause st t \<Longrightarrow> task_ok (set_status_pg st now t)"
  by (auto simp: task_ok_def task_check_def set_status_def set_status_pg_def assignee_clause_iff)

lemma task_ok_done [keeps]:
  "task_ok t \<Longrightarrow> task_ok (complete_row now a t)" "task_ok t \<Longrightarrow> task_ok (complete_row_pg now a t)"
  "task_ok t \<Longrightarrow> task_ok (close_row now m t)"
  by (auto simp: task_ok_def task_check_def complete_row_def complete_row_pg_def close_row_def)

lemma row_ids [simp]:
  "t_id (set_status st now t) = t_id t" "t_id (set_status_pg st now t) = t_id t"
  "t_id (complete_row now a t) = t_id t" "t_id (complete_row_pg now a t) = t_id t"
  "t_id (close_row now m t) = t_id t" "t_id (write_fields at mf p ref t) = t_id t"
  "pj_id (write_project at q r) = pj_id r" "pj_name (write_project at q r) = pj_name r"
  by (simp_all add: set_status_def set_status_pg_def complete_row_def complete_row_pg_def close_row_def
      write_fields_def write_project_def)

lemma begin_guard_clause: "begin_guard scope i t \<Longrightarrow> assignee_clause InProgress t"
  by (simp add: begin_guard_def)

lemma begin_guard_pg_strict: "begin_guard_pg (Some w) i t \<Longrightarrow> begin_guard (Some w) i t"
  by (simp add: begin_guard_pg_def begin_guard_def task_row_def assignee_clause_def)

lemma begin_guard_pg_clause: "begin_guard_pg scope i t \<Longrightarrow> assignee_clause InProgress t"
  by (simp add: begin_guard_pg_def assignee_clause_def)

section \<open>Every operation keeps it\<close>

lemma reread_inv [keeps]: "rely env \<Longrightarrow> gtd_inv s \<Longrightarrow> gtd_inv (snd (reread env scope i s))"
  by (simp add: reread_def Let_def relyD [of env])

lemma write_status_inv [keeps]:
  "gtd_inv s \<Longrightarrow> (\<And>t. P t \<Longrightarrow> assignee_clause st t) \<Longrightarrow>
     gtd_inv (s\<lparr>tasks := update_rows P (set_status st now) (tasks s)\<rparr>)"
  by (rule gtd_inv_update_tasks) (simp_all add: gtd_inv_task task_ok_set_status)

lemma write_done_inv [keeps]:
  "gtd_inv s \<Longrightarrow> gtd_inv (s\<lparr>tasks := update_rows P (complete_row now a) (tasks s)\<rparr>)"
  "gtd_inv s \<Longrightarrow> gtd_inv (s\<lparr>tasks := update_rows P (close_row now m) (tasks s), activity_log := l\<rparr>)"
  "gtd_inv s \<Longrightarrow> gtd_inv (s\<lparr>tasks := update_rows P (close_row now m) (tasks s)\<rparr>)"
  by (simp_all add: gtd_inv_update_tasks gtd_inv_task task_ok_done)

lemma update_returning_inv:
  assumes "update_returning hit f s = Some (t, s')" and "gtd_inv s" and "\<And>t. t_id (f t) = t_id t"
    and "\<And>t. task_ok t \<Longrightarrow> hit t \<Longrightarrow> task_ok (f t)"
  shows "gtd_inv s'"
  using assms by (auto simp: update_returning_def gtd_inv_update_tasks gtd_inv_task split: option.splits)

lemma UpdateTaskStatus_inv:
  "rely env \<Longrightarrow> gtd_inv s \<Longrightarrow> gtd_inv (snd (UpdateTaskStatus env scope now i status s))"
  by (auto simp: UpdateTaskStatus_def Let_def relyD [of env] split: option.split intro!: reread_inv write_status_inv)

lemma UpdateTaskStatusGuarded_inv:
  "rely env \<Longrightarrow> gtd_inv s \<Longrightarrow> gtd_inv (snd (UpdateTaskStatusGuarded env scope now i status expected s))"
  by (auto simp: UpdateTaskStatusGuarded_def Let_def relyD [of env] split: option.split intro!: reread_inv write_status_inv)

lemma UpdateTaskStatus_pg_inv:
  "rely env \<Longrightarrow> gtd_inv s \<Longrightarrow> gtd_inv (snd (UpdateTaskStatus_pg env scope now i status s))"
  by (auto simp: UpdateTaskStatus_pg_def Let_def relyD [of env] task_ok_set_status split: option.split
      elim!: update_returning_inv)

lemma UpdateTaskStatusGuarded_pg_inv:
  "rely env \<Longrightarrow> gtd_inv s \<Longrightarrow> gtd_inv (snd (UpdateTaskStatusGuarded_pg env scope now i status expected s))"
  by (auto simp: UpdateTaskStatusGuarded_pg_def Let_def relyD [of env] task_ok_set_status split: option.split
      elim!: update_returning_inv)

lemma CompleteTask_inv:
  "rely env \<Longrightarrow> gtd_inv s \<Longrightarrow> gtd_inv (snd (CompleteTask env scope now i a s))"
  by (simp add: CompleteTask_def keeps)

lemma CompleteTask_pg_inv:
  "gtd_inv s \<Longrightarrow> gtd_inv (snd (CompleteTask_pg scope now i a s))"
  by (auto simp: CompleteTask_pg_def task_ok_done split: option.split elim!: update_returning_inv)

lemma batch_close_inv:
  "gtd_inv s \<Longrightarrow> batch_close fault scope now n ms (applied, s) = Inr (applied', s') \<Longrightarrow> gtd_inv s'"
  by (induction ms arbitrary: n applied s) (auto split: if_splits dest: write_done_inv(2))

lemma BatchClose_inv:
  "gtd_inv s \<Longrightarrow> gtd_inv (snd (BatchCompleteTasksByPRMatch fault scope now ms s))"
  by (auto simp: BatchCompleteTasksByPRMatch_def split: sum.split dest: batch_close_inv)

lemma apply_matches_pg_inv:
  "gtd_inv s \<Longrightarrow> gtd_inv (snd (apply_matches_pg fault scope now n ms (applied, pending, s)))"
  by (induction ms arbitrary: n applied pending s) (simp_all add: keeps Let_def)

lemma BatchClose_pg_inv:
  "gtd_inv s \<Longrightarrow> gtd_inv (snd (BatchCompleteTasksByPRMatch_pg fault scope now ms s))"
  by (simp add: BatchCompleteTasksByPRMatch_pg_def apply_matches_pg_inv)

lemma new_task_simps [simp]:
  "t_id (new_task ts scope now nid p a v) = nid" "t_status (new_task ts scope now nid p a v) = Pending"
  "t_vision_item (new_task ts scope now nid p a v) = v" "task_row scope nid (new_task ts scope now nid p a v)"
  by (simp_all add: new_task_def task_row_def in_scope_def split: option.split)

lemma CreateTaskTx_inv:
  "gtd_inv s \<Longrightarrow> CreateTaskTx scope now nid p s = Inr (i, s') \<Longrightarrow> gtd_inv s'"
  by (auto simp: CreateTaskTx_def Let_def task_ok_def gtd_inv_add_task split: sum.splits if_splits)

lemma CreateTask_inv:
  "rely env \<Longrightarrow> gtd_inv s \<Longrightarrow> gtd_inv (snd (CreateTask env scope now nid p s))"
  by (auto simp: CreateTask_def Let_def relyD [of env] split: sum.split dest: CreateTaskTx_inv)

lemma CreateTask_pg_inv:
  "gtd_inv s \<Longrightarrow> gtd_inv (snd (CreateTask_pg scope now nid p s))"
  by (auto simp: CreateTask_pg_def Let_def task_ok_def gtd_inv_add_task split: sum.split)

lemma IsValidRepoName_text: "IsValidRepoName (text_of (nullIfEmpty r)) = IsValidRepoName r"
  by (simp add: text_of_def nullIfEmpty_def)

lemma CreateProject_inv:
  "rely env \<Longrightarrow> gtd_inv s \<Longrightarrow> gtd_inv (snd (CreateProject env scope now nid p s))"
  by (simp add: CreateProject_def Let_def relyD [of env] gtd_inv_add_project project_ok_def project_of_def
      IsValidRepoName_text)

lemma UpdateProjectStatus_inv:
  "rely env \<Longrightarrow> gtd_inv s \<Longrightarrow> gtd_inv (snd (UpdateProjectStatus env scope now i st s))"
  by (auto simp: UpdateProjectStatus_def Let_def project_ok_def project_check_def
      intro!: relyD [of env] gtd_inv_update_projects dest: gtd_inv_project)

lemma write_project_repo:
  "IsValidRepoName (text_of (pj_repo r)) \<Longrightarrow> (\<And>x. up_repo p = Some x \<Longrightarrow> IsValidRepoName x) \<Longrightarrow>
     IsValidRepoName (text_of (pj_repo (write_project at p r)))"
  by (auto simp: write_project_def keep_text_def IsValidRepoName_text split: option.split)

lemma UpdateProject_inv:
  assumes "rely env" "gtd_inv s"
  shows "gtd_inv (snd (UpdateProject env scope now i p s))"
proof -
  have row: "project_ok (write_project (sq_ts now) p r)"
    if "r \<in> set (projects s)" "project_check (write_project (sq_ts now) p r)"
      "\<And>x. up_repo p = Some x \<Longrightarrow> IsValidRepoName x" for r
    using that assms(2) by (auto simp: project_ok_def intro!: write_project_repo dest: gtd_inv_project)
  have *: "project_row scope i (write_project at p r) = project_row scope i r" for at r
    by (simp add: project_row_def write_project_def)
  have inv: "gtd_inv (s\<lparr>projects := update_rows (project_row scope i) (write_project (sq_ts now) p) (projects s)\<rparr>)"
    if "list_all project_check (filter (project_row scope i)
          (update_rows (project_row scope i) (write_project (sq_ts now) p) (projects s)))"
      "\<And>x. up_repo p = Some x \<Longrightarrow> IsValidRepoName x"
    using that assms(2)
    by (intro gtd_inv_update_projects) (auto simp: list_all_iff set_update_rows * intro!: row)
  show ?thesis
    using assms inv by (auto simp: UpdateProject_def Let_def split: option.splits intro!: relyD [of env])
qed

lemma UpdateTask_row_ok:
  assumes "RequireAssigneeForInProgress (text_of (mf_assignee m)) (mf_status m) = None"
    and "task_check (write_fields at m p ref t)"
  shows "task_ok (write_fields at m p ref t)"
  using assms by (simp add: task_ok_def RequireAssignee_None) (simp add: write_fields_def)

lemma task_row_write [simp]: "task_row scope i (write_fields at m p ref t) = task_row scope i t"
  by (simp add: task_row_def write_fields_def)

lemma UpdateTask_inv:
  assumes "rely env" "gtd_inv s"
  shows "gtd_inv (snd (UpdateTask env scope now i p s))"
proof -
  have inv: "gtd_inv (s1\<lparr>tasks := update_rows (task_row scope i) (write_fields at m q ref) (tasks s1)\<rparr>)"
    if "gtd_inv s1" "RequireAssigneeForInProgress (text_of (mf_assignee m)) (mf_status m) = None"
      "list_all task_check (filter (task_row scope i)
          (update_rows (task_row scope i) (write_fields at m q ref) (tasks s1)))" for s1 at m q ref
    using that by (intro gtd_inv_update_tasks UpdateTask_row_ok) (auto simp: list_all_iff set_update_rows)
  show ?thesis
    using assms by (simp add: UpdateTask_def Let_def relyD [of env] reread_inv inv split: sum.split option.split)
qed

lemma resolveAssignee_Inr:
  "resolveAssigneeForUpdate new old st = Inr a \<Longrightarrow> RequireAssigneeForInProgress (text_of a) st = None"
  by (auto simp: resolveAssigneeForUpdate_def split: sum.splits option.splits)

lemma UpdateTask_pg_inv:
  assumes "rely env" "gtd_inv s"
  shows "gtd_inv (snd (UpdateTask_pg env scope now i p s))"
proof -
  have inv: "gtd_inv s2"
    if "update_returning (task_row scope i) (write_fields at m q ref) s1 = Some (t, s2)" "gtd_inv s1"
      "RequireAssigneeForInProgress (text_of (mf_assignee m)) (mf_status m) = None" "task_check t"
    for s1 s2 t at m q ref
  proof -
    from that(1) obtain r where r: "first_row (task_row scope i) (tasks s1) = Some r"
      and t: "t = write_fields at m q ref r"
      and s2: "s2 = s1\<lparr>tasks := update_rows (task_row scope i) (write_fields at m q ref) (tasks s1)\<rparr>"
      by (auto simp: update_returning_def split: option.splits)
    have "u = r" if "u \<in> set (tasks s1)" "task_row scope i u" for u
      using first_row_unique [of "tasks s1" u scope i] that r \<open>gtd_inv s1\<close> by (simp add: gtd_inv_def)
    then show ?thesis
      unfolding s2 using that t by (intro gtd_inv_update_tasks) (auto intro: UpdateTask_row_ok)
  qed
  show ?thesis
    using assms
    by (auto simp: UpdateTask_pg_def Let_def relyD [of env] split: sum.split option.split
        dest!: resolveAssignee_Inr elim!: inv)
qed

end
