(* ===== verification/Redact.thy ===== *)
theory Redact
  imports Texts
begin

text \<open>
  \<open>internal/redact/redact.go\<close>: the credential patterns and the fixed order in which \<open>ForLLM\<close> replaces
  them, the redact-then-cap of \<open>worksession.RedactAndCapOutputExcerpt\<close>, and the control-character test
  of \<open>internal/validator/noise.go\<close>.

  A pattern is the sequence of its regular expression's items.  In every one of them a repetition is
  followed by an item that starts outside the repeated class, so the leftmost greedy match of Go's
  \<open>regexp\<close> is found without backtracking.  Under \<open>(?i)\<close> the letters k and s also match KELVIN SIGN and
  LONG S, as in Go's simple case folding; \<open>\s\<close> is the five ASCII spaces.
\<close>

section \<open>Patterns\<close>

datatype item =
    Lit ustr                         \<comment> \<open>the text itself\<close>
  | Fold "ustr list"                 \<comment> \<open>one of the lower-case words, in any case\<close>
  | Times "rune \<Rightarrow> bool" nat          \<comment> \<open>\<open>[\<dots>]{n}\<close>\<close>
  | AtLeast "rune \<Rightarrow> bool" nat        \<comment> \<open>\<open>[\<dots>]{n,}\<close>, greedy\<close>
  | Optional "rune \<Rightarrow> bool"           \<comment> \<open>\<open>[\<dots>]?\<close>, greedy\<close>

definition fold_rune :: "rune \<Rightarrow> rune" where
  "fold_rune r = (if 65 \<le> r \<and> r \<le> 90 then r + 32 else if r = 8490 then 107 else if r = 383 then 115 else r)"

definition starts_fold :: "ustr \<Rightarrow> ustr \<Rightarrow> bool" where
  "starts_fold w s \<longleftrightarrow> map fold_rune (take (length w) s) = w"

text \<open>How many code points an item, and a pattern, matches at the start of the text.\<close>

fun item_len :: "item \<Rightarrow> ustr \<Rightarrow> nat option" where
  "item_len (Lit w) s = (if take (length w) s = w then Some (length w) else None)"
| "item_len (Fold ws) s = map_option length (List.find (\<lambda>w. starts_fold w s) ws)"
| "item_len (Times P n) s = (if length (takeWhile P (take n s)) = n then Some n else None)"
| "item_len (AtLeast P n) s = (let k = length (takeWhile P s) in if n \<le> k then Some k else None)"
| "item_len (Optional P) s = Some (case s of [] \<Rightarrow> 0 | c # _ \<Rightarrow> if P c then 1 else 0)"

fun match_len :: "item list \<Rightarrow> ustr \<Rightarrow> nat option" where
  "match_len [] s = Some 0"
| "match_len (i # is) s =
     (case item_len i s of
        None \<Rightarrow> None
      | Some n \<Rightarrow> map_option (\<lambda>m. n + m) (match_len is (drop n s)))"

text \<open>\<open>ReplaceAllString\<close>: leftmost matches that do not overlap; no pattern matches the empty text.\<close>

function ReplaceAll :: "item list \<Rightarrow> ustr \<Rightarrow> ustr \<Rightarrow> ustr" where
  "ReplaceAll p label [] = []"
| "ReplaceAll p label (c # s) =
     (case match_len p (c # s) of
        None \<Rightarrow> c # ReplaceAll p label s
      | Some n \<Rightarrow> label @ ReplaceAll p label (drop (n - 1) s))"
  by pat_completeness auto

termination
  by (relation "measure (\<lambda>(p, label, s). length s)") auto

definition is_digit :: "rune \<Rightarrow> bool" where
  "is_digit r \<longleftrightarrow> 48 \<le> r \<and> r \<le> 57"

definition is_upper :: "rune \<Rightarrow> bool" where
  "is_upper r \<longleftrightarrow> 65 \<le> r \<and> r \<le> 90"

definition is_lower :: "rune \<Rightarrow> bool" where
  "is_lower r \<longleftrightarrow> 97 \<le> r \<and> r \<le> 122"

definition alnum :: "rune \<Rightarrow> bool" where
  "alnum r \<longleftrightarrow> is_digit r \<or> is_upper r \<or> is_lower r"

definition regex_space :: "rune \<Rightarrow> bool" where
  "regex_space r \<longleftrightarrow> r \<in> {9, 10, 12, 13, 32}"

abbreviation alnum_or :: "string \<Rightarrow> rune \<Rightarrow> bool" where
  "alnum_or extra r \<equiv> alnum r \<or> r \<in> set (lit extra)"

abbreviation none_of :: "string \<Rightarrow> rune \<Rightarrow> bool" where
  "none_of chars r \<equiv> r \<notin> set (lit chars) \<and> \<not> regex_space r"

definition quote_mark :: "rune \<Rightarrow> bool" where
  "quote_mark r \<longleftrightarrow> r = 39 \<or> r = 34"

definition kv_words :: "ustr list" where
  "kv_words = map lit [''password'', ''passwd'', ''pwd'', ''apikey'', ''api_key'', ''api-key'', ''secret'', ''token'',
     ''auth_token'', ''access_token'', ''refresh_token'', ''private_key'', ''client_secret'', ''webhook_secret'',
     ''signing_key'', ''db_pass'']"

definition orderedPatterns :: "(item list \<times> ustr) list" where
  "orderedPatterns =
     [([Lit (lit ''sk_live_''), AtLeast alnum 1], lit ''[REDACTED:stripe-key]''),
      ([Lit (lit ''ghp_''), AtLeast alnum 30], lit ''[REDACTED:github-token]''),
      ([Lit (lit ''github_pat_''), AtLeast (alnum_or ''_'') 60], lit ''[REDACTED:github-token]''),
      ([Lit (lit ''xoxb-''), AtLeast (alnum_or ''-'') 1], lit ''[REDACTED:slack-token]''),
      ([Lit (lit ''xox''), Times (\<lambda>r. r \<in> set (lit ''apr'')) 1, Lit (lit ''-''), AtLeast (alnum_or ''-'') 1],
       lit ''[REDACTED:slack-token]''),
      ([Lit (lit ''AKIA''), Times (\<lambda>r. is_digit r \<or> is_upper r) 16], lit ''[REDACTED:aws-access-key]''),
      ([Lit (lit ''AIza''), Times (alnum_or ''-_'') 35], lit ''[REDACTED:google-api-key]''),
      ([Lit (lit ''secret_''), Times alnum 43], lit ''[REDACTED:notion-secret]''),
      ([Lit (lit ''MT''), AtLeast (alnum_or ''._-'') 40], lit ''[REDACTED:discord-token]''),
      ([Lit (lit ''sk-''), AtLeast (alnum_or ''_-'') 20], lit ''[REDACTED:openai-key]''),
      ([Lit (lit ''eyJ''), AtLeast (alnum_or ''_-'') 20, Lit (lit ''.''), AtLeast (alnum_or ''_-'') 1, Lit (lit ''.''),
        AtLeast (alnum_or ''_-'') 1], lit ''[REDACTED:jwt]''),
      ([Fold [lit ''bearer''], AtLeast regex_space 1, AtLeast (\<lambda>r. alnum_or ''._-'' r \<or> r = 383 \<or> r = 8490) 1],
       lit ''[REDACTED:bearer]''),
      ([Times is_lower 1, AtLeast (\<lambda>r. is_lower r \<or> is_digit r \<or> r \<in> set (lit ''+-.'')) 0, Lit (lit ''://''),
        AtLeast (none_of '':/@'') 1, Lit (lit '':''), AtLeast (none_of ''@'') 1, Lit (lit ''@''), AtLeast (none_of ''/'') 1],
       lit ''[REDACTED:dsn]''),
      ([Fold kv_words, AtLeast regex_space 0, Times (\<lambda>r. r \<in> set (lit ''=:'')) 1, AtLeast regex_space 0,
        Optional quote_mark, AtLeast (\<lambda>r. none_of ''['' r \<and> \<not> quote_mark r) 1], lit ''[REDACTED:kv-secret]'')]"

definition ForLLM :: "ustr \<Rightarrow> ustr" where
  "ForLLM s = (if s = [] then s else fold (\<lambda>(p, label). ReplaceAll p label) orderedPatterns s)"

section \<open>Excerpts and command fields\<close>

definition EvidenceOutputExcerptCap :: nat where
  "EvidenceOutputExcerptCap = 2000"

definition RedactAndCapOutputExcerpt :: "ustr \<Rightarrow> ustr" where
  "RedactAndCapOutputExcerpt s =
     (let redacted = ForLLM s
      in if length redacted > EvidenceOutputExcerptCap then take EvidenceOutputExcerptCap redacted else redacted)"

fun CheckCommandField :: "ustr \<Rightarrow> string option" where
  "CheckCommandField [] = None"
| "CheckCommandField (r # s) =
     (if r = 10 \<or> r = 13 \<or> r = 0 then Some ''newline, carriage return, or null byte''
      else if r < 32 \<and> r \<noteq> 9 then Some ''ASCII control characters''
      else if r = 8232 \<or> r = 8233 then Some ''Unicode line/paragraph separator''
      else CheckCommandField s)"

definition one_line :: "ustr \<Rightarrow> bool" where
  "one_line s \<longleftrightarrow> (\<forall>r \<in> set s. (r = 9 \<or> 32 \<le> r) \<and> r \<noteq> 8232 \<and> r \<noteq> 8233)"

lemma CheckCommandField_None: "CheckCommandField s = None \<longleftrightarrow> one_line s"
proof (induction s)
  case (Cons r s)
  then show ?case by (cases "r = 9"; cases "r < 32") (simp_all add: one_line_def not_less)
qed (simp add: one_line_def)

lemma RedactAndCap_length: "length (RedactAndCapOutputExcerpt s) \<le> EvidenceOutputExcerptCap"
  by (simp add: RedactAndCapOutputExcerpt_def Let_def)

lemma RedactAndCap_prefix: "prefix (RedactAndCapOutputExcerpt s) (ForLLM s)"
  by (simp add: RedactAndCapOutputExcerpt_def Let_def take_is_prefix)

end
