(* ===== verification/Session_Model.thy ===== *)
theory Session_Model
  imports Gtd_Invariant Redact
begin

text \<open>
  Work sessions (\<open>internal/worksession\<close>): the parameters and rules both stores share, and the SQLite
  store of \<open>internal/storage/sqlite/worksession.go\<close> over the tables of \<open>gtd_db\<close>.

  An operation is a sequence of statements on one pooled connection.  Before the statement at a point
  other connections commit \<open>env point\<close>; \<open>fault point\<close> makes it fail; \<open>clock point\<close> is the time it reads.
  The transaction of \<open>Create\<close> only adds rows under a new key, so it is one point.  SQL leaves the order
  of rows with equal \<open>created_at\<close> open; here it is the order of insertion.
\<close>

section \<open>Shared definitions\<close>

datatype ws_point =
    AtWrite                 \<comment> \<open>the transaction of \<open>Create\<close>, the one statement of the other operations\<close>
  | AtLinks                 \<comment> \<open>\<open>LinkedTasks\<close> inside \<open>Finish\<close> and \<open>GetActive\<close>\<close>
  | AtTasks                 \<comment> \<open>the batch update of the linked tasks\<close>
  | AtEvidence nat          \<comment> \<open>the insert of the n-th evidence row\<close>
  | AtEvidenceRead nat      \<comment> \<open>its read back (SQLite)\<close>
  | AtReread                \<comment> \<open>the final \<open>byID\<close> (SQLite)\<close>

datatype ws_error =
    WMissing string
  | WInvalidRepoName
  | WControlChars string
  | WInvalidAssignee
  | WAlreadyActive
  | WNotFound
  | WConstraint
  | WDatabase ws_point

record create_session =
  cs_workspace :: uuid
  cs_repo :: ustr
  cs_project :: "uuid option"
  cs_title :: ustr
  cs_goal :: ustr
  cs_source :: string
  cs_plan :: "uuid option"
  cs_tasks :: "uuid list"
  cs_branch :: "ustr option"
  cs_assignee :: ustr

record evidence_input =
  ei_type :: string
  ei_status :: string
  ei_command :: "ustr option"
  ei_artifact :: "ustr option"
  ei_excerpt :: "ustr option"

record finish_session =
  fs_id :: uuid
  fs_summary :: ustr
  fs_completed :: "uuid list"
  fs_deferred :: "uuid list"
  fs_artifact :: "ustr option"
  fs_all_linked :: bool
  fs_verification :: "string option"
  fs_command :: "ustr option"
  fs_excerpt :: "ustr option"
  fs_result :: "string option"
  fs_outcome :: "uuid option"
  fs_evidence :: "evidence_input list"

definition MaxListRecentLimit :: int where
  "MaxListRecentLimit = 100"

definition MaxEvidenceListLimit :: nat where
  "MaxEvidenceListLimit = 100"

definition AllowedVerificationStatuses :: "string list" where
  "AllowedVerificationStatuses = [''not_run'', ''passed'', ''failed'', ''unknown'']"

definition AllowedFinalResults :: "string list" where
  "AllowedFinalResults = [''success'', ''failure'', ''partial'', ''unknown'', ''regressed'']"

definition AllowedEvidenceTypes :: "string list" where
  "AllowedEvidenceTypes = [''command'', ''pr'', ''ci'', ''railway'', ''manual_note'']"

definition AllowedEvidenceStatuses :: "string list" where
  "AllowedEvidenceStatuses = [''passed'', ''failed'', ''unknown'']"

definition session_sources :: "string list" where
  "session_sources = [''manual'', ''confirm_plan'', ''hook'', ''other'']"

definition link_roles :: "string list" where
  "link_roles = [''primary'', ''follow_up'', ''blocker'', ''generated'']"

text \<open>The CHECK constraints of the three tables; a missing optional value passes.\<close>

definition allowed :: "string list \<Rightarrow> string option \<Rightarrow> bool" where
  "allowed xs v = (case v of None \<Rightarrow> True | Some x \<Rightarrow> x \<in> set xs)"

definition session_check :: "work_session \<Rightarrow> bool" where
  "session_check r \<longleftrightarrow> wk_source r \<in> set session_sources \<and>
     allowed AllowedVerificationStatuses (wk_verification r) \<and> allowed AllowedFinalResults (wk_result r)"

definition evidence_check :: "session_evidence \<Rightarrow> bool" where
  "evidence_check e \<longleftrightarrow> we_type e \<in> set AllowedEvidenceTypes \<and> we_status e \<in> set AllowedEvidenceStatuses"

text \<open>\<open>ResolveCompletedTaskIDs\<close>: the deferred ids win over both sources.\<close>

definition ResolveCompletedTaskIDs :: "uuid list \<Rightarrow> uuid list \<Rightarrow> uuid list \<Rightarrow> uuid list" where
  "ResolveCompletedTaskIDs completed deferred linked =
     (let source = (if completed = [] then linked else completed)
      in filter (\<lambda>i. i \<notin> set deferred) source)"

definition validateCreateParams :: "create_session \<Rightarrow> ws_error option" where
  "validateCreateParams p =
     (if cs_repo p = [] then Some (WMissing ''repo_name'')
      else if cs_title p = [] then Some (WMissing ''title'')
      else if cs_goal p = [] then Some (WMissing ''goal'')
      else if cs_source p = [] then Some (WMissing ''source'')
      else if \<not> ValidRepoPath (cs_repo p) then Some WInvalidRepoName
      else (case cs_branch p of
              None \<Rightarrow> None
            | Some b \<Rightarrow> (case CheckCommandField b of None \<Rightarrow> None | Some _ \<Rightarrow> Some (WControlChars ''branch_name''))))"

definition session_assignee :: "ustr \<Rightarrow> ws_error + ustr" where
  "session_assignee a =
     (let sessionAssignee = TrimSpace a
      in if sessionAssignee = [] then Inr []
         else (case NormalizeActor sessionAssignee of None \<Rightarrow> Inl WInvalidAssignee | Some n \<Rightarrow> Inr n))"

text \<open>The row \<open>Create\<close> inserts.\<close>

definition new_session :: "instant \<Rightarrow> uuid \<Rightarrow> uuid \<Rightarrow> create_session \<Rightarrow> work_session" where
  "new_session at nid ws p =
     \<lparr>wk_id = nid, wk_workspace = ws, wk_repo = cs_repo p, wk_project = cs_project p, wk_title = cs_title p,
      wk_goal = cs_goal p, wk_status = SessionActive, wk_source = cs_source p, wk_plan = cs_plan p,
      wk_current_task = (case cs_tasks p of [] \<Rightarrow> None | t # _ \<Rightarrow> Some t), wk_summary = None,
      wk_started = Some at, wk_checkpoint = None, wk_completed = None, wk_created = at, wk_updated = at,
      wk_pack = None, wk_verification = None, wk_command = None, wk_excerpt = None, wk_outcome = None,
      wk_result = None, wk_branch = cs_branch p\<rparr>"

text \<open>\<open>INSERT INTO work_session_tasks \<dots> ON CONFLICT (session_id, task_id) DO NOTHING\<close>.\<close>

definition add_link :: "session_task \<Rightarrow> session_task list \<Rightarrow> session_task list" where
  "add_link l ls = (if (st_session l, st_task l) \<in> set (map (\<lambda>r. (st_session r, st_task r)) ls) then ls else ls @ [l])"

fun link_tasks :: "instant \<Rightarrow> uuid \<Rightarrow> uuid list \<Rightarrow> session_task list \<Rightarrow> session_task list" where
  "link_tasks at sid [] ls = ls"
| "link_tasks at sid (t # ts) ls =
     link_tasks at sid ts (add_link \<lparr>st_session = sid, st_task = t, st_role = ''primary'', st_created = at\<rparr> ls)"

text \<open>The insert and the links: the table's checks come before its two unique indexes.\<close>

definition active_at :: "uuid \<Rightarrow> ustr \<Rightarrow> work_session \<Rightarrow> bool" where
  "active_at ws repo r \<longleftrightarrow> wk_workspace r = ws \<and> wk_repo r = repo \<and> wk_status r = SessionActive"

definition insert_session :: "instant \<Rightarrow> work_session \<Rightarrow> uuid list \<Rightarrow> gtd_db \<Rightarrow> ws_error + gtd_db" where
  "insert_session at r ts s =
     (if \<not> session_check r then Inl WConstraint
      else if wk_id r \<in> set (map wk_id (work_sessions s)) \<or> list_ex (active_at (wk_workspace r) (wk_repo r)) (work_sessions s)
      then Inl WAlreadyActive
      else Inr (s\<lparr>work_sessions := work_sessions s @ [r], session_tasks := link_tasks at (wk_id r) ts (session_tasks s)\<rparr>))"

text \<open>
  The batch update of the linked tasks.  \<open>TRIM(assignee)\<close> with one argument strips spaces and
  nothing else; \<open>in_ws\<close> is the store's workspace test.
\<close>

definition sql_trim_spaces :: "ustr \<Rightarrow> ustr" where
  "sql_trim_spaces s = sql_trim s [32]"

definition batch_assignee :: "ustr \<Rightarrow> task \<Rightarrow> ustr option" where
  "batch_assignee sessionAssignee t =
     (case t_assignee t of
        Some a \<Rightarrow> if sql_trim_spaces a \<noteq> [] then Some (sql_trim_spaces a) else nullIfEmpty sessionAssignee
      | None \<Rightarrow> nullIfEmpty sessionAssignee)"

definition batchMarkTasksInProgress :: "(uuid option \<Rightarrow> bool) \<Rightarrow> instant \<Rightarrow> uuid list \<Rightarrow> ustr \<Rightarrow> gtd_db \<Rightarrow> gtd_db" where
  "batchMarkTasksInProgress in_ws at ids sessionAssignee s =
     s\<lparr>tasks := update_rows
          (\<lambda>t. t_id t \<in> set ids \<and> in_ws (t_workspace t) \<and> t_status t = Pending \<and> batch_assignee sessionAssignee t \<noteq> None)
          (\<lambda>t. t\<lparr>t_status := InProgress, t_assignee := batch_assignee sessionAssignee t, t_updated := at\<rparr>) (tasks s)\<rparr>"

definition batchMarkTasksCompleted :: "(uuid option \<Rightarrow> bool) \<Rightarrow> instant \<Rightarrow> uuid list \<Rightarrow> ustr option \<Rightarrow> gtd_db \<Rightarrow> gtd_db" where
  "batchMarkTasksCompleted in_ws at ids artifact s =
     s\<lparr>tasks := update_rows
          (\<lambda>t. t_id t \<in> set ids \<and> in_ws (t_workspace t) \<and> t_status t \<notin> {Completed, Cancelled})
          (\<lambda>t. t\<lparr>t_status := Completed, t_artifact := (case artifact of None \<Rightarrow> t_artifact t | Some a \<Rightarrow> Some a),
                 t_updated := at\<rparr>) (tasks s)\<rparr>"

definition open_session :: "work_session \<Rightarrow> bool" where
  "open_session r \<longleftrightarrow> wk_status r \<in> {SessionActive, Checkpointed}"

definition checkpoint_row :: "instant \<Rightarrow> work_session \<Rightarrow> work_session" where
  "checkpoint_row at r = r\<lparr>wk_status := Checkpointed, wk_checkpoint := Some at, wk_updated := at\<rparr>"

definition finish_row :: "instant \<Rightarrow> ustr option \<Rightarrow> finish_session \<Rightarrow> work_session \<Rightarrow> work_session" where
  "finish_row at summary p r =
     r\<lparr>wk_status := SessionDone, wk_completed := Some at, wk_summary := summary,
       wk_verification := fs_verification p, wk_command := fs_command p,
       wk_excerpt := map_option RedactAndCapOutputExcerpt (fs_excerpt p),
       wk_result := fs_result p, wk_outcome := fs_outcome p, wk_updated := at\<rparr>"

definition outcome_row :: "instant \<Rightarrow> uuid \<Rightarrow> work_session \<Rightarrow> work_session" where
  "outcome_row at oid r = r\<lparr>wk_outcome := Some oid, wk_updated := at\<rparr>"

definition new_evidence :: "instant \<Rightarrow> uuid \<Rightarrow> uuid option \<Rightarrow> uuid \<Rightarrow> evidence_input \<Rightarrow> session_evidence" where
  "new_evidence at nid ws sid ei =
     \<lparr>we_id = nid, we_workspace = ws, we_session = sid, we_type = ei_type ei, we_status = ei_status ei,
      we_command = ei_command ei, we_artifact = ei_artifact ei,
      we_excerpt = map_option RedactAndCapOutputExcerpt (ei_excerpt ei), we_created = at\<rparr>"

definition insert_evidence :: "session_evidence \<Rightarrow> gtd_db \<Rightarrow> ws_error + gtd_db" where
  "insert_evidence e s =
     (if \<not> evidence_check e \<or> we_id e \<in> set (map we_id (evidence s)) then Inl WConstraint
      else Inr (s\<lparr>evidence := evidence s @ [e]\<rparr>))"

definition command_error :: "string \<Rightarrow> ustr option \<Rightarrow> ws_error option" where
  "command_error name c =
     (case c of None \<Rightarrow> None | Some x \<Rightarrow> (case CheckCommandField x of None \<Rightarrow> None | Some _ \<Rightarrow> Some (WControlChars name)))"

definition linked_rows :: "uuid \<Rightarrow> gtd_db \<Rightarrow> session_task list" where
  "linked_rows sid s = sort_key st_created (filter (\<lambda>l. st_session l = sid) (session_tasks s))"

text \<open>The clamp of \<open>ListRecent\<close>, the same in both stores.\<close>

definition list_limit :: "int \<Rightarrow> nat" where
  "list_limit limit =
     (let limit = (if limit \<le> 0 then 20 else limit)
      in nat (if limit > MaxListRecentLimit then MaxListRecentLimit else limit))"

definition recent_rows :: "uuid \<Rightarrow> ustr \<Rightarrow> int \<Rightarrow> gtd_db \<Rightarrow> work_session list" where
  "recent_rows ws repo limit s =
     take (list_limit limit) (sort_key (\<lambda>r. - wk_created r)
       (filter (\<lambda>r. wk_workspace r = ws \<and> (repo = [] \<or> wk_repo r = repo)) (work_sessions s)))"

record active_result =
  ar_active :: bool
  ar_session :: "work_session option"
  ar_linked :: "session_task list"
  ar_checkpoint :: "instant option"
  ar_allowed :: bool

definition no_active :: active_result where
  "no_active = \<lparr>ar_active = False, ar_session = None, ar_linked = [], ar_checkpoint = None, ar_allowed = False\<rparr>"

definition is_active :: "work_session \<Rightarrow> session_task list \<Rightarrow> active_result" where
  "is_active r ls = \<lparr>ar_active = True, ar_session = Some r, ar_linked = ls, ar_checkpoint = wk_checkpoint r, ar_allowed = True\<rparr>"

end
