(* ===== verification/Session_Stores.thy ===== *)
theory Session_Stores
  imports Session_Model
begin

text \<open>
  The two work-session stores, operation by operation: \<open>WorkSessionStore\<close> of
  \<open>internal/storage/sqlite/worksession.go\<close> (suffix \<open>_sq\<close>) and \<open>Store\<close> of \<open>internal/worksession/store.go\<close>
  (suffix \<open>_pg\<close>).  \<open>scope\<close> is the workspace the store is configured with.  A write returns its result and
  the database, a read its result.
\<close>

type_synonym ws_env = "ws_point \<Rightarrow> gtd_db \<Rightarrow> gtd_db"
type_synonym ws_fault = "ws_point \<Rightarrow> bool"
type_synonym ws_clock = "ws_point \<Rightarrow> instant"
type_synonym 'a ws_result = "(ws_error + 'a) \<times> gtd_db"

section \<open>SQLite\<close>

text \<open>\<open>scanWorkSession\<close> and \<open>scanEvidence\<close> read an empty optional text as missing.\<close>

definition scanWorkSession :: "work_session \<Rightarrow> work_session" where
  "scanWorkSession r = r\<lparr>wk_summary := non_empty (wk_summary r), wk_command := non_empty (wk_command r),
     wk_excerpt := non_empty (wk_excerpt r), wk_branch := non_empty (wk_branch r)\<rparr>"

definition scanEvidence :: "session_evidence \<Rightarrow> session_evidence" where
  "scanEvidence e = e\<lparr>we_command := non_empty (we_command e), we_artifact := non_empty (we_artifact e),
     we_excerpt := non_empty (we_excerpt e)\<rparr>"

definition session_row :: "uuid option \<Rightarrow> uuid \<Rightarrow> work_session \<Rightarrow> bool" where
  "session_row scope i r \<longleftrightarrow> wk_id r = i \<and> in_scope scope (Some (wk_workspace r))"

definition byID :: "uuid option \<Rightarrow> uuid \<Rightarrow> gtd_db \<Rightarrow> ws_error + work_session" where
  "byID scope i s =
     (case first_row (session_row scope i) (work_sessions s) of
        None \<Rightarrow> Inl WNotFound | Some r \<Rightarrow> Inr (scanWorkSession r))"

definition reread_session :: "ws_env \<Rightarrow> ws_fault \<Rightarrow> uuid option \<Rightarrow> uuid \<Rightarrow> gtd_db \<Rightarrow> work_session ws_result" where
  "reread_session env fault scope i s =
     (let s' = env AtReread s in (if fault AtReread then Inl (WDatabase AtReread) else byID scope i s', s'))"

definition createSessionTx :: "ws_env \<Rightarrow> ws_fault \<Rightarrow> instant \<Rightarrow> uuid \<Rightarrow> uuid \<Rightarrow> create_session \<Rightarrow> gtd_db \<Rightarrow> unit ws_result" where
  "createSessionTx env fault at nid ws p s =
     (let s' = env AtWrite s in
      if fault AtWrite then (Inl (WDatabase AtWrite), s')
      else (case insert_session at (new_session at nid ws p) (cs_tasks p) s' of
              Inl e \<Rightarrow> (Inl e, s') | Inr s2 \<Rightarrow> (Inr (), s2)))"

text \<open>A failed batch update is logged and dropped.\<close>

definition mark_started :: "ws_env \<Rightarrow> ws_fault \<Rightarrow> (uuid option \<Rightarrow> bool) \<Rightarrow> instant \<Rightarrow> uuid list \<Rightarrow> ustr \<Rightarrow> gtd_db \<Rightarrow> gtd_db" where
  "mark_started env fault in_ws at ids a s =
     (if ids = [] then s
      else (let s' = env AtTasks s in if fault AtTasks then s' else batchMarkTasksInProgress in_ws at ids a s'))"

definition mark_finished :: "ws_env \<Rightarrow> ws_fault \<Rightarrow> (uuid option \<Rightarrow> bool) \<Rightarrow> instant \<Rightarrow> uuid list \<Rightarrow> ustr option \<Rightarrow> gtd_db \<Rightarrow> gtd_db" where
  "mark_finished env fault in_ws at ids artifact s =
     (if ids = [] then s
      else (let s' = env AtTasks s in if fault AtTasks then s' else batchMarkTasksCompleted in_ws at ids artifact s'))"

definition CreateSession_sq :: "ws_env \<Rightarrow> ws_fault \<Rightarrow> uuid option \<Rightarrow> ws_clock \<Rightarrow> uuid \<Rightarrow> create_session \<Rightarrow> gtd_db
    \<Rightarrow> work_session ws_result" where
  "CreateSession_sq env fault scope clock nid p s =
     (case validateCreateParams p of
        Some e \<Rightarrow> (Inl e, s)
      | None \<Rightarrow>
          (case session_assignee (cs_assignee p) of
             Inl e \<Rightarrow> (Inl e, s)
           | Inr sessionAssignee \<Rightarrow>
               (let wsID = (case scope of None \<Rightarrow> cs_workspace p | Some w \<Rightarrow> w) in
                case createSessionTx env fault (sq_ts (clock AtWrite)) nid wsID p s of
                  (Inl e, s1) \<Rightarrow> (Inl e, s1)
                | (Inr _, s1) \<Rightarrow>
                    reread_session env fault scope nid
                      (mark_started env fault (in_scope scope) (sq_ts (clock AtTasks)) (cs_tasks p) sessionAssignee s1))))"

definition LinkedTasks_sq :: "uuid \<Rightarrow> gtd_db \<Rightarrow> session_task list" where
  "LinkedTasks_sq sid s = linked_rows sid s"

definition GetActive_sq :: "ws_env \<Rightarrow> ws_fault \<Rightarrow> uuid option \<Rightarrow> uuid \<Rightarrow> ustr \<Rightarrow> gtd_db \<Rightarrow> ws_error + active_result" where
  "GetActive_sq env fault scope workspaceID repo s =
     (if scope \<noteq> None \<and> scope \<noteq> Some workspaceID then Inr no_active
      else if fault AtWrite then Inl (WDatabase AtWrite)
      else (case first_row (active_at workspaceID repo) (work_sessions s) of
              None \<Rightarrow> Inr no_active
            | Some r \<Rightarrow> if fault AtLinks then Inl (WDatabase AtLinks)
                        else Inr (is_active (scanWorkSession r) (LinkedTasks_sq (wk_id r) (env AtLinks s)))))"

definition Checkpoint_sq :: "ws_env \<Rightarrow> ws_fault \<Rightarrow> uuid option \<Rightarrow> ws_clock \<Rightarrow> uuid \<Rightarrow> ustr \<Rightarrow> gtd_db \<Rightarrow> work_session ws_result" where
  "Checkpoint_sq env fault scope clock sid summary s =
     (let s1 = env AtWrite s; hit = (\<lambda>r. session_row scope sid r \<and> open_session r) in
      if fault AtWrite then (Inl (WDatabase AtWrite), s1)
      else if \<not> list_ex hit (work_sessions s1) then (Inl WNotFound, s1)
      else reread_session env fault scope sid
             (s1\<lparr>work_sessions := update_rows hit (checkpoint_row (sq_ts (clock AtWrite))) (work_sessions s1)\<rparr>))"

definition AddEvidence_sq :: "ws_env \<Rightarrow> ws_fault \<Rightarrow> uuid option \<Rightarrow> ws_clock \<Rightarrow> nat \<Rightarrow> uuid \<Rightarrow> uuid \<Rightarrow> evidence_input \<Rightarrow> gtd_db
    \<Rightarrow> session_evidence ws_result" where
  "AddEvidence_sq env fault scope clock n nid sid ei s =
     (case command_error ''command'' (ei_command ei) of
        Some e \<Rightarrow> (Inl e, s)
      | None \<Rightarrow>
          (let s1 = env (AtEvidence n) s; wsArg = (case scope of None \<Rightarrow> 0 | Some w \<Rightarrow> w) in
           if fault (AtEvidence n) then (Inl (WDatabase (AtEvidence n)), s1)
           else (case insert_evidence (new_evidence (sq_ts (clock (AtEvidence n))) nid (Some wsArg) sid ei) s1 of
                   Inl e \<Rightarrow> (Inl e, s1)
                 | Inr s2 \<Rightarrow>
                     (let s3 = env (AtEvidenceRead n) s2 in
                      (if fault (AtEvidenceRead n) then Inl (WDatabase (AtEvidenceRead n))
                       else (case first_row (\<lambda>e. we_id e = nid) (evidence s3) of
                               None \<Rightarrow> Inl WNotFound | Some e \<Rightarrow> Inr (scanEvidence e)), s3)))))"

text \<open>The loop over the evidence of \<open>Finish\<close>: every error is logged and dropped.\<close>

fun evidence_loop :: "(nat \<Rightarrow> evidence_input \<Rightarrow> gtd_db \<Rightarrow> session_evidence ws_result) \<Rightarrow> nat \<Rightarrow> evidence_input list
    \<Rightarrow> gtd_db \<Rightarrow> gtd_db" where
  "evidence_loop add n [] s = s"
| "evidence_loop add n (ei # eis) s = evidence_loop add (Suc n) eis (snd (add n ei s))"

text \<open>The ids \<open>Finish\<close> marks: the links are read only for the opt-in without an explicit list.\<close>

definition finish_ids :: "ws_env \<Rightarrow> ws_fault \<Rightarrow> finish_session \<Rightarrow> gtd_db \<Rightarrow> uuid list \<times> gtd_db" where
  "finish_ids env fault p s =
     (if fs_completed p = [] \<and> fs_all_linked p
      then (let s' = env AtLinks s;
                linked = (if fault AtLinks then [] else map st_task (linked_rows (fs_id p) s'))
            in (ResolveCompletedTaskIDs (fs_completed p) (fs_deferred p) linked, s'))
      else (ResolveCompletedTaskIDs (fs_completed p) (fs_deferred p) [], s))"

definition Finish_sq :: "ws_env \<Rightarrow> ws_fault \<Rightarrow> uuid option \<Rightarrow> ws_clock \<Rightarrow> (nat \<Rightarrow> uuid) \<Rightarrow> finish_session \<Rightarrow> gtd_db
    \<Rightarrow> (work_session \<times> uuid list) ws_result" where
  "Finish_sq env fault scope clock nids p s =
     (case command_error ''verification_command'' (fs_command p) of
        Some e \<Rightarrow> (Inl e, s)
      | None \<Rightarrow>
          (let s1 = env AtWrite s; hit = (\<lambda>r. session_row scope (fs_id p) r \<and> open_session r);
               write = finish_row (sq_ts (clock AtWrite)) (nullIfEmpty (fs_summary p)) p in
           if fault AtWrite then (Inl (WDatabase AtWrite), s1)
           else if \<not> list_ex hit (work_sessions s1) then (Inl WNotFound, s1)
           else if \<not> list_all session_check (map write (filter hit (work_sessions s1))) then (Inl WConstraint, s1)
           else
             (let s2 = s1\<lparr>work_sessions := update_rows hit write (work_sessions s1)\<rparr>;
                  (taskIDs, s3) = finish_ids env fault p s2;
                  s4 = mark_finished env fault (in_scope scope) (sq_ts (clock AtTasks)) taskIDs (fs_artifact p) s3;
                  s5 = evidence_loop (\<lambda>n. AddEvidence_sq env fault scope clock n (nids n) (fs_id p)) 0 (fs_evidence p) s4
              in (case reread_session env fault scope (fs_id p) s5 of
                    (Inl e, s6) \<Rightarrow> (Inl e, s6) | (Inr r, s6) \<Rightarrow> (Inr (r, taskIDs), s6)))))"

definition GetByID_sq :: "uuid option \<Rightarrow> uuid \<Rightarrow> uuid \<Rightarrow> gtd_db \<Rightarrow> ws_error + work_session" where
  "GetByID_sq scope workspaceID sid s =
     (if scope \<noteq> None \<and> scope \<noteq> Some workspaceID then Inl WNotFound
      else (case first_row (\<lambda>r. wk_id r = sid \<and> wk_workspace r = workspaceID) (work_sessions s) of
              None \<Rightarrow> Inl WNotFound | Some r \<Rightarrow> Inr (scanWorkSession r)))"

definition LinkTask_sq :: "instant \<Rightarrow> uuid \<Rightarrow> uuid \<Rightarrow> string \<Rightarrow> gtd_db \<Rightarrow> unit ws_result" where
  "LinkTask_sq now sid tid role s =
     (if role \<notin> set link_roles then (Inl WConstraint, s)
      else (Inr (), s\<lparr>session_tasks :=
              add_link \<lparr>st_session = sid, st_task = tid, st_role = role, st_created = sq_ts now\<rparr> (session_tasks s)\<rparr>))"

definition ListRecent_sq :: "uuid option \<Rightarrow> uuid \<Rightarrow> ustr \<Rightarrow> int \<Rightarrow> gtd_db \<Rightarrow> work_session list" where
  "ListRecent_sq scope workspaceID repo limit s =
     (if scope \<noteq> None \<and> scope \<noteq> Some workspaceID then []
      else map scanWorkSession (recent_rows workspaceID repo limit s))"

definition GetEvidence_sq :: "uuid option \<Rightarrow> uuid \<Rightarrow> gtd_db \<Rightarrow> session_evidence list" where
  "GetEvidence_sq scope sid s =
     (let ws = (case scope of None \<Rightarrow> 0 | Some w \<Rightarrow> w);
          mine = (\<lambda>e. (we_workspace e = Some ws \<or> (scope = None \<and> we_workspace e = None)) \<and> we_session e = sid)
      in map scanEvidence (take MaxEvidenceListLimit (sort_key we_created (filter mine (evidence s)))))"

definition SetOutcomeLink_sq :: "uuid option \<Rightarrow> instant \<Rightarrow> uuid \<Rightarrow> uuid \<Rightarrow> gtd_db \<Rightarrow> unit ws_result" where
  "SetOutcomeLink_sq scope now sid oid s =
     (if list_ex (session_row scope sid) (work_sessions s)
      then (Inr (), s\<lparr>work_sessions := update_rows (session_row scope sid) (outcome_row (sq_ts now) oid) (work_sessions s)\<rparr>)
      else (Inl WNotFound, s))"

definition PruneEvidence_sq :: "instant \<Rightarrow> gtd_db \<Rightarrow> nat \<times> gtd_db" where
  "PruneEvidence_sq cutoff s =
     (let old = (\<lambda>e. we_created e < sq_ts cutoff)
      in (length (filter old (evidence s)), s\<lparr>evidence := filter (\<lambda>e. \<not> old e) (evidence s)\<rparr>))"

section \<open>Postgres\<close>

text \<open>The columns are read as text with \<open>to_char \<dots> MS\<close>: instants lose their microseconds.\<close>

definition scanSession_pg :: "work_session \<Rightarrow> work_session" where
  "scanSession_pg r = r\<lparr>wk_started := map_option sq_ts (wk_started r), wk_checkpoint := map_option sq_ts (wk_checkpoint r),
     wk_completed := map_option sq_ts (wk_completed r), wk_created := sq_ts (wk_created r), wk_updated := sq_ts (wk_updated r)\<rparr>"

definition scanEvidence_pg :: "session_evidence \<Rightarrow> session_evidence" where
  "scanEvidence_pg e = e\<lparr>we_created := sq_ts (we_created e)\<rparr>"

text \<open>Without a configured workspace every statement compares with the zero UUID.\<close>

definition pg_workspace :: "uuid option \<Rightarrow> uuid" where
  "pg_workspace scope = (case scope of None \<Rightarrow> 0 | Some w \<Rightarrow> w)"

definition session_row_pg :: "uuid option \<Rightarrow> uuid \<Rightarrow> work_session \<Rightarrow> bool" where
  "session_row_pg scope i r \<longleftrightarrow> wk_id r = i \<and> wk_workspace r = pg_workspace scope"

text \<open>\<open>UPDATE \<dots> RETURNING\<close> on one session row.\<close>

definition update_session :: "(work_session \<Rightarrow> bool) \<Rightarrow> (work_session \<Rightarrow> work_session) \<Rightarrow> gtd_db \<Rightarrow> (work_session \<times> gtd_db) option" where
  "update_session hit f s =
     map_option (\<lambda>r. (scanSession_pg (f r), s\<lparr>work_sessions := update_rows hit f (work_sessions s)\<rparr>))
       (first_row hit (work_sessions s))"

definition CreateSession_pg :: "ws_env \<Rightarrow> ws_fault \<Rightarrow> uuid option \<Rightarrow> ws_clock \<Rightarrow> uuid \<Rightarrow> create_session \<Rightarrow> gtd_db
    \<Rightarrow> work_session ws_result" where
  "CreateSession_pg env fault scope clock nid p s =
     (case validateCreateParams p of
        Some e \<Rightarrow> (Inl e, s)
      | None \<Rightarrow>
          (case session_assignee (cs_assignee p) of
             Inl e \<Rightarrow> (Inl e, s)
           | Inr sessionAssignee \<Rightarrow>
               (let wsID = (case scope of None \<Rightarrow> cs_workspace p | Some w \<Rightarrow> w);
                    at = pg_ts (clock AtWrite); r = new_session at nid wsID p; s1 = env AtWrite s in
                if fault AtWrite then (Inl (WDatabase AtWrite), s1)
                else (case insert_session at r (cs_tasks p) s1 of
                        Inl e \<Rightarrow> (Inl e, s1)
                      | Inr s2 \<Rightarrow>
                          (Inr (scanSession_pg r),
                           mark_started env fault (in_scope (Some wsID)) (pg_ts (clock AtTasks)) (cs_tasks p) sessionAssignee s2)))))"

definition LinkedTasks_pg :: "uuid \<Rightarrow> gtd_db \<Rightarrow> session_task list" where
  "LinkedTasks_pg sid s = map (\<lambda>l. l\<lparr>st_created := sq_ts (st_created l)\<rparr>) (linked_rows sid s)"

definition GetActive_pg :: "ws_env \<Rightarrow> ws_fault \<Rightarrow> uuid option \<Rightarrow> uuid \<Rightarrow> ustr \<Rightarrow> gtd_db \<Rightarrow> ws_error + active_result" where
  "GetActive_pg env fault scope workspaceID repo s =
     (let ws = (case scope of None \<Rightarrow> workspaceID | Some w \<Rightarrow> w) in
      if fault AtWrite then Inl (WDatabase AtWrite)
      else (case first_row (active_at ws repo) (work_sessions s) of
              None \<Rightarrow> Inr no_active
            | Some r \<Rightarrow> if fault AtLinks then Inl (WDatabase AtLinks)
                        else Inr (is_active (scanSession_pg r) (LinkedTasks_pg (wk_id r) (env AtLinks s)))))"

definition Checkpoint_pg :: "ws_env \<Rightarrow> ws_fault \<Rightarrow> uuid option \<Rightarrow> ws_clock \<Rightarrow> uuid \<Rightarrow> ustr \<Rightarrow> gtd_db \<Rightarrow> work_session ws_result" where
  "Checkpoint_pg env fault scope clock sid summary s =
     (let s1 = env AtWrite s in
      if fault AtWrite then (Inl (WDatabase AtWrite), s1)
      else (case update_session (\<lambda>r. session_row_pg scope sid r \<and> open_session r)
                   (checkpoint_row (pg_ts (clock AtWrite))) s1 of
              None \<Rightarrow> (Inl WNotFound, s1) | Some (r, s2) \<Rightarrow> (Inr r, s2)))"

definition AddEvidence_pg :: "ws_env \<Rightarrow> ws_fault \<Rightarrow> uuid option \<Rightarrow> ws_clock \<Rightarrow> nat \<Rightarrow> uuid \<Rightarrow> uuid option \<Rightarrow> uuid
    \<Rightarrow> evidence_input \<Rightarrow> gtd_db \<Rightarrow> session_evidence ws_result" where
  "AddEvidence_pg env fault scope clock n nid workspace sid ei s =
     (case command_error ''command'' (ei_command ei) of
        Some e \<Rightarrow> (Inl e, s)
      | None \<Rightarrow>
          (let s1 = env (AtEvidence n) s; ws = (case scope of None \<Rightarrow> workspace | Some w \<Rightarrow> Some w);
               e = new_evidence (pg_ts (clock (AtEvidence n))) nid ws sid ei in
           if fault (AtEvidence n) then (Inl (WDatabase (AtEvidence n)), s1)
           else (case insert_evidence e s1 of Inl err \<Rightarrow> (Inl err, s1) | Inr s2 \<Rightarrow> (Inr (scanEvidence_pg e), s2))))"

definition Finish_pg :: "ws_env \<Rightarrow> ws_fault \<Rightarrow> uuid option \<Rightarrow> ws_clock \<Rightarrow> (nat \<Rightarrow> uuid) \<Rightarrow> finish_session \<Rightarrow> gtd_db
    \<Rightarrow> (work_session \<times> uuid list) ws_result" where
  "Finish_pg env fault scope clock nids p s =
     (case command_error ''verification_command'' (fs_command p) of
        Some e \<Rightarrow> (Inl e, s)
      | None \<Rightarrow>
          (let ws = pg_workspace scope; s1 = env AtWrite s; hit = (\<lambda>r. session_row_pg scope (fs_id p) r \<and> open_session r);
               write = finish_row (pg_ts (clock AtWrite)) (Some (fs_summary p)) p in
           if fault AtWrite then (Inl (WDatabase AtWrite), s1)
           else (case update_session hit write s1 of
                   None \<Rightarrow> (Inl WNotFound, s1)
                 | Some (sess, s2) \<Rightarrow>
                     if \<not> list_all session_check (map write (filter hit (work_sessions s1))) then (Inl WConstraint, s1)
                     else
                       (let (taskIDs, s3) = finish_ids env fault p s2;
                            s4 = mark_finished env fault (in_scope (Some ws)) (pg_ts (clock AtTasks)) taskIDs (fs_artifact p) s3;
                            s5 = evidence_loop (\<lambda>n. AddEvidence_pg env fault scope clock n (nids n) (Some ws) (fs_id p)) 0
                                   (fs_evidence p) s4
                        in (Inr (sess, taskIDs), s5)))))"

definition GetByID_pg :: "uuid option \<Rightarrow> uuid \<Rightarrow> uuid \<Rightarrow> gtd_db \<Rightarrow> ws_error + work_session" where
  "GetByID_pg scope workspaceID sid s =
     (let ws = (case scope of None \<Rightarrow> workspaceID | Some w \<Rightarrow> w) in
      case first_row (\<lambda>r. wk_id r = sid \<and> wk_workspace r = ws) (work_sessions s) of
        None \<Rightarrow> Inl WNotFound | Some r \<Rightarrow> Inr (scanSession_pg r))"

definition LinkTask_pg :: "instant \<Rightarrow> uuid \<Rightarrow> uuid \<Rightarrow> string \<Rightarrow> gtd_db \<Rightarrow> unit ws_result" where
  "LinkTask_pg now sid tid role s =
     (if role \<notin> set link_roles then (Inl WConstraint, s)
      else (Inr (), s\<lparr>session_tasks :=
              add_link \<lparr>st_session = sid, st_task = tid, st_role = role, st_created = pg_ts now\<rparr> (session_tasks s)\<rparr>))"

definition ListRecent_pg :: "uuid option \<Rightarrow> uuid \<Rightarrow> ustr \<Rightarrow> int \<Rightarrow> gtd_db \<Rightarrow> work_session list" where
  "ListRecent_pg scope workspaceID repo limit s =
     (let ws = (case scope of None \<Rightarrow> workspaceID | Some w \<Rightarrow> w) in map scanSession_pg (recent_rows ws repo limit s))"

definition GetEvidence_pg :: "uuid option \<Rightarrow> uuid \<Rightarrow> gtd_db \<Rightarrow> session_evidence list" where
  "GetEvidence_pg scope sid s =
     map scanEvidence_pg (take MaxEvidenceListLimit (sort_key we_created
       (filter (\<lambda>e. we_workspace e = Some (pg_workspace scope) \<and> we_session e = sid) (evidence s))))"

definition SetOutcomeLink_pg :: "uuid option \<Rightarrow> instant \<Rightarrow> uuid \<Rightarrow> uuid \<Rightarrow> gtd_db \<Rightarrow> unit ws_result" where
  "SetOutcomeLink_pg scope now sid oid s =
     (if list_ex (session_row_pg scope sid) (work_sessions s)
      then (Inr (), s\<lparr>work_sessions := update_rows (session_row_pg scope sid) (outcome_row (pg_ts now) oid) (work_sessions s)\<rparr>)
      else (Inl WNotFound, s))"

definition PruneEvidence_pg :: "instant \<Rightarrow> gtd_db \<Rightarrow> nat \<times> gtd_db" where
  "PruneEvidence_pg cutoff s =
     (let old = (\<lambda>e. we_created e < pg_ts cutoff)
      in (length (filter old (evidence s)), s\<lparr>evidence := filter (\<lambda>e. \<not> old e) (evidence s)\<rparr>))"

end
