(* ===== verification/Digest.thy ===== *)
theory Digest
  imports Texts "HOL-Library.Multiset"
begin

unbundle bit_operations_syntax

text \<open>
  \<open>crypto/sha256\<close> and \<open>encoding/hex\<close> as \<open>gtd.TaskSetDigest\<close> uses them (\<open>internal/gtd/
  deleteproject_orchestration.go\<close>), over lists of bytes.  The digest of a task set is the hash of
  the sorted identifier texts; two different sets with one digest are a collision of SHA-256.
\<close>

section \<open>SHA-256\<close>

type_synonym w32 = "32 word"
type_synonym sha_state = "w32 \<times> w32 \<times> w32 \<times> w32 \<times> w32 \<times> w32 \<times> w32 \<times> w32"

text \<open>The round constants and the initial state, in decimal.\<close>

definition sha_K :: "w32 list" where
  "sha_K =
    [1116352408, 1899447441, 3049323471, 3921009573, 961987163, 1508970993, 2453635748,
     2870763221, 3624381080, 310598401, 607225278, 1426881987, 1925078388, 2162078206,
     2614888103, 3248222580, 3835390401, 4022224774, 264347078, 604807628, 770255983,
     1249150122, 1555081692, 1996064986, 2554220882, 2821834349, 2952996808, 3210313671,
     3336571891, 3584528711, 113926993, 338241895, 666307205, 773529912, 1294757372,
     1396182291, 1695183700, 1986661051, 2177026350, 2456956037, 2730485921, 2820302411,
     3259730800, 3345764771, 3516065817, 3600352804, 4094571909, 275423344, 430227734,
     506948616, 659060556, 883997877, 958139571, 1322822218, 1537002063, 1747873779,
     1955562222, 2024104815, 2227730452, 2361852424, 2428436474, 2756734187, 3204031479,
     3329325298]"

definition sha_init :: sha_state where
  "sha_init = (1779033703, 3144134277, 1013904242, 2773480762, 1359893119, 2600822924, 528734635, 1541459225)"

fun be_words :: "nat list \<Rightarrow> w32 list" where
  "be_words (a # b # c # d # bs) = (((of_nat a * 256 + of_nat b) * 256 + of_nat c) * 256 + of_nat d) # be_words bs"
| "be_words _ = []"

text \<open>The padded message: a one bit, zeros up to 56 modulo 64 bytes, the bit length in 64 bits.\<close>

definition sha_words :: "nat list \<Rightarrow> w32 list" where
  "sha_words m =
     (let bits = of_nat (8 * length m) :: 64 word
      in be_words (m @ 128 # replicate ((119 - length m mod 64) mod 64) 0) @ [ucast (drop_bit 32 bits), ucast bits])"

text \<open>The message schedule, newest word first.\<close>

fun sha_schedule :: "nat \<Rightarrow> w32 list \<Rightarrow> w32 list" where
  "sha_schedule 0 ws = ws"
| "sha_schedule (Suc n) ws =
     (let x = ws ! 1; y = ws ! 14;
          s1 = word_rotr 17 x XOR word_rotr 19 x XOR drop_bit 10 x;
          s0 = word_rotr 7 y XOR word_rotr 18 y XOR drop_bit 3 y
      in sha_schedule n ((s1 + ws ! 6 + s0 + ws ! 15) # ws))"

fun sha_round :: "sha_state \<Rightarrow> w32 \<times> w32 \<Rightarrow> sha_state" where
  "sha_round (a, b, c, d, e, f, g, h) (k, w) =
     (let t1 = h + (word_rotr 6 e XOR word_rotr 11 e XOR word_rotr 25 e) + ((e AND f) XOR (NOT e AND g)) + k + w;
          t2 = (word_rotr 2 a XOR word_rotr 13 a XOR word_rotr 22 a) + ((a AND b) XOR (a AND c) XOR (b AND c))
      in (t1 + t2, a, b, c, d + t1, e, f, g))"

fun sha_add :: "sha_state \<Rightarrow> sha_state \<Rightarrow> sha_state" where
  "sha_add (a, b, c, d, e, f, g, h) (a', b', c', d', e', f', g', h') =
     (a + a', b + b', c + c', d + d', e + e', f + f', g + g', h + h')"

definition sha_block :: "sha_state \<Rightarrow> w32 list \<Rightarrow> sha_state" where
  "sha_block st ws = sha_add st (fold (\<lambda>kw s. sha_round s kw) (zip sha_K (rev (sha_schedule 48 (rev ws)))) st)"

fun sha_blocks :: "nat \<Rightarrow> w32 list \<Rightarrow> sha_state \<Rightarrow> sha_state" where
  "sha_blocks 0 ws st = st"
| "sha_blocks (Suc n) ws st = sha_blocks n (drop 16 ws) (sha_block st (take 16 ws))"

fun sha_out :: "sha_state \<Rightarrow> w32 list" where
  "sha_out (a, b, c, d, e, f, g, h) = [a, b, c, d, e, f, g, h]"

definition sha256 :: "nat list \<Rightarrow> w32 list" where
  "sha256 m = (let ws = sha_words m in sha_out (sha_blocks (length ws div 16) ws sha_init))"

definition hex_word :: "w32 \<Rightarrow> ustr" where
  "hex_word w = map (\<lambda>k. hex_digit (unat (take_bit 4 (drop_bit (4 * (7 - k)) w)))) [0..<8]"

definition hex_digest :: "nat list \<Rightarrow> ustr" where
  "hex_digest m = concat (map hex_word (sha256 m))"

section \<open>Digests of task sets\<close>

fun join_lines :: "ustr list \<Rightarrow> ustr" where
  "join_lines [] = []"
| "join_lines [s] = s"
| "join_lines (s # ss) = s @ 10 # join_lines ss"

definition task_set_text :: "uuid list \<Rightarrow> ustr" where
  "task_set_text ids = join_lines (sort (map uuid_text ids))"

definition TaskSetDigest :: "uuid list \<Rightarrow> ustr" where
  "TaskSetDigest ids = hex_digest (task_set_text ids)"

text \<open>The first vector of FIPS 180-4.\<close>

lemma sha256_abc:
  "sha256 (lit ''abc'') = [0xba7816bf, 0x8f01cfea, 0x414140de, 0x5dae2223, 0xb00361a3, 0x96177a9c, 0xb410ff61, 0xf20015ad]"
  by code_simp

lemma length_digest [simp]: "length (hex_digest m) = 64"
proof -
  have "length (sha256 m) = 8"
    by (simp add: sha256_def Let_def) (cases "sha_blocks (length (sha_words m) div 16) (sha_words m) sha_init" rule: sha_out.cases, simp)
  then show ?thesis
    by (simp add: hex_digest_def length_concat hex_word_def comp_def sum_list_triv)
qed

lemma TaskSetDigest_not_empty [simp]: "TaskSetDigest ids \<noteq> []"
  using length_digest [of "task_set_text ids"] by (auto simp: TaskSetDigest_def simp del: length_digest)

lemma length_uuid_text [simp]: "length (uuid_text i) = 36"
  by (simp add: uuid_text_def Let_def uuid_nibbles_def)

section \<open>Different sets, different texts\<close>

lemma nibble_bound: "unat (take_bit 4 w :: uuid) < 16"
proof -
  have "unat (take_bit 4 w) = take_bit 4 (unat w)" by (simp add: unsigned_take_bit_eq)
  also have "\<dots> < 2 ^ 4" by (rule take_bit_nat_less_exp)
  finally show ?thesis by simp
qed
lemma hex_digit_inj: "a < 16 \<Longrightarrow> b < 16 \<Longrightarrow> hex_digit a = hex_digit b \<Longrightarrow> a = b"
  by (auto simp: hex_digit_def split: if_splits)
lemma uuid_nibbles_inj: "uuid_nibbles i = uuid_nibbles j \<Longrightarrow> i = j"
proof (rule bit_word_eqI)
  fix n assume eq: "uuid_nibbles i = uuid_nibbles j" and n: "n < LENGTH(128)"
  let ?k = "31 - n div 4"
  have k: "?k < 32" "31 - ?k = n div 4"
    using n by auto
  from eq have "uuid_nibbles i ! ?k = uuid_nibbles j ! ?k" by simp
  then have "unat (take_bit 4 (drop_bit (4 * (n div 4)) i)) = unat (take_bit 4 (drop_bit (4 * (n div 4)) j))"
    using k by (simp add: uuid_nibbles_def)
  then have "take_bit 4 (drop_bit (4 * (n div 4)) i) = take_bit 4 (drop_bit (4 * (n div 4)) j)"
    by (simp only: word_unat_eq_iff)
  then have "bit (take_bit 4 (drop_bit (4 * (n div 4)) i)) (n mod 4) = bit (take_bit 4 (drop_bit (4 * (n div 4)) j)) (n mod 4)"
    by (rule arg_cong)
  then show "bit i n = bit j n" by (simp add: bit_take_bit_iff bit_drop_bit_eq)
qed
lemma length_uuid_nibbles: "length (uuid_nibbles i) = 32" by (simp add: uuid_nibbles_def)
lemma uuid_nibbles_bound: "d \<in> set (uuid_nibbles i) \<Longrightarrow> d < 16" by (auto simp: uuid_nibbles_def nibble_bound)
lemma uuid_text_inj: "uuid_text i = uuid_text j \<longleftrightarrow> i = j"
proof
  assume eq: "uuid_text i = uuid_text j"
  define f g where "f = map hex_digit (uuid_nibbles i)" and "g = map hex_digit (uuid_nibbles j)"
  have len: "length f = 32" "length g = 32" by (simp_all add: f_def g_def length_uuid_nibbles)
  have parts: "take 8 f = take 8 g" "take 4 (drop 8 f) = take 4 (drop 8 g)" "take 4 (drop 12 f) = take 4 (drop 12 g)"
     "take 4 (drop 16 f) = take 4 (drop 16 g)" "drop 20 f = drop 20 g"
    using eq len by (simp_all add: uuid_text_def Let_def flip: f_def g_def)
  have split: "h = take 8 h @ take 4 (drop 8 h) @ take 4 (drop 12 h) @ take 4 (drop 16 h) @ drop 20 h" if "length h = 32" for h :: ustr
  proof -
    have "take 4 (drop 16 h) @ drop 20 h = drop 16 h" using append_take_drop_id [of 4 "drop 16 h"] by simp
    moreover have "take 4 (drop 12 h) @ drop 16 h = drop 12 h" using append_take_drop_id [of 4 "drop 12 h"] by simp
    moreover have "take 4 (drop 8 h) @ drop 12 h = drop 8 h" using append_take_drop_id [of 4 "drop 8 h"] by simp
    ultimately show ?thesis by simp
  qed
  have "f = g" by (subst split [OF len(1)], subst split [OF len(2)]) (simp only: parts)
  then have "uuid_nibbles i = uuid_nibbles j" 
    unfolding f_def g_def by (rule map_inj_on) (auto intro!: inj_onI hex_digit_inj simp: uuid_nibbles_bound)
  then show "i = j" by (rule uuid_nibbles_inj)
qed simp

lemma join_lines_length: "list_all (\<lambda>x. length x = n) xs \<Longrightarrow> xs \<noteq> [] \<Longrightarrow> Suc (length (join_lines xs)) = length xs * Suc n"
  by (induction xs rule: join_lines.induct) auto

lemma join_lines_inj_length:
  "length xs = length ys \<Longrightarrow> list_all (\<lambda>x. length x = n) xs \<Longrightarrow> list_all (\<lambda>x. length x = n) ys \<Longrightarrow>
     join_lines xs = join_lines ys \<Longrightarrow> xs = ys"
proof (induction xs ys rule: list_induct2)
  case (Cons x xs y ys)
  then show ?case by (cases xs; cases ys) auto
qed simp

lemma join_lines_inj:
  assumes "list_all (\<lambda>x. length x = n) xs" "list_all (\<lambda>x. length x = n) ys" "0 < n" "join_lines xs = join_lines ys"
  shows "xs = ys"
proof (cases "xs = [] \<or> ys = []")
  case True
  with assms show ?thesis by (cases xs rule: join_lines.cases; cases ys rule: join_lines.cases) auto
next
  case False
  with assms(4) join_lines_length [OF assms(1)] join_lines_length [OF assms(2)] have "length xs * Suc n = length ys * Suc n"
    by simp
  then have "length xs = length ys" by (simp only: mult_cancel2) simp
  with assms show ?thesis by (intro join_lines_inj_length) simp_all
qed

lemma task_set_text_inj: "task_set_text xs = task_set_text ys \<longleftrightarrow> mset xs = mset ys"
proof
  assume eq: "task_set_text xs = task_set_text ys"
  have "sort (map uuid_text xs) = sort (map uuid_text ys)"
    by (rule join_lines_inj [of 36]) (use eq in \<open>simp_all add: list_all_iff task_set_text_def\<close>)
  then have "image_mset uuid_text (mset xs) = image_mset uuid_text (mset ys)"
    by (metis mset_map mset_sort)
  then show "mset xs = mset ys"
    by (rule multiset.inj_map_strong [rotated]) (simp add: uuid_text_inj)
next
  assume "mset xs = mset ys"
  then show "task_set_text xs = task_set_text ys"
    by (simp add: task_set_text_def flip: sorted_list_of_multiset_mset)
qed

definition digest_collision :: "uuid list \<Rightarrow> uuid list \<Rightarrow> bool" where
  "digest_collision xs ys \<longleftrightarrow> task_set_text xs \<noteq> task_set_text ys \<and> TaskSetDigest xs = TaskSetDigest ys"

lemma TaskSetDigest_eq: "TaskSetDigest xs = TaskSetDigest ys \<longleftrightarrow> mset xs = mset ys \<or> digest_collision xs ys"
  by (auto simp: digest_collision_def TaskSetDigest_def task_set_text_inj [symmetric])

lemma TaskSetDigest_order: "mset xs = mset ys \<Longrightarrow> TaskSetDigest xs = TaskSetDigest ys"
  by (simp add: TaskSetDigest_eq)

end
