(* ===== verification/Gtd_Deletion.thy ===== *)
theory Gtd_Deletion
  imports Gtd_Invariant Digest
begin

text \<open>
  Deleting tasks and projects, and restoring a deleted project: the two orchestrations of
  \<open>internal/gtd\<close> (\<open>deletetask_orchestration.go\<close>, \<open>deleteproject_orchestration.go\<close>), the SQLite and
  Postgres adapters they drive, \<open>RestoreProject\<close> and \<open>PruneDeletionTombstones\<close>.

  A transaction is a step on \<open>tx\<close>: what its statements see (the committed tables with its own
  writes), the committed tables, and the adapter's field \<open>locked\<close>.  Before the statement named
  \<open>n\<close> other transactions commit \<open>env n\<close>, which both views show (READ COMMITTED; rows this
  transaction has locked are not among those \<open>env\<close> changes); \<open>fault n\<close> makes the statement fail.
  SQLite holds the store's single connection, so nothing is committed in between.
\<close>

section \<open>Transactions\<close>

record tx =
  tx_seen :: gtd_db
  tx_outside :: gtd_db
  tx_locked :: "uuid list"

type_synonym 'a step = "tx \<Rightarrow> (gtd_error + 'a) \<times> tx"
type_synonym others = "string \<Rightarrow> gtd_db \<Rightarrow> gtd_db"

definition give :: "'a \<Rightarrow> 'a step" where
  "give a t = (Inr a, t)"

definition refuse :: "gtd_error \<Rightarrow> 'a step" where
  "refuse e t = (Inl e, t)"

definition and_then :: "'a step \<Rightarrow> ('a \<Rightarrow> 'b step) \<Rightarrow> 'b step" where
  "and_then m k t = (case m t of (Inl e, t') \<Rightarrow> (Inl e, t') | (Inr a, t') \<Rightarrow> k a t')"

fun run_steps :: "unit step list \<Rightarrow> unit step" where
  "run_steps [] = give ()"
| "run_steps (m # ms) = and_then m (\<lambda>_. run_steps ms)"

definition tick :: "others \<Rightarrow> string \<Rightarrow> tx \<Rightarrow> tx" where
  "tick env name t = t\<lparr>tx_seen := env name (tx_seen t), tx_outside := env name (tx_outside t)\<rparr>"

definition query :: "others \<Rightarrow> (string \<Rightarrow> bool) \<Rightarrow> string \<Rightarrow> (gtd_db \<Rightarrow> 'a \<times> gtd_db) \<Rightarrow> 'a step" where
  "query env fault name f t =
     (let t' = tick env name t
      in if fault name then (Inl (GDatabase name), t')
         else (case f (tx_seen t') of (a, s) \<Rightarrow> (Inr a, t'\<lparr>tx_seen := s\<rparr>)))"

definition exec :: "others \<Rightarrow> (string \<Rightarrow> bool) \<Rightarrow> string \<Rightarrow> (gtd_db \<Rightarrow> gtd_db) \<Rightarrow> unit step" where
  "exec env fault name f = query env fault name (\<lambda>s. ((), f s))"

definition commit :: "others \<Rightarrow> (string \<Rightarrow> bool) \<Rightarrow> unit step" where
  "commit env fault t =
     (let t' = tick env ''commit'' t
      in if fault ''commit'' then (Inl (GDatabase ''commit''), t') else (Inr (), t'\<lparr>tx_outside := tx_seen t'\<rparr>))"

text \<open>\<open>defer Rollback\<close>: whatever happened, what stays is what was committed.\<close>

definition transact :: "'a step \<Rightarrow> gtd_db \<Rightarrow> (gtd_error + 'a) \<times> gtd_db" where
  "transact m s = (case m \<lparr>tx_seen = s, tx_outside = s, tx_locked = []\<rparr> of (r, t) \<Rightarrow> (r, tx_outside t))"

definition alone :: others where
  "alone name s = s"

section \<open>The statements\<close>

text \<open>The cleanups, over the set of task identifiers their \<open>WHERE\<close> clause selects.\<close>

definition drop_session_tasks :: "uuid set \<Rightarrow> gtd_db \<Rightarrow> gtd_db" where
  "drop_session_tasks ids s = s\<lparr>session_tasks := filter (\<lambda>r. st_task r \<notin> ids) (session_tasks s)\<rparr>"

definition names :: "uuid set \<Rightarrow> uuid option \<Rightarrow> bool" where
  "names ids x = (case x of None \<Rightarrow> False | Some i \<Rightarrow> i \<in> ids)"

definition null_current_task :: "instant \<Rightarrow> uuid set \<Rightarrow> gtd_db \<Rightarrow> gtd_db" where
  "null_current_task at ids s =
     s\<lparr>work_sessions := update_rows (\<lambda>r. names ids (wk_current_task r))
         (\<lambda>r. r\<lparr>wk_current_task := None, wk_updated := at\<rparr>) (work_sessions s)\<rparr>"

definition drop_candidates :: "uuid set \<Rightarrow> gtd_db \<Rightarrow> gtd_db" where
  "drop_candidates ids s = s\<lparr>candidates := filter (\<lambda>r. cc_task r \<notin> ids) (candidates s)\<rparr>"

definition reset_vision_items :: "uuid set \<Rightarrow> gtd_db \<Rightarrow> gtd_db" where
  "reset_vision_items ids s =
     s\<lparr>vision_items := update_rows (\<lambda>r. names ids (vi_promoted r))
         (\<lambda>r. r\<lparr>vi_promoted := None, vi_status := VisionOpen\<rparr>) (vision_items s)\<rparr>"

definition null_task_refs :: "uuid set \<Rightarrow> doc_row list \<Rightarrow> doc_row list" where
  "null_task_refs ids rows = update_rows (\<lambda>r. names ids (dr_task r)) (\<lambda>r. r\<lparr>dr_task := None\<rparr>) rows"

definition null_project_refs :: "uuid \<Rightarrow> doc_row list \<Rightarrow> doc_row list" where
  "null_project_refs i rows = update_rows (\<lambda>r. dr_project r = Some i) (\<lambda>r. r\<lparr>dr_project := None\<rparr>) rows"

definition unlink_project :: "uuid \<Rightarrow> project_ref_row list \<Rightarrow> project_ref_row list" where
  "unlink_project i rows = update_rows (\<lambda>r. pr_project r = Some i) (\<lambda>r. r\<lparr>pr_project := None\<rparr>) rows"

text \<open>\<open>DeletionTombstoneRetention\<close>, 30 days, and the pruning it drives.\<close>

definition DeletionTombstoneRetention :: instant where
  "DeletionTombstoneRetention = 30 * 24 * 3600 * 1000000000"

definition prune_tombstones :: "instant \<Rightarrow> gtd_db \<Rightarrow> gtd_db" where
  "prune_tombstones cutoff s = s\<lparr>tombstones := filter (\<lambda>b. \<not> tb_deleted_at b < cutoff) (tombstones s)\<rparr>"

definition PruneDeletionTombstones :: "instant \<Rightarrow> gtd_db \<Rightarrow> nat \<times> gtd_db" where
  "PruneDeletionTombstones cutoff s =
     (length (filter (\<lambda>b. tb_deleted_at b < sq_ts cutoff) (tombstones s)), prune_tombstones (sq_ts cutoff) s)"

definition PruneDeletionTombstones_pg :: "instant \<Rightarrow> gtd_db \<Rightarrow> nat \<times> gtd_db" where
  "PruneDeletionTombstones_pg cutoff s =
     (length (filter (\<lambda>b. tb_deleted_at b < pg_ts cutoff) (tombstones s)), prune_tombstones (pg_ts cutoff) s)"

definition task_tombstone :: "uuid \<Rightarrow> instant \<Rightarrow> ustr \<Rightarrow> task \<Rightarrow> tombstone" where
  "task_tombstone d at by t =
     \<lparr>tb_workspace = t_workspace t, tb_deletion = d, tb_entity = t_id t, tb_project = t_project t,
      tb_payload = PayTask t, tb_deleted_by = by, tb_deleted_at = at\<rparr>"

definition project_tombstone :: "uuid \<Rightarrow> instant \<Rightarrow> ustr \<Rightarrow> project \<Rightarrow> tombstone" where
  "project_tombstone d at by p =
     \<lparr>tb_workspace = pj_workspace p, tb_deletion = d, tb_entity = pj_id p, tb_project = Some (pj_id p),
      tb_payload = PayProject p, tb_deleted_by = by, tb_deleted_at = at\<rparr>"

definition snapshot_tasks :: "(task \<Rightarrow> bool) \<Rightarrow> uuid \<Rightarrow> instant \<Rightarrow> ustr \<Rightarrow> gtd_db \<Rightarrow> gtd_db" where
  "snapshot_tasks P d at by s =
     s\<lparr>tombstones := tombstones s @ map (task_tombstone d at by) (filter P (tasks s))\<rparr>"

definition snapshot_project :: "(project \<Rightarrow> bool) \<Rightarrow> uuid \<Rightarrow> instant \<Rightarrow> ustr \<Rightarrow> gtd_db \<Rightarrow> gtd_db" where
  "snapshot_project P d at by s =
     s\<lparr>tombstones := tombstones s @ map (project_tombstone d at by) (filter P (projects s))\<rparr>"

definition delete_tasks :: "(task \<Rightarrow> bool) \<Rightarrow> gtd_db \<Rightarrow> gtd_db" where
  "delete_tasks P s = s\<lparr>tasks := filter (\<lambda>t. \<not> P t) (tasks s)\<rparr>"

definition delete_projects :: "(project \<Rightarrow> bool) \<Rightarrow> gtd_db \<Rightarrow> gtd_db" where
  "delete_projects P s = s\<lparr>projects := filter (\<lambda>p. \<not> P p) (projects s)\<rparr>"

definition add_log :: "activity \<Rightarrow> gtd_db \<Rightarrow> gtd_db" where
  "add_log a s = s\<lparr>activity_log := activity_log s @ [a]\<rparr>"

text \<open>The audit rows carry identifiers and a count, never stored text.\<close>

definition task_deleted_row :: "uuid option \<Rightarrow> instant \<Rightarrow> uuid \<Rightarrow> ustr \<Rightarrow> uuid \<Rightarrow> activity" where
  "task_deleted_row scope at d by i =
     \<lparr>a_workspace = scope, a_actor = by, a_project = None, a_action = ''task_deleted'',
      a_notes = Some (Notes (lit ''deletion_id='' @ uuid_text d @ lit '' task_id='' @ uuid_text i)), a_created = at\<rparr>"

definition project_deleted_row :: "uuid option \<Rightarrow> instant \<Rightarrow> uuid \<Rightarrow> ustr \<Rightarrow> uuid \<Rightarrow> nat \<Rightarrow> activity" where
  "project_deleted_row scope at d by i n =
     \<lparr>a_workspace = scope, a_actor = by, a_project = None, a_action = ''project_deleted'',
      a_notes = Some (Notes (lit ''deletion_id='' @ uuid_text d @ lit '' project_id='' @ uuid_text i @
        lit '' tasks='' @ decimal n)), a_created = at\<rparr>"

definition project_restored_row :: "uuid option \<Rightarrow> instant \<Rightarrow> uuid \<Rightarrow> ustr \<Rightarrow> uuid \<Rightarrow> nat \<Rightarrow> activity" where
  "project_restored_row scope at d by i n =
     \<lparr>a_workspace = scope, a_actor = by, a_project = Some i, a_action = ''project_restored'',
      a_notes = Some (Notes (lit ''deletion_id='' @ uuid_text d @ lit '' tasks='' @ decimal n)), a_created = at\<rparr>"

section \<open>Deleting a task\<close>

record delete_task_adapter =
  dt_begin :: "unit step"
  dt_precheck :: "bool step"
  dt_snapshot :: "uuid \<Rightarrow> instant \<Rightarrow> ustr \<Rightarrow> unit step"
  dt_session_tasks :: "unit step"
  dt_current_task :: "unit step"
  dt_candidates :: "unit step"
  dt_vision_items :: "unit step"
  dt_decisions :: "unit step"
  dt_knowledge :: "unit step"
  dt_row :: "unit step"
  dt_audit :: "uuid \<Rightarrow> ustr \<Rightarrow> unit step"
  dt_commit :: "unit step"

definition DeleteTaskOrchestration :: "uuid \<Rightarrow> ustr \<Rightarrow> instant \<Rightarrow> delete_task_adapter \<Rightarrow> unit step" where
  "DeleteTaskOrchestration deletionID deletedBy deletedAt ad =
     and_then (dt_begin ad) (\<lambda>_.
     and_then (dt_precheck ad) (\<lambda>exists.
       if \<not> exists then give ()
       else run_steps
         [dt_snapshot ad deletionID deletedAt deletedBy,
          dt_session_tasks ad, dt_current_task ad, dt_candidates ad, dt_vision_items ad,
          dt_decisions ad, dt_knowledge ad, dt_row ad,
          dt_audit ad deletionID deletedBy, dt_commit ad]))"

text \<open>\<open>now\<close> is the clock the statements themselves read (\<open>nowRFC3339()\<close>, \<open>NOW()\<close>).\<close>

definition sqliteDeleteTaskAdapter :: "(string \<Rightarrow> bool) \<Rightarrow> uuid option \<Rightarrow> instant \<Rightarrow> uuid \<Rightarrow> delete_task_adapter" where
  "sqliteDeleteTaskAdapter fault scope now i =
     \<lparr>dt_begin = exec alone fault ''begin tx'' (\<lambda>s. s),
      dt_precheck = query alone fault ''workspace pre-check'' (\<lambda>s. (list_ex (task_row scope i) (tasks s), s)),
      dt_snapshot = (\<lambda>d at by. run_steps
        [exec alone fault ''prune tombstones'' (prune_tombstones (sq_ts (at - DeletionTombstoneRetention))),
         exec alone fault ''snapshot task'' (snapshot_tasks (task_row scope i) d (sq_ts at) by)]),
      dt_session_tasks = exec alone fault ''cleanup work_session_tasks'' (drop_session_tasks {i}),
      dt_current_task = exec alone fault ''nullify work_sessions.current_task_id'' (null_current_task (sq_ts now) {i}),
      dt_candidates = exec alone fault ''cleanup completion_candidates'' (drop_candidates {i}),
      dt_vision_items = exec alone fault ''reset vision_items.promoted_task_id'' (reset_vision_items {i}),
      dt_decisions = exec alone fault ''nullify decisions.task_id''
        (\<lambda>s. s\<lparr>decisions := null_task_refs {i} (decisions s)\<rparr>),
      dt_knowledge = exec alone fault ''nullify knowledge_items.task_id''
        (\<lambda>s. s\<lparr>knowledge_items := null_task_refs {i} (knowledge_items s)\<rparr>),
      dt_row = exec alone fault ''delete row'' (delete_tasks (task_row scope i)),
      dt_audit = (\<lambda>d by. exec alone fault ''write deletion audit log'' (add_log (task_deleted_row scope (sq_ts now) d by i))),
      dt_commit = commit alone fault\<rparr>"

definition DeleteTask :: "(string \<Rightarrow> bool) \<Rightarrow> uuid option \<Rightarrow> instant \<Rightarrow> uuid \<Rightarrow> uuid \<Rightarrow> ustr \<Rightarrow> gtd_db
    \<Rightarrow> (gtd_error + unit) \<times> gtd_db" where
  "DeleteTask fault scope now deletionID i actor s =
     transact (DeleteTaskOrchestration deletionID actor now (sqliteDeleteTaskAdapter fault scope now i)) s"

text \<open>
  Postgres locks the task's row in the pre-check and then, table by table, the reference rows the
  cleanups will update; the locks change no row, but each is a statement of its own.
\<close>

definition PGDeleteLockTables :: "(string \<times> string) list" where
  "PGDeleteLockTables = [(''work_sessions'', ''current_task_id''), (''vision_items'', ''promoted_task_id''),
     (''decisions'', ''task_id''), (''knowledge_items'', ''task_id'')]"

definition prelockRefRows :: "others \<Rightarrow> (string \<Rightarrow> bool) \<Rightarrow> unit step" where
  "prelockRefRows env fault =
     run_steps (map (\<lambda>(table, column). exec env fault (''prelock '' @ table @ '' rows'') (\<lambda>s. s)) PGDeleteLockTables)"

definition pgDeleteTaskAdapter :: "others \<Rightarrow> (string \<Rightarrow> bool) \<Rightarrow> uuid option \<Rightarrow> instant \<Rightarrow> uuid
    \<Rightarrow> delete_task_adapter" where
  "pgDeleteTaskAdapter env fault scope now i =
     \<lparr>dt_begin = exec env fault ''begin tx'' (\<lambda>s. s),
      dt_precheck = and_then (query env fault ''workspace pre-check'' (\<lambda>s. (list_ex (task_row scope i) (tasks s), s)))
        (\<lambda>exists. if \<not> exists then give False else and_then (prelockRefRows env fault) (\<lambda>_. give True)),
      dt_snapshot = (\<lambda>d at by. run_steps
        [exec env fault ''prune tombstones'' (prune_tombstones (pg_ts (at - DeletionTombstoneRetention))),
         exec env fault ''snapshot task'' (snapshot_tasks (task_row scope i) d (pg_ts at) by)]),
      dt_session_tasks = exec env fault ''cleanup work_session_tasks'' (drop_session_tasks {i}),
      dt_current_task = exec env fault ''nullify work_sessions.current_task_id'' (null_current_task (pg_ts now) {i}),
      dt_candidates = exec env fault ''cleanup completion_candidates'' (drop_candidates {i}),
      dt_vision_items = exec env fault ''reset vision_items.promoted_task_id'' (reset_vision_items {i}),
      dt_decisions = exec env fault ''nullify decisions.task_id''
        (\<lambda>s. s\<lparr>decisions := null_task_refs {i} (decisions s)\<rparr>),
      dt_knowledge = exec env fault ''nullify knowledge_items.task_id''
        (\<lambda>s. s\<lparr>knowledge_items := null_task_refs {i} (knowledge_items s)\<rparr>),
      dt_row = exec env fault ''delete row'' (delete_tasks (task_row scope i)),
      dt_audit = (\<lambda>d by. exec env fault ''write deletion audit log'' (add_log (task_deleted_row scope (pg_ts now) d by i))),
      dt_commit = commit env fault\<rparr>"

definition DeleteTask_pg :: "others \<Rightarrow> (string \<Rightarrow> bool) \<Rightarrow> uuid option \<Rightarrow> instant \<Rightarrow> uuid \<Rightarrow> uuid \<Rightarrow> ustr \<Rightarrow> gtd_db
    \<Rightarrow> (gtd_error + unit) \<times> gtd_db" where
  "DeleteTask_pg env fault scope now deletionID i actor s =
     transact (DeleteTaskOrchestration deletionID actor now (pgDeleteTaskAdapter env fault scope now i)) s"

section \<open>Deleting a project\<close>

record delete_project_adapter =
  dp_begin :: "unit step"
  dp_precheck :: "bool step"
  dp_lock :: "uuid list step"
  dp_snapshot :: "uuid \<Rightarrow> instant \<Rightarrow> ustr \<Rightarrow> unit step"
  dp_cleanups :: "unit step list"    \<comment> \<open>the thirteen reference cleanups of \<open>steps\<close>, in order\<close>
  dp_task_rows :: "uuid list step"
  dp_row :: "unit step"
  dp_audit :: "uuid \<Rightarrow> ustr \<Rightarrow> nat \<Rightarrow> unit step"
  dp_commit :: "unit step"

definition DeleteProjectOrchestration :: "uuid \<Rightarrow> ustr \<Rightarrow> instant \<Rightarrow> ustr \<Rightarrow> delete_project_adapter \<Rightarrow> nat step" where
  "DeleteProjectOrchestration deletionID deletedBy deletedAt expectedTaskSet ad =
     and_then (dp_begin ad) (\<lambda>_.
     and_then (dp_precheck ad) (\<lambda>exists.
       if \<not> exists then give 0
       else and_then (dp_lock ad) (\<lambda>lockedIds.
         if expectedTaskSet \<noteq> [] \<and> TaskSetDigest lockedIds \<noteq> expectedTaskSet then refuse GProjectTasksChanged
         else and_then (dp_snapshot ad deletionID deletedAt deletedBy) (\<lambda>_.
           and_then (run_steps (dp_cleanups ad)) (\<lambda>_.
           and_then (dp_task_rows ad) (\<lambda>ids.
             if TaskSetDigest ids \<noteq> TaskSetDigest lockedIds then refuse GProjectTasksChanged
             else and_then (run_steps
                    [dp_row ad, dp_audit ad deletionID deletedBy (length lockedIds), dp_commit ad])
                  (\<lambda>_. give (length lockedIds))))))))"

definition project_task :: "uuid option \<Rightarrow> uuid \<Rightarrow> task \<Rightarrow> bool" where
  "project_task scope i t \<longleftrightarrow> t_project t = Some i \<and> in_scope scope (t_workspace t)"

definition project_task_ids :: "uuid option \<Rightarrow> uuid \<Rightarrow> gtd_db \<Rightarrow> uuid list" where
  "project_task_ids scope i s = map t_id (filter (project_task scope i) (tasks s))"

text \<open>The seven cleanups that follow the project's own identifier, the same on both backends.\<close>

definition project_ref_cleanups :: "others \<Rightarrow> (string \<Rightarrow> bool) \<Rightarrow> uuid \<Rightarrow> unit step list" where
  "project_ref_cleanups env fault i =
     [exec env fault ''nullify activity_log.project_id''
        (\<lambda>s. s\<lparr>activity_log := update_rows (\<lambda>r. a_project r = Some i) (\<lambda>r. r\<lparr>a_project := None\<rparr>) (activity_log s)\<rparr>),
      exec env fault ''nullify decisions.project_id'' (\<lambda>s. s\<lparr>decisions := null_project_refs i (decisions s)\<rparr>),
      exec env fault ''nullify knowledge_items.project_id''
        (\<lambda>s. s\<lparr>knowledge_items := null_project_refs i (knowledge_items s)\<rparr>),
      exec env fault ''nullify session_handoffs.project_id'' (\<lambda>s. s\<lparr>handoffs := unlink_project i (handoffs s)\<rparr>),
      exec env fault ''nullify work_sessions.project_id''
        (\<lambda>s. s\<lparr>work_sessions := update_rows (\<lambda>r. wk_project r = Some i) (\<lambda>r. r\<lparr>wk_project := None\<rparr>) (work_sessions s)\<rparr>),
      exec env fault ''nullify vision_items.project_id''
        (\<lambda>s. s\<lparr>vision_items := update_rows (\<lambda>r. vi_project r = Some i) (\<lambda>r. r\<lparr>vi_project := None\<rparr>) (vision_items s)\<rparr>),
      exec env fault ''nullify procedural_memories.project_id''
        (\<lambda>s. s\<lparr>procedural := unlink_project i (procedural s)\<rparr>)]"

text \<open>SQLite selects the project's tasks again in every cleanup (\<open>sqliteProjectTaskIDs\<close>).\<close>

definition sqliteDeleteProjectAdapter :: "(string \<Rightarrow> bool) \<Rightarrow> uuid option \<Rightarrow> instant \<Rightarrow> uuid \<Rightarrow> delete_project_adapter" where
  "sqliteDeleteProjectAdapter fault scope now i =
     (let ids = (\<lambda>s. set (project_task_ids scope i s))
      in \<lparr>dp_begin = exec alone fault ''begin tx'' (\<lambda>s. s),
      dp_precheck = query alone fault ''workspace precheck'' (\<lambda>s. (list_ex (project_row scope i) (projects s), s)),
      dp_lock = query alone fault ''lock task rows'' (\<lambda>s. (project_task_ids scope i s, s)),
      dp_snapshot = (\<lambda>d at by. run_steps
        [exec alone fault ''prune tombstones'' (prune_tombstones (sq_ts (at - DeletionTombstoneRetention))),
         exec alone fault ''snapshot project'' (snapshot_project (project_row scope i) d (sq_ts at) by),
         exec alone fault ''snapshot tasks'' (snapshot_tasks (project_task scope i) d (sq_ts at) by)]),
      dp_cleanups =
        [exec alone fault ''cleanup work_session_tasks'' (\<lambda>s. drop_session_tasks (ids s) s),
         exec alone fault ''nullify work_sessions.current_task_id'' (\<lambda>s. null_current_task (sq_ts now) (ids s) s),
         exec alone fault ''cleanup completion_candidates'' (\<lambda>s. drop_candidates (ids s) s),
         exec alone fault ''reset vision_items.promoted_task_id'' (\<lambda>s. reset_vision_items (ids s) s),
         exec alone fault ''nullify decisions.task_id'' (\<lambda>s. s\<lparr>decisions := null_task_refs (ids s) (decisions s)\<rparr>),
         exec alone fault ''nullify knowledge_items.task_id''
           (\<lambda>s. s\<lparr>knowledge_items := null_task_refs (ids s) (knowledge_items s)\<rparr>)] @
        project_ref_cleanups alone fault i,
      dp_task_rows = query alone fault ''delete task rows''
        (\<lambda>s. (project_task_ids scope i s, delete_tasks (project_task scope i) s)),
      dp_row = exec alone fault ''delete project row'' (delete_projects (project_row scope i)),
      dp_audit = (\<lambda>d by n. exec alone fault ''write deletion audit log''
        (add_log (project_deleted_row scope (sq_ts now) d by i n))),
      dp_commit = commit alone fault\<rparr>)"

definition DeleteProjectExpecting :: "(string \<Rightarrow> bool) \<Rightarrow> uuid option \<Rightarrow> instant \<Rightarrow> uuid \<Rightarrow> uuid \<Rightarrow> ustr \<Rightarrow> ustr
    \<Rightarrow> gtd_db \<Rightarrow> (gtd_error + nat) \<times> gtd_db" where
  "DeleteProjectExpecting fault scope now deletionID i actor expectedTaskSet s =
     transact (DeleteProjectOrchestration deletionID actor now expectedTaskSet
       (sqliteDeleteProjectAdapter fault scope now i)) s"

definition DeleteProject :: "(string \<Rightarrow> bool) \<Rightarrow> uuid option \<Rightarrow> instant \<Rightarrow> uuid \<Rightarrow> uuid \<Rightarrow> ustr
    \<Rightarrow> gtd_db \<Rightarrow> (gtd_error + nat) \<times> gtd_db" where
  "DeleteProject fault scope now deletionID i actor s = DeleteProjectExpecting fault scope now deletionID i actor [] s"

text \<open>Postgres locks the tasks in id order and uses that set in every later step.\<close>

definition lock_tasks :: "uuid option \<Rightarrow> uuid \<Rightarrow> others \<Rightarrow> (string \<Rightarrow> bool) \<Rightarrow> uuid list step" where
  "lock_tasks scope i env fault =
     and_then (query env fault ''lock task rows'' (\<lambda>s. (sort (project_task_ids scope i s), s))) (\<lambda>ids.
     and_then (\<lambda>t. (Inr (), t\<lparr>tx_locked := ids\<rparr>)) (\<lambda>_.
     and_then (prelockRefRows env fault) (\<lambda>_. give ids)))"

definition exec_locked :: "others \<Rightarrow> (string \<Rightarrow> bool) \<Rightarrow> string \<Rightarrow> (uuid set \<Rightarrow> gtd_db \<Rightarrow> gtd_db) \<Rightarrow> unit step" where
  "exec_locked env fault name f t = exec env fault name (f (set (tx_locked t))) t"

definition pgDeleteProjectAdapter :: "others \<Rightarrow> (string \<Rightarrow> bool) \<Rightarrow> uuid option \<Rightarrow> instant \<Rightarrow> uuid
    \<Rightarrow> delete_project_adapter" where
  "pgDeleteProjectAdapter env fault scope now i =
     \<lparr>dp_begin = exec env fault ''begin tx'' (\<lambda>s. s),
      dp_precheck = query env fault ''workspace precheck'' (\<lambda>s. (list_ex (project_row scope i) (projects s), s)),
      dp_lock = lock_tasks scope i env fault,
      dp_snapshot = (\<lambda>d at by. run_steps
        [exec env fault ''prune tombstones'' (prune_tombstones (pg_ts (at - DeletionTombstoneRetention))),
         exec env fault ''snapshot project'' (snapshot_project (project_row scope i) d (pg_ts at) by),
         exec_locked env fault ''snapshot tasks''
           (\<lambda>ids. snapshot_tasks (\<lambda>t. t_id t \<in> ids \<and> in_scope scope (t_workspace t)) d (pg_ts at) by)]),
      dp_cleanups =
        [exec_locked env fault ''cleanup work_session_tasks'' drop_session_tasks,
         exec_locked env fault ''nullify work_sessions.current_task_id'' (null_current_task (pg_ts now)),
         exec_locked env fault ''cleanup completion_candidates'' drop_candidates,
         exec_locked env fault ''reset vision_items.promoted_task_id'' reset_vision_items,
         exec_locked env fault ''nullify decisions.task_id''
           (\<lambda>ids s. s\<lparr>decisions := null_task_refs ids (decisions s)\<rparr>),
         exec_locked env fault ''nullify knowledge_items.task_id''
           (\<lambda>ids s. s\<lparr>knowledge_items := null_task_refs ids (knowledge_items s)\<rparr>)] @
        project_ref_cleanups env fault i,
      dp_task_rows = query env fault ''delete task rows''
        (\<lambda>s. (project_task_ids scope i s, delete_tasks (project_task scope i) s)),
      dp_row = exec env fault ''delete project row'' (delete_projects (project_row scope i)),
      dp_audit = (\<lambda>d by n. exec env fault ''write deletion audit log''
        (add_log (project_deleted_row scope (pg_ts now) d by i n))),
      dp_commit = commit env fault\<rparr>"

definition DeleteProjectExpecting_pg :: "others \<Rightarrow> (string \<Rightarrow> bool) \<Rightarrow> uuid option \<Rightarrow> instant \<Rightarrow> uuid \<Rightarrow> uuid \<Rightarrow> ustr
    \<Rightarrow> ustr \<Rightarrow> gtd_db \<Rightarrow> (gtd_error + nat) \<times> gtd_db" where
  "DeleteProjectExpecting_pg env fault scope now deletionID i actor expectedTaskSet s =
     transact (DeleteProjectOrchestration deletionID actor now expectedTaskSet
       (pgDeleteProjectAdapter env fault scope now i)) s"

section \<open>Restoring a project\<close>

text \<open>
  The newest project tombstone of the identifier inside the retention window names the group;
  everything after that goes by the group's \<open>deletion_id\<close>.
\<close>

definition restorable :: "uuid option \<Rightarrow> uuid \<Rightarrow> instant \<Rightarrow> tombstone \<Rightarrow> bool" where
  "restorable scope i cutoff b \<longleftrightarrow> is_project_tomb b \<and> tb_project b = Some i \<and> in_scope scope (tb_workspace b) \<and>
     cutoff \<le> tb_deleted_at b"

definition find_group :: "uuid option \<Rightarrow> uuid \<Rightarrow> instant \<Rightarrow> gtd_db \<Rightarrow> tombstone option" where
  "find_group scope i cutoff s =
     pick_best (\<lambda>a b. tb_deleted_at b \<le> tb_deleted_at a) (filter (restorable scope i cutoff) (tombstones s))"

fun payload_projects :: "tombstone list \<Rightarrow> project list" where
  "payload_projects [] = []"
| "payload_projects (b # bs) = (case tb_payload b of PayProject p \<Rightarrow> p # payload_projects bs | PayTask _ \<Rightarrow> payload_projects bs)"

fun payload_tasks :: "tombstone list \<Rightarrow> task list" where
  "payload_tasks [] = []"
| "payload_tasks (b # bs) = (case tb_payload b of PayTask t \<Rightarrow> t # payload_tasks bs | PayProject _ \<Rightarrow> payload_tasks bs)"

definition group_of :: "uuid \<Rightarrow> gtd_db \<Rightarrow> tombstone list" where
  "group_of d s = filter (\<lambda>b. tb_deletion b = d) (tombstones s)"

definition payload_name :: "tombstone \<Rightarrow> ustr" where
  "payload_name b = (case tb_payload b of PayProject p \<Rightarrow> pj_name p | PayTask t \<Rightarrow> [])"

definition valid_repo :: "ustr option \<Rightarrow> ustr option" where
  "valid_repo r = (case r of None \<Rightarrow> None | Some x \<Rightarrow> if IsValidRepoName x then Some x else None)"

text \<open>\<open>clearInvalidRestoredRepoName\<close>.\<close>

definition clearInvalidRestoredRepoName :: "uuid \<Rightarrow> gtd_db \<Rightarrow> gtd_db" where
  "clearInvalidRestoredRepoName i s =
     s\<lparr>projects := update_rows (\<lambda>p. pj_id p = i) (\<lambda>p. p\<lparr>pj_repo := valid_repo (pj_repo p)\<rparr>) (projects s)\<rparr>"

text \<open>An \<open>INSERT\<close> of rows whose keys must stay unique: a violation is a conflict.\<close>

definition insert_projects :: "project list \<Rightarrow> gtd_db \<Rightarrow> bool \<times> gtd_db" where
  "insert_projects ps s =
     (let rows = projects s @ ps
      in if distinct (map pj_id rows) \<and> distinct (map pj_name rows) then (True, s\<lparr>projects := rows\<rparr>) else (False, s))"

definition insert_tasks :: "task list \<Rightarrow> gtd_db \<Rightarrow> bool \<times> gtd_db" where
  "insert_tasks ts s =
     (let rows = tasks s @ ts in if distinct (map t_id rows) then (True, s\<lparr>tasks := rows\<rparr>) else (False, s))"

definition or_conflict :: "bool step \<Rightarrow> unit step" where
  "or_conflict m = and_then m (\<lambda>ok. if ok then give () else refuse GConflict)"

text \<open>Postgres also locks the group it found (\<open>findAndLockRestorableGroup\<close>): \<open>lock_group\<close>.\<close>

definition restore_steps :: "others \<Rightarrow> (string \<Rightarrow> bool) \<Rightarrow> unit step \<Rightarrow> (instant \<Rightarrow> instant) \<Rightarrow> uuid option \<Rightarrow> instant \<Rightarrow> uuid \<Rightarrow> ustr
    \<Rightarrow> (project \<times> nat) step" where
  "restore_steps env fault lock_group ts scope now i actor =
     and_then (query env fault ''find group'' (\<lambda>s. (find_group scope i (ts (now - DeletionTombstoneRetention)) s, s)))
       (\<lambda>found. case found of
          None \<Rightarrow> refuse GNotFound
        | Some b \<Rightarrow>
            and_then lock_group (\<lambda>_. and_then (query env fault ''conflict check''
              (\<lambda>s. (list_ex (\<lambda>p. pj_id p = i \<or> pj_name p = payload_name b) (projects s), s))) (\<lambda>conflict.
            if conflict then refuse GConflict
            else
              and_then (or_conflict (query env fault ''insert project''
                (\<lambda>s. insert_projects (payload_projects (group_of (tb_deletion b) s)) s))) (\<lambda>_.
              and_then (exec env fault ''clear repo_name'' (clearInvalidRestoredRepoName i)) (\<lambda>_.
              and_then (query env fault ''insert tasks''
                (\<lambda>s. case insert_tasks (payload_tasks (group_of (tb_deletion b) s)) s of
                       (ok, s') \<Rightarrow> ((ok, length (payload_tasks (group_of (tb_deletion b) s))), s'))) (\<lambda>(ok, n).
              if \<not> ok then refuse GConflict
              else
                and_then (exec env fault ''consume tombstones''
                  (\<lambda>s. s\<lparr>tombstones := filter (\<lambda>x. tb_deletion x \<noteq> tb_deletion b) (tombstones s)\<rparr>)) (\<lambda>_.
                and_then (exec env fault ''audit log'' (add_log (project_restored_row scope (ts now) (tb_deletion b) actor i n)))
                (\<lambda>_.
                and_then (query env fault ''read back'' (\<lambda>s. (first_row (\<lambda>p. pj_id p = i) (projects s), s))) (\<lambda>row.
                case row of
                  None \<Rightarrow> refuse (GDatabase ''read back'')
                | Some p \<Rightarrow> and_then (commit env fault) (\<lambda>_. give (p, n)))))))))))"

definition RestoreProject :: "(string \<Rightarrow> bool) \<Rightarrow> uuid option \<Rightarrow> instant \<Rightarrow> uuid \<Rightarrow> ustr \<Rightarrow> gtd_db
    \<Rightarrow> (gtd_error + project \<times> nat) \<times> gtd_db" where
  "RestoreProject fault scope now i actor s = transact (restore_steps alone fault (give ()) sq_ts scope now i actor) s"

definition RestoreProject_pg :: "others \<Rightarrow> (string \<Rightarrow> bool) \<Rightarrow> uuid option \<Rightarrow> instant \<Rightarrow> uuid \<Rightarrow> ustr \<Rightarrow> gtd_db
    \<Rightarrow> (gtd_error + project \<times> nat) \<times> gtd_db" where
  "RestoreProject_pg env fault scope now i actor s = 
     transact (restore_steps env fault (exec env fault ''lock group'' (\<lambda>s. s)) pg_ts scope now i actor) s"

end
