(* ===== verification/Gtd_Delete_Laws.thy ===== *)
theory Gtd_Delete_Laws
  imports Gtd_Deletion
begin

text \<open>
  What the deletion adapters promise and what the two orchestrations make of it.  \<open>does\<close> is the
  contract of one adapter method when no other transaction commits: it either fails because a
  statement failed, leaving the committed tables alone, or has exactly the stated effect on what
  the transaction sees.  \<open>ends\<close> is the contract of a whole transaction.  The locales
  \<open>task_deleter\<close> and \<open>project_deleter\<close> state the two adapter interfaces; both backends
  implement them.
\<close>

named_theorems effects \<open>contracts of the adapter methods\<close>

section \<open>Contracts\<close>

definition does :: "(string \<Rightarrow> bool) \<Rightarrow> (tx \<Rightarrow> bool) \<Rightarrow> 'a step \<Rightarrow> (gtd_db \<Rightarrow> 'a \<times> gtd_db) \<Rightarrow> ('a \<Rightarrow> tx \<Rightarrow> bool) \<Rightarrow> bool" where
  "does fault I m f J \<longleftrightarrow> (\<forall>t. I t \<longrightarrow>
     (\<exists>e t'. m t = (Inl e, t') \<and> tx_outside t' = tx_outside t \<and> (\<exists>n. fault n)) \<or>
     (\<exists>a t'. m t = (Inr a, t') \<and> tx_outside t' = tx_outside t \<and> f (tx_seen t) = (a, tx_seen t') \<and> J a t'))"

definition ends :: "(string \<Rightarrow> bool) \<Rightarrow> (tx \<Rightarrow> bool) \<Rightarrow> 'a step \<Rightarrow>
    (gtd_db \<Rightarrow> gtd_db \<Rightarrow> (gtd_error + 'a) \<times> gtd_db) \<Rightarrow> bool" where
  "ends fault I m g \<longleftrightarrow> (\<forall>t. I t \<longrightarrow>
     (\<exists>e t'. m t = (Inl e, t') \<and> tx_outside t' = tx_outside t \<and> (\<exists>n. fault n)) \<or>
     (fst (m t), tx_outside (snd (m t))) = g (tx_seen t) (tx_outside t))"

abbreviation always :: "tx \<Rightarrow> bool" where
  "always \<equiv> \<lambda>t. True"

lemma tick_alone [simp]: "tick alone name t = t"
  by (simp add: tick_def alone_def)

lemma does_query [effects]: "does fault I (query alone fault name f) f (\<lambda>_ _. True)"
  by (auto simp: does_def query_def split: prod.split)

lemma does_exec [effects]: "does fault I (exec alone fault name f) (\<lambda>s. ((), f s)) (\<lambda>_ _. True)"
  by (simp add: exec_def does_query)

lemma does_post:
  assumes "does fault I m f J" and "\<And>t t' a. I t \<Longrightarrow> m t = (Inr a, t') \<Longrightarrow> f (tx_seen t) = (a, tx_seen t') \<Longrightarrow> K a t'"
  shows "does fault I m f K"
  using assms unfolding does_def by blast

lemma does_pre: "does fault I m f J \<Longrightarrow> (\<And>t. H t \<Longrightarrow> I t) \<Longrightarrow> does fault H m f J"
  unfolding does_def by blast

lemma does_give [effects]: "does fault I (give a) (\<lambda>s. (a, s)) (\<lambda>_. I)"
  by (auto simp: does_def give_def)

lemma does_and_then:
  assumes "does fault I m f J" and "\<And>a. does fault (J a) (k a) (g a) K"
  shows "does fault I (and_then m k) (\<lambda>s. case f s of (a, s') \<Rightarrow> g a s') K"
  unfolding does_def
proof (intro allI impI)
  fix t
  assume "I t"
  with assms(1) consider
      (failed) e t' where "m t = (Inl e, t')" "tx_outside t' = tx_outside t" "\<exists>n. fault n"
    | (worked) a t' where "m t = (Inr a, t')" "tx_outside t' = tx_outside t" "f (tx_seen t) = (a, tx_seen t')" "J a t'"
    unfolding does_def by blast
  then show "(\<exists>e t'. and_then m k t = (Inl e, t') \<and> tx_outside t' = tx_outside t \<and> (\<exists>n. fault n)) \<or>
      (\<exists>a t'. and_then m k t = (Inr a, t') \<and> tx_outside t' = tx_outside t \<and>
        (case f (tx_seen t) of (a, s') \<Rightarrow> g a s') = (a, tx_seen t') \<and> K a t')"
  proof cases
    case failed
    then show ?thesis by (simp add: and_then_def)
  next
    case worked
    from assms(2) [of a, unfolded does_def, rule_format, OF worked(4)] worked show ?thesis
      by (auto simp: and_then_def)
  qed
qed

lemma does_run_Nil: "does fault I (run_steps []) (\<lambda>s. ((), s)) (\<lambda>_. I)"
  by (simp add: does_give)

lemma does_run_Cons:
  assumes "does fault I m (\<lambda>s. ((), f s)) (\<lambda>_. J)" and "does fault J (run_steps ms) (\<lambda>s. ((), g s)) K"
  shows "does fault I (run_steps (m # ms)) (\<lambda>s. ((), g (f s))) K"
  using does_and_then [OF assms(1), of "\<lambda>_. run_steps ms" "\<lambda>_ s. ((), g s)" K] assms(2) by simp

lemma ends_and_then:
  assumes "does fault I m f J" and "\<And>a. ends fault (J a) (k a) (g a)"
  shows "ends fault I (and_then m k) (\<lambda>s out. case f s of (a, s') \<Rightarrow> g a s' out)"
  unfolding ends_def
proof (intro allI impI)
  fix t
  assume "I t"
  with assms(1) consider
      (failed) e t' where "m t = (Inl e, t')" "tx_outside t' = tx_outside t" "\<exists>n. fault n"
    | (worked) a t' where "m t = (Inr a, t')" "tx_outside t' = tx_outside t" "f (tx_seen t) = (a, tx_seen t')" "J a t'"
    unfolding does_def by blast
  then show "(\<exists>e t'. and_then m k t = (Inl e, t') \<and> tx_outside t' = tx_outside t \<and> (\<exists>n. fault n)) \<or>
      (fst (and_then m k t), tx_outside (snd (and_then m k t))) =
        (case f (tx_seen t) of (a, s') \<Rightarrow> g a s' (tx_outside t))"
  proof cases
    case failed
    then show ?thesis by (simp add: and_then_def)
  next
    case worked
    from assms(2) [of a, unfolded ends_def, rule_format, OF worked(4)] worked show ?thesis
      by (auto simp: and_then_def)
  qed
qed

lemma ends_give: "ends fault I (give a) (\<lambda>s out. (Inr a, out))"
  by (simp add: ends_def give_def)

lemma ends_refuse: "ends fault I (refuse e) (\<lambda>s out. (Inl e, out))"
  by (simp add: ends_def refuse_def)

lemma ends_commit: "ends fault I (commit alone fault) (\<lambda>s out. (Inr (), s))"
  by (auto simp: ends_def commit_def)

lemma ends_then_give:
  "ends fault I m (\<lambda>s out. (Inr a, h s)) \<Longrightarrow> ends fault I (and_then m (\<lambda>_. give b)) (\<lambda>s out. (Inr b, h s))"
  unfolding ends_def and_then_def give_def by (auto split: prod.splits sum.splits)

lemma ends_if: "(b \<Longrightarrow> ends fault I m f) \<Longrightarrow> (\<not> b \<Longrightarrow> ends fault I k g) \<Longrightarrow>
    ends fault I (if b then m else k) (\<lambda>s out. if b then f s out else g s out)"
  by simp

lemma ends_run_Cons:
  assumes "does fault I m (\<lambda>s. ((), f s)) (\<lambda>_. J)" and "ends fault J (run_steps ms) (\<lambda>s out. (Inr (), h s))"
  shows "ends fault I (run_steps (m # ms)) (\<lambda>s out. (Inr (), h (f s)))"
  using ends_and_then [OF assms(1), of "\<lambda>_. run_steps ms" "\<lambda>_ s out. (Inr (), h s)"] assms(2) by simp

lemma ends_run_last: "ends fault I m (\<lambda>s out. (Inr (), h s)) \<Longrightarrow> ends fault I (run_steps [m]) (\<lambda>s out. (Inr (), h s))"
  using ends_then_give [of fault I m "()" h "()"] by simp

lemma transact_ends:
  assumes "ends fault I m g" and "I \<lparr>tx_seen = s, tx_outside = s, tx_locked = []\<rparr>"
  shows "transact m s = g s s \<or> (\<exists>e n. transact m s = (Inl e, s) \<and> fault n)"
  using assms by (fastforce simp: ends_def transact_def split: prod.splits)

section \<open>Deleting a task\<close>

text \<open>The whole effect on the tables, as one record.\<close>

definition task_deleted :: "(instant \<Rightarrow> instant) \<Rightarrow> uuid option \<Rightarrow> instant \<Rightarrow> uuid \<Rightarrow> uuid \<Rightarrow> ustr \<Rightarrow> gtd_db \<Rightarrow> gtd_db" where
  "task_deleted ts scope now d i by s =
     s\<lparr>tasks := filter (\<lambda>t. \<not> task_row scope i t) (tasks s),
       activity_log := activity_log s @ [task_deleted_row scope (ts now) d by i],
       work_sessions := update_rows (\<lambda>r. wk_current_task r = Some i)
         (\<lambda>r. r\<lparr>wk_current_task := None, wk_updated := ts now\<rparr>) (work_sessions s),
       session_tasks := filter (\<lambda>r. st_task r \<noteq> i) (session_tasks s),
       candidates := filter (\<lambda>r. cc_task r \<noteq> i) (candidates s),
       vision_items := update_rows (\<lambda>r. vi_promoted r = Some i)
         (\<lambda>r. r\<lparr>vi_promoted := None, vi_status := VisionOpen\<rparr>) (vision_items s),
       decisions := null_task_refs {i} (decisions s),
       knowledge_items := null_task_refs {i} (knowledge_items s),
       tombstones := filter (\<lambda>b. ts (now - DeletionTombstoneRetention) \<le> tb_deleted_at b) (tombstones s) @
         map (task_tombstone d (ts now) by) (filter (task_row scope i) (tasks s))\<rparr>"

lemma names_single [simp]: "names {i} x \<longleftrightarrow> x = Some i"
  by (simp add: names_def split: option.split)

locale task_deleter =
  fixes fault :: "string \<Rightarrow> bool" and ts :: "instant \<Rightarrow> instant" and scope :: "uuid option"
    and now :: instant and i :: uuid and ad :: delete_task_adapter
  assumes begin_tx: "does fault always (dt_begin ad) (\<lambda>s. ((), s)) (\<lambda>_. always)"
    and precheck: "does fault always (dt_precheck ad) (\<lambda>s. (list_ex (task_row scope i) (tasks s), s)) (\<lambda>_. always)"
    and snapshot: "does fault always (dt_snapshot ad d at by)
      (\<lambda>s. ((), snapshot_tasks (task_row scope i) d (ts at) by (prune_tombstones (ts (at - DeletionTombstoneRetention)) s)))
      (\<lambda>_. always)"
    and session_links: "does fault always (dt_session_tasks ad) (\<lambda>s. ((), drop_session_tasks {i} s)) (\<lambda>_. always)"
    and current_task: "does fault always (dt_current_task ad) (\<lambda>s. ((), null_current_task (ts now) {i} s)) (\<lambda>_. always)"
    and candidate_rows: "does fault always (dt_candidates ad) (\<lambda>s. ((), drop_candidates {i} s)) (\<lambda>_. always)"
    and vision: "does fault always (dt_vision_items ad) (\<lambda>s. ((), reset_vision_items {i} s)) (\<lambda>_. always)"
    and decision_refs: "does fault always (dt_decisions ad)
      (\<lambda>s. ((), s\<lparr>decisions := null_task_refs {i} (decisions s)\<rparr>)) (\<lambda>_. always)"
    and knowledge_refs: "does fault always (dt_knowledge ad)
      (\<lambda>s. ((), s\<lparr>knowledge_items := null_task_refs {i} (knowledge_items s)\<rparr>)) (\<lambda>_. always)"
    and row: "does fault always (dt_row ad) (\<lambda>s. ((), delete_tasks (task_row scope i) s)) (\<lambda>_. always)"
    and audit: "does fault always (dt_audit ad d by) (\<lambda>s. ((), add_log (task_deleted_row scope (ts now) d by i) s)) (\<lambda>_. always)"
    and commits: "ends fault always (dt_commit ad) (\<lambda>s out. (Inr (), s))"
begin

lemma steps_effect:
  "ends fault always (run_steps
     [dt_snapshot ad d now by, dt_session_tasks ad, dt_current_task ad, dt_candidates ad, dt_vision_items ad,
      dt_decisions ad, dt_knowledge ad, dt_row ad, dt_audit ad d by, dt_commit ad])
    (\<lambda>s out. (Inr (), task_deleted ts scope now d i by s))"
proof -
  let ?h = "\<lambda>s. add_log (task_deleted_row scope (ts now) d by i) (delete_tasks (task_row scope i)
       ((\<lambda>s. s\<lparr>knowledge_items := null_task_refs {i} (knowledge_items s)\<rparr>)
        ((\<lambda>s. s\<lparr>decisions := null_task_refs {i} (decisions s)\<rparr>)
         (reset_vision_items {i} (drop_candidates {i} (null_current_task (ts now) {i} (drop_session_tasks {i}
          (snapshot_tasks (task_row scope i) d (ts now) by
            (prune_tombstones (ts (now - DeletionTombstoneRetention)) s)))))))))"
  have "?h s = task_deleted ts scope now d i by s" for s
    by (rule gtd_db.equality) (simp_all add: task_deleted_def add_log_def delete_tasks_def reset_vision_items_def
        drop_candidates_def null_current_task_def drop_session_tasks_def snapshot_tasks_def prune_tombstones_def not_less)
  moreover have "ends fault always (run_steps
     [dt_snapshot ad d now by, dt_session_tasks ad, dt_current_task ad, dt_candidates ad, dt_vision_items ad,
      dt_decisions ad, dt_knowledge ad, dt_row ad, dt_audit ad d by, dt_commit ad]) (\<lambda>s out. (Inr (), ?h s))"
    by (rule ends_run_Cons [OF snapshot] ends_run_Cons [OF session_links] ends_run_Cons [OF current_task]
      ends_run_Cons [OF candidate_rows] ends_run_Cons [OF vision] ends_run_Cons [OF decision_refs]
      ends_run_Cons [OF knowledge_refs] ends_run_Cons [OF row] ends_run_Cons [OF audit] ends_run_last [OF commits])+
  ultimately show ?thesis by simp
qed

lemma delete_task_ends:
  "ends fault always (DeleteTaskOrchestration d by now ad)
     (\<lambda>s out. (Inr (), if list_ex (task_row scope i) (tasks s) then task_deleted ts scope now d i by s else out))"
proof -
  have "ends fault always (DeleteTaskOrchestration d by now ad) (\<lambda>s out. case ((), s) of (_, s') \<Rightarrow>
      case (list_ex (task_row scope i) (tasks s'), s') of (found, s'') \<Rightarrow>
        if \<not> found then (Inr (), out) else (Inr (), task_deleted ts scope now d i by s''))"
    unfolding DeleteTaskOrchestration_def
    by (rule ends_and_then [OF begin_tx] ends_and_then [OF precheck] ends_if ends_give steps_effect)+
  then show ?thesis by (rule back_subst [of "ends fault always _"]) (auto intro!: ext)
qed

lemma all_or_nothing:
  "transact (DeleteTaskOrchestration d by now ad) s =
     (Inr (), if list_ex (task_row scope i) (tasks s) then task_deleted ts scope now d i by s else s) \<or>
   (\<exists>e n. transact (DeleteTaskOrchestration d by now ad) s = (Inl e, s) \<and> fault n)"
  using transact_ends [OF delete_task_ends] by simp

end

text \<open>Both adapters implement it.\<close>

lemma does_prelock: "does fault always (prelockRefRows alone fault) (\<lambda>s. ((), s)) (\<lambda>_. always)"
proof -
  have "does fault always (run_steps (map (\<lambda>(table, column). exec alone fault (h table) (\<lambda>s. s)) ls)) (\<lambda>s. ((), s)) (\<lambda>_. always)"
    for h ls
  proof (induction ls)
    case Nil
    then show ?case by (simp add: does_give)
  next
    case (Cons l ls)
    then show ?case by (cases l) (simp only: list.map prod.case, rule does_run_Cons [OF does_exec], simp)
  qed
  then show ?thesis by (simp add: prelockRefRows_def)
qed

lemma does_snapshot:
  "does fault always (run_steps [exec alone fault a f, exec alone fault b g]) (\<lambda>s. ((), g (f s))) (\<lambda>_. always)"
  by (rule does_run_Cons [OF does_exec] does_run_Nil)+

interpretation sqd: task_deleter fault sq_ts scope now i "sqliteDeleteTaskAdapter fault scope now i"
  for fault scope now i
  by unfold_locales (simp_all add: sqliteDeleteTaskAdapter_def effects ends_commit does_snapshot del: run_steps.simps)

lemma does_precheck_pg:
  "does fault always (dt_precheck (pgDeleteTaskAdapter alone fault scope now i))
     (\<lambda>s. (list_ex (task_row scope i) (tasks s), s)) (\<lambda>_. always)"
proof -
  have "does fault always (and_then (prelockRefRows alone fault) (\<lambda>_. give True)) (\<lambda>s. case ((), s) of (_, s') \<Rightarrow> (True, s'))
      (\<lambda>_. always)"
    by (rule does_and_then [OF does_prelock does_give])
  then have k: "does fault always (if \<not> b then give False else and_then (prelockRefRows alone fault) (\<lambda>_. give True))
      (\<lambda>s. (b, s)) (\<lambda>_. always)" for b
    by (simp add: does_give)
  have "does fault always (dt_precheck (pgDeleteTaskAdapter alone fault scope now i))
     (\<lambda>s. case (list_ex (task_row scope i) (tasks s), s) of (found, s') \<Rightarrow> (found, s')) (\<lambda>_. always)"
    unfolding pgDeleteTaskAdapter_def delete_task_adapter.simps by (rule does_and_then [OF does_query k])
  then show ?thesis by simp
qed

interpretation pgd: task_deleter fault pg_ts scope now i "pgDeleteTaskAdapter alone fault scope now i"
  for fault scope now i
  by unfold_locales (rule does_precheck_pg |
    simp add: pgDeleteTaskAdapter_def effects ends_commit does_snapshot del: run_steps.simps)+

section \<open>Deleting a project\<close>

definition task_refs_cleaned :: "instant \<Rightarrow> uuid set \<Rightarrow> gtd_db \<Rightarrow> gtd_db" where
  "task_refs_cleaned at ids s =
     s\<lparr>work_sessions := update_rows (\<lambda>r. names ids (wk_current_task r))
         (\<lambda>r. r\<lparr>wk_current_task := None, wk_updated := at\<rparr>) (work_sessions s),
       session_tasks := filter (\<lambda>r. st_task r \<notin> ids) (session_tasks s),
       candidates := filter (\<lambda>r. cc_task r \<notin> ids) (candidates s),
       vision_items := update_rows (\<lambda>r. names ids (vi_promoted r))
         (\<lambda>r. r\<lparr>vi_promoted := None, vi_status := VisionOpen\<rparr>) (vision_items s),
       decisions := null_task_refs ids (decisions s),
       knowledge_items := null_task_refs ids (knowledge_items s)\<rparr>"

definition project_refs_cleaned :: "uuid \<Rightarrow> gtd_db \<Rightarrow> gtd_db" where
  "project_refs_cleaned i s =
     s\<lparr>activity_log := update_rows (\<lambda>r. a_project r = Some i) (\<lambda>r. r\<lparr>a_project := None\<rparr>) (activity_log s),
       work_sessions := update_rows (\<lambda>r. wk_project r = Some i) (\<lambda>r. r\<lparr>wk_project := None\<rparr>) (work_sessions s),
       vision_items := update_rows (\<lambda>r. vi_project r = Some i) (\<lambda>r. r\<lparr>vi_project := None\<rparr>) (vision_items s),
       decisions := null_project_refs i (decisions s),
       knowledge_items := null_project_refs i (knowledge_items s),
       handoffs := unlink_project i (handoffs s),
       procedural := unlink_project i (procedural s)\<rparr>"

definition project_snapshot :: "(instant \<Rightarrow> instant) \<Rightarrow> uuid option \<Rightarrow> uuid \<Rightarrow> uuid set \<Rightarrow> uuid \<Rightarrow> instant \<Rightarrow> ustr \<Rightarrow> gtd_db \<Rightarrow> gtd_db" where
  "project_snapshot ts scope i ids d at by s =
     s\<lparr>tombstones := filter (\<lambda>b. ts (at - DeletionTombstoneRetention) \<le> tb_deleted_at b) (tombstones s) @
         map (project_tombstone d (ts at) by) (filter (project_row scope i) (projects s)) @
         map (task_tombstone d (ts at) by) (filter (\<lambda>t. t_id t \<in> ids \<and> in_scope scope (t_workspace t)) (tasks s))\<rparr>"

definition project_deleted :: "(instant \<Rightarrow> instant) \<Rightarrow> uuid option \<Rightarrow> instant \<Rightarrow> uuid \<Rightarrow> uuid \<Rightarrow> ustr \<Rightarrow> gtd_db \<Rightarrow> gtd_db" where
  "project_deleted ts scope now d i by s =
     (let ids = set (project_task_ids scope i s);
          c = project_refs_cleaned i (task_refs_cleaned (ts now) ids (project_snapshot ts scope i ids d now by s))
      in c\<lparr>tasks := filter (\<lambda>t. \<not> project_task scope i t) (tasks s),
           projects := filter (\<lambda>p. \<not> project_row scope i p) (projects s),
           activity_log := activity_log c @ [project_deleted_row scope (ts now) d by i (length (project_task_ids scope i s))]\<rparr>)"

definition unique_ids :: "tx \<Rightarrow> bool" where
  "unique_ids t \<longleftrightarrow> distinct (map t_id (tasks (tx_seen t)))"

text \<open>
  \<open>knows ids\<close>: the transaction still works on the task set it locked.  The two task lists of the
  contract agree as multisets, which is what the digest compares.
\<close>

locale project_deleter =
  fixes fault :: "string \<Rightarrow> bool" and ts :: "instant \<Rightarrow> instant" and scope :: "uuid option"
    and now :: instant and i :: uuid and ad :: delete_project_adapter
    and order :: "uuid list \<Rightarrow> uuid list" and knows :: "uuid list \<Rightarrow> tx \<Rightarrow> bool"
  assumes same_set: "mset (order ids) = mset ids"
    and begin_tx: "does fault unique_ids (dp_begin ad) (\<lambda>s. ((), s)) (\<lambda>_. unique_ids)"
    and precheck: "does fault unique_ids (dp_precheck ad) (\<lambda>s. (list_ex (project_row scope i) (projects s), s)) (\<lambda>_. unique_ids)"
    and lock: "does fault unique_ids (dp_lock ad) (\<lambda>s. (order (project_task_ids scope i s), s)) knows"
    and snapshot: "does fault (knows ids) (dp_snapshot ad d at by)
      (\<lambda>s. ((), project_snapshot ts scope i (set ids) d at by s)) (\<lambda>_. knows ids)"
    and cleanups: "does fault (knows ids) (run_steps (dp_cleanups ad))
      (\<lambda>s. ((), project_refs_cleaned i (task_refs_cleaned (ts now) (set ids) s))) (\<lambda>_. knows ids)"
    and task_rows: "does fault (knows ids) (dp_task_rows ad)
      (\<lambda>s. (project_task_ids scope i s, delete_tasks (project_task scope i) s)) (\<lambda>_. always)"
    and row: "does fault always (dp_row ad) (\<lambda>s. ((), delete_projects (project_row scope i) s)) (\<lambda>_. always)"
    and audit: "does fault always (dp_audit ad d by n)
      (\<lambda>s. ((), add_log (project_deleted_row scope (ts now) d by i n) s)) (\<lambda>_. always)"
    and commits: "ends fault always (dp_commit ad) (\<lambda>s out. (Inr (), s))"
begin

lemma order_facts: "set (order ids) = set ids" "length (order ids) = length ids" "TaskSetDigest (order ids) = TaskSetDigest ids"
  using same_set [of ids] by (metis set_mset_mset, metis size_mset, rule TaskSetDigest_order)

lemma last_steps:
  "ends fault always (and_then (run_steps [dp_row ad, dp_audit ad d by n, dp_commit ad]) (\<lambda>_. give m))
     (\<lambda>s out. (Inr m, add_log (project_deleted_row scope (ts now) d by i n) (delete_projects (project_row scope i) s)))"
  by (rule ends_then_give ends_run_Cons [OF row] ends_run_Cons [OF audit] ends_run_last [OF commits])+

lemma tasks_kept [simp]:
  "tasks (project_refs_cleaned i (task_refs_cleaned (ts now) ids s)) = tasks s"
  "tasks (project_snapshot ts scope i ids d at by s) = tasks s"
  "project_task_ids scope i (project_refs_cleaned i (task_refs_cleaned (ts now) ids s)) = project_task_ids scope i s"
  "project_task_ids scope i (project_snapshot ts scope i ids d at by s) = project_task_ids scope i s"
  by (simp_all add: project_task_ids_def project_refs_cleaned_def task_refs_cleaned_def project_snapshot_def)

lemma deleted_eq:
  "add_log (project_deleted_row scope (ts now) d by i (length (project_task_ids scope i s)))
     (delete_projects (project_row scope i) (delete_tasks (project_task scope i)
       (project_refs_cleaned i (task_refs_cleaned (ts now) (set (project_task_ids scope i s))
         (project_snapshot ts scope i (set (project_task_ids scope i s)) d now by s))))) =
   project_deleted ts scope now d i by s"
  by (rule gtd_db.equality) (simp_all add: project_deleted_def Let_def add_log_def delete_projects_def delete_tasks_def
      project_refs_cleaned_def task_refs_cleaned_def project_snapshot_def)

lemma delete_project_ends:
  "ends fault unique_ids (DeleteProjectOrchestration d by now expected ad)
     (\<lambda>s out. if \<not> list_ex (project_row scope i) (projects s) then (Inr 0, out)
       else if expected \<noteq> [] \<and> TaskSetDigest (project_task_ids scope i s) \<noteq> expected then (Inl GProjectTasksChanged, out)
       else (Inr (length (project_task_ids scope i s)), project_deleted ts scope now d i by s))"
proof -
  have "ends fault unique_ids (DeleteProjectOrchestration d by now expected ad) (\<lambda>s out. case ((), s) of (_, s) \<Rightarrow>
      case (list_ex (project_row scope i) (projects s), s) of (found, s) \<Rightarrow>
      if \<not> found then (Inr 0, out)
      else case (order (project_task_ids scope i s), s) of (ids, s) \<Rightarrow>
        if expected \<noteq> [] \<and> TaskSetDigest ids \<noteq> expected then (Inl GProjectTasksChanged, out)
        else case ((), project_snapshot ts scope i (set ids) d now by s) of (_, s) \<Rightarrow>
          case ((), project_refs_cleaned i (task_refs_cleaned (ts now) (set ids) s)) of (_, s) \<Rightarrow>
          case (project_task_ids scope i s, delete_tasks (project_task scope i) s) of (gone, s) \<Rightarrow>
          if TaskSetDigest gone \<noteq> TaskSetDigest ids then (Inl GProjectTasksChanged, out)
          else (Inr (length ids), add_log (project_deleted_row scope (ts now) d by i (length ids))
                 (delete_projects (project_row scope i) s)))"
    unfolding DeleteProjectOrchestration_def
    by (rule ends_and_then [OF begin_tx] ends_and_then [OF precheck] ends_if ends_give ends_refuse
        ends_and_then [OF lock] ends_and_then [OF snapshot] ends_and_then [OF cleanups] ends_and_then [OF task_rows]
        last_steps)+
  then show ?thesis
    by (rule back_subst [of "ends fault unique_ids _"]) (auto intro!: ext simp: order_facts deleted_eq)
qed

lemma all_or_nothing:
  "distinct (map t_id (tasks s)) \<Longrightarrow> transact (DeleteProjectOrchestration d by now expected ad) s =
     (if \<not> list_ex (project_row scope i) (projects s) then (Inr 0, s)
      else if expected \<noteq> [] \<and> TaskSetDigest (project_task_ids scope i s) \<noteq> expected then (Inl GProjectTasksChanged, s)
      else (Inr (length (project_task_ids scope i s)), project_deleted ts scope now d i by s)) \<or>
   (\<exists>e n. transact (DeleteProjectOrchestration d by now expected ad) s = (Inl e, s) \<and> fault n)"
  using transact_ends [OF delete_project_ends] by (simp add: unique_ids_def)

end

text \<open>Both adapters implement it: SQLite reads the set again, Postgres keeps the one it locked.\<close>

definition knows_sq :: "uuid option \<Rightarrow> uuid \<Rightarrow> uuid list \<Rightarrow> tx \<Rightarrow> bool" where
  "knows_sq scope i ids t \<longleftrightarrow> project_task_ids scope i (tx_seen t) = ids \<and> unique_ids t"

definition knows_pg :: "uuid list \<Rightarrow> tx \<Rightarrow> bool" where
  "knows_pg ids t \<longleftrightarrow> tx_locked t = ids"

text \<open>A statement may use what is known when it runs and keeps the tasks and the locked set.\<close>

lemma does_exec_knowing:
  assumes "\<And>t. I t \<Longrightarrow> f (tx_seen t) = g (tx_seen t)" and "\<And>t. I t \<Longrightarrow> J (t\<lparr>tx_seen := g (tx_seen t)\<rparr>)"
  shows "does fault I (exec alone fault name f) (\<lambda>s. ((), g s)) (\<lambda>_. J)"
  using assms by (auto simp: does_def exec_def query_def)

lemma knows_sq_keep:
  "knows_sq scope i ids t \<Longrightarrow> tasks s = tasks (tx_seen t) \<Longrightarrow> knows_sq scope i ids (t\<lparr>tx_seen := s\<rparr>)"
  by (simp add: knows_sq_def unique_ids_def project_task_ids_def)

lemma knows_pg_keep: "knows_pg ids t \<Longrightarrow> knows_pg ids (t\<lparr>tx_seen := s\<rparr>)"
  by (simp add: knows_pg_def)

lemma ids_of_known: "knows_sq scope i ids t \<Longrightarrow> project_task_ids scope i (tx_seen t) = ids"
  by (simp add: knows_sq_def)

lemma filter_known:
  assumes "knows_sq scope i ids t"
  shows "filter (project_task scope i) (tasks (tx_seen t)) =
    filter (\<lambda>u. t_id u \<in> set ids \<and> in_scope scope (t_workspace u)) (tasks (tx_seen t))"
proof (rule filter_cong [OF refl])
  fix u
  assume u: "u \<in> set (tasks (tx_seen t))"
  have "v = u" if "v \<in> set (tasks (tx_seen t))" "t_id v = t_id u" for v
    using assms u that by (intro distinct_map_unique [of t_id]) (auto simp: knows_sq_def unique_ids_def)
  then show "project_task scope i u = (t_id u \<in> set ids \<and> in_scope scope (t_workspace u))"
    using assms u by (auto simp: knows_sq_def project_task_ids_def project_task_def)
qed

lemma exec_locked_known: "knows_pg ids t \<Longrightarrow> exec_locked env fault name f t = exec env fault name (f (set ids)) t"
  by (simp add: exec_locked_def knows_pg_def)

lemma does_exec_locked:
  "does fault (knows_pg ids) (exec_locked alone fault name f) (\<lambda>s. ((), f (set ids) s)) (\<lambda>_. knows_pg ids)"
  using does_exec_knowing [of "knows_pg ids" "f (set ids)" "f (set ids)" "knows_pg ids" fault name]
  by (simp add: does_def exec_locked_known knows_pg_keep)

lemma and_then_assoc: "and_then (and_then m k) l = and_then m (\<lambda>a. and_then (k a) l)"
  by (rule ext) (simp add: and_then_def split: prod.split sum.split)

lemma run_steps_append: "run_steps (xs @ ys) = and_then (run_steps xs) (\<lambda>_. run_steps ys)"
  by (induction xs) (simp_all add: and_then_assoc, simp add: and_then_def give_def)

lemma does_run_append:
  assumes "does fault I (run_steps xs) (\<lambda>s. ((), f s)) (\<lambda>_. J)" and "does fault J (run_steps ys) (\<lambda>s. ((), g s)) K"
  shows "does fault I (run_steps (xs @ ys)) (\<lambda>s. ((), g (f s))) K"
  using does_and_then [OF assms(1), of "\<lambda>_. run_steps ys" "\<lambda>_ s. ((), g s)" K] assms(2) by (simp add: run_steps_append)

lemma project_cleanups_effect:
  assumes keep: "\<And>t s. I t \<Longrightarrow> tasks s = tasks (tx_seen t) \<Longrightarrow> I (t\<lparr>tx_seen := s\<rparr>)"
  shows "does fault I (run_steps (project_ref_cleanups alone fault i)) (\<lambda>s. ((), project_refs_cleaned i s)) (\<lambda>_. I)"
proof -
  have one: "does fault I (exec alone fault name f) (\<lambda>s. ((), f s)) (\<lambda>_. I)" if "\<And>s. tasks (f s) = tasks s" for name f
    by (rule does_exec_knowing) (simp_all add: keep that)
  let ?h = "\<lambda>s. (\<lambda>s. s\<lparr>procedural := unlink_project i (procedural s)\<rparr>)
    ((\<lambda>s. s\<lparr>vision_items := update_rows (\<lambda>r. vi_project r = Some i) (\<lambda>r. r\<lparr>vi_project := None\<rparr>) (vision_items s)\<rparr>)
    ((\<lambda>s. s\<lparr>work_sessions := update_rows (\<lambda>r. wk_project r = Some i) (\<lambda>r. r\<lparr>wk_project := None\<rparr>) (work_sessions s)\<rparr>)
    ((\<lambda>s. s\<lparr>handoffs := unlink_project i (handoffs s)\<rparr>)
    ((\<lambda>s. s\<lparr>knowledge_items := null_project_refs i (knowledge_items s)\<rparr>)
    ((\<lambda>s. s\<lparr>decisions := null_project_refs i (decisions s)\<rparr>)
    ((\<lambda>s. s\<lparr>activity_log := update_rows (\<lambda>r. a_project r = Some i) (\<lambda>r. r\<lparr>a_project := None\<rparr>) (activity_log s)\<rparr>) s))))))"
  have "?h s = project_refs_cleaned i s" for s
    by (rule gtd_db.equality) (simp_all add: project_refs_cleaned_def)
  moreover have "does fault I (run_steps (project_ref_cleanups alone fault i)) (\<lambda>s. ((), ?h s)) (\<lambda>_. I)"
    unfolding project_ref_cleanups_def by (rule does_run_Cons does_run_Nil one | simp del: run_steps.simps)+
  ultimately show ?thesis by simp
qed

lemma task_cleanups_effect:
  assumes one: "\<And>name F. (\<And>ids s. tasks (F ids s) = tasks s) \<Longrightarrow>
      does fault I (step name F) (\<lambda>s. ((), F ids s)) (\<lambda>_. I)"
  shows "does fault I (run_steps
      [step ''cleanup work_session_tasks'' drop_session_tasks,
       step ''nullify work_sessions.current_task_id'' (null_current_task at),
       step ''cleanup completion_candidates'' drop_candidates,
       step ''reset vision_items.promoted_task_id'' reset_vision_items,
       step ''nullify decisions.task_id'' (\<lambda>ids s. s\<lparr>decisions := null_task_refs ids (decisions s)\<rparr>),
       step ''nullify knowledge_items.task_id'' (\<lambda>ids s. s\<lparr>knowledge_items := null_task_refs ids (knowledge_items s)\<rparr>)])
     (\<lambda>s. ((), task_refs_cleaned at ids s)) (\<lambda>_. I)"
proof -
  let ?h = "\<lambda>s. (\<lambda>ids s. s\<lparr>knowledge_items := null_task_refs ids (knowledge_items s)\<rparr>) ids
    ((\<lambda>ids s. s\<lparr>decisions := null_task_refs ids (decisions s)\<rparr>) ids (reset_vision_items ids
      (drop_candidates ids (null_current_task at ids (drop_session_tasks ids s)))))"
  note defs = drop_session_tasks_def null_current_task_def drop_candidates_def reset_vision_items_def
  have "?h s = task_refs_cleaned at ids s" for s
    by (rule gtd_db.equality) (simp_all add: task_refs_cleaned_def defs)
  moreover have "does fault I (run_steps
      [step ''cleanup work_session_tasks'' drop_session_tasks,
       step ''nullify work_sessions.current_task_id'' (null_current_task at),
       step ''cleanup completion_candidates'' drop_candidates,
       step ''reset vision_items.promoted_task_id'' reset_vision_items,
       step ''nullify decisions.task_id'' (\<lambda>ids s. s\<lparr>decisions := null_task_refs ids (decisions s)\<rparr>),
       step ''nullify knowledge_items.task_id'' (\<lambda>ids s. s\<lparr>knowledge_items := null_task_refs ids (knowledge_items s)\<rparr>)])
     (\<lambda>s. ((), ?h s)) (\<lambda>_. I)"
    by (rule does_run_Cons does_run_Nil one | simp add: defs del: run_steps.simps)+
  ultimately show ?thesis by simp
qed

lemma cleanups_sq:
  "does fault (knows_sq scope i ids) (run_steps (dp_cleanups (sqliteDeleteProjectAdapter fault scope now i)))
     (\<lambda>s. ((), project_refs_cleaned i (task_refs_cleaned (sq_ts now) (set ids) s))) (\<lambda>_. knows_sq scope i ids)"
proof -
  have "does fault (knows_sq scope i ids) (exec alone fault name (\<lambda>s. F (set (project_task_ids scope i s)) s))
      (\<lambda>s. ((), F (set ids) s)) (\<lambda>_. knows_sq scope i ids)"
    if "\<And>ids s. tasks (F ids s) = tasks s" for name F
    by (rule does_exec_knowing) (simp_all add: ids_of_known knows_sq_keep that)
  from task_cleanups_effect [where step = "\<lambda>name F. exec alone fault name (\<lambda>s. F (set (project_task_ids scope i s)) s)"
      and at = "sq_ts now", OF this]
  show ?thesis
    unfolding sqliteDeleteProjectAdapter_def Let_def delete_project_adapter.simps
    by (rule does_run_append) (assumption, rule project_cleanups_effect, simp add: knows_sq_keep)
qed

lemma cleanups_pg:
  "does fault (knows_pg ids) (run_steps (dp_cleanups (pgDeleteProjectAdapter alone fault scope now i)))
     (\<lambda>s. ((), project_refs_cleaned i (task_refs_cleaned (pg_ts now) (set ids) s))) (\<lambda>_. knows_pg ids)"
  unfolding pgDeleteProjectAdapter_def delete_project_adapter.simps
  by (rule does_run_append, rule task_cleanups_effect [where step = "exec_locked alone fault"])
    (rule does_exec_locked, rule project_cleanups_effect, simp add: knows_pg_keep)

lemma does_three:
  assumes "does fault I a (\<lambda>s. ((), f s)) (\<lambda>_. I)" "does fault I b (\<lambda>s. ((), g s)) (\<lambda>_. I)"
    "does fault I c (\<lambda>s. ((), h s)) (\<lambda>_. I)"
  shows "does fault I (run_steps [a, b, c]) (\<lambda>s. ((), h (g (f s)))) (\<lambda>_. I)"
  by (rule does_run_Cons does_run_Nil assms)+

lemma snapshot_sq:
  "does fault (knows_sq scope i ids) (dp_snapshot (sqliteDeleteProjectAdapter fault scope now i) d at by)
     (\<lambda>s. ((), project_snapshot sq_ts scope i (set ids) d at by s)) (\<lambda>_. knows_sq scope i ids)"
proof -
  let ?P = "\<lambda>t. t_id t \<in> set ids \<and> in_scope scope (t_workspace t)"
  let ?h = "\<lambda>s. snapshot_tasks ?P d (sq_ts at) by (snapshot_project (project_row scope i) d (sq_ts at) by
      (prune_tombstones (sq_ts (at - DeletionTombstoneRetention)) s))"
  note defs = snapshot_tasks_def snapshot_project_def prune_tombstones_def
  have "?h s = project_snapshot sq_ts scope i (set ids) d at by s" for s
    by (rule gtd_db.equality) (simp_all add: project_snapshot_def defs not_less)
  moreover have "does fault (knows_sq scope i ids) (dp_snapshot (sqliteDeleteProjectAdapter fault scope now i) d at by)
      (\<lambda>s. ((), ?h s)) (\<lambda>_. knows_sq scope i ids)"
    unfolding sqliteDeleteProjectAdapter_def Let_def delete_project_adapter.simps
    by (rule does_three; rule does_exec_knowing) (simp_all add: defs knows_sq_keep filter_known)
  ultimately show ?thesis by simp
qed

lemma keeps_pg: "does fault (knows_pg ids) (exec alone fault name f) (\<lambda>s. ((), f s)) (\<lambda>_. knows_pg ids)"
  by (rule does_exec_knowing) (simp_all add: knows_pg_keep)

lemma snapshot_pg:
  "does fault (knows_pg ids) (dp_snapshot (pgDeleteProjectAdapter alone fault scope now i) d at by)
     (\<lambda>s. ((), project_snapshot pg_ts scope i (set ids) d at by s)) (\<lambda>_. knows_pg ids)"
proof -
  let ?P = "\<lambda>ids t. t_id t \<in> ids \<and> in_scope scope (t_workspace t)"
  let ?h = "\<lambda>s. (\<lambda>ids. snapshot_tasks (?P ids) d (pg_ts at) by) (set ids) (snapshot_project (project_row scope i) d (pg_ts at) by
      (prune_tombstones (pg_ts (at - DeletionTombstoneRetention)) s))"
  note defs = snapshot_tasks_def snapshot_project_def prune_tombstones_def
  have "?h s = project_snapshot pg_ts scope i (set ids) d at by s" for s
    by (rule gtd_db.equality) (simp_all add: project_snapshot_def defs not_less)
  moreover have "does fault (knows_pg ids) (dp_snapshot (pgDeleteProjectAdapter alone fault scope now i) d at by)
      (\<lambda>s. ((), ?h s)) (\<lambda>_. knows_pg ids)"
    unfolding pgDeleteProjectAdapter_def delete_project_adapter.simps
    by (rule does_three [OF keeps_pg keeps_pg does_exec_locked])
  ultimately show ?thesis by simp
qed

lemma lock_sq:
  "does fault unique_ids (dp_lock (sqliteDeleteProjectAdapter fault scope now i))
     (\<lambda>s. (project_task_ids scope i s, s)) (knows_sq scope i)"
  by (auto simp: sqliteDeleteProjectAdapter_def Let_def does_def query_def knows_sq_def unique_ids_def)

lemma prelock_locked: "does fault (knows_pg ids) (prelockRefRows alone fault) (\<lambda>s. ((), s)) (\<lambda>_. knows_pg ids)"
proof -
  have "does fault (knows_pg ids) (run_steps (map (\<lambda>(table, column). exec alone fault (h table) (\<lambda>s. s)) ls)) (\<lambda>s. ((), s))
      (\<lambda>_. knows_pg ids)" for h ls
  proof (induction ls)
    case Nil
    then show ?case by (simp add: does_give)
  next
    case (Cons l ls)
    from does_run_Cons [OF keeps_pg Cons.IH, of "h (fst l)"] show ?case by (cases l) simp
  qed
  then show ?thesis by (simp add: prelockRefRows_def)
qed

lemma lock_pg:
  "does fault unique_ids (dp_lock (pgDeleteProjectAdapter alone fault scope now i))
     (\<lambda>s. (sort (project_task_ids scope i s), s)) knows_pg"
proof -
  have keep: "does fault always (\<lambda>t. (Inr (), t\<lparr>tx_locked := ids\<rparr>)) (\<lambda>s. ((), s)) (\<lambda>_. knows_pg ids)" for ids
    by (simp add: does_def knows_pg_def)
  have "does fault unique_ids (lock_tasks scope i alone fault)
     (\<lambda>s. case (sort (project_task_ids scope i s), s) of (ids, s) \<Rightarrow>
        case ((), s) of (_, s) \<Rightarrow> case ((), s) of (_, s) \<Rightarrow> (ids, s)) knows_pg"
  proof -
    have "does fault (knows_pg ids) (give ids) (\<lambda>s. (ids, s)) knows_pg" for ids
      by (simp add: does_def give_def)
    then show ?thesis
      unfolding lock_tasks_def
      by (intro does_and_then [OF does_query] does_and_then [OF keep] does_and_then [OF prelock_locked])
  qed
  then show ?thesis by (simp add: pgDeleteProjectAdapter_def)
qed

lemma does_read: "does fault I (query alone fault name (\<lambda>s. (g s, s))) (\<lambda>s. (g s, s)) (\<lambda>_. I)"
  by (auto simp: does_def query_def)

lemma does_skip: "does fault I (exec alone fault name (\<lambda>s. s)) (\<lambda>s. ((), s)) (\<lambda>_. I)"
  by (simp add: exec_def does_read)

interpretation sqp: project_deleter fault sq_ts scope now i "sqliteDeleteProjectAdapter fault scope now i"
  "\<lambda>ids. ids" "knows_sq scope i" for fault scope now i
  by unfold_locales (rule lock_sq snapshot_sq cleanups_sq |
    simp add: sqliteDeleteProjectAdapter_def Let_def effects ends_commit does_read does_skip del: run_steps.simps)+

interpretation pgp: project_deleter fault pg_ts scope now i "pgDeleteProjectAdapter alone fault scope now i"
  sort knows_pg for fault scope now i
  by unfold_locales (rule lock_pg snapshot_pg cleanups_pg |
    simp add: pgDeleteProjectAdapter_def effects ends_commit does_read does_skip del: run_steps.simps)+

end
