(* ===== verification/Gtd_Delete_Facts.thy ===== *)
theory Gtd_Delete_Facts
  imports Gtd_Delete_Laws
begin

text \<open>
  What deletion guarantees.  Alone, on both backends and whatever statement fails, a delete happens
  completely or not at all; it leaves no row that names what it removed; on Postgres, whatever other
  transactions commit meanwhile, a failed delete leaves exactly their work, and a task moved into the
  project after its tasks were locked is noticed.
\<close>

section \<open>All or nothing\<close>

text \<open>DeleteTask on both backends, whichever of its statements fails: either nothing is written
  and the call reports a failed statement, or the task is missing (or of another workspace) and the
  call is a silent no-op, or exactly this happened: the row is gone and kept in a tombstone, expired
  tombstones are pruned, every reference to the task is removed, and one audit row names the
  deletion and the task by identifier only.\<close>

theorem delete_task_all_or_nothing:
  "(let wanted = \<lambda>ts. (Inr (), if list_ex (task_row scope i) (tasks s) then task_deleted ts scope now d i by s else s);
        failed = \<lambda>r. \<exists>e name. r = (Inl e, s) \<and> fault name
    in (DeleteTask fault scope now d i by s = wanted sq_ts \<or> failed (DeleteTask fault scope now d i by s)) \<and>
       (DeleteTask_pg alone fault scope now d i by s = wanted pg_ts \<or> failed (DeleteTask_pg alone fault scope now d i by s)))"
  using sqd.all_or_nothing [of d "by" now fault scope i s] pgd.all_or_nothing [of d "by" now fault scope i s]
  by (simp add: DeleteTask_def DeleteTask_pg_def)

text \<open>C23. DeleteProject on both backends, whichever of its statements fails: a failed statement, or a
  task set other than the one the caller previewed, leaves the database as it was; a missing project
  is a no-op returning 0; otherwise the project, all its tasks in scope and every reference to them
  are gone, all of them are in one tombstone group, and the number of deleted tasks is returned.\<close>

theorem delete_project_all_or_nothing:
  assumes "distinct (map t_id (tasks s))"
  shows "let ids = project_task_ids scope i s;
             wanted = \<lambda>ts. if \<not> list_ex (project_row scope i) (projects s) then (Inr 0, s)
               else if expected \<noteq> [] \<and> TaskSetDigest ids \<noteq> expected then (Inl GProjectTasksChanged, s)
               else (Inr (length ids), project_deleted ts scope now d i by s);
             failed = \<lambda>r. \<exists>e name. r = (Inl e, s) \<and> fault name
         in (DeleteProjectExpecting fault scope now d i by expected s = wanted sq_ts \<or>
               failed (DeleteProjectExpecting fault scope now d i by expected s)) \<and>
            (DeleteProjectExpecting_pg alone fault scope now d i by expected s = wanted pg_ts \<or>
               failed (DeleteProjectExpecting_pg alone fault scope now d i by expected s))"
  using sqp.all_or_nothing [OF assms, of d "by" now expected fault scope i]
    pgp.all_or_nothing [OF assms, of d "by" now expected fault scope i]
  by (simp add: DeleteProjectExpecting_def DeleteProjectExpecting_pg_def Let_def)

section \<open>No dangling references\<close>

text \<open>Every column that names a task or a project, with what counts as known.\<close>

definition names_known :: "(uuid \<Rightarrow> bool) \<Rightarrow> uuid option \<Rightarrow> bool" where
  "names_known K x = (case x of None \<Rightarrow> True | Some i \<Rightarrow> K i)"

definition task_refs_in :: "(uuid \<Rightarrow> bool) \<Rightarrow> gtd_db \<Rightarrow> bool" where
  "task_refs_in K s \<longleftrightarrow>
     list_all (\<lambda>r. names_known K (wk_current_task r)) (work_sessions s) \<and>
     list_all (\<lambda>r. K (st_task r)) (session_tasks s) \<and>
     list_all (\<lambda>r. K (cc_task r)) (candidates s) \<and>
     list_all (\<lambda>r. names_known K (vi_promoted r)) (vision_items s) \<and>
     list_all (\<lambda>r. names_known K (dr_task r)) (decisions s) \<and>
     list_all (\<lambda>r. names_known K (dr_task r)) (knowledge_items s)"

definition project_refs_in :: "(uuid \<Rightarrow> bool) \<Rightarrow> gtd_db \<Rightarrow> bool" where
  "project_refs_in K s \<longleftrightarrow>
     list_all (\<lambda>r. names_known K (a_project r)) (activity_log s) \<and>
     list_all (\<lambda>r. names_known K (wk_project r)) (work_sessions s) \<and>
     list_all (\<lambda>r. names_known K (vi_project r)) (vision_items s) \<and>
     list_all (\<lambda>r. names_known K (dr_project r)) (decisions s) \<and>
     list_all (\<lambda>r. names_known K (dr_project r)) (knowledge_items s) \<and>
     list_all (\<lambda>r. names_known K (pr_project r)) (handoffs s) \<and>
     list_all (\<lambda>r. names_known K (pr_project r)) (procedural s)"

definition known_task :: "gtd_db \<Rightarrow> uuid \<Rightarrow> bool" where
  "known_task s i \<longleftrightarrow> i \<in> set (map t_id (tasks s))"

definition known_project :: "gtd_db \<Rightarrow> uuid \<Rightarrow> bool" where
  "known_project s i \<longleftrightarrow> i \<in> set (map pj_id (projects s))"

definition refs_ok :: "gtd_db \<Rightarrow> bool" where
  "refs_ok s \<longleftrightarrow> task_refs_in (known_task s) s \<and> project_refs_in (known_project s) s \<and>
     list_all (\<lambda>t. names_known (known_project s) (t_project t)) (tasks s)"

named_theorems ref_defs \<open>definitions of the reference checks and cleanups\<close>

lemma names_known_None [simp]: "names_known K None"
  by (simp add: names_known_def)

lemmas cleanup_defs [ref_defs] = null_task_refs_def null_project_refs_def unlink_project_def task_refs_cleaned_def
  project_refs_cleaned_def task_refs_in_def project_refs_in_def

lemma cleaned_names: "names_known K x \<Longrightarrow> \<not> names ids x \<Longrightarrow> names_known (\<lambda>j. K j \<and> j \<notin> ids) x"
  by (simp add: names_known_def names_def split: option.splits)

lemma cleaned_names_project: "names_known K x \<Longrightarrow> x \<noteq> Some i \<Longrightarrow> names_known (\<lambda>j. K j \<and> j \<noteq> i) x"
  by (simp add: names_known_def split: option.splits)

lemma task_refs_cleaned:
  "task_refs_in K s \<Longrightarrow> task_refs_in (\<lambda>j. K j \<and> j \<notin> ids) (task_refs_cleaned at ids s)"
  by (auto simp: ref_defs set_update_rows list_all_iff intro: cleaned_names)

lemma project_refs_cleaned:
  "project_refs_in K s \<Longrightarrow> project_refs_in (\<lambda>j. K j \<and> j \<noteq> i) (project_refs_cleaned i s)"
  by (auto simp: ref_defs set_update_rows list_all_iff intro: cleaned_names_project)

lemma list_all_update_same:
  "(\<And>r. Q (f r) = Q r) \<Longrightarrow> list_all Q (update_rows P f rows) = list_all Q rows"
  by (induction rows) simp_all

lemma refs_kept:
  "project_refs_in K (task_refs_cleaned at ids s) = project_refs_in K s"
  "task_refs_in K (project_refs_cleaned i s) = task_refs_in K s"
  by (simp_all add: ref_defs list_all_update_same)

lemma refs_mono:
  "task_refs_in K s \<Longrightarrow> (\<And>j. K j \<Longrightarrow> K' j) \<Longrightarrow> task_refs_in K' s"
  "project_refs_in K s \<Longrightarrow> (\<And>j. K j \<Longrightarrow> K' j) \<Longrightarrow> project_refs_in K' s"
  by (auto simp: task_refs_in_def project_refs_in_def names_known_def list_all_iff split: option.splits)

lemma task_refs_same:
  "task_refs_in K c \<Longrightarrow> work_sessions s = work_sessions c \<Longrightarrow> session_tasks s = session_tasks c \<Longrightarrow>
     candidates s = candidates c \<Longrightarrow> vision_items s = vision_items c \<Longrightarrow> decisions s = decisions c \<Longrightarrow>
     knowledge_items s = knowledge_items c \<Longrightarrow> task_refs_in K s"
  by (simp add: task_refs_in_def)

lemma project_refs_logged:
  "project_refs_in K c \<Longrightarrow> activity_log s = activity_log c @ rows \<Longrightarrow> list_all (\<lambda>r. names_known K (a_project r)) rows \<Longrightarrow>
     work_sessions s = work_sessions c \<Longrightarrow> vision_items s = vision_items c \<Longrightarrow> decisions s = decisions c \<Longrightarrow>
     knowledge_items s = knowledge_items c \<Longrightarrow> handoffs s = handoffs c \<Longrightarrow> procedural s = procedural c \<Longrightarrow>
     project_refs_in K s"
  by (simp add: project_refs_in_def)

lemma task_deleted_refs: "refs_ok s \<Longrightarrow> refs_ok (task_deleted ts scope now d i by s)"
proof -
  assume ok: "refs_ok s"
  let ?s = "task_deleted ts scope now d i by s"
  have known: "known_task ?s j" if "known_task s j \<and> j \<notin> {i}" for j
    using that by (auto simp: known_task_def task_deleted_def task_row_def)
  have proj: "known_project ?s = known_project s"
    by (simp add: fun_eq_iff known_project_def task_deleted_def)
  let ?c = "task_refs_cleaned (ts now) {i} s"
  have "task_refs_in (\<lambda>j. known_task s j \<and> j \<notin> {i}) ?c"
    using ok unfolding refs_ok_def by (intro task_refs_cleaned) simp
  then have "task_refs_in (known_task ?s) ?c"
    by (rule refs_mono) (rule known)
  then have "task_refs_in (known_task ?s) ?s"
    by (rule task_refs_same) (simp_all add: task_deleted_def task_refs_cleaned_def)
  moreover have "project_refs_in (known_project s) ?c"
    using ok by (simp add: refs_kept refs_ok_def)
  then have "project_refs_in (known_project s) ?s"
    by (rule project_refs_logged [where rows = "[task_deleted_row scope (ts now) d by i]"])
      (simp_all add: task_deleted_def task_refs_cleaned_def task_deleted_row_def)
  moreover have "list_all (\<lambda>t. names_known (known_project s) (t_project t)) (tasks ?s)"
    using ok by (simp add: task_deleted_def refs_ok_def list_all_iff)
  ultimately show ?thesis by (simp add: refs_ok_def proj)
qed

lemma project_deleted_refs:
  assumes ok: "refs_ok s" and own: "\<And>t. t \<in> set (tasks s) \<Longrightarrow> t_project t = Some i \<Longrightarrow> in_scope scope (t_workspace t)"
    and found: "list_ex (project_row scope i) (projects s)"
  shows "refs_ok (project_deleted ts scope now d i by s)"
proof -
  let ?s = "project_deleted ts scope now d i by s"
  let ?ids = "set (project_task_ids scope i s)"
  let ?c = "project_refs_cleaned i (task_refs_cleaned (ts now) ?ids (project_snapshot ts scope i ?ids d now by s))"
  have tasks: "tasks ?s = filter (\<lambda>t. \<not> project_task scope i t) (tasks s)"
    and projects: "projects ?s = filter (\<lambda>p. \<not> project_row scope i p) (projects s)"
    by (simp_all add: project_deleted_def Let_def)
  have known: "known_task ?s j" if "known_task s j \<and> j \<notin> ?ids" for j
    using that by (auto simp: known_task_def tasks project_task_ids_def image_iff)
  have proj: "known_project ?s j" if "known_project s j \<and> j \<noteq> i" for j
    using that by (auto simp: known_project_def projects project_row_def)
  have snap: "task_refs_in K (project_snapshot ts scope i ?ids d now by s) = task_refs_in K s"
    "project_refs_in K (project_snapshot ts scope i ?ids d now by s) = project_refs_in K s" for K
    by (simp_all add: project_snapshot_def task_refs_in_def project_refs_in_def)
  have "task_refs_in (\<lambda>j. known_task s j \<and> j \<notin> ?ids) ?c"
    using ok by (subst refs_kept, intro task_refs_cleaned) (simp add: refs_ok_def snap)
  then have "task_refs_in (known_task ?s) ?c"
    by (rule refs_mono) (rule known)
  then have "task_refs_in (known_task ?s) ?s"
    by (rule task_refs_same) (simp_all add: project_deleted_def Let_def)
  moreover have "project_refs_in (\<lambda>j. known_project s j \<and> j \<noteq> i) ?c"
    using ok by (intro project_refs_cleaned) (simp add: refs_ok_def refs_kept snap)
  then have "project_refs_in (known_project ?s) ?c"
    by (rule refs_mono) (rule proj)
  then have "project_refs_in (known_project ?s) ?s"
    by (rule project_refs_logged [where rows = "[project_deleted_row scope (ts now) d by i (length (project_task_ids scope i s))]"])
      (simp_all add: project_deleted_def Let_def project_deleted_row_def)
  moreover have "names_known (known_project ?s) (t_project t)" if "t \<in> set (tasks s)" "\<not> project_task scope i t" for t
  proof (cases "t_project t")
    case (Some j)
    with that own have "j \<noteq> i" by (auto simp: project_task_def)
    moreover have "known_project s j"
      using ok that Some by (auto simp: refs_ok_def list_all_iff names_known_def)
    ultimately show ?thesis using Some proj by (simp add: names_known_def)
  qed simp
  ultimately show ?thesis by (auto simp: refs_ok_def tasks list_all_iff)
qed


definition no_fault :: "string \<Rightarrow> bool" where
  "no_fault n = False"

lemma no_fault_simp [simp]: "\<not> no_fault n"
  by (simp add: no_fault_def)

lemma DeleteProject_result:
  assumes "distinct (map t_id (tasks s))" and "list_ex (project_row scope i) (projects s)"
    and "expected = [] \<or> TaskSetDigest (project_task_ids scope i s) = expected"
  shows "DeleteProjectExpecting no_fault scope now d i by expected s =
      (Inr (length (project_task_ids scope i s)), project_deleted sq_ts scope now d i by s)"
    and "DeleteProjectExpecting_pg alone no_fault scope now d i by expected s =
      (Inr (length (project_task_ids scope i s)), project_deleted pg_ts scope now d i by s)"
  using sqp.all_or_nothing [OF assms(1), of d "by" now expected no_fault scope i]
    pgp.all_or_nothing [OF assms(1), of d "by" now expected no_fault scope i] assms(2,3)
  by (auto simp: DeleteProjectExpecting_def DeleteProjectExpecting_pg_def)

text \<open>The tasks are deleted by the caller's workspace, not only by the project: a task of another
  workspace (or of none) that names the project survives a successful DeleteProject on both
  backends and names a project that is gone.\<close>

theorem foreign_task_dangles:
  assumes "distinct (map t_id (tasks s))" and "distinct (map pj_id (projects s))"
    and "list_ex (project_row (Some w) i) (projects s)"
    and "t \<in> set (tasks s)" and "t_project t = Some i" and "t_workspace t \<noteq> Some w"
  shows "\<forall>r \<in> {DeleteProject no_fault (Some w) now d i by s, DeleteProjectExpecting_pg alone no_fault (Some w) now d i by [] s}.
    fst r = Inr (length (project_task_ids (Some w) i s)) \<and> t \<in> set (tasks (snd r)) \<and> \<not> known_project (snd r) i"
proof -
  have gone: "\<not> known_project (project_deleted ts (Some w) now d i by s) i" for ts
  proof -
    from assms(3) obtain p where p: "p \<in> set (projects s)" "project_row (Some w) i p" by (auto simp: list_ex_iff)
    have "q = p" if "q \<in> set (projects s)" "pj_id q = i" for q
      using assms(2) that p by (intro distinct_map_unique [of pj_id]) (auto simp: project_row_def)
    with p show ?thesis by (auto simp: known_project_def project_deleted_def Let_def)
  qed
  have kept: "t \<in> set (tasks (project_deleted ts (Some w) now d i by s))" for ts
    using assms(4,6) by (auto simp: project_deleted_def Let_def project_task_def)
  show ?thesis
    using DeleteProject_result [OF assms(1,3), of "[]" now d "by"] gone kept by (simp add: DeleteProject_def)
qed

section \<open>Other transactions on Postgres\<close>

definition by_others :: "others \<Rightarrow> gtd_db \<Rightarrow> gtd_db \<Rightarrow> bool" where
  "by_others env s s' \<longleftrightarrow> (\<exists>names. s' = fold env names s)"

definition harmless :: "others \<Rightarrow> 'a step \<Rightarrow> bool" where
  "harmless env m \<longleftrightarrow> (\<forall>t. by_others env (tx_outside t) (tx_outside (snd (m t))))"

definition fails_harmless :: "others \<Rightarrow> 'a step \<Rightarrow> bool" where
  "fails_harmless env m \<longleftrightarrow> (\<forall>t e t'. m t = (Inl e, t') \<longrightarrow> by_others env (tx_outside t) (tx_outside t'))"

named_theorems rollback \<open>steps that write nothing unless they commit\<close>

lemma by_others_refl [rollback]: "by_others env s s"
  unfolding by_others_def by (rule exI [of _ "[]"]) simp

lemma by_others_trans: "by_others env s u \<Longrightarrow> by_others env u v \<Longrightarrow> by_others env s v"
  unfolding by_others_def by (metis fold_append comp_apply)

lemma by_others_step: "by_others env s (env n s)"
  unfolding by_others_def by (rule exI [of _ "[n]"]) simp

lemma harmless_query [rollback]: "harmless env (query env fault n f)"
  by (auto simp: harmless_def query_def Let_def tick_def by_others_step split: prod.split)

lemma harmless_exec [rollback]: "harmless env (exec env fault n f)"
  by (simp add: exec_def harmless_query)

lemma harmless_exec_locked [rollback]: "harmless env (exec_locked env fault n g)"
  using harmless_exec unfolding harmless_def exec_locked_def by blast

lemma harmless_give [rollback]: "harmless env (give a)" "harmless env (refuse e)" "harmless env (\<lambda>t. (Inr a, t\<lparr>tx_locked := ids\<rparr>))"
  by (simp_all add: harmless_def give_def refuse_def by_others_refl)

lemma harmless_and_then [rollback]: "harmless env m \<Longrightarrow> (\<And>a. harmless env (k a)) \<Longrightarrow> harmless env (and_then m k)"
  unfolding harmless_def and_then_def by (auto split: prod.splits sum.splits) (metis by_others_trans snd_conv)+

lemma harmless_run [rollback]: "list_all (harmless env) ms \<Longrightarrow> harmless env (run_steps ms)"
  by (induction ms) (simp_all add: rollback)

lemma fails_harmless: "harmless env m \<Longrightarrow> fails_harmless env m"
  unfolding harmless_def fails_harmless_def by (metis snd_conv)

lemma fails_commit [rollback]: "fails_harmless env (commit env fault)"
  by (auto simp: fails_harmless_def commit_def Let_def tick_def by_others_step split: if_splits)

lemma fails_and_then:
  "harmless env m \<Longrightarrow> (\<And>a. fails_harmless env (k a)) \<Longrightarrow> fails_harmless env (and_then m k)"
  unfolding harmless_def fails_harmless_def and_then_def
  by (auto split: prod.splits sum.splits) (metis by_others_trans snd_conv)+

lemma fails_then_give: "fails_harmless env m \<Longrightarrow> fails_harmless env (and_then m (\<lambda>_. give b))"
  unfolding fails_harmless_def and_then_def give_def by (auto split: prod.splits sum.splits)

lemma fails_run_Cons:
  "harmless env m \<Longrightarrow> fails_harmless env (run_steps ms) \<Longrightarrow> fails_harmless env (run_steps (m # ms))"
  by (simp add: fails_and_then)

lemma fails_run_last: "fails_harmless env m \<Longrightarrow> fails_harmless env (run_steps [m])"
  using fails_then_give [of env m "()"] by simp

lemma fails_if: "fails_harmless env m \<Longrightarrow> fails_harmless env k \<Longrightarrow> fails_harmless env (if b then m else k)"
  by simp

lemma transact_fails: "fails_harmless env m \<Longrightarrow> transact m s = (Inl e, s') \<Longrightarrow> by_others env s s'"
  by (auto simp: fails_harmless_def transact_def split: prod.splits) fastforce

lemma harmless_prelock [rollback]: "harmless env (prelockRefRows env fault)"
  unfolding prelockRefRows_def by (rule harmless_run) (simp add: list_all_iff rollback split: prod.split)

lemma harmless_lock [rollback]: "harmless env (lock_tasks scope i env fault)"
  unfolding lock_tasks_def by (intro rollback)

lemma harmless_precheck:
  "harmless env (and_then (query env fault n f) (\<lambda>found. if \<not> found then give False else and_then (prelockRefRows env fault) (\<lambda>_. give True)))"
  by (rule harmless_and_then) (simp_all add: rollback)

lemma DeleteTask_pg_rollback:
  "fails_harmless env (DeleteTaskOrchestration d by now (pgDeleteTaskAdapter env fault scope clock i))"
  unfolding DeleteTaskOrchestration_def pgDeleteTaskAdapter_def delete_task_adapter.simps
  by (intro fails_and_then fails_if fails_run_last fails_run_Cons fails_commit harmless_precheck)
    (simp_all add: rollback fails_harmless)

lemma DeleteProject_pg_rollback:
  "fails_harmless env (DeleteProjectOrchestration d by now expected (pgDeleteProjectAdapter env fault scope clock i))"
  unfolding DeleteProjectOrchestration_def pgDeleteProjectAdapter_def delete_project_adapter.simps
  by (intro fails_and_then fails_then_give fails_if fails_run_last fails_run_Cons fails_commit)
    (simp_all add: rollback fails_harmless project_ref_cleanups_def)

text \<open>One statement of another transaction, committed right before the project's tasks are deleted.\<close>

definition moved :: "(task list \<Rightarrow> task list) \<Rightarrow> others" where
  "moved g n s = (if n = ''delete task rows'' then s\<lparr>tasks := g (tasks s)\<rparr> else s)"

lemma moved_elsewhere: "n \<noteq> ''delete task rows'' \<Longrightarrow> query (moved g) fault n f = query alone fault n f"
  by (simp add: fun_eq_iff query_def tick_def moved_def alone_def)

lemma moved_exec: "n \<noteq> ''delete task rows'' \<Longrightarrow> exec (moved g) fault n f = exec alone fault n f"
  by (simp add: exec_def moved_elsewhere)

lemma moved_exec_locked: "n \<noteq> ''delete task rows'' \<Longrightarrow> exec_locked (moved g) fault n f = exec_locked alone fault n f"
  by (simp add: fun_eq_iff exec_locked_def moved_exec)

lemma moved_lock: "lock_tasks scope i (moved g) fault = lock_tasks scope i alone fault"
  by (simp add: lock_tasks_def prelockRefRows_def PGDeleteLockTables_def moved_elsewhere moved_exec)

lemma moved_cleanups: "project_ref_cleanups (moved g) fault i = project_ref_cleanups alone fault i"
  unfolding project_ref_cleanups_def by (simp only: moved_exec list.inject char.inject not_Cons_self simp_thms)

lemma moved_begin: "dp_begin (pgDeleteProjectAdapter (moved g) fault scope now i) = dp_begin (pgDeleteProjectAdapter alone fault scope now i)"
  unfolding pgDeleteProjectAdapter_def delete_project_adapter.simps moved_cleanups moved_lock
  by (simp only: moved_elsewhere moved_exec moved_exec_locked list.inject char.inject not_Cons_self simp_thms)

lemma moved_precheck: "dp_precheck (pgDeleteProjectAdapter (moved g) fault scope now i) = dp_precheck (pgDeleteProjectAdapter alone fault scope now i)"
  unfolding pgDeleteProjectAdapter_def delete_project_adapter.simps moved_cleanups moved_lock
  by (simp only: moved_elsewhere moved_exec moved_exec_locked list.inject char.inject not_Cons_self simp_thms)

lemma moved_locks: "dp_lock (pgDeleteProjectAdapter (moved g) fault scope now i) = dp_lock (pgDeleteProjectAdapter alone fault scope now i)"
  unfolding pgDeleteProjectAdapter_def delete_project_adapter.simps moved_cleanups moved_lock
  by (simp only: moved_elsewhere moved_exec moved_exec_locked list.inject char.inject not_Cons_self simp_thms)

lemma moved_snapshot: "dp_snapshot (pgDeleteProjectAdapter (moved g) fault scope now i) d at by = dp_snapshot (pgDeleteProjectAdapter alone fault scope now i) d at by"
  unfolding pgDeleteProjectAdapter_def delete_project_adapter.simps moved_cleanups moved_lock
  by (simp only: moved_elsewhere moved_exec moved_exec_locked list.inject char.inject not_Cons_self simp_thms)

lemma moved_steps: "dp_cleanups (pgDeleteProjectAdapter (moved g) fault scope now i) = dp_cleanups (pgDeleteProjectAdapter alone fault scope now i)"
  unfolding pgDeleteProjectAdapter_def delete_project_adapter.simps moved_cleanups moved_lock
  by (simp only: moved_elsewhere moved_exec moved_exec_locked list.inject char.inject not_Cons_self simp_thms)

lemmas moved_adapter = moved_begin moved_precheck moved_locks moved_snapshot moved_steps

lemma does_keeping_tasks:
  assumes "does fault I m (\<lambda>s. ((), f s)) (\<lambda>_. J)" and "\<And>s. tasks (f s) = tasks s"
  shows "does fault (\<lambda>t. I t \<and> tasks (tx_seen t) = T) m (\<lambda>s. ((), f s)) (\<lambda>_ t. J t \<and> tasks (tx_seen t) = T)"
  unfolding does_def
proof (intro allI impI)
  fix t
  assume "I t \<and> tasks (tx_seen t) = T"
  with assms(1) consider
      (failed) "\<exists>e t'. m t = (Inl e, t') \<and> tx_outside t' = tx_outside t \<and> (\<exists>n. fault n)"
    | (worked) t' where "m t = (Inr (), t')" "tx_outside t' = tx_outside t" "tx_seen t' = f (tx_seen t)" "J t'"
      "tasks (tx_seen t) = T"
    unfolding does_def by fastforce
  then show "(\<exists>e t'. m t = (Inl e, t') \<and> tx_outside t' = tx_outside t \<and> (\<exists>n. fault n)) \<or>
      (\<exists>a t'. m t = (Inr a, t') \<and> tx_outside t' = tx_outside t \<and> ((), f (tx_seen t)) = (a, tx_seen t') \<and>
        J t' \<and> tasks (tx_seen t') = T)"
    by cases (simp_all add: assms(2))
qed

lemma moved_ends:
  assumes "TaskSetDigest (map t_id (filter (project_task scope i) (g T))) \<noteq> TaskSetDigest ids"
  shows "ends no_fault (\<lambda>t. knows_pg ids t \<and> tasks (tx_seen t) = T)
     (and_then (dp_task_rows (pgDeleteProjectAdapter (moved g) no_fault scope now i))
       (\<lambda>gone. if TaskSetDigest gone \<noteq> TaskSetDigest ids then refuse GProjectTasksChanged else k))
     (\<lambda>s out. (Inl GProjectTasksChanged, out\<lparr>tasks := g (tasks out)\<rparr>))"
  using assms by (auto simp: ends_def and_then_def pgDeleteProjectAdapter_def query_def Let_def tick_def moved_def
      project_task_ids_def refuse_def split: if_splits)

lemma moved_transaction:
  assumes "\<not> digest_collision (project_task_ids scope i (s\<lparr>tasks := g (tasks s)\<rparr>)) (sort (project_task_ids scope i s))"
    and "mset (project_task_ids scope i (s\<lparr>tasks := g (tasks s)\<rparr>)) \<noteq> mset (project_task_ids scope i s)"
    and "distinct (map t_id (tasks s))" and "list_ex (project_row scope i) (projects s)"
  shows "DeleteProjectExpecting_pg (moved g) no_fault scope now d i by [] s =
    (Inl GProjectTasksChanged, s\<lparr>tasks := g (tasks s)\<rparr>)"
proof -
  let ?ad = "pgDeleteProjectAdapter (moved g) no_fault scope now i"
  let ?I = "\<lambda>ids t. knows_pg ids t \<and> tasks (tx_seen t) = tasks s"
  let ?ids = "sort (project_task_ids scope i s)"
  let ?late = "\<lambda>out. (Inl GProjectTasksChanged, out\<lparr>tasks := g (tasks out)\<rparr>)"
  have differ: "TaskSetDigest (map t_id (filter (project_task scope i) (g (tasks s)))) \<noteq> TaskSetDigest ?ids"
    using assms(1,2) by (simp add: TaskSetDigest_eq project_task_ids_def)
  have begin_tx: "does no_fault (\<lambda>t. tx_seen t = s) (dp_begin ?ad) (\<lambda>s. ((), s)) (\<lambda>_ t. tx_seen t = s)"
    unfolding moved_adapter unfolding pgDeleteProjectAdapter_def delete_project_adapter.simps by (rule does_skip)
  have precheck: "does no_fault (\<lambda>t. tx_seen t = s) (dp_precheck ?ad) (\<lambda>s. (list_ex (project_row scope i) (projects s), s))
      (\<lambda>_ t. tx_seen t = s)"
    unfolding moved_adapter unfolding pgDeleteProjectAdapter_def delete_project_adapter.simps by (rule does_read)
  have lock: "does no_fault (\<lambda>t. tx_seen t = s) (dp_lock ?ad) (\<lambda>s. (sort (project_task_ids scope i s), s))
      (\<lambda>ids t. ids = ?ids \<and> ?I ids t)"
    using lock_pg [of no_fault scope now i] assms(3) unfolding moved_adapter does_def unique_ids_def by fastforce
  have snapshot: "does no_fault (?I ids) (dp_snapshot ?ad d now by) (\<lambda>s. ((), project_snapshot pg_ts scope i (set ids) d now by s))
      (\<lambda>_. ?I ids)" for ids
    unfolding moved_adapter by (rule does_keeping_tasks [OF snapshot_pg]) (simp add: project_snapshot_def)
  have cleanups: "does no_fault (?I ids) (run_steps (dp_cleanups ?ad))
      (\<lambda>s. ((), project_refs_cleaned i (task_refs_cleaned (pg_ts now) (set ids) s))) (\<lambda>_. ?I ids)" for ids
    unfolding moved_adapter
    by (rule does_keeping_tasks [OF cleanups_pg]) (simp add: project_refs_cleaned_def task_refs_cleaned_def)
  have late: "ends no_fault (\<lambda>t. ids = ?ids \<and> ?I ids t)
      (and_then (dp_snapshot ?ad d now by) (\<lambda>_. and_then (run_steps (dp_cleanups ?ad)) (\<lambda>_.
        and_then (dp_task_rows ?ad) (\<lambda>gone. if TaskSetDigest gone \<noteq> TaskSetDigest ids then refuse GProjectTasksChanged else k))))
      (\<lambda>s out. ?late out)" for ids and k :: "nat step"
  proof (cases "ids = ?ids")
    case True
    have "ends no_fault (?I ids)
      (and_then (dp_snapshot ?ad d now by) (\<lambda>_. and_then (run_steps (dp_cleanups ?ad)) (\<lambda>_.
        and_then (dp_task_rows ?ad) (\<lambda>gone. if TaskSetDigest gone \<noteq> TaskSetDigest ids then refuse GProjectTasksChanged else k))))
      (\<lambda>s out. case ((), project_snapshot pg_ts scope i (set ids) d now by s) of (_, s) \<Rightarrow>
        case ((), project_refs_cleaned i (task_refs_cleaned (pg_ts now) (set ids) s)) of (_, s) \<Rightarrow> ?late out)"
      using differ unfolding True [symmetric]
      by (intro ends_and_then [OF snapshot] ends_and_then [OF cleanups] moved_ends)
    with True show ?thesis by simp
  qed (simp add: ends_def)
  have "ends no_fault (\<lambda>t. tx_seen t = s) (DeleteProjectOrchestration d by now [] ?ad)
     (\<lambda>s out. case ((), s) of (_, s) \<Rightarrow> case (list_ex (project_row scope i) (projects s), s) of (found, s) \<Rightarrow>
        if \<not> found then (Inr 0, out) else case (sort (project_task_ids scope i s), s) of (ids, s) \<Rightarrow>
        if [] \<noteq> ([] :: ustr) \<and> TaskSetDigest ids \<noteq> [] then (Inl GProjectTasksChanged, out) else ?late out)"
    unfolding DeleteProjectOrchestration_def
    by (rule ends_and_then [OF begin_tx] ends_and_then [OF precheck] ends_if ends_give ends_refuse
        ends_and_then [OF lock] late)+
  from transact_ends [OF this] assms(4) show ?thesis
    by (simp add: DeleteProjectExpecting_pg_def)
qed

text \<open>Postgres lets other transactions commit between the statements of a delete.  Whatever they
  do and whichever statement fails, a delete that reports an error leaves exactly what the others
  committed; and when one of them changes the project's task set after it was locked, the delete
  reports changed tasks and writes nothing, unless SHA-256 gives the two sets one digest.\<close>

theorem postgres_delete_race:
  "(\<forall>e s'. DeleteTask_pg env fault scope now d j by s = (Inl e, s') \<longrightarrow> by_others env s s') \<and>
   (\<forall>e s'. DeleteProjectExpecting_pg env fault scope now d i by expected s = (Inl e, s') \<longrightarrow> by_others env s s') \<and>
   (let ids = project_task_ids scope i s; late = project_task_ids scope i (s\<lparr>tasks := g (tasks s)\<rparr>)
    in distinct (map t_id (tasks s)) \<and> list_ex (project_row scope i) (projects s) \<and> mset late \<noteq> mset ids \<longrightarrow>
       DeleteProjectExpecting_pg (moved g) no_fault scope now d i by [] s =
         (Inl GProjectTasksChanged, s\<lparr>tasks := g (tasks s)\<rparr>) \<or> digest_collision late (sort ids))"
proof -
  note task = transact_fails [OF DeleteTask_pg_rollback [of env d "by" now fault scope now j]]
  note project = transact_fails [OF DeleteProject_pg_rollback [of env d "by" now expected fault scope now i]]
  show ?thesis
    using task project moved_transaction [of scope i g s now d "by"]
    by (auto simp: DeleteTask_pg_def DeleteProjectExpecting_pg_def Let_def)
qed

end
