(* ===== verification/Gtd_Restore.thy ===== *)
theory Gtd_Restore
  imports Gtd_Delete_Facts
begin

text \<open>
  Tombstones and restoring: the invariant through deletes, restores and pruning; what
  \<open>RestoreProject\<close> does on every branch; deleting and restoring a project; the retention window.
\<close>

section \<open>Groups of tombstones\<close>

lemma groups_ok_filter:
  assumes "groups_ok bs"
  shows "groups_ok (filter P bs)"
proof -
  have "filter is_project_tomb (filter P bs) = filter P (filter is_project_tomb bs)"
    by (simp add: conj_commute)
  with assms show ?thesis
    unfolding groups_ok_def by (simp add: list_all_iff distinct_map_filter del: filter_filter)
qed

lemma groups_ok_append:
  assumes bs: "groups_ok bs" and cs: "groups_ok cs" and apart: "tb_deletion ` set bs \<inter> tb_deletion ` set cs = {}"
  shows "groups_ok (bs @ cs)"
  unfolding groups_ok_def
proof (intro conjI ballI impI)
  have ne: "tb_deletion x \<noteq> tb_deletion y" if "x \<in> set bs" "y \<in> set cs" for x y
    using apart that by (metis disjoint_iff image_eqI)
  show "list_all tombstone_ok (bs @ cs)" using bs cs by (simp add: groups_ok_def)
  show "distinct (map (\<lambda>b. (tb_deletion b, tb_entity b, is_project_tomb b)) (bs @ cs))"
    using bs cs ne by (fastforce simp: groups_ok_def)
  show "distinct (map tb_deletion (filter is_project_tomb (bs @ cs)))"
    using bs cs ne by (fastforce simp: groups_ok_def)
  fix a b
  assume "a \<in> set (bs @ cs)" "b \<in> set (bs @ cs)" "tb_deletion a = tb_deletion b"
  with ne consider "a \<in> set bs" "b \<in> set bs" | "a \<in> set cs" "b \<in> set cs" by (metis UnE set_append)
  then show "tb_deleted_at a = tb_deleted_at b"
    using bs cs \<open>tb_deletion a = tb_deletion b\<close> unfolding groups_ok_def by cases blast+
qed

lemma task_tombstone_simps [simp]:
  "tb_deletion (task_tombstone d at by t) = d" "tb_entity (task_tombstone d at by t) = t_id t"
  "tb_deleted_at (task_tombstone d at by t) = at" "tb_payload (task_tombstone d at by t) = PayTask t"
  "\<not> is_project_tomb (task_tombstone d at by t)" "tombstone_ok (task_tombstone d at by t) = task_ok t"
  by (simp_all add: task_tombstone_def is_project_tomb_def tombstone_ok_def)

lemma project_tombstone_simps [simp]:
  "tb_deletion (project_tombstone d at by p) = d" "tb_entity (project_tombstone d at by p) = pj_id p"
  "tb_deleted_at (project_tombstone d at by p) = at" "tb_payload (project_tombstone d at by p) = PayProject p"
  "tb_project (project_tombstone d at by p) = Some (pj_id p)" "tb_workspace (project_tombstone d at by p) = pj_workspace p"
  "is_project_tomb (project_tombstone d at by p)" "tombstone_ok (project_tombstone d at by p) = project_check p"
  by (simp_all add: project_tombstone_def is_project_tomb_def tombstone_ok_def)

lemma new_group_ok:
  assumes "distinct (map t_id ts)" "list_all task_ok ts" "list_all project_check ps" "length ps \<le> 1"
  shows "groups_ok (map (project_tombstone d at by) ps @ map (task_tombstone d at by) ts)"
proof -
  from assms(4) consider "ps = []" | p where "ps = [p]" by (cases ps) (auto simp: le_Suc_eq)
  then show ?thesis
    using assms(1-3) by cases (auto simp: groups_ok_def list_all_iff comp_def distinct_map inj_on_def filter_empty_conv)
qed

definition fresh_deletion :: "uuid \<Rightarrow> gtd_db \<Rightarrow> bool" where
  "fresh_deletion d s \<longleftrightarrow> d \<notin> tb_deletion ` set (tombstones s)"

lemma gtd_inv_delete:
  assumes "gtd_inv s" and "tasks s' = filter P (tasks s)" and "projects s' = filter Q (projects s)"
    and "groups_ok (tombstones s')"
  shows "gtd_inv s'"
  using assms by (auto simp: gtd_inv_def list_all_iff distinct_map_filter)

lemma extended_groups:
  assumes "gtd_inv s" and "fresh_deletion d s" and "list_all task_ok ts" and "distinct (map t_id ts)"
    and "list_all project_check ps" "length ps \<le> 1"
  shows "groups_ok (filter P (tombstones s) @ map (project_tombstone d at by) ps @ map (task_tombstone d at by) ts)"
proof (rule groups_ok_append)
  show "groups_ok (filter P (tombstones s))"
    using assms(1) by (simp add: gtd_inv_def groups_ok_filter)
  show "groups_ok (map (project_tombstone d at by) ps @ map (task_tombstone d at by) ts)"
    by (rule new_group_ok [OF assms(4,3,5,6)])
  show "tb_deletion ` set (filter P (tombstones s)) \<inter>
      tb_deletion ` set (map (project_tombstone d at by) ps @ map (task_tombstone d at by) ts) = {}"
    using assms(2) by (auto simp: fresh_deletion_def)
qed

lemma one_project_row:
  assumes "distinct (map pj_id ps)"
  shows "length (filter (project_row scope i) ps) \<le> 1"
  using assms by (induction ps) (auto simp: project_row_def filter_empty_conv image_iff)

lemma gtd_inv_parts:
  assumes "gtd_inv s"
  shows "list_all task_ok (filter P (tasks s))" "distinct (map t_id (filter P (tasks s)))"
    "list_all project_check (filter Q (projects s))" "groups_ok (tombstones s)" "distinct (map pj_id (projects s))"
    "distinct (map t_id (tasks s))" "distinct (map pj_name (projects s))"
  using assms by (auto simp: gtd_inv_def list_all_iff project_ok_def distinct_map_filter)

lemma task_deleted_inv:
  assumes "gtd_inv s" and "fresh_deletion d s"
  shows "gtd_inv (task_deleted ts scope now d i by s)"
proof (rule gtd_inv_delete [OF assms(1)])
  show "groups_ok (tombstones (task_deleted ts scope now d i by s))"
    using extended_groups [OF assms gtd_inv_parts(1,2) [OF assms(1)], where ps = "[]"]
    by (simp add: task_deleted_def)
  show "tasks (task_deleted ts scope now d i by s) = filter (\<lambda>t. \<not> task_row scope i t) (tasks s)"
    "projects (task_deleted ts scope now d i by s) = filter (\<lambda>_. True) (projects s)"
    by (simp_all add: task_deleted_def)
qed

lemma project_deleted_inv:
  assumes "gtd_inv s" and "fresh_deletion d s"
  shows "gtd_inv (project_deleted ts scope now d i by s)"
proof (rule gtd_inv_delete [OF assms(1)])
  show "groups_ok (tombstones (project_deleted ts scope now d i by s))"
    using extended_groups [OF assms gtd_inv_parts(1,2,3) [OF assms(1)] one_project_row [OF gtd_inv_parts(5) [OF assms(1)]]]
    by (simp add: project_deleted_def Let_def project_snapshot_def project_refs_cleaned_def task_refs_cleaned_def)
  show "tasks (project_deleted ts scope now d i by s) = filter (\<lambda>t. \<not> project_task scope i t) (tasks s)"
    "projects (project_deleted ts scope now d i by s) = filter (\<lambda>p. \<not> project_row scope i p) (projects s)"
    by (simp_all add: project_deleted_def Let_def)
qed

lemma prune_inv: "gtd_inv s \<Longrightarrow> gtd_inv (prune_tombstones cutoff s)"
  by (auto simp: gtd_inv_def prune_tombstones_def groups_ok_filter)

section \<open>Restoring\<close>

lemma payload_tasks_append [simp]: "payload_tasks (xs @ ys) = payload_tasks xs @ payload_tasks ys"
  by (induction xs) (auto split: payload.split)

lemma payload_projects_append [simp]: "payload_projects (xs @ ys) = payload_projects xs @ payload_projects ys"
  by (induction xs) (auto split: payload.split)

lemma set_payload_tasks: "t \<in> set (payload_tasks bs) \<longleftrightarrow> (\<exists>b \<in> set bs. tb_payload b = PayTask t)"
  by (induction bs) (auto split: payload.split)

lemma payload_projects_eq: "payload_projects bs = map (\<lambda>b. case tb_payload b of PayProject p \<Rightarrow> p) (filter is_project_tomb bs)"
  by (induction bs) (auto simp: is_project_tomb_def split: payload.split)

lemma payload_tasks_eq: "payload_tasks bs = map (\<lambda>b. case tb_payload b of PayTask t \<Rightarrow> t) (filter (\<lambda>b. \<not> is_project_tomb b) bs)"
  by (induction bs) (auto simp: is_project_tomb_def split: payload.split)

definition restored_project :: "project \<Rightarrow> project" where
  "restored_project p = p\<lparr>pj_repo := valid_repo (pj_repo p)\<rparr>"

definition restored :: "(instant \<Rightarrow> instant) \<Rightarrow> uuid option \<Rightarrow> instant \<Rightarrow> uuid \<Rightarrow> uuid \<Rightarrow> ustr \<Rightarrow> project \<Rightarrow> gtd_db \<Rightarrow> gtd_db" where
  "restored ts scope now d i by p s =
     (let back = payload_tasks (group_of d s)
      in s\<lparr>tasks := tasks s @ back, projects := projects s @ [restored_project p],
           tombstones := filter (\<lambda>b. tb_deletion b \<noteq> d) (tombstones s),
           activity_log := activity_log s @ [project_restored_row scope (ts now) d by i (length back)]\<rparr>)"

definition restore_spec :: "(instant \<Rightarrow> instant) \<Rightarrow> uuid option \<Rightarrow> instant \<Rightarrow> uuid \<Rightarrow> ustr \<Rightarrow> gtd_db
    \<Rightarrow> (gtd_error + project \<times> nat) \<times> gtd_db" where
  "restore_spec ts scope now i by s =
     (case find_group scope i (ts (now - DeletionTombstoneRetention)) s of
        None \<Rightarrow> (Inl GNotFound, s)
      | Some b \<Rightarrow>
          (case tb_payload b of
             PayTask t \<Rightarrow> (Inl GNotFound, s)
           | PayProject p \<Rightarrow>
               (let back = payload_tasks (group_of (tb_deletion b) s)
                in if list_ex (\<lambda>q. pj_id q = i \<or> pj_name q = pj_name p) (projects s) \<or>
                      list_ex (\<lambda>t. known_task s (t_id t)) back
                   then (Inl GConflict, s)
                   else (Inr (restored_project p, length back), restored ts scope now (tb_deletion b) i by p s))))"

text \<open>What the tables know of a group that \<open>find_group\<close> returns.\<close>

lemma found_group:
  assumes "gtd_inv s" and "find_group scope i cutoff s = Some b"
  obtains p where "tb_payload b = PayProject p" "pj_id p = i" "project_check p" "b \<in> set (tombstones s)"
    "payload_projects (group_of (tb_deletion b) s) = [p]"
    "distinct (map t_id (payload_tasks (group_of (tb_deletion b) s)))"
    "list_all task_ok (payload_tasks (group_of (tb_deletion b) s))"
    "restorable scope i cutoff b"
proof -
  from assms(2) have b: "b \<in> set (tombstones s)" "restorable scope i cutoff b"
    by (auto simp: find_group_def dest: pick_best_mem)
  then obtain p where p: "tb_payload b = PayProject p" by (auto simp: restorable_def is_project_tomb_def split: payload.splits)
  have ok: "groups_ok (tombstones s)" using assms(1) by (simp add: gtd_inv_def)
  then have b_ok: "tombstone_ok b" using b by (simp add: groups_ok_def list_all_iff)
  with p b have id: "pj_id p = i" "project_check p" by (auto simp: tombstone_ok_def restorable_def)
  let ?g = "group_of (tb_deletion b) s"
  have single: "filter is_project_tomb ?g = [b]"
  proof -
    have d: "distinct (map tb_deletion (filter is_project_tomb (tombstones s)))" using ok by (simp add: groups_ok_def)
    have mem: "b \<in> set (filter is_project_tomb (tombstones s))" using b by (simp add: restorable_def)
    have "filter (\<lambda>x. f x = f b) xs = [b]" if "distinct (map f xs)" "b \<in> set xs" for f :: "tombstone \<Rightarrow> uuid" and xs
      using that by (induction xs) (auto simp: filter_empty_conv image_iff)
    from this [OF d mem] show ?thesis by (simp add: group_of_def conj_commute)
  qed
  have gok: "groups_ok ?g" using ok by (simp add: group_of_def groups_ok_filter)
  have keys: "distinct (map t_id (payload_tasks ?g))"
  proof -
    have "distinct (map (\<lambda>b. (tb_deletion b, tb_entity b, is_project_tomb b)) ?g)"
      using gok by (simp add: groups_ok_def)
    then have "distinct (map (\<lambda>b. (tb_deletion b, tb_entity b, is_project_tomb b)) (filter (\<lambda>b. \<not> is_project_tomb b) ?g))"
      by (rule distinct_map_filter)
    moreover have "t_id (case tb_payload x of PayTask t \<Rightarrow> t) = tb_entity x" if "x \<in> set ?g" "\<not> is_project_tomb x" for x
      using gok that by (auto simp: groups_ok_def list_all_iff tombstone_ok_def is_project_tomb_def split: payload.splits)
    ultimately show ?thesis
      by (auto simp: payload_tasks_eq distinct_map inj_on_def comp_def group_of_def)
  qed
  have rows: "list_all task_ok (payload_tasks ?g)"
    using gok by (force simp: list_all_iff set_payload_tasks groups_ok_def tombstone_ok_def)
  show thesis
    by (rule that [OF p id b(1) _ keys rows b(2)]) (simp add: payload_projects_eq single p)
qed

text \<open>A transaction followed from a known state: \<open>out\<close> is what it would leave.\<close>

definition ends_at :: "(string \<Rightarrow> bool) \<Rightarrow> gtd_db \<Rightarrow> 'a step \<Rightarrow> (gtd_db \<Rightarrow> (gtd_error + 'a) \<times> gtd_db) \<Rightarrow> bool" where
  "ends_at fault s m G \<longleftrightarrow> ends fault (\<lambda>t. tx_seen t = s) m (\<lambda>_. G)"

lemma ends_at_query:
  assumes "f s = (a, s')" and "ends_at fault s' (k a) G"
  shows "ends_at fault s (and_then (query alone fault n f) k) G"
  unfolding ends_at_def ends_def
proof (intro allI impI)
  fix t :: tx
  assume "tx_seen t = s"
  with assms(2) [unfolded ends_at_def ends_def, rule_format, of "t\<lparr>tx_seen := s'\<rparr>"] assms(1)
  show "(\<exists>e t'. and_then (query alone fault n f) k t = (Inl e, t') \<and> tx_outside t' = tx_outside t \<and> (\<exists>n. fault n)) \<or>
      (fst (and_then (query alone fault n f) k t), tx_outside (snd (and_then (query alone fault n f) k t))) = G (tx_outside t)"
    by (auto simp: and_then_def query_def)
qed

lemma ends_at_exec: "ends_at fault (f s) (k ()) G \<Longrightarrow> ends_at fault s (and_then (exec alone fault n f) k) G"
  by (simp add: exec_def ends_at_query)

lemma ends_at_refuse: "ends_at fault s (refuse e) (\<lambda>out. (Inl e, out))"
  by (simp add: ends_at_def ends_refuse)

lemma ends_at_commit: "ends_at fault s (and_then (commit alone fault) (\<lambda>_. give b)) (\<lambda>out. (Inr b, s))"
  by (auto simp: ends_at_def ends_def and_then_def commit_def give_def)

lemma ends_at_give: "ends_at fault s (k a) G \<Longrightarrow> ends_at fault s (and_then (give a) k) G"
  by (simp add: ends_at_def ends_def and_then_def give_def)

lemma or_conflict_then: "and_then (or_conflict m) k = and_then m (\<lambda>ok. if ok then k () else refuse GConflict)"
  by (rule ext) (auto simp: or_conflict_def and_then_def give_def refuse_def split: prod.split sum.split)

lemma transact_ends_at:
  "ends_at fault s m G \<Longrightarrow> transact m s = G s \<or> (\<exists>e n. transact m s = (Inl e, s) \<and> fault n)"
  using transact_ends [of fault "\<lambda>t. tx_seen t = s" m "\<lambda>_. G" s] by (simp add: ends_at_def)

lemma restored_row:
  assumes "\<not> list_ex (\<lambda>q. pj_id q = i \<or> pj_name q = n) (projects s)" and "pj_id p = i"
  shows "update_rows (\<lambda>p. pj_id p = i) restored_project (projects s @ [p]) = projects s @ [restored_project p]"
    and "first_row (\<lambda>p. pj_id p = i) (projects s @ [restored_project p]) = Some (restored_project p)"
proof -
  have no: "\<And>q. q \<in> set (projects s) \<Longrightarrow> pj_id q \<noteq> i" using assms(1) by (auto simp: list_ex_iff)
  then show "update_rows (\<lambda>p. pj_id p = i) restored_project (projects s @ [p]) = projects s @ [restored_project p]"
    using assms(2) by (simp add: update_rows_id)
  have "List.find P (xs @ [y]) = Some y" if "\<forall>x \<in> set xs. \<not> P x" "P y" for P :: "project \<Rightarrow> bool" and xs y
    using that by (induction xs) auto
  with no assms(2) have "List.find (\<lambda>p. pj_id p = i) (projects s @ [restored_project p]) = Some (restored_project p)"
    by (simp add: restored_project_def)
  then show "first_row (\<lambda>p. pj_id p = i) (projects s @ [restored_project p]) = Some (restored_project p)"
    by (simp add: first_row_def)
qed

lemma transact_refused:
  "ends_at fault s m (\<lambda>out. (r, out)) \<Longrightarrow> transact m s = (r, s) \<or> (\<exists>e n. transact m s = (Inl e, s) \<and> fault n)"
  using transact_ends_at by blast

lemma restore_all_or_nothing:
  assumes inv: "gtd_inv s" and lock: "\<And>s (k :: unit \<Rightarrow> (project \<times> nat) step) G. ends_at fault s (k ()) G \<Longrightarrow> ends_at fault s (and_then lock_group k) G"
  shows "transact (restore_steps alone fault lock_group ts scope now i by) s = restore_spec ts scope now i by s \<or>
    (\<exists>e n. transact (restore_steps alone fault lock_group ts scope now i by) s = (Inl e, s) \<and> fault n)"
proof (cases "find_group scope i (ts (now - DeletionTombstoneRetention)) s")
  case None
  have "ends_at fault s (restore_steps alone fault lock_group ts scope now i by) (\<lambda>out. (Inl GNotFound, out))"
    unfolding restore_steps_def by (rule ends_at_query, rule refl) (simp add: None ends_at_refuse)
  from transact_refused [OF this] show ?thesis by (simp add: restore_spec_def None)
next
  case (Some b)
  from found_group [OF inv Some] obtain p where p: "tb_payload b = PayProject p" "pj_id p = i"
    and group: "payload_projects (group_of (tb_deletion b) s) = [p]"
    and keys: "distinct (map t_id (payload_tasks (group_of (tb_deletion b) s)))" by metis
  let ?kept = "payload_tasks (group_of (tb_deletion b) s)"
  let ?taken = "list_ex (\<lambda>q. pj_id q = i \<or> pj_name q = pj_name p) (projects s)"
  let ?clash = "list_ex (\<lambda>t. known_task s (t_id t)) ?kept"
  let ?s1 = "s\<lparr>projects := projects s @ [p]\<rparr>"
  let ?s2 = "s\<lparr>projects := projects s @ [restored_project p]\<rparr>"
  have name: "payload_name b = pj_name p" using p by (simp add: payload_name_def)
  have insert_p: "insert_projects (payload_projects (group_of (tb_deletion b) s)) s = (True, ?s1)" if "\<not> ?taken"
    using that inv p by (auto simp: insert_projects_def group gtd_inv_def list_ex_iff)
  have clear: "clearInvalidRestoredRepoName i ?s1 = ?s2" if "\<not> ?taken"
    using restored_row(1) [OF that p(2)] by (simp add: clearInvalidRestoredRepoName_def restored_project_def [abs_def])
  have same_group: "group_of (tb_deletion b) ?s2 = group_of (tb_deletion b) s"
    by (simp add: group_of_def)
  have insert_t: "insert_tasks ?kept ?s2 = (if ?clash then (False, ?s2) else (True, ?s2\<lparr>tasks := tasks s @ ?kept\<rparr>))"
  proof -
    have "set (map t_id (tasks s)) \<inter> set (map t_id ?kept) = {} \<longleftrightarrow> \<not> ?clash"
      by (auto simp: list_ex_iff known_task_def) (metis IntI empty_iff image_eqI)
    moreover have "distinct (map t_id (tasks s))" using inv by (simp add: gtd_inv_def)
    ultimately show ?thesis using keys unfolding insert_tasks_def Let_def by (simp only: map_append distinct_append) simp
  qed
  have final: "add_log (project_restored_row scope (ts now) (tb_deletion b) by i (length ?kept))
      ((?s2\<lparr>tasks := tasks s @ ?kept\<rparr>)\<lparr>tombstones := filter (\<lambda>x. tb_deletion x \<noteq> tb_deletion b)
         (tombstones (?s2\<lparr>tasks := tasks s @ ?kept\<rparr>))\<rparr>) = restored ts scope now (tb_deletion b) i by p s"
    by (rule gtd_db.equality) (simp_all add: restored_def Let_def add_log_def)
  have back_row: "first_row (\<lambda>p. pj_id p = i) (projects (restored ts scope now (tb_deletion b) i by p s)) = Some (restored_project p)"
    if "\<not> ?taken"
    using restored_row(2) [OF that p(2)] by (simp add: restored_def Let_def)
  have spec: "restore_spec ts scope now i by s = (if ?taken \<or> ?clash then (Inl GConflict, s)
      else (Inr (restored_project p, length ?kept), restored ts scope now (tb_deletion b) i by p s))"
    using Some p by (simp add: restore_spec_def Let_def)
  consider "?taken" | "\<not> ?taken" "?clash" | "\<not> ?taken" "\<not> ?clash" by blast
  then show ?thesis
  proof cases
    case 1
    have "ends_at fault s (restore_steps alone fault lock_group ts scope now i by) (\<lambda>out. (Inl GConflict, out))"
      unfolding restore_steps_def
      apply (rule ends_at_query, rule refl, simp only: Some option.case)
      apply (rule lock, rule ends_at_query, rule refl, simp only: name 1 if_True)
      by (rule ends_at_refuse)
    from transact_refused [OF this] 1 show ?thesis by (simp add: spec)
  next
    case 2
    have "ends_at fault s (restore_steps alone fault lock_group ts scope now i by) (\<lambda>out. (Inl GConflict, out))"
      unfolding restore_steps_def or_conflict_then
      apply (rule ends_at_query, rule refl, simp only: Some option.case)
      apply (rule lock, rule ends_at_query, rule refl, simp only: name 2 if_False)
      apply (rule ends_at_query, rule insert_p [OF 2(1)], simp only: if_True)
      apply (rule ends_at_exec, simp only: clear [OF 2(1)])
      apply (rule ends_at_query [where a = "(False, length ?kept)" and s' = ?s2], simp add: same_group insert_t 2)
      by (simp add: ends_at_refuse)
    from transact_refused [OF this] 2 show ?thesis by (simp add: spec)
  next
    case 3
    have "ends_at fault s (restore_steps alone fault lock_group ts scope now i by)
        (\<lambda>out. (Inr (restored_project p, length ?kept), restored ts scope now (tb_deletion b) i by p s))"
      unfolding restore_steps_def or_conflict_then
      apply (rule ends_at_query, rule refl, simp only: Some option.case)
      apply (rule lock, rule ends_at_query, rule refl, simp only: name 3 if_False)
      apply (rule ends_at_query, rule insert_p [OF 3(1)], simp only: if_True)
      apply (rule ends_at_exec, simp only: clear [OF 3(1)])
      apply (rule ends_at_query [where a = "(True, length ?kept)" and s' = "?s2\<lparr>tasks := tasks s @ ?kept\<rparr>"],
          simp add: same_group insert_t 3)
      apply (simp only: prod.case simp_thms if_False)
      apply (rule ends_at_exec, rule ends_at_exec, simp only: final)
      apply (rule ends_at_query, rule refl, simp only: back_row [OF 3(1)] option.case)
      by (rule ends_at_commit)
    from transact_ends_at [OF this] 3 show ?thesis by (simp add: spec)
  qed
qed

lemma lock_none: "ends_at fault s (k ()) G \<Longrightarrow> ends_at fault s (and_then (give ()) k) G"
  by (rule ends_at_give)

lemma lock_statement: "ends_at fault s (k ()) G \<Longrightarrow> ends_at fault s (and_then (exec alone fault n (\<lambda>s. s)) k) G"
  by (rule ends_at_exec)

text \<open>C25. RestoreProject on both backends, whichever statement fails: nothing changes and the call fails, or
  it does what the tombstones say.  No project tombstone of the identifier in scope inside the 30 days
  is 'not found'; an existing project with its identifier or name, or an existing task with the
  identifier of one to restore, is a conflict, and either leaves the database alone; otherwise the
  newest group's project and tasks are back, an invalid repository name cleared, the group consumed,
  one audit row added, and the project and the number of tasks returned.\<close>

theorem restore_project_spec:
  assumes "gtd_inv s"
  shows "(let r = RestoreProject fault scope now i by s
          in r = restore_spec sq_ts scope now i by s \<or> (\<exists>e n. r = (Inl e, s) \<and> fault n)) \<and>
         (let r = RestoreProject_pg alone fault scope now i by s
          in r = restore_spec pg_ts scope now i by s \<or> (\<exists>e n. r = (Inl e, s) \<and> fault n))"
  using restore_all_or_nothing [OF assms lock_none, of fault sq_ts scope now i "by"]
    restore_all_or_nothing [OF assms lock_statement, of fault "''lock group''" pg_ts scope now i "by"]
  by (simp add: RestoreProject_def RestoreProject_pg_def)

lemma restored_inv:
  assumes inv: "gtd_inv s" and spec: "restore_spec ts scope now i by s = (Inr r, s')"
  shows "gtd_inv s'"
proof -
  from spec obtain b where found: "find_group scope i (ts (now - DeletionTombstoneRetention)) s = Some b"
    by (auto simp: restore_spec_def split: option.splits)
  from found_group [OF inv this] obtain p where p: "tb_payload b = PayProject p" "pj_id p = i" "project_check p"
    and keys: "distinct (map t_id (payload_tasks (group_of (tb_deletion b) s)))"
    and rows: "list_all task_ok (payload_tasks (group_of (tb_deletion b) s))" by metis
  let ?kept = "payload_tasks (group_of (tb_deletion b) s)"
  from spec found p have s': "s' = restored ts scope now (tb_deletion b) i by p s"
    and free: "\<not> list_ex (\<lambda>q. pj_id q = i \<or> pj_name q = pj_name p) (projects s)"
    and fresh: "\<not> list_ex (\<lambda>t. known_task s (t_id t)) ?kept"
    by (auto simp: restore_spec_def Let_def split: if_splits)
  have ids: "set (map t_id (tasks s)) \<inter> set (map t_id ?kept) = {}"
    using fresh by (auto simp: list_ex_iff known_task_def) (metis image_eqI)
  have row: "project_ok (restored_project p)"
    using p(3) by (simp add: project_ok_def project_check_def restored_project_def valid_repo_def text_of_def IsValidRepoName_def
        split: option.split)
  show ?thesis
    unfolding s' gtd_inv_def restored_def Let_def
    using inv ids keys rows free row p(2)
    by (auto simp: gtd_inv_def list_all_iff list_ex_iff groups_ok_filter restored_project_def)
qed

end
