(* ===== verification/Gtd_Roundtrip.thy ===== *)
theory Gtd_Roundtrip
  imports Gtd_Restore
begin

text \<open>
  Deleting a project and restoring it within the retention window gives its rows back; tombstone
  groups leave the database whole, and only when they are old enough or restored.
\<close>

section \<open>Deleting and restoring\<close>

lemma pick_best_last:
  "(\<And>x. x \<in> set xs \<Longrightarrow> \<not> better x y) \<Longrightarrow> better y y \<Longrightarrow> (\<And>x. x \<in> set xs \<Longrightarrow> better y x) \<Longrightarrow> pick_best better (xs @ [y]) = Some y"
  by (induction xs) auto

lemma deleted_tombstones:
  "tombstones (project_deleted ts scope now d i by s) =
     filter (\<lambda>b. ts (now - DeletionTombstoneRetention) \<le> tb_deleted_at b) (tombstones s) @
     map (project_tombstone d (ts now) by) (filter (project_row scope i) (projects s)) @
     map (task_tombstone d (ts now) by)
       (filter (\<lambda>t. t_id t \<in> set (project_task_ids scope i s) \<and> in_scope scope (t_workspace t)) (tasks s))"
  by (simp add: project_deleted_def Let_def project_snapshot_def project_refs_cleaned_def task_refs_cleaned_def)

lemma deleted_tables:
  "tasks (project_deleted ts scope now d i by s) = filter (\<lambda>t. \<not> project_task scope i t) (tasks s)"
  "projects (project_deleted ts scope now d i by s) = filter (\<lambda>p. \<not> project_row scope i p) (projects s)"
  by (simp_all add: project_deleted_def Let_def)

lemma known_by_ids:
  assumes "distinct (map t_id ts)"
  shows "filter (\<lambda>t. t_id t \<in> set (map t_id (filter (project_task scope i) ts)) \<and> in_scope scope (t_workspace t)) ts =
    filter (project_task scope i) ts"
proof (rule filter_cong [OF refl])
  fix u
  assume u: "u \<in> set ts"
  have "v = u" if "v \<in> set ts" "t_id v = t_id u" for v
    using assms u that by (intro distinct_map_unique [of t_id]) auto
  then show "(t_id u \<in> set (map t_id (filter (project_task scope i) ts)) \<and> in_scope scope (t_workspace u)) =
      project_task scope i u"
    using u by (auto simp: project_task_def)
qed

lemma the_project_row:
  assumes "distinct (map pj_id ps)" and "p \<in> set ps" and "project_row scope i p"
  shows "filter (project_row scope i) ps = [p]"
  using assms by (induction ps) (auto simp: project_row_def filter_empty_conv image_iff)

lemma no_tombstone_filter: "(\<And>b. b \<in> set bs \<Longrightarrow> tb_deletion b \<noteq> d) \<Longrightarrow> filter (\<lambda>b. tb_deletion b = d) bs = []"
  by (simp add: filter_empty_conv)

text \<open>\<open>old\<close> is what pruning leaves of the earlier tombstones.\<close>

lemma deleted_then_restored:
  assumes inv: "gtd_inv s" and p: "p \<in> set (projects s)" "project_row scope i p" and fresh: "fresh_deletion d s"
    and window: "ts (now' - DeletionTombstoneRetention) \<le> ts now"
    and newest: "\<And>b. b \<in> set (tombstones s) \<Longrightarrow> tb_project b = Some i \<Longrightarrow> tb_deleted_at b < ts now"
  shows "\<exists>s'. restore_spec ts scope now' i by' (project_deleted ts scope now d i by s) =
      (Inr (p, length (project_task_ids scope i s)), s') \<and>
    mset (tasks s') = mset (tasks s) \<and> mset (projects s') = mset (projects s) \<and>
    tombstones s' = filter (\<lambda>b. ts (now - DeletionTombstoneRetention) \<le> tb_deleted_at b) (tombstones s)"
proof -
  let ?s = "project_deleted ts scope now d i by s"
  let ?old = "filter (\<lambda>b. ts (now - DeletionTombstoneRetention) \<le> tb_deleted_at b) (tombstones s)"
  let ?b = "project_tombstone d (ts now) by p"
  let ?mine = "filter (project_task scope i) (tasks s)"
  have ids: "distinct (map t_id (tasks s))" and pids: "distinct (map pj_id (projects s))" and names: "distinct (map pj_name (projects s))"
    using inv by (auto simp: gtd_inv_def)
  note row = the_project_row [OF pids p]
  have tombs: "tombstones ?s = ?old @ ?b # map (task_tombstone d (ts now) by) ?mine"
    using known_by_ids [OF ids, of scope i] by (simp add: deleted_tombstones row project_task_ids_def)
  have others: "\<And>x. x \<in> set (tombstones s) \<Longrightarrow> tb_deletion x \<noteq> d"
    using fresh by (auto simp: fresh_deletion_def)
  have pid: "pj_id p = i" and ok: "project_ok p" and scoped: "in_scope scope (pj_workspace p)"
    using p inv by (auto simp: project_row_def gtd_inv_project)
  have "filter (restorable scope i (ts (now' - DeletionTombstoneRetention))) (tombstones ?s) =
      filter (restorable scope i (ts (now' - DeletionTombstoneRetention))) ?old @ [?b]"
    using window pid scoped by (simp add: tombs restorable_def comp_def)
  then have found: "find_group scope i (ts (now' - DeletionTombstoneRetention)) ?s = Some ?b"
    unfolding find_group_def
    by (simp only:) (rule pick_best_last, auto simp: restorable_def dest!: newest)
  have group: "group_of d ?s = ?b # map (task_tombstone d (ts now) by) ?mine"
    using others by (simp add: group_of_def tombs comp_def)
  have pay: "payload_tasks (map (task_tombstone d (ts now) by) rows) = rows" for rows
    by (induction rows) simp_all
  have payback: "payload_tasks (group_of d ?s) = ?mine"
    by (simp add: group pay)
  have same: "restored_project p = p"
    using ok by (cases "pj_repo p") (auto simp: restored_project_def valid_repo_def project_ok_def text_of_def)
  have "q = p" if "q \<in> set (projects s)" "pj_id q = i \<or> pj_name q = pj_name p" for q
    using that p pid distinct_map_unique [OF pids] distinct_map_unique [OF names] by metis
  then have free: "\<not> list_ex (\<lambda>q. pj_id q = i \<or> pj_name q = pj_name p) (projects ?s)"
    using p by (auto simp: list_ex_iff deleted_tables)
  have "u = t" if "u \<in> set (tasks s)" "t \<in> set (tasks s)" "t_id u = t_id t" for u t
    using that distinct_map_unique [OF ids] by metis
  then have fresh_ids: "\<not> list_ex (\<lambda>t. known_task ?s (t_id t)) ?mine"
    by (auto simp: list_ex_iff known_task_def deleted_tables)
  have spec: "restore_spec ts scope now' i by' ?s = (Inr (p, length ?mine), restored ts scope now' d i by' p ?s)"
    using found free fresh_ids same by (simp add: restore_spec_def Let_def payback)
  have "tombstones (restored ts scope now' d i by' p ?s) = ?old"
    using others by (auto simp: restored_def Let_def tombs comp_def intro: filter_cong)
  moreover have "mset (tasks (restored ts scope now' d i by' p ?s)) = mset (tasks s)"
  proof -
    have "mset (tasks s) = mset ?mine + mset (filter (\<lambda>t. \<not> project_task scope i t) (tasks s))"
      by (simp add: multiset_partition)
    then show ?thesis by (simp add: restored_def Let_def payback deleted_tables)
  qed
  moreover have "mset (projects (restored ts scope now' d i by' p ?s)) = mset (projects s)"
  proof -
    have "mset (projects s) = mset (filter (project_row scope i) (projects s)) + mset (filter (\<lambda>p. \<not> project_row scope i p) (projects s))"
      by (simp add: multiset_partition)
    then show ?thesis by (simp add: restored_def Let_def same deleted_tables row)
  qed
  ultimately show ?thesis using spec by (auto simp: project_task_ids_def)
qed

lemma ts_mono: "a \<le> b \<Longrightarrow> sq_ts a \<le> sq_ts b" "a \<le> b \<Longrightarrow> pg_ts a \<le> pg_ts b"
  by (simp_all add: sq_ts_def pg_ts_def zdiv_mono1)

lemma sq_before_pg: "sq_ts t \<le> pg_ts t"
proof -
  have "t div 1000000 = t div 1000 div 1000" by (simp add: zdiv_zmult2_eq flip: zdiv_zmult2_eq)
  moreover have "(t div 1000) div 1000 * 1000 \<le> t div 1000"
    using div_mult_mod_eq [of "t div 1000" 1000] pos_mod_sign [of 1000 "t div 1000"] by linarith
  ultimately show ?thesis by (simp add: sq_ts_def pg_ts_def)
qed

text \<open>C26. Deleting a project and restoring it within 30 days, on either backend: if no newer tombstone of the
  same project exists, the project and all its tasks come back exactly as they were, the restore
  reports the same number of tasks as the delete, and the tombstones are what pruning left of the
  earlier ones.\<close>

theorem delete_restore_roundtrip:
  assumes "gtd_inv s" and "p \<in> set (projects s)" and "project_row scope i p" and "fresh_deletion d s"
    and "now' \<le> now + DeletionTombstoneRetention"
    and "\<And>b. b \<in> set (tombstones s) \<Longrightarrow> tb_project b = Some i \<Longrightarrow> tb_deleted_at b < sq_ts now"
  shows "\<forall>(ts, del, res) \<in> {(sq_ts, DeleteProjectExpecting, RestoreProject),
        (pg_ts, DeleteProjectExpecting_pg alone, RestoreProject_pg alone)}.
     let n = length (project_task_ids scope i s);
         (r, s1) = del no_fault scope now d i by [] s;
         (r', s2) = res no_fault scope now' i by' s1
     in r = Inr n \<and> r' = Inr (p, n) \<and> mset (tasks s2) = mset (tasks s) \<and> mset (projects s2) = mset (projects s) \<and>
        tombstones s2 = filter (\<lambda>b. ts (now - DeletionTombstoneRetention) \<le> tb_deleted_at b) (tombstones s)"
proof -
  have found: "list_ex (project_row scope i) (projects s)" using assms(2,3) by (auto simp: list_ex_iff)
  have uniq: "distinct (map t_id (tasks s))" using assms(1) by (simp add: gtd_inv_def)
  have le: "now' - DeletionTombstoneRetention \<le> now" using assms(5) by simp
  have newer: "\<And>b. b \<in> set (tombstones s) \<Longrightarrow> tb_project b = Some i \<Longrightarrow> tb_deleted_at b < pg_ts now"
    using assms(6) sq_before_pg [of now] by (meson less_le_trans)
  note del = DeleteProject_result [OF uniq found, of "[]" now d "by"]
  have spec: "gtd_inv (project_deleted ts scope now d i by s)" for ts
    by (rule project_deleted_inv [OF assms(1,4)])
  have res: "RestoreProject no_fault scope now' i by' t = restore_spec sq_ts scope now' i by' t \<and>
      RestoreProject_pg alone no_fault scope now' i by' t = restore_spec pg_ts scope now' i by' t" if "gtd_inv t" for t
    using restore_all_or_nothing [OF that lock_none, of no_fault sq_ts scope now' i by']
      restore_all_or_nothing [OF that lock_statement, of no_fault "''lock group''" pg_ts scope now' i by']
    by (simp add: RestoreProject_def RestoreProject_pg_def)
  from deleted_then_restored [where ts = sq_ts, OF assms(1-4) ts_mono(1) [OF le] assms(6), of by' "by"]
    deleted_then_restored [where ts = pg_ts, OF assms(1-4) ts_mono(2) [OF le] newer, of by' "by"]
  show ?thesis using del res [OF spec] by auto
qed

section \<open>The retention window\<close>

lemma group_pruned:
  assumes "groups_ok bs"
  shows "filter (\<lambda>b. tb_deletion b = g) (filter (\<lambda>b. cutoff \<le> tb_deleted_at b) bs) = filter (\<lambda>b. tb_deletion b = g) bs \<or>
    filter (\<lambda>b. tb_deletion b = g) (filter (\<lambda>b. cutoff \<le> tb_deleted_at b) bs) = [] \<and>
      (\<forall>b \<in> set bs. tb_deletion b = g \<longrightarrow> tb_deleted_at b < cutoff)"
proof (cases "\<exists>a \<in> set bs. tb_deletion a = g \<and> cutoff \<le> tb_deleted_at a")
  case True
  then obtain a where a: "a \<in> set bs" "tb_deletion a = g" "cutoff \<le> tb_deleted_at a" by blast
  have "cutoff \<le> tb_deleted_at b" if "b \<in> set bs" "tb_deletion b = g" for b
    using assms a that unfolding groups_ok_def by metis
  then have "filter (\<lambda>b. tb_deletion b = g) (filter (\<lambda>b. cutoff \<le> tb_deleted_at b) bs) = filter (\<lambda>b. tb_deletion b = g) bs"
    by (auto intro: filter_cong)
  then show ?thesis ..
next
  case False
  then show ?thesis by (auto simp: filter_empty_conv)
qed

definition group_survives :: "instant \<Rightarrow> uuid \<Rightarrow> gtd_db \<Rightarrow> gtd_db \<Rightarrow> bool" where
  "group_survives cutoff g s s' \<longleftrightarrow> group_of g s' = group_of g s \<or>
     group_of g s' = [] \<and> (\<forall>b \<in> set (group_of g s). tb_deleted_at b < cutoff)"

lemma survives_refl [simp]: "group_survives cutoff g s s"
  by (simp add: group_survives_def)

lemma survives_pruned:
  assumes "gtd_inv s" and "tombstones s' = filter (\<lambda>b. cutoff \<le> tb_deleted_at b) (tombstones s) @ new"
    and "\<And>b. b \<in> set new \<Longrightarrow> tb_deletion b \<noteq> g"
  shows "group_survives cutoff g s s'"
proof -
  have ok: "groups_ok (tombstones s)" using assms(1) by (simp add: gtd_inv_def)
  have "filter (\<lambda>b. tb_deletion b = g) new = []" using assms(3) by (simp add: filter_empty_conv)
  then show ?thesis
    using group_pruned [OF ok, of g cutoff] by (auto simp: group_survives_def group_of_def assms(2) simp del: filter_filter)
qed

text \<open>A tombstone group leaves the database whole and only by age: a delete of something else (whichever
  statement fails) and the daily pruning either keep all rows of a group or remove all of them, the
  latter only when they are older than 30 days before the delete, or than the cutoff; and a project
  whose tombstones are older than 30 days cannot be restored even while they are still stored.\<close>

theorem tombstone_retention:
  assumes "gtd_inv s" and "g \<noteq> d"
  shows "group_survives (sq_ts (now - DeletionTombstoneRetention)) g s (snd (DeleteTask fault scope now d j by s)) \<and>
    group_survives (sq_ts (now - DeletionTombstoneRetention)) g s (snd (DeleteProjectExpecting fault scope now d i by expected s)) \<and>
    group_survives (pg_ts (now - DeletionTombstoneRetention)) g s (snd (DeleteTask_pg alone fault scope now d j by s)) \<and>
    group_survives (pg_ts (now - DeletionTombstoneRetention)) g s
      (snd (DeleteProjectExpecting_pg alone fault scope now d i by expected s)) \<and>
    group_survives (sq_ts cutoff) g s (snd (PruneDeletionTombstones cutoff s)) \<and>
    group_survives (pg_ts cutoff) g s (snd (PruneDeletionTombstones_pg cutoff s)) \<and>
    ((\<forall>b \<in> set (tombstones s). is_project_tomb b \<and> tb_project b = Some i \<longrightarrow>
        tb_deleted_at b < sq_ts (now - DeletionTombstoneRetention)) \<longrightarrow>
      RestoreProject no_fault scope now i by s = (Inl GNotFound, s))"
proof (intro conjI impI)
  have uniq: "distinct (map t_id (tasks s))" using assms(1) by (simp add: gtd_inv_def)
  have gone: "group_survives (ts (now - DeletionTombstoneRetention)) g s (task_deleted ts scope now d j by s)" for ts
    by (rule survives_pruned [OF assms(1)]) (use assms(2) in \<open>auto simp: task_deleted_def\<close>)
  have task: "group_survives (ts (now - DeletionTombstoneRetention)) g s (snd r)"
    if "r = (Inr (), if b then task_deleted ts scope now d j by s else s) \<or> (\<exists>e n. r = (Inl e, s) \<and> fault n)"
    for r :: "(gtd_error + unit) \<times> gtd_db" and ts b
    using that gone by (cases b) auto
  show "group_survives (sq_ts (now - DeletionTombstoneRetention)) g s (snd (DeleteTask fault scope now d j by s))"
    using sqd.all_or_nothing [of d "by" now fault scope j s] unfolding DeleteTask_def by (rule task)
  show "group_survives (pg_ts (now - DeletionTombstoneRetention)) g s (snd (DeleteTask_pg alone fault scope now d j by s))"
    using pgd.all_or_nothing [of d "by" now fault scope j s] unfolding DeleteTask_pg_def by (rule task)
  have gone_p: "group_survives (ts (now - DeletionTombstoneRetention)) g s (project_deleted ts scope now d i by s)" for ts
    by (rule survives_pruned [OF assms(1) deleted_tombstones]) (use assms(2) in auto)
  have project: "group_survives (ts (now - DeletionTombstoneRetention)) g s (snd r)"
    if "r = (if \<not> list_ex (project_row scope i) (projects s) then (Inr 0, s)
       else if c then (Inl GProjectTasksChanged, s) else (Inr n, project_deleted ts scope now d i by s)) \<or>
       (\<exists>e n. r = (Inl e, s) \<and> fault n)"
    for r :: "(gtd_error + nat) \<times> gtd_db" and ts c n
    using that gone_p by (auto split: if_splits)
  show "group_survives (sq_ts (now - DeletionTombstoneRetention)) g s
      (snd (DeleteProjectExpecting fault scope now d i by expected s))"
    using sqp.all_or_nothing [OF uniq, of d "by" now expected fault scope i]
    unfolding DeleteProjectExpecting_def by (rule project)
  show "group_survives (pg_ts (now - DeletionTombstoneRetention)) g s
      (snd (DeleteProjectExpecting_pg alone fault scope now d i by expected s))"
    using pgp.all_or_nothing [OF uniq, of d "by" now expected fault scope i]
    unfolding DeleteProjectExpecting_pg_def by (rule project)
  show "group_survives (sq_ts cutoff) g s (snd (PruneDeletionTombstones cutoff s))"
    "group_survives (pg_ts cutoff) g s (snd (PruneDeletionTombstones_pg cutoff s))"
    by (rule survives_pruned [OF assms(1), where new = "[]"],
        simp_all add: PruneDeletionTombstones_def PruneDeletionTombstones_pg_def prune_tombstones_def not_less)+
  assume "\<forall>b \<in> set (tombstones s). is_project_tomb b \<and> tb_project b = Some i \<longrightarrow>
        tb_deleted_at b < sq_ts (now - DeletionTombstoneRetention)"
  then have "find_group scope i (sq_ts (now - DeletionTombstoneRetention)) s = None"
    by (auto simp: find_group_def filter_empty_conv restorable_def)
  then show "RestoreProject no_fault scope now i by s = (Inl GNotFound, s)"
    using restore_all_or_nothing [OF assms(1) lock_none, of no_fault sq_ts scope now i "by"]
    by (simp add: RestoreProject_def restore_spec_def)
qed

end
