(* ===== verification/Gtd_Begin.thy ===== *)
theory Gtd_Begin
  imports Gtd_Invariant
begin

text \<open>
  \<open>BeginTask\<close>: the contract a \<open>gtd.BeginTaskAdapter\<close> promises (locale \<open>begin_task\<close>), what the
  orchestration makes of it (the abstract rule \<open>begun\<close>), and both backends' adapters as instances.
  The stronger contract \<open>begin_task_complete\<close>, that no eligible row is missed, holds for SQLite and
  for a Postgres store with a workspace; a Postgres store without one breaks it.
\<close>

section \<open>The abstract operation\<close>

definition start_row :: "instant \<Rightarrow> task \<Rightarrow> task" where
  "start_row at t = t\<lparr>t_status := InProgress, t_updated := at\<rparr>"

definition started :: "(task \<Rightarrow> bool) \<Rightarrow> instant \<Rightarrow> activity \<Rightarrow> gtd_db \<Rightarrow> gtd_db" where
  "started guard at log s =
     s\<lparr>tasks := update_rows guard (start_row at) (tasks s), activity_log := activity_log s @ [log]\<rparr>"

text \<open>
  The five ends of a call, by what it saw and when: nothing in scope; already in progress; no
  owner; started (the guard held at the write); or blocked at the write.
\<close>

inductive begun :: "(nat \<Rightarrow> gtd_db \<Rightarrow> gtd_db) \<Rightarrow> (gtd_db \<Rightarrow> gtd_db) \<Rightarrow> (task \<Rightarrow> bool) \<Rightarrow> uuid option \<Rightarrow> instant \<Rightarrow> uuid
    \<Rightarrow> gtd_db \<Rightarrow> gtd_error + task \<Rightarrow> gtd_db \<Rightarrow> bool"
  for env after guard scope at i s where
  missing: "\<not> list_ex (task_row scope i) (tasks s) \<Longrightarrow> begun env after guard scope at i s (Inl GNotFound) s"
| already: "t \<in> set (tasks s) \<Longrightarrow> task_row scope i t \<Longrightarrow> t_status t = InProgress \<Longrightarrow>
     t_id u = i \<Longrightarrow> t_status u = InProgress \<Longrightarrow> begun env after guard scope at i s (Inr u) s"
| ownerless: "t \<in> set (tasks s) \<Longrightarrow> task_row scope i t \<Longrightarrow> t_status t \<noteq> InProgress \<Longrightarrow>
     TrimSpace (text_of (t_assignee t)) = [] \<Longrightarrow> begun env after guard scope at i s (Inl GAssigneeRequired) s"
| starts: "t \<in> set (tasks (env 0 s)) \<Longrightarrow> guard t \<Longrightarrow> s' = after (started guard at (begin_log_row scope at title) (env 0 s)) \<Longrightarrow>
     begun env after guard scope at i s r s'"
| blocked: "\<not> list_ex guard (tasks (env 0 s)) \<Longrightarrow> s' = env 1 (env 0 s) \<Longrightarrow>
     (\<And>u. r = Inr u \<Longrightarrow> t_status u = InProgress \<and> t_id u = i) \<Longrightarrow>
     (\<And>e. r = Inl e \<Longrightarrow> e = GNotFound \<or> e = GAssigneeRequired) \<Longrightarrow> begun env after guard scope at i s r s'"

section \<open>The adapter's contract\<close>

locale begin_task =
  fixes ad :: begin_adapter and scope :: "uuid option" and i :: uuid and at :: instant
    and guard :: "task \<Rightarrow> bool" and after :: "gtd_db \<Rightarrow> gtd_db"
  assumes read_row: "ba_read ad s = Inr (u, st) \<Longrightarrow>
      \<exists>t \<in> set (tasks s). task_row scope i t \<and> t_id u = i \<and> t_status u = t_status t \<and> t_assignee u = t_assignee t"
    and read_miss: "ba_read ad s = Inl e \<Longrightarrow> e = GNotFound \<and> \<not> list_ex (task_row scope i) (tasks s)"
    and guard_strict: "guard t \<Longrightarrow> t_id t = i \<and> t_status t \<noteq> InProgress \<and> assignee_clause InProgress t"
    and update_hit: "ba_guarded_update ad st s = (False, st', s') \<Longrightarrow>
      list_ex guard (tasks s) \<and> s' = s\<lparr>tasks := update_rows guard (start_row at) (tasks s)\<rparr>"
    and update_blocked: "ba_guarded_update ad st s = (True, st', s') \<Longrightarrow> \<not> list_ex guard (tasks s)"
    and resolve_Inr: "ba_resolve_blocked ad s = Inr u \<Longrightarrow> t_status u = InProgress \<and> t_id u = i"
    and resolve_Inl: "ba_resolve_blocked ad s = Inl e \<Longrightarrow> e = GNotFound \<or> e = GAssigneeRequired"
    and log_row: "\<exists>title. ba_log ad st s = s\<lparr>activity_log := activity_log s @ [begin_log_row scope at title]\<rparr>"
    and commit_db: "snd (ba_commit ad st s) = after s"
begin

lemma begun_run:
  assumes run: "BeginTaskOrchestration env ad s = (r, s')"
  shows "begun env after guard scope at i s r s'"
proof (cases "ba_read ad s")
  case (Inl e)
  with read_miss [OF Inl] run show ?thesis
    by (auto simp: BeginTaskOrchestration_def intro: begun.missing)
next
  case (Inr p)
  then obtain u st where p: "ba_read ad s = Inr (u, st)" by (cases p) auto
  from read_row [OF p] obtain t where t: "t \<in> set (tasks s)" "task_row scope i t" "t_id u = i"
    "t_status u = t_status t" "t_assignee u = t_assignee t" by blast
  show ?thesis
  proof (cases "t_status u = InProgress \<or> TrimSpace (text_of (t_assignee u)) = []")
    case True
    show ?thesis
    proof (cases "t_status u = InProgress")
      case True
      with run p have "r = Inr u" "s' = s" by (simp_all add: BeginTaskOrchestration_def)
      with True t show ?thesis by (auto intro: begun.already)
    next
      case False
      with True run p have "r = Inl GAssigneeRequired" "s' = s"
        by (simp_all add: BeginTaskOrchestration_def RequireAssigneeForInProgress_def)
      with True False t show ?thesis by (auto intro: begun.ownerless)
    qed
  next
    case False
    obtain b st' s2 where upd: "ba_guarded_update ad st (env 0 s) = (b, st', s2)"
      by (cases "ba_guarded_update ad st (env 0 s)") auto
    show ?thesis
    proof (cases b)
      case True
      with False run p upd have r: "r = ba_resolve_blocked ad s'" and s': "s' = env 1 (env 0 s)"
        by (auto simp: BeginTaskOrchestration_def RequireAssigneeForInProgress_def Let_def)
      from upd True have "\<not> list_ex guard (tasks (env 0 s))" by (simp add: update_blocked)
      then show ?thesis using s'
        by (rule begun.blocked) (use r in \<open>auto dest: resolve_Inr resolve_Inl\<close>)
    next
      case hit: False
      with upd have "list_ex guard (tasks (env 0 s))"
        and s2: "s2 = env 0 s\<lparr>tasks := update_rows guard (start_row at) (tasks (env 0 s))\<rparr>"
        using update_hit [of st "env 0 s" st' s2] by simp_all
      then obtain t where t: "t \<in> set (tasks (env 0 s))" "guard t" by (auto simp: list_ex_iff)
      obtain title where log: "ba_log ad st' s2 = s2\<lparr>activity_log := activity_log s2 @ [begin_log_row scope at title]\<rparr>"
        using log_row by blast
      from False hit run p upd log s2
      have "ba_commit ad st' (started guard at (begin_log_row scope at title) (env 0 s)) = (r, s')"
        by (simp add: BeginTaskOrchestration_def RequireAssigneeForInProgress_def started_def Let_def)
      then have "s' = after (started guard at (begin_log_row scope at title) (env 0 s))"
        using commit_db [of st' "started guard at (begin_log_row scope at title) (env 0 s)"] by simp
      with t show ?thesis by (rule begun.starts)
    qed
  qed
qed

lemma guard_ok: "guard t \<Longrightarrow> task_ok t \<Longrightarrow> task_ok (start_row at t)"
  using guard_strict by (auto simp: task_ok_def task_check_def start_row_def assignee_clause_iff)

lemma started_inv: "gtd_inv s \<Longrightarrow> gtd_inv (started guard at l s)"
proof -
  assume inv: "gtd_inv s"
  have "gtd_inv (s\<lparr>tasks := update_rows guard (start_row at) (tasks s)\<rparr>)"
    using inv by (intro gtd_inv_update_tasks) (simp_all add: gtd_inv_task guard_ok, simp add: start_row_def)
  then show ?thesis by (simp add: started_def)
qed

lemma begin_inv:
  assumes env: "rely env" and after: "\<And>s. gtd_inv s \<Longrightarrow> gtd_inv (after s)" and inv: "gtd_inv s"
  shows "gtd_inv (snd (BeginTaskOrchestration env ad s))"
proof -
  have "begun env after guard scope at i s (fst (BeginTaskOrchestration env ad s))
      (snd (BeginTaskOrchestration env ad s))"
    by (rule begun_run) simp
  then show ?thesis
    by cases (simp_all add: inv after started_inv relyD [OF env])
qed

end

locale begin_task_complete = begin_task +
  assumes complete: "begin_guard scope i t \<Longrightarrow> guard t"
    and answer: "\<lbrakk>gtd_inv s; t \<in> set (tasks s); guard t; ba_read ad s = Inr (u, st);
        ba_guarded_update ad st s = (False, st', s')\<rbrakk> \<Longrightarrow>
      ba_log ad st' s' = s'\<lparr>activity_log := activity_log s' @ [begin_log_row scope at (t_title t)]\<rparr> \<and>
      ba_commit ad st' (s'\<lparr>activity_log := l\<rparr>) = (Inr (start_row at t), s'\<lparr>activity_log := l\<rparr>)"
begin

text \<open>Alone, a call on an eligible row starts it and writes one log row; a second call changes nothing.\<close>

lemma starts_alone:
  assumes inv: "gtd_inv s" and t: "t \<in> set (tasks s)" "begin_guard scope i t"
  shows "BeginTaskOrchestration quiet ad s =
    (Inr (start_row at t), started (\<lambda>u. u = t) at (begin_log_row scope at (t_title t)) s)"
proof -
  have uniq: "u = t" if "u \<in> set (tasks s)" "t_id u = i" for u
    using that t inv by (intro distinct_map_unique [of t_id "tasks s"]) (simp_all add: gtd_inv_def task_row_def begin_guard_def)
  have gt: "guard t" using t by (simp add: complete)
  have "guard u \<longleftrightarrow> u = t" if "u \<in> set (tasks s)" for u
    using uniq [OF that] guard_strict [of u] gt by blast
  then have rows: "update_rows guard f (tasks s) = update_rows (\<lambda>u. u = t) f (tasks s)" for f
    by (auto simp: update_rows_def)
  obtain u st where read: "ba_read ad s = Inr (u, st)"
    using read_miss t by (cases "ba_read ad s") (fastforce simp: list_ex_iff begin_guard_def)+
  with read_row obtain t' where "t' \<in> set (tasks s)" "task_row scope i t'" "t_status u = t_status t'"
    "t_assignee u = t_assignee t'" by blast
  with uniq have u: "t_status u = t_status t" "t_assignee u = t_assignee t" by (auto simp: task_row_def)
  obtain b st' s' where upd: "ba_guarded_update ad st s = (b, st', s')"
    by (cases "ba_guarded_update ad st s") auto
  have b: "\<not> b" using upd update_blocked [of st s st' s'] gt t by (auto simp: list_ex_iff)
  with upd have s': "s' = s\<lparr>tasks := update_rows guard (start_row at) (tasks s)\<rparr>"
    using update_hit [of st s st' s'] by simp
  have log: "ba_log ad st' s' = s'\<lparr>activity_log := activity_log s' @ [begin_log_row scope at (t_title t)]\<rparr>"
    and commit: "ba_commit ad st' (s'\<lparr>activity_log := l\<rparr>) = (Inr (start_row at t), s'\<lparr>activity_log := l\<rparr>)" for l
    using answer [OF inv t(1) gt read] upd b by auto
  have elig: "t_status u \<noteq> InProgress" "RequireAssigneeForInProgress (text_of (t_assignee u)) InProgress = None"
    using t u by (simp_all add: begin_guard_def RequireAssignee_None assignee_clause_iff)
  show ?thesis
    using read elig upd b by (simp add: BeginTaskOrchestration_def Let_def log commit)
      (simp add: s' started_def rows)
qed

lemma starts_once:
  assumes inv: "gtd_inv s" and t: "t \<in> set (tasks s)" "begin_guard scope i t"
    and s': "s' = started (\<lambda>u. u = t) at log s" and read: "ba_read ad s' = Inr (u, st)"
  shows "BeginTaskOrchestration quiet ad s' = (Inr u, s')"
proof -
  from read_row [OF read] obtain t' where t': "t' \<in> set (tasks s')" "task_row scope i t'" "t_status u = t_status t'"
    by blast
  have "t' = t" if "t' \<in> set (tasks s)" "t_id t' = i"
    using that t inv by (intro distinct_map_unique [of t_id "tasks s"]) (simp_all add: gtd_inv_def task_row_def begin_guard_def)
  moreover have "t' = start_row at t \<or> t' \<in> set (tasks s) \<and> t' \<noteq> t"
    using t'(1) by (auto simp: s' started_def set_update_rows)
  ultimately have "t_status t' = InProgress"
    using t'(2) by (auto simp: task_row_def start_row_def)
  with t' read show ?thesis by (simp add: BeginTaskOrchestration_def)
qed

end

section \<open>The two adapters\<close>

lemma resolve_blocked_Inr:
  "resolve_blocked get s = Inr u \<Longrightarrow> get s = Inr u \<and> t_status u = InProgress"
  by (auto simp: resolve_blocked_def split: sum.splits if_splits option.splits)

lemma resolve_blocked_Inl:
  "resolve_blocked get s = Inl e \<Longrightarrow> get s = Inl e \<or> e = GNotFound \<or> e = GAssigneeRequired"
  by (auto simp: resolve_blocked_def RequireAssigneeForInProgress_def split: sum.splits if_splits option.splits)

lemma start_row_eq: "set_status InProgress now = start_row (sq_ts now)"
  "set_status_pg InProgress now = start_row (pg_ts now)"
  by (intro ext; simp add: set_status_def set_status_pg_def start_row_def)+

interpretation sqb: begin_task "sqlite_begin_adapter env scope now i" scope i "sq_ts now" "begin_guard scope i" "env 2"
proof
  show "\<exists>t \<in> set (tasks s). task_row scope i t \<and> t_id u = i \<and> t_status u = t_status t \<and> t_assignee u = t_assignee t"
    if "ba_read (sqlite_begin_adapter env scope now i) s = Inr (u, st)" for s u st
    using that by (auto simp: sqlite_begin_adapter_def task_row_def split: sum.splits dest!: taskByID_InrD)
  show "e = GNotFound \<and> \<not> list_ex (task_row scope i) (tasks s)"
    if "ba_read (sqlite_begin_adapter env scope now i) s = Inl e" for s e
    using that by (auto simp: sqlite_begin_adapter_def taskByID_Inl split: sum.splits)
  show "t_id t = i \<and> t_status t \<noteq> InProgress \<and> assignee_clause InProgress t" if "begin_guard scope i t" for t
    using that by (simp add: begin_guard_def task_row_def)
  show "t_status u = InProgress \<and> t_id u = i"
    if "ba_resolve_blocked (sqlite_begin_adapter env scope now i) s = Inr u" for s u
    using that by (auto simp: sqlite_begin_adapter_def task_row_def dest!: resolve_blocked_Inr taskByID_InrD)
  show "e = GNotFound \<or> e = GAssigneeRequired"
    if "ba_resolve_blocked (sqlite_begin_adapter env scope now i) s = Inl e" for s e
    using that by (auto simp: sqlite_begin_adapter_def taskByID_Inl dest!: resolve_blocked_Inl)
qed (auto simp: sqlite_begin_adapter_def start_row_eq reread_def Let_def)

lemma update_returning_Some:
  "update_returning hit f s = Some (t, s') \<Longrightarrow>
     \<exists>r. first_row hit (tasks s) = Some r \<and> t = f r \<and> s' = s\<lparr>tasks := update_rows hit f (tasks s)\<rparr>"
  by (auto simp: update_returning_def split: option.splits)

lemma update_returning_None: "update_returning hit f s = None \<longleftrightarrow> \<not> list_ex hit (tasks s)"
  by (auto simp: update_returning_def first_row_None list_ex_iff split: option.splits dest: first_row_Some)

interpretation pgb: begin_task "pg_begin_adapter scope now i" scope i "pg_ts now" "begin_guard_pg scope i" "\<lambda>s. s"
proof
  show "\<exists>t \<in> set (tasks s). task_row scope i t \<and> t_id u = i \<and> t_status u = t_status t \<and> t_assignee u = t_assignee t"
    if "ba_read (pg_begin_adapter scope now i) s = Inr (u, st)" for s u st
    using that by (auto simp: pg_begin_adapter_def getTaskByID_eq task_row_def split: sum.splits dest!: taskByID_InrD)
  show "e = GNotFound \<and> \<not> list_ex (task_row scope i) (tasks s)"
    if "ba_read (pg_begin_adapter scope now i) s = Inl e" for s e
    using that by (auto simp: pg_begin_adapter_def getTaskByID_eq taskByID_Inl split: sum.splits)
  show "t_id t = i \<and> t_status t \<noteq> InProgress \<and> assignee_clause InProgress t" if "begin_guard_pg scope i t" for t
    using that by (simp add: begin_guard_pg_def assignee_clause_def)
  show "list_ex (begin_guard_pg scope i) (tasks s) \<and>
        s' = s\<lparr>tasks := update_rows (begin_guard_pg scope i) (start_row (pg_ts now)) (tasks s)\<rparr>"
    if "ba_guarded_update (pg_begin_adapter scope now i) st s = (False, st', s')" for st s st' s'
    using that update_returning_None [of "begin_guard_pg scope i" "set_status_pg InProgress now" s]
    by (auto simp: pg_begin_adapter_def start_row_eq split: option.splits dest!: update_returning_Some)
  show "\<not> list_ex (begin_guard_pg scope i) (tasks s)"
    if "ba_guarded_update (pg_begin_adapter scope now i) st s = (True, st', s')" for st s st' s'
    using that by (auto simp: pg_begin_adapter_def update_returning_None split: option.splits)
  show "t_status u = InProgress \<and> t_id u = i"
    if "ba_resolve_blocked (pg_begin_adapter scope now i) s = Inr u" for s u
    using that by (auto simp: pg_begin_adapter_def getTaskByID_eq task_row_def split: sum.splits
        dest!: resolve_blocked_Inr taskByID_InrD)
  show "e = GNotFound \<or> e = GAssigneeRequired"
    if "ba_resolve_blocked (pg_begin_adapter scope now i) s = Inl e" for s e
    using that by (auto simp: pg_begin_adapter_def getTaskByID_eq taskByID_Inl split: sum.splits dest!: resolve_blocked_Inl)
qed (auto simp: pg_begin_adapter_def)

lemma update_started_row:
  assumes "gtd_inv s" "t \<in> set (tasks s)" "begin_guard scope i t"
  shows "taskByID scope i (s\<lparr>tasks := update_rows (begin_guard scope i) (start_row at) (tasks s), activity_log := l\<rparr>)
    = Inr (start_row at t)"
proof (rule taskByID_row)
  show "start_row at t \<in> set (tasks (s\<lparr>tasks := update_rows (begin_guard scope i) (start_row at) (tasks s), activity_log := l\<rparr>))"
    using assms by (auto simp: set_update_rows)
  show "task_row scope i (start_row at t)"
    using assms by (simp add: task_row_def begin_guard_def start_row_def)
  have "task_ok (start_row at u)" if "u \<in> set (tasks s)" "begin_guard scope i u" for u
    using that assms(1) gtd_inv_task [of s u] sqb.guard_ok [of scope i u] by (auto simp: task_ok_def task_check_def
        start_row_def assignee_clause_iff begin_guard_def)
  then show "gtd_inv (s\<lparr>tasks := update_rows (begin_guard scope i) (start_row at) (tasks s), activity_log := l\<rparr>)"
    using assms(1) gtd_inv_update_tasks [of s "start_row at" "begin_guard scope i"] by (simp add: gtd_inv_def start_row_def)
qed

interpretation sqbc: begin_task_complete "sqlite_begin_adapter quiet scope now i" scope i "sq_ts now"
    "begin_guard scope i" "quiet 2"
proof unfold_locales
  fix s t u st st' s' l
  assume h: "gtd_inv s" "t \<in> set (tasks s)" "begin_guard scope i t"
    "ba_read (sqlite_begin_adapter quiet scope now i) s = Inr (u, st)"
    "ba_guarded_update (sqlite_begin_adapter quiet scope now i) st s = (False, st', s')"
  then have st: "st' = Some t"
    using taskByID_row [of s t scope i] by (auto simp: sqlite_begin_adapter_def begin_guard_def split: sum.splits)
  have s': "s' = s\<lparr>tasks := update_rows (begin_guard scope i) (start_row (sq_ts now)) (tasks s)\<rparr>"
    using h(5) by (auto simp: sqlite_begin_adapter_def start_row_eq)
  show "ba_log (sqlite_begin_adapter quiet scope now i) st' s' =
      s'\<lparr>activity_log := activity_log s' @ [begin_log_row scope (sq_ts now) (t_title t)]\<rparr> \<and>
    ba_commit (sqlite_begin_adapter quiet scope now i) st' (s'\<lparr>activity_log := l\<rparr>) =
      (Inr (start_row (sq_ts now) t), s'\<lparr>activity_log := l\<rparr>)"
    unfolding s' st using h update_started_row [OF h(1-3)]
    by (simp add: sqlite_begin_adapter_def reread_def)
qed simp

interpretation pgbc: begin_task_complete "pg_begin_adapter (Some w) now i" "Some w" i "pg_ts now"
    "begin_guard_pg (Some w) i" "\<lambda>s. s"
proof unfold_locales
  show "begin_guard_pg (Some w) i t" if "begin_guard (Some w) i t" for t
    using that by (simp add: begin_guard_def begin_guard_pg_def task_row_def assignee_clause_def)
next
  fix s t u st st' s' l
  assume h: "gtd_inv s" "t \<in> set (tasks s)" "begin_guard_pg (Some w) i t"
    "ba_guarded_update (pg_begin_adapter (Some w) now i) st s = (False, st', s')"
  have "first_row (begin_guard_pg (Some w) i) (tasks s) = Some t"
  proof (cases "first_row (begin_guard_pg (Some w) i) (tasks s)")
    case None
    with h show ?thesis by (simp add: first_row_None)
  next
    case (Some r)
    then have "r \<in> set (tasks s)" "begin_guard_pg (Some w) i r" by (simp_all add: first_row_Some)
    with h have "r = t"
      by (intro distinct_map_unique [of t_id "tasks s"]) (simp_all add: gtd_inv_def begin_guard_pg_def)
    with Some show ?thesis by simp
  qed
  with h(4) have "st' = Some (start_row (pg_ts now) t)"
    by (simp add: pg_begin_adapter_def update_returning_def start_row_eq)
  then show "ba_log (pg_begin_adapter (Some w) now i) st' s' =
      s'\<lparr>activity_log := activity_log s' @ [begin_log_row (Some w) (pg_ts now) (t_title t)]\<rparr> \<and>
    ba_commit (pg_begin_adapter (Some w) now i) st' (s'\<lparr>activity_log := l\<rparr>) =
      (Inr (start_row (pg_ts now) t), s'\<lparr>activity_log := l\<rparr>)"
    by (simp add: pg_begin_adapter_def start_row_def)
qed

lemma started_read:
  assumes inv: "gtd_inv s" and t: "t \<in> set (tasks s)" "begin_guard scope i t"
  shows "taskByID scope i (started (\<lambda>u. u = t) at log s) = Inr (start_row at t)"
proof (rule taskByID_row)
  have "task_ok (start_row at t)"
    using inv t gtd_inv_task [of s t] by (auto simp: task_ok_def task_check_def start_row_def assignee_clause_iff begin_guard_def)
  then have "gtd_inv (s\<lparr>tasks := update_rows (\<lambda>u. u = t) (start_row at) (tasks s)\<rparr>)"
    using inv by (intro gtd_inv_update_tasks) (simp_all, simp add: start_row_def)
  then show "gtd_inv (started (\<lambda>u. u = t) at log s)" by (simp add: started_def)
qed (use t in \<open>auto simp: started_def set_update_rows task_row_def begin_guard_def start_row_def\<close>)

lemma BeginTask_starts:
  assumes "gtd_inv s" "t \<in> set (tasks s)" "begin_guard scope i t"
  shows "BeginTask quiet scope now i s = (Inr (start_row (sq_ts now) t),
      started (\<lambda>u. u = t) (sq_ts now) (begin_log_row scope (sq_ts now) (t_title t)) s)"
    and "BeginTask quiet scope later i (started (\<lambda>u. u = t) (sq_ts now) log s) =
      (Inr (start_row (sq_ts now) t), started (\<lambda>u. u = t) (sq_ts now) log s)"
  unfolding BeginTask_def using assms
  by (simp_all add: sqbc.starts_alone)
    (simp add: BeginTaskOrchestration_def sqlite_begin_adapter_def started_read, simp add: start_row_def)

lemma BeginTask_pg_starts:
  assumes "gtd_inv s" "t \<in> set (tasks s)" "begin_guard (Some w) i t"
  shows "BeginTask_pg quiet (Some w) now i s = (Inr (start_row (pg_ts now) t),
      started (\<lambda>u. u = t) (pg_ts now) (begin_log_row (Some w) (pg_ts now) (t_title t)) s)"
    and "BeginTask_pg quiet (Some w) later i (started (\<lambda>u. u = t) (pg_ts now) log s) =
      (Inr (no_vision (start_row (pg_ts now) t)), started (\<lambda>u. u = t) (pg_ts now) log s)"
  unfolding BeginTask_pg_def using assms
  by (simp_all add: pgbc.starts_alone)
    (simp add: BeginTaskOrchestration_def pg_begin_adapter_def getTaskByID_eq started_read, simp add: start_row_def)

lemma BeginTask_inv: "rely env \<Longrightarrow> gtd_inv s \<Longrightarrow> gtd_inv (snd (BeginTask env scope now i s))"
  unfolding BeginTask_def by (rule sqb.begin_inv) (simp_all add: relyD)

lemma BeginTask_pg_inv: "rely env \<Longrightarrow> gtd_inv s \<Longrightarrow> gtd_inv (snd (BeginTask_pg env scope now i s))"
  unfolding BeginTask_pg_def by (rule pgb.begin_inv) simp_all

section \<open>Properties\<close>

text \<open>
  C17. On both backends, and whatever other connections do between its statements, \<open>BeginTask\<close>
  ends in one of the five ways of \<open>begun\<close>: it writes nothing unless the guard (not yet in
  progress, owner not blank) holds on the row at the instant of the write, and a successful
  start is exactly one status change and exactly one \<open>work_session_started\<close> row.
\<close>

theorem begin_task_refines:
  "begun env (env 2) (begin_guard scope i) scope (sq_ts now) i s
     (fst (BeginTask env scope now i s)) (snd (BeginTask env scope now i s)) \<and>
   begun env (\<lambda>s. s) (begin_guard_pg scope i) scope (pg_ts now) i s
     (fst (BeginTask_pg env scope now i s)) (snd (BeginTask_pg env scope now i s))"
  unfolding BeginTask_def BeginTask_pg_def
  by (intro conjI sqb.begun_run pgb.begun_run) simp_all


text \<open>
  A Postgres store without a workspace can read a task of any workspace but never start one:
  an owned task that is not in progress is reported as not found, where the SQLite store with the
  same (absent) scope starts it.
\<close>

theorem begin_task_unscoped_postgres:
  assumes "gtd_inv s" "t \<in> set (tasks s)" "begin_guard None i t" "t_workspace t \<noteq> Some 0"
  shows "getTaskByID None i s = Inr (no_vision t) \<and>
    BeginTask_pg quiet None now i s = (Inl GNotFound, s) \<and>
    BeginTask quiet None now i s = (Inr (start_row (sq_ts now) t),
      started (\<lambda>u. u = t) (sq_ts now) (begin_log_row None (sq_ts now) (t_title t)) s)"
proof -
  have read: "getTaskByID None i s = Inr (no_vision t)"
    using assms by (simp add: getTaskByID_eq taskByID_row begin_guard_def)
  have "u = t" if "u \<in> set (tasks s)" "t_id u = i" for u
    using that assms by (intro distinct_map_unique [of t_id "tasks s"]) (simp_all add: gtd_inv_def task_row_def begin_guard_def)
  then have "update_returning (begin_guard_pg None i) f s = None" for f
    using assms by (auto simp: update_returning_None list_ex_iff begin_guard_pg_def)
  then have "BeginTask_pg quiet None now i s = (Inl GNotFound, s)"
    using read assms
    by (simp add: BeginTask_pg_def BeginTaskOrchestration_def pg_begin_adapter_def resolve_blocked_def
        begin_guard_def RequireAssigneeForInProgress_def assignee_clause_iff)
  with read BeginTask_starts(1) [OF assms(1-3)] show ?thesis by simp
qed

end
