(* ===== verification/Gtd_Reach.thy ===== *)
theory Gtd_Reach
  imports Gtd_Roundtrip Gtd_Begin
begin

text \<open>
  The GTD database under any sequence of operations of either backend, starting empty: the invariant
  holds in every reachable state, and no task or project row is ever lost: it is still there or kept
  whole in a tombstone.
\<close>

section \<open>Steps\<close>

definition empty_gtd :: gtd_db where
  "empty_gtd = \<lparr>tasks = [], projects = [], activity_log = [], work_sessions = [], session_tasks = [], evidence = [], candidates = [],
     vision_items = [], decisions = [], knowledge_items = [], handoffs = [], procedural = [], tombstones = []\<rparr>"

inductive edit_step :: "gtd_db \<Rightarrow> gtd_db \<Rightarrow> bool" where
  create_task: "edit_step s (snd (CreateTask quiet scope now nid p s))"
| create_task_pg: "edit_step s (snd (CreateTask_pg scope now nid p s))"
| create_project: "edit_step s (snd (CreateProject quiet scope now nid q s))"
| status: "edit_step s (snd (UpdateTaskStatus quiet scope now i st s))"
| status_pg: "edit_step s (snd (UpdateTaskStatus_pg quiet scope now i st s))"
| guarded: "edit_step s (snd (UpdateTaskStatusGuarded quiet scope now i st expected s))"
| guarded_pg: "edit_step s (snd (UpdateTaskStatusGuarded_pg quiet scope now i st expected s))"
| complete: "edit_step s (snd (CompleteTask quiet scope now i artifact s))"
| complete_pg: "edit_step s (snd (CompleteTask_pg scope now i artifact s))"
| start: "edit_step s (snd (BeginTask quiet scope now i s))"
| start_pg: "edit_step s (snd (BeginTask_pg quiet scope now i s))"
| batch: "edit_step s (snd (BatchCompleteTasksByPRMatch fails scope now ms s))"
| batch_pg: "edit_step s (snd (BatchCompleteTasksByPRMatch_pg fails scope now ms s))"
| update: "edit_step s (snd (UpdateTask quiet scope now i u s))"
| update_pg: "edit_step s (snd (UpdateTask_pg quiet scope now i u s))"
| update_project: "edit_step s (snd (UpdateProject quiet scope now i v s))"
| project_status: "edit_step s (snd (UpdateProjectStatus quiet scope now i pst s))"

inductive gtd_step :: "gtd_db \<Rightarrow> gtd_db \<Rightarrow> bool" where
  edit: "edit_step s s' \<Longrightarrow> gtd_step s s'"
| delete_task: "fresh_deletion d s \<Longrightarrow> gtd_step s (snd (DeleteTask fault scope now d i actor s))"
| delete_task_pg: "fresh_deletion d s \<Longrightarrow> gtd_step s (snd (DeleteTask_pg alone fault scope now d i actor s))"
| delete_project: "fresh_deletion d s \<Longrightarrow> gtd_step s (snd (DeleteProjectExpecting fault scope now d i actor expected s))"
| delete_project_pg: "fresh_deletion d s \<Longrightarrow> gtd_step s (snd (DeleteProjectExpecting_pg alone fault scope now d i actor expected s))"
| restore: "gtd_step s (snd (RestoreProject fault scope now i actor s))"
| restore_pg: "gtd_step s (snd (RestoreProject_pg alone fault scope now i actor s))"
| prune: "gtd_step s (snd (PruneDeletionTombstones cutoff s))"
| prune_pg: "gtd_step s (snd (PruneDeletionTombstones_pg cutoff s))"

inductive gtd_reach :: "gtd_db \<Rightarrow> bool" where
  init: "gtd_reach empty_gtd"
| step: "gtd_reach s \<Longrightarrow> gtd_step s s' \<Longrightarrow> gtd_reach s'"

section \<open>Rows are kept\<close>

definition keeps_rows :: "gtd_db \<Rightarrow> gtd_db \<Rightarrow> bool" where
  "keeps_rows s s' \<longleftrightarrow> (\<exists>ts ps. map t_id (tasks s') = map t_id (tasks s) @ ts \<and> map pj_id (projects s') = map pj_id (projects s) @ ps) \<and>
     work_sessions s' = work_sessions s \<and> session_tasks s' = session_tasks s \<and> evidence s' = evidence s"

named_theorems row_kept \<open>operations that keep every row and do not write the session tables\<close>

lemma keeps_rows_refl [row_kept]: "keeps_rows s s"
  by (simp add: keeps_rows_def)

lemma keeps_rows_trans: "keeps_rows s u \<Longrightarrow> keeps_rows u v \<Longrightarrow> keeps_rows s v"
  by (auto simp: keeps_rows_def)

lemma keeps_tasks [row_kept]:
  "(\<And>t. t_id (f t) = t_id t) \<Longrightarrow> keeps_rows s (s\<lparr>tasks := update_rows P f (tasks s)\<rparr>)"
  "(\<And>t. t_id (f t) = t_id t) \<Longrightarrow> keeps_rows s (s\<lparr>tasks := update_rows P f (tasks s), activity_log := l\<rparr>)"
  "keeps_rows s (s\<lparr>tasks := tasks s @ ts\<rparr>)"
  by (simp_all add: keeps_rows_def map_update_rows)

lemma keeps_projects [row_kept]:
  "(\<And>p. pj_id (f p) = pj_id p) \<Longrightarrow> keeps_rows s (s\<lparr>projects := update_rows P f (projects s)\<rparr>)"
  "keeps_rows s (s\<lparr>projects := projects s @ ps\<rparr>)"
  by (simp_all add: keeps_rows_def map_update_rows)

lemma keeps_returning [row_kept]:
  "update_returning hit f s = Some (t, s') \<Longrightarrow> (\<And>t. t_id (f t) = t_id t) \<Longrightarrow> keeps_rows s s'"
  by (auto simp: update_returning_def row_kept split: option.splits)

lemma keeps_batch:
  "batch_close fails scope now n ms (applied, s) = Inr (applied', s') \<Longrightarrow> keeps_rows s s'"
proof (induction ms arbitrary: n applied s)
  case (Cons m ms)
  let ?s = "s\<lparr>tasks := update_rows (close_hit scope m) (close_row now m) (tasks s),
    activity_log := activity_log s @ [close_log_row scope now m]\<rparr>"
  have "keeps_rows s ?s" by (simp add: row_kept)
  with Cons show ?case by (auto split: if_splits intro: keeps_rows_trans)
qed (auto simp: row_kept split: if_splits)

lemma keeps_batch_pg: "keeps_rows s (snd (apply_matches_pg fails scope now n ms (applied, pending, s)))"
proof (induction ms arbitrary: n applied pending s)
  case (Cons m ms)
  let ?s = "s\<lparr>tasks := update_rows (close_hit scope m) (close_row now m) (tasks s)\<rparr>"
  have later: "keeps_rows s (snd (apply_matches_pg fails scope now k ms (xs, rows, ?s)))" for k xs rows
    by (rule keeps_rows_trans [OF _ Cons]) (simp add: row_kept)
  show ?case by (simp add: Let_def row_kept Cons later)
qed (simp add: keeps_rows_def)

lemma edit_keeps_rows: "edit_step s s' \<Longrightarrow> keeps_rows s s'"
proof (induction rule: edit_step.induct)
  case (create_task s scope now nid p)
  then show ?case
    by (auto simp: CreateTask_def CreateTaskTx_def Let_def row_kept split: sum.splits if_splits)
next
  case (create_task_pg s scope now nid p)
  then show ?case by (auto simp: CreateTask_pg_def Let_def row_kept split: sum.splits)
next
  case (create_project s scope now nid q)
  then show ?case by (auto simp: CreateProject_def Let_def row_kept)
next
  case (status s scope now i st)
  then show ?case by (auto simp: UpdateTaskStatus_def Let_def reread_def row_kept split: option.splits)
next
  case (status_pg s scope now i st)
  then show ?case by (auto simp: UpdateTaskStatus_pg_def Let_def row_kept elim!: keeps_returning split: option.splits)
next
  case (guarded s scope now i st expected)
  then show ?case by (auto simp: UpdateTaskStatusGuarded_def Let_def reread_def row_kept split: option.splits)
next
  case (guarded_pg s scope now i st expected)
  then show ?case by (auto simp: UpdateTaskStatusGuarded_pg_def Let_def row_kept elim!: keeps_returning split: option.splits)
next
  case (complete s scope now i artifact)
  then show ?case by (auto simp: CompleteTask_def Let_def reread_def row_kept)
next
  case (complete_pg s scope now i artifact)
  then show ?case by (auto simp: CompleteTask_pg_def row_kept elim!: keeps_returning split: option.splits)
next
  case (start s scope now i)
  then show ?case
    by (auto simp: BeginTask_def BeginTaskOrchestration_def sqlite_begin_adapter_def Let_def reread_def row_kept split: sum.splits option.splits)
next
  case (start_pg s scope now i)
  then show ?case
    by (auto simp: BeginTask_pg_def BeginTaskOrchestration_def pg_begin_adapter_def Let_def update_returning_def row_kept
        split: sum.splits option.splits)
next
  case (batch s fails scope now ms)
  then show ?case by (auto simp: BatchCompleteTasksByPRMatch_def row_kept dest: keeps_batch split: sum.splits)
next
  case (batch_pg s fails scope now ms)
  then show ?case by (simp add: BatchCompleteTasksByPRMatch_pg_def row_kept keeps_batch_pg)
next
  case (update s scope now i u)
  then show ?case by (auto simp: UpdateTask_def Let_def reread_def row_kept split: sum.splits option.splits)
next
  case (update_pg s scope now i u)
  then show ?case by (auto simp: UpdateTask_pg_def Let_def row_kept elim!: keeps_returning split: sum.splits option.splits)
next
  case (update_project s scope now i v)
  then show ?case by (auto simp: UpdateProject_def Let_def row_kept split: option.splits)
next
  case (project_status s scope now i pst)
  then show ?case by (auto simp: UpdateProjectStatus_def Let_def row_kept)
qed

lemma edit_keeps_inv: "edit_step s s' \<Longrightarrow> gtd_inv s \<Longrightarrow> gtd_inv s'"
  by (cases rule: edit_step.cases)
    (auto intro: CreateTask_inv CreateTask_pg_inv CreateProject_inv UpdateTaskStatus_inv UpdateTaskStatus_pg_inv
      UpdateTaskStatusGuarded_inv UpdateTaskStatusGuarded_pg_inv CompleteTask_inv CompleteTask_pg_inv BeginTask_inv
      BeginTask_pg_inv BatchClose_inv BatchClose_pg_inv UpdateTask_inv UpdateTask_pg_inv UpdateProject_inv
      UpdateProjectStatus_inv)

section \<open>The invariant, and no row lost\<close>

definition nothing_lost :: "gtd_db \<Rightarrow> gtd_db \<Rightarrow> bool" where
  "nothing_lost s s' \<longleftrightarrow>
     (\<forall>t \<in> set (tasks s). known_task s' (t_id t) \<or> PayTask t \<in> tb_payload ` set (tombstones s')) \<and>
     (\<forall>p \<in> set (projects s). known_project s' (pj_id p) \<or> PayProject p \<in> tb_payload ` set (tombstones s'))"

lemma nothing_lost_kept: "keeps_rows s s' \<Longrightarrow> nothing_lost s s'"
  unfolding keeps_rows_def nothing_lost_def known_task_def known_project_def
  by (metis UnI1 image_eqI image_set set_append)

lemma nothing_lost_refl: "nothing_lost s s"
  by (simp add: nothing_lost_kept row_kept)

lemma task_deleted_kept: "nothing_lost s (task_deleted ts scope now d i by s)"
  by (auto simp: nothing_lost_def known_task_def known_project_def task_deleted_def image_Un image_image)

lemma project_deleted_kept:
  assumes "distinct (map t_id (tasks s))"
  shows "nothing_lost s (project_deleted ts scope now d i by s)"
  using known_by_ids [OF assms, of scope i]
  by (auto simp: nothing_lost_def known_task_def known_project_def deleted_tables deleted_tombstones image_Un image_image
      project_task_ids_def)

lemma restored_kept: "restore_spec ts scope now i by s = (r, s') \<Longrightarrow> nothing_lost s s'"
  by (auto simp: restore_spec_def restored_def Let_def nothing_lost_def known_task_def known_project_def
      split: option.splits payload.splits if_splits)

lemma restored_keeps_inv: "restore_spec ts scope now i by s = (r, s') \<Longrightarrow> gtd_inv s \<Longrightarrow> gtd_inv s'"
  using restored_inv [of s ts scope now i "by"]
  by (cases r) (auto simp: restore_spec_def Let_def split: option.splits payload.splits if_splits)

lemma step_ok:
  assumes "gtd_step s s'" and inv: "gtd_inv s"
  shows "gtd_inv s' \<and> nothing_lost s s'"
  using assms(1)
proof cases
  case edit
  then show ?thesis using inv by (simp add: edit_keeps_inv nothing_lost_kept edit_keeps_rows)
next
  case (delete_task d fault scope now i actor)
  then show ?thesis
    using sqd.all_or_nothing [of d actor now fault scope i s] inv
    by (auto simp: DeleteTask_def task_deleted_inv task_deleted_kept nothing_lost_refl)
next
  case (delete_task_pg d fault scope now i actor)
  then show ?thesis
    using pgd.all_or_nothing [of d actor now fault scope i s] inv
    by (auto simp: DeleteTask_pg_def task_deleted_inv task_deleted_kept nothing_lost_refl)
next
  case (delete_project d fault scope now i actor expected)
  then show ?thesis
    using sqp.all_or_nothing [OF gtd_inv_parts(6) [OF inv], of d actor now expected fault scope i] inv gtd_inv_parts(6) [OF inv]
    by (auto simp: DeleteProjectExpecting_def project_deleted_inv project_deleted_kept nothing_lost_refl split: if_splits)
next
  case (delete_project_pg d fault scope now i actor expected)
  then show ?thesis
    using pgp.all_or_nothing [OF gtd_inv_parts(6) [OF inv], of d actor now expected fault scope i] inv gtd_inv_parts(6) [OF inv]
    by (auto simp: DeleteProjectExpecting_pg_def project_deleted_inv project_deleted_kept nothing_lost_refl split: if_splits)
next
  case (restore fault scope now i actor)
  obtain r u where spec: "restore_spec sq_ts scope now i actor s = (r, u)" by force
  show ?thesis
    using restore restore_all_or_nothing [OF inv lock_none, of fault sq_ts scope now i actor]
      restored_kept [OF spec] restored_keeps_inv [OF spec] spec inv
    by (auto simp: RestoreProject_def nothing_lost_refl)
next
  case (restore_pg fault scope now i actor)
  obtain r u where spec: "restore_spec pg_ts scope now i actor s = (r, u)" by force
  show ?thesis
    using restore_pg restore_all_or_nothing [OF inv lock_statement, of fault "''lock group''" pg_ts scope now i actor]
      restored_kept [OF spec] restored_keeps_inv [OF spec] spec inv
    by (auto simp: RestoreProject_pg_def nothing_lost_refl)
next
  case (prune cutoff)
  then show ?thesis using inv
    by (simp add: PruneDeletionTombstones_def prune_inv) (auto simp: nothing_lost_def known_task_def known_project_def prune_tombstones_def)
next
  case (prune_pg cutoff)
  then show ?thesis using inv
    by (simp add: PruneDeletionTombstones_pg_def prune_inv) (auto simp: nothing_lost_def known_task_def known_project_def prune_tombstones_def)
qed

lemma reach_inv: "gtd_reach s \<Longrightarrow> gtd_inv s"
proof (induction rule: gtd_reach.induct)
  case init
  then show ?case by (simp add: gtd_inv_def empty_gtd_def groups_ok_def)
next
  case (step s s')
  then show ?case by (simp add: step_ok)
qed


end
