(* ===== verification/Session_Invariant.thy ===== *)
theory Session_Invariant
  imports Session_Stores Gtd_Reach
begin

text \<open>
  The invariant of the session tables, the moves a session row can make, and their preservation by
  every operation of both stores under interference that keeps them too, together with the invariant
  of the task tables the operations also write.

  \<open>owners_named\<close> is the one thing the task tables must satisfy beyond their own invariant: no stored
  assignee consists of white space other than plain spaces.
\<close>

section \<open>The invariant\<close>

definition session_ok :: "work_session \<Rightarrow> bool" where
  "session_ok r \<longleftrightarrow> session_check r \<and> ValidRepoPath (wk_repo r) \<and> wk_title r \<noteq> [] \<and> wk_goal r \<noteq> [] \<and>
     wk_started r \<noteq> None \<and> wk_status r \<in> {SessionActive, Checkpointed, SessionDone} \<and>
     (wk_status r = SessionActive \<longrightarrow> wk_checkpoint r = None) \<and>
     (wk_status r = Checkpointed \<longrightarrow> wk_checkpoint r \<noteq> None) \<and>
     (wk_status r = SessionDone \<longleftrightarrow> wk_completed r \<noteq> None) \<and>
     (wk_status r \<noteq> SessionDone \<longrightarrow> wk_summary r = None \<and> wk_verification r = None \<and> wk_result r = None) \<and>
     (\<forall>b. wk_branch r = Some b \<longrightarrow> one_line b) \<and> (\<forall>c. wk_command r = Some c \<longrightarrow> one_line c) \<and>
     (\<forall>x. wk_excerpt r = Some x \<longrightarrow> length x \<le> EvidenceOutputExcerptCap)"

definition evidence_ok :: "session_evidence \<Rightarrow> bool" where
  "evidence_ok e \<longleftrightarrow> evidence_check e \<and> (\<forall>c. we_command e = Some c \<longrightarrow> one_line c) \<and>
     (\<forall>x. we_excerpt e = Some x \<longrightarrow> length x \<le> EvidenceOutputExcerptCap)"

definition repo_key :: "work_session \<Rightarrow> uuid \<times> ustr" where
  "repo_key r = (wk_workspace r, wk_repo r)"

definition is_running :: "work_session \<Rightarrow> bool" where
  "is_running r \<longleftrightarrow> wk_status r = SessionActive"

definition link_key :: "session_task \<Rightarrow> uuid \<times> uuid" where
  "link_key l = (st_session l, st_task l)"

definition session_inv :: "gtd_db \<Rightarrow> bool" where
  "session_inv s \<longleftrightarrow> distinct (map wk_id (work_sessions s)) \<and>
     distinct (map repo_key (filter is_running (work_sessions s))) \<and> list_all session_ok (work_sessions s) \<and>
     distinct (map link_key (session_tasks s)) \<and> list_all (\<lambda>l. st_role l \<in> set link_roles) (session_tasks s) \<and>
     distinct (map we_id (evidence s)) \<and> list_all evidence_ok (evidence s)"

definition owner_named :: "task \<Rightarrow> bool" where
  "owner_named t \<longleftrightarrow> (\<forall>a. t_assignee t = Some a \<longrightarrow> sql_trim_spaces a \<noteq> [] \<longrightarrow> TrimSpace a \<noteq> [])"

definition owners_named :: "gtd_db \<Rightarrow> bool" where
  "owners_named s \<longleftrightarrow> list_all owner_named (tasks s)"

definition all_inv :: "gtd_db \<Rightarrow> bool" where
  "all_inv s \<longleftrightarrow> gtd_inv s \<and> session_inv s \<and> owners_named s"

section \<open>How a session row moves\<close>

definition fixed_part :: "work_session \<Rightarrow> (uuid \<times> uuid \<times> ustr) \<times> (ustr \<times> ustr \<times> string) \<times> uuid option \<times> instant option \<times> instant
    \<times> ustr option" where
  "fixed_part r = ((wk_id r, wk_workspace r, wk_repo r), (wk_title r, wk_goal r, wk_source r), wk_plan r, wk_started r,
     wk_created r, wk_branch r)"

definition closing_part :: "work_session \<Rightarrow> instant option \<times> ustr option \<times> string option \<times> ustr option \<times> ustr option \<times> string option" where
  "closing_part r = (wk_completed r, wk_summary r, wk_verification r, wk_command r, wk_excerpt r, wk_result r)"

definition status_moves :: "session_status \<Rightarrow> session_status \<Rightarrow> bool" where
  "status_moves a b \<longleftrightarrow> a = b \<or> (a = SessionActive \<and> b \<in> {Checkpointed, SessionDone}) \<or> (a = Checkpointed \<and> b = SessionDone)"

definition row_moves :: "work_session \<Rightarrow> work_session \<Rightarrow> bool" where
  "row_moves r r' \<longleftrightarrow> fixed_part r' = fixed_part r \<and> status_moves (wk_status r) (wk_status r') \<and>
     (wk_status r = SessionDone \<longrightarrow> closing_part r' = closing_part r)"

definition session_moves :: "gtd_db \<Rightarrow> gtd_db \<Rightarrow> bool" where
  "session_moves s s' \<longleftrightarrow> (\<forall>r \<in> set (work_sessions s). \<exists>r' \<in> set (work_sessions s'). row_moves r r')"

lemma row_moves_refl: "row_moves r r"
  by (simp add: row_moves_def status_moves_def)

lemma row_moves_trans: "row_moves r u \<Longrightarrow> row_moves u v \<Longrightarrow> row_moves r v"
  by (auto simp: row_moves_def status_moves_def)

lemma session_moves_refl: "session_moves s s"
  by (auto simp: session_moves_def intro: row_moves_refl)

lemma session_moves_trans: "session_moves s u \<Longrightarrow> session_moves u v \<Longrightarrow> session_moves s v"
  unfolding session_moves_def using row_moves_trans by meson

lemma session_moves_same: "work_sessions s' = work_sessions s \<Longrightarrow> session_moves s s'"
  by (auto simp: session_moves_def intro: row_moves_refl)

lemma session_moves_update:
  assumes "\<And>r. r \<in> set (work_sessions s) \<Longrightarrow> P r \<Longrightarrow> row_moves r (f r)"
    and "work_sessions s' = update_rows P f (work_sessions s)"
  shows "session_moves s s'"
  unfolding session_moves_def
proof
  fix r
  assume r: "r \<in> set (work_sessions s)"
  show "\<exists>r' \<in> set (work_sessions s'). row_moves r r'"
    using assms r by (intro bexI [of _ "if P r then f r else r"]) (auto simp: row_moves_refl set_update_rows)
qed

section \<open>Good steps\<close>

text \<open>A step is good when it keeps the invariant and moves sessions only forward.\<close>

definition good :: "gtd_db \<Rightarrow> gtd_db \<Rightarrow> bool" where
  "good s s' \<longleftrightarrow> (all_inv s \<longrightarrow> all_inv s' \<and> session_moves s s')"

definition ws_rely :: "ws_env \<Rightarrow> bool" where
  "ws_rely env \<longleftrightarrow> (\<forall>p s. good s (env p s))"

definition calm :: ws_env where
  "calm p s = s"

named_theorems goods \<open>good steps\<close>

lemma good_refl [goods]: "good s s"
  by (simp add: good_def session_moves_refl)

lemma good_trans: "good s u \<Longrightarrow> good u v \<Longrightarrow> good s v"
  unfolding good_def using session_moves_trans by blast

lemma good_env [goods]: "ws_rely env \<Longrightarrow> good s (env p s)"
  by (simp add: ws_rely_def)

lemma good_after_env: "ws_rely env \<Longrightarrow> good (env p s) s' \<Longrightarrow> good s s'"
  using good_trans good_env by blast

lemma calm_simp [simp]: "calm p s = s"
  by (simp add: calm_def)

lemma rely_calm [simp]: "ws_rely calm"
  by (simp add: ws_rely_def goods)

lemma running_keys_update:
  assumes "\<And>r. P r \<Longrightarrow> repo_key (f r) = repo_key r" and "\<And>r. P r \<Longrightarrow> is_running (f r) \<Longrightarrow> is_running r"
  shows "distinct (map repo_key (filter is_running rows)) \<Longrightarrow>
      distinct (map repo_key (filter is_running (update_rows P f rows)))"
proof (induction rows)
  case (Cons r rows)
  have sub: "repo_key ` {r \<in> set (update_rows P f rows). is_running r} \<subseteq> repo_key ` {r \<in> set rows. is_running r}"
  proof
    fix k
    assume "k \<in> repo_key ` {r \<in> set (update_rows P f rows). is_running r}"
    then obtain r' where "r' \<in> set (update_rows P f rows)" "is_running r'" "k = repo_key r'" by auto
    then consider r where "r \<in> set rows" "P r" "r' = f r" | "r' \<in> set rows" by (auto simp: set_update_rows)
    then show "k \<in> repo_key ` {r \<in> set rows. is_running r}"
      using assms \<open>is_running r'\<close> \<open>k = repo_key r'\<close> by cases (auto intro!: image_eqI)
  qed
  have "repo_key r \<notin> repo_key ` {r \<in> set (update_rows P f rows). is_running r}" if "is_running r"
    using Cons.prems that sub by auto
  then show ?case
    using Cons assms [of r] by (auto split: if_splits)
qed simp

lemma good_update_sessions:
  assumes "\<And>r. P r \<Longrightarrow> row_moves r (f r)"
    and "\<And>r. r \<in> set (work_sessions s) \<Longrightarrow> session_ok r \<Longrightarrow> P r \<Longrightarrow> session_ok (f r)"
  shows "good s (s\<lparr>work_sessions := update_rows P f (work_sessions s)\<rparr>)"
proof -
  have id: "wk_id (f r) = wk_id r" "repo_key (f r) = repo_key r" "is_running (f r) \<Longrightarrow> is_running r" if "P r" for r
    using assms(1) [OF that] by (auto simp: row_moves_def fixed_part_def repo_key_def is_running_def status_moves_def)
  have ids: "map wk_id (update_rows P f rows) = map wk_id rows" for rows
    by (induction rows) (simp_all add: id)
  have "session_moves s (s\<lparr>work_sessions := update_rows P f (work_sessions s)\<rparr>)"
    using assms(1) by (intro session_moves_update) simp_all
  then show ?thesis
    using assms(2) running_keys_update [of P f, OF id(2,3)]
    by (auto simp: good_def all_inv_def session_inv_def gtd_inv_def owners_named_def ids list_all_iff set_update_rows)
qed

lemma good_update_tasks:
  assumes "\<And>t. t_id (f t) = t_id t" and "\<And>t. task_ok t \<Longrightarrow> owner_named t \<Longrightarrow> P t \<Longrightarrow> task_ok (f t) \<and> owner_named (f t)"
  shows "good s (s\<lparr>tasks := update_rows P f (tasks s)\<rparr>)"
proof -
  have "gtd_inv (s\<lparr>tasks := update_rows P f (tasks s)\<rparr>)" if "gtd_inv s" "owners_named s"
    using that assms by (intro gtd_inv_update_tasks) (auto simp: owners_named_def list_all_iff dest: gtd_inv_task)
  moreover have "owners_named (s\<lparr>tasks := update_rows P f (tasks s)\<rparr>)" if "gtd_inv s" "owners_named s"
    using that assms(2) gtd_inv_task [OF that(1)] by (auto simp: owners_named_def list_all_iff set_update_rows)
  ultimately show ?thesis
    by (auto simp: good_def all_inv_def session_inv_def intro: session_moves_same)
qed

section \<open>The writes\<close>

lemma good_table [goods]:
  "distinct (map link_key ls) \<Longrightarrow> list_all (\<lambda>l. st_role l \<in> set link_roles) ls \<Longrightarrow> good s (s\<lparr>session_tasks := ls\<rparr>)"
  "distinct (map we_id es) \<Longrightarrow> list_all evidence_ok es \<Longrightarrow> good s (s\<lparr>evidence := es\<rparr>)"
  by (auto simp: good_def all_inv_def session_inv_def gtd_inv_def owners_named_def intro: session_moves_same)

lemma add_link_ok:
  assumes "distinct (map link_key ls)" and "list_all (\<lambda>l. st_role l \<in> set link_roles) ls" and "st_role l \<in> set link_roles"
  shows "distinct (map link_key (add_link l ls)) \<and> list_all (\<lambda>l. st_role l \<in> set link_roles) (add_link l ls)"
  using assms by (auto simp: add_link_def link_key_def)

lemma link_tasks_ok:
  "distinct (map link_key ls) \<Longrightarrow> list_all (\<lambda>l. st_role l \<in> set link_roles) ls \<Longrightarrow>
     distinct (map link_key (link_tasks at sid ts ls)) \<and> list_all (\<lambda>l. st_role l \<in> set link_roles) (link_tasks at sid ts ls)"
proof (induction ts arbitrary: ls)
  case (Cons t ts)
  show ?case
    using add_link_ok [OF Cons.prems, of "\<lparr>st_session = sid, st_task = t, st_role = ''primary'', st_created = at\<rparr>"] Cons.IH
    by (simp add: link_roles_def)
qed simp

lemma good_link [goods]: "role \<in> set link_roles \<Longrightarrow>
    good s (s\<lparr>session_tasks := add_link \<lparr>st_session = sid, st_task = tid, st_role = role, st_created = at\<rparr> (session_tasks s)\<rparr>)"
  using add_link_ok [of "session_tasks s" "\<lparr>st_session = sid, st_task = tid, st_role = role, st_created = at\<rparr>"]
  by (auto simp: good_def all_inv_def session_inv_def gtd_inv_def owners_named_def intro: session_moves_same)

lemma validated:
  "validateCreateParams p = None \<Longrightarrow> ValidRepoPath (cs_repo p) \<and> cs_title p \<noteq> [] \<and> cs_goal p \<noteq> [] \<and>
     (\<forall>b. cs_branch p = Some b \<longrightarrow> one_line b)"
  by (auto simp: validateCreateParams_def CheckCommandField_None [symmetric] split: if_splits option.splits)

lemma good_insert_session:
  assumes "validateCreateParams p = None" and "insert_session at (new_session at nid ws p) ts s = Inr s'"
  shows "good s s'"
proof -
  let ?r = "new_session at nid ws p"
  from assms(2) have r: "session_check ?r" "nid \<notin> set (map wk_id (work_sessions s))"
      "\<not> list_ex (active_at ws (cs_repo p)) (work_sessions s)"
    and s': "s' = s\<lparr>work_sessions := work_sessions s @ [?r], session_tasks := link_tasks at nid ts (session_tasks s)\<rparr>"
    by (auto simp: insert_session_def new_session_def split: if_splits)
  have "session_ok ?r"
    using validated [OF assms(1)] r(1) by (auto simp: session_ok_def new_session_def)
  moreover have "repo_key ?r \<notin> repo_key ` {u \<in> set (work_sessions s). is_running u}"
    using r(3) by (auto simp: list_ex_iff active_at_def repo_key_def is_running_def new_session_def)
  ultimately show ?thesis
    using r(2) link_tasks_ok [of "session_tasks s" at nid ts]
    by (auto simp: good_def all_inv_def session_inv_def gtd_inv_def owners_named_def s' session_moves_def new_session_def
        intro: row_moves_refl)
qed

lemma good_insert_evidence:
  assumes "insert_evidence (new_evidence at nid ws sid ei) s = Inr s'" and "command_error name (ei_command ei) = None"
  shows "good s s'"
proof -
  let ?e = "new_evidence at nid ws sid ei"
  from assms(1) have e: "evidence_check ?e" "nid \<notin> set (map we_id (evidence s))" and s': "s' = s\<lparr>evidence := evidence s @ [?e]\<rparr>"
    by (auto simp: insert_evidence_def new_evidence_def split: if_splits)
  have "evidence_ok ?e"
    using e(1) assms(2) RedactAndCap_length
    by (auto simp: evidence_ok_def new_evidence_def command_error_def CheckCommandField_None [symmetric] split: option.splits)
  then show ?thesis
    using e(2) by (auto simp: good_def all_inv_def session_inv_def gtd_inv_def owners_named_def s' new_evidence_def intro: session_moves_same)
qed

lemma row_moves_writes:
  "open_session r \<Longrightarrow> row_moves r (checkpoint_row at r)" "open_session r \<Longrightarrow> row_moves r (finish_row at m p r)"
  "row_moves r (outcome_row at oid r)"
  by (auto simp: row_moves_def fixed_part_def closing_part_def status_moves_def open_session_def checkpoint_row_def
      finish_row_def outcome_row_def)

lemma session_ok_writes:
  "session_ok r \<Longrightarrow> open_session r \<Longrightarrow> session_ok (checkpoint_row at r)"
  "session_ok r \<Longrightarrow> session_ok (outcome_row at oid r)"
  "session_ok r \<Longrightarrow> session_check (finish_row at m p r) \<Longrightarrow> command_error name (fs_command p) = None \<Longrightarrow> session_ok (finish_row at m p r)"
  using RedactAndCap_length
  by (auto simp: session_ok_def session_check_def open_session_def checkpoint_row_def outcome_row_def finish_row_def
      command_error_def CheckCommandField_None [symmetric] split: option.splits)

section \<open>The linked tasks\<close>

lemma in_trim_by: "r \<in> set s \<Longrightarrow> \<not> P r \<Longrightarrow> r \<in> set (trim_by P s)"
proof -
  have keep: "r \<in> set (dropWhile P xs)" if "r \<in> set xs" "\<not> P r" for xs
    using that by (induction xs) auto
  show "r \<in> set s \<Longrightarrow> \<not> P r \<Longrightarrow> r \<in> set (trim_by P s)"
    by (simp add: trim_by_def keep)
qed

lemma trimmed_not_blank: "TrimSpace a \<noteq> [] \<Longrightarrow> TrimSpace (sql_trim_spaces a) \<noteq> []"
proof -
  assume "TrimSpace a \<noteq> []"
  then obtain r where r: "r \<in> set a" "\<not> is_space r" by (auto simp: TrimSpace_def)
  then have "r \<noteq> 32" by (auto simp: is_space_def)
  with r have "r \<in> set (sql_trim_spaces a)" by (simp add: sql_trim_spaces_def sql_trim_def in_trim_by)
  with r show ?thesis by (auto simp: TrimSpace_def)
qed

lemma session_assignee_named: "session_assignee a = Inr n \<Longrightarrow> n = [] \<or> TrimSpace n \<noteq> []"
  by (auto simp: session_assignee_def Let_def split: if_splits option.splits dest: NormalizeActor_not_blank)

lemma batch_assignee_named:
  assumes "owner_named t" and "n = [] \<or> TrimSpace n \<noteq> []" and "batch_assignee n t = Some a"
  shows "TrimSpace a \<noteq> []"
  using assms trimmed_not_blank
  by (auto simp: batch_assignee_def owner_named_def nullIfEmpty_def split: option.splits if_splits)

lemma good_batch_started:
  assumes "session_assignee a = Inr n"
  shows "good s (batchMarkTasksInProgress in_ws at ids n s)"
  unfolding batchMarkTasksInProgress_def
proof (rule good_update_tasks)
  fix t
  assume t: "task_ok t" "owner_named t"
    and hit: "t_id t \<in> set ids \<and> in_ws (t_workspace t) \<and> t_status t = Pending \<and> batch_assignee n t \<noteq> None"
  then obtain b where b: "batch_assignee n t = Some b" "TrimSpace b \<noteq> []"
    using batch_assignee_named [OF t(2) session_assignee_named [OF assms]] by auto
  with t(1) show "task_ok (t\<lparr>t_status := InProgress, t_assignee := batch_assignee n t, t_updated := at\<rparr>) \<and>
      owner_named (t\<lparr>t_status := InProgress, t_assignee := batch_assignee n t, t_updated := at\<rparr>)"
    by (simp add: task_ok_def task_check_def owner_named_def text_of_def)
qed simp

lemma good_batch_finished: "good s (batchMarkTasksCompleted in_ws at ids artifact s)"
  unfolding batchMarkTasksCompleted_def
  by (rule good_update_tasks) (auto simp: task_ok_def task_check_def owner_named_def split: option.split)

lemma good_mark_started [goods]:
  "ws_rely env \<Longrightarrow> session_assignee a = Inr n \<Longrightarrow> good s (mark_started env fault in_ws at ids n s)"
  by (auto simp: mark_started_def Let_def goods intro: good_after_env good_batch_started)

lemma good_mark_finished [goods]: "ws_rely env \<Longrightarrow> good s (mark_finished env fault in_ws at ids artifact s)"
  by (auto simp: mark_finished_def Let_def goods intro: good_after_env good_batch_finished)

section \<open>Every operation is good\<close>

lemma good_reread [goods]: "ws_rely env \<Longrightarrow> good s (snd (reread_session env fault scope i s))"
  by (simp add: reread_session_def Let_def goods)

lemma good_CreateSession_sq:
  assumes "ws_rely env"
  shows "good s (snd (CreateSession_sq env fault scope clock nid p s))"
proof -
  have "good s (snd (reread_session env fault scope nid (mark_started env fault in_ws at ids n u)))"
    if "insert_session at' (new_session at' nid ws p) (cs_tasks p) (env AtWrite s) = Inr u" "validateCreateParams p = None"
      "session_assignee (cs_assignee p) = Inr n" for at' ws u in_ws at ids n
    using good_insert_session [OF that(2,1)] good_mark_started [OF assms that(3)] good_reread [OF assms] good_env [OF assms]
      good_trans by metis
  then show ?thesis
    using assms by (auto simp: CreateSession_sq_def createSessionTx_def Let_def goods split: option.splits sum.splits)
qed

lemma good_CreateSession_pg:
  assumes "ws_rely env"
  shows "good s (snd (CreateSession_pg env fault scope clock nid p s))"
proof -
  have "good s (mark_started env fault in_ws at ids n u)"
    if "insert_session at' (new_session at' nid ws p) (cs_tasks p) (env AtWrite s) = Inr u" "validateCreateParams p = None"
      "session_assignee (cs_assignee p) = Inr n" for at' ws u in_ws at ids n
    using good_insert_session [OF that(2,1)] good_mark_started [OF assms that(3)] good_env [OF assms] good_trans by metis
  then show ?thesis
    using assms by (auto simp: CreateSession_pg_def Let_def goods split: option.splits sum.splits)
qed

lemma good_Checkpoint_sq: "ws_rely env \<Longrightarrow> good s (snd (Checkpoint_sq env fault scope clock sid summary s))"
proof -
  assume env: "ws_rely env"
  have "good (env AtWrite s) (snd (reread_session env fault scope sid ((env AtWrite s)\<lparr>work_sessions :=
      update_rows (\<lambda>r. session_row scope sid r \<and> open_session r) (checkpoint_row at) (work_sessions (env AtWrite s))\<rparr>)))" for at
    by (rule good_trans [OF good_update_sessions good_reread [OF env]]) (simp_all add: row_moves_writes session_ok_writes)
  then show ?thesis
    using env by (auto simp: Checkpoint_sq_def Let_def goods intro: good_after_env)
qed

lemma good_Checkpoint_pg: "ws_rely env \<Longrightarrow> good s (snd (Checkpoint_pg env fault scope clock sid summary s))"
  by (auto simp: Checkpoint_pg_def Let_def update_session_def goods split: option.splits
      intro!: good_after_env [of env AtWrite s] good_update_sessions row_moves_writes session_ok_writes)

lemma good_AddEvidence_sq [goods]: "ws_rely env \<Longrightarrow> good s (snd (AddEvidence_sq env fault scope clock n nid sid ei s))"
  unfolding AddEvidence_sq_def Let_def
  by (auto simp: goods split: option.splits sum.splits)
    (meson good_after_env good_env good_insert_evidence good_trans)+

lemma good_AddEvidence_pg [goods]: "ws_rely env \<Longrightarrow> good s (snd (AddEvidence_pg env fault scope clock n nid ws sid ei s))"
  unfolding AddEvidence_pg_def Let_def
  by (auto simp: goods split: option.splits sum.splits) (meson good_after_env good_insert_evidence)+

lemma good_evidence_loop: "(\<And>n ei s. good s (snd (add n ei s))) \<Longrightarrow> good s (evidence_loop add n eis s)"
proof (induction eis arbitrary: n s)
  case (Cons ei eis)
  show ?case using good_trans [OF Cons.prems [of s n ei] Cons.IH [OF Cons.prems]] by simp
qed (simp add: goods)

lemma good_finish_ids: "ws_rely env \<Longrightarrow> finish_ids env fault p s = (ids, s') \<Longrightarrow> good s s'"
  by (auto simp: finish_ids_def Let_def goods split: if_splits)

lemma good_finish_write:
  assumes "list_all session_check (map (finish_row at m p) (filter hit (work_sessions s)))"
    and "command_error name (fs_command p) = None" and "\<And>r. hit r \<Longrightarrow> open_session r"
  shows "good s (s\<lparr>work_sessions := update_rows hit (finish_row at m p) (work_sessions s)\<rparr>)"
proof (rule good_update_sessions)
  fix r
  assume "r \<in> set (work_sessions s)" "session_ok r" "hit r"
  with assms(1,2) show "session_ok (finish_row at m p r)"
    by (intro session_ok_writes) (auto simp: list_all_iff)
qed (simp add: row_moves_writes assms(3))

text \<open>What follows the write in both stores: the ids, the tasks, the evidence.\<close>

lemma good_finish_tail:
  assumes "ws_rely env" and "finish_ids env fault p s = (ids, u)" and "\<And>n ei s. good s (snd (add n ei s))"
  shows "good s (evidence_loop add 0 eis (mark_finished env fault in_ws at ids artifact u))"
  by (rule good_trans [OF good_finish_ids [OF assms(1,2)]
      good_trans [OF good_mark_finished [OF assms(1)] good_evidence_loop [OF assms(3)]]])

lemma good_Finish_sq:
  assumes env: "ws_rely env"
  shows "good s (snd (Finish_sq env fault scope clock nids p s))"
proof (cases "command_error ''verification_command'' (fs_command p)")
  case None
  let ?hit = "\<lambda>r. session_row scope (fs_id p) r \<and> open_session r"
  let ?close = "finish_row (sq_ts (clock AtWrite)) (nullIfEmpty (fs_summary p)) p"
  let ?u = "(env AtWrite s)\<lparr>work_sessions := update_rows ?hit ?close (work_sessions (env AtWrite s))\<rparr>"
  obtain ids v where ids: "finish_ids env fault p ?u = (ids, v)" by force
  let ?w = "evidence_loop (\<lambda>n. AddEvidence_sq env fault scope clock n (nids n) (fs_id p)) 0 (fs_evidence p)
    (mark_finished env fault (in_scope scope) (sq_ts (clock AtTasks)) ids (fs_artifact p) v)"
  have "good s (snd (reread_session env fault scope (fs_id p) ?w))"
    if "list_all session_check (map ?close (filter ?hit (work_sessions (env AtWrite s))))"
  proof -
    have "good s ?u"
      by (rule good_after_env [OF env good_finish_write [OF that None]]) simp
    moreover have "good ?u ?w"
      by (rule good_finish_tail [OF env ids good_AddEvidence_sq [OF env]])
    ultimately show ?thesis using good_reread [OF env] good_trans by blast
  qed
  then show ?thesis
    using None ids env
    by (auto simp: Finish_sq_def Let_def goods split: prod.splits sum.splits)
qed (simp add: Finish_sq_def goods)

lemma good_Finish_pg:
  assumes env: "ws_rely env"
  shows "good s (snd (Finish_pg env fault scope clock nids p s))"
proof (cases "command_error ''verification_command'' (fs_command p)")
  case None
  let ?hit = "\<lambda>r. session_row_pg scope (fs_id p) r \<and> open_session r"
  let ?close = "finish_row (pg_ts (clock AtWrite)) (Some (fs_summary p)) p"
  let ?u = "(env AtWrite s)\<lparr>work_sessions := update_rows ?hit ?close (work_sessions (env AtWrite s))\<rparr>"
  obtain ids v where ids: "finish_ids env fault p ?u = (ids, v)" by force
  have "good s (evidence_loop (\<lambda>n. AddEvidence_pg env fault scope clock n (nids n) (Some (pg_workspace scope)) (fs_id p)) 0
      (fs_evidence p) (mark_finished env fault (in_scope (Some (pg_workspace scope))) (pg_ts (clock AtTasks)) ids (fs_artifact p) v))"
    if "list_all session_check (map ?close (filter ?hit (work_sessions (env AtWrite s))))"
  proof -
    have "good s ?u"
      by (rule good_after_env [OF env good_finish_write [OF that None]]) simp
    then show ?thesis
      by (rule good_trans [OF _ good_finish_tail [OF env ids good_AddEvidence_pg [OF env]]])
  qed
  then show ?thesis
    using None ids env by (auto simp: Finish_pg_def update_session_def Let_def goods split: option.splits)
qed (simp add: Finish_pg_def goods)

lemma good_LinkTask: "good s (snd (LinkTask_sq now sid tid role s))" "good s (snd (LinkTask_pg now sid tid role s))"
  by (simp_all add: LinkTask_sq_def LinkTask_pg_def goods)

lemma good_SetOutcomeLink:
  "good s (snd (SetOutcomeLink_sq scope now sid oid s))" "good s (snd (SetOutcomeLink_pg scope now sid oid s))"
  by (auto simp: SetOutcomeLink_sq_def SetOutcomeLink_pg_def goods
      intro!: good_update_sessions row_moves_writes session_ok_writes)

lemma good_drop_evidence: "good s (s\<lparr>evidence := filter Q (evidence s)\<rparr>)"
  by (auto simp: good_def all_inv_def session_inv_def gtd_inv_def owners_named_def list_all_iff
      intro: session_moves_same distinct_map_filter)

lemma good_PruneEvidence: "good s (snd (PruneEvidence_sq cutoff s))" "good s (snd (PruneEvidence_pg cutoff s))"
  by (simp_all add: PruneEvidence_sq_def PruneEvidence_pg_def Let_def good_drop_evidence)

end
