(* ===== verification/Session_Reach.thy ===== *)
theory Session_Reach
  imports Session_Invariant
begin

text \<open>
  The session tables together with the task tables under any sequence of operations of the session
  stores and of the GTD stores, and the lookup of the running session in the states so reached.
\<close>

section \<open>The GTD operations\<close>

text \<open>Deletions clear two references of a session row and drop links; they do not touch its status.\<close>

definition drops_refs :: "gtd_db \<Rightarrow> gtd_db \<Rightarrow> bool" where
  "drops_refs s s' \<longleftrightarrow> (\<exists>f. work_sessions s' = map f (work_sessions s) \<and>
       (\<forall>r. fixed_part (f r) = fixed_part r \<and> wk_status (f r) = wk_status r \<and> closing_part (f r) = closing_part r \<and>
            wk_checkpoint (f r) = wk_checkpoint r)) \<and>
     (\<exists>Q. session_tasks s' = filter Q (session_tasks s)) \<and> evidence s' = evidence s"

lemma good_drops_refs:
  assumes "gtd_inv s \<Longrightarrow> gtd_inv s'" and "owners_named s'" and "drops_refs s s'"
  shows "good s s'"
proof -
  from assms(3) obtain f Q where w: "work_sessions s' = map f (work_sessions s)"
    and f: "\<And>r. fixed_part (f r) = fixed_part r" "\<And>r. wk_status (f r) = wk_status r" "\<And>r. closing_part (f r) = closing_part r"
      "\<And>r. wk_checkpoint (f r) = wk_checkpoint r"
    and t: "session_tasks s' = filter Q (session_tasks s)" "evidence s' = evidence s"
    by (auto simp: drops_refs_def)
  have key: "wk_id (f r) = wk_id r" "repo_key (f r) = repo_key r" "is_running (f r) = is_running r" "row_moves r (f r)" for r
    using f [of r] by (auto simp: fixed_part_def repo_key_def is_running_def row_moves_def status_moves_def)
  have ok: "session_ok (f r) = session_ok r" for r
    using f [of r] by (simp add: session_ok_def session_check_def fixed_part_def closing_part_def)
  have "map wk_id (work_sessions s') = map wk_id (work_sessions s)"
    "map repo_key (filter is_running (work_sessions s')) = map repo_key (filter is_running (work_sessions s))"
    by (simp_all add: w key filter_map comp_def)
  then have "session_inv s'" if "session_inv s"
    using that distinct_map_filter [of link_key "session_tasks s" Q]
    by (simp only: session_inv_def t) (auto simp: w ok list_all_iff)
  moreover have "session_moves s s'"
    unfolding session_moves_def w using key(4) by fastforce
  ultimately show ?thesis using assms(1,2) by (simp add: good_def all_inv_def)
qed

lemma drops_refs_refl: "drops_refs s s"
  unfolding drops_refs_def by (intro conjI exI [of _ "\<lambda>r. r"] exI [of _ "\<lambda>_. True"]) simp_all

lemma drops_refs_deleted:
  "drops_refs s (task_deleted ts scope now d i by s)" "drops_refs s (project_deleted ts scope now d i by s)"
  unfolding drops_refs_def
  by (intro conjI exI [of _ "\<lambda>r. if wk_current_task r = Some i then r\<lparr>wk_current_task := None, wk_updated := ts now\<rparr> else r"]
      exI [of _ "\<lambda>r. st_task r \<noteq> i"]; simp add: task_deleted_def update_rows_def fixed_part_def closing_part_def)
    (intro conjI exI [of _ "(\<lambda>r. if wk_project r = Some i then r\<lparr>wk_project := None\<rparr> else r) \<circ>
        (\<lambda>r. if names (set (project_task_ids scope i s)) (wk_current_task r) then r\<lparr>wk_current_task := None, wk_updated := ts now\<rparr> else r)"]
      exI [of _ "\<lambda>r. st_task r \<notin> set (project_task_ids scope i s)"];
      simp add: project_deleted_def project_refs_cleaned_def task_refs_cleaned_def project_snapshot_def Let_def update_rows_def
        fixed_part_def closing_part_def)

lemma restored_sessions:
  "restore_spec ts scope now i by s = (r, s') \<Longrightarrow>
     work_sessions s' = work_sessions s \<and> session_tasks s' = session_tasks s \<and> evidence s' = evidence s"
  by (auto simp: restore_spec_def restored_def Let_def split: option.splits payload.splits if_splits)

lemma gtd_step_good:
  assumes "gtd_step s s'" and "owners_named s'"
  shows "good s s'"
  unfolding good_def
proof
  assume ok: "all_inv s"
  then have inv: "gtd_inv s" by (simp add: all_inv_def)
  from step_ok [OF assms(1) inv] have inv': "gtd_inv s'" by simp
  from assms(1) have "drops_refs s s'"
  proof cases
    case edit
    then show ?thesis
      using edit_keeps_rows drops_refs_refl [of s] by (fastforce simp: keeps_rows_def drops_refs_def)
  next
    case (delete_task d fault scope now i actor)
    then show ?thesis
      using sqd.all_or_nothing [of d actor now fault scope i s]
      by (auto simp: DeleteTask_def drops_refs_deleted drops_refs_refl)
  next
    case (delete_task_pg d fault scope now i actor)
    then show ?thesis
      using pgd.all_or_nothing [of d actor now fault scope i s]
      by (auto simp: DeleteTask_pg_def drops_refs_deleted drops_refs_refl)
  next
    case (delete_project d fault scope now i actor expected)
    then show ?thesis
      using sqp.all_or_nothing [OF gtd_inv_parts(6) [OF inv], of d actor now expected fault scope i]
      by (auto simp: DeleteProjectExpecting_def drops_refs_deleted drops_refs_refl split: if_splits)
  next
    case (delete_project_pg d fault scope now i actor expected)
    then show ?thesis
      using pgp.all_or_nothing [OF gtd_inv_parts(6) [OF inv], of d actor now expected fault scope i]
      by (auto simp: DeleteProjectExpecting_pg_def drops_refs_deleted drops_refs_refl split: if_splits)
  next
    case (restore fault scope now i actor)
    obtain r u where spec: "restore_spec sq_ts scope now i actor s = (r, u)" by force
    show ?thesis
      using restore restore_all_or_nothing [OF inv lock_none, of fault sq_ts scope now i actor] restored_sessions [OF spec] spec
        drops_refs_refl [of s] by (auto simp: RestoreProject_def drops_refs_def)
  next
    case (restore_pg fault scope now i actor)
    obtain r u where spec: "restore_spec pg_ts scope now i actor s = (r, u)" by force
    show ?thesis
      using restore_pg restore_all_or_nothing [OF inv lock_statement, of fault "''lock group''" pg_ts scope now i actor]
        restored_sessions [OF spec] spec drops_refs_refl [of s] by (auto simp: RestoreProject_pg_def drops_refs_def)
  next
    case (prune cutoff)
    then show ?thesis
      using drops_refs_refl [of s] by (simp add: PruneDeletionTombstones_def prune_tombstones_def drops_refs_def)
  next
    case (prune_pg cutoff)
    then show ?thesis
      using drops_refs_refl [of s] by (simp add: PruneDeletionTombstones_pg_def prune_tombstones_def drops_refs_def)
  qed
  with inv' assms(2) have "good s s'" by (intro good_drops_refs) simp_all
  with ok show "all_inv s' \<and> session_moves s s'" by (simp add: good_def)
qed

section \<open>Reachable databases\<close>

text \<open>
  Any operation of either session store under interference that keeps the invariant, with any
  statement failing, and any step of the GTD stores that leaves no assignee made of white space only.
\<close>

inductive session_step :: "gtd_db \<Rightarrow> gtd_db \<Rightarrow> bool" where
  gtd: "gtd_step s s' \<Longrightarrow> owners_named s' \<Longrightarrow> session_step s s'"
| create: "ws_rely env \<Longrightarrow> session_step s (snd (CreateSession_sq env fault scope clock nid p s))"
| create_pg: "ws_rely env \<Longrightarrow> session_step s (snd (CreateSession_pg env fault scope clock nid p s))"
| checkpoint: "ws_rely env \<Longrightarrow> session_step s (snd (Checkpoint_sq env fault scope clock sid summary s))"
| checkpoint_pg: "ws_rely env \<Longrightarrow> session_step s (snd (Checkpoint_pg env fault scope clock sid summary s))"
| finish: "ws_rely env \<Longrightarrow> session_step s (snd (Finish_sq env fault scope clock nids f s))"
| finish_pg: "ws_rely env \<Longrightarrow> session_step s (snd (Finish_pg env fault scope clock nids f s))"
| add_evidence: "ws_rely env \<Longrightarrow> session_step s (snd (AddEvidence_sq env fault scope clock n nid sid ei s))"
| add_evidence_pg: "ws_rely env \<Longrightarrow> session_step s (snd (AddEvidence_pg env fault scope clock n nid ws sid ei s))"
| link: "session_step s (snd (LinkTask_sq now sid tid role s))"
| link_pg: "session_step s (snd (LinkTask_pg now sid tid role s))"
| outcome: "session_step s (snd (SetOutcomeLink_sq scope now sid oid s))"
| outcome_pg: "session_step s (snd (SetOutcomeLink_pg scope now sid oid s))"
| prune: "session_step s (snd (PruneEvidence_sq cutoff s))"
| prune_pg: "session_step s (snd (PruneEvidence_pg cutoff s))"

inductive session_reach :: "gtd_db \<Rightarrow> bool" where
  init: "session_reach empty_gtd"
| step: "session_reach s \<Longrightarrow> session_step s s' \<Longrightarrow> session_reach s'"

lemma session_step_good: "session_step s s' \<Longrightarrow> good s s'"
  by (cases rule: session_step.cases)
    (auto intro: gtd_step_good good_CreateSession_sq good_CreateSession_pg good_Checkpoint_sq good_Checkpoint_pg good_Finish_sq
      good_Finish_pg good_AddEvidence_sq good_AddEvidence_pg good_LinkTask good_SetOutcomeLink good_PruneEvidence)

lemma session_reach_inv: "session_reach s \<Longrightarrow> all_inv s"
proof (induction rule: session_reach.induct)
  case init
  then show ?case
    by (simp add: all_inv_def gtd_inv_def session_inv_def owners_named_def empty_gtd_def groups_ok_def)
next
  case (step s s')
  then show ?case using session_step_good by (simp add: good_def)
qed

lemma running_unique:
  assumes "session_inv s" and "r \<in> set (work_sessions s)" "r' \<in> set (work_sessions s)"
    and "is_running r" "is_running r'" "repo_key r = repo_key r'"
  shows "r = r'"
  using assms distinct_map_unique [of repo_key "filter is_running (work_sessions s)" r r'] by (simp add: session_inv_def)


end
