(* ===== verification/Session_Finish.thy ===== *)
theory Session_Finish
  imports Session_Reach
begin

text \<open>
  What \<open>Finish\<close> does to the database on every branch, for both stores: the lemmas on its last part, the
  tasks it marks and the evidence it stores, and the property that puts them together.
\<close>

section \<open>The evidence loop\<close>

text \<open>The items of a call that are stored: a one-line command, allowed type and status, no failed insert.\<close>

definition evidence_item_ok :: "ws_fault \<Rightarrow> nat \<times> evidence_input \<Rightarrow> bool" where
  "evidence_item_ok fault = (\<lambda>(n, ei). command_error ''command'' (ei_command ei) = None \<and> \<not> fault (AtEvidence n) \<and>
     ei_type ei \<in> set AllowedEvidenceTypes \<and> ei_status ei \<in> set AllowedEvidenceStatuses)"

definition stored_evidence :: "(instant \<Rightarrow> instant) \<Rightarrow> ws_fault \<Rightarrow> ws_clock \<Rightarrow> (nat \<Rightarrow> uuid) \<Rightarrow> uuid option \<Rightarrow> uuid
    \<Rightarrow> (nat \<times> evidence_input) list \<Rightarrow> session_evidence list" where
  "stored_evidence ts fault clock nids ws sid items =
     map (\<lambda>(n, ei). new_evidence (ts (clock (AtEvidence n))) (nids n) ws sid ei) (filter (evidence_item_ok fault) items)"

lemma new_evidence_check:
  "evidence_check (new_evidence at nid ws sid ei) \<longleftrightarrow> ei_type ei \<in> set AllowedEvidenceTypes \<and> ei_status ei \<in> set AllowedEvidenceStatuses"
  "we_id (new_evidence at nid ws sid ei) = nid"
  by (simp_all add: evidence_check_def new_evidence_def)

lemma add_evidence_effect:
  assumes "nids n \<notin> set (map we_id (evidence s))"
  shows "snd (AddEvidence_sq calm fault scope clock n (nids n) sid ei s) =
      s\<lparr>evidence := evidence s @ stored_evidence sq_ts fault clock nids (Some (pg_workspace scope)) sid [(n, ei)]\<rparr>"
    and "snd (AddEvidence_pg calm fault scope clock n (nids n) (Some (pg_workspace scope)) sid ei s) =
      s\<lparr>evidence := evidence s @ stored_evidence pg_ts fault clock nids (Some (pg_workspace scope)) sid [(n, ei)]\<rparr>"
  using assms
  by (auto simp: AddEvidence_sq_def AddEvidence_pg_def Let_def insert_evidence_def new_evidence_check stored_evidence_def
      evidence_item_ok_def pg_workspace_def split: option.split)

lemma evidence_loop_effect:
  assumes "\<And>n ei s. nids n \<notin> set (map we_id (evidence s)) \<Longrightarrow>
      snd (add n ei s) = s\<lparr>evidence := evidence s @ stored_evidence ts fault clock nids ws sid [(n, ei)]\<rparr>"
    and "distinct (map nids [n ..< n + length eis] @ map we_id (evidence s))"
  shows "evidence_loop add n eis s =
    s\<lparr>evidence := evidence s @ stored_evidence ts fault clock nids ws sid (List.enumerate n eis)\<rparr>"
  using assms(2)
proof (induction eis arbitrary: n s)
  case Nil
  then show ?case by (simp add: stored_evidence_def)
next
  case (Cons ei eis)
  let ?s = "s\<lparr>evidence := evidence s @ stored_evidence ts fault clock nids ws sid [(n, ei)]\<rparr>"
  have "[n ..< n + length (ei # eis)] = n # [Suc n ..< Suc n + length eis]"
    by (simp add: upt_conv_Cons del: upt_Suc)
  then have now: "distinct (nids n # map nids [Suc n ..< Suc n + length eis] @ map we_id (evidence s))"
    using Cons.prems by (simp only: list.map append_Cons)
  then have fresh: "nids n \<notin> set (map we_id (evidence s))"
    and rest: "distinct (map nids [Suc n ..< Suc n + length eis] @ nids n # map we_id (evidence s))"
    by (auto simp del: upt_Suc)
  then have "distinct (map nids [Suc n ..< Suc n + length eis] @ map we_id (evidence ?s))"
    by (auto simp: stored_evidence_def new_evidence_check)
  from Cons.IH [OF this] show ?case
    by (simp add: assms(1) [OF fresh]) (simp add: stored_evidence_def)
qed

section \<open>The whole call\<close>

text \<open>The ids the caller lists, else the linked ones on request, without the deferred ones.\<close>

definition ids_to_complete :: "ws_fault \<Rightarrow> finish_session \<Rightarrow> gtd_db \<Rightarrow> uuid list" where
  "ids_to_complete fault p s =
     filter (\<lambda>i. i \<notin> set (fs_deferred p))
       (if fs_completed p \<noteq> [] then fs_completed p
        else if fs_all_linked p \<and> \<not> fault AtLinks then map st_task (linked_rows (fs_id p) s) else [])"

lemma finish_ids_calm: "finish_ids calm fault p s = (ids_to_complete fault p s, s)"
  by (auto simp: finish_ids_def ids_to_complete_def ResolveCompletedTaskIDs_def Let_def)

lemma ids_to_complete_sessions [simp]: "ids_to_complete fault p (s\<lparr>work_sessions := rs\<rparr>) = ids_to_complete fault p s"
  by (simp add: ids_to_complete_def linked_rows_def)

definition open_here :: "uuid \<Rightarrow> uuid \<Rightarrow> work_session \<Rightarrow> bool" where
  "open_here w i r \<longleftrightarrow> wk_id r = i \<and> wk_workspace r = w \<and> open_session r"

lemma open_here_rows:
  "(\<lambda>r. session_row (Some w) i r \<and> open_session r) = open_here w i"
  "(\<lambda>r. session_row_pg (Some w) i r \<and> open_session r) = open_here w i"
  by (auto simp: fun_eq_iff session_row_def session_row_pg_def open_here_def pg_workspace_def)

definition completed_now :: "ws_fault \<Rightarrow> uuid \<Rightarrow> uuid list \<Rightarrow> task \<Rightarrow> bool" where
  "completed_now fault w ids t \<longleftrightarrow> \<not> fault AtTasks \<and> t_id t \<in> set ids \<and> t_workspace t = Some w \<and>
     t_status t \<noteq> Completed \<and> t_status t \<noteq> Cancelled"

definition completed_row :: "instant \<Rightarrow> ustr option \<Rightarrow> task \<Rightarrow> task" where
  "completed_row at artifact t = t\<lparr>t_status := Completed,
     t_artifact := (case artifact of None \<Rightarrow> t_artifact t | Some a \<Rightarrow> Some a), t_updated := at\<rparr>"

lemma mark_finished_calm:
  "mark_finished calm fault (in_scope (Some w)) at ids artifact s =
     s\<lparr>tasks := update_rows (completed_now fault w ids) (completed_row at artifact) (tasks s)\<rparr>"
proof -
  have none: "s = s\<lparr>tasks := update_rows P f (tasks s)\<rparr>" if "\<And>t. \<not> P t" for P f
    using that by (simp add: update_rows_id)
  have f: "(\<lambda>t. t\<lparr>t_status := Completed, t_artifact := (case artifact of None \<Rightarrow> t_artifact t | Some a \<Rightarrow> Some a),
      t_updated := at\<rparr>) = completed_row at artifact"
    by (simp add: fun_eq_iff completed_row_def)
  show ?thesis
  proof (cases "ids = [] \<or> fault AtTasks")
    case True
    then show ?thesis
      using none [of "completed_now fault w ids"] by (auto simp: mark_finished_def completed_now_def)
  next
    case False
    then have "(\<lambda>t. t_id t \<in> set ids \<and> in_scope (Some w) (t_workspace t) \<and> t_status t \<notin> {Completed, Cancelled}) =
        completed_now fault w ids"
      by (auto simp: fun_eq_iff completed_now_def)
    with False f show ?thesis by (simp add: mark_finished_def batchMarkTasksCompleted_def)
  qed
qed

definition finished :: "(instant \<Rightarrow> instant) \<Rightarrow> ws_fault \<Rightarrow> uuid \<Rightarrow> ws_clock \<Rightarrow> (nat \<Rightarrow> uuid) \<Rightarrow> ustr option \<Rightarrow> finish_session
    \<Rightarrow> gtd_db \<Rightarrow> gtd_db" where
  "finished ts fault w clock nids summary p s =
     s\<lparr>work_sessions := update_rows (open_here w (fs_id p)) (finish_row (ts (clock AtWrite)) summary p) (work_sessions s),
       tasks := update_rows (completed_now fault w (ids_to_complete fault p s))
         (completed_row (ts (clock AtTasks)) (fs_artifact p)) (tasks s),
       evidence := evidence s @ stored_evidence ts fault clock nids (Some w) (fs_id p) (List.enumerate 0 (fs_evidence p))\<rparr>"

text \<open>The branches before the write, the same in both stores.\<close>

definition finish_refused :: "ws_fault \<Rightarrow> uuid \<Rightarrow> finish_session \<Rightarrow> gtd_db \<Rightarrow> ws_error option" where
  "finish_refused fault w p s =
     (case command_error ''verification_command'' (fs_command p) of
        Some e \<Rightarrow> Some e
      | None \<Rightarrow>
          if fault AtWrite then Some (WDatabase AtWrite)
          else if \<not> list_ex (open_here w (fs_id p)) (work_sessions s) then Some WNotFound
          else if \<not> (allowed AllowedVerificationStatuses (fs_verification p) \<and> allowed AllowedFinalResults (fs_result p))
          then Some WConstraint else None)"

text \<open>
  The abstract call: refused without a write, or the three updates at once.  \<open>view\<close> is how the store
  reads a row, \<open>lost\<close> a failed last read (SQLite), which reports an error after the write.
\<close>

definition finish_spec :: "(instant \<Rightarrow> instant) \<Rightarrow> (work_session \<Rightarrow> work_session) \<Rightarrow> ustr option \<Rightarrow> bool \<Rightarrow> ws_fault \<Rightarrow> uuid \<Rightarrow> ws_clock
    \<Rightarrow> (nat \<Rightarrow> uuid) \<Rightarrow> finish_session \<Rightarrow> gtd_db \<Rightarrow> (work_session \<times> uuid list) ws_result" where
  "finish_spec ts view summary lost fault w clock nids p s =
     (case (finish_refused fault w p s, first_row (open_here w (fs_id p)) (work_sessions s)) of
        (None, Some r) \<Rightarrow>
          (if lost then Inl (WDatabase AtReread)
           else Inr (view (finish_row (ts (clock AtWrite)) summary p r), ids_to_complete fault p s),
           finished ts fault w clock nids summary p s)
      | (Some e, _) \<Rightarrow> (Inl e, s)
      | (None, None) \<Rightarrow> (Inl WNotFound, s))"

lemma first_open_row:
  assumes "session_inv s" and "first_row (open_here w i) (work_sessions s) = Some r"
  shows "r \<in> set (work_sessions s)" and "open_here w i r"
    and "\<And>u. u \<in> set (work_sessions s) \<Longrightarrow> wk_id u = i \<Longrightarrow> u = r"
proof -
  show r: "r \<in> set (work_sessions s)" "open_here w i r" using first_row_Some [OF assms(2)] by simp_all
  show "u = r" if "u \<in> set (work_sessions s)" "wk_id u = i" for u
    using assms(1) that r by (intro distinct_map_unique [of wk_id]) (auto simp: session_inv_def open_here_def)
qed

lemma list_ex_first_row: "list_ex P rows \<longleftrightarrow> first_row P rows \<noteq> None"
  by (auto simp: list_ex_iff first_row_None)

lemma set_all_same: "xs \<noteq> [] \<Longrightarrow> (\<And>x. x \<in> set xs \<Longrightarrow> x = r) \<Longrightarrow> set xs = {r}"
  by (cases xs) auto

lemma finish_check:
  assumes "session_inv s" and "first_row (open_here w (fs_id p)) (work_sessions s) = Some r"
  shows "list_all session_check (map (finish_row at m p) (filter (open_here w (fs_id p)) (work_sessions s))) \<longleftrightarrow>
    allowed AllowedVerificationStatuses (fs_verification p) \<and> allowed AllowedFinalResults (fs_result p)"
proof -
  note row = first_open_row [OF assms]
  have "session_ok r" using assms(1) row(1) by (simp add: session_inv_def list_all_iff)
  then have src: "wk_source r \<in> set session_sources" by (simp add: session_ok_def session_check_def)
  have "set (filter (open_here w (fs_id p)) (work_sessions s)) = {r}"
  proof (rule set_all_same)
    show "filter (open_here w (fs_id p)) (work_sessions s) \<noteq> []"
      using row(1,2) by (auto simp: filter_empty_conv)
    show "u = r" if "u \<in> set (filter (open_here w (fs_id p)) (work_sessions s))" for u
      using that by (intro row(3)) (simp_all add: open_here_def)
  qed
  then show ?thesis
    using src by (simp add: list_all_iff del: set_filter) (simp add: session_check_def finish_row_def)
qed

lemma finished_row:
  assumes "session_inv s" and "first_row (open_here w (fs_id p)) (work_sessions s) = Some r"
  shows "byID (Some w) (fs_id p) (finished ts fault w clock nids m p s) =
    Inr (scanWorkSession (finish_row (ts (clock AtWrite)) m p r))"
proof -
  note row = first_open_row [OF assms]
  let ?f = "finish_row (ts (clock AtWrite)) m p"
  have "first_row (session_row (Some w) (fs_id p)) (update_rows (open_here w (fs_id p)) ?f (work_sessions s)) = Some (?f r)"
  proof (cases "first_row (session_row (Some w) (fs_id p)) (update_rows (open_here w (fs_id p)) ?f (work_sessions s))")
    case None
    moreover have "?f r \<in> set (update_rows (open_here w (fs_id p)) ?f (work_sessions s))"
      using row(1,2) by (auto simp: set_update_rows)
    moreover have "session_row (Some w) (fs_id p) (?f r)"
      using row(2) by (auto simp: session_row_def open_here_def finish_row_def)
    ultimately show ?thesis by (auto simp: first_row_None)
  next
    case (Some u)
    from first_row_Some [OF Some] have u: "u \<in> set (update_rows (open_here w (fs_id p)) ?f (work_sessions s))"
      "session_row (Some w) (fs_id p) u" by simp_all
    then consider v where "v \<in> set (work_sessions s)" "open_here w (fs_id p) v" "u = ?f v"
      | "u \<in> set (work_sessions s)" "\<not> open_here w (fs_id p) u" by (auto simp: set_update_rows)
    then have "u = ?f r"
    proof cases
      case (1 v)
      then have "v = r" by (intro row(3)) (simp_all add: open_here_def)
      with 1 show ?thesis by simp
    next
      case 2
      then have "u = r" using u(2) by (intro row(3)) (simp_all add: session_row_def)
      with 2 row(2) show ?thesis by simp
    qed
    with Some show ?thesis by simp
  qed
  then show ?thesis by (simp add: byID_def finished_def)
qed

lemma finish_rest:
  assumes "distinct (map nids [0 ..< length (fs_evidence p)] @ map we_id (evidence s))"
  shows "evidence_loop (\<lambda>n. AddEvidence_sq calm fault (Some w) clock n (nids n) (fs_id p)) 0 (fs_evidence p)
       (mark_finished calm fault (in_scope (Some w)) (sq_ts (clock AtTasks)) (ids_to_complete fault p s) (fs_artifact p)
         (s\<lparr>work_sessions := update_rows (open_here w (fs_id p)) (finish_row (sq_ts (clock AtWrite)) m p) (work_sessions s)\<rparr>))
     = finished sq_ts fault w clock nids m p s" (is ?thesis1)
    and "evidence_loop (\<lambda>n. AddEvidence_pg calm fault (Some w) clock n (nids n) (Some w) (fs_id p)) 0 (fs_evidence p)
       (mark_finished calm fault (in_scope (Some w)) (pg_ts (clock AtTasks)) (ids_to_complete fault p s) (fs_artifact p)
         (s\<lparr>work_sessions := update_rows (open_here w (fs_id p)) (finish_row (pg_ts (clock AtWrite)) m p) (work_sessions s)\<rparr>))
     = finished pg_ts fault w clock nids m p s" (is ?thesis2)
proof -
  have ws: "pg_workspace (Some w) = w" by (simp add: pg_workspace_def)
  have sq: "evidence_loop (\<lambda>n. AddEvidence_sq calm fault (Some w) clock n (nids n) (fs_id p)) 0 (fs_evidence p) u =
      u\<lparr>evidence := evidence u @ stored_evidence sq_ts fault clock nids (Some w) (fs_id p) (List.enumerate 0 (fs_evidence p))\<rparr>"
    if "evidence u = evidence s" for u
    using assms that
    by (intro evidence_loop_effect) (simp_all add: add_evidence_effect(1) [of nids _ _ fault "Some w", unfolded ws])
  have pg: "evidence_loop (\<lambda>n. AddEvidence_pg calm fault (Some w) clock n (nids n) (Some w) (fs_id p)) 0 (fs_evidence p) u =
      u\<lparr>evidence := evidence u @ stored_evidence pg_ts fault clock nids (Some w) (fs_id p) (List.enumerate 0 (fs_evidence p))\<rparr>"
    if "evidence u = evidence s" for u
    using assms that
    by (intro evidence_loop_effect) (simp_all add: add_evidence_effect(2) [of nids _ _ fault "Some w", unfolded ws])
  show ?thesis1 ?thesis2
    by (simp_all add: mark_finished_calm finished_def sq pg)
qed

lemma finish_refines:
  assumes inv: "session_inv s" and new: "distinct (map nids [0 ..< length (fs_evidence p)] @ map we_id (evidence s))"
  shows "Finish_sq calm fault (Some w) clock nids p s =
      finish_spec sq_ts scanWorkSession (nullIfEmpty (fs_summary p)) (fault AtReread) fault w clock nids p s"
    and "Finish_pg calm fault (Some w) clock nids p s =
      finish_spec pg_ts scanSession_pg (Some (fs_summary p)) False fault w clock nids p s"
proof -
  show "Finish_sq calm fault (Some w) clock nids p s =
      finish_spec sq_ts scanWorkSession (nullIfEmpty (fs_summary p)) (fault AtReread) fault w clock nids p s"
  proof (cases "first_row (open_here w (fs_id p)) (work_sessions s)")
    case None
    then show ?thesis
      by (simp add: Finish_sq_def finish_spec_def finish_refused_def open_here_rows list_ex_first_row Let_def split: option.split)
  next
    case (Some r)
    then show ?thesis
      using finish_check [OF inv Some] finished_row [OF inv Some] finish_rest(1) [OF new, of fault w clock]
      by (simp add: Finish_sq_def finish_spec_def finish_refused_def open_here_rows list_ex_first_row Let_def finish_ids_calm
          reread_session_def split: option.split)
  qed
  show "Finish_pg calm fault (Some w) clock nids p s =
      finish_spec pg_ts scanSession_pg (Some (fs_summary p)) False fault w clock nids p s"
  proof (cases "first_row (open_here w (fs_id p)) (work_sessions s)")
    case None
    then show ?thesis
      by (simp add: Finish_pg_def finish_spec_def finish_refused_def open_here_rows list_ex_first_row Let_def update_session_def
          split: option.split)
  next
    case (Some r)
    then show ?thesis
      using finish_check [OF inv Some] finish_rest(2) [OF new, of fault w clock]
      by (simp add: Finish_pg_def finish_spec_def finish_refused_def open_here_rows list_ex_first_row Let_def finish_ids_calm
          update_session_def pg_workspace_def split: option.split)
  qed
qed

lemma finished_closes:
  assumes "session_inv s"
  shows "\<not> list_ex (open_here w (fs_id p)) (work_sessions (finished ts fault w clock nids m p s))"
proof -
  have "\<not> open_here w (fs_id p) (finish_row at m p r)" for r at
    by (simp add: open_here_def open_session_def finish_row_def)
  then show ?thesis by (auto simp: list_ex_iff finished_def set_update_rows)
qed


end
