(* ===== verification/Session_Start.thy ===== *)
theory Session_Start
  imports Session_Finish Gtd_Begin
begin

text \<open>
  What \<open>Create\<close> does to the database on every branch, for both stores, and the one path on which it
  leaves a task in progress that nobody owns.
\<close>

section \<open>The whole call\<close>

definition given_assignee :: "create_session \<Rightarrow> ustr" where
  "given_assignee p = (case session_assignee (cs_assignee p) of Inl _ \<Rightarrow> [] | Inr n \<Rightarrow> n)"

definition create_refused :: "ws_fault \<Rightarrow> uuid \<Rightarrow> uuid \<Rightarrow> create_session \<Rightarrow> gtd_db \<Rightarrow> ws_error option" where
  "create_refused fault w nid p s =
     (case (validateCreateParams p, session_assignee (cs_assignee p)) of
        (Some e, _) \<Rightarrow> Some e
      | (None, Inl e) \<Rightarrow> Some e
      | (None, Inr _) \<Rightarrow>
          if fault AtWrite then Some (WDatabase AtWrite)
          else if cs_source p \<notin> set session_sources then Some WConstraint
          else if nid \<in> set (map wk_id (work_sessions s)) \<or> list_ex (active_at w (cs_repo p)) (work_sessions s)
          then Some WAlreadyActive else None)"

definition started_now :: "ws_fault \<Rightarrow> uuid \<Rightarrow> create_session \<Rightarrow> task \<Rightarrow> bool" where
  "started_now fault w p t \<longleftrightarrow> \<not> fault AtTasks \<and> t_id t \<in> set (cs_tasks p) \<and> t_workspace t = Some w \<and>
     t_status t = Pending \<and> batch_assignee (given_assignee p) t \<noteq> None"

definition started_row :: "instant \<Rightarrow> create_session \<Rightarrow> task \<Rightarrow> task" where
  "started_row at p t = t\<lparr>t_status := InProgress, t_assignee := batch_assignee (given_assignee p) t, t_updated := at\<rparr>"

definition started :: "(instant \<Rightarrow> instant) \<Rightarrow> ws_fault \<Rightarrow> uuid \<Rightarrow> ws_clock \<Rightarrow> uuid \<Rightarrow> create_session \<Rightarrow> gtd_db \<Rightarrow> gtd_db" where
  "started ts fault w clock nid p s =
     s\<lparr>work_sessions := work_sessions s @ [new_session (ts (clock AtWrite)) nid w p],
       session_tasks := link_tasks (ts (clock AtWrite)) nid (cs_tasks p) (session_tasks s),
       tasks := update_rows (started_now fault w p) (started_row (ts (clock AtTasks)) p) (tasks s)\<rparr>"

definition create_spec :: "(instant \<Rightarrow> instant) \<Rightarrow> (work_session \<Rightarrow> work_session) \<Rightarrow> bool \<Rightarrow> ws_fault \<Rightarrow> uuid \<Rightarrow> ws_clock
    \<Rightarrow> uuid \<Rightarrow> create_session \<Rightarrow> gtd_db \<Rightarrow> work_session ws_result" where
  "create_spec ts view lost fault w clock nid p s =
     (case create_refused fault w nid p s of
        Some e \<Rightarrow> (Inl e, s)
      | None \<Rightarrow> (if lost then Inl (WDatabase AtReread) else Inr (view (new_session (ts (clock AtWrite)) nid w p)),
                 started ts fault w clock nid p s))"

lemma insert_new_session:
  "insert_session at (new_session at nid w p) ts s =
     (if cs_source p \<notin> set session_sources then Inl WConstraint
      else if nid \<in> set (map wk_id (work_sessions s)) \<or> list_ex (active_at w (cs_repo p)) (work_sessions s)
      then Inl WAlreadyActive
      else Inr (s\<lparr>work_sessions := work_sessions s @ [new_session at nid w p], session_tasks := link_tasks at nid ts (session_tasks s)\<rparr>))"
  by (simp add: insert_session_def session_check_def new_session_def allowed_def)

lemma mark_started_calm:
  assumes "session_assignee (cs_assignee p) = Inr n"
  shows "mark_started calm fault (in_scope (Some w)) at (cs_tasks p) n s =
    s\<lparr>tasks := update_rows (started_now fault w p) (started_row at p) (tasks s)\<rparr>"
proof (cases "cs_tasks p = [] \<or> fault AtTasks")
  case True
  then show ?thesis
    by (auto simp: mark_started_def started_now_def update_rows_id)
next
  case False
  have "given_assignee p = n" using assms by (simp add: given_assignee_def)
  moreover from this have "started_row at p = (\<lambda>t. t\<lparr>t_status := InProgress, t_assignee := batch_assignee n t, t_updated := at\<rparr>)"
    by (simp add: fun_eq_iff started_row_def)
  moreover from False have "started_now fault w p = (\<lambda>t. t_id t \<in> set (cs_tasks p) \<and> in_scope (Some w) (t_workspace t) \<and>
      t_status t = Pending \<and> batch_assignee (given_assignee p) t \<noteq> None)"
    by (simp add: fun_eq_iff started_now_def)
  ultimately show ?thesis
    using False by (simp only: mark_started_def batchMarkTasksInProgress_def) simp
qed

lemma started_found:
  assumes "nid \<notin> set (map wk_id (work_sessions s))"
  shows "byID (Some w) nid (started ts fault w clock nid p s) = Inr (scanWorkSession (new_session (ts (clock AtWrite)) nid w p))"
proof -
  have none: "first_row (session_row (Some w) nid) (work_sessions s) = None"
    using assms by (auto simp: first_row_None session_row_def)
  have "session_row (Some w) nid (new_session at nid w p)" for at
    by (simp add: session_row_def new_session_def)
  with none show ?thesis
    by (simp add: byID_def started_def first_row_append) (simp add: first_row_def)
qed

lemma create_refines:
  "CreateSession_sq calm fault (Some w) clock nid p s = create_spec sq_ts scanWorkSession (fault AtReread) fault w clock nid p s"
  "CreateSession_pg calm fault (Some w) clock nid p s = create_spec pg_ts scanSession_pg False fault w clock nid p s"
proof -
  consider e where "validateCreateParams p = Some e"
    | e where "validateCreateParams p = None" "session_assignee (cs_assignee p) = Inl e"
    | n where "validateCreateParams p = None" "session_assignee (cs_assignee p) = Inr n"
    by (cases "validateCreateParams p"; cases "session_assignee (cs_assignee p)") auto
  then have "CreateSession_sq calm fault (Some w) clock nid p s = create_spec sq_ts scanWorkSession (fault AtReread) fault w clock nid p s \<and>
    CreateSession_pg calm fault (Some w) clock nid p s = create_spec pg_ts scanSession_pg False fault w clock nid p s"
  proof cases
    case (3 n)
    have eff: "mark_started calm fault (in_scope (Some w)) (ts (clock AtTasks)) (cs_tasks p) n
        (s\<lparr>work_sessions := work_sessions s @ [new_session (ts (clock AtWrite)) nid w p],
           session_tasks := link_tasks (ts (clock AtWrite)) nid (cs_tasks p) (session_tasks s)\<rparr>) = started ts fault w clock nid p s" for ts
      by (simp add: mark_started_calm [OF 3(2)] started_def)
    show ?thesis
      using 3 eff [of sq_ts] eff [of pg_ts] started_found [of nid s w sq_ts fault clock p]
      by (auto simp: CreateSession_sq_def CreateSession_pg_def create_spec_def create_refused_def createSessionTx_def
          insert_new_session Let_def reread_session_def)
  qed (simp_all add: CreateSession_sq_def CreateSession_pg_def create_spec_def create_refused_def)
  then show "CreateSession_sq calm fault (Some w) clock nid p s = create_spec sq_ts scanWorkSession (fault AtReread) fault w clock nid p s"
    "CreateSession_pg calm fault (Some w) clock nid p s = create_spec pg_ts scanSession_pg False fault w clock nid p s" by simp_all
qed

lemma links_subset: "link_key ` set ls \<subseteq> link_key ` set (link_tasks at sid ts ls)"
proof (induction ts arbitrary: ls)
  case (Cons t ts)
  have "link_key ` set ls \<subseteq> link_key ` set (add_link l ls)" for l by (auto simp: add_link_def)
  with Cons show ?case by (simp, blast)
qed simp

lemma links_made: "t \<in> set ts \<Longrightarrow> (sid, t) \<in> link_key ` set (link_tasks at sid ts ls)"
proof (induction ts arbitrary: ls)
  case (Cons u ts)
  let ?l = "\<lparr>st_session = sid, st_task = u, st_role = ''primary'', st_created = at\<rparr>"
  have "(sid, u) \<in> link_key ` set (add_link ?l ls)" by (auto simp: add_link_def link_key_def image_iff)
  then show ?case
    using Cons links_subset [of "add_link ?l ls" at sid ts] by auto
qed simp

lemma started_active:
  assumes "create_refused fault w nid p s = None"
  shows "first_row (active_at w (cs_repo p)) (work_sessions (started ts fault w clock nid p s)) =
    Some (new_session (ts (clock AtWrite)) nid w p)"
proof -
  have "\<not> list_ex (active_at w (cs_repo p)) (work_sessions s)"
    using assms by (auto simp: create_refused_def split: option.splits sum.splits if_splits)
  then have "first_row (active_at w (cs_repo p)) (work_sessions s) = None"
    by (auto simp: first_row_None list_ex_iff)
  moreover have "active_at w (cs_repo p) (new_session at nid w p)" for at
    by (simp add: active_at_def new_session_def)
  ultimately show ?thesis
    by (simp add: started_def first_row_append) (simp add: first_row_def)
qed

lemma second_refused:
  assumes "list_ex (active_at w (cs_repo q)) (work_sessions s)"
  shows "create_refused fault w nid q s \<noteq> None"
  using assms by (auto simp: create_refused_def split: option.split sum.split)

lemma batch_assignee_not_empty: "batch_assignee n t \<noteq> Some []"
  by (auto simp: batch_assignee_def nullIfEmpty_def split: option.splits)


section \<open>An owner of white space\<close>

text \<open>The batch update of a session start strips plain spaces only, where the rule it stands in for strips
  all white space: a pending task whose assignee is a tab or another such character, which creating
  a task stores as it is, is refused an owner by UpdateTaskStatus and BeginTask but is started by a
  session that lists it, on both backends, and is then in progress with a blank owner: the database
  leaves the invariant every other operation keeps.\<close>

theorem session_start_without_owner:
  assumes "gtd_inv s" and "create_refused fault w nid p s = None" and "\<not> fault AtTasks"
    and "t \<in> set (tasks s)" and "t_id t \<in> set (cs_tasks p)" and "t_workspace t = Some w" and "t_status t = Pending"
    and "t_assignee t = Some a" and "TrimSpace a = []" and "sql_trim_spaces a \<noteq> []"
  shows "create_assignee a = Inr a \<and>
    fst (UpdateTaskStatus quiet (Some w) now (t_id t) InProgress s) = Inl GAssigneeRequired \<and>
    fst (BeginTask quiet (Some w) now (t_id t) s) = Inl GAssigneeRequired \<and>
    (\<forall>s' \<in> {snd (CreateSession_sq calm fault (Some w) clock nid p s), snd (CreateSession_pg calm fault (Some w) clock nid p s)}.
       \<not> gtd_inv s' \<and>
       (\<exists>t' \<in> set (tasks s'). t_id t' = t_id t \<and> t_status t' = InProgress \<and> TrimSpace (text_of (t_assignee t')) = []))"
proof (intro conjI)
  show "create_assignee a = Inr a" using assms(9) by (simp add: create_assignee_def)
  have row: "taskByID (Some w) (t_id t) s = Inr t"
    using assms(1,4,6) by (intro taskByID_row) (simp_all add: task_row_def)
  have gate: "RequireAssigneeForInProgress (text_of (t_assignee t)) InProgress = Some GAssigneeRequired"
    using assms(8,9) by (simp add: RequireAssigneeForInProgress_def text_of_def)
  show "fst (UpdateTaskStatus quiet (Some w) now (t_id t) InProgress s) = Inl GAssigneeRequired"
    by (simp add: UpdateTaskStatus_def gate_existing_def row gate)
  show "fst (BeginTask quiet (Some w) now (t_id t) s) = Inl GAssigneeRequired"
    using assms(7) by (simp add: BeginTask_def BeginTaskOrchestration_def sqlite_begin_adapter_def row gate)
  have blank: "TrimSpace (sql_trim_spaces a) = []"
  proof -
    have "set (sql_trim_spaces a) \<subseteq> set a"
      by (auto simp: sql_trim_spaces_def sql_trim_def trim_by_def dest!: set_dropWhileD)
    with assms(9) show ?thesis by (auto simp: TrimSpace_def)
  qed
  have bad: "\<not> gtd_inv (started ts fault w clock nid p s) \<and>
     (\<exists>t' \<in> set (tasks (started ts fault w clock nid p s)). t_id t' = t_id t \<and> t_status t' = InProgress \<and> TrimSpace (text_of (t_assignee t')) = [])" for ts
  proof -
    let ?t = "started_row (ts (clock AtTasks)) p t"
    have "batch_assignee (given_assignee p) t = Some (sql_trim_spaces a)"
      using assms(8,10) by (simp add: batch_assignee_def)
    then have t': "t_id ?t = t_id t" "t_status ?t = InProgress" "TrimSpace (text_of (t_assignee ?t)) = []"
      and "started_now fault w p t"
      using assms(3,5-7) blank by (simp_all add: started_row_def started_now_def text_of_def)
    then have "?t \<in> set (tasks (started ts fault w clock nid p s))"
      using assms(4) by (auto simp: started_def set_update_rows)
    with t' show ?thesis by (auto dest: gtd_inv_task simp: task_ok_def)
  qed
  show "\<forall>s' \<in> {snd (CreateSession_sq calm fault (Some w) clock nid p s), snd (CreateSession_pg calm fault (Some w) clock nid p s)}.
       \<not> gtd_inv s' \<and>
       (\<exists>t' \<in> set (tasks s'). t_id t' = t_id t \<and> t_status t' = InProgress \<and> TrimSpace (text_of (t_assignee t')) = [])"
    using bad [of sq_ts] bad [of pg_ts] assms(2) by (simp add: create_refines create_spec_def)
qed

end
