(* ===== verification/Session_Interface.thy ===== *)
theory Session_Interface
  imports Session_Start
begin

text \<open>
  The session store as its clients see it (\<open>worksession.StoreIface\<close>): the laws of starting,
  checkpointing, finishing and looking up the running session that both stores satisfy, and what
  follows for a client from them alone.
\<close>

definition sound :: ws_fault where
  "sound p = False"

lemma sound_simp [simp]: "\<not> sound p"
  by (simp add: sound_def)

locale session_store =
  fixes ts :: "instant \<Rightarrow> instant" and w :: uuid and view :: "work_session \<Rightarrow> work_session"
    and create :: "ws_clock \<Rightarrow> uuid \<Rightarrow> create_session \<Rightarrow> gtd_db \<Rightarrow> work_session ws_result"
    and checkpoint :: "ws_clock \<Rightarrow> uuid \<Rightarrow> ustr \<Rightarrow> gtd_db \<Rightarrow> work_session ws_result"
    and active :: "ustr \<Rightarrow> gtd_db \<Rightarrow> ws_error + active_result"
    and links :: "uuid \<Rightarrow> gtd_db \<Rightarrow> session_task list"
  assumes view_status: "wk_status (view r) = wk_status r"
    and view_checkpoint: "wk_checkpoint (view r) = None \<longleftrightarrow> wk_checkpoint r = None"
    and creates: "create clock nid p s = create_spec ts view False sound w clock nid p s"
    and checkpoints: "session_inv s \<Longrightarrow> checkpoint clock sid summary s =
      (case first_row (open_here w sid) (work_sessions s) of
         None \<Rightarrow> (Inl WNotFound, s)
       | Some r \<Rightarrow> (Inr (view (checkpoint_row (ts (clock AtWrite)) r)),
           s\<lparr>work_sessions := update_rows (open_here w sid) (checkpoint_row (ts (clock AtWrite))) (work_sessions s)\<rparr>))"
    and looks_up: "active repo s =
      (case first_row (active_at w repo) (work_sessions s) of
         None \<Rightarrow> Inr no_active | Some r \<Rightarrow> Inr (is_active (view r) (links (wk_id r) s)))"
begin

lemma starts:
  assumes "create clock nid p s = (Inr row, s')"
  shows "active (cs_repo p) s' = Inr (is_active row (links nid s'))"
proof -
  from assms creates [of clock nid p s] have ok: "create_refused sound w nid p s = None"
    and s': "s' = started ts sound w clock nid p s" and row: "row = view (new_session (ts (clock AtWrite)) nid w p)"
    by (auto simp: create_spec_def split: option.splits)
  show ?thesis
    using started_active [OF ok, of ts clock] by (simp add: looks_up s' row) (simp add: new_session_def)
qed

lemma no_checkpoint_reported:
  assumes "session_inv s" and "active repo s = Inr a"
  shows "ar_checkpoint a = None"
proof (cases "first_row (active_at w repo) (work_sessions s)")
  case None
  with assms(2) show ?thesis by (auto simp: looks_up no_active_def)
next
  case (Some r)
  from first_row_Some [OF this] assms(1) have "wk_checkpoint r = None"
    by (auto simp: session_inv_def list_all_iff session_ok_def active_at_def)
  with assms(2) Some show ?thesis by (auto simp: looks_up is_active_def view_checkpoint)
qed

lemma checkpoint_stops:
  assumes inv: "session_inv s" and r: "r \<in> set (work_sessions s)" "wk_workspace r = w" "wk_status r = SessionActive"
  shows "wk_status (projr (fst (checkpoint clock (wk_id r) summary s))) = Checkpointed"
    and "active (wk_repo r) (snd (checkpoint clock (wk_id r) summary s)) = Inr no_active"
    and "list_ex (open_here w (wk_id r)) (work_sessions (snd (checkpoint clock (wk_id r) summary s)))"
proof -
  have "open_here w (wk_id r) r" using r by (simp add: open_here_def open_session_def)
  then obtain u where u: "first_row (open_here w (wk_id r)) (work_sessions s) = Some u"
    using r(1) by (cases "first_row (open_here w (wk_id r)) (work_sessions s)") (auto simp: first_row_None)
  have ur: "u = r" using first_open_row(3) [OF inv u r(1)] by simp
  have upd: "snd (checkpoint clock (wk_id r) summary s) =
      s\<lparr>work_sessions := update_rows (open_here w (wk_id r)) (checkpoint_row (ts (clock AtWrite))) (work_sessions s)\<rparr>"
    by (simp add: checkpoints [OF inv] u)
  show "wk_status (projr (fst (checkpoint clock (wk_id r) summary s))) = Checkpointed"
    by (simp add: checkpoints [OF inv] u view_status) (simp add: checkpoint_row_def)
  have "\<not> active_at w (wk_repo r) v" if "v \<in> set (update_rows (open_here w (wk_id r)) (checkpoint_row at) (work_sessions s))" for v at
  proof
    assume act: "active_at w (wk_repo r) v"
    from that consider x where "v = checkpoint_row at x" | "v \<in> set (work_sessions s)" "\<not> open_here w (wk_id r) v"
      by (auto simp: set_update_rows)
    then show False
    proof cases
      case 1
      with act show False by (simp add: active_at_def checkpoint_row_def)
    next
      case 2
      then have "v = r"
        using running_unique [OF inv 2(1) r(1)] act r by (simp add: active_at_def is_running_def repo_key_def)
      with 2 \<open>open_here w (wk_id r) r\<close> show False by simp
    qed
  qed
  then show "active (wk_repo r) (snd (checkpoint clock (wk_id r) summary s)) = Inr no_active"
    by (simp add: looks_up upd) (simp add: first_row_None option.case_eq_if)
  have "open_here w (wk_id r) (checkpoint_row at r)" for at
    using r by (simp add: open_here_def open_session_def checkpoint_row_def)
  with r(1) \<open>open_here w (wk_id r) r\<close> show "list_ex (open_here w (wk_id r)) (work_sessions (snd (checkpoint clock (wk_id r) summary s)))"
    by (auto simp: upd list_ex_iff set_update_rows)
qed

lemma summary_lost: "session_inv s \<Longrightarrow> checkpoint clock sid summary s = checkpoint clock sid summary' s"
  by (simp add: checkpoints)

end

section \<open>Both stores\<close>

lemma checkpoint_found:
  assumes inv: "session_inv s" and u: "first_row (open_here w sid) (work_sessions s) = Some r"
  shows "first_row (session_row (Some w) sid) (update_rows (open_here w sid) (checkpoint_row at) (work_sessions s)) = Some (checkpoint_row at r)"
proof -
  note row = first_open_row [OF inv u]
  let ?rows = "update_rows (open_here w sid) (checkpoint_row at) (work_sessions s)"
  have same: "v = checkpoint_row at r" if "v \<in> set ?rows" "session_row (Some w) sid v" for v
  proof -
    from that(1) consider x where "x \<in> set (work_sessions s)" "open_here w sid x" "v = checkpoint_row at x"
      | "v \<in> set (work_sessions s)" "\<not> open_here w sid v" by (auto simp: set_update_rows)
    then show ?thesis
    proof cases
      case (1 x)
      then have "x = r" by (intro row(3)) (simp_all add: open_here_def)
      with 1 show ?thesis by simp
    next
      case 2
      then have "v = r" using that(2) by (intro row(3)) (simp_all add: session_row_def)
      with 2 row(2) show ?thesis by simp
    qed
  qed
  have mem: "checkpoint_row at r \<in> set ?rows"
    using row(1,2) by (auto simp: set_update_rows)
  have "session_row (Some w) sid (checkpoint_row at r)"
    using row(2) by (simp add: session_row_def open_here_def checkpoint_row_def)
  with mem obtain v where v: "first_row (session_row (Some w) sid) ?rows = Some v"
    using first_row_None [of "session_row (Some w) sid" ?rows] by (cases "first_row (session_row (Some w) sid) ?rows") blast+
  from first_row_Some [OF v] have "v = checkpoint_row at r" by (intro same) simp_all
  with v show ?thesis by simp
qed

interpretation sqs: session_store sq_ts w scanWorkSession "CreateSession_sq calm sound (Some w)" "Checkpoint_sq calm sound (Some w)"
  "GetActive_sq calm sound (Some w) w" LinkedTasks_sq
  for w
proof unfold_locales
  fix r
  show "wk_status (scanWorkSession r) = wk_status r" "(wk_checkpoint (scanWorkSession r) = None) = (wk_checkpoint r = None)"
    by (simp_all add: scanWorkSession_def)
next
  fix clock nid p s
  show "CreateSession_sq calm sound (Some w) clock nid p s = create_spec sq_ts scanWorkSession False sound w clock nid p s"
    using create_refines(1) [of sound w clock nid p s] by simp
next
  fix s clock sid summary
  assume inv: "session_inv s"
  show "Checkpoint_sq calm sound (Some w) clock sid summary s =
      (case first_row (open_here w sid) (work_sessions s) of
         None \<Rightarrow> (Inl WNotFound, s)
       | Some r \<Rightarrow> (Inr (scanWorkSession (checkpoint_row (sq_ts (clock AtWrite)) r)),
           s\<lparr>work_sessions := update_rows (open_here w sid) (checkpoint_row (sq_ts (clock AtWrite))) (work_sessions s)\<rparr>))"
    using checkpoint_found [OF inv, of w sid _ "sq_ts (clock AtWrite)"]
    by (simp add: Checkpoint_sq_def Let_def open_here_rows list_ex_first_row reread_session_def byID_def split: option.split)
next
  fix repo s
  show "GetActive_sq calm sound (Some w) w repo s =
      (case first_row (active_at w repo) (work_sessions s) of
         None \<Rightarrow> Inr no_active | Some r \<Rightarrow> Inr (is_active (scanWorkSession r) (LinkedTasks_sq (wk_id r) s)))"
    by (simp add: GetActive_sq_def split: option.split)
qed

interpretation pgs: session_store pg_ts w scanSession_pg "CreateSession_pg calm sound (Some w)" "Checkpoint_pg calm sound (Some w)"
  "GetActive_pg calm sound (Some w) w" LinkedTasks_pg
  for w
proof unfold_locales
  fix r
  show "wk_status (scanSession_pg r) = wk_status r" "(wk_checkpoint (scanSession_pg r) = None) = (wk_checkpoint r = None)"
    by (simp_all add: scanSession_pg_def)
next
  fix clock nid p s
  show "CreateSession_pg calm sound (Some w) clock nid p s = create_spec pg_ts scanSession_pg False sound w clock nid p s"
    by (rule create_refines(2))
next
  fix s clock sid summary
  assume inv: "session_inv s"
  show "Checkpoint_pg calm sound (Some w) clock sid summary s =
      (case first_row (open_here w sid) (work_sessions s) of
         None \<Rightarrow> (Inl WNotFound, s)
       | Some r \<Rightarrow> (Inr (scanSession_pg (checkpoint_row (pg_ts (clock AtWrite)) r)),
           s\<lparr>work_sessions := update_rows (open_here w sid) (checkpoint_row (pg_ts (clock AtWrite))) (work_sessions s)\<rparr>))"
    by (simp add: Checkpoint_pg_def Let_def open_here_rows update_session_def split: option.split)
next
  fix repo s
  show "GetActive_pg calm sound (Some w) w repo s =
      (case first_row (active_at w repo) (work_sessions s) of
         None \<Rightarrow> Inr no_active | Some r \<Rightarrow> Inr (is_active (scanSession_pg r) (LinkedTasks_pg (wk_id r) s)))"
    by (simp add: GetActive_pg_def split: option.split)
qed

text \<open>A checkpoint takes a session out of the running ones: on both backends the lookup of the
  repository's running session then finds nothing, although the session is still open and can be
  finished; the summary every caller must supply has no effect; and in no reachable database does the
  lookup report the time of a last checkpoint.\<close>

theorem checkpoint_hides_session:
  assumes "session_reach s" and "r \<in> set (work_sessions s)" and "wk_workspace r = w" and "wk_status r = SessionActive"
  shows "(\<forall>(checkpoint, active) \<in> {(Checkpoint_sq calm sound (Some w), GetActive_sq calm sound (Some w) w),
        (Checkpoint_pg calm sound (Some w), GetActive_pg calm sound (Some w) w)}.
      wk_status (projr (fst (checkpoint clock (wk_id r) summary s))) = Checkpointed \<and>
      list_ex (open_here w (wk_id r)) (work_sessions (snd (checkpoint clock (wk_id r) summary s))) \<and>
      active (wk_repo r) (snd (checkpoint clock (wk_id r) summary s)) = Inr no_active \<and>
      checkpoint clock (wk_id r) summary s = checkpoint clock (wk_id r) [] s) \<and>
    (\<forall>repo a. GetActive_sq calm sound (Some w) w repo s = Inr a \<or> GetActive_pg calm sound (Some w) w repo s = Inr a \<longrightarrow>
       ar_checkpoint a = None)"
proof -
  have inv: "session_inv s" using session_reach_inv [OF assms(1)] by (simp add: all_inv_def)
  show ?thesis
    by (auto simp: sqs.checkpoint_stops [OF inv assms(2-4)] pgs.checkpoint_stops [OF inv assms(2-4)]
        intro: sqs.summary_lost [OF inv] pgs.summary_lost [OF inv]
        dest: sqs.no_checkpoint_reported [OF inv] pgs.no_checkpoint_reported [OF inv])
qed

end
