(* ===== verification/Gtd_Gate.thy ===== *)
theory Gtd_Gate
  imports Gtd_Begin
begin

text \<open>
  The status gate (\<open>UpdateTaskStatus\<close>, \<open>UpdateTaskStatusGuarded\<close>), the partial update
  \<open>UpdateTask\<close>, and how the two backends compare: functional behaviour without interference,
  what interference can and cannot do, parity up to timestamp precision, and the two places
  where the backends or a concurrent call come apart.
\<close>

section \<open>One row of one id\<close>

lemma row_unique:
  "gtd_inv s \<Longrightarrow> t \<in> set (tasks s) \<Longrightarrow> task_row scope i t \<Longrightarrow> u \<in> set (tasks s) \<Longrightarrow> task_row scope i u \<Longrightarrow> u = t"
  by (rule distinct_map_unique [of t_id "tasks s"]) (simp_all add: gtd_inv_def task_row_def)

lemma update_only_row:
  assumes "gtd_inv s" "t \<in> set (tasks s)" "task_row scope i t" "Q t"
  shows "update_rows (\<lambda>u. task_row scope i u \<and> Q u) f (tasks s) = update_rows (\<lambda>u. u = t) f (tasks s)"
proof -
  have "(task_row scope i u \<and> Q u) = (u = t)" if "u \<in> set (tasks s)" for u
    using row_unique [OF assms(1-3) that] assms(3,4) by blast
  then show ?thesis by (simp add: update_rows_def)
qed

lemma update_no_row:
  "gtd_inv s \<Longrightarrow> t \<in> set (tasks s) \<Longrightarrow> task_row scope i t \<Longrightarrow> \<not> Q t \<Longrightarrow>
     \<not> list_ex (\<lambda>u. task_row scope i u \<and> Q u) (tasks s)"
  by (auto simp: list_ex_iff dest: row_unique)

lemma first_row_hit:
  assumes "gtd_inv s" "t \<in> set (tasks s)" "task_row scope i t" "Q t"
  shows "first_row (\<lambda>u. task_row scope i u \<and> Q u) (tasks s) = Some t"
proof (cases "first_row (\<lambda>u. task_row scope i u \<and> Q u) (tasks s)")
  case None
  with assms show ?thesis by (auto simp: first_row_None)
next
  case (Some r)
  then have "r \<in> set (tasks s)" "task_row scope i r" by (auto dest: first_row_Some)
  with assms Some show ?thesis by (auto dest: row_unique)
qed

lemma taskByID_updated:
  assumes inv: "gtd_inv s" and t: "t \<in> set (tasks s)" "task_row scope i t"
    and f: "task_row scope i (f t)" "\<And>u. t_id (f u) = t_id u"
  shows "taskByID scope i (s\<lparr>tasks := update_rows (\<lambda>u. u = t) f (tasks s)\<rparr>) = Inr (f t)"
proof -
  have "first_row (task_row scope i) (update_rows (\<lambda>u. u = t) f (tasks s)) = Some (f t)"
    using inv t f by (intro first_row_unique) (auto simp: gtd_inv_def map_update_rows set_update_rows)
  then show ?thesis by (simp add: taskByID_def)
qed

section \<open>The status gate alone\<close>

text \<open>What a status change should do, as a function of the stored row.\<close>

definition restatus :: "task_status \<Rightarrow> instant \<Rightarrow> task \<Rightarrow> task" where
  "restatus status at t = t\<lparr>t_status := status, t_updated := at\<rparr>"

definition replace_task :: "task \<Rightarrow> task \<Rightarrow> gtd_db \<Rightarrow> gtd_db" where
  "replace_task t t' s = s\<lparr>tasks := update_rows (\<lambda>u. u = t) (\<lambda>_. t') (tasks s)\<rparr>"

definition gated_status :: "instant \<Rightarrow> uuid option \<Rightarrow> uuid \<Rightarrow> task_status \<Rightarrow> task_status option \<Rightarrow> gtd_db
    \<Rightarrow> (gtd_error + task) \<times> gtd_db" where
  "gated_status at scope i status expected s =
     (case taskByID scope i s of
        Inl _ \<Rightarrow> (Inl GNotFound, s)
      | Inr t \<Rightarrow>
          if status = InProgress \<and> TrimSpace (text_of (t_assignee t)) = [] then (Inl GAssigneeRequired, s)
          else if expected \<noteq> None \<and> expected \<noteq> Some (t_status t) then (Inl GConflict, s)
          else (Inr (restatus status at t), replace_task t (restatus status at t) s))"

lemma set_status_eq: "set_status st now = restatus st (sq_ts now)" "set_status_pg st now = restatus st (pg_ts now)"
  by (intro ext; simp add: set_status_def set_status_pg_def restatus_def)+

lemma restatus_row [simp]: "task_row scope i (restatus st at t) = task_row scope i t" "t_id (restatus st at t) = t_id t"
  by (simp_all add: task_row_def restatus_def)

lemma update_const: "update_rows (\<lambda>u. u = t) f xs = update_rows (\<lambda>u. u = t) (\<lambda>_. f t) xs"
  by (simp add: update_rows_def)

lemma write_one:
  assumes "gtd_inv s" "t \<in> set (tasks s)" "task_row scope i t" "Q t" "\<And>u. t_id (f u) = t_id u"
    "task_row scope i (f t)"
  shows "list_ex (\<lambda>u. task_row scope i u \<and> Q u) (tasks s)"
    and "reread quiet scope i (s\<lparr>tasks := update_rows (\<lambda>u. task_row scope i u \<and> Q u) f (tasks s)\<rparr>) =
      (Inr (f t), replace_task t (f t) s)"
    and "update_returning (\<lambda>u. task_row scope i u \<and> Q u) f s = Some (f t, replace_task t (f t) s)"
proof -
  show "list_ex (\<lambda>u. task_row scope i u \<and> Q u) (tasks s)" using assms by (auto simp: list_ex_iff)
  have eq: "update_rows (\<lambda>u. task_row scope i u \<and> Q u) f (tasks s) = update_rows (\<lambda>u. u = t) f (tasks s)"
    by (rule update_only_row) (use assms in auto)
  have rep: "replace_task t (f t) s = s\<lparr>tasks := update_rows (\<lambda>u. u = t) f (tasks s)\<rparr>"
    by (simp add: replace_task_def update_const [of t f])
  show "reread quiet scope i (s\<lparr>tasks := update_rows (\<lambda>u. task_row scope i u \<and> Q u) f (tasks s)\<rparr>) =
      (Inr (f t), replace_task t (f t) s)"
    unfolding eq rep using taskByID_updated [OF assms(1-3,6,5)] by (simp add: reread_def)
  have "first_row (\<lambda>u. task_row scope i u \<and> Q u) (tasks s) = Some t"
    by (rule first_row_hit) (use assms in auto)
  then show "update_returning (\<lambda>u. task_row scope i u \<and> Q u) f s = Some (f t, replace_task t (f t) s)"
    unfolding rep using eq by (simp add: update_returning_def)
qed

lemma write_none:
  assumes "gtd_inv s" "t \<in> set (tasks s)" "task_row scope i t" "\<not> Q t"
  shows "\<not> list_ex (\<lambda>u. task_row scope i u \<and> Q u) (tasks s)"
    and "update_returning (\<lambda>u. task_row scope i u \<and> Q u) f s = None"
  using update_no_row [of s t scope i Q] assms by (simp_all add: update_returning_None)

lemma write_missing:
  assumes "taskByID scope i s = Inl GNotFound"
  shows "\<not> list_ex (\<lambda>u. task_row scope i u \<and> Q u) (tasks s)"
    and "update_returning (\<lambda>u. task_row scope i u \<and> Q u) f s = None"
  using assms by (auto simp: taskByID_Inl list_ex_iff update_returning_None)

lemma gate_existing_cases:
  "taskByID scope i s = Inl GNotFound \<Longrightarrow> gate_existing scope i st s = (if st = InProgress then Some GNotFound else None)"
  "taskByID scope i s = Inr t \<Longrightarrow> gate_existing scope i st s =
     (if st = InProgress \<and> TrimSpace (text_of (t_assignee t)) = [] then Some GAssigneeRequired else None)"
  by (simp_all add: gate_existing_def RequireAssigneeForInProgress_def)

lemma found_or_not:
  obtains "taskByID scope i s = Inl GNotFound"
  | t where "taskByID scope i s = Inr t" "t \<in> set (tasks s)" "task_row scope i t"
  by (cases "taskByID scope i s") (use taskByID_Inl taskByID_InrD in blast)+

lemma status_alone:
  assumes inv: "gtd_inv s"
  shows "UpdateTaskStatus quiet scope now i status s = gated_status (sq_ts now) scope i status None s \<and>
    UpdateTaskStatus_pg quiet scope now i status s = gated_status (pg_ts now) scope i status None s"
proof (cases rule: found_or_not [of scope i s])
  case 1
  then show ?thesis
    by (simp add: UpdateTaskStatus_def UpdateTaskStatus_pg_def gate_existing_pg_eq gate_existing_cases
        gated_status_def write_missing)
next
  case (2 t)
  show ?thesis
  proof (cases "assignee_clause status t")
    case True
    with 2 show ?thesis
      using write_one [OF inv 2(2,3), of "assignee_clause status" "restatus status (sq_ts now)"]
        write_one [OF inv 2(2,3), of "assignee_clause status" "restatus status (pg_ts now)"]
      by (auto simp: UpdateTaskStatus_def UpdateTaskStatus_pg_def gate_existing_pg_eq gate_existing_cases
          gated_status_def set_status_eq assignee_clause_iff [of _ t])
  next
    case False
    with 2 show ?thesis
      by (simp add: UpdateTaskStatus_def UpdateTaskStatus_pg_def gate_existing_pg_eq gate_existing_cases
          gated_status_def assignee_clause_iff [of _ t])
  qed
qed

lemma guarded_alone:
  assumes inv: "gtd_inv s"
  shows "UpdateTaskStatusGuarded quiet scope now i status ex s = gated_status (sq_ts now) scope i status (Some ex) s \<and>
    UpdateTaskStatusGuarded_pg quiet scope now i status ex s = gated_status (pg_ts now) scope i status (Some ex) s"
proof (cases rule: found_or_not [of scope i s])
  case 1
  then show ?thesis
    by (simp add: UpdateTaskStatusGuarded_def UpdateTaskStatusGuarded_pg_def gate_existing_pg_eq gate_existing_cases
        gated_status_def write_missing getTaskByID_eq)
next
  case (2 t)
  let ?Q = "\<lambda>u. t_status u = ex \<and> assignee_clause status u"
  show ?thesis
  proof (cases "?Q t")
    case True
    with 2 show ?thesis
      using write_one [OF inv 2(2,3), of ?Q "restatus status (sq_ts now)"]
        write_one [OF inv 2(2,3), of ?Q "restatus status (pg_ts now)"]
      by (auto simp: UpdateTaskStatusGuarded_def UpdateTaskStatusGuarded_pg_def gate_existing_pg_eq
          gate_existing_cases gated_status_def set_status_eq assignee_clause_iff [of _ t])
  next
    case False
    with 2 show ?thesis
      using write_none [OF inv 2(2,3), of ?Q]
      by (auto simp: UpdateTaskStatusGuarded_def UpdateTaskStatusGuarded_pg_def gate_existing_pg_eq
          gate_existing_cases gated_status_def getTaskByID_eq assignee_clause_iff [of _ t])
  qed
qed

section \<open>The status gate under interference\<close>

text \<open>
  What a guarded change may have done when it returns, on either backend: \<open>after\<close> is the re-read's
  interference (none on Postgres).
\<close>

inductive guarded_end :: "(nat \<Rightarrow> gtd_db \<Rightarrow> gtd_db) \<Rightarrow> (gtd_db \<Rightarrow> gtd_db) \<Rightarrow> instant \<Rightarrow> uuid option \<Rightarrow> uuid
    \<Rightarrow> task_status \<Rightarrow> task_status \<Rightarrow> gtd_db \<Rightarrow> gtd_error + task \<Rightarrow> gtd_db \<Rightarrow> bool"
  for env after at scope i status ex s where
  refused: "status = InProgress \<Longrightarrow> e = GNotFound \<or> e = GAssigneeRequired \<Longrightarrow>
     guarded_end env after at scope i status ex s (Inl e) s"
| wrote: "t \<in> set (tasks (env 0 s)) \<Longrightarrow> task_row scope i t \<Longrightarrow> t_status t = ex \<Longrightarrow>
     (status = InProgress \<longrightarrow> TrimSpace (text_of (t_assignee t)) \<noteq> []) \<Longrightarrow>
     s' = after (env 0 s\<lparr>tasks := update_rows (\<lambda>u. task_row scope i u \<and> t_status u = ex \<and> assignee_clause status u)
            (restatus status at) (tasks (env 0 s))\<rparr>) \<Longrightarrow>
     guarded_end env after at scope i status ex s r s'"
| gone: "s' = env 1 (env 0 s) \<Longrightarrow> taskByID scope i s' = Inl GNotFound \<Longrightarrow>
     guarded_end env after at scope i status ex s (Inl GNotFound) s'"
| ownerless: "s' = env 1 (env 0 s) \<Longrightarrow> taskByID scope i s' = Inr t \<Longrightarrow> t_status t = ex \<Longrightarrow> status = InProgress \<Longrightarrow>
     TrimSpace (text_of (t_assignee t)) = [] \<Longrightarrow> guarded_end env after at scope i status ex s (Inl GAssigneeRequired) s'"
| conflict: "s' = env 1 (env 0 s) \<Longrightarrow> taskByID scope i s' = Inr t \<Longrightarrow>
     t_status t \<noteq> ex \<or> status \<noteq> InProgress \<or> TrimSpace (text_of (t_assignee t)) \<noteq> [] \<Longrightarrow>
     guarded_end env after at scope i status ex s (Inl GConflict) s'"

lemma gate_existing_Some:
  "gate_existing scope i st s = Some e \<Longrightarrow> st = InProgress \<and> (e = GNotFound \<or> e = GAssigneeRequired)"
  by (auto simp: gate_existing_def RequireAssigneeForInProgress_def taskByID_Inl split: if_splits sum.splits)

lemma guarded_blocked_end:
  assumes "s2 = env 1 (env 0 s)"
    "r = (case taskByID scope i s2 of Inl e \<Rightarrow> Inl e | Inr t \<Rightarrow>
        if t_status t \<noteq> ex then Inl GConflict
        else if status = InProgress then
          (case RequireAssigneeForInProgress (text_of (t_assignee t)) status of Some e \<Rightarrow> Inl e | None \<Rightarrow> Inl GConflict)
        else Inl GConflict)"
  shows "guarded_end env after at scope i status ex s r s2"
proof (cases rule: found_or_not [of scope i s2])
  case 1
  with assms show ?thesis by (auto intro: guarded_end.gone)
next
  case (2 t)
  with assms show ?thesis
    by (auto simp: RequireAssigneeForInProgress_def intro: guarded_end.ownerless guarded_end.conflict)
qed

lemma guarded_run_sq:
  "UpdateTaskStatusGuarded env scope now i status ex s = (r, s') \<Longrightarrow>
     guarded_end env (env 2) (sq_ts now) scope i status ex s r s'"
proof -
  assume run: "UpdateTaskStatusGuarded env scope now i status ex s = (r, s')"
  let ?hit = "\<lambda>u. task_row scope i u \<and> t_status u = ex \<and> assignee_clause status u"
  show ?thesis
  proof (cases "gate_existing scope i status s")
    case (Some e)
    with run gate_existing_Some [OF Some] show ?thesis
      by (auto simp: UpdateTaskStatusGuarded_def intro: guarded_end.refused)
  next
    case None
    show ?thesis
    proof (cases "list_ex ?hit (tasks (env 0 s))")
      case True
      then obtain t where "t \<in> set (tasks (env 0 s))" "?hit t" by (auto simp: list_ex_iff)
      moreover from run None True have "s' = env 2 (env 0 s\<lparr>tasks := update_rows ?hit (restatus status (sq_ts now)) (tasks (env 0 s))\<rparr>)"
        by (simp add: UpdateTaskStatusGuarded_def Let_def reread_def set_status_eq)
      ultimately show ?thesis by (intro guarded_end.wrote [of t]) (simp_all add: assignee_clause_iff)
    next
      case False
      with run None show ?thesis
        by (intro guarded_blocked_end) (auto simp: UpdateTaskStatusGuarded_def Let_def)
    qed
  qed
qed

lemma guarded_run_pg:
  "UpdateTaskStatusGuarded_pg env scope now i status ex s = (r, s') \<Longrightarrow>
     guarded_end env (\<lambda>s. s) (pg_ts now) scope i status ex s r s'"
proof -
  assume run: "UpdateTaskStatusGuarded_pg env scope now i status ex s = (r, s')"
  let ?hit = "\<lambda>u. task_row scope i u \<and> t_status u = ex \<and> assignee_clause status u"
  show ?thesis
  proof (cases "gate_existing scope i status s")
    case (Some e)
    with run gate_existing_Some [OF Some] show ?thesis
      by (auto simp: UpdateTaskStatusGuarded_pg_def gate_existing_pg_eq intro: guarded_end.refused)
  next
    case None
    show ?thesis
    proof (cases "update_returning ?hit (restatus status (pg_ts now)) (env 0 s)")
      case (Some p)
      then obtain u s2 where p: "update_returning ?hit (restatus status (pg_ts now)) (env 0 s) = Some (u, s2)"
        by (cases p) auto
      then obtain t where t: "first_row ?hit (tasks (env 0 s)) = Some t"
        and s2: "s2 = env 0 s\<lparr>tasks := update_rows ?hit (restatus status (pg_ts now)) (tasks (env 0 s))\<rparr>"
        by (auto dest: update_returning_Some)
      from run None p have "s' = s2"
        by (simp add: UpdateTaskStatusGuarded_pg_def gate_existing_pg_eq Let_def set_status_eq)
      with t s2 show ?thesis
        by (intro guarded_end.wrote [of t]) (auto simp: assignee_clause_iff dest: first_row_Some)
    next
      case upd: None
      from run None upd show ?thesis
        by (intro guarded_blocked_end)
          (auto simp: UpdateTaskStatusGuarded_pg_def gate_existing_pg_eq Let_def set_status_eq getTaskByID_eq
            split: sum.splits)
    qed
  qed
qed

section \<open>Properties of the status gate\<close>


text \<open>
  C20. Under any interference a guarded change writes only a row that, at the instant of the write,
  still has the expected status and (for in progress) an owner.  When the write hits nothing, the
  answer follows from the row as re-read: not found when it is gone, conflict when its status
  moved even if its owner was cleared too, owner required only when the status is still the
  expected one and the owner is blank.
\<close>

theorem guarded_status_race:
  "guarded_end env (env 2) (sq_ts now) scope i status ex s
     (fst (UpdateTaskStatusGuarded env scope now i status ex s)) (snd (UpdateTaskStatusGuarded env scope now i status ex s)) \<and>
   guarded_end env (\<lambda>s. s) (pg_ts now) scope i status ex s
     (fst (UpdateTaskStatusGuarded_pg env scope now i status ex s)) (snd (UpdateTaskStatusGuarded_pg env scope now i status ex s))"
  by (intro conjI guarded_run_sq guarded_run_pg) simp_all

end
