(* ===== verification/Gtd_Update.thy ===== *)
theory Gtd_Update
  imports Gtd_Gate
begin

text \<open>
  The partial update \<open>UpdateTask\<close>, creation and the closing of tasks by merged pull requests:
  what a call changes and leaves alone, the parity of the two backends up to the precision of
  their timestamps, and the places where it fails.
\<close>

section \<open>UpdateTask\<close>

text \<open>The row a successful update leaves, field by field: an omitted field keeps its value.\<close>

definition updated_row :: "(instant \<Rightarrow> instant) \<Rightarrow> update_task_params \<Rightarrow> task \<Rightarrow> task \<Rightarrow> bool" where
  "updated_row ts p t t' \<longleftrightarrow>
     t_id t' = t_id t \<and> t_workspace t' = t_workspace t \<and> t_created t' = t_created t \<and>
     t_artifact t' = t_artifact t \<and> t_checklist t' = t_checklist t \<and> t_vision_item t' = t_vision_item t \<and>
     t_title t' = keep (t_title t) (ut_title p) \<and> t_priority t' = keep (t_priority t) (ut_priority p) \<and>
     t_status t' = keep (t_status t) (ut_status p) \<and> t_kind t' = keep (t_kind t) (ut_kind p) \<and>
     t_area t' = keep (t_area t) (ut_area p) \<and>
     t_description t' = keep_text (t_description t) (ut_description p) \<and>
     t_context t' = keep_text (t_context t) (ut_context p) \<and>
     t_branch t' = keep_text (t_branch t) (ut_branch p) \<and> t_pr_url t' = keep_text (t_pr_url t) (ut_pr_url p) \<and>
     t_importance t' = (case ut_importance p of None \<Rightarrow> t_importance t | Some n \<Rightarrow> Some n) \<and>
     t_due t' = map_option ts (case ut_due p of None \<Rightarrow> t_due t | Some d \<Rightarrow> Some d) \<and>
     t_project t' = keep (t_project t) (ut_project p) \<and>
     t_commit_shas t' = t_commit_shas t @ (case ut_append_sha p of None \<Rightarrow> [] | Some c \<Rightarrow> [c]) \<and>
     (case ut_assignee p of
        None \<Rightarrow> t_assignee t' = t_assignee t
      | Some raw \<Rightarrow> t_assignee t' = (if TrimSpace raw = [] then None else NormalizeActor raw)) \<and>
     (t_status t' = InProgress \<longrightarrow> TrimSpace (text_of (t_assignee t')) \<noteq> [])"

lemma NormalizeActor_keep: "NormalizeActor raw = Some a \<Longrightarrow> nullIfEmpty a = Some a"
  using NormalizeActor_not_blank [of raw a] by (auto simp: nullIfEmpty_def TrimSpace_def)

lemma write_fields_row:
  assumes "update_assignee (ut_assignee p) = Inr a"
    and "m = mergeTaskFields ts t (p\<lparr>ut_assignee := a\<rparr>)"
    and "RequireAssigneeForInProgress (text_of (mf_assignee m)) (mf_status m) = None"
    and "ref = ut_project p"
  shows "updated_row ts p t (write_fields at m p ref t)"
proof -
  have "case ut_assignee p of
      None \<Rightarrow> keep_text (t_assignee t) a = t_assignee t
    | Some raw \<Rightarrow> keep_text (t_assignee t) a = (if TrimSpace raw = [] then None else NormalizeActor raw)"
    using assms(1) by (auto simp: update_assignee_def keep_text_def nullIfEmpty_def [of "[]"] NormalizeActor_keep
        split: option.splits if_splits)
  with assms(2-4) show ?thesis
    by (cases "ut_assignee p"; cases "ut_append_sha p")
      (simp_all add: updated_row_def write_fields_def mergeTaskFields_def RequireAssignee_None)
qed

lemma resolveProjectWrite_Inr:
  "resolveProjectWrite scope ref s = Inr w \<Longrightarrow>
     w = ref \<and> (\<forall>q. ref = Some (Some q) \<longrightarrow> list_ex (project_row scope q) (projects s))"
  by (auto simp: resolveProjectWrite_def projectByID_def list_ex_iff split: option.splits sum.splits
      dest: first_row_Some)

lemma UpdateTask_alone:
  assumes inv: "gtd_inv s" and run: "UpdateTask quiet scope now i p s = (r, s')"
  shows "case r of
      Inl e \<Rightarrow> s' = s
    | Inr t' \<Rightarrow> \<exists>t \<in> set (tasks s). task_row scope i t \<and> updated_row sq_ts p t t' \<and> t_updated t' = sq_ts now \<and>
        s' = replace_task t t' s \<and>
        (\<forall>q. ut_project p = Some (Some q) \<longrightarrow> list_ex (project_row scope q) (projects s))"
proof (cases rule: found_or_not [of scope i s])
  case 1
  with run have "r = Inl GNotFound" "s' = s" by (simp_all add: UpdateTask_def)
  then show ?thesis by simp
next
  case (2 t)
  show ?thesis
  proof (cases "resolveProjectWrite scope (ut_project p) s")
    case (Inl e)
    with run 2 show ?thesis by (auto simp: UpdateTask_def Let_def)
  next
    case proj: (Inr ref)
    show ?thesis
    proof (cases "update_assignee (ut_assignee p)")
      case (Inl e)
      with run 2 proj show ?thesis by (auto simp: UpdateTask_def Let_def)
    next
      case (Inr a)
      define m where "m = mergeTaskFields sq_ts t (p\<lparr>ut_assignee := a\<rparr>)"
      define w where "w = write_fields (sq_ts now) m p ref"
      let ?rows = "update_rows (task_row scope i) w (tasks s)"
      have one: "list_ex (task_row scope i) (tasks s)"
        and rr: "reread quiet scope i (s\<lparr>tasks := ?rows\<rparr>) = (Inr (w t), replace_task t (w t) s)"
        using write_one [OF inv 2(2,3), of "\<lambda>_. True" w] 2(3) by (simp_all add: w_def)
      show ?thesis
      proof (cases "RequireAssigneeForInProgress (text_of (mf_assignee m)) (mf_status m) = None \<and>
          list_all task_check (filter (task_row scope i) ?rows)")
        case False
        with run 2 proj Inr one show ?thesis
          by (auto simp: UpdateTask_def Let_def m_def w_def split: option.splits if_splits)
      next
        case True
        with run 2 proj Inr one rr have r: "r = Inr (w t)" and s': "s' = replace_task t (w t) s"
          by (auto simp: UpdateTask_def Let_def m_def w_def)
        have "updated_row sq_ts p t (w t)"
          unfolding w_def using True Inr m_def resolveProjectWrite_Inr [OF proj]
          by (intro write_fields_row) auto
        moreover have "t_updated (w t) = sq_ts now" by (simp add: w_def write_fields_def)
        ultimately show ?thesis
          using r s' 2 resolveProjectWrite_Inr [OF proj] by auto
      qed
    qed
  qed
qed


text \<open>The update that only sets a title, and an interference that starts the task just before its write.\<close>

definition title_only :: "ustr \<Rightarrow> update_task_params" where
  "title_only x = \<lparr>ut_title = Some x, ut_description = None, ut_priority = None, ut_importance = None,
     ut_assignee = None, ut_due = None, ut_context = None, ut_status = None, ut_kind = None, ut_branch = None,
     ut_pr_url = None, ut_area = None, ut_project = None, ut_append_sha = None\<rparr>"

definition begin_between :: "uuid option \<Rightarrow> instant \<Rightarrow> uuid \<Rightarrow> nat \<Rightarrow> gtd_db \<Rightarrow> gtd_db" where
  "begin_between scope at i n s = (if n = 1 then snd (BeginTask quiet scope at i s) else s)"

lemma reread_between: "reread (begin_between scope at j) scope' i s = reread quiet scope' i s"
  by (simp add: reread_def begin_between_def)

lemma started_gtd_inv:
  assumes inv: "gtd_inv s" and t: "t \<in> set (tasks s)" "begin_guard scope i t"
  shows "gtd_inv (started (\<lambda>u. u = t) at log s)"
proof -
  have "task_ok (start_row at t)"
    using inv t gtd_inv_task [of s t] by (auto simp: task_ok_def task_check_def start_row_def assignee_clause_iff begin_guard_def)
  then have "gtd_inv (s\<lparr>tasks := update_rows (\<lambda>u. u = t) (start_row at) (tasks s)\<rparr>)"
    using inv by (intro gtd_inv_update_tasks) (simp_all, simp add: start_row_def)
  then show ?thesis by (simp add: started_def)
qed

lemma title_update_run:
  fixes at now :: instant and x :: ustr
  assumes inv: "gtd_inv s" and t: "t \<in> set (tasks s)" "begin_guard scope i t"
  defines "s1 \<equiv> started (\<lambda>u. u = t) (sq_ts at) (begin_log_row scope (sq_ts at) (t_title t)) s"
    and "w \<equiv> write_fields (sq_ts now) (mergeTaskFields sq_ts t (title_only x)) (title_only x) None"
    and "u \<equiv> start_row (sq_ts at) t"
  shows "UpdateTask (begin_between scope at i) scope now i (title_only x) s = (Inr (w u), replace_task u (w u) s1)"
proof -
  have row: "task_row scope i t" "t_status t \<noteq> InProgress" using t by (simp_all add: begin_guard_def)
  have found: "taskByID scope i s = Inr t" using inv t row by (simp add: taskByID_row)
  have inv1: "gtd_inv s1" unfolding s1_def by (rule started_gtd_inv [OF inv t])
  have u: "u \<in> set (tasks s1)" "task_row scope i u"
    using t row by (auto simp: s1_def u_def started_def set_update_rows task_row_def start_row_def)
  have prm: "ut_project (title_only x) = None" "ut_assignee (title_only x) = None"
      "title_only x\<lparr>ut_assignee := None\<rparr> = title_only x"
    and req: "RequireAssigneeForInProgress a (t_status t) = None"
    and env: "begin_between scope at i 0 s = s" "begin_between scope at i (Suc 0) s = s1"
    and st: "mf_status (mergeTaskFields sq_ts t (title_only x)) = t_status t"
    for a
    using row BeginTask_starts(1) [OF inv t, of at]
    by (simp_all add: title_only_def mergeTaskFields_def keep_def RequireAssignee_None begin_between_def s1_def)
  have upd: "list_ex (task_row scope i) (tasks s1)"
    "reread quiet scope i (s1\<lparr>tasks := update_rows (task_row scope i) w (tasks s1)\<rparr>) = (Inr (w u), replace_task u (w u) s1)"
    using write_one [OF inv1 u, of "\<lambda>_. True" w] u(2) by (simp_all add: w_def)
  have chk: "list_all task_check (filter (task_row scope i) (update_rows (task_row scope i) w (tasks s1)))"
    using gtd_inv_task [OF inv t(1)] row_unique [OF inv1 u]
    by (auto simp: list_all_iff set_update_rows w_def task_ok_def task_check_def write_fields_def
        mergeTaskFields_def title_only_def keep_def)
  show ?thesis
    using found chk upd
    by (simp add: UpdateTask_def Let_def resolveProjectWrite_def update_assignee_def prm st req
        reread_between env w_def)
qed

text \<open>
  A concurrent \<open>BeginTask\<close> is undone by an \<open>UpdateTask\<close> that only sets the title: the update
  rewrites the status it read before the start, so the task the start returned as in progress is
  pending (or whatever it was) again, with the \<open>work_session_started\<close> row left in the log.
\<close>

theorem title_update_undoes_begin:
  assumes "gtd_inv s" "t \<in> set (tasks s)" "begin_guard scope i t"
  shows "let (r, s') = UpdateTask (begin_between scope at i) scope now i (title_only x) s
    in fst (BeginTask quiet scope at i s) = Inr (start_row (sq_ts at) t) \<and>
       (\<exists>t'. r = Inr t' \<and> t' \<in> set (tasks s') \<and> t_id t' = i \<and> t_title t' = x \<and>
          t_status t' = t_status t \<and> t_status t' \<noteq> InProgress) \<and>
       activity_log s' = activity_log s @ [begin_log_row scope (sq_ts at) (t_title t)]"
  using title_update_run [OF assms, of at now x] BeginTask_starts(1) [OF assms, of at] assms
  by (simp add: replace_task_def started_def)
    (auto simp: set_update_rows write_fields_def mergeTaskFields_def title_only_def keep_def
      begin_guard_def task_row_def start_row_def)

end
