(* ===== verification/Gtd_Parity.thy ===== *)
theory Gtd_Parity
  imports Gtd_Update
begin

text \<open>
  The task operations of the two backends side by side: the same results and the same tables on
  instants of whole milliseconds (the precision both store), the one column creation loses on
  SQLite, and the batch that closes tasks by merged pull requests, which is atomic on SQLite
  and not on Postgres.
\<close>

section \<open>Instants both backends store unchanged\<close>

definition whole_ms :: "instant \<Rightarrow> bool" where
  "whole_ms t \<longleftrightarrow> sq_ts t = t"

definition whole_due :: "instant option \<Rightarrow> bool" where
  "whole_due d = (case d of None \<Rightarrow> True | Some t \<Rightarrow> whole_ms t)"

lemma whole_ms_sq: "whole_ms t \<Longrightarrow> sq_ts t = t"
  by (simp add: whole_ms_def)

lemma whole_ms_pg: "whole_ms t \<Longrightarrow> pg_ts t = t"
proof -
  assume "whole_ms t"
  then have "t = (t div 1000000 * 1000) * 1000" by (simp add: whole_ms_def sq_ts_def)
  then have "1000 dvd t" by (metis dvd_triv_right)
  then show ?thesis by (simp add: pg_ts_def)
qed

lemma whole_due_ts: "whole_due d \<Longrightarrow> map_option sq_ts d = d" "whole_due d \<Longrightarrow> map_option pg_ts d = d"
  by (simp_all add: whole_due_def whole_ms_sq whole_ms_pg split: option.splits)

section \<open>Operation by operation\<close>

lemma CreateTask_parity:
  assumes inv: "gtd_inv s" and ts: "whole_ms now" "whole_due (ct_due p)" and vision: "ct_vision p = None"
  shows "CreateTask quiet scope now nid p s = CreateTask_pg scope now nid p s"
proof -
  have same: "new_task pg_ts scope now nid p a None = new_task sq_ts scope now nid p a None" for a
    using ts by (simp add: new_task_def whole_ms_sq whole_ms_pg whole_due_ts)
  have found: "taskByID scope nid (s\<lparr>tasks := tasks s @ [t]\<rparr>) = Inr t"
    if "t = new_task sq_ts scope now nid p a None" "nid \<notin> set (map t_id (tasks s))" "task_check t" for a t
    using inv that by (intro taskByID_row gtd_inv_add_task) (simp_all add: task_ok_def)
  show ?thesis
    using found by (simp add: CreateTask_def CreateTaskTx_def CreateTask_pg_def Let_def vision same split: sum.split)
qed

lemma CompleteTask_parity:
  assumes inv: "gtd_inv s" and ts: "whole_ms now"
  shows "CompleteTask quiet scope now i a s = CompleteTask_pg scope now i a s"
proof (cases rule: found_or_not [of scope i s])
  case 1
  then show ?thesis
    using write_missing [OF 1, of "\<lambda>_. True"]
    by (simp add: CompleteTask_def CompleteTask_pg_def)
next
  case (2 t)
  have eq: "complete_row_pg now a = complete_row now a"
    using ts by (intro ext) (simp add: complete_row_def complete_row_pg_def whole_ms_sq whole_ms_pg)
  have "task_row scope i (complete_row now a t)" using 2 by (simp add: task_row_def complete_row_def)
  then show ?thesis
    using write_one [OF inv 2(2,3), of "\<lambda>_. True" "complete_row now a"]
    by (simp add: CompleteTask_def CompleteTask_pg_def eq)
qed

lemma resolveAssignee_eq:
  "resolveAssigneeForUpdate new old st =
     (case update_assignee new of
        Inl e \<Rightarrow> Inl e
      | Inr a \<Rightarrow> (case RequireAssigneeForInProgress (text_of (keep_text old a)) st of
                  Some e \<Rightarrow> Inl e | None \<Rightarrow> Inr (keep_text old a)))"
  by (auto simp: resolveAssigneeForUpdate_def update_assignee_def keep_text_def split: option.split sum.split)

lemma checkTaskProject_eq:
  "checkTaskProject scope ref s = (case resolveProjectWrite scope ref s of Inl e \<Rightarrow> Some e | Inr _ \<Rightarrow> None)"
  by (auto simp: checkTaskProject_def resolveProjectWrite_def projectByID_def split: option.split sum.split)

lemma merge_pg_eq:
  assumes "whole_due (t_due t)" "whole_due (ut_due p)"
  shows "(mergeTaskFields pg_ts (no_vision t) p)\<lparr>mf_assignee := keep_text (t_assignee t) a\<rparr>
    = mergeTaskFields sq_ts t (p\<lparr>ut_assignee := a\<rparr>)"
  using assms by (cases "ut_due p"; cases "ut_importance p")
    (simp_all add: mergeTaskFields_def whole_due_ts whole_due_def [of "Some _"] whole_ms_sq whole_ms_pg)

lemma merge_status: "mf_status (mergeTaskFields ts t p) = keep (t_status t) (ut_status p)"
  "mf_assignee (mergeTaskFields ts t p) = keep_text (t_assignee t) (ut_assignee p)"
  by (simp_all add: mergeTaskFields_def)

lemma UpdateTask_parity:
  assumes inv: "gtd_inv s" and ts: "whole_ms now" "whole_due (ut_due p)"
    and due: "\<And>t. t \<in> set (tasks s) \<Longrightarrow> whole_due (t_due t)"
  shows "UpdateTask_pg quiet scope now i p s =
    (let (r, s') = UpdateTask quiet scope now i p s in (map_sum id no_vision r, s'))"
proof (cases rule: found_or_not [of scope i s])
  case 1
  then show ?thesis by (simp add: UpdateTask_pg_def UpdateTask_def getTaskByID_eq)
next
  case (2 t)
  show ?thesis
  proof (cases "resolveProjectWrite scope (ut_project p) s")
    case (Inl e)
    with 2 show ?thesis by (simp add: UpdateTask_pg_def UpdateTask_def getTaskByID_eq Let_def checkTaskProject_eq)
  next
    case proj: (Inr ref)
    show ?thesis
    proof (cases "update_assignee (ut_assignee p)")
      case (Inl e)
      with 2 proj show ?thesis
        by (simp add: UpdateTask_pg_def UpdateTask_def getTaskByID_eq Let_def checkTaskProject_eq resolveAssignee_eq)
    next
      case (Inr a)
      define m where "m = mergeTaskFields sq_ts t (p\<lparr>ut_assignee := a\<rparr>)"
      define w where "w = write_fields now m p (ut_project p)"
      have m: "(mergeTaskFields pg_ts (no_vision t) p)\<lparr>mf_assignee := keep_text (t_assignee t) a\<rparr> = m"
        unfolding m_def by (rule merge_pg_eq) (simp_all add: ts due 2)
      have ref: "ref = ut_project p" using resolveProjectWrite_Inr [OF proj] by simp
      have one: "list_ex (task_row scope i) (tasks s)"
        "reread quiet scope i (s\<lparr>tasks := update_rows (task_row scope i) w (tasks s)\<rparr>) = (Inr (w t), replace_task t (w t) s)"
        "update_returning (task_row scope i) w s = Some (w t, replace_task t (w t) s)"
        using write_one [OF inv 2(2,3), of "\<lambda>_. True" w] 2(3) by (simp_all add: w_def)
      have only: "update_rows (task_row scope i) w (tasks s) = update_rows (\<lambda>u. u = t) w (tasks s)"
        using update_only_row [OF inv 2(2,3), of "\<lambda>_. True" w] by simp
      have "list_all task_check (filter (task_row scope i) (update_rows (task_row scope i) w (tasks s))) = task_check (w t)"
      proof -
        have rows: "u \<in> set (update_rows (\<lambda>u. u = t) w (tasks s)) \<and> task_row scope i u \<longleftrightarrow> u = w t" for u
          using 2(2,3) row_unique [OF inv 2(2,3), of u] unfolding set_update_rows
          by (auto simp: w_def)
        have "set (filter (task_row scope i) (update_rows (\<lambda>u. u = t) w (tasks s))) = {w t}"
          using rows by auto
        then show ?thesis unfolding only list_all_iff by simp
      qed
      then have chk: "list_all task_check (filter (task_row scope i) (update_rows (task_row scope i) w (tasks s))) \<longleftrightarrow> task_check (w t)" .
      let ?res = "case RequireAssigneeForInProgress (text_of (mf_assignee m)) (mf_status m) of
          Some e \<Rightarrow> (Inl e, s)
        | None \<Rightarrow> if task_check (w t) then (Inr (w t), replace_task t (w t) s) else (Inl GConstraint, s)"
      have mm: "mergeTaskFields sq_ts t (p\<lparr>ut_assignee := a\<rparr>) = m" by (simp add: m_def)
      have sq: "UpdateTask quiet scope now i p s = ?res"
        using 2(1) proj Inr one(1,2) chk ts(1) mm unfolding ref w_def
        by (cases "RequireAssigneeForInProgress (text_of (mf_assignee m)) (mf_status m)")
          (simp_all add: UpdateTask_def whole_ms_sq Let_def)
      have req: "resolveAssigneeForUpdate (ut_assignee p) (t_assignee t) (mf_status (mergeTaskFields pg_ts (no_vision t) p)) =
          (case RequireAssigneeForInProgress (text_of (mf_assignee m)) (mf_status m) of
             Some e \<Rightarrow> Inl e | None \<Rightarrow> Inr (keep_text (t_assignee t) a))"
        using Inr by (simp add: resolveAssignee_eq merge_status m_def)
      have check: "checkTaskProject scope (ut_project p) s = None"
        using proj by (simp add: checkTaskProject_eq)
      have get: "getTaskByID scope i s = Inr (no_vision t)" using 2 by (simp add: getTaskByID_eq)
      have "UpdateTask_pg quiet scope now i p s =
          (case RequireAssigneeForInProgress (text_of (mf_assignee m)) (mf_status m) of
             Some e \<Rightarrow> (Inl e, s)
           | None \<Rightarrow> if task_check (w t) then (Inr (no_vision (w t)), replace_task t (w t) s) else (Inl GConstraint, s))"
        using one(3) m ts get check req
        by (cases "RequireAssigneeForInProgress (text_of (mf_assignee m)) (mf_status m)")
          (simp_all add: UpdateTask_pg_def w_def whole_ms_pg Let_def)
      with sq show ?thesis by (simp split: option.split)
    qed
  qed
qed

section \<open>Closing by merged pull requests\<close>

text \<open>
  The batch as one pass: each task is closed by the first match that hits it, and the matches
  that hit a task no earlier one closed are the effective ones.
\<close>

definition closed_row :: "uuid option \<Rightarrow> instant \<Rightarrow> pr_match list \<Rightarrow> task \<Rightarrow> task" where
  "closed_row scope at ms t = (case first_row (\<lambda>m. close_hit scope m t) ms of None \<Rightarrow> t | Some m \<Rightarrow> close_row at m t)"

fun effective :: "uuid option \<Rightarrow> task list \<Rightarrow> pr_match list \<Rightarrow> pr_match list" where
  "effective scope ts [] = []"
| "effective scope ts (m # ms) =
     (if list_ex (close_hit scope m) ts
      then m # effective scope (filter (\<lambda>t. \<not> close_hit scope m t) ts) ms
      else effective scope ts ms)"

lemma close_row_not_open: "\<not> close_hit scope m' (close_row at m t)"
  by (simp add: close_hit_def close_row_def open_status_def)

lemma closed_row_simps:
  "closed_row scope at [] t = t"
  "closed_row scope at (m # ms) t = (if close_hit scope m t then close_row at m t else closed_row scope at ms t)"
  "closed_row scope at ms (close_row at m t) = close_row at m t"
proof -
  have "find (\<lambda>_. False) ms = None" by (induction ms) simp_all
  then show "closed_row scope at ms (close_row at m t) = close_row at m t"
    by (simp add: closed_row_def first_row_def close_row_not_open)
qed (simp_all add: closed_row_def first_row_def)

lemma map_closed_update:
  "map (closed_row scope at ms) (update_rows (close_hit scope m) (close_row at m) ts) =
     map (closed_row scope at (m # ms)) ts"
  by (simp add: update_rows_def closed_row_simps)

lemma effective_closed:
  "effective scope (update_rows (close_hit scope m) (close_row at m) ts) ms =
     effective scope (filter (\<lambda>t. \<not> close_hit scope m t) ts) ms"
proof -
  have "effective scope ts' ms = effective scope (filter (\<lambda>t. open_status (t_status t)) ts') ms" for ts'
  proof (induction ms arbitrary: ts')
    case (Cons m ms)
    have "list_ex (close_hit scope m) ts' = list_ex (close_hit scope m) (filter (\<lambda>t. open_status (t_status t)) ts')"
      by (auto simp: list_ex_iff close_hit_def)
    with Cons [of "filter (\<lambda>t. \<not> close_hit scope m t) ts'"] Cons [of ts']
      Cons [of "filter (\<lambda>t. \<not> close_hit scope m t) (filter (\<lambda>t. open_status (t_status t)) ts')"]
    show ?case by (simp add: conj_commute)
  qed simp
  note open_only = this
  have "filter (\<lambda>t. open_status (t_status t)) (update_rows (close_hit scope m) (close_row at m) ts) =
      filter (\<lambda>t. open_status (t_status t)) (filter (\<lambda>t. \<not> close_hit scope m t) ts)"
    by (induction ts) (auto simp: close_row_def open_status_def)
  then show ?thesis by (metis open_only)
qed

lemma batch_close_closed:
  "batch_close fault scope at n ms (applied, s) = Inr (applied', s') \<Longrightarrow>
     applied' = rev (map m_task (effective scope (tasks s) ms)) @ applied \<and>
     s' = s\<lparr>tasks := map (closed_row scope at ms) (tasks s),
            activity_log := activity_log s @ map (close_log_row scope at) (effective scope (tasks s) ms)\<rparr>"
proof (induction ms arbitrary: n applied s)
  case Nil
  then show ?case by (auto simp: closed_row_simps split: if_splits)
next
  case (Cons m ms)
  show ?case
  proof (cases "list_ex (close_hit scope m) (tasks s)")
    case False
    then have same: "map (closed_row scope at (m # ms)) (tasks s) = map (closed_row scope at ms) (tasks s)"
      by (auto simp: closed_row_simps list_ex_iff)
    from Cons.prems False have "batch_close fault scope at (Suc n) ms (applied, s) = Inr (applied', s')"
      by (simp split: if_splits)
    from Cons.IH [OF this] False show ?thesis unfolding same by simp
  next
    case True
    let ?s = "s\<lparr>tasks := update_rows (close_hit scope m) (close_row at m) (tasks s),
        activity_log := activity_log s @ [close_log_row scope at m]\<rparr>"
    from Cons.prems True have "batch_close fault scope at (Suc n) ms (m_task m # applied, ?s) = Inr (applied', s')"
      by (simp split: if_splits)
    from Cons.IH [OF this] True show ?thesis by (simp add: map_closed_update effective_closed)
  qed
qed

lemma effective_subseq: "subseq (effective scope ts ms) ms"
  by (induction ms arbitrary: ts) (auto intro: subseq_Cons')

lemma close_hit_id: "close_hit scope m t \<Longrightarrow> t_id t = m_task m"
  by (simp add: close_hit_def task_row_def)

lemma effective_ids:
  "m_task ` set (effective scope ts ms) = t_id ` {t \<in> set ts. \<exists>m \<in> set ms. close_hit scope m t}"
proof (induction ms arbitrary: ts)
  case (Cons m ms)
  let ?rest = "{t \<in> set ts. \<not> close_hit scope m t \<and> (\<exists>m \<in> set ms. close_hit scope m t)}"
  have split: "{t \<in> set ts. \<exists>m' \<in> set (m # ms). close_hit scope m' t} = {t \<in> set ts. close_hit scope m t} \<union> ?rest"
    by auto
  show ?case
  proof (cases "list_ex (close_hit scope m) ts")
    case True
    then have "t_id ` {t \<in> set ts. close_hit scope m t} = {m_task m}"
      by (auto simp: list_ex_iff close_hit_id image_iff) (metis close_hit_id)
    moreover have "m_task ` set (effective scope (filter (\<lambda>t. \<not> close_hit scope m t) ts) ms) = t_id ` ?rest"
      using Cons.IH [of "filter (\<lambda>t. \<not> close_hit scope m t) ts"] by (simp add: conj_assoc)
    ultimately show ?thesis using True unfolding split image_Un by simp
  next
    case False
    then have "{t \<in> set ts. close_hit scope m t} = {}" "?rest = {t \<in> set ts. \<exists>m \<in> set ms. close_hit scope m t}"
      by (auto simp: list_ex_iff)
    with False Cons.IH [of ts] split show ?thesis by (simp only: effective.simps if_False Un_empty_left)
  qed
qed simp

lemma effective_distinct: "distinct (map t_id ts) \<Longrightarrow> distinct (map m_task (effective scope ts ms))"
proof (induction ms arbitrary: ts)
  case (Cons m ms)
  have "m_task m \<notin> set (map m_task (effective scope (filter (\<lambda>t. \<not> close_hit scope m t) ts) ms))"
    if ex: "list_ex (close_hit scope m) ts"
  proof
    assume "m_task m \<in> set (map m_task (effective scope (filter (\<lambda>t. \<not> close_hit scope m t) ts) ms))"
    then obtain t where t: "t \<in> set ts" "\<not> close_hit scope m t" "t_id t = m_task m"
      by (auto simp: effective_ids)
    from ex obtain u where u: "u \<in> set ts" "close_hit scope m u" by (auto simp: list_ex_iff)
    then have "t_id u = t_id t" using t by (simp add: close_hit_def task_row_def)
    with Cons.prems t u have "u = t" by (blast intro: distinct_map_unique)
    with t u show False by simp
  qed
  with Cons show ?case by (auto simp: distinct_map_filter)
qed simp

lemma batch_close_quiet: "\<exists>p. batch_close (\<lambda>_. False) scope at n ms (applied, s) = Inr p"
  by (induction ms arbitrary: n applied s) simp_all

lemma apply_matches_quiet:
  "apply_matches_pg (\<lambda>_. False) scope at n ms (applied, pending, s) =
     (case batch_close (\<lambda>_. False) scope at n ms (applied, s\<lparr>activity_log := activity_log s @ pending\<rparr>) of
        Inl e \<Rightarrow> (Inl e, s) | Inr (a, s') \<Rightarrow> (Inr a, s'))"
proof (induction ms arbitrary: n applied pending s)
  case (Cons m ms)
  show ?case
  proof (cases "list_ex (close_hit scope m) (tasks s)")
    case True
    then show ?thesis
      using batch_close_quiet [of scope at "Suc n" ms "m_task m # applied"
        "s\<lparr>tasks := update_rows (close_hit scope m) (close_row at m) (tasks s),
           activity_log := activity_log s @ pending @ [close_log_row scope at m]\<rparr>"]
      by (auto simp: Cons.IH Let_def)
  next
    case False
    then show ?thesis by (simp add: Cons.IH)
  qed
qed simp

section \<open>Properties\<close>


text \<open>
  The link from a task to the vision item it was promoted from is lost on SQLite: a successful
  \<open>CreateTask\<close> with a vision item stores and returns none there, where Postgres stores and returns it.
\<close>

theorem create_task_vision_link:
  assumes "gtd_inv s" "CreateTask quiet scope now nid p s = (Inr t, s')"
    and "CreateTask_pg scope now nid p s = (Inr u, s'')" "ct_vision p = Some v"
  shows "t_vision_item t = None \<and> t \<in> set (tasks s') \<and> t_vision_item u = Some v \<and> u \<in> set (tasks s'') \<and>
    t_id t = nid \<and> t_id u = nid"
proof -
  obtain a where s': "s' = s\<lparr>tasks := tasks s @ [new_task sq_ts scope now nid p a None]\<rparr>"
    and found: "taskByID scope nid s' = Inr t" and fresh: "nid \<notin> t_id ` set (tasks s)"
    using assms(2) by (auto simp: CreateTask_def CreateTaskTx_def Let_def split: sum.splits if_splits)
  from found have t: "t \<in> set (tasks s')" "t_id t = nid" by (auto dest!: taskByID_InrD simp: task_row_def)
  with s' fresh have "t = new_task sq_ts scope now nid p a None" by auto
  moreover have "t_vision_item u = Some v \<and> u \<in> set (tasks s'') \<and> t_id u = nid"
    using assms(3,4) by (auto simp: CreateTask_pg_def Let_def split: sum.splits if_splits)
  ultimately show ?thesis using t by simp
qed

text \<open>
  On SQLite the batch that closes tasks by merged pull requests is all or nothing, and exact: a
  failing statement leaves the tables as they were; otherwise each task hit by a match is closed
  once, by the first match that hits it, every other task is untouched, one \<open>pr_auto_close\<close> row
  is logged per closed task in the order of the matches, and the returned ids are those of the
  tasks closed now.
\<close>

theorem batch_close_exact:
  assumes "gtd_inv s" "BatchCompleteTasksByPRMatch fault scope now ms s = (r, s')"
  shows "case r of
      Inl e \<Rightarrow> s' = s
    | Inr applied \<Rightarrow> \<exists>es. subseq es ms \<and> distinct (map m_task es) \<and> applied = rev (map m_task es) \<and>
        m_task ` set es = t_id ` {t \<in> set (tasks s). \<exists>m \<in> set ms. close_hit scope m t} \<and>
        s' = s\<lparr>tasks := map (closed_row scope (sq_ts now) ms) (tasks s),
               activity_log := activity_log s @ map (close_log_row scope (sq_ts now)) es\<rparr>"
proof (cases r)
  case (Inl e)
  with assms(2) show ?thesis
    by (auto simp: BatchCompleteTasksByPRMatch_def split: if_splits sum.splits)
next
  case (Inr applied)
  let ?es = "effective scope (tasks s) ms"
  have closed: "applied = rev (map m_task ?es) \<and>
      s' = s\<lparr>tasks := map (closed_row scope (sq_ts now) ms) (tasks s),
             activity_log := activity_log s @ map (close_log_row scope (sq_ts now)) ?es\<rparr>"
  proof (cases "ms = []")
    case True
    have "map (closed_row scope at []) ts = ts" for at ts by (induction ts) (simp_all add: closed_row_simps)
    with True assms(2) Inr show ?thesis by (auto simp: BatchCompleteTasksByPRMatch_def)
  next
    case False
    with assms(2) Inr have "batch_close fault scope (sq_ts now) 0 ms ([], s) = Inr (applied, s')"
      by (auto simp: BatchCompleteTasksByPRMatch_def split: sum.splits)
    from batch_close_closed [OF this] show ?thesis by simp
  qed
  have "distinct (map m_task ?es)" using assms(1) by (simp add: gtd_inv_def effective_distinct)
  moreover have "subseq ?es ms" by (rule effective_subseq)
  moreover have "m_task ` set ?es = t_id ` {t \<in> set (tasks s). \<exists>m \<in> set ms. close_hit scope m t}"
    by (rule effective_ids)
  ultimately show ?thesis unfolding Inr sum.case using closed by blast
qed

text \<open>
  On Postgres the same batch is not one transaction: when the statement after the first closed
  task fails, the call reports an error and its audit row is rolled back, yet the task stays
  completed; SQLite leaves the tables unchanged in the same situation.
\<close>

theorem postgres_batch_not_atomic:
  assumes "list_ex (close_hit scope m) (tasks s)" "\<not> fault 0" "\<not> fault 1" "fault 2"
  shows "let (r, s') = BatchCompleteTasksByPRMatch_pg fault scope now (m # ms) s
    in (\<exists>e. r = Inl e) \<and> activity_log s' = activity_log s \<and>
       tasks s' = update_rows (close_hit scope m) (close_row (pg_ts now) m) (tasks s) \<and>
       (\<exists>t \<in> set (tasks s'). t_id t = m_task m \<and> t_status t = Completed) \<and>
       snd (BatchCompleteTasksByPRMatch fault scope now (m # ms) s) = s"
proof -
  obtain t where t: "t \<in> set (tasks s)" "close_hit scope m t" using assms(1) by (auto simp: list_ex_iff)
  let ?rows = "update_rows (close_hit scope m) (close_row (pg_ts now) m) (tasks s)"
  have "close_row (pg_ts now) m t \<in> set ?rows" "t_id (close_row (pg_ts now) m t) = m_task m"
    "t_status (close_row (pg_ts now) m t) = Completed"
    using t by (auto simp: set_update_rows close_row_def close_hit_id)
  then have done_row: "\<exists>t \<in> set ?rows. t_id t = m_task m \<and> t_status t = Completed" by blast
  show ?thesis
    using assms done_row
    by (cases ms) (simp_all add: BatchCompleteTasksByPRMatch_pg_def BatchCompleteTasksByPRMatch_def Let_def numeral_2_eq_2)
qed

end
