(* ===== verification/Gtd_Witnesses.thy ===== *)
theory Gtd_Witnesses
  imports Gtd_Parity
begin

text \<open>
  Concrete task tables and calls on which the hypotheses of the task properties hold, with the
  properties applied to them.
\<close>

section \<open>A table\<close>

definition ex_todo :: task where
  "ex_todo = \<lparr>t_id = 1, t_workspace = Some 7, t_project = Some 3, t_title = lit ''ship'', t_description = None,
     t_status = Pending, t_priority = 2, t_importance = Some 1, t_context = None,
     t_assignee = Some (lit ''claude''), t_due = Some 4000000, t_artifact = None, t_checklist = [],
     t_kind = ''feature'', t_branch = Some (lit ''b''), t_pr_url = None, t_commit_shas = [],
     t_vision_item = None, t_created = 1000000, t_updated = 1000000, t_area = lit ''eng''\<rparr>"

definition ex_second :: task where
  "ex_second = ex_todo\<lparr>t_id := 2, t_assignee := None, t_project := None, t_due := None\<rparr>"

definition ex_project :: project where
  "ex_project = \<lparr>pj_id = 3, pj_workspace = Some 7, pj_goal = None, pj_name = lit ''p'', pj_title = lit ''P'',
     pj_description = None, pj_status = ProjActive, pj_area = lit ''projects'', pj_priority = 3,
     pj_repo = Some (lit ''a/b''), pj_created = 1000000, pj_updated = 1000000\<rparr>"

definition ex_gtd :: gtd_db where
  "ex_gtd = \<lparr>tasks = [ex_todo, ex_second], projects = [ex_project], activity_log = [], work_sessions = [],
     session_tasks = [], evidence = [], candidates = [], vision_items = [], decisions = [], knowledge_items = [],
     handoffs = [], procedural = [], tombstones = []\<rparr>"

lemma ex_tasks_ok: "task_ok ex_todo" "task_ok ex_second"
  by (simp_all add: ex_todo_def ex_second_def task_ok_def task_check_def ValidTaskKinds_def)

lemma ex_project_ok: "project_ok ex_project"
proof -
  have "IsValidRepoName (lit ''a/b'')"
    by (simp add: IsValidRepoName_def ValidRepoPath_def ValidRepoPathMax_def byte_len_def utf8_len_def
        isSegmentStart_def isSegmentByte_def)
  then show ?thesis by (simp add: project_ok_def project_check_def ex_project_def text_of_def)
qed

lemma ex_tables: "tasks ex_gtd = [ex_todo, ex_second]" "projects ex_gtd = [ex_project]" "tombstones ex_gtd = []"
  "t_id ex_todo = 1" "t_id ex_second = 2"
  by (simp_all add: ex_gtd_def ex_todo_def ex_second_def)

lemma ex_gtd_inv: "gtd_inv ex_gtd"
proof -
  have ids: "distinct (map t_id [ex_todo, ex_second])" by (simp add: ex_tables)
  have ts: "list_all task_ok [ex_todo, ex_second]" by (simp add: ex_tasks_ok)
  have ps: "list_all project_ok [ex_project]" by (simp add: ex_project_ok)
  have gs: "groups_ok []" by (simp add: groups_ok_def)
  show ?thesis unfolding gtd_inv_def ex_tables by (intro conjI ids ts ps gs) simp_all
qed

lemma ex_todo_row: "ex_todo \<in> set (tasks ex_gtd)" "begin_guard (Some 7) 1 ex_todo" "begin_guard None 1 ex_todo"
  by (simp_all add: ex_gtd_def begin_guard_def assignee_clause_iff)
    (simp_all add: ex_todo_def task_row_def text_of_def TrimSpace_def is_space_def)

definition ex_match :: pr_match where
  "ex_match = \<lparr>m_task = 1, m_reason = MatchReasonBranchNameExact, m_pr_url = lit ''u'', m_head_ref = lit ''b'',
     m_body_excerpt = []\<rparr>"

lemma ex_simps: "m_task ex_match = 1" "activity_log ex_gtd = []" "t_id ex_todo = 1" "t_status ex_todo = Pending"
  "t_id ex_second = 2" "t_due ex_todo = Some 4000000" "t_due ex_second = None" "t_commit_shas ex_todo = []"
  "set (tasks ex_gtd) = {ex_todo, ex_second}"
  by (simp_all add: ex_match_def ex_gtd_def ex_todo_def ex_second_def)

section \<open>Witnesses\<close>


theorem begin_task_unscoped_postgres_witness:
  "BeginTask_pg quiet None 9000000 1 ex_gtd = (Inl GNotFound, ex_gtd) \<and>
   fst (BeginTask quiet None 9000000 1 ex_gtd) = Inr (start_row 9000000 ex_todo)"
  using begin_task_unscoped_postgres [OF ex_gtd_inv ex_todo_row(1,3), of 9000000]
  by (simp add: sq_ts_def ex_todo_def)


definition ex_patch :: update_task_params where
  "ex_patch = (title_only (lit ''done''))\<lparr>ut_assignee := Some (lit '' Codex lead ''), ut_project := Some None,
     ut_append_sha := Some (lit ''c0ffee'')\<rparr>"


theorem title_update_undoes_begin_witness:
  "\<exists>t'. fst (UpdateTask (begin_between (Some 7) 8000000 1) (Some 7) 9000000 1 (title_only (lit ''x'')) ex_gtd) = Inr t' \<and>
     t_status t' = Pending"
  using title_update_undoes_begin [OF ex_gtd_inv ex_todo_row(1,2), of 8000000 9000000 "lit ''x''"]
  by (auto simp: ex_todo_def split: prod.splits)

definition ex_new :: create_task_params where
  "ex_new = \<lparr>ct_project = Some 3, ct_title = lit ''n'', ct_description = [], ct_priority = 0, ct_assignee = [],
     ct_due = None, ct_importance = None, ct_context = [], ct_kind = [], ct_branch = None, ct_pr_url = None,
     ct_vision = None, ct_area = []\<rparr>"


theorem create_task_vision_link_witness:
  "\<exists>t u s' s''. CreateTask quiet (Some 7) 9000000 4 (ex_new\<lparr>ct_vision := Some 5\<rparr>) ex_gtd = (Inr t, s') \<and>
     CreateTask_pg (Some 7) 9000000 4 (ex_new\<lparr>ct_vision := Some 5\<rparr>) ex_gtd = (Inr u, s'') \<and>
     t_vision_item t = None \<and> t_vision_item u = Some 5"
proof -
  let ?p = "ex_new\<lparr>ct_vision := Some 5\<rparr>"
  have ok: "case fst (CreateTask quiet (Some 7) 9000000 4 ?p ex_gtd) of Inl _ \<Rightarrow> False | Inr _ \<Rightarrow> True"
    "case fst (CreateTask_pg (Some 7) 9000000 4 ?p ex_gtd) of Inl _ \<Rightarrow> False | Inr _ \<Rightarrow> True"
    by code_simp+
  obtain r s' r' s'' where run: "CreateTask quiet (Some 7) 9000000 4 ?p ex_gtd = (r, s')"
    "CreateTask_pg (Some 7) 9000000 4 ?p ex_gtd = (r', s'')" by (meson surj_pair)
  with ok obtain t u where "r = Inr t" "r' = Inr u" by (auto split: sum.splits)
  with run create_task_vision_link [OF ex_gtd_inv, of "Some 7" 9000000 4 ?p t s' u s'' 5] show ?thesis by simp
qed

theorem batch_close_exact_witness:
  "\<exists>applied s'. BatchCompleteTasksByPRMatch (\<lambda>_. False) (Some 7) 9000000 [ex_match, ex_match] ex_gtd = (Inr applied, s') \<and>
     set applied = {1} \<and> length (activity_log s') = 1"
proof -
  obtain r s' where run: "BatchCompleteTasksByPRMatch (\<lambda>_. False) (Some 7) 9000000 [ex_match, ex_match] ex_gtd = (r, s')"
    by (meson surj_pair)
  have "case fst (BatchCompleteTasksByPRMatch (\<lambda>_. False) (Some 7) 9000000 [ex_match, ex_match] ex_gtd) of Inl _ \<Rightarrow> False | Inr _ \<Rightarrow> True"
    by code_simp
  with run obtain applied where r: "r = Inr applied" by (auto split: sum.splits)
  have hit: "{t \<in> set (tasks ex_gtd). \<exists>m \<in> set [ex_match, ex_match]. close_hit (Some 7) m t} = {ex_todo}"
    by (auto simp: ex_gtd_def ex_todo_def ex_second_def ex_match_def close_hit_def task_row_def open_status_def)
  obtain es where es: "distinct (map m_task es)" "applied = rev (map m_task es)" "m_task ` set es = t_id ` {ex_todo}"
    "activity_log s' = activity_log ex_gtd @ map (close_log_row (Some 7) (sq_ts 9000000)) es"
    using batch_close_exact [OF ex_gtd_inv run] unfolding r hit by auto
  then have ids: "set (map m_task es) = {1}" by (simp add: ex_todo_def)
  with es(1) have "length (map m_task es) = 1" using distinct_card [of "map m_task es"] by simp
  with es ids run r show ?thesis by (simp add: ex_gtd_def)
qed

theorem postgres_batch_not_atomic_witness:
  "fst (BatchCompleteTasksByPRMatch_pg (\<lambda>k. k = 2) (Some 7) 9000000 [ex_match] ex_gtd) = Inl (GDatabase ''commit'') \<and>
   activity_log (snd (BatchCompleteTasksByPRMatch_pg (\<lambda>k. k = 2) (Some 7) 9000000 [ex_match] ex_gtd)) = [] \<and>
   (\<exists>t \<in> set (tasks (snd (BatchCompleteTasksByPRMatch_pg (\<lambda>k. k = 2) (Some 7) 9000000 [ex_match] ex_gtd))).
      t_id t = 1 \<and> t_status t = Completed)"
proof -
  have hit: "list_ex (close_hit (Some 7) ex_match) (tasks ex_gtd)" by code_simp
  have "fst (BatchCompleteTasksByPRMatch_pg (\<lambda>k. k = 2) (Some 7) 9000000 [ex_match] ex_gtd) = Inl (GDatabase ''commit'')"
    by code_simp
  then show ?thesis
    using postgres_batch_not_atomic [OF hit, of "\<lambda>k. k = 2" 9000000 "[]"]
    by (auto simp: ex_simps split: prod.splits)
qed

end
