(* ===== verification/Gtd_Delete_Witnesses.thy ===== *)
theory Gtd_Delete_Witnesses
  imports Gtd_Reach Gtd_Witnesses
begin

text \<open>
  Concrete databases and calls on which the hypotheses of the deletion properties hold, with the
  properties applied to them.
\<close>

section \<open>A database with references\<close>

definition ex_session :: work_session where
  "ex_session = \<lparr>wk_id = 20, wk_workspace = 7, wk_repo = lit ''a/b'', wk_project = Some 3, wk_title = lit ''S'',
     wk_goal = lit ''g'', wk_status = SessionActive, wk_source = ''manual'', wk_plan = None, wk_current_task = Some 1,
     wk_summary = None, wk_started = Some 0, wk_checkpoint = None, wk_completed = None, wk_created = 0, wk_updated = 0,
     wk_pack = None, wk_verification = None, wk_command = None, wk_excerpt = None, wk_outcome = None,
     wk_result = None, wk_branch = None\<rparr>"

definition ex_candidate :: candidate where
  "ex_candidate = \<lparr>cc_id = 21, cc_workspace = Some 7, cc_task = 1, cc_repo = None, cc_reason = ''stale_in_progress'',
     cc_evidence = [], cc_confidence = ''medium'', cc_artifact = None, cc_status = CandidatePending, cc_detected = 0,
     cc_resolved = None\<rparr>"

lemma ex_candidate_task [simp]: "cc_task ex_candidate = 1"
  by (simp add: ex_candidate_def)

definition ex_linked :: gtd_db where
  "ex_linked = ex_gtd\<lparr>work_sessions := [ex_session], candidates := [ex_candidate],
     decisions := [\<lparr>dr_id = 22, dr_task = Some 1, dr_project = Some 3\<rparr>],
     tombstones := [task_tombstone 50 1000000 (lit ''human'') (ex_todo\<lparr>t_id := 9\<rparr>)]\<rparr>"

lemma linked_tables:
  "tasks ex_linked = [ex_todo, ex_second]" "projects ex_linked = [ex_project]"
  "work_sessions ex_linked = [ex_session]" "candidates ex_linked = [ex_candidate]"
  "decisions ex_linked = [\<lparr>dr_id = 22, dr_task = Some 1, dr_project = Some 3\<rparr>]"
  "tombstones ex_linked = [task_tombstone 50 1000000 (lit ''human'') (ex_todo\<lparr>t_id := 9\<rparr>)]"
  "session_tasks ex_linked = []" "vision_items ex_linked = []" "knowledge_items ex_linked = []" "activity_log ex_linked = []"
  "handoffs ex_linked = []" "procedural ex_linked = []"
  by (simp_all add: ex_linked_def ex_gtd_def)

lemma row_keys:
  "t_id ex_todo = 1" "t_id ex_second = 2" "t_project ex_todo = Some 3" "t_project ex_second = None"
  "t_workspace ex_todo = Some 7" "t_workspace ex_second = Some 7" "pj_id ex_project = 3" "pj_workspace ex_project = Some 7"
  "wk_project ex_session = Some 3" "wk_current_task ex_session = Some 1"
  by (simp_all add: ex_todo_def ex_second_def ex_project_def ex_session_def)

lemma linked_facts:
  "distinct (map t_id (tasks ex_linked))" "distinct (map pj_id (projects ex_linked))"
  "list_ex (project_row (Some 7) 3) (projects ex_linked)" "list_ex (task_row (Some 7) 1) (tasks ex_linked)"
  "project_task_ids (Some 7) 3 ex_linked = [1]" "project_row (Some 7) 3 ex_project" "fresh_deletion 99 ex_linked"
  by (simp_all add: linked_tables row_keys project_row_def task_row_def project_task_ids_def project_task_def fresh_deletion_def)

lemma linked_refs: "refs_ok ex_linked"
  by (simp add: refs_ok_def task_refs_in_def project_refs_in_def linked_tables row_keys names_known_def known_task_def
      known_project_def)

lemma linked_inv: "gtd_inv ex_linked"
proof -
  have "task_ok (ex_todo\<lparr>t_id := 9\<rparr>)"
    by (simp add: ex_todo_def task_ok_def task_check_def ValidTaskKinds_def)
  then have "groups_ok (tombstones ex_linked)"
    by (simp add: linked_tables groups_ok_def)
  then show ?thesis
    using ex_tasks_ok ex_project_ok by (simp add: gtd_inv_def linked_tables row_keys)
qed

section \<open>Witnesses\<close>

theorem delete_project_all_or_nothing_witness:
  "fst (DeleteProjectExpecting no_fault (Some 7) 9000000 99 3 (lit ''human'') [] ex_linked) = Inr 1 \<and>
   fst (DeleteProjectExpecting_pg alone no_fault (Some 7) 9000000 99 3 (lit ''human'') [1] ex_linked) = Inl GProjectTasksChanged"
proof -
  have "TaskSetDigest [1] \<noteq> [1]"
    using length_digest [of "task_set_text [1]"] by (auto simp: TaskSetDigest_def simp del: length_digest)
  then show ?thesis
    using delete_project_all_or_nothing [OF linked_facts(1), of "Some 7" 3 "[]" 9000000 99 "lit ''human''" no_fault]
      delete_project_all_or_nothing [OF linked_facts(1), of "Some 7" 3 "[1]" 9000000 99 "lit ''human''" no_fault]
    by (auto simp: Let_def linked_facts)
qed


text \<open>The second task, moved to the project from a workspace of its own.\<close>

definition ex_foreign :: task where
  "ex_foreign = ex_second\<lparr>t_project := Some 3, t_workspace := Some 8\<rparr>"

theorem foreign_task_dangles_witness:
  "ex_foreign \<in> set (tasks (snd (DeleteProject no_fault (Some 7) 9000000 99 3 (lit ''human'')
     (ex_gtd\<lparr>tasks := [ex_todo, ex_foreign]\<rparr>))))"
proof -
  let ?s = "ex_gtd\<lparr>tasks := [ex_todo, ex_foreign]\<rparr>"
  have "distinct (map t_id (tasks ?s))" "distinct (map pj_id (projects ?s))"
    "list_ex (project_row (Some 7) 3) (projects ?s)" "ex_foreign \<in> set (tasks ?s)" "t_project ex_foreign = Some 3"
    "t_workspace ex_foreign \<noteq> Some 7"
    by (simp_all add: ex_foreign_def row_keys ex_tables project_row_def)
  from foreign_task_dangles [OF this, of 9000000 99 "lit ''human''"] show ?thesis by simp
qed

text \<open>A second task of the project, committed between the lock and the delete.\<close>

definition ex_late :: task where
  "ex_late = ex_todo\<lparr>t_id := 5\<rparr>"

theorem postgres_delete_race_witness:
  "DeleteProjectExpecting_pg (moved (\<lambda>ts. ts @ [ex_late])) no_fault (Some 7) 9000000 99 3 (lit ''human'') [] ex_linked =
     (Inl GProjectTasksChanged, ex_linked\<lparr>tasks := [ex_todo, ex_second, ex_late]\<rparr>) \<or>
   digest_collision [1, 5] [1]"
proof -
  have "project_task_ids (Some 7) 3 (ex_linked\<lparr>tasks := tasks ex_linked @ [ex_late]\<rparr>) = [1, 5]"
    by (simp add: project_task_ids_def project_task_def linked_tables row_keys ex_late_def)
  then show ?thesis
    using postgres_delete_race [of alone no_fault "Some 7" 9000000 99 1 "lit ''human''" ex_linked 3 "[]" "\<lambda>ts. ts @ [ex_late]"]
    by (simp add: Let_def linked_facts) (simp add: linked_tables row_keys linked_facts)
qed

theorem restore_project_spec_witness:
  "RestoreProject no_fault (Some 7) 9000000 3 (lit ''human'') ex_linked = (Inl GNotFound, ex_linked)"
proof -
  have "restore_spec sq_ts (Some 7) 9000000 3 (lit ''human'') ex_linked = (Inl GNotFound, ex_linked)"
    by (simp add: restore_spec_def find_group_def linked_tables restorable_def)
  then show ?thesis
    using restore_project_spec [OF linked_inv, of no_fault "Some 7" 9000000 3 "lit ''human''"] by (simp add: Let_def)
qed

theorem delete_restore_roundtrip_witness:
  "fst (RestoreProject no_fault (Some 7) 9000000 3 (lit ''human'')
     (snd (DeleteProjectExpecting no_fault (Some 7) 8000000 99 3 (lit ''human'') [] ex_linked))) = Inr (ex_project, 1)"
proof -
  have "ex_project \<in> set (projects ex_linked)" "(9000000 :: int) \<le> 8000000 + DeletionTombstoneRetention"
    by (simp_all add: linked_tables DeletionTombstoneRetention_def)
  then have "\<forall>(ts, del, res) \<in> {(sq_ts, DeleteProjectExpecting, RestoreProject),
        (pg_ts, DeleteProjectExpecting_pg alone, RestoreProject_pg alone)}.
     let n = length (project_task_ids (Some 7) 3 ex_linked);
         (r, s1) = del no_fault (Some 7) 8000000 99 3 (lit ''human'') [] ex_linked;
         (r', s2) = res no_fault (Some 7) 9000000 3 (lit ''human'') s1
     in r = Inr n \<and> r' = Inr (ex_project, n) \<and> mset (tasks s2) = mset (tasks ex_linked) \<and>
        mset (projects s2) = mset (projects ex_linked) \<and>
        tombstones s2 = filter (\<lambda>b. ts (8000000 - DeletionTombstoneRetention) \<le> tb_deleted_at b) (tombstones ex_linked)"
    by (intro delete_restore_roundtrip linked_inv linked_facts) (simp_all add: linked_tables sq_ts_def)
  then show ?thesis by (simp add: linked_facts Let_def split: prod.splits)
qed

theorem tombstone_retention_witness:
  "group_of 50 (snd (DeleteTask no_fault (Some 7) 9000000 99 1 (lit ''human'') ex_linked)) = group_of 50 ex_linked"
proof -
  have "group_survives (sq_ts (9000000 - DeletionTombstoneRetention)) 50 ex_linked
      (snd (DeleteTask no_fault (Some 7) 9000000 99 1 (lit ''human'') ex_linked))"
    using tombstone_retention [OF linked_inv, of 50 99 9000000 no_fault "Some 7" 1 "lit ''human''" 3 "[]" 0] by simp
  then show ?thesis
    by (auto simp: group_survives_def group_of_def linked_tables sq_ts_def DeletionTombstoneRetention_def)
qed

definition ex_new_task :: create_task_params where
  "ex_new_task = \<lparr>ct_project = None, ct_title = lit ''a'', ct_description = [], ct_priority = 0, ct_assignee = [],
     ct_due = None, ct_importance = None, ct_context = [], ct_kind = [], ct_branch = None, ct_pr_url = None,
     ct_vision = None, ct_area = []\<rparr>"


end
