(* ===== verification/Session_Witnesses.thy ===== *)
theory Session_Witnesses
  imports Session_Interface Gtd_Delete_Witnesses
begin

text \<open>
  Concrete databases and calls on which the hypotheses of the session properties hold, with the
  properties applied to them.
\<close>

section \<open>Calls and databases\<close>

definition ex_start :: create_session where
  "ex_start = \<lparr>cs_workspace = 7, cs_repo = lit ''a/b'', cs_project = Some 3, cs_title = lit ''S'', cs_goal = lit ''g'',
     cs_source = ''manual'', cs_plan = None, cs_tasks = [1, 2], cs_branch = None, cs_assignee = lit '' Codex''\<rparr>"

definition ex_finish :: finish_session where
  "ex_finish = \<lparr>fs_id = 20, fs_summary = lit ''s'', fs_completed = [1, 2], fs_deferred = [2], fs_artifact = Some (lit ''pr''),
     fs_all_linked = False, fs_verification = Some ''passed'', fs_command = None, fs_excerpt = None,
     fs_result = Some ''success'', fs_outcome = None,
     fs_evidence = [\<lparr>ei_type = ''ci'', ei_status = ''passed'', ei_command = None, ei_artifact = None, ei_excerpt = None\<rparr>]\<rparr>"

definition ex_open :: gtd_db where
  "ex_open = ex_gtd\<lparr>work_sessions := [ex_session]\<rparr>"

text \<open>A pending task whose assignee is a tab.\<close>

definition ex_tab :: gtd_db where
  "ex_tab = ex_gtd\<lparr>tasks := [ex_todo\<lparr>t_assignee := Some [9]\<rparr>]\<rparr>"

lemma ex_repo_valid: "ValidRepoPath (lit ''a/b'')"
  by (simp add: ValidRepoPath_def ValidRepoPathMax_def byte_len_def utf8_len_def isSegmentStart_def isSegmentByte_def)

lemma ex_actor: "session_assignee (lit '' Codex'') = Inr (lit ''codex'')"
  by (simp add: session_assignee_def NormalizeActor_def actorAliases_eq ToLower_def lower_rune_def TrimSpace_def trim_by_def
      is_space_def Let_def)

lemma ex_start_valid: "validateCreateParams ex_start = None"
  by (simp add: validateCreateParams_def ex_start_def ex_repo_valid [simplified])

lemma ex_start_ok:
  "list_all (\<lambda>r. wk_id r \<noteq> nid \<and> wk_workspace r \<noteq> w) (work_sessions s) \<Longrightarrow> create_refused sound w nid ex_start s = None"
  by (simp add: create_refused_def ex_start_valid)
    (auto simp: ex_start_def ex_actor [simplified] session_sources_def list_all_iff list_ex_iff active_at_def)

lemma ex_open_tables: "work_sessions ex_open = [ex_session]" "evidence ex_open = []" "session_tasks ex_open = []"
  "tasks ex_open = [ex_todo, ex_second]"
  by (simp_all add: ex_open_def ex_gtd_def)

lemma ex_open_inv: "session_inv ex_open"
proof -
  have "session_ok ex_session"
    by (simp add: session_ok_def session_check_def ex_session_def ex_repo_valid [simplified] session_sources_def allowed_def)
  then show ?thesis by (simp add: session_inv_def ex_open_tables)
qed

section \<open>Witnesses\<close>

lemma ex_reach:
  "session_reach (snd (CreateSession_sq calm sound (Some 7) (\<lambda>_. 1000000) 20 ex_start empty_gtd))" (is "session_reach ?s")
  "work_sessions (snd (CreateSession_sq calm sound (Some 7) (\<lambda>_. 1000000) 20 ex_start empty_gtd)) = [new_session 1000000 20 7 ex_start]"
proof -
  have "ws_rely calm" by (simp add: ws_rely_def calm_def good_def session_moves_same)
  then show "session_reach ?s"
    by (intro session_reach.step [OF session_reach.init] session_step.create)
  have "create_refused sound 7 20 ex_start empty_gtd = None"
    by (rule ex_start_ok) (simp add: empty_gtd_def)
  then show "work_sessions ?s = [new_session 1000000 20 7 ex_start]"
    by (simp add: create_refines create_spec_def started_def sq_ts_def empty_gtd_def)
qed




theorem session_start_without_owner_witness:
  "(\<exists>t' \<in> set (tasks (snd (CreateSession_pg calm sound (Some 7) (\<lambda>_. 9000000) 20 ex_start ex_tab))).
      t_id t' = 1 \<and> t_status t' = InProgress \<and> TrimSpace (text_of (t_assignee t')) = []) \<and>
   fst (BeginTask quiet (Some 7) 9000000 1 ex_tab) = Inl GAssigneeRequired"
proof -
  let ?t = "ex_todo\<lparr>t_assignee := Some [9]\<rparr>"
  have "task_ok ?t" by (simp add: ex_todo_def task_ok_def task_check_def ValidTaskKinds_def)
  then have inv: "gtd_inv ex_tab"
    using ex_project_ok by (simp add: gtd_inv_def ex_tab_def ex_gtd_def groups_ok_def)
  have ok: "create_refused sound 7 20 ex_start ex_tab = None"
    by (rule ex_start_ok) (simp add: ex_tab_def ex_gtd_def)
  have t: "?t \<in> set (tasks ex_tab)" "t_id ?t \<in> set (cs_tasks ex_start)" "t_workspace ?t = Some 7" "t_status ?t = Pending"
    "t_assignee ?t = Some [9]" "TrimSpace [9] = []" "sql_trim_spaces [9] \<noteq> []" "\<not> sound AtTasks" "t_id ?t = 1"
    by (simp_all add: ex_tab_def ex_todo_def ex_start_def TrimSpace_def trim_by_def is_space_def sql_trim_spaces_def sql_trim_def)
  show ?thesis
    using session_start_without_owner [OF inv ok t(8,1-7), of 9000000 "\<lambda>_. 9000000"] unfolding t(9) by blast
qed

theorem checkpoint_hides_session_witness:
  "\<exists>s. session_reach s \<and> GetActive_sq calm sound (Some 7) 7 (lit ''a/b'') s \<noteq> Inr no_active \<and>
     GetActive_sq calm sound (Some 7) 7 (lit ''a/b'') (snd (Checkpoint_sq calm sound (Some 7) (\<lambda>_. 2000000) 20 (lit ''half'') s)) = Inr no_active"
proof -
  let ?r = "new_session 1000000 20 7 ex_start"
  let ?s = "snd (CreateSession_sq calm sound (Some 7) (\<lambda>_. 1000000) 20 ex_start empty_gtd)"
  have r: "?r \<in> set (work_sessions ?s)" "wk_workspace ?r = 7" "wk_status ?r = SessionActive"
    by (simp_all add: ex_reach(2)) (simp_all add: new_session_def)
  have key: "wk_id ?r = 20" "wk_repo ?r = lit ''a/b''" by (simp_all add: new_session_def ex_start_def)
  have "first_row (active_at 7 (lit ''a/b'')) (work_sessions ?s) = Some ?r"
    by (simp add: ex_reach(2)) (simp add: first_row_def active_at_def new_session_def ex_start_def)
  then have "GetActive_sq calm sound (Some 7) 7 (lit ''a/b'') ?s \<noteq> Inr no_active"
    by (simp add: sqs.looks_up is_active_def no_active_def)
  with checkpoint_hides_session [OF ex_reach(1) r, of "\<lambda>_. 2000000" "lit ''half''", unfolded key] ex_reach(1) show ?thesis
    by (intro exI [of _ ?s]) auto
qed

end
