(* ===== verification/Guard_Path.thy ===== *)
theory Guard_Path
  imports Texts
begin

text \<open>
  Go's \<open>path/filepath\<close> on Unix as the guard uses it, and the file checks of
  \<open>internal/guard/matcher.go\<close>: a path is resolved against the working directory, symbolic links in
  its deepest existing prefix are followed, and it must then lie inside the working directory.

  \<open>filepath.EvalSymlinks\<close> reads the file system: it is a parameter, \<open>eval p = None\<close> standing for an
  error.
\<close>

section \<open>Paths\<close>

fun split_slash :: "ustr \<Rightarrow> ustr list" where
  "split_slash [] = [[]]"
| "split_slash (c # s) =
     (if c = 47 then [] # split_slash s
      else (case split_slash s of [] \<Rightarrow> [[c]] | part # parts \<Rightarrow> (c # part) # parts))"

definition IsAbs :: "ustr \<Rightarrow> bool" where
  "IsAbs p \<longleftrightarrow> p \<noteq> [] \<and> hd p = 47"

text \<open>\<open>Clean\<close>: the components left after dropping empty ones and dots and resolving each \<open>..\<close>.\<close>

definition clean_step :: "bool \<Rightarrow> ustr list \<Rightarrow> ustr \<Rightarrow> ustr list" where
  "clean_step rooted out c =
     (if c = [] \<or> c = [46] then out
      else if c = [46, 46] then
        (if out \<noteq> [] \<and> last out \<noteq> [46, 46] then butlast out else if rooted then out else out @ [c])
      else out @ [c])"

definition clean_comps :: "bool \<Rightarrow> ustr \<Rightarrow> ustr list" where
  "clean_comps rooted p = foldl (clean_step rooted) [] (split_slash p)"

definition Clean :: "ustr \<Rightarrow> ustr" where
  "Clean p =
     (if IsAbs p then 47 # join_slash (clean_comps True p)
      else (let out = clean_comps False p in if out = [] then [46] else join_slash out))"

definition Join :: "ustr \<Rightarrow> ustr \<Rightarrow> ustr" where
  "Join a b = (if a = [] \<and> b = [] then [] else if a = [] then Clean b else Clean (a @ 47 # b))"

text \<open>Up to the last slash, and after it.\<close>

definition after_slash :: "ustr \<Rightarrow> ustr" where
  "after_slash p = rev (takeWhile (\<lambda>c. c \<noteq> 47) (rev p))"

definition Dir :: "ustr \<Rightarrow> ustr" where
  "Dir p = Clean (rev (dropWhile (\<lambda>c. c \<noteq> 47) (rev p)))"

definition Base :: "ustr \<Rightarrow> ustr" where
  "Base p =
     (if p = [] then [46]
      else (let q = after_slash (rev (dropWhile (\<lambda>c. c = 47) (rev p))) in if q = [] then [47] else q))"

section \<open>The file check\<close>

fun walk_up :: "nat \<Rightarrow> (ustr \<Rightarrow> ustr option) \<Rightarrow> ustr \<Rightarrow> ustr list \<Rightarrow> ustr option" where
  "walk_up 0 eval cur suf = None"
| "walk_up (Suc n) eval cur suf =
     (let parent = Dir cur in
      if parent = cur then None
      else (let suf' = Base cur # suf in
            case eval parent of
              Some resolved \<Rightarrow> Some (Clean (foldl Join resolved suf'))
            | None \<Rightarrow> walk_up n eval parent suf'))"

definition resolveExistingPrefix :: "(ustr \<Rightarrow> ustr option) \<Rightarrow> ustr \<Rightarrow> ustr" where
  "resolveExistingPrefix eval p =
     (case eval p of
        Some resolved \<Rightarrow> resolved
      | None \<Rightarrow> (case walk_up 4096 eval p [] of Some q \<Rightarrow> q | None \<Rightarrow> Clean p))"

text \<open>The risk tiers, ordered by their number.\<close>

datatype RiskTier = T0 | T1 | T2 | T3 | T4 | T5 | T6 | T7

primrec tier_no :: "RiskTier \<Rightarrow> nat" where
  "tier_no T0 = 0" | "tier_no T1 = 1" | "tier_no T2 = 2" | "tier_no T3 = 3"
| "tier_no T4 = 4" | "tier_no T5 = 5" | "tier_no T6 = 6" | "tier_no T7 = 7"

lemma tier_no_inj: "tier_no a = tier_no b \<longleftrightarrow> a = b"
  by (cases a; cases b) simp_all

instantiation RiskTier :: linorder
begin

definition less_eq_RiskTier :: "RiskTier \<Rightarrow> RiskTier \<Rightarrow> bool" where
  "a \<le> b \<longleftrightarrow> tier_no a \<le> tier_no b"

definition less_RiskTier :: "RiskTier \<Rightarrow> RiskTier \<Rightarrow> bool" where
  "a < b \<longleftrightarrow> tier_no a < tier_no b"

instance
  by standard (auto simp: less_eq_RiskTier_def less_RiskTier_def tier_no_inj)

end

lemma tier_simps [simp]: "T0 \<le> t" "t \<le> T7"
  by (cases t; simp add: less_eq_RiskTier_def)+

type_synonym classified = "RiskTier \<times> ustr"

definition in_directory :: "ustr \<Rightarrow> ustr \<Rightarrow> bool" where
  "in_directory cwdClean absPath \<longleftrightarrow> prefix (cwdClean @ [47]) absPath \<or> absPath = cwdClean"

text \<open>\<open>quote\<close> is \<open>strconv.Quote\<close>, the verb \<open>%q\<close>, whose table of printable characters is not modelled.\<close>

definition classifyFilePath :: "(ustr \<Rightarrow> ustr) \<Rightarrow> (ustr \<Rightarrow> ustr option) \<Rightarrow> ustr \<Rightarrow> ustr \<Rightarrow> ustr \<Rightarrow> classified" where
  "classifyFilePath quote eval filePath cwd matcherName =
     (if \<exists>c \<in> set filePath. c \<in> {0, 13, 10} then (T7, matcherName @ lit '': path contains control char ('' @
        92 # lit ''x00 / '' @ 92 # lit ''r / '' @ 92 # lit ''n)'')
      else if prefix [126] filePath then
        (T7, matcherName @ lit '': tilde (~) is not shell-expanded; pass absolute or repo-relative path'')
      else (let abs1 = (if \<not> IsAbs filePath then Join cwd filePath else filePath);
                abs2 = resolveExistingPrefix eval (Clean abs1);
                cwdClean = resolveExistingPrefix eval (Clean cwd)
            in if \<not> in_directory cwdClean abs2
               then (T5, matcherName @ lit '': file_path '' @ quote filePath @ lit '' resolves outside repo root '' @ quote cwd @
                 lit '' (path traversal risk)'')
               else (T1, matcherName @ lit '': in-repo edit'')))"

end
