(* ===== verification/Guard_Classifier.thy ===== *)
theory Guard_Classifier
  imports Guard_Path
begin

text \<open>
  \<open>internal/guard/classifier.go\<close>: the risk tier of a shell command, function by function.  A loop over
  the runes of a text that looks one rune behind and ahead is a recursion over the rest of the text
  that carries the previous rune; \<open>bump\<close> and the running maximum are its accumulators.
\<close>

section \<open>Scanning\<close>

record splitState =
  inSingle :: bool
  inDouble :: bool

definition closed :: splitState where
  "closed = \<lparr>inSingle = False, inDouble = False\<rparr>"

definition toggleQuote :: "splitState \<Rightarrow> rune \<Rightarrow> splitState \<times> bool" where
  "toggleQuote st r =
     (if r = 39 \<and> \<not> inDouble st then (st\<lparr>inSingle := \<not> inSingle st\<rparr>, True)
      else if r = 34 \<and> \<not> inSingle st then (st\<lparr>inDouble := \<not> inDouble st\<rparr>, True)
      else (st, False))"

definition inQuotes :: "splitState \<Rightarrow> bool" where
  "inQuotes st \<longleftrightarrow> inSingle st \<or> inDouble st"

definition starts_with :: "rune set \<Rightarrow> ustr \<Rightarrow> bool" where
  "starts_with cs s \<longleftrightarrow> s \<noteq> [] \<and> hd s \<in> cs"

text \<open>\<open>runes[i:]\<close> is \<open>r # rest\<close>, \<open>prev\<close> is \<open>runes[i-1]\<close>.\<close>

definition isCompositeInputRedirect :: "rune option \<Rightarrow> ustr \<Rightarrow> bool" where
  "isCompositeInputRedirect prev rest \<longleftrightarrow> starts_with {60, 40} rest \<or> prev = Some 60"

definition operatorWidth :: "rune option \<Rightarrow> rune \<Rightarrow> ustr \<Rightarrow> nat" where
  "operatorWidth prev r rest =
     (if r = 38 \<and> starts_with {38} rest then 2
      else if r = 124 \<and> starts_with {124} rest then 2
      else if r = 124 \<or> r = 59 \<or> r = 10 then 1
      else if r = 38 then 1
      else if r = 60 then (if isCompositeInputRedirect prev rest then 0 else 1)
      else 0)"

function split_loop :: "splitState \<Rightarrow> rune option \<Rightarrow> ustr \<Rightarrow> ustr \<Rightarrow> ustr list" where
  "split_loop st prev cur [] = (if length cur > 0 then [cur] else [])"
| "split_loop st prev cur (r # rest) =
     (let (st', quote) = toggleQuote st r; skip = operatorWidth prev r rest in
      if quote then split_loop st' (Some r) (cur @ [r]) rest
      else if \<not> inQuotes st \<and> skip > 0
      then cur # split_loop st (Some r) [] (drop (skip - 1) rest)
      else split_loop st (Some r) (cur @ [r]) rest)"
  by pat_completeness auto

termination
  by (relation "measure (\<lambda>(st, prev, cur, s). length s)") auto

definition splitPipeline :: "ustr \<Rightarrow> ustr list" where
  "splitPipeline cmd = split_loop closed None [] cmd"

fun bare_loop :: "splitState \<Rightarrow> rune option \<Rightarrow> ustr \<Rightarrow> classified option" where
  "bare_loop st prev [] = None"
| "bare_loop st prev (r # rest) =
     (let (st', quote) = toggleQuote st r in
      if quote then bare_loop st' (Some r) rest
      else if inQuotes st \<or> r \<noteq> 60 \<or> starts_with {60, 40} rest \<or> prev = Some 60
      then bare_loop st (Some r) rest
      else Some (T4, lit ''shell-special: bare < input redirection''))"

definition detectBareRedirection :: "ustr \<Rightarrow> classified option" where
  "detectBareRedirection cmd = bare_loop closed None cmd"

fun detectAbsRedirectAt :: "ustr \<Rightarrow> classified option" where
  "detectAbsRedirectAt [] = None"
| "detectAbsRedirectAt (c # s) =
     (if c = 32 \<or> c = 9 then detectAbsRedirectAt s
      else if c = 47 then Some (T5, lit ''shell-special: redirect to absolute path'')
      else None)"

definition bump :: "classified \<Rightarrow> classified option \<Rightarrow> classified option" where
  "bump t found = (case found of None \<Rightarrow> Some t | Some m \<Rightarrow> if fst t > fst m then Some t else Some m)"

definition bump_opt :: "classified option \<Rightarrow> classified option \<Rightarrow> classified option" where
  "bump_opt t found = (case t of None \<Rightarrow> found | Some t \<Rightarrow> bump t found)"

fun special_loop :: "splitState \<Rightarrow> classified option \<Rightarrow> ustr \<Rightarrow> classified option" where
  "special_loop st found [] = found"
| "special_loop st found (r # rest) =
     (if r = 36 \<and> starts_with {40} rest
      then special_loop st (bump (T5, lit ''shell-special: $() command substitution'') found) rest
      else (let (st', quote) = toggleQuote st r in
        if quote then special_loop st' found rest
        else if inQuotes st then special_loop st found rest
        else if r = 96 then special_loop st (bump (T5, lit ''shell-special: backtick command substitution'') found) rest
        else if (r = 60 \<or> r = 62) \<and> starts_with {40} rest
        then special_loop st (bump (T4, lit ''shell-special: process substitution '' @ r # lit ''('') found) rest
        else if r = 60 \<and> starts_with {60} rest
        then special_loop st (bump (T4, lit ''shell-special: here-doc / here-string'') found) rest
        else if r = 62 \<and> starts_with {62} rest
        then special_loop st
               (bump (case detectAbsRedirectAt (tl rest) of
                        Some t \<Rightarrow> t | None \<Rightarrow> (T4, lit ''shell-special: append redirect (>>)'')) found) rest
        else if r = 62 then special_loop st (bump_opt (detectAbsRedirectAt rest) found) rest
        else special_loop st found rest))"

definition detectShellSpecial :: "ustr \<Rightarrow> classified option" where
  "detectShellSpecial seg = special_loop closed None seg"

fun token_loop :: "splitState \<Rightarrow> ustr \<Rightarrow> ustr \<Rightarrow> ustr list" where
  "token_loop st cur [] = (if length cur > 0 then [cur] else [])"
| "token_loop st cur (r # rest) =
     (let (st', quote) = toggleQuote st r in
      if quote then token_loop st' cur rest
      else if \<not> inSingle st \<and> \<not> inDouble st \<and> is_space r
      then (if length cur > 0 then cur # token_loop st [] rest else token_loop st cur rest)
      else token_loop st (cur @ [r]) rest)"

definition tokenize :: "ustr \<Rightarrow> ustr list" where
  "tokenize cmd = token_loop closed [] cmd"

section \<open>Tables\<close>

definition named :: "string list \<Rightarrow> classified \<Rightarrow> (ustr \<times> classified) list" where
  "named ns t = map (\<lambda>n. (lit n, t)) ns"

definition simpleTiers :: "(ustr \<times> classified) list" where
  "simpleTiers =
     named [''ls'', ''ll'', ''la'', ''cat'', ''less'', ''more'', ''head'', ''tail'', ''pwd'', ''echo'', ''printf'', ''date'',
       ''whoami'', ''hostname'', ''find'', ''grep'', ''awk'', ''sed'', ''sort'', ''uniq'', ''wc'', ''diff'', ''file'', ''stat'',
       ''du'', ''df'', ''ps'', ''env'', ''printenv'', ''which'', ''type'', ''man'', ''help'', ''true'', ''false'', ''test'',
       ''curl'', ''wget''] (T0, lit ''read-only command'') @
     named [''gradle'', ''gradlew'', ''mvn''] (T1, lit ''build tool'') @
     named [''pytest'', ''jest'', ''vitest'', ''mocha''] (T1, lit ''test runner'') @
     named [''golangci-lint'', ''staticcheck'', ''govulncheck''] (T1, lit ''linter'') @
     named [''python'', ''python3'', ''ruby'', ''node'', ''deno'', ''java'', ''perl''] (T2, lit ''local script execution'') @
     named [''rm'', ''rmdir''] (T5, lit ''file deletion'') @
     named [''mv''] (T5, lit ''file move (potentially destructive)'') @
     named [''chmod'', ''chown''] (T5, lit ''permission change'') @
     named [''dd'', ''truncate''] (T5, lit ''raw disk/file operation'') @
     named [''ssh'', ''scp'', ''rsync''] (T6, lit ''remote operation'')"

definition hasFlag :: "ustr list \<Rightarrow> string \<Rightarrow> bool" where
  "hasFlag tokens flag \<longleftrightarrow> lit flag \<in> set tokens"

text \<open>Membership of a text in a list of literals, the \<open>case\<close> of a string switch.\<close>

definition among :: "ustr \<Rightarrow> string list \<Rightarrow> bool" where
  "among s ns \<longleftrightarrow> s \<in> set (map lit ns)"

section \<open>Wrappers\<close>

definition classifyWrapperSingle :: "ustr \<Rightarrow> classified option" where
  "classifyWrapperSingle cmdName =
     (if cmdName = lit ''sudo'' then Some (T6, lit ''wrapper: sudo escalates privilege'')
      else if cmdName = lit ''eval'' then Some (T6, lit ''wrapper: eval executes shell string'')
      else if cmdName = lit ''exec'' then Some (T6, lit ''wrapper: exec replaces process with arbitrary command'')
      else None)"

definition classifyWrapperFlag :: "ustr list \<Rightarrow> ustr \<Rightarrow> classified option" where
  "classifyWrapperFlag tokens cmdName =
     (if among cmdName [''bash'', ''sh''] \<and> hasFlag tokens ''-c''
      then Some (T6, lit ''wrapper: '' @ cmdName @ lit '' -c executes arbitrary shell string'')
      else if among cmdName [''python'', ''python3''] \<and> hasFlag tokens ''-c''
      then Some (T6, lit ''wrapper: '' @ cmdName @ lit '' -c executes arbitrary python string'')
      else if cmdName = lit ''node'' \<and> hasFlag tokens ''-e''
      then Some (T6, lit ''wrapper: node -e executes arbitrary javascript string'')
      else if cmdName = lit ''deno'' \<and> length tokens \<ge> 2 \<and> tokens ! 1 = lit ''eval''
      then Some (T6, lit ''wrapper: deno eval executes arbitrary javascript string'')
      else None)"

fun xargs_loop :: "ustr list \<Rightarrow> classified option" where
  "xargs_loop (shell # nxt # rest) =
     (if among shell [''sh'', ''bash''] \<and> nxt = lit ''-c''
      then Some (T6, lit ''wrapper: xargs '' @ shell @ lit '' -c executes arbitrary shell'')
      else xargs_loop (nxt # rest))"
| "xargs_loop _ = None"

definition classifyWrapperXargs :: "ustr list \<Rightarrow> ustr \<Rightarrow> classified option" where
  "classifyWrapperXargs tokens cmdName = (if cmdName \<noteq> lit ''xargs'' then None else xargs_loop (tl tokens))"

fun alias_loop :: "bool \<Rightarrow> ustr list \<Rightarrow> bool" where
  "alias_loop settingAlias [] = False"
| "alias_loop settingAlias (t # ts) =
     (if prefix (lit ''alias.'') t then alias_loop True ts
      else if settingAlias \<and> prefix [33] t then True
      else alias_loop settingAlias ts)"

definition hasAliasShellEscape :: "ustr list \<Rightarrow> bool" where
  "hasAliasShellEscape tokens = alias_loop False tokens"

definition classifyWrapperGit :: "ustr list \<Rightarrow> ustr \<Rightarrow> classified option" where
  "classifyWrapperGit tokens cmdName =
     (if cmdName \<noteq> lit ''git'' \<or> length tokens < 3 then None
      else (let sub = tokens ! 1; action = tokens ! 2 in
        if sub = lit ''bisect'' \<and> action = lit ''run''
        then Some (T6, lit ''wrapper: git bisect run executes arbitrary shell at each commit'')
        else if sub = lit ''submodule'' \<and> action = lit ''foreach''
        then Some (T6, lit ''wrapper: git submodule foreach executes arbitrary shell per submodule'')
        else if sub = lit ''rebase'' \<and> hasFlag tokens ''-x''
        then Some (T6, lit ''wrapper: git rebase -x executes arbitrary shell at each step'')
        else if sub = lit ''filter-branch''
        then Some (T6, lit ''wrapper: git filter-branch rewrites history with arbitrary shell'')
        else if sub = lit ''config'' \<and> hasAliasShellEscape tokens
        then Some (T6, lit ''wrapper: git config alias with '' @ 39 # lit ''!'' @ 39 # lit '' shell prefix'')
        else None))"

definition first_of :: "'a option list \<Rightarrow> 'a option" where
  "first_of xs = (case filter (\<lambda>x. x \<noteq> None) xs of [] \<Rightarrow> None | x # _ \<Rightarrow> x)"

definition classifyWrapperBlocklist :: "ustr list \<Rightarrow> ustr \<Rightarrow> classified option" where
  "classifyWrapperBlocklist tokens cmdName =
     first_of [classifyWrapperSingle cmdName, classifyWrapperFlag tokens cmdName, classifyWrapperXargs tokens cmdName,
       classifyWrapperGit tokens cmdName]"

section \<open>Commands with subcommands\<close>

definition classifyGitReadOnly :: "ustr \<Rightarrow> classified option" where
  "classifyGitReadOnly sub =
     (if among sub [''status'', ''log'', ''diff'', ''show'', ''shortlog'', ''describe'', ''blame'', ''annotate'', ''bisect'',
        ''ls-files'', ''ls-tree'', ''rev-parse'', ''rev-list'', ''cat-file'', ''config'', ''remote'', ''branch'', ''tag'', ''fetch'']
      then Some (T0, lit ''git read-only'') else None)"

definition classifyGitSafeMutation :: "ustr list \<Rightarrow> ustr \<Rightarrow> classified option" where
  "classifyGitSafeMutation tokens sub =
     (if among sub [''add'', ''commit'', ''stash'', ''restore'', ''init'', ''clone'', ''submodule'']
      then Some (T3, lit ''git safe mutation'')
      else if sub = lit ''checkout'' then
        (if hasFlag tokens ''-b'' \<or> hasFlag tokens ''-B'' then Some (T3, lit ''git checkout: new branch'')
         else Some (T4, lit ''git checkout: may switch existing branch''))
      else None)"

definition classifyGitRiskyMutation :: "ustr list \<Rightarrow> ustr \<Rightarrow> classified option" where
  "classifyGitRiskyMutation tokens sub =
     (if among sub [''rebase'', ''merge'', ''cherry-pick'', ''revert'', ''am'', ''apply'', ''format-patch'']
      then Some (T4, lit ''git risky mutation: '' @ sub)
      else if sub = lit ''reset'' then
        (if hasFlag tokens ''--hard'' then Some (T5, lit ''git reset --hard: destructive'')
         else Some (T4, lit ''git reset (soft/mixed)''))
      else if sub = lit ''pull'' then Some (T4, lit ''git pull'')
      else None)"

definition classifyGitDestructive :: "ustr list \<Rightarrow> ustr \<Rightarrow> classified option" where
  "classifyGitDestructive tokens sub =
     (if sub = lit ''clean'' then Some (T5, lit ''git clean: destructive'')
      else if sub = lit ''push'' then
        (if hasFlag tokens ''--force'' \<or> hasFlag tokens ''-f'' then Some (T6, lit ''git push --force'')
         else Some (T6, lit ''git push''))
      else None)"

definition classifyGit :: "ustr list \<Rightarrow> classified" where
  "classifyGit tokens =
     (if length tokens < 2 then (T7, lit ''git: missing subcommand'')
      else (let sub = tokens ! 1 in
        case first_of [classifyGitReadOnly sub, classifyGitSafeMutation tokens sub, classifyGitRiskyMutation tokens sub,
            classifyGitDestructive tokens sub] of
          Some t \<Rightarrow> t
        | None \<Rightarrow> (T7, lit ''git: unknown subcommand: '' @ sub)))"

definition classifyGH :: "ustr list \<Rightarrow> classified" where
  "classifyGH tokens =
     (if length tokens < 2 then (T7, lit ''gh: missing subcommand'')
      else (let sub = tokens ! 1; action = tokens ! 2 in
        if length tokens \<ge> 3 \<and> among action [''list'', ''view'', ''status''] then (T0, lit ''gh read-only'')
        else if length tokens \<ge> 3 \<and> sub = lit ''pr'' \<and> action = lit ''merge'' then (T6, lit ''gh pr merge: remote destructive'')
        else if length tokens \<ge> 3 \<and> sub = lit ''pr'' \<and> among action [''create'', ''edit'']
        then (T6, lit ''gh pr create/edit: remote mutation'')
        else if length tokens \<ge> 3 \<and> sub = lit ''repo'' \<and> action = lit ''delete''
        then (T6, lit ''gh repo delete: remote destructive'')
        else if among sub [''pr'', ''issue'', ''repo'', ''release'', ''run'', ''workflow'', ''api'', ''auth'', ''config'', ''gist'',
          ''secret'', ''variable'']
        then (T4, lit ''gh: '' @ sub @ lit '' (mutation)'')
        else (T7, lit ''gh: unknown subcommand: '' @ sub)))"

definition classifyGo :: "ustr list \<Rightarrow> classified" where
  "classifyGo tokens =
     (if length tokens < 2 then (T1, lit ''go tool'')
      else (let sub = tokens ! 1 in
        if among sub [''build'', ''install'', ''generate'', ''mod'', ''work''] then (T1, lit ''go build/install'')
        else if among sub [''test'', ''vet'', ''lint''] then (T1, lit ''go test/vet'')
        else if sub = lit ''run'' then (T2, lit ''go run: local script execution'')
        else if among sub [''env'', ''version'', ''doc'', ''list'', ''tool''] then (T0, lit ''go read-only'')
        else (T1, lit ''go: '' @ sub)))"

definition classifyBuildTool :: "ustr list \<Rightarrow> ustr \<Rightarrow> classified" where
  "classifyBuildTool tokens name =
     (if length tokens \<ge> 2 then
        (let target = tokens ! 1; contains = (\<lambda>w. sublist (lit w) target) in
         if contains ''check'' \<or> contains ''test'' \<or> contains ''lint'' \<or> contains ''build'' then (T1, name @ 32 # target)
         else if contains ''deploy'' \<or> contains ''push'' then (T6, name @ 32 # target @ lit '': remote mutation'')
         else if contains ''clean'' \<or> contains ''rm'' then (T5, name @ 32 # target @ lit '': destructive local'')
         else (T1, lit ''build tool''))
      else (T1, lit ''build tool''))"

definition classifyNPM :: "ustr list \<Rightarrow> classified" where
  "classifyNPM tokens =
     (if length tokens < 2 then (T1, lit ''package manager'')
      else (let sub = tokens ! 1 in
        if among sub [''run'', ''exec'', ''start'', ''build'', ''test'', ''lint'', ''install'', ''ci'', ''i'']
        then (T1, lit ''npm/yarn/pnpm: '' @ sub)
        else if among sub [''publish'', ''deploy''] then (T6, lit ''npm publish: remote mutation'')
        else if among sub [''uninstall'', ''remove''] then (T3, lit ''npm uninstall: safe local mutation'')
        else (T1, lit ''package manager: '' @ sub)))"

definition classifyDevOps :: "ustr list \<Rightarrow> ustr \<Rightarrow> classified" where
  "classifyDevOps tokens name =
     (if length tokens < 2 then (T4, name @ lit '': operation'')
      else (let sub = tokens ! 1 in
        if among sub [''ps'', ''images'', ''info'', ''inspect'', ''logs'', ''stats'', ''top'', ''version'', ''get'', ''describe'', ''status'']
        then (T0, name @ lit '' read-only'')
        else if among sub [''run'', ''exec'', ''start'', ''stop'', ''restart'', ''apply'', ''create'', ''upgrade'', ''install'']
        then (T6, name @ lit '': '' @ sub @ lit '' remote/service mutation'')
        else if among sub [''rm'', ''rmi'', ''remove'', ''delete'', ''uninstall'']
        then (T5, name @ lit '': '' @ sub @ lit '' destructive'')
        else if among sub [''push'', ''deploy''] then (T6, name @ lit '': '' @ sub @ lit '' remote mutation'')
        else (T4, name @ lit '': operation'')))"

definition dispatchers :: "ustr \<Rightarrow> (ustr list \<Rightarrow> ustr \<Rightarrow> classified) option" where
  "dispatchers cmdName =
     (if cmdName = lit ''git'' then Some (\<lambda>tokens _. classifyGit tokens)
      else if cmdName = lit ''gh'' then Some (\<lambda>tokens _. classifyGH tokens)
      else if cmdName = lit ''go'' then Some (\<lambda>tokens _. classifyGo tokens)
      else if among cmdName [''task'', ''make''] then Some classifyBuildTool
      else if among cmdName [''npm'', ''yarn'', ''pnpm'', ''bun''] then Some (\<lambda>tokens _. classifyNPM tokens)
      else if among cmdName [''docker'', ''kubectl'', ''helm''] then Some classifyDevOps
      else None)"

definition dispatchCommand :: "ustr \<Rightarrow> ustr list \<Rightarrow> classified" where
  "dispatchCommand cmdName tokens =
     (case map_of simpleTiers cmdName of
        Some entry \<Rightarrow> entry
      | None \<Rightarrow> (case dispatchers cmdName of
                   Some fn \<Rightarrow> fn tokens cmdName
                 | None \<Rightarrow> (T7, lit ''unknown command: '' @ cmdName)))"

section \<open>A segment and a command\<close>

definition firstNonEnvToken :: "ustr list \<Rightarrow> ustr" where
  "firstNonEnvToken tokens = (case List.find (\<lambda>t. 61 \<notin> set t) tokens of None \<Rightarrow> [] | Some t \<Rightarrow> t)"

definition normalizeCmdName :: "ustr \<Rightarrow> ustr" where
  "normalizeCmdName name = Base (if prefix [92] name then tl name else name)"

definition classifySimple :: "ustr \<Rightarrow> classified" where
  "classifySimple cmd =
     (case detectShellSpecial cmd of
        Some t \<Rightarrow> t
      | None \<Rightarrow>
          (let tokens = tokenize cmd in
           if length tokens = 0 then (T7, lit ''empty segment'')
           else (let cmdName = firstNonEnvToken tokens in
             if cmdName = [] then (T7, lit ''no command after env assignments'')
             else (case classifyWrapperBlocklist tokens cmdName of
                     Some t \<Rightarrow> t
                   | None \<Rightarrow> dispatchCommand (normalizeCmdName cmdName) tokens))))"

definition raise_to :: "classified \<Rightarrow> classified \<Rightarrow> classified" where
  "raise_to t m = (if fst t > fst m then t else m)"

fun segments_loop :: "ustr list \<Rightarrow> classified \<Rightarrow> classified" where
  "segments_loop [] m = m"
| "segments_loop (seg # segs) m =
     (let seg' = TrimSpace seg in
      if seg' = [] then segments_loop segs m else segments_loop segs (raise_to (classifySimple seg') m))"

definition ClassifyBash :: "ustr \<Rightarrow> classified" where
  "ClassifyBash command =
     (if TrimSpace command = [] then (T7, lit ''empty command'')
      else (let m = (T0, lit ''read-only command'');
                m' = (case detectBareRedirection command of None \<Rightarrow> m | Some t \<Rightarrow> raise_to t m)
            in segments_loop (splitPipeline command) m'))"

end
