(* ===== verification/Guard_Sequence.thy ===== *)
theory Guard_Sequence
  imports Guard_Classifier
begin

text \<open>
  How the classifier composes: the tier of commands chained by operators is the highest tier among
  them, whatever the commands are, as long as each closes its quotes.
\<close>

section \<open>Tiers\<close>

lemma max_T0 [simp]: "max T0 t = t" "max t T0 = t"
  by (simp_all add: max_def antisym)

lemma raise_to_tier: "fst (raise_to t m) = max (fst m) (fst t)"
  by (auto simp: raise_to_def max_def)

definition work :: "ustr list \<Rightarrow> ustr list" where
  "work segs = filter (\<lambda>s. s \<noteq> []) (map TrimSpace segs)"

lemma work_simps [simp]:
  "work [] = []" "work (s # ss) = (if TrimSpace s = [] then work ss else TrimSpace s # work ss)"
  "work (xs @ ys) = work xs @ work ys"
  by (simp_all add: work_def)

definition top_tier :: "ustr list \<Rightarrow> RiskTier" where
  "top_tier segs = foldr (\<lambda>s t. max (fst (classifySimple s)) t) segs T0"

lemma top_tier_simps [simp]:
  "top_tier [] = T0" "top_tier (s # ss) = max (fst (classifySimple s)) (top_tier ss)"
  "top_tier (xs @ ys) = max (top_tier xs) (top_tier ys)"
proof -
  show "top_tier (xs @ ys) = max (top_tier xs) (top_tier ys)"
    by (induction xs) (simp_all add: top_tier_def max.assoc)
qed (simp_all add: top_tier_def)

lemma segments_loop_tier: "fst (segments_loop segs m) = max (fst m) (top_tier (work segs))"
  by (induction segs m rule: segments_loop.induct) (simp_all add: Let_def raise_to_tier max.assoc)

definition bare_tier :: "ustr \<Rightarrow> RiskTier" where
  "bare_tier cmd = (case detectBareRedirection cmd of None \<Rightarrow> T0 | Some t \<Rightarrow> fst t)"

lemma ClassifyBash_tier:
  "TrimSpace cmd \<noteq> [] \<Longrightarrow> fst (ClassifyBash cmd) = max (bare_tier cmd) (top_tier (work (splitPipeline cmd)))"
  by (simp add: ClassifyBash_def Let_def segments_loop_tier bare_tier_def raise_to_tier del: trim_by_Nil split: option.split)

section \<open>Trimming\<close>

lemma TrimSpace_Cons: "is_space c \<Longrightarrow> TrimSpace (c # s) = TrimSpace s"
  by (simp add: TrimSpace_def trim_by_def)

lemma TrimSpace_snoc:
  "is_space c \<Longrightarrow> TrimSpace (s @ [c]) = TrimSpace s"
proof -
  assume c: "is_space c"
  have "dropWhile is_space (rev (xs @ [c])) = dropWhile is_space (rev xs)" for xs using c by simp
  moreover have "dropWhile is_space (s @ [c]) = dropWhile is_space s @ [c]" if "\<not> (\<forall>x \<in> set s. is_space x)"
    using that by (auto simp: dropWhile_append)
  moreover have "TrimSpace s = []" "TrimSpace (s @ [c]) = []" if "\<forall>x \<in> set s. is_space x"
    using that c by (simp_all add: TrimSpace_def)
  ultimately show ?thesis unfolding TrimSpace_def trim_by_def by metis
qed

lemma space_32 [simp]: "is_space 32" by (simp add: is_space_def)

lemma TrimSpace_append: "TrimSpace a \<noteq> [] \<Longrightarrow> TrimSpace (a @ b) \<noteq> []"
  by (auto simp: TrimSpace_def)

section \<open>Quotes\<close>

definition quotes :: "splitState \<Rightarrow> ustr \<Rightarrow> splitState" where
  "quotes st s = foldl (\<lambda>st r. fst (toggleQuote st r)) st s"

lemma quotes_simps [simp]:
  "quotes st [] = st" "quotes st (r # s) = quotes (fst (toggleQuote st r)) s" "quotes st (a @ b) = quotes (quotes st a) b"
  by (simp_all add: quotes_def)

definition balanced :: "ustr \<Rightarrow> bool" where
  "balanced s \<longleftrightarrow> quotes closed s = closed"

lemma balanced_simps [simp]: "balanced []" "balanced a \<Longrightarrow> balanced (a @ b) = balanced b"
  by (simp_all add: balanced_def)

lemma not_toggled: "\<not> snd (toggleQuote st r) \<Longrightarrow> fst (toggleQuote st r) = st"
  by (auto simp: toggleQuote_def split: if_splits)

lemma closed_simps [simp]: "\<not> inQuotes closed" "r \<noteq> 39 \<Longrightarrow> r \<noteq> 34 \<Longrightarrow> toggleQuote st r = (st, False)"
  by (simp_all add: closed_def inQuotes_def toggleQuote_def)

section \<open>Junctions\<close>

text \<open>A rune that no operator or redirection reaches over from the left.\<close>

definition breaker :: "rune \<Rightarrow> bool" where
  "breaker c \<longleftrightarrow> c \<notin> {38, 124, 60, 40}"

lemma starts_with_append:
  "starts_with cs (s @ t) = (if s = [] then starts_with cs t else starts_with cs s)"
  by (simp add: starts_with_def)

lemma starts_breaker: "breaker c \<Longrightarrow> cs \<subseteq> {38, 124, 60, 40} \<Longrightarrow> starts_with cs (s @ c # t) = starts_with cs s"
  by (cases s) (auto simp: starts_with_def breaker_def)

lemma operatorWidth_breaker: "breaker c \<Longrightarrow> operatorWidth prev r (s @ c # t) = operatorWidth prev r s"
  by (simp add: operatorWidth_def isCompositeInputRedirect_def starts_breaker)

lemma operatorWidth_two: "operatorWidth prev r s > 1 \<Longrightarrow> operatorWidth prev r s = 2 \<and> s \<noteq> [] \<and> hd s \<in> {38, 124}"
  by (auto simp: operatorWidth_def starts_with_def split: if_splits)

lemma operatorWidth_prev: "prev \<noteq> Some 60 \<Longrightarrow> operatorWidth prev r s = operatorWidth None r s"
  by (simp add: operatorWidth_def isCompositeInputRedirect_def)

declare split_loop.simps(2) [simp del]

lemma split_step:
  "toggleQuote st r = (st', True) \<Longrightarrow> split_loop st prev cur (r # s) = split_loop st' (Some r) (cur @ [r]) s"
  "toggleQuote st r = (st', False) \<Longrightarrow> \<not> inQuotes st \<Longrightarrow> operatorWidth prev r s > 0 \<Longrightarrow>
     split_loop st prev cur (r # s) = cur # split_loop st (Some r) [] (drop (operatorWidth prev r s - 1) s)"
  "toggleQuote st r = (st', False) \<Longrightarrow> inQuotes st \<or> operatorWidth prev r s = 0 \<Longrightarrow>
     split_loop st prev cur (r # s) = split_loop st (Some r) (cur @ [r]) s"
  by (auto simp: split_loop.simps(2) Let_def)

lemma split_prev: "prev \<noteq> Some 60 \<Longrightarrow> split_loop st prev cur s = split_loop st None cur s"
proof -
  assume "prev \<noteq> Some 60"
  then have "operatorWidth prev r t = operatorWidth None r t" for r t by (rule operatorWidth_prev)
  then show ?thesis by (cases s) (simp_all only: split_loop.simps)
qed

lemma split_junction:
  assumes "breaker c"
  shows "\<exists>segs cur' prev'. (\<forall>t. split_loop st prev cur (a @ c # t) = segs @ split_loop (quotes st a) prev' cur' (c # t)) \<and>
    split_loop st prev cur a = segs @ (if cur' = [] then [] else [cur'])"
proof (induction st prev cur a rule: split_loop.induct)
  case (1 st prev cur)
  show ?case by (intro exI [of _ "[]"] exI [of _ cur] exI [of _ prev]) simp
next
  case outer: (2 st prev cur r a)
  obtain st' q where tog: "toggleQuote st r = (st', q)" by force
  let ?w = "operatorWidth prev r a"
  have w: "operatorWidth prev r (a @ c # t) = ?w" for t by (rule operatorWidth_breaker [OF assms])
  consider "q" | "\<not> q" "\<not> inQuotes st" "?w > 0" | "\<not> q" "inQuotes st \<or> ?w = 0" by auto
  then show ?case
  proof cases
    case 1
    then have tog': "toggleQuote st r = (st', True)" using tog by simp
    from outer(1) [OF refl tog [symmetric] refl 1] show ?thesis
      by (simp add: split_step(1) [OF tog'] tog')
  next
    case 2
    then have tog': "toggleQuote st r = (st, False)" using not_toggled [of st r] tog by simp
    have drop: "drop (?w - 1) (a @ c # t) = drop (?w - 1) a @ c # t" for t
      using operatorWidth_two [of prev r a] by (cases "?w > 1"; cases a) auto
    have same: "quotes st (drop (?w - 1) a) = quotes st a"
    proof (cases "?w > 1")
      case two: True
      with operatorWidth_two [OF two] obtain x a' where "a = x # a'" "x \<in> {38, 124}" "?w = 2" by (cases a) auto
      then show ?thesis by auto
    qed simp
    from outer(2) [OF refl tog [symmetric] refl 2(1)] 2(2,3) obtain segs cur' prev'
      where ih: "\<And>t. split_loop st (Some r) [] (drop (?w - 1) a @ c # t) = segs @ split_loop (quotes st a) prev' cur' (c # t)"
        "split_loop st (Some r) [] (drop (?w - 1) a) = segs @ (if cur' = [] then [] else [cur'])" unfolding same by blast
    have "split_loop st prev cur (r # a @ c # t) = cur # split_loop st (Some r) [] (drop (?w - 1) a @ c # t)" for t
      using split_step(2) [OF tog' 2(2), of prev "a @ c # t" cur] 2(3) unfolding w drop by blast
    then show ?thesis
      using split_step(2) [OF tog' 2(2,3)] ih by (intro exI [of _ "cur # segs"] exI [of _ cur'] exI [of _ prev']) (simp add: tog')
  next
    case 3
    then have tog': "toggleQuote st r = (st, False)" using not_toggled [of st r] tog by simp
    from outer(3) [OF refl tog [symmetric] refl 3(1)] 3(2)
    have "\<exists>segs cur' prev'. (\<forall>t. split_loop st (Some r) (cur @ [r]) (a @ c # t) = segs @ split_loop (quotes st a) prev' cur' (c # t)) \<and>
      split_loop st (Some r) (cur @ [r]) a = segs @ (if cur' = [] then [] else [cur'])"
      by (auto dest: not_toggled simp: tog')
    then show ?thesis
      using split_step(3) [OF tog', of prev _ cur] 3(2) by (simp add: w tog')
  qed
qed

lemma bare_prev: "prev \<noteq> Some 60 \<Longrightarrow> bare_loop st prev s = bare_loop st None s"
  by (cases s) (simp_all add: Let_def)

lemma bare_junction:
  assumes "breaker c"
  shows "\<exists>prev'. \<forall>t. bare_loop st prev (a @ c # t) =
    (case bare_loop st prev a of Some x \<Rightarrow> Some x | None \<Rightarrow> bare_loop (quotes st a) prev' (c # t))"
proof (induction st prev a rule: bare_loop.induct)
  case (1 st prev)
  show ?case by (intro exI [of _ prev]) simp
next
  case outer: (2 st prev r a)
  obtain st' q where tog: "toggleQuote st r = (st', q)" by force
  have s: "starts_with {60, 40} (a @ c # t) = starts_with {60, 40} a" for t
    by (rule starts_breaker [OF assms]) auto
  show ?case
  proof (cases q)
    case True
    with outer(1) [OF refl tog [symmetric] True] tog True show ?thesis by (simp cong: option.case_cong)
  next
    case False
    have tog': "toggleQuote st r = (st, False)" using not_toggled [of st r] tog False by simp
    show ?thesis
    proof (cases "inQuotes st \<or> r \<noteq> 60 \<or> starts_with {60, 40} a \<or> prev = Some 60")
      case True
      with outer(2) [OF refl tog [symmetric] False True] tog' show ?thesis by (simp add: s cong: option.case_cong)
    qed (simp add: tog' s)
  qed
qed

section \<open>Chains\<close>

text \<open>Leading and trailing spaces of a segment are trimmed.\<close>

lemma split_leading: "work (split_loop st prev (32 # cur) s) = work (split_loop st prev cur s)"
proof (induction st prev cur s rule: split_loop.induct)
  case (1 st prev cur)
  show ?case by (simp add: TrimSpace_Cons) (simp add: TrimSpace_def)
next
  case outer: (2 st prev cur r s)
  obtain st' q where tog: "toggleQuote st r = (st', q)" by force
  note ih = outer(1) [OF refl tog [symmetric] refl] outer(2,3) [OF refl tog [symmetric] refl]
  show ?case
    using ih by (auto simp: split_loop.simps(2) tog Let_def TrimSpace_Cons)
qed

definition sequence_ops :: "ustr list" where
  "sequence_ops = [[59], [10]] @ map lit ['' ; '', '' && '', '' || '', '' | '', '' & '']"

lemma sequence_op_cases:
  assumes "op \<in> set sequence_ops"
  obtains c where "c \<in> {59, 10}" "op = [c]" | c where "c \<in> {59, 124, 38}" "op = [32, c, 32]"
    | c where "c \<in> {124, 38}" "op = [32, c, c, 32]"
  using assms by (auto simp: sequence_ops_def)

lemma op_facts:
  assumes "op \<in> set sequence_ops"
  shows "balanced op" "\<exists>c x. op = c # x \<and> breaker c"
  using assms by (auto simp: balanced_def breaker_def elim!: sequence_op_cases)

lemma op_splits:
  assumes "op \<in> set sequence_ops"
  shows "work (split_loop closed prev cur (op @ t)) = work [cur] @ work (split_loop closed None [] t)"
proof -
  have nxt: "work (split_loop closed (Some x) [] (32 # t)) = work (split_loop closed None [] t)" for x
    using split_leading [of closed "Some 32" "[]" t] split_prev [of "Some 32"]
    by (simp add: split_loop.simps(2) operatorWidth_def)
  have trim: "TrimSpace (cur @ [32]) = TrimSpace cur" by (simp add: TrimSpace_snoc)
  have prv: "split_loop closed (Some x) [] t = split_loop closed None [] t" if "x \<noteq> 60" for x
    using that by (intro split_prev) simp
  show ?thesis
    using assms
  proof (cases rule: sequence_op_cases)
    case (1 c)
    then show ?thesis using prv [of c] by (auto simp: split_loop.simps(2) operatorWidth_def)
  next
    case (2 c)
    then show ?thesis
      by (auto simp: split_loop.simps(2) [of _ _ _ 32 "c # _"] split_loop.simps(2) [of _ _ _ c] operatorWidth_def starts_with_def trim nxt)
  next
    case (3 c)
    then show ?thesis
      by (auto simp: split_loop.simps(2) [of _ _ _ 32 "c # _"] split_loop.simps(2) [of _ _ _ c] operatorWidth_def starts_with_def trim nxt)
  qed
qed

lemma op_bare:
  assumes "op \<in> set sequence_ops"
  shows "bare_loop closed prev (op @ t) = bare_loop closed None t"
  using assms bare_prev [of "Some 32" closed t] bare_prev [of "Some 59" closed t] bare_prev [of "Some 10" closed t]
  by (auto elim!: sequence_op_cases)

lemma bare_tier_eq: "bare_tier s = (if detectBareRedirection s = None then T0 else T4)"
proof -
  have "bare_loop st prev s = Some t \<Longrightarrow> fst t = T4" for st prev t
    by (induction st prev s rule: bare_loop.induct) (auto simp: Let_def split: prod.splits if_splits)
  then show ?thesis by (auto simp: bare_tier_def detectBareRedirection_def split: option.split)
qed

lemma sequence_two:
  assumes "op \<in> set sequence_ops" and "balanced a" and "TrimSpace a \<noteq> []" and "TrimSpace b \<noteq> []"
  shows "fst (ClassifyBash (a @ op @ b)) = max (fst (ClassifyBash a)) (fst (ClassifyBash b))"
proof -
  from op_facts(2) [OF assms(1)] obtain c x where op: "op = c # x" "breaker c" by blast
  have st: "quotes closed a = closed" using assms(2) by (simp add: balanced_def)
  from split_junction [OF op(2), of closed None "[]" a] obtain segs cur prev where
    seg: "\<And>t. split_loop closed None [] (a @ c # t) = segs @ split_loop closed prev cur (c # t)"
    "split_loop closed None [] a = segs @ (if cur = [] then [] else [cur])" unfolding st by blast
  have "work (splitPipeline (a @ op @ b)) = work (splitPipeline a) @ work (splitPipeline b)"
    using op_splits [OF assms(1), of prev cur b] by (simp add: splitPipeline_def op(1) seg) (simp add: TrimSpace_def)
  moreover from bare_junction [OF op(2), of closed None a] obtain prev where
    bare: "\<And>t. bare_loop closed None (a @ c # t) =
      (case bare_loop closed None a of Some x \<Rightarrow> Some x | None \<Rightarrow> bare_loop closed prev (c # t))" unfolding st by blast
  then have "detectBareRedirection (a @ op @ b) =
      (case detectBareRedirection a of Some x \<Rightarrow> Some x | None \<Rightarrow> detectBareRedirection b)"
    using op_bare [OF assms(1), of prev b] by (simp add: detectBareRedirection_def op(1) del: bare_loop.simps cong: option.case_cong)
  then have "bare_tier (a @ op @ b) = max (bare_tier a) (bare_tier b)"
    by (cases "detectBareRedirection a"; cases "detectBareRedirection b") (simp_all add: bare_tier_eq)
  ultimately show ?thesis
    using TrimSpace_append [OF assms(3)] assms(3,4) by (simp add: ClassifyBash_tier ac_simps del: trim_by_Nil)
qed

text \<open>Commands joined by operators, from left to right.\<close>

definition chain :: "ustr \<Rightarrow> (ustr \<times> ustr) list \<Rightarrow> ustr" where
  "chain c rest = foldl (\<lambda>s (op, d). s @ op @ d) c rest"

definition whole_command :: "ustr \<Rightarrow> bool" where
  "whole_command c \<longleftrightarrow> TrimSpace c \<noteq> [] \<and> balanced c"

lemma chain_snoc: "chain c (rest @ [(op, d)]) = chain c rest @ op @ d"
  by (simp add: chain_def)


end
