(* ===== verification/Guard_Gaps.thy ===== *)
theory Guard_Gaps
  imports Guard_Sequence
begin

text \<open>
  What the classifier does with a simple command made of plain words, and the commands whose tier it
  understates.
\<close>

section \<open>Plain words\<close>

text \<open>No quote, white space, operator, redirection or substitution.\<close>

definition plain_rune :: "rune \<Rightarrow> bool" where
  "plain_rune r \<longleftrightarrow> r \<notin> {34, 36, 38, 39, 59, 60, 62, 96, 124} \<and> \<not> is_space r"

definition plain_word :: "ustr \<Rightarrow> bool" where
  "plain_word w \<longleftrightarrow> w \<noteq> [] \<and> list_all plain_rune w"

fun words :: "ustr list \<Rightarrow> ustr" where
  "words [] = []"
| "words [w] = w"
| "words (w # v # ws) = w @ 32 # words (v # ws)"

definition plain_text :: "ustr \<Rightarrow> bool" where
  "plain_text s \<longleftrightarrow> list_all (\<lambda>r. plain_rune r \<or> r = 32) s"

lemma plain_text_simps [simp]:
  "plain_text []" "plain_text (r # s) \<longleftrightarrow> (plain_rune r \<or> r = 32) \<and> plain_text s" "plain_text (s @ t) \<longleftrightarrow> plain_text s \<and> plain_text t"
  by (simp_all add: plain_text_def)

lemma plain_word_text: "plain_word w \<Longrightarrow> plain_text w"
  by (auto simp: plain_word_def plain_text_def list_all_iff)

lemma plain_words: "\<forall>w \<in> set ws. plain_word w \<Longrightarrow> plain_text (words ws)"
  by (induction ws rule: words.induct) (auto dest: plain_word_text)

lemma newline_space: "is_space 10" by (simp add: is_space_def)

lemma plain_safe:
  assumes "plain_rune r \<or> r = 32"
  shows "toggleQuote st r = (st, False)" "operatorWidth prev r s = 0" "r \<noteq> 36" "r \<noteq> 96" "r \<noteq> 60" "r \<noteq> 62"
proof -
  have "r \<notin> {34, 36, 38, 39, 59, 60, 62, 96, 124, 10}" using assms newline_space by (auto simp: plain_rune_def)
  then show "toggleQuote st r = (st, False)" "operatorWidth prev r s = 0" "r \<noteq> 36" "r \<noteq> 96" "r \<noteq> 60" "r \<noteq> 62"
    by (auto simp: operatorWidth_def)
qed

lemma split_plain: "plain_text s \<Longrightarrow> split_loop closed prev cur (s @ t) = split_loop closed (if s = [] then prev else Some (last s)) (cur @ s) t"
  by (induction s arbitrary: prev cur) (simp_all add: split_loop.simps(2) plain_safe)

lemma bare_plain: "plain_text s \<Longrightarrow> bare_loop closed prev (s @ t) = bare_loop closed (if s = [] then prev else Some (last s)) t"
  by (induction s arbitrary: prev) (simp_all add: plain_safe)

lemma special_plain: "plain_text s \<Longrightarrow> special_loop closed found (s @ t) = special_loop closed found t"
  by (induction s arbitrary: found) (simp_all add: plain_safe)

lemma token_plain: "list_all plain_rune w \<Longrightarrow> token_loop closed cur (w @ t) = token_loop closed (cur @ w) t"
proof (induction w arbitrary: cur)
  case (Cons r w)
  then have "toggleQuote closed r = (closed, False)" "\<not> is_space r"
    using plain_safe(1) [of r closed] by (simp_all add: plain_rune_def)
  with Cons show ?case by simp
qed simp

lemma tokenize_words: "\<forall>w \<in> set ws. plain_word w \<Longrightarrow> tokenize (words ws) = ws"
proof -
  have open_ended: "token_loop closed cur [] = [cur]" if "cur \<noteq> []" for cur using that by simp
  have "\<forall>w \<in> set ws. plain_word w \<Longrightarrow> token_loop closed [] (words ws) = ws"
  proof (induction ws rule: words.induct)
    case (2 w)
    then show ?case using token_plain [of w "[]" "[]"] by (simp add: plain_word_def)
  next
    case (3 w v ws)
    then show ?case
      using token_plain [of w "[]" "32 # words (v # ws)"] by (simp add: plain_word_def closed_def)
  qed simp
  then show "\<forall>w \<in> set ws. plain_word w \<Longrightarrow> tokenize (words ws) = ws" by (simp add: tokenize_def)
qed

lemma TrimSpace_ends: "s \<noteq> [] \<Longrightarrow> \<not> is_space (hd s) \<Longrightarrow> \<not> is_space (last s) \<Longrightarrow> TrimSpace s = s"
proof -
  assume s: "s \<noteq> []" "\<not> is_space (hd s)" "\<not> is_space (last s)"
  have "dropWhile is_space t = t" if "t \<noteq> []" "\<not> is_space (hd t)" for t using that by (cases t) simp_all
  with s show ?thesis by (simp add: TrimSpace_def trim_by_def hd_rev)
qed

lemma TrimSpace_tail:
  assumes "x \<noteq> []" and "\<not> is_space (hd x)" and "\<not> is_space c"
  shows "\<exists>q. prefix q p \<and> TrimSpace (x @ c # p) = x @ c # q"
proof -
  let ?q = "rev (dropWhile is_space (rev p))"
  have "dropWhile is_space (rev p @ c # rev x) = dropWhile is_space (rev p) @ c # rev x"
    using assms(3) by (induction p rule: rev_induct) auto
  moreover have "dropWhile is_space (x @ c # p) = x @ c # p" using assms by (cases x) simp_all
  ultimately have "TrimSpace (x @ c # p) = x @ c # ?q" by (simp add: TrimSpace_def trim_by_def)
  moreover have "prefix ?q p"
    using suffix_dropWhile [of is_space "rev p"] by (simp add: suffix_to_prefix)
  ultimately show ?thesis by blast
qed

lemma words_ends:
  assumes "ws \<noteq> []" and "\<forall>w \<in> set ws. plain_word w"
  shows "words ws \<noteq> []" "hd (words ws) = hd (hd ws)" "last (words ws) = last (last ws)"
proof -
  have "words ws \<noteq> [] \<and> hd (words ws) = hd (hd ws) \<and> last (words ws) = last (last ws)"
    using assms by (induction ws rule: words.induct) (auto simp: plain_word_def)
  then show "words ws \<noteq> []" "hd (words ws) = hd (hd ws)" "last (words ws) = last (last ws)" by simp_all
qed

lemma plain_word_ends: "plain_word w \<Longrightarrow> \<not> is_space (hd w) \<and> \<not> is_space (last w)"
  by (auto simp: plain_word_def list_all_iff plain_rune_def)

lemma TrimSpace_words: "ws \<noteq> [] \<Longrightarrow> \<forall>w \<in> set ws. plain_word w \<Longrightarrow> TrimSpace (words ws) = words ws"
  using words_ends [of ws] plain_word_ends by (intro TrimSpace_ends) auto

text \<open>A plain command is one segment; its tier is that of its words.\<close>

definition word_result :: "ustr list \<Rightarrow> classified" where
  "word_result ws =
     (let cmdName = firstNonEnvToken ws in
      if cmdName = [] then (T7, lit ''no command after env assignments'')
      else (case classifyWrapperBlocklist ws cmdName of
              Some t \<Rightarrow> t | None \<Rightarrow> dispatchCommand (normalizeCmdName cmdName) ws))"

lemma classifySimple_words:
  "detectShellSpecial s = None \<Longrightarrow> tokenize s = ws \<Longrightarrow> ws \<noteq> [] \<Longrightarrow> classifySimple s = word_result ws"
  by (simp add: classifySimple_def word_result_def)

lemma plain_command:
  assumes "ws \<noteq> []" and "\<forall>w \<in> set ws. plain_word w"
  shows "fst (ClassifyBash (words ws)) = fst (word_result ws)"
proof -
  note plain = plain_words [OF assms(2)]
  have ne: "words ws \<noteq> []" using words_ends [OF assms] by simp
  have "splitPipeline (words ws) = [words ws]"
    using split_plain [OF plain, of None "[]" "[]"] ne by (simp add: splitPipeline_def)
  moreover have "detectBareRedirection (words ws) = None"
    using bare_plain [OF plain, of None "[]"] by (simp add: detectBareRedirection_def)
  moreover have "detectShellSpecial (words ws) = None"
    using special_plain [OF plain, of None "[]"] by (simp add: detectShellSpecial_def)
  then have "classifySimple (words ws) = word_result ws"
    using assms(1) tokenize_words [OF assms(2)] by (intro classifySimple_words)
  ultimately show ?thesis
    using TrimSpace_words [OF assms] ne by (simp add: ClassifyBash_tier bare_tier_def del: trim_by_Nil)
qed

text \<open>A first word that is not an assignment, no wrapper and has no slash is looked up as it is.\<close>

definition no_wrapper :: "ustr \<Rightarrow> bool" where
  "no_wrapper n \<longleftrightarrow> n \<notin> set (map lit [''sudo'', ''eval'', ''exec'', ''bash'', ''sh'', ''python'', ''python3'', ''node'', ''deno'',
     ''xargs'', ''git''])"

lemma no_wrapper_block: "no_wrapper n \<Longrightarrow> classifyWrapperBlocklist ws n = None"
  by (simp add: no_wrapper_def classifyWrapperBlocklist_def classifyWrapperSingle_def classifyWrapperFlag_def
      classifyWrapperXargs_def classifyWrapperGit_def among_def first_of_def)

lemma Base_name: "n \<noteq> [] \<Longrightarrow> 47 \<notin> set n \<Longrightarrow> Base n = n"
proof -
  assume n: "n \<noteq> []" "47 \<notin> set n"
  then have "dropWhile (\<lambda>c. c = 47) (rev n) = rev n" by (cases "rev n") auto
  moreover have "takeWhile (\<lambda>c. c \<noteq> 47) (rev n) = rev n" using n(2) by (auto simp: takeWhile_eq_all_conv)
  then have "after_slash n = n" by (simp only: after_slash_def rev_rev_ident)
  ultimately show ?thesis using n(1) by (simp add: Base_def)
qed

lemma Base_in: "n \<noteq> [] \<Longrightarrow> 47 \<notin> set n \<Longrightarrow> Base (d @ 47 # n) = n"
proof -
  assume n: "n \<noteq> []" "47 \<notin> set n"
  then have "dropWhile (\<lambda>c. c = 47) (rev n @ 47 # rev d) = rev n @ 47 # rev d" by (cases "rev n") auto
  moreover have "takeWhile (\<lambda>c. c \<noteq> 47) (rev n @ 47 # rev d) = rev n" using n(2) by (auto simp: takeWhile_append)
  ultimately show ?thesis using n(1) by (simp add: Base_def after_slash_def)
qed

lemma head_result:
  assumes "n \<noteq> []" and "61 \<notin> set n" and "47 \<notin> set n" and "hd n \<noteq> 92" and "no_wrapper n"
  shows "word_result (n # ws) = dispatchCommand n (n # ws)"
proof -
  have "\<not> prefix [92] n" using assms(1,4) by (cases n) auto
  then show ?thesis
    using assms by (simp add: word_result_def firstNonEnvToken_def no_wrapper_block normalizeCmdName_def Base_name)
qed

lemma lit_eq: "lit a = lit b \<longleftrightarrow> a = b"
  by (rule inj_map_eq_map) (simp add: inj_def)

lemma map_of_named: "map_of (named ns t @ rest) (lit n) = (if n \<in> set ns then Some t else map_of rest (lit n))"
  by (induction ns) (simp_all add: named_def lit_eq)

lemma map_of_named_last: "map_of (named ns t) (lit n) = (if n \<in> set ns then Some t else None)"
  using map_of_named [of ns t "[]" n] by simp

lemma tier_of:
  "map_of simpleTiers (lit ''echo'') = Some (T0, lit ''read-only command'')"
  "map_of simpleTiers (lit ''env'') = Some (T0, lit ''read-only command'')"
  "map_of simpleTiers (lit ''rm'') = Some (T5, lit ''file deletion'')"
  "map_of simpleTiers (lit ''ssh'') = Some (T6, lit ''remote operation'')"
  "map_of simpleTiers (lit ''python3'') = Some (T2, lit ''local script execution'')"
  "n \<in> set (map lit [''npm'', ''yarn'', ''pnpm'', ''bun'']) \<Longrightarrow> map_of simpleTiers n = None"
proof -
  have "\<forall>n \<in> set [''npm'', ''yarn'', ''pnpm'', ''bun'']. map_of simpleTiers (lit n) = None"
    by (simp add: simpleTiers_def map_of_named map_of_named_last del: list.map map_of_append)
  then show "n \<in> set (map lit [''npm'', ''yarn'', ''pnpm'', ''bun'']) \<Longrightarrow> map_of simpleTiers n = None" by auto
qed (simp_all add: simpleTiers_def map_of_named map_of_named_last del: list.map map_of_append)

section \<open>A quote that is not one\<close>

lemma double_open:
  assumes "34 \<notin> set p" and "\<not> sublist [36, 40] p" and "st = \<lparr>inSingle = False, inDouble = True\<rparr>"
  shows "split_loop st prev cur p = split_loop st prev (cur @ p) []" "bare_loop st prev p = None"
    "special_loop st found p = found" "token_loop st cur p = token_loop st (cur @ p) []"
proof -
  have tog: "toggleQuote st r = (st, False)" if "r \<noteq> 34" for r
    using that assms(3) by (simp add: toggleQuote_def)
  have inq: "inQuotes st" "inDouble st" using assms(3) by (simp_all add: inQuotes_def)
  have tl: "\<not> sublist [36, 40] s" if "\<not> sublist [36, 40] (r # s)" for r s
    using that by (simp add: sublist_Cons_right)
  have dollar: "r = 36 \<Longrightarrow> \<not> starts_with {40} s" if "\<not> sublist [36, 40] (r # s)" for r s
    using that by (cases s) (auto simp: starts_with_def sublist_Cons_right)
  show "split_loop st prev cur p = split_loop st prev (cur @ p) []"
    using assms(1) by (induction p arbitrary: prev cur) (simp_all add: split_loop.simps(2) tog inq)
  show "bare_loop st prev p = None"
    using assms(1) by (induction p arbitrary: prev) (simp_all add: tog inq)
  show "special_loop st found p = found"
    using assms(1,2)
  proof (induction p arbitrary: found)
    case (Cons r p)
    then show ?case using tl [of r p] dollar [of r p] by (auto simp: tog inq)
  qed simp
  show "token_loop st cur p = token_loop st (cur @ p) []"
    using assms(1) by (induction p arbitrary: cur) (simp_all add: tog inq)
qed

text \<open>A backslash does not escape a quote for the classifier: after \<open>echo\<close> and an escaped double quote,
  which the shell prints, everything up to the end of the command counts as quoted text, and any
  command there (\<open>; rm -rf /\<close>, a pipe into a shell, a redirection to an absolute path) leaves the whole
  at tier 0, unless it holds a double quote or starts a substitution.\<close>

theorem bash_escape_hides:
  assumes "34 \<notin> set p" and "\<not> sublist [36, 40] p"
  shows "ClassifyBash (lit ''echo '' @ [92, 34] @ p) = (T0, lit ''read-only command'')"
proof -
  let ?st = "\<lparr>inSingle = False, inDouble = True\<rparr>" and ?pre = "lit ''echo '' @ [92]"
  have st: "toggleQuote closed 34 = (?st, True)" by (simp add: toggleQuote_def closed_def)
  obtain q where q: "prefix q p" and trim: "TrimSpace (?pre @ 34 # p) = ?pre @ 34 # q"
    using TrimSpace_tail [of ?pre 34 p] by (auto simp: is_space_def)
  have q': "34 \<notin> set q" "\<not> sublist [36, 40] q"
    using assms q by (auto dest: set_mono_prefix prefix_imp_sublist intro: sublist_order.order_trans)
  have pre: "plain_text ?pre" "list_all plain_rune (lit ''echo'')"
    by (simp_all add: plain_text_def plain_rune_def is_space_def)
  have "splitPipeline (?pre @ 34 # p) = [?pre @ 34 # p]"
    unfolding splitPipeline_def split_plain [OF pre(1)] split_step(1) [OF st] double_open(1) [OF assms refl] by simp
  moreover have "detectBareRedirection (?pre @ 34 # p) = None"
    unfolding detectBareRedirection_def bare_plain [OF pre(1)] by (simp add: st double_open(2) [OF assms refl])
  moreover have "detectShellSpecial (?pre @ 34 # q) = None"
    unfolding detectShellSpecial_def special_plain [OF pre(1)] by (simp add: st double_open(3) [OF q' refl])
  moreover have "tokenize (?pre @ 34 # q) = [lit ''echo'', 92 # q]"
  proof -
    have "?pre @ 34 # q = lit ''echo'' @ 32 # 92 # 34 # q" by simp
    moreover have "token_loop closed [] (32 # 92 # 34 # q) = [92 # q]" if "cur = []" for cur :: ustr
      by (simp add: st double_open(4) [OF q' refl] closed_def toggleQuote_def is_space_def)
    moreover have "token_loop closed (lit ''echo'') (32 # 92 # 34 # q) = [lit ''echo'', 92 # q]"
      using double_open(4) [OF q' refl, of "[92]"] by (simp add: closed_def toggleQuote_def is_space_def)
    ultimately show ?thesis
      unfolding tokenize_def using token_plain [OF pre(2), of "[]" "32 # 92 # 34 # q"] by simp
  qed
  moreover have "word_result [lit ''echo'', 92 # q] = (T0, lit ''read-only command'')"
    using tier_of(1) by (simp add: head_result no_wrapper_def dispatchCommand_def)
  then have "classifySimple (TrimSpace (?pre @ 34 # p)) = (T0, lit ''read-only command'')"
    unfolding trim using calculation by (subst classifySimple_words) auto
  moreover have "TrimSpace (?pre @ 34 # p) \<noteq> []" unfolding trim by simp
  ultimately have "ClassifyBash (?pre @ 34 # p) = (T0, lit ''read-only command'')"
    by (simp add: ClassifyBash_def raise_to_def del: map_append list.map trim_by_Nil)
  then show ?thesis by simp
qed

section \<open>Tiers that are too low\<close>

lemma head_tier:
  assumes "map_of simpleTiers n = Some t" and "61 \<notin> set n" and "47 \<notin> set n" and "no_wrapper n"
    and "plain_word n" and "hd n \<noteq> 92" and "\<forall>w \<in> set ws. plain_word w"
  shows "fst (ClassifyBash (words (n # ws))) = fst t"
proof -
  have "n \<noteq> []" using assms(5) by (simp add: plain_word_def)
  then show ?thesis
    using assms by (simp add: plain_command head_result dispatchCommand_def)
qed

lemma plain_lits:
  "w \<in> set (map lit [''ssh'', ''rm'', ''publish'', ''python3'', ''-c'', ''env'', ''npm'', ''yarn'', ''pnpm'', ''bun'']) \<Longrightarrow> plain_word w"
proof -
  have "\<forall>w \<in> set (map lit [''ssh'', ''rm'', ''publish'', ''python3'', ''-c'', ''env'', ''npm'', ''yarn'', ''pnpm'', ''bun'']). plain_word w"
    by (simp add: plain_word_def plain_rune_def is_space_def)
  then show "w \<in> set (map lit [''ssh'', ''rm'', ''publish'', ''python3'', ''-c'', ''env'', ''npm'', ''yarn'', ''pnpm'', ''bun'']) \<Longrightarrow> plain_word w"
    by blast
qed

lemma npm_tiers:
  "fst (classifyNPM (pm # lit ''publish'' # ws)) = T6"
  "pm \<in> set (map lit [''npm'', ''yarn'', ''pnpm'', ''bun'']) \<Longrightarrow> fst (classifyNPM (x # pm # ws)) = T1"
  by (auto simp: classifyNPM_def among_def)

lemma package_manager:
  assumes "pm \<in> set (map lit [''npm'', ''yarn'', ''pnpm'', ''bun''])"
  shows "word_result (pm # ws) = classifyNPM (pm # ws)"
proof -
  have "dispatchers pm = Some (\<lambda>tokens _. classifyNPM tokens)" using assms by (auto simp: dispatchers_def among_def)
  moreover have "pm \<noteq> []" "61 \<notin> set pm" "47 \<notin> set pm" "hd pm \<noteq> 92" "no_wrapper pm"
    using assms by (auto simp: no_wrapper_def)
  ultimately show ?thesis
    by (simp add: head_result dispatchCommand_def tier_of(6) [OF assms])
qed

lemma package_manager_after:
  assumes "pm \<in> set (map lit [''npm'', ''yarn'', ''pnpm'', ''bun''])" and "61 \<in> set x"
  shows "word_result (x # pm # ws) = classifyNPM (x # pm # ws)"
proof -
  have "dispatchers pm = Some (\<lambda>tokens _. classifyNPM tokens)" using assms by (auto simp: dispatchers_def among_def)
  moreover have "pm \<noteq> []" "61 \<notin> set pm" "Base pm = pm" "\<not> prefix [92] pm" "no_wrapper pm"
    using assms(1) Base_name by (auto simp: no_wrapper_def)
  ultimately show ?thesis
    using assms(2) by (simp add: word_result_def firstNonEnvToken_def no_wrapper_block normalizeCmdName_def dispatchCommand_def
        tier_of(6) [OF assms(1)])
qed

lemma in_directory_result:
  assumes "n \<noteq> []" and "47 \<notin> set n" and "61 \<notin> set n" and "61 \<notin> set d"
  shows "word_result ((d @ 47 # n) # ws) = dispatchCommand n ((d @ 47 # n) # ws)"
proof -
  have "no_wrapper m" if "47 \<in> set m" for m using that by (auto simp: no_wrapper_def)
  then have "no_wrapper (d @ 47 # n)" by simp
  moreover have "normalizeCmdName (d @ 47 # n) = n"
    using Base_in [OF assms(1,2), of "[]"] Base_in [OF assms(1,2), of d] Base_in [OF assms(1,2), of "tl d"]
    by (cases d) (auto simp: normalizeCmdName_def Cons_prefix_Cons)
  ultimately show ?thesis
    using assms by (simp add: word_result_def firstNonEnvToken_def no_wrapper_block)
qed

lemma append_redirect:
  assumes "ws \<noteq> []" and "\<forall>w \<in> set ws. plain_word w" and "plain_word f" and "hd f \<noteq> 47"
  shows "fst (ClassifyBash (words ws @ lit '' >> '' @ f)) = T4"
proof -
  let ?s = "words ws @ lit '' >> '' @ f"
  note plain = plain_words [OF assms(2)] and out = plain_word_text [OF assms(3)]
  from assms(3,4) obtain c f' where f: "f = c # f'" "c \<noteq> 47" "plain_rune c" by (cases f) (auto simp: plain_word_def)
  then have c: "c \<noteq> 32" "c \<noteq> 9" by (auto simp: plain_rune_def is_space_def)
  have gt: "toggleQuote closed 62 = (closed, False)" "operatorWidth prev 62 t = 0" for prev t
    by (simp_all add: operatorWidth_def)
  have trim: "TrimSpace ?s = ?s"
    using words_ends [OF assms(1,2)] plain_word_ends [OF assms(3)] plain_word_ends [of "hd ws"] assms(1,2) f(1)
    by (intro TrimSpace_ends) auto
  have "splitPipeline ?s = [?s]"
    using split_plain [OF plain] split_plain [OF out, of _ _ "[]"] f(1)
    by (simp add: splitPipeline_def split_loop.simps(2) gt plain_safe(1,2) [of 32])
  moreover have "detectBareRedirection ?s = None"
    using bare_plain [OF plain] bare_plain [OF out, of _ "[]"] by (simp add: detectBareRedirection_def)
  moreover have "detectShellSpecial ?s = Some (T4, lit ''shell-special: append redirect (>>)'')"
    using special_plain [OF plain] special_plain [OF out, of _ "[]"] f(2) c
    by (simp add: detectShellSpecial_def starts_with_def bump_def bump_opt_def f(1))
  ultimately show ?thesis
    using trim f(1) by (simp add: ClassifyBash_tier bare_tier_def classifySimple_def del: trim_by_Nil map_append list.map)
qed

text \<open>Four spellings lower the tier of a command whatever its other arguments are.  Appending its output to a
  relative file makes any command tier 4, so a deletion or a remote shell is no longer one that would
  be denied.  An assignment in front shifts the subcommand, so publishing a package is tier 1 instead
  of 6.  A path in front of an interpreter skips the wrapper check, so \<open>python3 -c\<close> is tier 2 instead of
  6.  A command run through \<open>env\<close> is tier 0.\<close>

theorem bash_tier_understated:
  assumes "\<forall>w \<in> set args. plain_word w" and "plain_word f" and "hd f \<noteq> 47"
    and "plain_word x" and "61 \<in> set x" and "pm \<in> set (map lit [''npm'', ''yarn'', ''pnpm'', ''bun''])"
    and "list_all plain_rune d" and "61 \<notin> set d" and "plain_word cmd"
  shows "(fst (ClassifyBash (words (lit ''ssh'' # args))) = T6 \<and> fst (ClassifyBash (words (lit ''rm'' # args))) = T5 \<and>
      fst (ClassifyBash (words (cmd # args) @ lit '' >> '' @ f)) = T4) \<and>
    (fst (ClassifyBash (words (pm # lit ''publish'' # args))) = T6 \<and>
      fst (ClassifyBash (words (x # pm # lit ''publish'' # args))) = T1) \<and>
    (fst (ClassifyBash (words (lit ''python3'' # lit ''-c'' # args))) = T6 \<and>
      fst (ClassifyBash (words ((d @ 47 # lit ''python3'') # lit ''-c'' # args))) = T2) \<and>
    fst (ClassifyBash (words (lit ''env'' # cmd # args))) = T0"
proof -
  have pm: "plain_word pm" using assms(6) by (intro plain_lits) auto
  have name: "plain_word (d @ 47 # lit ''python3'')"
    using assms(7) by (simp add: plain_word_def plain_rune_def is_space_def)
  have ssh: "fst (ClassifyBash (words (lit ''ssh'' # args))) = T6"
    using head_tier [OF tier_of(4) _ _ _ plain_lits _ assms(1)] by (simp add: no_wrapper_def)
  have rm: "fst (ClassifyBash (words (lit ''rm'' # args))) = T5"
    using head_tier [OF tier_of(3) _ _ _ plain_lits _ assms(1)] by (simp add: no_wrapper_def)
  have "\<forall>w \<in> set (cmd # args). plain_word w" using assms(1,9) by simp
  from head_tier [OF tier_of(2) _ _ _ plain_lits _ this] have env: "fst (ClassifyBash (words (lit ''env'' # cmd # args))) = T0"
    by (simp add: no_wrapper_def)
  have out: "fst (ClassifyBash (words (cmd # args) @ lit '' >> '' @ f)) = T4"
    using assms(1-3,9) by (intro append_redirect) auto
  have pub: "\<forall>w \<in> set (pm # lit ''publish'' # args). plain_word w" "\<forall>w \<in> set (x # pm # lit ''publish'' # args). plain_word w"
    using assms(1,4) pm plain_lits [of "lit ''publish''"] by simp_all
  have publish: "fst (ClassifyBash (words (pm # lit ''publish'' # args))) = T6"
    unfolding plain_command [OF list.distinct(2) pub(1)] package_manager [OF assms(6)] by (rule npm_tiers)
  have shifted: "fst (ClassifyBash (words (x # pm # lit ''publish'' # args))) = T1"
    unfolding plain_command [OF list.distinct(2) pub(2)] package_manager_after [OF assms(6,5)] by (rule npm_tiers) (rule assms(6))
  have py: "\<forall>w \<in> set (lit ''python3'' # lit ''-c'' # args). plain_word w"
    "\<forall>w \<in> set ((d @ 47 # lit ''python3'') # lit ''-c'' # args). plain_word w"
    using assms(1) name plain_lits [of "lit ''python3''"] plain_lits [of "lit ''-c''"] by simp_all
  have "word_result (lit ''python3'' # lit ''-c'' # args) = (T6, lit ''wrapper: python3 -c executes arbitrary python string'')"
    by (simp add: word_result_def firstNonEnvToken_def classifyWrapperBlocklist_def classifyWrapperSingle_def
        classifyWrapperFlag_def among_def hasFlag_def first_of_def)
  then have python: "fst (ClassifyBash (words (lit ''python3'' # lit ''-c'' # args))) = T6"
    by (simp only: plain_command [OF list.distinct(2) py(1)] fst_conv)
  have "word_result ((d @ 47 # lit ''python3'') # lit ''-c'' # args) = (T2, lit ''local script execution'')"
    using in_directory_result [of "lit ''python3''" d "lit ''-c'' # args"] assms(8) tier_of(5)
    by (simp add: dispatchCommand_def)
  then have path: "fst (ClassifyBash (words ((d @ 47 # lit ''python3'') # lit ''-c'' # args))) = T2"
    by (simp only: plain_command [OF list.distinct(2) py(2)] fst_conv)
  from ssh rm out publish shifted python path env show ?thesis by blast
qed

end
