(* ===== verification/Guard_Inside.thy ===== *)
theory Guard_Inside
  imports Guard_Path
begin

text \<open>
  The string tests of the file check mean what they should on paths as lists of components: cleaning,
  following the deepest existing prefix, and the prefix test.
\<close>

section \<open>Components\<close>

definition valid_comp :: "ustr \<Rightarrow> bool" where
  "valid_comp c \<longleftrightarrow> c \<noteq> [] \<and> 47 \<notin> set c \<and> c \<noteq> [46] \<and> c \<noteq> [46, 46]"

definition path_of :: "ustr list \<Rightarrow> ustr" where
  "path_of cs = 47 # join_slash cs"

lemma split_slash_Nil [simp]: "split_slash s \<noteq> []"
  by (induction s) (auto split: list.split)

lemma split_slash_parts: "c \<in> set (split_slash s) \<Longrightarrow> 47 \<notin> set c"
proof (induction s arbitrary: c)
  case (Cons x s)
  then show ?case by (cases "split_slash s") (auto split: if_splits)
qed simp

lemma split_slash_append: "split_slash (a @ 47 # b) = split_slash a @ split_slash b"
proof (induction a)
  case (Cons c a)
  then show ?case by (cases "split_slash a") (simp_all split: list.split)
qed simp

lemma split_slash_part: "47 \<notin> set c \<Longrightarrow> split_slash c = [c]"
  by (induction c) auto

lemma join_slash_snoc: "cs \<noteq> [] \<Longrightarrow> join_slash (cs @ [c]) = join_slash cs @ 47 # c"
  by (induction cs rule: join_slash.induct) (auto simp: neq_Nil_conv)

lemma split_join: "cs \<noteq> [] \<Longrightarrow> \<forall>c \<in> set cs. 47 \<notin> set c \<Longrightarrow> split_slash (join_slash cs) = cs"
  by (induction cs rule: join_slash.induct) (auto simp: split_slash_part split_slash_append)

lemma valid_no_slash: "list_all valid_comp cs \<Longrightarrow> \<forall>c \<in> set cs. 47 \<notin> set c"
  by (auto simp: list_all_iff valid_comp_def)

lemma split_path: "list_all valid_comp cs \<Longrightarrow> split_slash (path_of cs) = [] # (if cs = [] then [[]] else cs)"
  by (simp add: path_of_def split_join valid_no_slash)

section \<open>Cleaning\<close>

lemma clean_step_valid:
  assumes "list_all valid_comp out" and "47 \<notin> set c"
  shows "list_all valid_comp (clean_step True out c)"
proof -
  have "list_all valid_comp (butlast out)" using assms(1) by (auto simp: list_all_iff dest: in_set_butlastD)
  then show ?thesis using assms by (auto simp: clean_step_def valid_comp_def)
qed

lemma clean_steps_valid: "list_all valid_comp out \<Longrightarrow> \<forall>c \<in> set cs. 47 \<notin> set c \<Longrightarrow> list_all valid_comp (foldl (clean_step True) out cs)"
  by (induction cs arbitrary: out) (simp_all add: clean_step_valid)

lemma clean_comps_valid: "list_all valid_comp (clean_comps True p)"
  unfolding clean_comps_def by (rule clean_steps_valid) (simp_all add: split_slash_parts)

lemma clean_steps_plain: "list_all valid_comp cs \<Longrightarrow> foldl (clean_step rooted) out cs = out @ cs"
  by (induction cs arbitrary: out) (simp_all add: clean_step_def valid_comp_def)

lemma clean_step_skip [simp]: "clean_step rooted out [] = out"
  by (simp add: clean_step_def)

lemma clean_comps_append: "clean_comps r (a @ 47 # b) = foldl (clean_step r) (clean_comps r a) (split_slash b)"
  by (simp add: clean_comps_def split_slash_append)

lemma clean_comps_path: "list_all valid_comp cs \<Longrightarrow> clean_comps True (path_of cs) = cs"
  by (simp add: clean_comps_def split_path clean_steps_plain)

lemma IsAbs_path [simp]: "IsAbs (path_of cs)" "IsAbs (47 # p)"
  by (simp_all add: IsAbs_def path_of_def)

lemma Clean_abs: "IsAbs p \<Longrightarrow> Clean p = path_of (clean_comps True p)"
  by (simp add: Clean_def path_of_def)

lemma Clean_path: "list_all valid_comp cs \<Longrightarrow> Clean (path_of cs) = path_of cs"
  by (simp add: Clean_abs clean_comps_path)

lemma IsAbs_append: "IsAbs p \<Longrightarrow> IsAbs (p @ q)"
  by (simp add: IsAbs_def)

lemma Join_path: "list_all valid_comp cs \<Longrightarrow> valid_comp c \<Longrightarrow> Join (path_of cs) c = path_of (cs @ [c])"
  by (simp add: Join_def Clean_abs IsAbs_append clean_comps_append clean_comps_path valid_comp_def split_slash_part clean_step_def)
    (simp add: path_of_def)

lemma Joins_path: "list_all valid_comp (cs @ ds) \<Longrightarrow> foldl Join (path_of cs) ds = path_of (cs @ ds)"
  by (induction ds arbitrary: cs) (simp_all add: Join_path)

lemma path_of_snoc: "path_of (cs @ [c]) = (if cs = [] then [47] else path_of cs @ [47]) @ c"
  by (simp add: path_of_def join_slash_snoc)

lemma Dir_path: "list_all valid_comp (cs @ [c]) \<Longrightarrow> Dir (path_of (cs @ [c])) = path_of cs"
proof -
  assume v: "list_all valid_comp (cs @ [c])"
  then have c: "\<forall>x \<in> set (rev c). x \<noteq> 47" by (auto simp: valid_comp_def)
  have drop: "rev (dropWhile (\<lambda>c. c \<noteq> 47) (rev (p @ 47 # c))) = p @ [47]" for p
    using c by (simp add: dropWhile_append)
  have slash: "Clean (path_of cs @ [47]) = path_of cs"
    using v clean_comps_append [of True "path_of cs" "[]"] by (simp add: Clean_abs IsAbs_append clean_comps_path)
  have root: "Clean [47] = path_of []"
    using Clean_path [of "[]"] by (simp add: path_of_def)
  show ?thesis
    using drop [of "[]"] drop [of "path_of cs"] slash root by (auto simp: Dir_def path_of_snoc)
qed

lemma Dir_root: "Dir (path_of []) = path_of []"
  using Clean_path [of "[]"] by (simp add: Dir_def path_of_def)

lemma Base_path: "valid_comp c \<Longrightarrow> Base (path_of (cs @ [c])) = c"
proof -
  assume c: "valid_comp c"
  then have r: "rev c \<noteq> []" "\<forall>x \<in> set (rev c). x \<noteq> 47" by (auto simp: valid_comp_def)
  have "dropWhile (\<lambda>x. x = 47) (rev c @ q) = rev c @ q" for q using r by (cases "rev c") auto
  moreover have "takeWhile (\<lambda>x. x \<noteq> 47) (rev c @ 47 # q) = rev c" for q using r(2) by (simp add: takeWhile_append)
  ultimately have "Base (p @ 47 # c) = c" for p using r(1) by (simp add: Base_def after_slash_def)
  from this [of "[]"] this [of "path_of cs"] show ?thesis by (simp add: path_of_snoc)
qed

section \<open>Following links\<close>

text \<open>The deepest existing prefix is resolved, the rest kept.\<close>

fun real_rev :: "(ustr \<Rightarrow> ustr option) \<Rightarrow> ustr list \<Rightarrow> ustr list" where
  "real_rev eval rcs =
     (case eval (path_of (rev rcs)) of
        Some r \<Rightarrow> clean_comps True r
      | None \<Rightarrow> (case rcs of [] \<Rightarrow> [] | c # rcs' \<Rightarrow> real_rev eval rcs' @ [c]))"

declare real_rev.simps [simp del]

definition real_path :: "(ustr \<Rightarrow> ustr option) \<Rightarrow> ustr list \<Rightarrow> ustr list" where
  "real_path eval cs = real_rev eval (rev cs)"

text \<open>\<open>EvalSymlinks\<close> answers with a clean absolute path.\<close>

definition cleans :: "(ustr \<Rightarrow> ustr option) \<Rightarrow> bool" where
  "cleans eval \<longleftrightarrow> (\<forall>cs r. eval (path_of cs) = Some r \<longrightarrow> (\<exists>ds. list_all valid_comp ds \<and> r = path_of ds))"

lemma real_path_Some: "cleans eval \<Longrightarrow> eval (path_of cs) = Some r \<Longrightarrow> path_of (real_path eval cs) = r"
proof -
  assume "cleans eval" and r: "eval (path_of cs) = Some r"
  then obtain ds where "list_all valid_comp ds" "r = path_of ds" by (auto simp: cleans_def)
  with r show ?thesis by (simp add: real_path_def real_rev.simps clean_comps_path)
qed

lemma real_path_snoc: "eval (path_of (cs @ [c])) = None \<Longrightarrow> real_path eval (cs @ [c]) = real_path eval cs @ [c]"
  by (simp add: real_path_def real_rev.simps [of eval "c # rev cs"])

lemma real_path_valid: "list_all valid_comp cs \<Longrightarrow> list_all valid_comp (real_path eval cs)"
proof (induction cs rule: rev_induct)
  case Nil
  show ?case by (simp add: real_path_def real_rev.simps clean_comps_valid split: option.split)
next
  case (snoc c cs)
  then show ?case
    by (simp add: real_path_def real_rev.simps [of eval "c # rev cs"] clean_comps_valid split: option.split)
qed

lemma walk_up_path:
  assumes "cleans eval" and "list_all valid_comp cs" and "length cs \<le> n" and "eval (path_of cs) = None"
    and "list_all valid_comp ds"
  shows "(case walk_up n eval (path_of cs) ds of Some q \<Rightarrow> q | None \<Rightarrow> path_of (cs @ ds)) = path_of (real_path eval cs @ ds)"
  using assms(2-)
proof (induction n arbitrary: cs ds)
  case 0
  then show ?case by (simp add: real_path_def real_rev.simps)
next
  case (Suc n)
  show ?case
  proof (cases cs rule: rev_cases)
    case Nil
    then show ?thesis using Suc.prems(3) by (simp add: Let_def Dir_root real_path_def real_rev.simps)
  next
    case (snoc cs' c)
    with Suc.prems have v: "list_all valid_comp (cs' @ [c])" "list_all valid_comp cs'" "valid_comp c" by simp_all
    have moved: "path_of cs' \<noteq> path_of cs"
      using clean_comps_path [OF v(1)] clean_comps_path [OF v(2)] snoc by (metis append_self_conv list.distinct(1))
    have real: "real_path eval cs = real_path eval cs' @ [c]"
      using real_path_snoc [of eval cs' c] Suc.prems(3) snoc by simp
    have rest: "cs @ ds = cs' @ c # ds" using snoc by simp
    have dir: "Dir (path_of cs) = path_of cs'" "Base (path_of cs) = c"
      using Dir_path [OF v(1)] Base_path [OF v(3)] snoc by simp_all
    show ?thesis
    proof (cases "eval (path_of cs')")
      case None
      have "list_all valid_comp (c # ds)" "length cs' \<le> n" using v Suc.prems snoc by simp_all
      from Suc.IH [OF v(2) this(2) None this(1)] show ?thesis
        unfolding rest using None moved by (simp add: Let_def dir real)
    next
      case (Some r)
      have "r = path_of (real_path eval cs')" by (rule real_path_Some [OF assms(1) Some, symmetric])
      moreover have val: "list_all valid_comp (real_path eval cs' @ c # ds)" using real_path_valid [OF v(2)] v Suc.prems by simp
      ultimately have "Clean (foldl Join r (c # ds)) = path_of (real_path eval cs @ ds)"
        unfolding real by (simp only: Joins_path Clean_path append_assoc append.simps)
      then show ?thesis using Some moved by (simp add: Let_def dir)
    qed
  qed
qed

lemma resolve_path:
  assumes "cleans eval" and "list_all valid_comp cs" and "length cs \<le> 4096"
  shows "resolveExistingPrefix eval (path_of cs) = path_of (real_path eval cs)"
proof (cases "eval (path_of cs)")
  case None
  have "(case walk_up 4096 eval (path_of cs) [] of Some q \<Rightarrow> q | None \<Rightarrow> path_of (cs @ [])) = path_of (real_path eval cs @ [])"
    by (rule walk_up_path [OF assms(1-3) None]) simp
  then show ?thesis
    using None by (simp add: resolveExistingPrefix_def Clean_path [OF assms(2)] cong: option.case_cong)
next
  case (Some r)
  then show ?thesis by (simp add: resolveExistingPrefix_def real_path_Some [OF assms(1)])
qed

lemma prefix_paths:
  assumes "list_all valid_comp a" and "list_all valid_comp b"
  shows "in_directory (path_of a) (path_of b) \<longleftrightarrow> a = b \<or> a \<noteq> [] \<and> prefix a b"
proof -
  have same: "path_of b = path_of a \<longleftrightarrow> a = b"
    using clean_comps_path [OF assms(1)] clean_comps_path [OF assms(2)] by metis
  have "prefix (path_of a @ [47]) (path_of b) \<longleftrightarrow> a \<noteq> [] \<and> strict_prefix a b"
  proof
    assume "prefix (path_of a @ [47]) (path_of b)"
    then obtain t where "path_of b = path_of a @ 47 # t" by (auto simp: prefix_def)
    then have "split_slash (path_of b) = split_slash (path_of a) @ split_slash t" by (simp add: split_slash_append)
    then have eq: "(if b = [] then [[]] else b) = (if a = [] then [[]] else a) @ split_slash t"
      using assms by (simp add: split_path)
    have "[] \<notin> set b" using assms(2) by (auto simp: list_all_iff valid_comp_def)
    with eq show "a \<noteq> [] \<and> strict_prefix a b"
      using split_slash_Nil [of t] by (auto simp: strict_prefix_def Cons_eq_append_conv split: if_splits)
  next
    assume "a \<noteq> [] \<and> strict_prefix a b"
    then obtain c cs where b: "b = a @ c # cs" and a: "a \<noteq> []" by (auto elim: strict_prefixE')
    have "join_slash (a @ c # cs) = join_slash a @ 47 # join_slash (c # cs)"
      using a by (induction a rule: join_slash.induct) auto
    then show "prefix (path_of a @ [47]) (path_of b)" by (simp add: path_of_def b)
  qed
  then show ?thesis using same by (auto simp: in_directory_def strict_prefix_def)
qed

text \<open>C32. The file check decides containment of paths as lists of components: for an absolute working
  directory and a file name without control characters or a leading tilde, a file is an in-repository
  edit exactly when its components, with \<open>..\<close> resolved and the links of its deepest existing prefix
  followed, extend those of the working directory; every other file is tier 5.  So no spelling with
  dots, doubled slashes, a sibling directory with the same prefix, or a link out of the repository
  passes.  The exception is the root directory, where only the root itself counts as inside.\<close>

theorem file_check_is_containment:
  assumes "cleans eval" and "IsAbs cwd" and "\<forall>c \<in> set f. c \<notin> {0, 10, 13}" and "\<not> prefix [126] f"
    and "cs = clean_comps True (if IsAbs f then f else cwd @ 47 # f)" and "length cs \<le> 4096"
    and "length (clean_comps True cwd) \<le> 4096"
  shows "fst (classifyFilePath quote eval f cwd m) =
    (let root = real_path eval (clean_comps True cwd); target = real_path eval cs in
     if target = root \<or> root \<noteq> [] \<and> prefix root target then T1 else T5)"
proof -
  have "Clean (if \<not> IsAbs f then Join cwd f else f) = path_of cs"
  proof (cases "IsAbs f")
    case False
    with assms(2,5) have "Join cwd f = path_of cs"
      by (auto simp: Join_def Clean_abs IsAbs_append) (auto simp: IsAbs_def)
    with False assms(5) show ?thesis by (simp add: Clean_path clean_comps_valid)
  qed (simp add: Clean_abs assms(5))
  moreover have "Clean cwd = path_of (clean_comps True cwd)" using assms(2) by (rule Clean_abs)
  moreover have v: "list_all valid_comp cs" "list_all valid_comp (clean_comps True cwd)"
    by (simp_all add: assms(5) clean_comps_valid)
  moreover have "\<not> (\<exists>c \<in> set f. c \<in> {0, 13, 10})" using assms(3) by auto
  ultimately show ?thesis
    using assms(4) prefix_paths [OF real_path_valid [OF v(2)] real_path_valid [OF v(1)], of eval eval]
    by (auto simp: classifyFilePath_def Let_def resolve_path [OF assms(1) v(1) assms(6)] resolve_path [OF assms(1) v(2) assms(7)])
qed

end
