(* ===== verification/Guard_Hook.thy ===== *)
theory Guard_Hook
  imports Guard_Classifier Redact Gtd_Model
begin

text \<open>
  The guard's hook: the matchers of \<open>internal/guard/matcher.go\<close>, the bypasses of \<open>bypass.go\<close> and
  \<open>store.go\<close>, their flags in \<open>internal/cli/guard.go\<close>, and the event \<open>cmd/wbt-guard\<close> records for a tool
  call.

  A tool's input is what \<open>encoding/json\<close> decodes it to for each shape the code asks for, with the text of
  the error (\<open>Inl\<close>) where it does not decode.  A reason cut inside a code point is no text: \<open>None\<close>.
\<close>

section \<open>Matchers\<close>

record tool_input =
  ti_command :: "ustr + ustr"
  ti_file_path :: "ustr + ustr"
  ti_edits :: "ustr + ustr list"
  ti_task :: "ustr + (ustr \<times> ustr)"    \<comment> \<open>sub-agent type and prompt\<close>
  ti_jsonb :: bool                      \<comment> \<open>Postgres accepts the redacted input as \<open>jsonb\<close>\<close>

record match_result =
  mr_tier :: RiskTier
  mr_reason :: "ustr option"
  mr_matcher :: ustr

definition result_of :: "classified \<Rightarrow> ustr \<Rightarrow> match_result" where
  "result_of t m = \<lparr>mr_tier = fst t, mr_reason = Some (snd t), mr_matcher = m\<rparr>"

definition safeToolAllowlist :: "ustr list" where
  "safeToolAllowlist = map lit [''Read'', ''Glob'', ''Grep'', ''WebSearch'', ''WebFetch'', ''NotebookRead'', ''BashOutput'',
     ''KillShell'', ''ListMcpResources'']"

definition destructiveVerbFragments :: "ustr list" where
  "destructiveVerbFragments = map lit [''delete_'', ''revoke_'', ''force_'', ''drop_'', ''_destroy'', ''destroy_'', ''clear_'', ''reset_'']"

definition mutationVerbFragments :: "ustr list" where
  "mutationVerbFragments = map lit [''add_'', ''create_'', ''confirm_'', ''set_'', ''update_'', ''complete_'']"

definition classifyMCPTool :: "ustr \<Rightarrow> match_result" where
  "classifyMCPTool toolName =
     (case List.find (\<lambda>frag. sublist frag toolName) destructiveVerbFragments of
        Some frag \<Rightarrow> result_of (T5, lit ''mcp tool with destructive verb ('' @ frag @ lit ''): '' @ toolName) (lit ''mcp'')
      | None \<Rightarrow>
          (case List.find (\<lambda>frag. sublist frag toolName) mutationVerbFragments of
             Some frag \<Rightarrow> result_of (T2, lit ''mcp tool with mutation verb ('' @ frag @ lit ''): '' @ toolName) (lit ''mcp'')
           | None \<Rightarrow> result_of (T3, lit ''mcp tool with unclassified verb: '' @ toolName) (lit ''mcp'')))"

definition matchUnknownTool :: "ustr \<Rightarrow> match_result" where
  "matchUnknownTool toolName =
     (if toolName \<in> set safeToolAllowlist then result_of (T0, lit ''safe tool: '' @ toolName) (lit ''allowlist'')
      else if prefix (lit ''mcp__'') toolName then classifyMCPTool toolName
      else result_of (T5, lit ''default-deny: unrecognised tool: '' @ toolName) (lit ''unknown''))"

definition matchBash :: "tool_input \<Rightarrow> match_result" where
  "matchBash inp =
     (case ti_command inp of
        Inl err \<Rightarrow> result_of (T7, lit ''bash: malformed input: '' @ err) (lit ''bash'')
      | Inr command \<Rightarrow> result_of (ClassifyBash command) (lit ''bash''))"

definition matchFileOp :: "(ustr \<Rightarrow> ustr) \<Rightarrow> (ustr \<Rightarrow> ustr option) \<Rightarrow> tool_input \<Rightarrow> ustr \<Rightarrow> ustr \<Rightarrow> match_result" where
  "matchFileOp quote eval inp cwd matcherName =
     (case ti_file_path inp of
        Inl err \<Rightarrow> result_of (T7, matcherName @ lit '': malformed input: '' @ err) (ToLower matcherName)
      | Inr fp \<Rightarrow>
          if fp = [] then result_of (T7, matcherName @ lit '': empty file_path'') (ToLower matcherName)
          else result_of (classifyFilePath quote eval fp cwd matcherName) (ToLower matcherName))"

fun edits_loop :: "(ustr \<Rightarrow> classified) \<Rightarrow> ustr list \<Rightarrow> classified \<Rightarrow> classified" where
  "edits_loop classify [] m = m"
| "edits_loop classify (fp # fps) m =
     (if fp = [] then edits_loop classify fps m else edits_loop classify fps (raise_to (classify fp) m))"

definition matchMultiEdit :: "(ustr \<Rightarrow> ustr) \<Rightarrow> (ustr \<Rightarrow> ustr option) \<Rightarrow> tool_input \<Rightarrow> ustr \<Rightarrow> match_result" where
  "matchMultiEdit quote eval inp cwd =
     (case ti_edits inp of
        Inl err \<Rightarrow> result_of (T7, lit ''multiedit: malformed input: '' @ err) (lit ''multiedit'')
      | Inr fps \<Rightarrow>
          result_of (edits_loop (\<lambda>fp. classifyFilePath quote eval fp cwd (lit ''MultiEdit'')) fps
            (T0, lit ''multiedit: in-repo edit'')) (lit ''multiedit''))"

text \<open>\<open>preview[:80]\<close> counts bytes.\<close>

fun cut_bytes :: "nat \<Rightarrow> ustr \<Rightarrow> ustr option" where
  "cut_bytes n [] = Some []"
| "cut_bytes n (r # s) =
     (if n = 0 then Some []
      else if utf8_len r \<le> n then map_option ((#) r) (cut_bytes (n - utf8_len r) s) else None)"

definition matchTask :: "(ustr \<Rightarrow> ustr) \<Rightarrow> tool_input \<Rightarrow> match_result" where
  "matchTask quote inp =
     (case ti_task inp of
        Inl _ \<Rightarrow> result_of (T4, lit ''task: malformed input (still flagged as sub-agent)'') (lit ''task'')
      | Inr (subagent, prompt) \<Rightarrow>
          (let reason = lit ''task sub-agent dispatch: type='' @ quote subagent;
               preview = (if byte_len prompt > 80 then map_option (\<lambda>p. p @ lit ''...'') (cut_bytes 80 prompt) else Some prompt)
           in \<lparr>mr_tier = T4,
               mr_reason = (if byte_len prompt > 0 then map_option (\<lambda>p. reason @ lit '' prompt='' @ p) preview else Some reason),
               mr_matcher = lit ''task''\<rparr>))"

definition MatchTool :: "(ustr \<Rightarrow> ustr) \<Rightarrow> (ustr \<Rightarrow> ustr option) \<Rightarrow> ustr \<Rightarrow> tool_input \<Rightarrow> ustr \<Rightarrow> match_result" where
  "MatchTool quote eval toolName inp cwd =
     (if toolName = lit ''Bash'' then matchBash inp
      else if toolName = lit ''Edit'' then matchFileOp quote eval inp cwd (lit ''Edit'')
      else if toolName = lit ''Write'' then matchFileOp quote eval inp cwd (lit ''Write'')
      else if toolName = lit ''MultiEdit'' then matchMultiEdit quote eval inp cwd
      else if toolName = lit ''Task'' then matchTask quote inp
      else matchUnknownTool toolName)"

section \<open>Bypasses\<close>

record guard_bypass =
  bp_id :: uuid
  bp_created :: instant
  bp_expires :: "instant option"
  bp_scope :: ustr
  bp_target :: ustr
  bp_tool :: "ustr option"
  bp_reason :: ustr
  bp_by :: "ustr option"

record guard_event =
  ge_id :: uuid
  ge_created :: instant
  ge_session :: "ustr option"
  ge_tool :: ustr
  ge_cwd :: "ustr option"
  ge_repo :: "ustr option"
  ge_tier :: RiskTier
  ge_reason :: ustr
  ge_deny :: bool
  ge_matcher :: ustr
  ge_bypass :: "uuid option"

record guard_db =
  bypasses :: "guard_bypass list"
  guard_events :: "guard_event list"

datatype guard_error =
    GuardNoPool
  | GuardEmptyReason
  | GuardDatabase
  | GuardNotFound
  | GuardFlag string

text \<open>\<open>up\<close> tells whether the pool could be opened, \<open>fault\<close> whether the statement fails.\<close>

definition live_bypass :: "instant \<Rightarrow> guard_bypass \<Rightarrow> bool" where
  "live_bypass now b \<longleftrightarrow> (case bp_expires b of None \<Rightarrow> True | Some e \<Rightarrow> e > now)"

definition FindBypass :: "bool \<Rightarrow> bool \<Rightarrow> instant \<Rightarrow> ustr \<Rightarrow> ustr \<Rightarrow> ustr \<Rightarrow> guard_db \<Rightarrow> guard_bypass option" where
  "FindBypass up fault now scope target toolName s =
     (if \<not> up \<or> fault then None
      else first_row (\<lambda>b. live_bypass now b \<and> bp_scope b = scope \<and> bp_target b = target \<and>
             (bp_tool b = None \<or> bp_tool b = Some toolName)) (bypasses s))"

definition AddBypass :: "bool \<Rightarrow> bool \<Rightarrow> instant \<Rightarrow> uuid \<Rightarrow> ustr \<Rightarrow> ustr \<Rightarrow> ustr option \<Rightarrow> ustr \<Rightarrow> ustr \<Rightarrow> instant option
    \<Rightarrow> guard_db \<Rightarrow> (guard_error + uuid) \<times> guard_db" where
  "AddBypass up fault now nid scope target toolName reason createdBy expiresAt s =
     (if \<not> up then (Inl GuardNoPool, s)
      else if length reason = 0 then (Inl GuardEmptyReason, s)
      else if fault \<or> \<not> among scope [''global'', ''repo'', ''dir'', ''file''] \<or> nid \<in> set (map bp_id (bypasses s))
      then (Inl GuardDatabase, s)
      else (Inr nid, s\<lparr>bypasses := bypasses s @
              [\<lparr>bp_id = nid, bp_created = pg_ts now, bp_expires = map_option pg_ts expiresAt, bp_scope = scope, bp_target = target,
                bp_tool = toolName, bp_reason = reason, bp_by = (if createdBy \<noteq> [] then Some createdBy else None)\<rparr>]\<rparr>))"

definition ListBypasses :: "bool \<Rightarrow> bool \<Rightarrow> instant \<Rightarrow> ustr \<Rightarrow> guard_db \<Rightarrow> guard_error + guard_bypass list" where
  "ListBypasses up fault now scope s =
     (if \<not> up then Inl GuardNoPool
      else if fault then Inl GuardDatabase
      else Inr (sort_key (\<lambda>b. - bp_created b) (filter (\<lambda>b. (scope = [] \<or> bp_scope b = scope) \<and> live_bypass now b) (bypasses s))))"

definition RevokeBypass :: "bool \<Rightarrow> bool \<Rightarrow> uuid \<Rightarrow> guard_db \<Rightarrow> guard_error option \<times> guard_db" where
  "RevokeBypass up fault i s =
     (if \<not> up then (Some GuardNoPool, s)
      else if fault then (Some GuardDatabase, s)
      else if i \<notin> set (map bp_id (bypasses s)) then (Some GuardNotFound, s)
      else (None, s\<lparr>bypasses := filter (\<lambda>b. bp_id b \<noteq> i) (bypasses s)\<rparr>))"

text \<open>Narrowest first; the k-th query may fail.\<close>

definition bypass_candidates :: "ustr \<Rightarrow> ustr \<Rightarrow> (ustr \<times> ustr) list" where
  "bypass_candidates cwd filePath =
     (let absPath = Clean (if \<not> IsAbs filePath then Join cwd filePath else filePath)
      in (if filePath \<noteq> [] then [(lit ''file'', absPath), (lit ''dir'', Dir absPath)] else [(lit ''dir'', cwd)]) @
         [(lit ''repo'', Base cwd), (lit ''global'', lit ''global'')])"

fun find_first :: "(nat \<Rightarrow> ustr \<times> ustr \<Rightarrow> guard_bypass option) \<Rightarrow> nat \<Rightarrow> (ustr \<times> ustr) list \<Rightarrow> guard_bypass option" where
  "find_first look k [] = None"
| "find_first look k (c # cs) = (case look k c of Some b \<Rightarrow> Some b | None \<Rightarrow> find_first look (Suc k) cs)"

definition ResolveBypass :: "bool \<Rightarrow> (nat \<Rightarrow> bool) \<Rightarrow> instant \<Rightarrow> ustr \<Rightarrow> ustr \<Rightarrow> ustr \<Rightarrow> guard_db \<Rightarrow> guard_bypass option" where
  "ResolveBypass up fault now cwd filePath toolName s =
     find_first (\<lambda>k (scope, target). FindBypass up (fault k) now scope target toolName s) 0 (bypass_candidates cwd filePath)"

section \<open>Flags of the command line\<close>

definition IsWhitespacesOnly :: "ustr \<Rightarrow> bool" where
  "IsWhitespacesOnly s \<longleftrightarrow> TrimSpace s = []"

definition ValidateGuardBypassFlags :: "ustr \<Rightarrow> ustr \<Rightarrow> ustr \<Rightarrow> bool \<Rightarrow> guard_error option" where
  "ValidateGuardBypassFlags scope target reason iUnderstandGlobal =
     (if scope = [] then Some (GuardFlag ''scope is required'')
      else if \<not> among scope [''file'', ''dir'', ''repo'', ''global''] then Some (GuardFlag ''scope invalid'')
      else if target = [] then Some (GuardFlag ''target is required'')
      else if IsWhitespacesOnly reason then Some (GuardFlag ''reason is required'')
      else if scope = lit ''global'' then
        (if target \<noteq> lit ''global'' then Some (GuardFlag ''global target'')
         else if \<not> iUnderstandGlobal then Some (GuardFlag ''global confirmation'') else None)
      else if among scope [''dir'', ''file''] then
        (if \<not> IsAbs target then Some (GuardFlag ''absolute target'')
         else if among target [''/'', ''/home'', ''/Users''] then Some (GuardFlag ''too broad'') else None)
      else None)"

definition ansiEscapeRe :: "item list" where
  "ansiEscapeRe = [Lit [27, 91], AtLeast (\<lambda>r. is_digit r \<or> r = 59) 0, Times (\<lambda>r. is_upper r \<or> is_lower r) 1]"

definition sanitizeReason :: "ustr \<Rightarrow> guard_error + ustr" where
  "sanitizeReason r =
     (if length r > 500 then Inl (GuardFlag ''reason too long'')
      else if \<exists>c \<in> set r. c < 32 \<and> c \<noteq> 9 then Inl (GuardFlag ''control character'')
      else (let cleaned = ReplaceAll ansiEscapeRe [] r
            in if TrimSpace cleaned = [] then Inl (GuardFlag ''reason empty'') else Inr cleaned))"

section \<open>The hook\<close>

datatype marker = MarkerAbsent | MarkerMalformed | MarkerConfig bool   \<comment> \<open>observe\<close>

record hook_payload =
  hp_session :: ustr
  hp_tool :: ustr
  hp_input :: tool_input
  hp_cwd :: ustr

text \<open>Postgres refuses a text that is no UTF-8 or holds a NUL, and such a row is dropped with a warning.\<close>

definition pg_text :: "ustr \<Rightarrow> bool" where
  "pg_text s \<longleftrightarrow> 0 \<notin> set s"

definition text_or_null :: "ustr \<Rightarrow> ustr option" where
  "text_or_null s = (if s \<noteq> [] then Some s else None)"

definition WriteEvent :: "bool \<Rightarrow> bool \<Rightarrow> hook_payload \<Rightarrow> match_result \<Rightarrow> guard_event \<Rightarrow> guard_db \<Rightarrow> guard_db" where
  "WriteEvent up fault p m ev s =
     (if \<not> up \<or> fault \<or> \<not> ti_jsonb (hp_input p) \<or> mr_reason m = None \<or>
         \<not> list_all pg_text [hp_session p, hp_tool p, text_of (ge_cwd ev), text_of (ge_repo ev), ge_reason ev, ge_matcher ev]
      then s
      else s\<lparr>guard_events := guard_events s @ [ev]\<rparr>)"

definition hook_bypass_path :: "tool_input \<Rightarrow> ustr" where
  "hook_bypass_path inp = (case ti_file_path inp of Inl _ \<Rightarrow> [] | Inr fp \<Rightarrow> fp)"

definition hook_run :: "(ustr \<Rightarrow> ustr) \<Rightarrow> (ustr \<Rightarrow> ustr option) \<Rightarrow> (ustr \<Rightarrow> marker) \<Rightarrow> ustr \<Rightarrow> bool \<Rightarrow> (nat \<Rightarrow> bool) \<Rightarrow> bool \<Rightarrow> instant
    \<Rightarrow> uuid \<Rightarrow> hook_payload \<Rightarrow> guard_db \<Rightarrow> guard_db" where
  "hook_run quote eval config wd up query_fault insert_fault now nid p s =
     (if hp_tool p = [] then s
      else (let cwd = (if hp_cwd p = [] then wd else hp_cwd p) in
        case config cwd of
          MarkerAbsent \<Rightarrow> s
        | MarkerMalformed \<Rightarrow> s
        | MarkerConfig observe \<Rightarrow>
            if \<not> observe then s
            else (let m = MatchTool quote eval (hp_tool p) (hp_input p) cwd;
                      bypass = ResolveBypass up query_fault now cwd (hook_bypass_path (hp_input p)) (hp_tool p) s;
                      wouldDeny = (mr_tier m \<ge> T5 \<and> bypass = None)
                  in WriteEvent up insert_fault p m
                       \<lparr>ge_id = nid, ge_created = pg_ts now, ge_session = text_or_null (hp_session p), ge_tool = hp_tool p,
                        ge_cwd = text_or_null cwd, ge_repo = text_or_null (RepoNameOrEmpty (Base cwd)), ge_tier = mr_tier m,
                        ge_reason = text_of (mr_reason m), ge_deny = wouldDeny, ge_matcher = mr_matcher m,
                        ge_bypass = map_option bp_id bypass\<rparr> s)))"

end
