(* ===== verification/Guard_Decision.thy ===== *)
theory Guard_Decision
  imports Guard_Hook
begin

text \<open>
  The event the hook records: its tier is the matcher's, it would be denied exactly when the tier is
  high and no live bypass covers the call, and it names the narrowest bypass.
\<close>

definition covers :: "instant \<Rightarrow> ustr \<Rightarrow> ustr \<times> ustr \<Rightarrow> guard_bypass \<Rightarrow> bool" where
  "covers now tool c b \<longleftrightarrow> (bp_scope b, bp_target b) = c \<and> (bp_tool b = None \<or> bp_tool b = Some tool) \<and>
     (\<forall>e. bp_expires b = Some e \<longrightarrow> now < e)"

lemma FindBypass_covers:
  "FindBypass True False now scope target tool s = first_row (covers now tool (scope, target)) (bypasses s)"
  by (auto simp: FindBypass_def covers_def live_bypass_def intro!: arg_cong [of _ _ "\<lambda>P. first_row P _"] split: option.split)

lemma find_first_None: "find_first look k cs = None \<longleftrightarrow> (\<forall>j < length cs. look (k + j) (cs ! j) = None)"
proof (induction cs arbitrary: k)
  case (Cons c cs)
  have "(\<forall>j < length (c # cs). look (k + j) ((c # cs) ! j) = None) \<longleftrightarrow>
      look k c = None \<and> (\<forall>j < length cs. look (Suc k + j) (cs ! j) = None)"
    unfolding All_less_Suc2 length_Cons by simp
  then show ?case by (simp add: Cons.IH split: option.split)
qed simp

lemma find_first_Some:
  "find_first look k cs = Some b \<Longrightarrow>
     \<exists>i < length cs. look (k + i) (cs ! i) = Some b \<and> (\<forall>j < i. look (k + j) (cs ! j) = None)"
proof (induction cs arbitrary: k)
  case (Cons c cs)
  show ?case
  proof (cases "look k c")
    case None
    with Cons obtain i where i: "i < length cs" "look (Suc k + i) (cs ! i) = Some b" "\<forall>j < i. look (Suc k + j) (cs ! j) = None"
      by fastforce
    then have "look (k + j) ((c # cs) ! j) = None" if "j < Suc i" for j
      using that None by (cases j) auto
    with i show ?thesis by (intro exI [of _ "Suc i"]) auto
  qed (use Cons.prems in auto)
qed simp

text \<open>The narrowest covering bypass: one of the first candidate scope that any bypass covers.\<close>

definition narrowest :: "instant \<Rightarrow> ustr \<Rightarrow> (ustr \<times> ustr) list \<Rightarrow> guard_bypass list \<Rightarrow> guard_bypass \<Rightarrow> bool" where
  "narrowest now tool cs bs b \<longleftrightarrow> b \<in> set bs \<and>
     (\<exists>i < length cs. covers now tool (cs ! i) b \<and> (\<forall>j < i. \<forall>b' \<in> set bs. \<not> covers now tool (cs ! j) b'))"

lemma ResolveBypass_spec:
  assumes "\<forall>k. \<not> fault k"
  shows "ResolveBypass True fault now cwd fp tool s = None \<longleftrightarrow>
      (\<forall>c \<in> set (bypass_candidates cwd fp). \<forall>b \<in> set (bypasses s). \<not> covers now tool c b)"
    and "ResolveBypass True fault now cwd fp tool s = Some b \<Longrightarrow> narrowest now tool (bypass_candidates cwd fp) (bypasses s) b"
proof -
  let ?find = "\<lambda>k c. first_row (covers now tool c) (bypasses s)"
  have eq: "ResolveBypass True fault now cwd fp tool s = find_first ?find 0 (bypass_candidates cwd fp)"
    using assms by (simp add: ResolveBypass_def FindBypass_covers case_prod_unfold)
  show "ResolveBypass True fault now cwd fp tool s = None \<longleftrightarrow>
      (\<forall>c \<in> set (bypass_candidates cwd fp). \<forall>b \<in> set (bypasses s). \<not> covers now tool c b)"
    by (simp add: eq find_first_None first_row_None all_set_conv_all_nth)
  show "narrowest now tool (bypass_candidates cwd fp) (bypasses s) b" if "ResolveBypass True fault now cwd fp tool s = Some b"
  proof -
    from find_first_Some [of ?find 0 "bypass_candidates cwd fp" b] that obtain i
      where i: "i < length (bypass_candidates cwd fp)" "first_row (covers now tool (bypass_candidates cwd fp ! i)) (bypasses s) = Some b"
        "\<forall>j < i. first_row (covers now tool (bypass_candidates cwd fp ! j)) (bypasses s) = None" by (auto simp: eq)
    with first_row_Some [OF i(2)] show ?thesis by (auto simp: narrowest_def first_row_None)
  qed
qed

text \<open>What Postgres does not accept as a row of \<open>guard_events\<close>.\<close>

definition storable :: "hook_payload \<Rightarrow> ustr \<Rightarrow> match_result \<Rightarrow> bool" where
  "storable p cwd m \<longleftrightarrow> ti_jsonb (hp_input p) \<and> mr_reason m \<noteq> None \<and>
     (\<forall>t \<in> {hp_session p, hp_tool p, cwd, RepoNameOrEmpty (Base cwd), text_of (mr_reason m), mr_matcher m}. 0 \<notin> set t)"

lemma text_of_or_null [simp]: "text_of (text_or_null t) = t"
  by (simp add: text_or_null_def text_of_def)


text \<open>A sub-agent prompt that has a multi-byte character across its 80th byte makes its event unstorable.\<close>

lemma task_event_lost:
  assumes "hp_tool p = lit ''Task''" and "ti_task (hp_input p) = Inr (agent, prompt)" and "byte_len prompt > 80"
    and "cut_bytes 80 prompt = None"
  shows "hook_run quote eval config wd up query_fault insert_fault now nid p s = s"
proof -
  have "mr_reason (MatchTool quote eval (hp_tool p) (hp_input p) cwd) = None" for cwd
    using assms by (simp add: MatchTool_def matchTask_def)
  then show ?thesis by (simp add: hook_run_def Let_def WriteEvent_def split: marker.split)
qed

end
