(* ===== verification/Guard_Witnesses.thy ===== *)
theory Guard_Witnesses
  imports Guard_Gaps Guard_Inside Guard_Decision
begin


theorem bash_escape_hides_witness:
  "ClassifyBash (lit ''echo '' @ [92, 34] @ lit '' ; rm -rf /'') = (T0, lit ''read-only command'') \<and>
   fst (ClassifyBash (lit ''echo ; rm -rf /'')) = T5"
proof -
  have "34 \<notin> set (lit '' ; rm -rf /'')" "\<not> sublist [36, 40] (lit '' ; rm -rf /'')"
    by (simp_all add: sublist_Cons_right)
  from bash_escape_hides [OF this] have "ClassifyBash (lit ''echo '' @ [92, 34] @ lit '' ; rm -rf /'') = (T0, lit ''read-only command'')" .
  moreover have "fst (ClassifyBash (lit ''echo ; rm -rf /'')) = T5" by code_simp
  ultimately show ?thesis by blast
qed

theorem bash_tier_understated_witness:
  "fst (ClassifyBash (lit ''ssh host'')) = T6 \<and> fst (ClassifyBash (lit ''ssh host >> log'')) = T4 \<and>
   fst (ClassifyBash (lit ''npm publish host'')) = T6 \<and> fst (ClassifyBash (lit ''CI=1 npm publish host'')) = T1 \<and>
   fst (ClassifyBash (lit ''/usr/bin/python3 -c host'')) = T2 \<and> fst (ClassifyBash (lit ''env ssh host'')) = T0"
proof -
  have w: "\<forall>w \<in> set [lit ''host'']. plain_word w" "plain_word (lit ''log'')" "hd (lit ''log'') \<noteq> 47" "plain_word (lit ''CI=1'')"
    "61 \<in> set (lit ''CI=1'')" "lit ''npm'' \<in> set (map lit [''npm'', ''yarn'', ''pnpm'', ''bun''])"
    "list_all plain_rune (lit ''/usr/bin'')" "61 \<notin> set (lit ''/usr/bin'')" "plain_word (lit ''ssh'')"
    by (simp_all add: plain_word_def plain_rune_def is_space_def)
  from bash_tier_understated [OF w] show ?thesis by simp
qed

section \<open>A link out of the repository\<close>

definition ex_link :: "ustr \<Rightarrow> ustr option" where
  "ex_link p = (if p = lit ''/repo/link'' then Some (lit ''/etc'') else None)"

theorem file_check_is_containment_witness:
  "fst (classifyFilePath (\<lambda>s. s) ex_link (lit ''src/../link/passwd'') (lit ''/repo'') (lit ''Edit'')) = T5 \<and>
   fst (classifyFilePath (\<lambda>s. s) ex_link (lit ''src//./new.go'') (lit ''/repo'') (lit ''Edit'')) = T1"
proof -
  have etc: "lit ''/etc'' = path_of [lit ''etc'']" by (simp add: path_of_def)
  have ok: "cleans ex_link"
    unfolding cleans_def ex_link_def etc by (auto simp: valid_comp_def intro!: exI [of _ "[lit ''etc'']"])
  have cwd: "IsAbs (lit ''/repo'')" "clean_comps True (lit ''/repo'') = [lit ''repo'']"
    by (simp_all add: IsAbs_def clean_comps_def clean_step_def)
  have one: "clean_comps True (if IsAbs (lit ''src/../link/passwd'') then lit ''src/../link/passwd''
      else lit ''/repo'' @ 47 # lit ''src/../link/passwd'') = [lit ''repo'', lit ''link'', lit ''passwd'']"
    and two: "clean_comps True (if IsAbs (lit ''src//./new.go'') then lit ''src//./new.go''
      else lit ''/repo'' @ 47 # lit ''src//./new.go'') = [lit ''repo'', lit ''src'', lit ''new.go'']"
    by (simp_all add: IsAbs_def clean_comps_def clean_step_def)
  have real: "real_path ex_link [lit ''repo''] = [lit ''repo'']"
    "real_path ex_link [lit ''repo'', lit ''link'', lit ''passwd''] = [lit ''etc'', lit ''passwd'']"
    "real_path ex_link [lit ''repo'', lit ''src'', lit ''new.go''] = [lit ''repo'', lit ''src'', lit ''new.go'']"
    by (simp_all add: real_path_def real_rev.simps ex_link_def path_of_def clean_comps_def clean_step_def)
  have "fst (classifyFilePath (\<lambda>s. s) ex_link (lit ''src/../link/passwd'') (lit ''/repo'') (lit ''Edit'')) = T5"
    using file_check_is_containment [OF ok cwd(1) _ _ one [symmetric], of "\<lambda>s. s" "lit ''Edit''"] real(1,2) by (simp add: cwd(2) [simplified])
  moreover have "fst (classifyFilePath (\<lambda>s. s) ex_link (lit ''src//./new.go'') (lit ''/repo'') (lit ''Edit'')) = T1"
    using file_check_is_containment [OF ok cwd(1) _ _ two [symmetric], of "\<lambda>s. s" "lit ''Edit''"] real(1,3) by (simp add: cwd(2) [simplified])
  ultimately show ?thesis by blast
qed

section \<open>A tool call with bypasses\<close>

definition ex_bypass :: "uuid \<Rightarrow> ustr \<Rightarrow> ustr \<Rightarrow> instant option \<Rightarrow> guard_bypass" where
  "ex_bypass i scope target expires = \<lparr>bp_id = i, bp_created = 0, bp_expires = expires, bp_scope = scope, bp_target = target,
     bp_tool = None, bp_reason = lit ''r'', bp_by = None\<rparr>"

definition ex_guard :: guard_db where
  "ex_guard = \<lparr>bypasses = [ex_bypass 1 (lit ''global'') (lit ''global'') (Some 5), ex_bypass 2 (lit ''global'') (lit ''global'') None,
     ex_bypass 3 (lit ''repo'') (lit ''repo'') None], guard_events = []\<rparr>"

definition ex_call :: hook_payload where
  "ex_call = \<lparr>hp_session = [], hp_tool = lit ''Bash'', hp_input = \<lparr>ti_command = Inr (lit ''rm x''), ti_file_path = Inr [],
     ti_edits = Inr [], ti_task = Inr ([], []), ti_jsonb = True\<rparr>, hp_cwd = lit ''/w/repo''\<rparr>"


end
