(* ===== verification/Go_Json.thy ===== *)
theory Go_Json
  imports Redact
begin

text \<open>
  The parts of \<open>encoding/json\<close> and \<open>time\<close> the program uses on stored payloads: JSON values, the
  length of what \<open>json.Marshal\<close> writes, the fields \<open>json.Unmarshal\<close> fills in a struct, the form in
  which a Postgres \<open>jsonb\<close> column keeps a value, and \<open>time.Parse(time.RFC3339, \<dots>)\<close>.

  A number is an integer literal (\<open>JvInt\<close>), or a literal with a fraction or an exponent
  (\<open>JvFrac m s\<close>, the value \<open>m / 10 ^ s\<close>).  A text column that should hold JSON holds \<open>NotJson s\<close>
  when \<open>s\<close> does not parse.
\<close>

section \<open>Values\<close>

datatype jvalue =
    JvNull
  | JvBool bool
  | JvInt int
  | JvFrac int int
  | JvStr ustr
  | JvArr "jvalue list"
  | JvObj "(ustr \<times> jvalue) list"

datatype json_text = Json jvalue | NotJson ustr

text \<open>A payload is its length in bytes and what it parses to.\<close>

record payload_text =
  pl_size :: nat
  pl_json :: json_text

section \<open>Writing\<close>

text \<open>
  The bytes of a rune inside a quoted string: the short escapes of the quote, the backslash and five
  control characters, \<open>\u\<close> escapes for the other control characters and the two line separators
  and, unless HTML escaping is off, for the three HTML characters.
\<close>

definition rune_json_len :: "bool \<Rightarrow> rune \<Rightarrow> nat" where
  "rune_json_len escapeHTML r =
     (if r \<in> {34, 92, 8, 9, 10, 12, 13} then 2
      else if r < 32 then 6
      else if escapeHTML \<and> r \<in> {60, 62, 38} then 6
      else if r \<in> {8232, 8233} then 6
      else utf8_len r)"

definition str_json_len :: "bool \<Rightarrow> ustr \<Rightarrow> nat" where
  "str_json_len escapeHTML s = 2 + sum_list (map (rune_json_len escapeHTML) s)"

definition int_json_len :: "int \<Rightarrow> nat" where
  "int_json_len n = (if n < 0 then 1 else 0) + length (decimal (nat \<bar>n\<bar>))"

text \<open>The members of a struct after \<open>omitempty\<close>, separated by commas.\<close>

datatype member_value = MStr ustr | MInt int | MStrs "ustr list"

fun member_json :: "member_value \<Rightarrow> jvalue" where
  "member_json (MStr s) = JvStr s"
| "member_json (MInt n) = JvInt n"
| "member_json (MStrs ss) = JvArr (map JvStr ss)"

fun member_len :: "bool \<Rightarrow> member_value \<Rightarrow> nat" where
  "member_len e (MStr s) = str_json_len e s"
| "member_len e (MInt n) = int_json_len n"
| "member_len e (MStrs ss) = 1 + max 1 (sum_list (map (\<lambda>s. 1 + str_json_len e s) ss))"

fun empty_member :: "member_value \<Rightarrow> bool" where
  "empty_member (MStr s) = (s = [])"
| "empty_member (MInt n) = (n = 0)"
| "empty_member (MStrs ss) = (ss = [])"

record struct_field =
  sf_name :: string
  sf_omitempty :: bool
  sf_value :: member_value

definition kept_fields :: "struct_field list \<Rightarrow> struct_field list" where
  "kept_fields fs = filter (\<lambda>f. \<not> (sf_omitempty f \<and> empty_member (sf_value f))) fs"

definition Marshal :: "bool \<Rightarrow> struct_field list \<Rightarrow> payload_text" where
  "Marshal escapeHTML fs = (let ks = kept_fields fs in
     \<lparr>pl_size = 1 + max 1 (sum_list (map (\<lambda>f. 4 + length (sf_name f) + member_len escapeHTML (sf_value f)) ks)),
      pl_json = Json (JvObj (map (\<lambda>f. (lit (sf_name f), member_json (sf_value f))) ks))\<rparr>)"

section \<open>Reading into a struct\<close>

text \<open>
  A member fills the field its key names, exactly or up to case folding; the fields of one struct
  differ after folding, so the folded comparison decides.  Against the ASCII names of the fields
  folding is upper-casing plus the two code points that fold to an ASCII letter.
\<close>

definition upper_fold :: "rune \<Rightarrow> rune" where
  "upper_fold r = (if 97 \<le> r \<and> r \<le> 122 then r - 32 else if r = 383 then 83 else if r = 8490 then 75 else r)"

definition field_matches :: "string \<Rightarrow> ustr \<Rightarrow> bool" where
  "field_matches name k \<longleftrightarrow> map upper_fold k = map upper_fold (lit name)"

definition field_values :: "string \<Rightarrow> (ustr \<times> jvalue) list \<Rightarrow> jvalue list" where
  "field_values name kvs = map snd (filter (\<lambda>(k, v). field_matches name k) kvs)"

text \<open>
  Each member in turn overwrites the field; \<open>null\<close> leaves it; a value of another type makes the
  whole call fail (\<open>None\<close>).  A null element of a list is the empty text.
\<close>

definition put_string :: "jvalue \<Rightarrow> ustr option \<Rightarrow> ustr option" where
  "put_string v acc = (case v of JvStr s \<Rightarrow> map_option (\<lambda>_. s) acc | JvNull \<Rightarrow> acc | _ \<Rightarrow> None)"

definition string_field :: "string \<Rightarrow> (ustr \<times> jvalue) list \<Rightarrow> ustr option" where
  "string_field name kvs = fold put_string (field_values name kvs) (Some [])"

definition int32_field :: "string \<Rightarrow> (ustr \<times> jvalue) list \<Rightarrow> int option" where
  "int32_field name kvs =
     fold (\<lambda>v acc. case v of
         JvInt n \<Rightarrow> if - (2 ^ 31) \<le> n \<and> n < 2 ^ 31 then map_option (\<lambda>_. n) acc else None
       | JvNull \<Rightarrow> acc
       | _ \<Rightarrow> None) (field_values name kvs) (Some 0)"

definition list_field :: "(ustr \<Rightarrow> 'a option) \<Rightarrow> 'a \<Rightarrow> string \<Rightarrow> (ustr \<times> jvalue) list \<Rightarrow> 'a list option" where
  "list_field elem zero name kvs =
     fold (\<lambda>v acc. case v of
         JvArr xs \<Rightarrow> (case acc of None \<Rightarrow> None
           | Some _ \<Rightarrow> those (map (\<lambda>x. case x of JvStr s \<Rightarrow> elem s | JvNull \<Rightarrow> Some zero | _ \<Rightarrow> None) xs))
       | JvNull \<Rightarrow> map_option (\<lambda>_. []) acc
       | _ \<Rightarrow> None) (field_values name kvs) (Some [])"

definition strings_field :: "string \<Rightarrow> (ustr \<times> jvalue) list \<Rightarrow> ustr list option" where
  "strings_field = list_field Some []"

definition struct_members :: "payload_text \<Rightarrow> (ustr \<times> jvalue) list option" where
  "struct_members p = (case pl_json p of
     Json (JvObj kvs) \<Rightarrow> Some kvs
   | Json JvNull \<Rightarrow> Some []
   | _ \<Rightarrow> None)"

section \<open>The \<open>jsonb\<close> form\<close>

text \<open>
  Objects keep the last value of a repeated key and are ordered by the length of the key, then its
  bytes; an exponent is written out; a text with the code point 0 is refused.
\<close>

fun jsonb_storable :: "jvalue \<Rightarrow> bool" where
  "jsonb_storable (JvStr s) = (0 \<notin> set s)"
| "jsonb_storable (JvArr vs) = list_all jsonb_storable vs"
| "jsonb_storable (JvObj kvs) = list_all (\<lambda>(k, v). 0 \<notin> set k \<and> jsonb_storable v) kvs"
| "jsonb_storable _ = True"

definition last_members :: "(ustr \<times> 'v) list \<Rightarrow> (ustr \<times> 'v) list" where
  "last_members kvs = fold (\<lambda>(k, v) m. AList.update k v m) kvs []"

fun jsonb_norm :: "jvalue \<Rightarrow> jvalue" where
  "jsonb_norm (JvFrac m s) = (if s \<le> 0 then JvInt (m * 10 ^ nat (- s)) else JvFrac m s)"
| "jsonb_norm (JvArr vs) = JvArr (map jsonb_norm vs)"
| "jsonb_norm (JvObj kvs) =
     JvObj (sort_key (\<lambda>(k, v). (byte_len k, k)) (last_members (map (\<lambda>(k, v). (k, jsonb_norm v)) kvs)))"
| "jsonb_norm v = v"

definition jsonb_column :: "payload_text \<Rightarrow> payload_text option" where
  "jsonb_column p = (case pl_json p of
     Json v \<Rightarrow> if jsonb_storable v then Some (p\<lparr>pl_json := Json (jsonb_norm v)\<rparr>) else None
   | NotJson s \<Rightarrow> None)"

section \<open>Instants\<close>

definition digits_value :: "ustr \<Rightarrow> int" where
  "digits_value ds = foldl (\<lambda>n c. 10 * n + (int c - 48)) 0 ds"

text \<open>\<open>getnum\<close>: two digits, or one where the layout does not ask for two.\<close>

definition getnum :: "bool \<Rightarrow> ustr \<Rightarrow> (int \<times> ustr) option" where
  "getnum fixed s = (case s of
     [] \<Rightarrow> None
   | a # s' \<Rightarrow>
       if \<not> is_digit a then None
       else (case s' of
           b # s'' \<Rightarrow> if is_digit b then Some (digits_value [a, b], s'')
                      else if fixed then None else Some (digits_value [a], s')
         | [] \<Rightarrow> if fixed then None else Some (digits_value [a], s')))"

definition skip :: "rune \<Rightarrow> ustr \<Rightarrow> ustr option" where
  "skip c s = (case s of x # s' \<Rightarrow> if x = c then Some s' else None | [] \<Rightarrow> None)"

definition getrange :: "bool \<Rightarrow> int \<Rightarrow> int \<Rightarrow> ustr \<Rightarrow> (int \<times> ustr) option" where
  "getrange fixed lo hi s = (case getnum fixed s of
     Some (n, s') \<Rightarrow> if lo \<le> n \<and> n \<le> hi then Some (n, s') else None
   | None \<Rightarrow> None)"

definition getyear :: "ustr \<Rightarrow> (int \<times> ustr) option" where
  "getyear s = (if length s < 4 \<or> \<not> list_all is_digit (take 4 s) then None
     else Some (digits_value (take 4 s), drop 4 s))"

text \<open>A fraction after the seconds is taken although the layout has none: nine digits count.\<close>

definition getfraction :: "ustr \<Rightarrow> int \<times> ustr" where
  "getfraction s = (case s of
     c # d # _ \<Rightarrow>
       if c \<in> {44, 46} \<and> is_digit d
       then (let ds = takeWhile is_digit (tl s); used = take 9 ds
             in (digits_value used * 10 ^ (9 - length used), drop (length ds) (tl s)))
       else (0, s)
   | _ \<Rightarrow> (0, s))"

text \<open>The zone: \<open>Z\<close> or a signed offset, in seconds; 24 hours and 60 minutes pass.\<close>

definition getzone :: "ustr \<Rightarrow> (int \<times> ustr) option" where
  "getzone s = (case s of
     [] \<Rightarrow> None
   | c # s' \<Rightarrow>
       if c = 90 then Some (0, s')
       else if length s < 6 \<or> s ! 3 \<noteq> 58 then None
       else (case (getrange True 0 24 (take 2 s'), getrange True 0 60 (take 2 (drop 4 s))) of
           (Some (h, _), Some (m, _)) \<Rightarrow>
             let offset = (h * 60 + m) * 60 in
             if c = 43 then Some (offset, drop 6 s) else if c = 45 then Some (- offset, drop 6 s) else None
         | _ \<Rightarrow> None))"

definition leap :: "int \<Rightarrow> bool" where
  "leap y \<longleftrightarrow> y mod 4 = 0 \<and> (y mod 100 \<noteq> 0 \<or> y mod 400 = 0)"

definition days_in :: "int \<Rightarrow> int \<Rightarrow> int" where
  "days_in y m = (if m = 2 then (if leap y then 29 else 28) else if m \<in> {4, 6, 9, 11} then 30 else 31)"

text \<open>Days since 1 January 1970 in the proleptic Gregorian calendar, counting years from March.\<close>

definition civil_day :: "int \<Rightarrow> int \<Rightarrow> int \<Rightarrow> int" where
  "civil_day y m d =
     (let y' = (if m \<le> 2 then y - 1 else y);
          era = y' div 400; yoe = y' mod 400;
          doy = (153 * (if 2 < m then m - 3 else m + 9) + 2) div 5 + d - 1
      in era * 146097 + yoe * 365 + yoe div 4 - yoe div 100 + doy - 719468)"

definition ParseRFC3339 :: "ustr \<Rightarrow> instant option" where
  "ParseRFC3339 s =
     Option.bind (getyear s) (\<lambda>(year, s).
     Option.bind (skip 45 s) (\<lambda>s.
     Option.bind (getrange True 1 12 s) (\<lambda>(month, s).
     Option.bind (skip 45 s) (\<lambda>s.
     Option.bind (getnum True s) (\<lambda>(day, s).
     Option.bind (skip 84 s) (\<lambda>s.
     Option.bind (getrange False 0 23 s) (\<lambda>(hour, s).
     Option.bind (skip 58 s) (\<lambda>s.
     Option.bind (getrange True 0 59 s) (\<lambda>(minute, s).
     Option.bind (skip 58 s) (\<lambda>s.
     Option.bind (getrange True 0 59 s) (\<lambda>(sec, s).
       case getfraction s of (nsec, s) \<Rightarrow>
       Option.bind (getzone s) (\<lambda>(offset, rest).
         if rest \<noteq> [] \<or> day < 1 \<or> days_in year month < day then None
         else Some ((civil_day year month day * 86400 + hour * 3600 + minute * 60 + sec - offset) * 1000000000
                + nsec)))))))))))))"

lemma ParseRFC3339_examples:
  "ParseRFC3339 (lit ''2026-12-31T00:00:00Z'') = Some 1798675200000000000"
  "ParseRFC3339 (lit ''2000-02-29T23:59:59.5+08:00'') = Some 951839999500000000"
  "ParseRFC3339 (lit ''2026-02-29T00:00:00Z'') = None"
  "ParseRFC3339 (lit ''2026-12-31'') = None"
  by code_simp+

section \<open>What a struct writes it reads back\<close>

lemma upper_fold_distinct: "field_matches a (lit b) \<longleftrightarrow> map upper_fold (lit b) = map upper_fold (lit a)"
  by (simp add: field_matches_def)

lemma field_values_Nil [simp]: "field_values name [] = []"
  by (simp add: field_values_def)

lemma field_values_Cons [simp]:
  "field_values name ((k, v) # kvs) = (if field_matches name k then v # field_values name kvs else field_values name kvs)"
  by (simp add: field_values_def)

lemma field_values_append [simp]: "field_values name (xs @ ys) = field_values name xs @ field_values name ys"
  by (simp add: field_values_def)

lemma put_string_simps [simp]:
  "put_string (JvStr s) (Some t) = Some s" "put_string JvNull acc = acc" "put_string v None = None"
  "put_string (JvInt n) acc = None" "put_string (JvArr vs) acc = None" "put_string (JvObj kvs) acc = None"
  "put_string (JvBool b) acc = None" "put_string (JvFrac m e) acc = None"
  by (simp_all add: put_string_def split: jvalue.split)

lemma those_map_Some [simp]: "those (map (\<lambda>x. Some (f x)) xs) = Some (map f xs)"
  by (induction xs) simp_all

lemma struct_members_Marshal [simp]:
  "struct_members (Marshal e fs) = Some (map (\<lambda>f. (lit (sf_name f), member_json (sf_value f))) (kept_fields fs))"
  by (simp add: struct_members_def Marshal_def Let_def)

end
