(* ===== verification/Safe_Text_Facts.thy ===== *)
theory Safe_Text_Facts
  imports Safe_Text
begin

text \<open>
  No boundary marker survives neutralisation, whatever the text and wherever it is clipped, and none
  survives in a key or a value of a JSON document; in a fenced field the fence is the only marker.
\<close>

lemma sublist_split: "b \<notin> set m \<Longrightarrow> sublist m (xs @ b # ys) \<Longrightarrow> sublist m xs \<or> sublist m ys"
proof (induction xs)
  case Nil
  then show ?case by (cases m) (auto simp: sublist_Cons_right)
next
  case (Cons x xs)
  have "prefix m (x # xs) \<or> b \<in> set m" if "prefix m (x # xs @ b # ys)"
  proof -
    from that obtain t where t: "x # xs @ b # ys = m @ t" by (auto simp: prefix_def)
    have "(\<exists>us. x # xs = m @ us) \<or> (\<exists>us. m = (x # xs) @ us \<and> us \<noteq> [] \<and> hd us = b)"
      using t [folded append_Cons] by (auto simp: append_eq_append_conv2 Cons_eq_append_conv)
    then show ?thesis by (auto simp: prefix_def)
  qed
  with Cons show ?case by (auto simp: sublist_Cons_right)
qed

definition plain_marker :: "ustr \<Rightarrow> bool" where
  "plain_marker m \<longleftrightarrow> m \<noteq> [] \<and> 91 \<notin> set m \<and> 93 \<notin> set m \<and> 8230 \<notin> set m \<and> 10 \<notin> set m \<and> (61 \<in> set m \<or> 83 \<in> set m)"

lemma markers_plain: "list_all plain_marker BoundaryMarkers"
  by (simp add: BoundaryMarkers_def plain_marker_def StoredContextMarkerStart_def StoredContextMarkerEnd_def
      ArchSnapshotMarkerStart_def ArchSnapshotMarkerEnd_def StoredDataNotice_def)

lemma marker_plain: "m \<in> set BoundaryMarkers \<Longrightarrow> plain_marker m"
  using markers_plain by (simp add: list_all_iff)

lemma plain_markerD:
  assumes "plain_marker m"
  shows "m \<noteq> []" "91 \<notin> set m" "93 \<notin> set m" "8230 \<notin> set m" "10 \<notin> set m" "61 \<in> set m \<or> 83 \<in> set m"
  using assms by (simp_all add: plain_marker_def)

definition placeholder_inner :: ustr where
  "placeholder_inner = lit ''boundary marker removed''"

lemma placeholder_split: "BoundaryMarkerPlaceholder = 91 # placeholder_inner @ [93]"
  by (simp add: BoundaryMarkerPlaceholder_def placeholder_inner_def)

lemma placeholder_free: "plain_marker m \<Longrightarrow> \<not> sublist m placeholder_inner"
proof
  assume "plain_marker m" "sublist m placeholder_inner"
  then have "61 \<in> set placeholder_inner \<or> 83 \<in> set placeholder_inner"
    using plain_markerD(6) set_mono_sublist by blast
  then show False by (simp add: placeholder_inner_def)
qed

lemma sublist_placeholder:
  assumes m: "plain_marker m" and "sublist m (BoundaryMarkerPlaceholder @ s)"
  shows "sublist m s"
proof -
  from assms(2) have "sublist m ([] @ 91 # (placeholder_inner @ 93 # s))"
    by (simp add: placeholder_split)
  with plain_markerD(1,2) [OF m] have "sublist m (placeholder_inner @ 93 # s)"
    by (metis sublist_Nil_right sublist_split)
  then show ?thesis
    using sublist_split [OF plain_markerD(3) [OF m]] placeholder_free [OF m] by blast
qed

lemma replace_prefix:
  "91 \<notin> set m \<Longrightarrow> prefix m (replace_all old BoundaryMarkerPlaceholder s) \<Longrightarrow> prefix m s"
proof (induction s arbitrary: m)
  case (Cons c s)
  show ?case
  proof (cases "prefix old (c # s)")
    case True
    with Cons.prems show ?thesis by (cases m) (auto simp: placeholder_split)
  next
    case False
    with Cons show ?thesis by (cases m) auto
  qed
qed simp

lemma sublist_Cons_casesE:
  assumes "sublist m (c # s)"
  obtains "prefix m (c # s)" | "sublist m s"
  using assms by (auto simp: sublist_Cons_right)

lemma replace_sublist:
  assumes m: "plain_marker m"
  shows "sublist m (replace_all old BoundaryMarkerPlaceholder s) \<Longrightarrow> sublist m s"
proof (induction old BoundaryMarkerPlaceholder s rule: replace_all.induct)
  case (2 old c s)
  show ?case
  proof (cases "prefix old (c # s)")
    case True
    with 2 have "sublist m (drop (length old - 1) s)" using sublist_placeholder [OF m] by simp
    then show ?thesis by (meson sublist_drop sublist_order.order_trans sublist_Cons_right)
  next
    case False
    with 2(3) have "sublist m (c # replace_all old BoundaryMarkerPlaceholder s)" by simp
    then show ?thesis
    proof (cases rule: sublist_Cons_casesE)
      case 1
      with False have "prefix m (replace_all old BoundaryMarkerPlaceholder (c # s))" by simp
      then show ?thesis using replace_prefix [OF plain_markerD(2) [OF m]] by blast
    next
      case s: 2
      with 2(2) False show ?thesis by (simp add: sublist_Cons_right)
    qed
  qed
qed simp

lemma replace_removes: "plain_marker m \<Longrightarrow> \<not> sublist m (replace_all m BoundaryMarkerPlaceholder s)"
proof (induction m BoundaryMarkerPlaceholder s rule: replace_all.induct)
  case (1 old)
  then show ?case by (simp add: plain_marker_def)
next
  case (2 old c s)
  show ?case
  proof (cases "prefix old (c # s)")
    case True
    with 2(1,3) have "\<not> sublist old (replace_all old BoundaryMarkerPlaceholder (drop (length old - 1) s))" by simp
    with True sublist_placeholder [OF 2(3)] show ?thesis by (auto simp only: replace_all.simps if_True)
  next
    case False
    show ?thesis
    proof
      assume "sublist old (replace_all old BoundaryMarkerPlaceholder (c # s))"
      with False have "sublist old (c # replace_all old BoundaryMarkerPlaceholder s)" by simp
      then show False
      proof (cases rule: sublist_Cons_casesE)
        case 1
        with False have "prefix old (replace_all old BoundaryMarkerPlaceholder (c # s))" by simp
        then show ?thesis using replace_prefix [OF plain_markerD(2) [OF 2(3)]] False by blast
      next
        case s: 2
        with 2(2,3) False show ?thesis by simp
      qed
    qed
  qed
qed

definition marker_free :: "ustr \<Rightarrow> bool" where
  "marker_free s \<longleftrightarrow> (\<forall>m \<in> set BoundaryMarkers. \<not> sublist m s)"

lemma marker_freeD: "marker_free s \<Longrightarrow> sublist t s \<Longrightarrow> marker_free t"
  unfolding marker_free_def using sublist_order.order_trans by blast

abbreviation "strip_marker m s \<equiv> replace_all m BoundaryMarkerPlaceholder s"

lemma fold_replace_sublist: "plain_marker m \<Longrightarrow> sublist m (fold strip_marker ms s) \<Longrightarrow> sublist m s"
  by (induction ms arbitrary: s) (auto dest: replace_sublist)

lemma fold_replace_free: "plain_marker m \<Longrightarrow> m \<in> set ms \<Longrightarrow> \<not> sublist m (fold strip_marker ms s)"
proof (induction ms arbitrary: s)
  case (Cons k ms)
  show ?case
  proof (cases "m \<in> set ms")
    case False
    with Cons.prems have "m = k" by simp
    then show ?thesis
      using fold_replace_sublist [OF Cons.prems(1), of ms "strip_marker k s"] replace_removes [OF Cons.prems(1)] by auto
  qed (use Cons in simp)
qed simp

lemma Neutralize_free: "marker_free (NeutralizeBoundaryMarkers s)"
proof (cases "s = []")
  case True
  then show ?thesis
    using plain_markerD(1) [OF marker_plain] by (auto simp: marker_free_def NeutralizeBoundaryMarkers_def)
next
  case False
  then have "NeutralizeBoundaryMarkers s = fold strip_marker BoundaryMarkers s"
    by (simp only: NeutralizeBoundaryMarkers_def if_False)
  then show ?thesis
    unfolding marker_free_def using fold_replace_free marker_plain by metis
qed

lemma clipRunes_free: "marker_free s \<Longrightarrow> marker_free (clipRunes s n)"
proof -
  assume s: "marker_free s"
  have "marker_free (take n s @ [8230])"
    unfolding marker_free_def
  proof (intro ballI notI)
    fix m assume m: "m \<in> set BoundaryMarkers" "sublist m (take n s @ [8230])"
    note p = plain_markerD [OF marker_plain [OF m(1)]]
    from sublist_split [OF p(4) m(2)] p(1) have "sublist m (take n s)" by simp
    moreover have "marker_free (take n s)" using s sublist_take by (rule marker_freeD)
    ultimately show False using m(1) by (simp add: marker_free_def)
  qed
  with s show ?thesis by (simp add: clipRunes_def truncateRunes_def)
qed

lemma clipSafe_free: "marker_free (clipSafe s n)"
  by (simp add: clipSafe_def clipRunes_free Neutralize_free)

lemma clipSafe_length: "length (clipSafe s n) \<le> Suc n"
  by (simp add: clipSafe_def clipRunes_def truncateRunes_def)

section \<open>JSON\<close>

fun jvalue_free :: "jvalue \<Rightarrow> bool" where
  "jvalue_free (JvStr s) = marker_free s"
| "jvalue_free (JvArr vs) = list_all jvalue_free vs"
| "jvalue_free (JvObj kvs) = list_all (\<lambda>(k, v). marker_free k \<and> jvalue_free v) kvs"
| "jvalue_free _ = True"

lemma set_AList_update: "set (AList.update k v m) \<subseteq> insert (k, v) (set m)"
  by (induction m) auto

lemma set_last_members: "set (last_members kvs) \<subseteq> set kvs"
proof -
  have "set (fold (\<lambda>(k, v) m. AList.update k v m) kvs m) \<subseteq> set kvs \<union> set m" for m
    by (induction kvs arbitrary: m) (use set_AList_update in fastforce)+
  from this [of "[]"] show ?thesis by (simp add: last_members_def)
qed

lemma placeholder_marker_free: "marker_free BoundaryMarkerPlaceholder"
  unfolding marker_free_def
proof (intro ballI notI)
  fix m assume m: "m \<in> set BoundaryMarkers" "sublist m BoundaryMarkerPlaceholder"
  then show False
    using sublist_placeholder [OF marker_plain, of m "[]"] plain_markerD(1) [OF marker_plain] by auto
qed

lemma visited_members:
  assumes "\<forall>xs. set (visit xs) \<subseteq> set xs"
  shows "set (last_members (map snd (visit (last_members es)))) \<subseteq> snd ` set es"
proof -
  have "set (last_members (map snd (visit (last_members es)))) \<subseteq> snd ` set (visit (last_members es))"
    using set_last_members [of "map snd (visit (last_members es))"] by simp
  also have "\<dots> \<subseteq> snd ` set es"
    using assms set_last_members [of es] by (meson image_mono subset_trans)
  finally show ?thesis .
qed

lemma ball_pairs: "A \<subseteq> B \<Longrightarrow> (\<And>k w. (k, w) \<in> B \<Longrightarrow> P k w) \<Longrightarrow> \<forall>e \<in> A. P (fst e) (snd e)"
  by force

lemma neutralize_free:
  assumes "\<forall>xs. set (visit xs) \<subseteq> set xs" and "\<forall>n. jvalue_free (number (JvInt n))"
    and "\<forall>m e. jvalue_free (number (JvFrac m e))"
  shows "jvalue_free (neutralizeAnyValue visit number n depth v)"
  using assms
proof (induction visit number n depth v rule: neutralizeAnyValue.induct)
  case (1 visit number n depth v)
  show ?case
  proof (cases "jsonBlobMaxDepth < depth")
    case True
    then show ?thesis by (simp add: neutralizeAnyValue.simps placeholder_marker_free)
  next
    case shallow: False
    show ?thesis
    proof (cases v)
      case (JvObj kvs)
      let ?es = "map (\<lambda>(k, w). (k, clipSafe k n, neutralizeAnyValue visit number n (depth + 1) w)) kvs"
      note sub = visited_members [OF 1(3), of ?es]
      have "marker_free k \<and> jvalue_free w" if "(k, w) \<in> snd ` set ?es" for k w
        using that 1(2) [OF shallow JvObj _ refl 1(3,4,5)] clipSafe_free by fastforce
      from ball_pairs [OF sub this] have "\<forall>e \<in> set (last_members (map snd (visit (last_members ?es)))).
          marker_free (fst e) \<and> jvalue_free (snd e)" by simp
      then show ?thesis
        using shallow JvObj by (simp add: neutralizeAnyValue.simps [of visit number n depth "JvObj kvs"] list_all_iff split_beta)
    next
      case (JvArr vs)
      with 1(1) [OF shallow JvArr _ 1(3,4,5)] shallow show ?thesis
        by (simp add: neutralizeAnyValue.simps [of visit number n depth "JvArr vs"] list_all_iff)
    qed (use shallow 1(4,5) in \<open>simp_all add: neutralizeAnyValue.simps [of visit number n depth] clipSafe_free\<close>)
  qed
qed

section \<open>Text without markers\<close>

lemma replace_all_id: "\<not> sublist old s \<Longrightarrow> replace_all old new s = s"
  by (induction s) (auto simp: sublist_Cons_right)

lemma fold_strip_id: "\<forall>m \<in> set ms. \<not> sublist m s \<Longrightarrow> fold strip_marker ms s = s"
  by (induction ms) (auto simp: replace_all_id)

lemma Neutralize_id: "marker_free s \<Longrightarrow> NeutralizeBoundaryMarkers s = s"
proof (cases "s = []")
  case False
  assume "marker_free s"
  then have "fold strip_marker BoundaryMarkers s = s" unfolding marker_free_def by (rule fold_strip_id)
  with False show ?thesis by (simp only: NeutralizeBoundaryMarkers_def if_False)
qed (simp add: NeutralizeBoundaryMarkers_def)

lemma clipSafe_id: "marker_free s \<Longrightarrow> length s \<le> n \<Longrightarrow> clipSafe s n = s"
  by (simp add: clipSafe_def clipRunes_def Neutralize_id)

section \<open>The property\<close>

text \<open>
  C34.  Text read back from the database cannot forge a boundary marker.  Whatever the stored text, its
  neutralised and clipped form holds no marker of the registry and at most one rune more than the
  cap; inside a fence the content is free of markers; and in a neutralised JSON document every key and
  every text value is, at every depth, in whatever order Go visits its maps.  Text that fits and
  holds no marker is returned as it is.
\<close>

theorem stored_text_cannot_forge_markers:
  assumes "\<forall>xs. set (visit xs) \<subseteq> set xs" and "\<forall>n. jvalue_free (number (JvInt n))"
    and "\<forall>m e. jvalue_free (number (JvFrac m e))"
  shows "marker_free (NeutralizeBoundaryMarkers s) \<and>
    marker_free (clipSafe s n) \<and> length (clipSafe s n) \<le> n + 1 \<and>
    (clipAndFenceStoredContext s n = [] \<or> (\<exists>body. marker_free body \<and> length body \<le> n + 1 \<and>
       clipAndFenceStoredContext s n = StoredContextMarkerStart @ [10] @ body @ [10] @ StoredContextMarkerEnd)) \<and>
    jvalue_free (neutralizeAnyValue visit number n 0 v) \<and>
    (marker_free s \<and> length s \<le> n \<longrightarrow> clipSafe s n = s)"
proof -
  have "clipAndFenceStoredContext s n = [] \<or> (\<exists>body. marker_free body \<and> length body \<le> n + 1 \<and>
      clipAndFenceStoredContext s n = StoredContextMarkerStart @ [10] @ body @ [10] @ StoredContextMarkerEnd)"
    using clipSafe_free [of s n] clipSafe_length [of s n]
    by (auto simp: clipAndFenceStoredContext_def wrapStoredContext_def)
  then show ?thesis
    using clipSafe_length [of s n] by (simp add: Neutralize_free clipSafe_free clipSafe_id neutralize_free assms)
qed

text \<open>A forged end of the fence in a key and in a value of a document, visited in reverse order.\<close>

theorem stored_text_cannot_forge_markers_witness:
  "jvalue_free (neutralizeAnyValue rev id 40 0
     (JvObj [(lit ''k'' @ StoredContextMarkerEnd, JvArr [JvStr StoredContextMarkerEnd, JvInt 3])])) \<and>
   \<not> marker_free (lit ''k'' @ StoredContextMarkerEnd)"
proof -
  have "StoredContextMarkerEnd \<in> set BoundaryMarkers" by (simp add: BoundaryMarkers_def)
  then have "\<not> marker_free (lit ''k'' @ StoredContextMarkerEnd)"
    unfolding marker_free_def by (meson sublist_appendI sublist_order.order_refl sublist_append_leftI)
  then show ?thesis
    using stored_text_cannot_forge_markers [of rev id "[]" 40
        "JvObj [(lit ''k'' @ StoredContextMarkerEnd, JvArr [JvStr StoredContextMarkerEnd, JvInt 3])]"] by simp
qed

end
