(* ===== verification/Txn.thy ===== *)
theory Txn
  imports Prelude
begin

text \<open>
  Programs of statements on a database other connections use too.  \<open>seen\<close> is what the statements of
  the open transaction see, \<open>outside\<close> what is committed; without an open transaction the two are equal.
  Before the statement named \<open>n\<close> other transactions commit \<open>env n\<close>, which both views show (READ
  COMMITTED; \<open>env\<close> changes no row this transaction has written); \<open>fault n\<close> makes the statement fail.
\<close>

record 'd txn =
  seen :: 'd
  outside :: 'd

type_synonym ('d, 'e, 'a) prog = "'d txn \<Rightarrow> ('e + 'a) \<times> 'd txn"
type_synonym 'd others = "string \<Rightarrow> 'd \<Rightarrow> 'd"
type_synonym faults = "string \<Rightarrow> bool"

definition give :: "'a \<Rightarrow> ('d, 'e, 'a) prog" where
  "give a t = (Inr a, t)"

definition refuse :: "'e \<Rightarrow> ('d, 'e, 'a) prog" where
  "refuse e t = (Inl e, t)"

definition and_then :: "('d, 'e, 'a) prog \<Rightarrow> ('a \<Rightarrow> ('d, 'e, 'b) prog) \<Rightarrow> ('d, 'e, 'b) prog" where
  "and_then m k t = (case m t of (Inl e, t') \<Rightarrow> (Inl e, t') | (Inr a, t') \<Rightarrow> k a t')"

definition tick :: "'d others \<Rightarrow> string \<Rightarrow> 'd txn \<Rightarrow> 'd txn" where
  "tick env name t = t\<lparr>seen := env name (seen t), outside := env name (outside t)\<rparr>"

text \<open>A statement of the open transaction; one that reports an error of its own writes nothing.\<close>

definition stmt :: "'d others \<Rightarrow> faults \<Rightarrow> (string \<Rightarrow> 'e) \<Rightarrow> string \<Rightarrow> ('d \<Rightarrow> 'e + 'a \<times> 'd) \<Rightarrow> ('d, 'e, 'a) prog" where
  "stmt env fault err name f t =
     (let t' = tick env name t in
      if fault name then (Inl (err name), t')
      else case f (seen t') of Inl e \<Rightarrow> (Inl e, t') | Inr (a, s) \<Rightarrow> (Inr a, t'\<lparr>seen := s\<rparr>))"

text \<open>A statement on another connection, committed at once.\<close>

definition pooled :: "'d others \<Rightarrow> faults \<Rightarrow> (string \<Rightarrow> 'e) \<Rightarrow> string \<Rightarrow> ('d \<Rightarrow> 'e + 'a) \<Rightarrow> ('d \<Rightarrow> 'd) \<Rightarrow> ('d, 'e, 'a) prog" where
  "pooled env fault err name result change t =
     (let t' = tick env name t in
      if fault name then (Inl (err name), t')
      else case result (outside t') of
          Inl e \<Rightarrow> (Inl e, t')
        | Inr a \<Rightarrow> (Inr a, t'\<lparr>seen := change (seen t'), outside := change (outside t')\<rparr>))"

definition begin_tx :: "'d others \<Rightarrow> faults \<Rightarrow> (string \<Rightarrow> 'e) \<Rightarrow> ('d, 'e, unit) prog" where
  "begin_tx env fault err t =
     (let t' = tick env ''begin'' t in
      if fault ''begin'' then (Inl (err ''begin''), t') else (Inr (), t'\<lparr>seen := outside t'\<rparr>))"

definition commit_tx :: "'d others \<Rightarrow> faults \<Rightarrow> (string \<Rightarrow> 'e) \<Rightarrow> ('d, 'e, unit) prog" where
  "commit_tx env fault err t =
     (let t' = tick env ''commit'' t in
      if fault ''commit'' then (Inl (err ''commit''), t') else (Inr (), t'\<lparr>outside := seen t'\<rparr>))"

text \<open>The deferred rollback: what stays is what was committed.\<close>

definition run :: "('d, 'e, 'a) prog \<Rightarrow> 'd \<Rightarrow> ('e + 'a) \<times> 'd" where
  "run m s = (case m \<lparr>seen = s, outside = s\<rparr> of (r, t) \<Rightarrow> (r, outside t))"

definition undisturbed :: "'d others" where
  "undisturbed name s = s"

definition no_failure :: faults where
  "no_failure name = False"

section \<open>What a program leaves when it fails\<close>

text \<open>\<open>by_others env s s'\<close>: only commits of other connections lie between the two states.\<close>

inductive by_others :: "'d others \<Rightarrow> 'd \<Rightarrow> 'd \<Rightarrow> bool" for env where
  nothing: "by_others env s s"
| later: "by_others env s s' \<Longrightarrow> by_others env s (env name s')"

lemma by_others_comp: "by_others env b c \<Longrightarrow> by_others env a b \<Longrightarrow> by_others env a c"
  by (induction rule: by_others.induct) (auto intro: by_others.intros)

lemma by_others_undisturbed: "by_others undisturbed s s' \<longleftrightarrow> s' = s"
proof
  show "by_others undisturbed s s' \<Longrightarrow> s' = s"
    by (induction rule: by_others.induct) (simp_all add: undisturbed_def)
qed (simp add: by_others.nothing)

text \<open>A program that commits nothing leaves outside what the others committed.\<close>

definition uncommitted :: "'d others \<Rightarrow> ('d, 'e, 'a) prog \<Rightarrow> bool" where
  "uncommitted env m \<longleftrightarrow> (\<forall>t. by_others env (outside t) (outside (snd (m t))))"

definition failing :: "'d others \<Rightarrow> ('d, 'e, 'a) prog \<Rightarrow> bool" where
  "failing env m \<longleftrightarrow> (\<forall>t e t'. m t = (Inl e, t') \<longrightarrow> by_others env (outside t) (outside t'))"

lemma uncommitted_failing: "uncommitted env m \<Longrightarrow> failing env m"
  by (metis uncommitted_def failing_def snd_conv)

lemma outside_tick [simp]: "outside (tick env name t) = env name (outside t)" "seen (tick env name t) = env name (seen t)"
  by (simp_all add: tick_def)

lemma uncommitted_give [intro]: "uncommitted env (give a)" and uncommitted_refuse [intro]: "uncommitted env (refuse e)"
  by (simp_all add: uncommitted_def give_def refuse_def by_others.nothing)

lemma uncommitted_stmt [intro]: "uncommitted env (stmt env fault err name f)"
  by (auto simp: uncommitted_def stmt_def Let_def intro!: by_others.later by_others.nothing split: sum.split prod.split)

lemma uncommitted_begin [intro]: "uncommitted env (begin_tx env fault err)"
  by (auto simp: uncommitted_def begin_tx_def Let_def intro!: by_others.later by_others.nothing)

lemma uncommitted_and_then: "uncommitted env m \<Longrightarrow> (\<And>a. uncommitted env (k a)) \<Longrightarrow> uncommitted env (and_then m k)"
  unfolding uncommitted_def and_then_def by (auto split: prod.split sum.split) (metis snd_conv by_others_comp)+

lemma failing_and_then: "uncommitted env m \<Longrightarrow> (\<And>a. failing env (k a)) \<Longrightarrow> failing env (and_then m k)"
  unfolding uncommitted_def failing_def and_then_def
  by (auto split: prod.splits sum.splits) (metis snd_conv by_others_comp)+

lemma failing_commit: "failing env (commit_tx env fault err)"
  by (auto simp: failing_def commit_tx_def Let_def intro!: by_others.later by_others.nothing split: if_splits)

lemma failing_commit_give: "failing env (and_then (commit_tx env fault err) (\<lambda>_. give a))"
  by (auto simp: failing_def and_then_def give_def commit_tx_def Let_def intro!: by_others.later by_others.nothing split: if_splits)

lemma failing_run: "failing env m \<Longrightarrow> run m s = (Inl e, s') \<Longrightarrow> by_others env s s'"
  by (auto simp: failing_def run_def split: prod.splits) (metis select_convs(2))

section \<open>Evaluation\<close>

lemma and_then_simps [simp]:
  "m t = (Inl e, t') \<Longrightarrow> and_then m k t = (Inl e, t')"
  "m t = (Inr a, t') \<Longrightarrow> and_then m k t = k a t'"
  by (simp_all add: and_then_def)

lemma give_simp [simp]: "give a t = (Inr a, t)" and refuse_simp [simp]: "refuse e t = (Inl e, t)"
  by (simp_all add: give_def refuse_def)

lemma undisturbed_simp [simp]: "undisturbed name s = s" and no_failure_simp [simp]: "\<not> no_failure name"
  by (simp_all add: undisturbed_def no_failure_def)

end
