(* ===== verification/Proposal_Model.thy ===== *)
theory Proposal_Model
  imports Txn Go_Json Gtd_Model
begin

text \<open>
  The queue of pending proposals: \<open>internal/proposal/proposal.go\<close>, \<open>store.go\<close>, \<open>autopropose.go\<close> and
  \<open>storage/sqlite/proposal.go\<close>, the row bounds of \<open>internal/db/rowlimit.go\<close>, and the nightly retention
  job of \<open>internal/scheduler/scheduler.go\<close>.  Names ending in \<open>_sq\<close> are SQLite's, in \<open>_pg\<close> Postgres'.

  The database holds, beside the proposals, the tables an accepted proposal adds a row to.  A
  statement is named by its step; the time it reads is \<open>clock\<close> of that name.
\<close>

section \<open>Rows\<close>

definition TypeGoal :: string where "TypeGoal = ''goal''"
definition TypeProject :: string where "TypeProject = ''project''"
definition TypeTask :: string where "TypeTask = ''task''"
definition TypeConcept :: string where "TypeConcept = ''concept''"
definition TypeKnowledge :: string where "TypeKnowledge = ''knowledge''"
definition TypePlaybook :: string where "TypePlaybook = ''playbook''"
definition TypeDecision :: string where "TypeDecision = ''decision''"

lemmas type_defs = TypeGoal_def TypeProject_def TypeTask_def TypeConcept_def TypeKnowledge_def TypePlaybook_def
  TypeDecision_def

datatype proposal_status = StatusPending | StatusAccepted | StatusRejected

record proposal =
  pp_id :: uuid
  pp_workspace :: "uuid option"
  pp_type :: string
  pp_payload :: payload_text
  pp_status :: proposal_status
  pp_proposed_by :: "ustr option"
  pp_created :: instant
  pp_resolved :: "instant option"
  pp_reason :: "ustr option"

text \<open>The CHECK constraint on \<open>type\<close>.\<close>

definition proposal_types :: "string list" where
  "proposal_types = [TypeGoal, TypeProject, TypeTask, TypeConcept, TypeKnowledge, TypePlaybook, TypeDecision]"

datatype goal_status = GoalActive | GoalCompleted | GoalArchived

record goal =
  gl_id :: uuid
  gl_workspace :: "uuid option"
  gl_title :: ustr
  gl_description :: "ustr option"
  gl_status :: goal_status
  gl_area :: "ustr option"
  gl_due :: "instant option"
  gl_created :: instant
  gl_updated :: instant

text \<open>Of \<open>concepts\<close>, \<open>review_schedule\<close>, \<open>knowledge_items\<close> and \<open>playbooks\<close> the columns an insert writes.\<close>

record concept =
  co_id :: uuid
  co_workspace :: "uuid option"
  co_title :: ustr
  co_content :: ustr
  co_tags :: "ustr list"
  co_created :: instant
  co_updated :: instant

record schedule =
  sh_id :: uuid
  sh_workspace :: "uuid option"
  sh_concept :: uuid
  sh_due :: instant
  sh_created :: instant

record decision =
  dc_id :: uuid
  dc_workspace :: "uuid option"
  dc_project :: "uuid option"
  dc_task :: "uuid option"
  dc_repo :: "ustr option"
  dc_title :: ustr
  dc_context :: ustr
  dc_decision :: ustr
  dc_rationale :: ustr
  dc_alternatives :: "ustr option"
  dc_source :: string
  dc_session :: "ustr option"
  dc_confirmed :: bool
  dc_created :: instant

record knowledge_item =
  kn_id :: uuid
  kn_workspace :: "uuid option"
  kn_type :: string
  kn_title :: ustr
  kn_content :: ustr
  kn_url :: "ustr option"
  kn_tags :: "ustr list"
  kn_source :: ustr
  kn_embedded :: bool
  kn_parent :: "uuid option"
  kn_heading_path :: "ustr option"
  kn_heading_level :: "int option"
  kn_created :: instant

record playbook =
  pb_id :: uuid
  pb_workspace :: "uuid option"
  pb_trigger :: ustr
  pb_action :: ustr
  pb_sources :: "uuid list"
  pb_created :: instant

record proposal_db =
  gtd :: gtd_db
  goals :: "goal list"
  concepts :: "concept list"
  schedules :: "schedule list"
  decision_log :: "decision list"
  knowledge :: "knowledge_item list"
  playbooks :: "playbook list"
  proposals :: "proposal list"

datatype decode_error =
    MalformedJson string          \<comment> \<open>a JSON error behind the prefix\<close>
  | InvalidField string           \<comment> \<open>a message of the decoder's own\<close>
  | VaguenessFailed "ustr list"

datatype proposal_error =
    PNotFound
  | PAlreadyResolved
  | PPayloadTooLarge nat
  | PInvalidStatus
  | PNoPool
  | PConstraint
  | PDecode decode_error
  | PGtd gtd_error
  | PTagNoise string ustr         \<comment> \<open>the field and the excerpt\<close>
  | PInvalidRepoName
  | PDuplicate
  | PNotWired string
  | PUnknownType string
  | PBlocked                      \<comment> \<open>the call waits for a connection until its context ends\<close>
  | PDatabase string              \<comment> \<open>a failed statement, by the name of the step\<close>

type_synonym 'a pprog = "(proposal_db, proposal_error, 'a) prog"
type_synonym p_others = "proposal_db others"
type_synonym clock = "string \<Rightarrow> instant"

text \<open>A statement outside every transaction, and one of a transaction.\<close>

definition direct :: "p_others \<Rightarrow> faults \<Rightarrow> string \<Rightarrow> (proposal_db \<Rightarrow> proposal_error + 'a \<times> proposal_db) \<Rightarrow> 'a pprog" where
  "direct env fault name f t =
     (let t' = tick env name t in
      if fault name then (Inl (PDatabase name), t')
      else case f (outside t') of Inl e \<Rightarrow> (Inl e, t') | Inr (a, s) \<Rightarrow> (Inr a, \<lparr>seen = s, outside = s\<rparr>))"

definition in_tx :: "p_others \<Rightarrow> faults \<Rightarrow> string \<Rightarrow> (proposal_db \<Rightarrow> proposal_error + 'a \<times> proposal_db) \<Rightarrow> 'a pprog" where
  "in_tx env fault = stmt env fault PDatabase"

definition reading :: "(proposal_db \<Rightarrow> proposal_error + 'a) \<Rightarrow> proposal_db \<Rightarrow> proposal_error + 'a \<times> proposal_db" where
  "reading f s = (case f s of Inl e \<Rightarrow> Inl e | Inr a \<Rightarrow> Inr (a, s))"

text \<open>The k-th statement of a loop.\<close>

definition numbered :: "string \<Rightarrow> nat \<Rightarrow> string" where
  "numbered name k = name @ '' '' @ map char_of (decimal k)"

section \<open>Creating\<close>

record create_proposal =
  cq_workspace :: "uuid option"
  cq_type :: string
  cq_payload :: payload_text
  cq_by :: ustr

definition MaxPayloadBytes :: nat where
  "MaxPayloadBytes = 2 * 1024 * 1024"

definition new_proposal :: "(instant \<Rightarrow> instant) \<Rightarrow> instant \<Rightarrow> uuid \<Rightarrow> uuid option \<Rightarrow> create_proposal \<Rightarrow> payload_text \<Rightarrow> proposal" where
  "new_proposal ts now nid ws p payload =
     \<lparr>pp_id = nid, pp_workspace = ws, pp_type = cq_type p, pp_payload = payload, pp_status = StatusPending,
      pp_proposed_by = nullIfEmpty (cq_by p), pp_created = ts now, pp_resolved = None, pp_reason = None\<rparr>"

definition create_scope :: "uuid option \<Rightarrow> create_proposal \<Rightarrow> uuid option" where
  "create_scope scope p = (case cq_workspace p of None \<Rightarrow> scope | Some w \<Rightarrow> Some w)"

definition insert_proposal :: "proposal \<Rightarrow> proposal_db \<Rightarrow> proposal_error + proposal \<times> proposal_db" where
  "insert_proposal r s =
     (if pp_id r \<in> set (map pp_id (proposals s)) \<or> pp_type r \<notin> set proposal_types then Inl PConstraint
      else Inr (r, s\<lparr>proposals := proposals s @ [r]\<rparr>))"

text \<open>Postgres parses the payload as \<open>jsonb\<close> and refuses the code point 0 in a text.\<close>

definition Create_pg :: "p_others \<Rightarrow> faults \<Rightarrow> uuid option \<Rightarrow> clock \<Rightarrow> uuid \<Rightarrow> create_proposal \<Rightarrow> proposal pprog" where
  "Create_pg env fault scope clock nid p =
     (if MaxPayloadBytes < pl_size (cq_payload p) then refuse (PPayloadTooLarge (pl_size (cq_payload p)))
      else direct env fault ''insert'' (\<lambda>s. case jsonb_column (cq_payload p) of
          None \<Rightarrow> Inl PConstraint
        | Some payload \<Rightarrow>
            if 0 \<in> set (cq_by p) then Inl PConstraint
            else insert_proposal (new_proposal pg_ts (clock ''insert'') nid (create_scope scope p) p payload) s))"

definition proposal_row :: "uuid option \<Rightarrow> uuid \<Rightarrow> proposal \<Rightarrow> bool" where
  "proposal_row scope i r \<longleftrightarrow> pp_id r = i \<and> in_scope scope (pp_workspace r)"

definition get_row :: "uuid option \<Rightarrow> uuid \<Rightarrow> proposal_db \<Rightarrow> proposal_error + proposal" where
  "get_row scope i s =
     (case first_row (proposal_row scope i) (proposals s) of None \<Rightarrow> Inl PNotFound | Some r \<Rightarrow> Inr r)"

definition Get_pg :: "p_others \<Rightarrow> faults \<Rightarrow> uuid option \<Rightarrow> uuid \<Rightarrow> proposal pprog" where
  "Get_pg env fault scope i = direct env fault ''get'' (reading (get_row scope i))"

definition Get_sq :: "p_others \<Rightarrow> faults \<Rightarrow> uuid option \<Rightarrow> uuid \<Rightarrow> proposal pprog" where
  "Get_sq env fault scope i = direct env fault ''get'' (reading (get_row scope i))"

definition Create_sq :: "p_others \<Rightarrow> faults \<Rightarrow> uuid option \<Rightarrow> clock \<Rightarrow> uuid \<Rightarrow> create_proposal \<Rightarrow> proposal pprog" where
  "Create_sq env fault scope clock nid p =
     (if MaxPayloadBytes < pl_size (cq_payload p) then refuse (PPayloadTooLarge (pl_size (cq_payload p)))
      else and_then
        (direct env fault ''insert'' (\<lambda>s.
           insert_proposal (new_proposal sq_ts (clock ''insert'') nid (create_scope scope p) p (cq_payload p)) s))
        (\<lambda>_. Get_sq env fault scope nid))"

definition ImportProposal :: "p_others \<Rightarrow> faults \<Rightarrow> proposal \<Rightarrow> unit pprog" where
  "ImportProposal env fault p = direct env fault ''import'' (\<lambda>s.
     case insert_proposal (p\<lparr>pp_created := sq_ts (pp_created p), pp_resolved := map_option sq_ts (pp_resolved p)\<rparr>) s of
       Inl e \<Rightarrow> Inl e | Inr (r, s') \<Rightarrow> Inr ((), s'))"

section \<open>Listing\<close>

definition UnboundedRowLimit :: int where
  "UnboundedRowLimit = 2 ^ 31 - 1"

definition ClampRowLimit :: "int \<Rightarrow> int" where
  "ClampRowLimit limit = (if limit \<le> 0 then 1 else limit)"

definition ClampRowOffset :: "int \<Rightarrow> int" where
  "ClampRowOffset offset = (if offset < 0 then 0 else offset)"

text \<open>\<open>ORDER BY created_at DESC, id DESC\<close>.\<close>

definition newest_first :: "proposal list \<Rightarrow> proposal list" where
  "newest_first rs = rev (sort_key (\<lambda>r. (pp_created r, uint (pp_id r))) rs)"

definition page :: "int \<Rightarrow> int \<Rightarrow> 'a list \<Rightarrow> 'a list" where
  "page limit offset rs = take (nat (ClampRowLimit limit)) (drop (nat (ClampRowOffset offset)) rs)"

definition pending_in :: "uuid option \<Rightarrow> proposal \<Rightarrow> bool" where
  "pending_in scope r \<longleftrightarrow> pp_status r = StatusPending \<and> in_scope scope (pp_workspace r)"

definition ListPendingPage_pg :: "uuid option \<Rightarrow> int \<Rightarrow> int \<Rightarrow> proposal_db \<Rightarrow> proposal list" where
  "ListPendingPage_pg scope limit offset s = page limit offset (newest_first (filter (pending_in scope) (proposals s)))"

definition ListPendingPage_sq :: "uuid option \<Rightarrow> int \<Rightarrow> int \<Rightarrow> proposal_db \<Rightarrow> proposal list" where
  "ListPendingPage_sq scope limit offset s = page limit offset (newest_first (filter (pending_in scope) (proposals s)))"

definition ListPending_pg :: "uuid option \<Rightarrow> proposal_db \<Rightarrow> proposal list" where
  "ListPending_pg scope = ListPendingPage_pg scope UnboundedRowLimit 0"

definition ListPending_sq :: "uuid option \<Rightarrow> proposal_db \<Rightarrow> proposal list" where
  "ListPending_sq scope = ListPendingPage_sq scope UnboundedRowLimit 0"

definition of_type :: "uuid option \<Rightarrow> string \<Rightarrow> proposal \<Rightarrow> bool" where
  "of_type scope ty r \<longleftrightarrow> pp_type r = ty \<and> in_scope scope (pp_workspace r)"

text \<open>No clamp here: Postgres refuses a negative limit, SQLite takes it as no limit.  Only SQLite breaks ties.\<close>

definition ListAll_pg :: "uuid option \<Rightarrow> string \<Rightarrow> int \<Rightarrow> proposal_db \<Rightarrow> proposal_error + proposal list" where
  "ListAll_pg scope ty limit s =
     (if limit < 0 then Inl (PDatabase ''list'')
      else Inr (take (nat limit) (sort_key (\<lambda>r. - pp_created r) (filter (of_type scope ty) (proposals s)))))"

definition ListAll_sq :: "uuid option \<Rightarrow> string \<Rightarrow> int \<Rightarrow> proposal_db \<Rightarrow> proposal_error + proposal list" where
  "ListAll_sq scope ty limit s =
     (let rs = newest_first (filter (of_type scope ty) (proposals s))
      in Inr (if limit < 0 then rs else take (nat limit) rs))"

section \<open>Resolving\<close>

definition open_row :: "uuid option \<Rightarrow> uuid \<Rightarrow> proposal \<Rightarrow> bool" where
  "open_row scope i r \<longleftrightarrow> pp_id r = i \<and> pp_status r = StatusPending \<and> in_scope scope (pp_workspace r)"

definition resolved :: "proposal_status \<Rightarrow> instant \<Rightarrow> proposal \<Rightarrow> proposal" where
  "resolved status at r = r\<lparr>pp_status := status, pp_resolved := Some at\<rparr>"

text \<open>The \<open>UPDATE\<close>: the row it changed, or no row.\<close>

definition resolve_row :: "uuid option \<Rightarrow> uuid \<Rightarrow> proposal_status \<Rightarrow> instant \<Rightarrow> proposal_db \<Rightarrow> proposal_error + proposal \<times> proposal_db" where
  "resolve_row scope i status at s =
     (case first_row (open_row scope i) (proposals s) of
        None \<Rightarrow> Inl PNotFound
      | Some r \<Rightarrow> Inr (resolved status at r, s\<lparr>proposals := update_rows (open_row scope i) (resolved status at) (proposals s)\<rparr>))"

definition Resolve_pg :: "p_others \<Rightarrow> faults \<Rightarrow> uuid option \<Rightarrow> clock \<Rightarrow> uuid \<Rightarrow> proposal_status \<Rightarrow> proposal pprog" where
  "Resolve_pg env fault scope clock i status =
     (if status \<noteq> StatusAccepted \<and> status \<noteq> StatusRejected then refuse PInvalidStatus
      else direct env fault ''resolve'' (resolve_row scope i status (pg_ts (clock ''resolve''))))"

definition Resolve_sq :: "p_others \<Rightarrow> faults \<Rightarrow> uuid option \<Rightarrow> clock \<Rightarrow> uuid \<Rightarrow> proposal_status \<Rightarrow> proposal pprog" where
  "Resolve_sq env fault scope clock i status =
     (if status \<noteq> StatusAccepted \<and> status \<noteq> StatusRejected then refuse PInvalidStatus
      else and_then (direct env fault ''resolve'' (resolve_row scope i status (sq_ts (clock ''resolve''))))
        (\<lambda>_. Get_sq env fault scope i))"

definition ResolveTx :: "p_others \<Rightarrow> faults \<Rightarrow> uuid option \<Rightarrow> clock \<Rightarrow> uuid \<Rightarrow> proposal_status \<Rightarrow> unit pprog" where
  "ResolveTx env fault scope clock i status =
     (if status \<noteq> StatusAccepted \<and> status \<noteq> StatusRejected then refuse PInvalidStatus
      else and_then (in_tx env fault ''resolve'' (resolve_row scope i status (sq_ts (clock ''resolve''))))
        (\<lambda>_. give ()))"

text \<open>\<open>WithTx(tx).Resolve\<close>.\<close>

definition Resolve_in_tx :: "p_others \<Rightarrow> faults \<Rightarrow> string \<Rightarrow> uuid option \<Rightarrow> instant \<Rightarrow> uuid \<Rightarrow> proposal_status \<Rightarrow> proposal pprog" where
  "Resolve_in_tx env fault name scope at i status =
     (if status \<noteq> StatusAccepted \<and> status \<noteq> StatusRejected then refuse PInvalidStatus
      else in_tx env fault name (resolve_row scope i status (pg_ts at)))"

section \<open>Batches\<close>

record batch_item =
  bi_id :: uuid
  bi_ok :: bool
  bi_error :: string

record batch_result =
  br_results :: "batch_item list"
  br_accepted :: nat
  br_failed :: nat

definition BatchItemErrMsg :: "proposal_error \<Rightarrow> string" where
  "BatchItemErrMsg e = (if e = PNotFound then ''proposal: not found'' else ''resolve failed'')"

definition sibling_failure :: string where
  "sibling_failure = ''rolled back due to sibling failure''"

text \<open>The loop of the Postgres batch: the id it stopped at and its error, or the end.\<close>

fun resolve_all :: "p_others \<Rightarrow> faults \<Rightarrow> uuid option \<Rightarrow> instant \<Rightarrow> proposal_status \<Rightarrow> nat \<Rightarrow> uuid list \<Rightarrow> proposal_db txn
    \<Rightarrow> (uuid \<times> proposal_error) option \<times> proposal_db txn" where
  "resolve_all env fault scope at status k [] t = (None, t)"
| "resolve_all env fault scope at status k (i # ids) t =
     (case Resolve_in_tx env fault (numbered ''resolve'' k) scope at i status t of
        (Inl e, t') \<Rightarrow> (Some (i, e), t')
      | (Inr _, t') \<Rightarrow> resolve_all env fault scope at status (k + 1) ids t')"

definition BatchConfirm_pg :: "bool \<Rightarrow> p_others \<Rightarrow> faults \<Rightarrow> uuid option \<Rightarrow> clock \<Rightarrow> uuid list \<Rightarrow> proposal_status \<Rightarrow> batch_result pprog" where
  "BatchConfirm_pg has_pool env fault scope clock ids status =
     (if status \<noteq> StatusAccepted \<and> status \<noteq> StatusRejected then refuse PInvalidStatus
      else if \<not> has_pool then refuse PNoPool
      else and_then (begin_tx env fault PDatabase) (\<lambda>_ t.
        case resolve_all env fault scope (clock ''begin'') status 0 ids t of
          (Some (i, e), t') \<Rightarrow>
            (Inr \<lparr>br_results = map (\<lambda>f. \<lparr>bi_id = f, bi_ok = False,
                     bi_error = (if f = i then BatchItemErrMsg e else sibling_failure)\<rparr>) ids,
                   br_accepted = 0, br_failed = length ids\<rparr>, t'\<lparr>seen := outside t'\<rparr>)
        | (None, t') \<Rightarrow>
            and_then (commit_tx env fault PDatabase)
              (\<lambda>_. give \<lparr>br_results = map (\<lambda>f. \<lparr>bi_id = f, bi_ok = True, bi_error = ''''\<rparr>) ids,
                       br_accepted = length ids, br_failed = 0\<rparr>) t'))"

fun batch_loop :: "p_others \<Rightarrow> faults \<Rightarrow> uuid option \<Rightarrow> clock \<Rightarrow> proposal_status \<Rightarrow> nat \<Rightarrow> uuid list \<Rightarrow> batch_result
    \<Rightarrow> batch_result pprog" where
  "batch_loop env fault scope clock status k [] acc t = (Inr acc, t)"
| "batch_loop env fault scope clock status k (i # ids) acc t =
     (case Resolve_sq (\<lambda>name. env (numbered name k)) (\<lambda>name. fault (numbered name k)) scope
             (\<lambda>name. clock (numbered name k)) i status t of
        (Inl e, t') \<Rightarrow>
          batch_loop env fault scope clock status (k + 1) ids
            (acc\<lparr>br_results := br_results acc @ [\<lparr>bi_id = i, bi_ok = False, bi_error = BatchItemErrMsg e\<rparr>],
                 br_failed := br_failed acc + 1\<rparr>) t'
      | (Inr _, t') \<Rightarrow>
          batch_loop env fault scope clock status (k + 1) ids
            (acc\<lparr>br_results := br_results acc @ [\<lparr>bi_id = i, bi_ok = True, bi_error = ''''\<rparr>],
                 br_accepted := br_accepted acc + 1\<rparr>) t')"

definition BatchConfirm_sq :: "p_others \<Rightarrow> faults \<Rightarrow> uuid option \<Rightarrow> clock \<Rightarrow> uuid list \<Rightarrow> proposal_status \<Rightarrow> batch_result pprog" where
  "BatchConfirm_sq env fault scope clock ids status =
     (if status \<noteq> StatusAccepted \<and> status \<noteq> StatusRejected then refuse PInvalidStatus
      else batch_loop env fault scope clock status 0 ids \<lparr>br_results = [], br_accepted = 0, br_failed = 0\<rparr>)"

section \<open>Proposals for new knowledge\<close>

definition ConceptCandidate :: "ustr \<Rightarrow> ustr \<Rightarrow> ustr list \<Rightarrow> ustr \<Rightarrow> ustr \<Rightarrow> struct_field list" where
  "ConceptCandidate title content tags item_id item_type =
     [\<lparr>sf_name = ''title'', sf_omitempty = False, sf_value = MStr title\<rparr>,
      \<lparr>sf_name = ''content'', sf_omitempty = False, sf_value = MStr content\<rparr>,
      \<lparr>sf_name = ''tags'', sf_omitempty = True, sf_value = MStrs tags\<rparr>,
      \<lparr>sf_name = ''source_item_id'', sf_omitempty = True, sf_value = MStr item_id\<rparr>,
      \<lparr>sf_name = ''source_item_type'', sf_omitempty = True, sf_value = MStr item_type\<rparr>]"

definition MarshalConceptCandidate :: "struct_field list \<Rightarrow> payload_text" where
  "MarshalConceptCandidate c = Marshal False c"

definition ShouldAutoProposeFor :: "knowledge_item option \<Rightarrow> bool" where
  "ShouldAutoProposeFor item = (case item of
     None \<Rightarrow> False
   | Some k \<Rightarrow> if kn_title k = [] then False else kn_type k \<in> {''article'', ''til'', ''zettelkasten''})"

definition concept_proposal :: "knowledge_item \<Rightarrow> ustr \<Rightarrow> create_proposal" where
  "concept_proposal k by =
     \<lparr>cq_workspace = None, cq_type = TypeConcept,
      cq_payload = MarshalConceptCandidate
        (ConceptCandidate (kn_title k) (kn_content k) (kn_tags k) (uuid_text (kn_id k)) (lit (kn_type k))),
      cq_by = by\<rparr>"

definition AutoPropose_pg :: "p_others \<Rightarrow> faults \<Rightarrow> uuid option \<Rightarrow> clock \<Rightarrow> uuid \<Rightarrow> knowledge_item option \<Rightarrow> ustr \<Rightarrow> proposal option pprog" where
  "AutoPropose_pg env fault scope clock nid item by =
     (if \<not> ShouldAutoProposeFor item then give None
      else and_then (Create_pg env fault scope clock nid (concept_proposal (the item) by)) (\<lambda>r. give (Some r)))"

definition AutoPropose_sq :: "p_others \<Rightarrow> faults \<Rightarrow> uuid option \<Rightarrow> clock \<Rightarrow> uuid \<Rightarrow> knowledge_item option \<Rightarrow> ustr \<Rightarrow> proposal option pprog" where
  "AutoPropose_sq env fault scope clock nid item by =
     (if \<not> ShouldAutoProposeFor item then give None
      else and_then (Create_sq env fault scope clock nid (concept_proposal (the item) by)) (\<lambda>r. give (Some r)))"

section \<open>Retention\<close>

definition nanos_per_day :: int where
  "nanos_per_day = 24 * 3600 * 1000000000"

definition pendingProposalsResolvedRetentionDuration :: int where
  "pendingProposalsResolvedRetentionDuration = 90 * nanos_per_day"
definition pendingProposalsPendingDecisionRetentionDuration :: int where
  "pendingProposalsPendingDecisionRetentionDuration = 180 * nanos_per_day"
definition pendingProposalsPendingTaskRetentionDuration :: int where
  "pendingProposalsPendingTaskRetentionDuration = 30 * nanos_per_day"
definition pendingProposalsPendingGoalFamilyTTLRetentionDuration :: int where
  "pendingProposalsPendingGoalFamilyTTLRetentionDuration = 90 * nanos_per_day"
definition pendingProposalsTaskTTLReason :: ustr where
  "pendingProposalsTaskTTLReason = lit ''ttl-expired-30d''"
definition pendingProposalsGoalFamilyTTLReason :: ustr where
  "pendingProposalsGoalFamilyTTLReason = lit ''ttl-expired-90d''"

definition goal_family :: "string list" where
  "goal_family = [TypeGoal, TypeProject, TypeConcept, TypeKnowledge, TypePlaybook]"

definition review_task :: "proposal \<Rightarrow> bool" where
  "review_task r \<longleftrightarrow> pp_type r = TypeTask \<and> text_of (pp_proposed_by r) = lit ''scheduler:decision_outcome_review''"

definition stale_task :: "instant \<Rightarrow> proposal \<Rightarrow> bool" where
  "stale_task cutoff r \<longleftrightarrow> pp_status r = StatusPending \<and> pp_type r = TypeTask \<and> pp_created r < cutoff"

definition stale_family :: "instant \<Rightarrow> proposal \<Rightarrow> bool" where
  "stale_family cutoff r \<longleftrightarrow> pp_status r = StatusPending \<and> pp_type r \<in> set goal_family \<and> pp_created r < cutoff"

definition prunable :: "instant \<Rightarrow> instant \<Rightarrow> proposal \<Rightarrow> bool" where
  "prunable resolvedCutoff decisionCutoff r \<longleftrightarrow>
     (pp_status r \<in> {StatusAccepted, StatusRejected} \<and>
      (case pp_resolved r of None \<Rightarrow> False | Some d \<Rightarrow> d < resolvedCutoff) \<and> \<not> review_task r) \<or>
     (pp_status r = StatusPending \<and> pp_type r = TypeDecision \<and> pp_created r < decisionCutoff)"

definition expire :: "instant \<Rightarrow> ustr \<Rightarrow> proposal \<Rightarrow> proposal" where
  "expire at reason r = r\<lparr>pp_status := StatusRejected, pp_resolved := Some at, pp_reason := Some reason\<rparr>"

definition mark_rows :: "(proposal \<Rightarrow> bool) \<Rightarrow> instant \<Rightarrow> ustr \<Rightarrow> proposal_db \<Rightarrow> proposal_error + nat \<times> proposal_db" where
  "mark_rows P at reason s =
     Inr (length (filter P (proposals s)), s\<lparr>proposals := update_rows P (expire at reason) (proposals s)\<rparr>)"

definition delete_rows :: "(proposal \<Rightarrow> bool) \<Rightarrow> proposal_db \<Rightarrow> proposal_error + nat \<times> proposal_db" where
  "delete_rows P s = Inr (length (filter P (proposals s)), s\<lparr>proposals := filter (\<lambda>r. \<not> P r) (proposals s)\<rparr>)"

text \<open>Every failure of a step is logged and the next step runs.\<close>

definition logged :: "nat pprog \<Rightarrow> nat pprog" where
  "logged m t = (case m t of (Inl e, t') \<Rightarrow> (Inr 0, t') | (Inr n, t') \<Rightarrow> (Inr n, t'))"

definition MarkAndDeleteStaleProposals :: "p_others \<Rightarrow> faults \<Rightarrow> clock \<Rightarrow> int \<Rightarrow> int \<Rightarrow> int \<Rightarrow> ustr
    \<Rightarrow> proposal_db txn \<Rightarrow> (nat \<times> nat \<times> proposal_error list) \<times> proposal_db txn" where
  "MarkAndDeleteStaleProposals env fault clock taskRetention decisionRetention resolvedRetention markReason t =
     (let now = clock ''now'';
          taskCutoff = sq_ts (now - taskRetention);
          decisionCutoff = sq_ts (now - decisionRetention);
          resolvedCutoff = sq_ts (now - resolvedRetention)
      in case direct env fault ''mark'' (mark_rows (stale_task taskCutoff) (sq_ts (clock ''marked'')) markReason) t of
           (marked, t') \<Rightarrow>
             (case direct env fault ''delete'' (delete_rows (prunable resolvedCutoff decisionCutoff)) t' of
                (deleted, t'') \<Rightarrow>
                  ((case marked of Inl e \<Rightarrow> 0 | Inr n \<Rightarrow> n, case deleted of Inl e \<Rightarrow> 0 | Inr n \<Rightarrow> n,
                    (case marked of Inl e \<Rightarrow> [e] | Inr n \<Rightarrow> []) @ (case deleted of Inl e \<Rightarrow> [e] | Inr n \<Rightarrow> [])), t'')))"

definition MarkStaleGoalFamilyProposals :: "p_others \<Rightarrow> faults \<Rightarrow> clock \<Rightarrow> int \<Rightarrow> ustr \<Rightarrow> bool \<Rightarrow> nat pprog" where
  "MarkStaleGoalFamilyProposals env fault clock retention markReason dryRun =
     (let cutoff = sq_ts (clock ''family'' - retention) in
      if dryRun then direct env fault ''family''
          (reading (\<lambda>s. Inr (length (filter (stale_family cutoff) (proposals s)))))
      else direct env fault ''family'' (mark_rows (stale_family cutoff) (sq_ts (clock ''family marked'')) markReason))"

definition runDailyPendingProposalsPruneSQLite :: "bool \<Rightarrow> p_others \<Rightarrow> faults \<Rightarrow> clock \<Rightarrow> proposal_db txn \<Rightarrow> proposal_db txn" where
  "runDailyPendingProposalsPruneSQLite dryRun env fault clock t =
     (let t1 = snd (logged (MarkStaleGoalFamilyProposals env fault clock pendingProposalsPendingGoalFamilyTTLRetentionDuration
             pendingProposalsGoalFamilyTTLReason dryRun) t)
      in snd (MarkAndDeleteStaleProposals env fault clock pendingProposalsPendingTaskRetentionDuration
             pendingProposalsPendingDecisionRetentionDuration pendingProposalsResolvedRetentionDuration
             pendingProposalsTaskTTLReason t1))"

definition markStaleGoalFamilyProposalsPG :: "bool \<Rightarrow> p_others \<Rightarrow> faults \<Rightarrow> clock \<Rightarrow> nat pprog" where
  "markStaleGoalFamilyProposalsPG dryRun env fault clock =
     (let now = pg_ts (clock ''family''); cutoff = now - pendingProposalsPendingGoalFamilyTTLRetentionDuration in
      if dryRun then logged (direct env fault ''family''
          (reading (\<lambda>s. Inr (length (filter (stale_family cutoff) (proposals s))))))
      else logged (direct env fault ''family'' (mark_rows (stale_family cutoff) now pendingProposalsGoalFamilyTTLReason)))"

definition runDailyPendingProposalsPrunePG :: "bool \<Rightarrow> p_others \<Rightarrow> faults \<Rightarrow> clock \<Rightarrow> proposal_db txn \<Rightarrow> proposal_db txn" where
  "runDailyPendingProposalsPrunePG dryRun env fault clock t =
     (let marked = pg_ts (clock ''mark''); deleted = pg_ts (clock ''delete'');
          t1 = snd (logged (direct env fault ''mark''
                 (mark_rows (stale_task (marked - pendingProposalsPendingTaskRetentionDuration)) marked
                    pendingProposalsTaskTTLReason)) t);
          t2 = snd (markStaleGoalFamilyProposalsPG dryRun env fault clock t1)
      in snd (logged (direct env fault ''delete''
           (delete_rows (prunable (deleted - pendingProposalsResolvedRetentionDuration)
                                  (deleted - pendingProposalsPendingDecisionRetentionDuration)))) t2))"

end
