(* ===== verification/Validator.thy ===== *)
theory Validator
  imports Safe_Text Gtd_Model
begin

text \<open>
  The text rules of \<open>internal/validator\<close> and \<open>internal/sanitize\<close> that gate a task or a decision: the
  task kinds (\<open>task_kind.go\<close>), vague descriptions (\<open>vagueness.go\<close>), their composition
  (\<open>task_input.go\<close>), fragments of serialised tool calls (\<open>tagnoise.go\<close>) and control characters
  (\<open>controlchars.go\<close>).

  Positions count code points where the code counts bytes; every character it looks at next to a
  position is matched whole.  \<open>strings.ToUpper\<close> is exact for the comparisons it is used in: besides the
  ASCII letters the two code points whose upper case is ASCII are mapped.  \<open>%q\<close> is the parameter
  \<open>quote\<close> where it is applied to text of the caller.
\<close>

section \<open>Task kinds\<close>

definition KindGeneral :: string where
  "KindGeneral = ''general''"

definition known_kind :: "ustr \<Rightarrow> string option" where
  "known_kind kind = List.find (\<lambda>k. lit k = kind) ValidTaskKinds"

definition IsValidKind :: "ustr \<Rightarrow> bool" where
  "IsValidKind kind \<longleftrightarrow> known_kind kind \<noteq> None"

definition maxKindWarningRunes :: nat where
  "maxKindWarningRunes = 80"

definition kindForWarning :: "ustr \<Rightarrow> ustr" where
  "kindForWarning kind =
     (let display = NeutralizeBoundaryMarkers (if maxKindWarningRunes < length kind then take maxKindWarningRunes kind else kind);
          truncated = (maxKindWarningRunes < length kind \<or> maxKindWarningRunes < length display);
          display = (if maxKindWarningRunes < length display then take maxKindWarningRunes display else display)
      in if truncated then display @ 8230 # lit ''(truncated)'' else display)"

text \<open>The resolved kind, and a warning that is empty when the kind was accepted.\<close>

definition ResolveTaskKind :: "(ustr \<Rightarrow> ustr) \<Rightarrow> ustr \<Rightarrow> string \<times> ustr" where
  "ResolveTaskKind quote kind =
     (if kind = [] then (KindGeneral, [])
      else case known_kind kind of
          Some k \<Rightarrow> (k, [])
        | None \<Rightarrow> (KindGeneral,
            lit ''kind '' @ quote (kindForWarning kind) @ lit '' is not a valid task kind; falling back to general''))"

definition kindRequiredSections :: "string \<Rightarrow> string list" where
  "kindRequiredSections kind =
     (if kind = ''fix-pr'' then [''branch'', ''acceptance'']
      else if kind = ''feature'' then [''acceptance'', ''risk'']
      else if kind = ''refactor'' then [''scope'', ''non-goals'']
      else if kind = ''research'' then [''question'', ''success-criteria'']
      else [])"

fun split_lines :: "ustr \<Rightarrow> ustr list" where
  "split_lines [] = [[]]"
| "split_lines (c # s) =
     (if c = 10 then [] # split_lines s
      else case split_lines s of l # ls \<Rightarrow> (c # l) # ls | [] \<Rightarrow> [[c]])"

definition heads_section :: "ustr \<Rightarrow> ustr \<Rightarrow> bool" where
  "heads_section label line =
     (let head = TrimSpace line in
      if \<not> prefix [35] head then False
      else (let head = TrimSpace (dropWhile (\<lambda>c. c = 35) head) in
        if head = label then True
        else if \<not> prefix label head then False
        else case drop (length label) head of
            [] \<Rightarrow> False
          | c # _ \<Rightarrow> c \<in> {32, 9, 58, 45, 40, 47}))"

definition hasKindSection :: "ustr \<Rightarrow> ustr \<Rightarrow> bool" where
  "hasKindSection lowerDescription label =
     (if sublist (label @ [58]) lowerDescription then True
      else list_ex (heads_section label) (split_lines lowerDescription))"

section \<open>File references\<close>

definition isFilePathByte :: "rune \<Rightarrow> bool" where
  "isFilePathByte b \<longleftrightarrow> (97 \<le> b \<and> b \<le> 122) \<or> (65 \<le> b \<and> b \<le> 90) \<or> (48 \<le> b \<and> b \<le> 57) \<or> b \<in> {95, 46, 45, 47}"

definition extractPathBeforeColon :: "ustr \<Rightarrow> nat \<Rightarrow> ustr" where
  "extractPathBeforeColon s colonIdx = rev (takeWhile isFilePathByte (rev (take colonIdx s)))"

definition hasFileLineRef :: "ustr \<Rightarrow> bool" where
  "hasFileLineRef s =
     list_ex (\<lambda>i. s ! i = 58 \<and> i + 1 < length s \<and> 48 \<le> s ! (i + 1) \<and> s ! (i + 1) \<le> 57 \<and>
         (let seg = extractPathBeforeColon s i in seg \<noteq> [] \<and> (suffix (lit ''.go'') seg \<or> 47 \<in> set seg)))
       [0..<length s]"

definition plain_quote :: "string \<Rightarrow> ustr" where
  "plain_quote s = 34 # lit s @ [34]"

definition CheckKindFields :: "string \<Rightarrow> ustr \<Rightarrow> ustr list" where
  "CheckKindFields kind description =
     (let lower = ToLower description in
      map (\<lambda>label. lit kind @ lit '' task: description should contain '' @ plain_quote (label @ '':'') @ lit '' or a ''
            @ plain_quote (''## '' @ label) @ lit '' heading'')
          (filter (\<lambda>label. \<not> hasKindSection lower (lit label)) (kindRequiredSections kind)) @
      (if kind = ''fix-pr'' \<and> \<not> hasFileLineRef description
       then [lit ''fix-pr task: description should contain at least one file:line reference''] else []))"

section \<open>Vagueness\<close>

definition vaguenessMarkers :: "string list" where
  "vaguenessMarkers = [''TBD'', ''???'', ''N/A'', ''TODO'', ''FIXME'', ''WIP'', ''(BLANK)'',
     ''AUTO-CAPTURED FROM MCP'', ''AUTO-CAPTURED FROM ACTIVITY LOG'']"

definition vaguenessPhrasesLower :: "ustr list" where
  "vaguenessPhrasesLower =
     [lit ''see audit'', lit ''see above'', lit ''see below'',
      [35211, 19978, 38754], [35211, 23565, 35441], [35211, 32, 99, 104, 97, 116],
      lit ''as discussed'', lit ''various items'', lit ''several things'', lit ''multiple issues'',
      [26356, 22810, 32048, 31680], [35443, 35211], [35443, 36848], [31561, 31561],
      lit ''auto-captured from mcp'', lit ''auto-captured from activity log'']"

definition minDescriptionRunes :: nat where
  "minDescriptionRunes = 30"

definition lueChar :: rune where
  "lueChar = 30053"

definition lueCompounds :: "ustr list" where
  "lueCompounds = [[24573, 30053], [31574, 30053], [27010, 30053], [31895, 30053], [32004, 30053],
     [22823, 30053], [25136, 30053], [38936, 30053], [20405, 30053], [25915, 30053]]"

definition lueOmitCompounds :: "ustr list" where
  "lueOmitCompounds = [[30465, 30053], [30053, 36942], [31777, 30053], [32302, 30053]]"

definition lueTerminators :: "rune list" where
  "lueTerminators = [44, 46, 59, 58, 33, 63, 41, 93, 65292, 12290, 12289, 65307, 65306, 65281, 65311, 8230,
     65289, 65341, 12305]"

definition lueClosers :: "rune list" where
  "lueClosers = [12301, 12303, 8221, 8217, 65282, 12318, 187, 12299, 12297, 12309, 125, 62, 65373, 34, 39, 96,
     42, 95, 126, 65290, 65344]"

fun content_after :: "bool \<Rightarrow> ustr \<Rightarrow> bool" where
  "content_after sawSpace [] = False"
| "content_after sawSpace (r # s) =
     (if r \<in> {32, 9, 160, 12288} then content_after True s
      else if r \<in> {10, 13} then False
      else if r \<in> set lueClosers then (if sawSpace then True else content_after sawSpace s)
      else r \<notin> set lueTerminators)"

definition contentFollows :: "ustr \<Rightarrow> nat \<Rightarrow> bool" where
  "contentFollows s end = content_after False (drop end s)"

definition index_of :: "rune \<Rightarrow> ustr \<Rightarrow> nat" where
  "index_of c w = length (takeWhile (\<lambda>x. x \<noteq> c) w)"

definition lueCovers :: "ustr \<Rightarrow> nat \<Rightarrow> ustr \<Rightarrow> nat option" where
  "lueCovers lower pos w =
     (if pos < index_of lueChar w then None
      else (let start = pos - index_of lueChar w in
        if prefix w (drop start lower) then Some (start + length w) else None))"

definition lueExempt :: "ustr \<Rightarrow> nat \<Rightarrow> bool" where
  "lueExempt lower pos \<longleftrightarrow>
     list_ex (\<lambda>w. lueCovers lower pos w \<noteq> None) lueCompounds \<or>
     list_ex (\<lambda>w. case lueCovers lower pos w of Some e \<Rightarrow> contentFollows lower e | None \<Rightarrow> False) lueOmitCompounds"

definition hasPlaceholderLue :: "ustr \<Rightarrow> bool" where
  "hasPlaceholderLue lower = list_ex (\<lambda>pos. lower ! pos = lueChar \<and> \<not> lueExempt lower pos) [0..<length lower]"

definition upper_rune :: "rune \<Rightarrow> rune" where
  "upper_rune r = (if 97 \<le> r \<and> r \<le> 122 then r - 32 else if r = 305 then 73 else if r = 383 then 83 else r)"

definition ToUpper :: "ustr \<Rightarrow> ustr" where
  "ToUpper s = map upper_rune s"

definition CheckVagueness :: "string \<Rightarrow> ustr \<Rightarrow> string \<Rightarrow> ustr list" where
  "CheckVagueness field s kind =
     (if kind = ''chore'' then []
      else
        map (\<lambda>marker. lit field @ lit '': contains vague marker '' @ lit marker)
          (filter (\<lambda>marker. sublist (lit marker) (ToUpper s)) vaguenessMarkers) @
        map (\<lambda>phrase. lit field @ lit '': contains vague phrase '' @ 34 # phrase @ [34])
          (filter (\<lambda>phrase. sublist phrase (ToLower s)) vaguenessPhrasesLower) @
        (if hasPlaceholderLue (ToLower s) then [lit field @ lit '': contains vague phrase '' @ [34, lueChar, 34]] else []) @
        (if length (TrimSpace s) < minDescriptionRunes \<and> \<not> hasFileLineRef s
         then [lit field @ lit '': too short (< 30 chars) and no file:line reference''] else []))"

definition CheckTaskInput :: "ustr \<Rightarrow> string \<Rightarrow> ustr list" where
  "CheckTaskInput description kind =
     CheckVagueness ''description'' description kind @ CheckKindFields kind description"

section \<open>Fragments of tool calls\<close>

definition xmlTagRe :: "item list" where
  "xmlTagRe = [Lit (lit ''</''), Fold (map lit [''intent'', ''context_summary'', ''repo_name'', ''rationale'',
     ''alternatives'', ''invoke'', ''parameter'', ''decision'', ''context'']), Lit (lit ''>'')]"

definition paramTagRe :: "item list" where
  "paramTagRe = [Fold [lit ''<parameter''], AtLeast regex_space 1, Fold [lit ''name='']]"

definition invokeTagRe :: "item list" where
  "invokeTagRe = [Lit (lit ''<''), Optional (\<lambda>r. r = 47), Fold [lit ''invoke''], Times (\<lambda>r. r = 62 \<or> r = 32) 1]"

fun FindStringIndex :: "item list \<Rightarrow> nat \<Rightarrow> ustr \<Rightarrow> (nat \<times> nat) option" where
  "FindStringIndex re i [] = map_option (\<lambda>n. (i, i + n)) (match_len re [])"
| "FindStringIndex re i (c # s) =
     (case match_len re (c # s) of
        Some n \<Rightarrow> Some (i, i + n)
      | None \<Rightarrow> FindStringIndex re (i + 1) s)"

definition findFragmentMatch :: "ustr \<Rightarrow> (nat \<times> nat) option" where
  "findFragmentMatch s =
     fold (\<lambda>re best. case (FindStringIndex re 0 s, best) of
         (None, _) \<Rightarrow> best
       | (Some loc, None) \<Rightarrow> Some loc
       | (Some loc, Some b) \<Rightarrow> if fst loc < fst b then Some loc else Some b)
       [xmlTagRe, paramTagRe, invokeTagRe] None"

definition excerptWindowRunes :: nat where
  "excerptWindowRunes = 10"

definition excerptAround :: "ustr \<Rightarrow> nat \<Rightarrow> nat \<Rightarrow> ustr" where
  "excerptAround s start end =
     (let from = start - excerptWindowRunes; upto = min (end + excerptWindowRunes) (length s)
      in take (upto - from) (drop from s))"

definition ContainsToolCallFragment :: "ustr \<Rightarrow> bool" where
  "ContainsToolCallFragment s \<longleftrightarrow>
     FindStringIndex xmlTagRe 0 s \<noteq> None \<or> FindStringIndex paramTagRe 0 s \<noteq> None \<or> FindStringIndex invokeTagRe 0 s \<noteq> None"

text \<open>The excerpt the error carries, or \<open>None\<close>.\<close>

definition ValidateNoTagNoise :: "ustr \<Rightarrow> ustr option" where
  "ValidateNoTagNoise s = map_option (\<lambda>(start, end). excerptAround s start end) (findFragmentMatch s)"

section \<open>Control characters\<close>

datatype control_error = ErrControlChar | TextExceeds nat

fun reject_from :: "ustr \<Rightarrow> nat \<Rightarrow> nat \<Rightarrow> bool \<Rightarrow> control_error option" where
  "reject_from [] n maxRunes allowNewline = None"
| "reject_from (r # s) n maxRunes allowNewline =
     (if r = 0 then Some ErrControlChar
      else if r \<noteq> 9 \<and> r < 32 \<and> (\<not> allowNewline \<or> r \<noteq> 10 \<and> r \<noteq> 13) then Some ErrControlChar
      else if maxRunes < n + 1 then Some (TextExceeds maxRunes)
      else reject_from s (n + 1) maxRunes allowNewline)"

definition RejectControlChars :: "ustr \<Rightarrow> nat \<Rightarrow> bool \<Rightarrow> control_error + ustr" where
  "RejectControlChars s maxRunes allowNewline =
     (case reject_from s 0 maxRunes allowNewline of Some e \<Rightarrow> Inl e | None \<Rightarrow> Inr s)"

section \<open>Facts\<close>

lemma known_kind_Some: "known_kind kind = Some k \<Longrightarrow> k \<in> set ValidTaskKinds \<and> lit k = kind"
  by (auto simp: known_kind_def find_Some_iff)

lemma ResolveTaskKind_valid: "fst (ResolveTaskKind quote kind) \<in> set ValidTaskKinds"
  by (auto simp: ResolveTaskKind_def KindGeneral_def ValidTaskKinds_def dest: known_kind_Some split: option.split)

lemma kindForWarning_length: "length (kindForWarning kind) \<le> 92"
  by (simp add: kindForWarning_def maxKindWarningRunes_def Let_def)

lemma findFragmentMatch_None: "findFragmentMatch s = None \<longleftrightarrow> \<not> ContainsToolCallFragment s"
  by (auto simp: findFragmentMatch_def ContainsToolCallFragment_def split: option.split)

lemma ValidateNoTagNoise_None: "ValidateNoTagNoise s = None \<longleftrightarrow> \<not> ContainsToolCallFragment s"
  by (simp add: ValidateNoTagNoise_def findFragmentMatch_None)

end
