(* ===== verification/Proposal_Decode.thy ===== *)
theory Proposal_Decode
  imports Proposal_Model Validator
begin

text \<open>
  What a proposal's payload decodes to: \<open>internal/proposal/accept_decode.go\<close> (used when the HTTP handler
  accepts), the decoders of \<open>internal/mcp/tools_proposal.go\<close> (used when an agent accepts), and the gates
  \<open>internal/handler/proposal_handler.go\<close> runs before it opens a transaction.  \<open>uuid.Parse\<close> is the parameter
  \<open>parse_uuid\<close>, \<open>%q\<close> the parameter \<open>quote\<close>; \<open>strict\<close> is \<open>WBT_STRICT_VAGUENESS\<close>.
\<close>

section \<open>Parameters of the entities\<close>

record create_goal_params =
  cg_title :: ustr
  cg_area :: ustr
  cg_description :: ustr
  cg_due :: "instant option"

record concept_payload =
  cn_title :: ustr
  cn_content :: ustr
  cn_tags :: "ustr list"

record log_params =
  lp_project :: "uuid option"
  lp_task :: "uuid option"
  lp_repo :: ustr
  lp_title :: ustr
  lp_context :: ustr
  lp_decision :: ustr
  lp_rationale :: ustr
  lp_alternatives :: ustr
  lp_source :: string
  lp_session :: ustr
  lp_human :: bool

record knowledge_payload =
  kp_title :: ustr
  kp_content :: ustr
  kp_tags :: "ustr list"

record playbook_params =
  pl_workspace :: "uuid option"
  pl_trigger :: ustr
  pl_action :: ustr
  pl_sources :: "uuid list"

section \<open>Goals and projects\<close>

text \<open>The decoders of the two packages differ in the errors of JSON, of a date and of an identifier only.\<close>

definition goal_params :: "decode_error \<Rightarrow> decode_error \<Rightarrow> payload_text \<Rightarrow> decode_error + create_goal_params" where
  "goal_params bad_json bad_date payload =
     (case struct_members payload of
        None \<Rightarrow> Inl bad_json
      | Some kvs \<Rightarrow>
          (case (string_field ''title'' kvs, string_field ''area'' kvs, string_field ''description'' kvs, string_field ''due_date'' kvs) of
             (Some title, Some area, Some description, Some due) \<Rightarrow>
               if title = [] then Inl (InvalidField ''goal payload missing title'')
               else if 512 < byte_len title then Inl (InvalidField ''goal title exceeds 512 bytes'')
               else if 512 < byte_len area then Inl (InvalidField ''goal area exceeds 512 bytes'')
               else if 65536 < byte_len description then Inl (InvalidField ''goal description exceeds 64 KB'')
               else if due = [] then Inr \<lparr>cg_title = title, cg_area = area, cg_description = description, cg_due = None\<rparr>
               else (case ParseRFC3339 due of
                       None \<Rightarrow> Inl bad_date
                     | Some t \<Rightarrow> Inr \<lparr>cg_title = title, cg_area = area, cg_description = description, cg_due = Some t\<rparr>)
           | _ \<Rightarrow> Inl bad_json))"

definition DecodeGoalParams :: "payload_text \<Rightarrow> decode_error + create_goal_params" where
  "DecodeGoalParams = goal_params (MalformedJson ''decoding goal payload'') (InvalidField ''invalid due_date in payload'')"

definition decodeGoalParams :: "payload_text \<Rightarrow> decode_error + create_goal_params" where
  "decodeGoalParams = goal_params (InvalidField ''decoding goal payload failed'') (InvalidField ''parsing due_date in payload failed'')"

definition no_project :: create_project_params where
  "no_project = \<lparr>cp_goal = None, cp_name = [], cp_title = [], cp_description = [], cp_area = [], cp_priority = 0, cp_repo = []\<rparr>"

definition project_params :: "(ustr \<Rightarrow> uuid option) \<Rightarrow> decode_error \<Rightarrow> decode_error \<Rightarrow> payload_text \<Rightarrow> decode_error + create_project_params" where
  "project_params parse_uuid bad_json bad_goal payload =
     (case struct_members payload of
        None \<Rightarrow> Inl bad_json
      | Some kvs \<Rightarrow>
          (case (string_field ''name'' kvs, string_field ''title'' kvs, string_field ''area'' kvs, string_field ''description'' kvs,
                 string_field ''goal_id'' kvs, int32_field ''priority'' kvs) of
             (Some name, Some title, Some area, Some description, Some goal, Some priority) \<Rightarrow>
               if title = [] then Inl (InvalidField ''project payload missing title'')
               else if 512 < byte_len name then Inl (InvalidField ''project name exceeds 512 bytes'')
               else if 512 < byte_len title then Inl (InvalidField ''project title exceeds 512 bytes'')
               else if 512 < byte_len area then Inl (InvalidField ''project area exceeds 512 bytes'')
               else if 65536 < byte_len description then Inl (InvalidField ''project description exceeds 64 KB'')
               else if priority \<noteq> 0 \<and> (priority < 1 \<or> 5 < priority) then Inl (InvalidField ''project priority must be 1-5'')
               else (let pp = no_project\<lparr>cp_name := name, cp_title := title, cp_area := area, cp_description := description,
                                        cp_priority := priority\<rparr>
                     in if goal = [] then Inr pp
                        else (case parse_uuid goal of None \<Rightarrow> Inl bad_goal | Some g \<Rightarrow> Inr (pp\<lparr>cp_goal := Some g\<rparr>)))
           | _ \<Rightarrow> Inl bad_json))"

definition DecodeProjectParams :: "(ustr \<Rightarrow> uuid option) \<Rightarrow> payload_text \<Rightarrow> decode_error + create_project_params" where
  "DecodeProjectParams parse_uuid =
     project_params parse_uuid (MalformedJson ''decoding project payload'') (InvalidField ''invalid goal_id in payload'')"

definition decodeProjectParams :: "(ustr \<Rightarrow> uuid option) \<Rightarrow> payload_text \<Rightarrow> decode_error + create_project_params" where
  "decodeProjectParams parse_uuid =
     project_params parse_uuid (InvalidField ''decoding project payload failed'') (InvalidField ''parsing goal_id in payload failed'')"

section \<open>Concepts and knowledge\<close>

text \<open>Three decoders: the seam's, the MCP path's and the handler's gate, with their own error texts.\<close>

definition concept_params :: "decode_error \<Rightarrow> decode_error \<Rightarrow> payload_text \<Rightarrow> decode_error + concept_payload" where
  "concept_params bad_json long_title payload =
     (case struct_members payload of
        None \<Rightarrow> Inl bad_json
      | Some kvs \<Rightarrow>
          (case (string_field ''title'' kvs, string_field ''content'' kvs, strings_field ''tags'' kvs,
                 string_field ''source_item_id'' kvs, string_field ''source_item_type'' kvs) of
             (Some title, Some content, Some tags, Some _, Some _) \<Rightarrow>
               if 512 < byte_len title then Inl long_title
               else if 65536 < byte_len content then Inl (InvalidField ''concept content exceeds 64 KB'')
               else if 50 < length tags then Inl (InvalidField ''too many tags (max 50)'')
               else Inr \<lparr>cn_title = title, cn_content = content, cn_tags = tags\<rparr>
           | _ \<Rightarrow> Inl bad_json))"

definition DecodeConceptPayload :: "payload_text \<Rightarrow> decode_error + concept_payload" where
  "DecodeConceptPayload = concept_params (MalformedJson ''decoding concept payload'') (InvalidField ''concept title exceeds 512 bytes'')"

definition decodeConceptPayload :: "payload_text \<Rightarrow> decode_error + concept_payload" where
  "decodeConceptPayload = concept_params (InvalidField ''decoding concept payload failed'') (InvalidField ''concept title exceeds 512 bytes'')"

definition decodeConceptCandidatePayload :: "payload_text \<Rightarrow> decode_error + concept_payload" where
  "decodeConceptCandidatePayload =
     concept_params (InvalidField ''concept proposal payload is malformed'') (InvalidField ''concept title exceeds 512 characters'')"

definition knowledge_params :: "decode_error \<Rightarrow> payload_text \<Rightarrow> decode_error + knowledge_payload" where
  "knowledge_params bad_json payload =
     (case struct_members payload of
        None \<Rightarrow> Inl bad_json
      | Some kvs \<Rightarrow>
          (case (string_field ''title'' kvs, string_field ''content'' kvs, strings_field ''tags'' kvs, string_field ''source_entity_id'' kvs) of
             (Some title, Some content, Some tags, Some _) \<Rightarrow>
               if title = [] then Inl (InvalidField ''knowledge payload missing title'')
               else if 512 < byte_len title then Inl (InvalidField ''knowledge title exceeds 512 bytes'')
               else if 65536 < byte_len content then Inl (InvalidField ''knowledge content exceeds 64 KB'')
               else if 50 < length tags then Inl (InvalidField ''too many tags (max 50)'')
               else if list_ex (\<lambda>tag. 100 < byte_len tag) tags then Inl (InvalidField ''individual tag exceeds 100 bytes'')
               else Inr \<lparr>kp_title = title, kp_content = content, kp_tags = tags\<rparr>
           | _ \<Rightarrow> Inl bad_json))"

definition DecodeKnowledgePayload :: "payload_text \<Rightarrow> decode_error + knowledge_payload" where
  "DecodeKnowledgePayload = knowledge_params (MalformedJson ''decoding knowledge payload'')"

definition decodeKnowledgePayload :: "payload_text \<Rightarrow> decode_error + knowledge_payload" where
  "decodeKnowledgePayload = knowledge_params (InvalidField ''decoding knowledge payload failed'')"

section \<open>Decisions\<close>

definition SourceManual :: string where "SourceManual = ''manual''"
definition SourceAuto :: string where "SourceAuto = ''auto''"

definition with_alternatives :: "ustr \<Rightarrow> ustr list \<Rightarrow> ustr" where
  "with_alternatives rationale alternatives =
     (if alternatives = [] then rationale
      else fold (\<lambda>a r. r @ 10 # lit ''- '' @ a) alternatives (rationale @ 10 # 10 # lit ''Alternatives considered:''))"

definition decision_params :: "decode_error \<Rightarrow> ustr \<Rightarrow> payload_text \<Rightarrow> decode_error + log_params" where
  "decision_params bad_json session payload =
     (case struct_members payload of
        None \<Rightarrow> Inl bad_json
      | Some kvs \<Rightarrow>
          (case (string_field ''title'' kvs, string_field ''decision'' kvs, string_field ''rationale'' kvs,
                 strings_field ''alternatives'' kvs, string_field ''session_id'' kvs, string_field ''trigger_tool'' kvs) of
             (Some title, Some dec, Some rationale, Some alternatives, Some session_id, Some trigger) \<Rightarrow>
               if title = [] then Inl (InvalidField ''decision payload missing title'')
               else if 512 < byte_len title then Inl (InvalidField ''decision title exceeds 512 bytes'')
               else if 65536 < byte_len dec then Inl (InvalidField ''decision text exceeds 64 KB'')
               else if 65536 < byte_len rationale then Inl (InvalidField ''decision rationale exceeds 64 KB'')
               else if 50 < length alternatives then Inl (InvalidField ''too many alternatives (max 50)'')
               else if list_ex (\<lambda>a. 100 < byte_len a) alternatives then Inl (InvalidField ''individual alternative exceeds 100 bytes'')
               else Inr \<lparr>lp_project = None, lp_task = None, lp_repo = [], lp_title = title,
                      lp_context = lit ''auto-proposed by trigger_tool='' @ trigger @ lit '' session='' @ session_id,
                      lp_decision = dec, lp_rationale = with_alternatives rationale alternatives, lp_alternatives = [],
                      lp_source = SourceAuto, lp_session = session, lp_human = False\<rparr>
           | _ \<Rightarrow> Inl bad_json))"

definition DecodeDecisionParams :: "payload_text \<Rightarrow> decode_error + log_params" where
  "DecodeDecisionParams = decision_params (MalformedJson ''decoding decision payload'') []"

definition decodeDecisionParams :: "ustr \<Rightarrow> payload_text \<Rightarrow> decode_error + log_params" where
  "decodeDecisionParams actorSessionID = decision_params (InvalidField ''decoding decision payload failed'') actorSessionID"

section \<open>Tasks\<close>

definition plain_task :: create_task_params where
  "plain_task = \<lparr>ct_project = None, ct_title = [], ct_description = [], ct_priority = 0, ct_assignee = [], ct_due = None,
     ct_importance = None, ct_context = [], ct_kind = [], ct_branch = None, ct_pr_url = None, ct_vision = None, ct_area = []\<rparr>"

definition task_texts :: "string list" where
  "task_texts = [''source_tool'', ''arg_summary'', ''result_summary'', ''classifier_rationale'', ''source_entity_id'']"

definition checked_task :: "(ustr \<Rightarrow> ustr) \<Rightarrow> ustr \<Rightarrow> ustr \<Rightarrow> ustr \<Rightarrow> bool \<Rightarrow> decode_error + create_task_params \<times> ustr list" where
  "checked_task quote title suggested description strict =
     (case ResolveTaskKind quote suggested of (kind, kindWarning) \<Rightarrow>
        (let warnings = CheckTaskInput description kind;
             warnings = (if kindWarning \<noteq> [] then kindWarning # warnings else warnings)
         in if warnings \<noteq> [] \<and> strict then Inl (VaguenessFailed warnings)
            else Inr (plain_task\<lparr>ct_title := title, ct_description := description, ct_kind := kind\<rparr>, warnings)))"

definition task_params :: "decode_error \<Rightarrow> (ustr \<Rightarrow> ustr) \<Rightarrow> payload_text \<Rightarrow> bool \<Rightarrow> decode_error + create_task_params \<times> ustr list" where
  "task_params bad_json quote payload strict =
     (case struct_members payload of
        None \<Rightarrow> Inl bad_json
      | Some kvs \<Rightarrow>
          (if list_ex (\<lambda>f. string_field f kvs = None) task_texts then Inl bad_json
           else case (string_field ''title'' kvs, string_field ''suggested_kind'' kvs, string_field ''description'' kvs) of
             (Some title, Some suggested, Some description) \<Rightarrow>
               if title = [] then Inl (InvalidField ''task payload missing title'')
               else if 500 < byte_len title then Inl (InvalidField ''task title exceeds 500 characters'')
               else checked_task quote title suggested description strict
           | _ \<Rightarrow> Inl bad_json))"

definition DecodeTaskParams :: "(ustr \<Rightarrow> ustr) \<Rightarrow> payload_text \<Rightarrow> bool \<Rightarrow> decode_error + create_task_params \<times> ustr list" where
  "DecodeTaskParams = task_params (MalformedJson ''decoding task payload'')"

definition decodeTaskProposalParams :: "(ustr \<Rightarrow> ustr) \<Rightarrow> payload_text \<Rightarrow> bool \<Rightarrow> decode_error + create_task_params \<times> ustr list" where
  "decodeTaskProposalParams = task_params (InvalidField ''decoding task payload failed'')"

section \<open>Playbooks\<close>

definition decodePlaybookPayload :: "(ustr \<Rightarrow> uuid option) \<Rightarrow> payload_text \<Rightarrow> uuid option \<Rightarrow> decode_error + playbook_params" where
  "decodePlaybookPayload parse_uuid payload wsID =
     (case struct_members payload of
        None \<Rightarrow> Inl (InvalidField ''decoding playbook payload failed'')
      | Some kvs \<Rightarrow>
          (case (string_field ''trigger_pattern'' kvs, string_field ''action_template'' kvs,
                 list_field parse_uuid 0 ''source_decision_ids'' kvs) of
             (Some trigger, Some action, Some sources) \<Rightarrow>
               if trigger = [] \<or> action = [] then Inl (InvalidField ''playbook payload missing trigger_pattern or action_template'')
               else if 500 < length trigger \<or> 600 < length action then Inl (InvalidField ''playbook payload fields exceed length limits'')
               else Inr \<lparr>pl_workspace = wsID, pl_trigger = trigger, pl_action = action, pl_sources = sources\<rparr>
           | _ \<Rightarrow> Inl (InvalidField ''decoding playbook payload failed'')))"

section \<open>The gates of the handler\<close>

text \<open>A 400 body: a message, an error's own text with whatever its JSON error says, or the warnings.\<close>

datatype bad_request = BadRequest ustr | BadRequestError decode_error | BadRequestWarnings ustr "ustr list"

definition publicDecodeErr :: "decode_error \<Rightarrow> bad_request" where
  "publicDecodeErr e = (case e of MalformedJson p \<Rightarrow> BadRequest (lit p @ lit '': malformed JSON'') | InvalidField m \<Rightarrow> BadRequest (lit m)
     | VaguenessFailed ws \<Rightarrow> BadRequestError e)"

definition taskPayloadGate :: "(ustr \<Rightarrow> ustr) \<Rightarrow> bool \<Rightarrow> payload_text \<Rightarrow> bad_request + ustr list" where
  "taskPayloadGate quote strict payload = (case DecodeTaskParams quote payload False of
     Inl e \<Rightarrow> Inl (publicDecodeErr e)
   | Inr (_, warnings) \<Rightarrow>
       if warnings \<noteq> [] \<and> strict then Inl (BadRequestWarnings (lit ''vagueness check failed'') warnings) else Inr warnings)"

definition validateGoalProjectPayload :: "(ustr \<Rightarrow> uuid option) \<Rightarrow> string \<Rightarrow> payload_text \<Rightarrow> bad_request option" where
  "validateGoalProjectPayload parse_uuid t payload =
     (if t = TypeGoal then
        (case DecodeGoalParams payload of Inl e \<Rightarrow> Some (BadRequest (lit ''goal proposal payload is malformed'')) | Inr _ \<Rightarrow> None)
      else if t = TypeProject then
        (case DecodeProjectParams parse_uuid payload of
           Inl e \<Rightarrow> Some (BadRequest (lit ''project proposal payload is malformed'')) | Inr _ \<Rightarrow> None)
      else if t = TypeKnowledge then (case DecodeKnowledgePayload payload of Inl e \<Rightarrow> Some (BadRequestError e) | Inr _ \<Rightarrow> None)
      else if t = TypeDecision then (case DecodeDecisionParams payload of Inl e \<Rightarrow> Some (publicDecodeErr e) | Inr _ \<Rightarrow> None)
      else if t = TypeConcept then
        (case decodeConceptCandidatePayload payload of Inl e \<Rightarrow> Some (BadRequestError e) | Inr _ \<Rightarrow> None)
      else None)"

definition acceptPayloadGate :: "(ustr \<Rightarrow> ustr) \<Rightarrow> (ustr \<Rightarrow> uuid option) \<Rightarrow> bool \<Rightarrow> string \<Rightarrow> payload_text \<Rightarrow> bad_request + ustr list" where
  "acceptPayloadGate quote parse_uuid strict t payload =
     (if t = TypeTask then taskPayloadGate quote strict payload
      else (case validateGoalProjectPayload parse_uuid t payload of Some b \<Rightarrow> Inl b | None \<Rightarrow> Inr []))"

section \<open>The gates are at least as strict as the decoders of the transaction\<close>

lemma concept_params_ok: "concept_params e1 e2 p = Inr c \<Longrightarrow> concept_params e3 e4 p = Inr c"
  by (auto simp: concept_params_def split: option.splits if_splits)

lemma checked_task_warns:
  "checked_task quote t k d False = Inr (c, ws) \<Longrightarrow> checked_task quote t k d strict =
     (if strict \<and> ws \<noteq> [] then Inl (VaguenessFailed ws) else Inr (c, ws))"
  unfolding checked_task_def Let_def by (auto split: prod.splits)

lemma checked_task_kind: "checked_task quote t k d strict = Inr (c, ws) \<Longrightarrow> ct_kind c \<in> set ValidTaskKinds"
  using ResolveTaskKind_valid [of quote k] unfolding checked_task_def Let_def
  by (cases "ResolveTaskKind quote k") (auto split: if_splits)

lemma task_params_cases:
  assumes "task_params e quote p strict = Inr r"
  obtains t k d where "task_params e' quote p strict' = checked_task quote t k d strict'"
    "checked_task quote t k d strict = Inr r" "t \<noteq> []" "byte_len t \<le> 500"
  using assms unfolding task_params_def by (auto split: option.splits if_splits)

lemma task_params_warns:
  assumes "task_params e quote p False = Inr (c, ws)" and "\<not> strict \<or> ws = []"
  shows "task_params e quote p strict = Inr (c, ws)"
  using assms(1) by (rule task_params_cases [where e' = e and strict' = strict]) (use assms(2) checked_task_warns in auto)

lemma task_params_kind:
  assumes "task_params e quote p strict = Inr (c, ws)"
  shows "ct_kind c \<in> set ValidTaskKinds"
  using assms by (rule task_params_cases) (rule checked_task_kind)

end
