(* ===== verification/Proposal_Accept.thy ===== *)
theory Proposal_Accept
  imports Proposal_Decode Gtd_Postgres
begin

text \<open>
  Accepting a proposal: \<open>internal/proposal/accept_orchestration.go\<close>, its two adapters (\<open>accept_pg.go\<close> and
  \<open>storage/sqlite/accept_proposal.go\<close>) and the statements of the stores they call, which add the row of
  a goal, project, concept, decision, task or knowledge item.

  On Postgres other transactions commit between the statements.  SQLite's pool has one connection, so
  once its transaction is open nobody else commits until it ends.  Computing an embedding and the
  cosine similarity of two texts are the fields of \<open>embedding\<close>; every store is wired.
\<close>

section \<open>What a call is given\<close>

record embedding =
  em_vector :: "ustr \<Rightarrow> bool"                                \<comment> \<open>a client is configured and returns a vector\<close>
  em_duplicate :: "ustr \<Rightarrow> knowledge_item list \<Rightarrow> bool"       \<comment> \<open>the nearest row reaches the threshold\<close>

record call =
  c_scope :: "uuid option"
  c_clock :: clock
  c_nid :: uuid
  c_sid :: uuid
  c_parse :: "ustr \<Rightarrow> uuid option"
  c_quote :: "ustr \<Rightarrow> ustr"
  c_strict :: bool
  c_embed :: embedding

datatype created =
    CrGoal goal
  | CrProject project
  | CrConcept concept
  | CrDecision decision
  | CrTask task
  | CrTaskWarnings task "ustr list"
  | CrKnowledge knowledge_item
  | CrPlaybook playbook
  | CrRef uuid "(string \<times> ustr) list"       \<comment> \<open>\<open>map[string]string\<close> with an id\<close>
  | CrNothing

section \<open>The statements that add a row\<close>

definition goal_of :: "(instant \<Rightarrow> instant) \<Rightarrow> uuid option \<Rightarrow> instant \<Rightarrow> uuid \<Rightarrow> create_goal_params \<Rightarrow> goal" where
  "goal_of ts scope now nid p =
     \<lparr>gl_id = nid, gl_workspace = scope, gl_title = cg_title p, gl_description = nullIfEmpty (cg_description p),
      gl_status = GoalActive, gl_area = nullIfEmpty (cg_area p), gl_due = map_option ts (cg_due p),
      gl_created = ts now, gl_updated = ts now\<rparr>"

definition insert_goal :: "goal \<Rightarrow> proposal_db \<Rightarrow> proposal_error + goal \<times> proposal_db" where
  "insert_goal r s =
     (if gl_id r \<in> set (map gl_id (goals s)) then Inl PConstraint else Inr (r, s\<lparr>goals := goals s @ [r]\<rparr>))"

definition CreateGoal_pg :: "uuid option \<Rightarrow> instant \<Rightarrow> uuid \<Rightarrow> create_goal_params \<Rightarrow> proposal_db \<Rightarrow> proposal_error + goal \<times> proposal_db" where
  "CreateGoal_pg scope now nid p = insert_goal (goal_of pg_ts scope now nid p)"

definition CreateGoalTx :: "uuid option \<Rightarrow> instant \<Rightarrow> uuid \<Rightarrow> create_goal_params \<Rightarrow> proposal_db \<Rightarrow> proposal_error + uuid \<times> proposal_db" where
  "CreateGoalTx scope now nid p s =
     (case insert_goal (goal_of sq_ts scope now nid p) s of Inl e \<Rightarrow> Inl e | Inr (r, s') \<Rightarrow> Inr (nid, s'))"

definition insert_project :: "create_project_params \<Rightarrow> project \<Rightarrow> proposal_db \<Rightarrow> proposal_error + project \<times> proposal_db" where
  "insert_project p r s =
     (if \<not> IsValidRepoName (cp_repo p) then Inl (PGtd GInvalidRepoName)
      else if pj_id r \<in> set (map pj_id (projects (gtd s))) \<or> cp_name p \<in> set (map pj_name (projects (gtd s)))
        then Inl (PGtd GConflict)
      else if \<not> project_check r then Inl (PGtd GConstraint)
      else Inr (r, s\<lparr>gtd := (gtd s)\<lparr>projects := projects (gtd s) @ [r]\<rparr>\<rparr>))"

definition CreateProject_pg :: "uuid option \<Rightarrow> instant \<Rightarrow> uuid \<Rightarrow> create_project_params \<Rightarrow> proposal_db \<Rightarrow> proposal_error + project \<times> proposal_db" where
  "CreateProject_pg scope now nid p =
     insert_project p ((project_of scope now nid p)\<lparr>pj_created := pg_ts now, pj_updated := pg_ts now\<rparr>)"

definition CreateProjectTx :: "uuid option \<Rightarrow> instant \<Rightarrow> uuid \<Rightarrow> create_project_params \<Rightarrow> proposal_db \<Rightarrow> proposal_error + uuid \<times> proposal_db" where
  "CreateProjectTx scope now nid p s =
     (case insert_project p (project_of scope now nid p) s of Inl e \<Rightarrow> Inl e | Inr (r, s') \<Rightarrow> Inr (nid, s'))"

definition concept_of :: "(instant \<Rightarrow> instant) \<Rightarrow> uuid option \<Rightarrow> instant \<Rightarrow> uuid \<Rightarrow> concept_payload \<Rightarrow> concept" where
  "concept_of ts scope now nid p =
     \<lparr>co_id = nid, co_workspace = scope, co_title = cn_title p, co_content = cn_content p, co_tags = cn_tags p,
      co_created = ts now, co_updated = ts now\<rparr>"

definition schedule_of :: "(instant \<Rightarrow> instant) \<Rightarrow> uuid option \<Rightarrow> instant \<Rightarrow> uuid \<Rightarrow> uuid \<Rightarrow> schedule" where
  "schedule_of ts scope now sid nid =
     \<lparr>sh_id = sid, sh_workspace = scope, sh_concept = nid, sh_due = ts now, sh_created = ts now\<rparr>"

definition insert_concept :: "concept \<Rightarrow> proposal_db \<Rightarrow> proposal_error + concept \<times> proposal_db" where
  "insert_concept r s =
     (if co_id r \<in> set (map co_id (concepts s)) then Inl PConstraint else Inr (r, s\<lparr>concepts := concepts s @ [r]\<rparr>))"

definition insert_schedule :: "schedule \<Rightarrow> proposal_db \<Rightarrow> proposal_error + unit \<times> proposal_db" where
  "insert_schedule r s =
     (if sh_id r \<in> set (map sh_id (schedules s)) then Inl PConstraint else Inr ((), s\<lparr>schedules := schedules s @ [r]\<rparr>))"

definition CreateConcept_pg :: "p_others \<Rightarrow> faults \<Rightarrow> call \<Rightarrow> instant \<Rightarrow> concept_payload \<Rightarrow> concept pprog" where
  "CreateConcept_pg env fault c now p =
     and_then (in_tx env fault ''concept'' (insert_concept (concept_of pg_ts (c_scope c) now (c_nid c) p))) (\<lambda>r.
     and_then (in_tx env fault ''schedule'' (insert_schedule (schedule_of pg_ts (c_scope c) now (c_sid c) (c_nid c)))) (\<lambda>_.
       give r))"

definition CreateConceptTx :: "p_others \<Rightarrow> faults \<Rightarrow> call \<Rightarrow> instant \<Rightarrow> concept_payload \<Rightarrow> uuid pprog" where
  "CreateConceptTx env fault c now p =
     and_then (in_tx env fault ''concept'' (insert_concept (concept_of sq_ts (c_scope c) now (c_nid c) p))) (\<lambda>_.
     and_then (in_tx env fault ''schedule'' (insert_schedule (schedule_of sq_ts (c_scope c) now (c_sid c) (c_nid c)))) (\<lambda>_.
       give (c_nid c)))"

definition conceptByIDTx :: "uuid option \<Rightarrow> uuid \<Rightarrow> proposal_db \<Rightarrow> proposal_error + concept" where
  "conceptByIDTx scope i s =
     (case first_row (\<lambda>r. co_id r = i \<and> in_scope scope (co_workspace r)) (concepts s) of None \<Rightarrow> Inl PNotFound | Some r \<Rightarrow> Inr r)"

text \<open>The checks every decision passes, in their order.\<close>

definition log_fields :: "log_params \<Rightarrow> (string \<times> ustr) list" where
  "log_fields p = [(''rationale'', lp_rationale p), (''alternatives'', lp_alternatives p), (''context'', lp_context p),
     (''decision'', lp_decision p)]"

fun noisy_field :: "(string \<times> ustr) list \<Rightarrow> proposal_error option" where
  "noisy_field [] = None"
| "noisy_field ((name, s) # fs) = (case ValidateNoTagNoise s of Some x \<Rightarrow> Some (PTagNoise name x) | None \<Rightarrow> noisy_field fs)"

definition log_check :: "log_params \<Rightarrow> proposal_error option" where
  "log_check p =
     (if lp_source p \<noteq> SourceManual \<and> lp_source p \<noteq> SourceAuto then Some (PNotWired ''invalid source'')
      else case noisy_field [(''title'', lp_title p), (''repo_name'', lp_repo p)] of
          Some e \<Rightarrow> Some e
        | None \<Rightarrow> if \<not> IsValidRepoName (lp_repo p) then Some PInvalidRepoName else noisy_field (log_fields p))"

definition decision_of :: "(instant \<Rightarrow> instant) \<Rightarrow> uuid option \<Rightarrow> instant \<Rightarrow> uuid \<Rightarrow> log_params \<Rightarrow> decision" where
  "decision_of ts scope now nid p =
     \<lparr>dc_id = nid, dc_workspace = scope, dc_project = lp_project p, dc_task = lp_task p, dc_repo = nullIfEmpty (lp_repo p),
      dc_title = lp_title p, dc_context = lp_context p, dc_decision = lp_decision p, dc_rationale = lp_rationale p,
      dc_alternatives = nullIfEmpty (lp_alternatives p), dc_source = lp_source p, dc_session = nullIfEmpty (lp_session p),
      dc_confirmed = lp_human p, dc_created = ts now\<rparr>"

definition insert_decision :: "decision \<Rightarrow> proposal_db \<Rightarrow> proposal_error + decision \<times> proposal_db" where
  "insert_decision r s =
     (if dc_id r \<in> set (map dc_id (decision_log s)) then Inl PConstraint
      else Inr (r, s\<lparr>decision_log := decision_log s @ [r]\<rparr>))"

definition Log_pg :: "p_others \<Rightarrow> faults \<Rightarrow> uuid option \<Rightarrow> instant \<Rightarrow> uuid \<Rightarrow> log_params \<Rightarrow> decision pprog" where
  "Log_pg env fault scope now nid p =
     (case log_check p of
        Some e \<Rightarrow> refuse e
      | None \<Rightarrow> in_tx env fault ''decision'' (insert_decision (decision_of pg_ts scope now nid p)))"

definition LogTx :: "p_others \<Rightarrow> faults \<Rightarrow> uuid option \<Rightarrow> instant \<Rightarrow> uuid \<Rightarrow> log_params \<Rightarrow> uuid pprog" where
  "LogTx env fault scope now nid p =
     (case log_check p of
        Some e \<Rightarrow> refuse e
      | None \<Rightarrow> and_then (in_tx env fault ''decision'' (insert_decision (decision_of sq_ts scope now nid p))) (\<lambda>_. give nid))"

definition decisionByIDTx :: "uuid \<Rightarrow> proposal_db \<Rightarrow> proposal_error + decision" where
  "decisionByIDTx i s =
     (case first_row (\<lambda>r. dc_id r = i) (decision_log s) of None \<Rightarrow> Inl (PDatabase ''decision'') | Some r \<Rightarrow> Inr r)"

text \<open>The task operations of the GTD stores, inside the same transaction.\<close>

definition task_in_tx_pg :: "uuid option \<Rightarrow> instant \<Rightarrow> uuid \<Rightarrow> create_task_params \<Rightarrow> proposal_db \<Rightarrow> proposal_error + task \<times> proposal_db" where
  "task_in_tx_pg scope now nid p s =
     (case CreateTask_pg scope now nid p (gtd s) of (Inl e, _) \<Rightarrow> Inl (PGtd e) | (Inr r, g) \<Rightarrow> Inr (r, s\<lparr>gtd := g\<rparr>))"

definition task_in_tx_sq :: "uuid option \<Rightarrow> instant \<Rightarrow> uuid \<Rightarrow> create_task_params \<Rightarrow> proposal_db \<Rightarrow> proposal_error + uuid \<times> proposal_db" where
  "task_in_tx_sq scope now nid p s =
     (case CreateTaskTx scope now nid p (gtd s) of Inl e \<Rightarrow> Inl (PGtd e) | Inr (i, g) \<Rightarrow> Inr (i, s\<lparr>gtd := g\<rparr>))"

definition taskByIDTx :: "uuid option \<Rightarrow> uuid \<Rightarrow> proposal_db \<Rightarrow> proposal_error + task" where
  "taskByIDTx scope i s = (case taskByID scope i (gtd s) of Inl e \<Rightarrow> Inl (PGtd e) | Inr t \<Rightarrow> Inr t)"

section \<open>Knowledge\<close>

record add_item =
  ai_type :: string
  ai_title :: ustr
  ai_content :: ustr
  ai_url :: ustr
  ai_tags :: "ustr list"
  ai_source :: ustr
  ai_parent :: "uuid option"
  ai_path :: ustr
  ai_level :: int

record prepared_item =
  pi_params :: add_item
  pi_vec :: bool

definition urlDedupCheck :: "uuid option \<Rightarrow> ustr \<Rightarrow> proposal_db \<Rightarrow> proposal_error + unit" where
  "urlDedupCheck scope url s =
     (if list_ex (\<lambda>r. kn_url r = Some url \<and> in_scope scope (kn_workspace r)) (knowledge s) then Inl PDuplicate else Inr ())"

definition url_check :: "p_others \<Rightarrow> faults \<Rightarrow> uuid option \<Rightarrow> add_item \<Rightarrow> unit pprog" where
  "url_check env fault scope p =
     (if ai_parent p = None \<and> ai_url p \<noteq> [] then direct env fault ''url dedup'' (reading (urlDedupCheck scope (ai_url p)))
      else give ())"

definition level_of :: "knowledge_item \<Rightarrow> int" where
  "level_of r = (case kn_heading_level r of None \<Rightarrow> 0 | Some l \<Rightarrow> l)"

definition findSimilarAtLevel :: "embedding \<Rightarrow> uuid option \<Rightarrow> ustr \<Rightarrow> int \<Rightarrow> proposal_db \<Rightarrow> bool" where
  "findSimilarAtLevel em scope s level db =
     (let rows = filter (\<lambda>r. kn_embedded r \<and> in_scope scope (kn_workspace r) \<and> level_of r = level) (knowledge db)
      in rows \<noteq> [] \<and> em_duplicate em s rows)"

text \<open>A failed similarity query is logged and the check skipped.\<close>

definition embedAndCheckDupAtLevel :: "p_others \<Rightarrow> faults \<Rightarrow> embedding \<Rightarrow> uuid option \<Rightarrow> ustr \<Rightarrow> int \<Rightarrow> bool pprog" where
  "embedAndCheckDupAtLevel env fault em scope s level t =
     (if \<not> em_vector em s then (Inr False, t)
      else (let t' = tick env ''similar'' t in
        if fault ''similar'' then (Inr True, t')
        else if findSimilarAtLevel em scope s level (outside t') then (Inl PDuplicate, t')
        else (Inr True, t')))"

definition Prepare_pg :: "p_others \<Rightarrow> faults \<Rightarrow> embedding \<Rightarrow> uuid option \<Rightarrow> add_item \<Rightarrow> prepared_item pprog" where
  "Prepare_pg env fault em scope p =
     and_then (url_check env fault scope p) (\<lambda>_.
     and_then (embedAndCheckDupAtLevel env fault em scope (ai_title p @ 32 # ai_content p) (ai_level p)) (\<lambda>vec.
       give \<lparr>pi_params = p, pi_vec = vec\<rparr>))"

definition Prepare_sq :: "p_others \<Rightarrow> faults \<Rightarrow> uuid option \<Rightarrow> add_item \<Rightarrow> prepared_item pprog" where
  "Prepare_sq env fault scope p =
     and_then (url_check env fault scope p) (\<lambda>_. give \<lparr>pi_params = p, pi_vec = False\<rparr>)"

definition item_of :: "(instant \<Rightarrow> instant) \<Rightarrow> uuid option \<Rightarrow> instant \<Rightarrow> uuid \<Rightarrow> add_item \<Rightarrow> knowledge_item" where
  "item_of ts scope now nid p =
     \<lparr>kn_id = nid, kn_workspace = scope, kn_type = ai_type p, kn_title = ai_title p, kn_content = ai_content p,
      kn_url = nullIfEmpty (ai_url p), kn_tags = ai_tags p,
      kn_source = (if ai_source p = [] then lit ''manual'' else ai_source p), kn_embedded = False,
      kn_parent = ai_parent p, kn_heading_path = nullIfEmpty (ai_path p),
      kn_heading_level = (if 0 < ai_level p \<or> ai_parent p \<noteq> None then Some (ai_level p) else None), kn_created = ts now\<rparr>"

definition KnowledgeTypes :: "string list" where
  "KnowledgeTypes = [''article'', ''til'', ''bookmark'', ''zettelkasten'']"

definition insert_item :: "knowledge_item \<Rightarrow> proposal_db \<Rightarrow> proposal_error + knowledge_item \<times> proposal_db" where
  "insert_item r s =
     (if kn_id r \<in> set (map kn_id (knowledge s)) \<or> kn_type r \<notin> set KnowledgeTypes then Inl PConstraint
      else Inr (r, s\<lparr>knowledge := knowledge s @ [r]\<rparr>))"

definition set_embedding :: "uuid \<Rightarrow> proposal_db \<Rightarrow> proposal_error + unit \<times> proposal_db" where
  "set_embedding i s =
     Inr ((), s\<lparr>knowledge := update_rows (\<lambda>r. kn_id r = i) (\<lambda>r. r\<lparr>kn_embedded := True\<rparr>) (knowledge s)\<rparr>)"

definition WriteItemTx_pg :: "p_others \<Rightarrow> faults \<Rightarrow> uuid option \<Rightarrow> instant \<Rightarrow> uuid \<Rightarrow> prepared_item \<Rightarrow> knowledge_item pprog" where
  "WriteItemTx_pg env fault scope now nid prep =
     and_then (in_tx env fault ''knowledge'' (insert_item (item_of pg_ts scope now nid (pi_params prep)))) (\<lambda>r.
       if pi_vec prep then and_then (in_tx env fault ''embedding'' (set_embedding nid)) (\<lambda>_. give r) else give r)"

definition getByIDTx :: "uuid option \<Rightarrow> uuid \<Rightarrow> proposal_db \<Rightarrow> proposal_error + knowledge_item" where
  "getByIDTx scope i s =
     (case first_row (\<lambda>r. kn_id r = i \<and> in_scope scope (kn_workspace r)) (knowledge s) of None \<Rightarrow> Inl PNotFound | Some r \<Rightarrow> Inr r)"

text \<open>SQLite never prepares a vector, so its embedding write does not run.\<close>

definition WriteItemTx_sq :: "p_others \<Rightarrow> faults \<Rightarrow> uuid option \<Rightarrow> instant \<Rightarrow> uuid \<Rightarrow> prepared_item \<Rightarrow> knowledge_item pprog" where
  "WriteItemTx_sq env fault scope now nid prep =
     and_then (in_tx env fault ''knowledge'' (insert_item (item_of sq_ts scope now nid (pi_params prep)))) (\<lambda>_.
       in_tx env fault ''knowledge read'' (reading (getByIDTx scope nid)))"

section \<open>The orchestration\<close>

record accept_adapter =
  ad_read :: "proposal pprog"
  ad_prepare :: "proposal \<Rightarrow> prepared_item option pprog"
  ad_begin :: "unit pprog"
  ad_materialize :: "proposal \<Rightarrow> prepared_item option \<Rightarrow> created pprog"
  ad_resolve :: "proposal pprog"
  ad_commit :: "unit pprog"

definition AcceptOrchestration :: "accept_adapter \<Rightarrow> (proposal \<times> created) pprog" where
  "AcceptOrchestration ad =
     and_then (ad_read ad) (\<lambda>prop.
       if pp_status prop \<noteq> StatusPending then refuse PAlreadyResolved
       else
         and_then (ad_prepare ad prop) (\<lambda>prepared.
         and_then (ad_begin ad) (\<lambda>_.
         and_then (ad_materialize ad prop prepared) (\<lambda>created.
         and_then (ad_resolve ad) (\<lambda>row.
         and_then (ad_commit ad) (\<lambda>_. give (row, created)))))))"

definition or_refuse :: "decode_error + 'a \<Rightarrow> ('a \<Rightarrow> 'b pprog) \<Rightarrow> 'b pprog" where
  "or_refuse d k = (case d of Inl e \<Rightarrow> refuse (PDecode e) | Inr a \<Rightarrow> k a)"

definition til_item :: "proposal \<Rightarrow> knowledge_payload \<Rightarrow> add_item" where
  "til_item prop kp =
     \<lparr>ai_type = ''til'', ai_title = kp_title kp, ai_content = kp_content kp, ai_url = [], ai_tags = kp_tags kp,
      ai_source = text_of (pp_proposed_by prop), ai_parent = None, ai_path = [], ai_level = 0\<rparr>"

definition warned :: "task \<Rightarrow> ustr list \<Rightarrow> created" where
  "warned t warnings = (if warnings = [] then CrTask t else CrTaskWarnings t warnings)"

subsection \<open>Postgres\<close>

definition prepare_pg :: "p_others \<Rightarrow> faults \<Rightarrow> call \<Rightarrow> proposal \<Rightarrow> prepared_item option pprog" where
  "prepare_pg env fault c prop =
     (if pp_type prop \<noteq> TypeKnowledge then give None
      else or_refuse (DecodeKnowledgePayload (pp_payload prop)) (\<lambda>kp.
        and_then (Prepare_pg env fault (c_embed c) (c_scope c) (til_item prop kp)) (\<lambda>prep. give (Some prep))))"

definition materializeGoal_pg :: "p_others \<Rightarrow> faults \<Rightarrow> call \<Rightarrow> proposal \<Rightarrow> created pprog" where
  "materializeGoal_pg env fault c prop =
     or_refuse (DecodeGoalParams (pp_payload prop)) (\<lambda>gp.
       and_then (in_tx env fault ''goal'' (CreateGoal_pg (c_scope c) (c_clock c ''begin'') (c_nid c) gp)) (\<lambda>r. give (CrGoal r)))"

definition materializeProject_pg :: "p_others \<Rightarrow> faults \<Rightarrow> call \<Rightarrow> proposal \<Rightarrow> created pprog" where
  "materializeProject_pg env fault c prop =
     or_refuse (DecodeProjectParams (c_parse c) (pp_payload prop)) (\<lambda>pp.
       and_then (in_tx env fault ''project'' (CreateProject_pg (c_scope c) (c_clock c ''begin'') (c_nid c) pp)) (\<lambda>r.
         give (CrProject r)))"

definition materializeConcept_pg :: "p_others \<Rightarrow> faults \<Rightarrow> call \<Rightarrow> proposal \<Rightarrow> created pprog" where
  "materializeConcept_pg env fault c prop =
     or_refuse (DecodeConceptPayload (pp_payload prop)) (\<lambda>cp.
       and_then (CreateConcept_pg env fault c (c_clock c ''begin'') cp) (\<lambda>r. give (CrConcept r)))"

definition materializeDecision_pg :: "p_others \<Rightarrow> faults \<Rightarrow> call \<Rightarrow> proposal \<Rightarrow> created pprog" where
  "materializeDecision_pg env fault c prop =
     or_refuse (DecodeDecisionParams (pp_payload prop)) (\<lambda>dp.
       and_then (Log_pg env fault (c_scope c) (c_clock c ''begin'') (c_nid c) dp) (\<lambda>r. give (CrDecision r)))"

definition materializeTask_pg :: "p_others \<Rightarrow> faults \<Rightarrow> call \<Rightarrow> proposal \<Rightarrow> created pprog" where
  "materializeTask_pg env fault c prop =
     or_refuse (DecodeTaskParams (c_quote c) (pp_payload prop) (c_strict c)) (\<lambda>(params, warnings).
       and_then (in_tx env fault ''task'' (task_in_tx_pg (c_scope c) (c_clock c ''begin'') (c_nid c) params)) (\<lambda>t.
         give (warned t warnings)))"

definition materializeKnowledge_pg :: "p_others \<Rightarrow> faults \<Rightarrow> call \<Rightarrow> prepared_item option \<Rightarrow> created pprog" where
  "materializeKnowledge_pg env fault c prepared =
     (case prepared of
        None \<Rightarrow> refuse (PNotWired ''prepared value has unexpected type'')
      | Some prep \<Rightarrow>
          and_then (WriteItemTx_pg env fault (c_scope c) (c_clock c ''begin'') (c_nid c) prep) (\<lambda>r. give (CrKnowledge r)))"

definition Materialize_pg :: "p_others \<Rightarrow> faults \<Rightarrow> call \<Rightarrow> proposal \<Rightarrow> prepared_item option \<Rightarrow> created pprog" where
  "Materialize_pg env fault c prop prepared =
     (if pp_type prop = TypeGoal then materializeGoal_pg env fault c prop
      else if pp_type prop = TypeProject then materializeProject_pg env fault c prop
      else if pp_type prop = TypeConcept then materializeConcept_pg env fault c prop
      else if pp_type prop = TypeDecision then materializeDecision_pg env fault c prop
      else if pp_type prop = TypeTask then materializeTask_pg env fault c prop
      else if pp_type prop = TypeKnowledge then materializeKnowledge_pg env fault c prepared
      else if pp_type prop = TypePlaybook then refuse (PNotWired TypePlaybook)
      else refuse (PUnknownType (pp_type prop)))"

definition pgAcceptAdapter :: "p_others \<Rightarrow> faults \<Rightarrow> call \<Rightarrow> uuid \<Rightarrow> accept_adapter" where
  "pgAcceptAdapter env fault c i =
     \<lparr>ad_read = Get_pg env fault (c_scope c) i,
      ad_prepare = prepare_pg env fault c,
      ad_begin = begin_tx env fault PDatabase,
      ad_materialize = Materialize_pg env fault c,
      ad_resolve = Resolve_in_tx env fault ''resolve'' (c_scope c) (c_clock c ''begin'') i StatusAccepted,
      ad_commit = commit_tx env fault PDatabase\<rparr>"

subsection \<open>SQLite\<close>

definition prepare_sq :: "p_others \<Rightarrow> faults \<Rightarrow> call \<Rightarrow> proposal \<Rightarrow> prepared_item option pprog" where
  "prepare_sq env fault c prop =
     (if pp_type prop \<noteq> TypeKnowledge then give None
      else or_refuse (DecodeKnowledgePayload (pp_payload prop)) (\<lambda>kp.
        and_then (Prepare_sq env fault (c_scope c) (til_item prop kp)) (\<lambda>prep. give (Some prep))))"

definition materializeDecision_sq :: "faults \<Rightarrow> call \<Rightarrow> proposal \<Rightarrow> created pprog" where
  "materializeDecision_sq fault c prop =
     or_refuse (DecodeDecisionParams (pp_payload prop)) (\<lambda>dp.
       and_then (LogTx undisturbed fault (c_scope c) (c_clock c ''decision'') (c_nid c) dp) (\<lambda>i.
       and_then (in_tx undisturbed fault ''decision read'' (reading (decisionByIDTx i))) (\<lambda>r. give (CrDecision r))))"

definition materializeGoal_sq :: "faults \<Rightarrow> call \<Rightarrow> proposal \<Rightarrow> created pprog" where
  "materializeGoal_sq fault c prop =
     or_refuse (DecodeGoalParams (pp_payload prop)) (\<lambda>gp.
       and_then (in_tx undisturbed fault ''goal'' (CreateGoalTx (c_scope c) (c_clock c ''goal'') (c_nid c) gp)) (\<lambda>i.
         give (CrRef i [(''title'', cg_title gp)])))"

definition materializeProject_sq :: "faults \<Rightarrow> call \<Rightarrow> proposal \<Rightarrow> created pprog" where
  "materializeProject_sq fault c prop =
     or_refuse (DecodeProjectParams (c_parse c) (pp_payload prop)) (\<lambda>pp.
       and_then (in_tx undisturbed fault ''project'' (CreateProjectTx (c_scope c) (c_clock c ''project'') (c_nid c) pp)) (\<lambda>i.
         give (CrRef i [(''name'', cp_name pp), (''title'', cp_title pp)])))"

definition materializeConcept_sq :: "faults \<Rightarrow> call \<Rightarrow> proposal \<Rightarrow> created pprog" where
  "materializeConcept_sq fault c prop =
     or_refuse (DecodeConceptPayload (pp_payload prop)) (\<lambda>cp.
       and_then (CreateConceptTx undisturbed fault c (c_clock c ''concept'') cp) (\<lambda>i.
       and_then (in_tx undisturbed fault ''concept read'' (reading (conceptByIDTx (c_scope c) i))) (\<lambda>r. give (CrConcept r))))"

definition materializeTask_sq :: "faults \<Rightarrow> call \<Rightarrow> proposal \<Rightarrow> created pprog" where
  "materializeTask_sq fault c prop =
     or_refuse (DecodeTaskParams (c_quote c) (pp_payload prop) (c_strict c)) (\<lambda>(params, warnings).
       and_then (in_tx undisturbed fault ''task'' (task_in_tx_sq (c_scope c) (c_clock c ''task'') (c_nid c) params)) (\<lambda>i.
       and_then (in_tx undisturbed fault ''task read'' (reading (taskByIDTx (c_scope c) i))) (\<lambda>t. give (warned t warnings))))"

definition materializeKnowledge_sq :: "faults \<Rightarrow> call \<Rightarrow> prepared_item option \<Rightarrow> created pprog" where
  "materializeKnowledge_sq fault c prepared =
     (case prepared of
        None \<Rightarrow> refuse (PNotWired ''prepared value has unexpected type'')
      | Some prep \<Rightarrow>
          and_then (WriteItemTx_sq undisturbed fault (c_scope c) (c_clock c ''knowledge'') (c_nid c) prep) (\<lambda>r. give (CrKnowledge r)))"

definition Materialize_sq :: "faults \<Rightarrow> call \<Rightarrow> proposal \<Rightarrow> prepared_item option \<Rightarrow> created pprog" where
  "Materialize_sq fault c prop prepared =
     (if pp_type prop = TypeDecision then materializeDecision_sq fault c prop
      else if pp_type prop = TypeGoal then materializeGoal_sq fault c prop
      else if pp_type prop = TypeProject then materializeProject_sq fault c prop
      else if pp_type prop = TypeConcept then materializeConcept_sq fault c prop
      else if pp_type prop = TypeKnowledge then materializeKnowledge_sq fault c prepared
      else if pp_type prop = TypeTask then materializeTask_sq fault c prop
      else if pp_type prop = TypePlaybook then refuse (PNotWired TypePlaybook)
      else refuse (PUnknownType (pp_type prop)))"

definition getPendingTx :: "faults \<Rightarrow> uuid option \<Rightarrow> uuid \<Rightarrow> proposal pprog" where
  "getPendingTx fault scope i = in_tx undisturbed fault ''resolved read'' (reading (get_row scope i))"

definition sqliteAcceptAdapter :: "p_others \<Rightarrow> faults \<Rightarrow> call \<Rightarrow> uuid \<Rightarrow> accept_adapter" where
  "sqliteAcceptAdapter env fault c i =
     \<lparr>ad_read = Get_sq env fault (c_scope c) i,
      ad_prepare = prepare_sq env fault c,
      ad_begin = begin_tx env fault PDatabase,
      ad_materialize = Materialize_sq fault c,
      ad_resolve = and_then (ResolveTx undisturbed fault (c_scope c) (c_clock c) i StatusAccepted)
                     (\<lambda>_. getPendingTx fault (c_scope c) i),
      ad_commit = commit_tx undisturbed fault PDatabase\<rparr>"

definition accept_pg :: "p_others \<Rightarrow> faults \<Rightarrow> call \<Rightarrow> uuid \<Rightarrow> (proposal \<times> created) pprog" where
  "accept_pg env fault c i = AcceptOrchestration (pgAcceptAdapter env fault c i)"

definition accept_sq :: "p_others \<Rightarrow> faults \<Rightarrow> call \<Rightarrow> uuid \<Rightarrow> (proposal \<times> created) pprog" where
  "accept_sq env fault c i = AcceptOrchestration (sqliteAcceptAdapter env fault c i)"

end
