(* ===== verification/Proposal_Laws.thy ===== *)
theory Proposal_Laws
  imports Proposal_Accept
begin

text \<open>
  What accepting a proposal promises, and that both adapters keep it.

  The abstract operation decodes the payload into one entity (\<open>entity_of\<close>), adds its row
  (\<open>add_entity\<close>) and marks the proposal accepted.  The locale \<open>accepting\<close> is the contract of
  \<open>AcceptAdapter\<close>: what each of its methods does to the tables when nobody else writes, whichever
  statement fails.  Its interpretations discharge the contract for the Postgres and the SQLite adapter.
\<close>

section \<open>The abstract operation\<close>

datatype backend = Pg | Sq

definition ts_of :: "backend \<Rightarrow> instant \<Rightarrow> instant" where
  "ts_of b = (case b of Pg \<Rightarrow> pg_ts | Sq \<Rightarrow> sq_ts)"

definition time_of :: "backend \<Rightarrow> call \<Rightarrow> string \<Rightarrow> instant" where
  "time_of b c name = (case b of Pg \<Rightarrow> c_clock c ''begin'' | Sq \<Rightarrow> c_clock c name)"

datatype entity =
    EGoal goal
  | EProject create_project_params project
  | EConcept concept schedule
  | EDecision decision
  | ETask task "ustr list"
  | EKnowledge knowledge_item

definition from_decode :: "decode_error + 'a \<Rightarrow> ('a \<Rightarrow> proposal_error + 'b) \<Rightarrow> proposal_error + 'b" where
  "from_decode d k = (case d of Inl e \<Rightarrow> Inl (PDecode e) | Inr a \<Rightarrow> k a)"

definition project_at :: "backend \<Rightarrow> call \<Rightarrow> create_project_params \<Rightarrow> project" where
  "project_at b c pp = (case b of
       Pg \<Rightarrow> (project_of (c_scope c) (time_of b c ''project'') (c_nid c) pp)
         \<lparr>pj_created := pg_ts (time_of b c ''project''), pj_updated := pg_ts (time_of b c ''project'')\<rparr>
     | Sq \<Rightarrow> project_of (c_scope c) (time_of b c ''project'') (c_nid c) pp)"

text \<open>A knowledge item is embedded before the transaction, and only Postgres compares it with the others.\<close>

definition embedded :: "backend \<Rightarrow> call \<Rightarrow> add_item \<Rightarrow> bool" where
  "embedded b c p \<longleftrightarrow> b = Pg \<and> em_vector (c_embed c) (ai_title p @ 32 # ai_content p)"

definition duplicate_item :: "backend \<Rightarrow> faults \<Rightarrow> call \<Rightarrow> add_item \<Rightarrow> proposal_db \<Rightarrow> bool" where
  "duplicate_item b fault c p s \<longleftrightarrow> embedded b c p \<and> \<not> fault ''similar'' \<and>
     findSimilarAtLevel (c_embed c) (c_scope c) (ai_title p @ 32 # ai_content p) (ai_level p) s"

definition duplicate_of :: "backend \<Rightarrow> faults \<Rightarrow> call \<Rightarrow> proposal \<Rightarrow> proposal_db \<Rightarrow> bool" where
  "duplicate_of b fault c q s \<longleftrightarrow> pp_type q = TypeKnowledge \<and>
     (case DecodeKnowledgePayload (pp_payload q) of Inl e \<Rightarrow> False | Inr kp \<Rightarrow> duplicate_item b fault c (til_item q kp) s)"

definition item_at :: "backend \<Rightarrow> call \<Rightarrow> add_item \<Rightarrow> bool \<Rightarrow> knowledge_item" where
  "item_at b c p vec = (item_of (ts_of b) (c_scope c) (time_of b c ''knowledge'') (c_nid c) p)\<lparr>kn_embedded := vec\<rparr>"

text \<open>The entity a payload decodes to; \<open>entity_with\<close> takes the item that was prepared.\<close>

definition entity_with :: "backend \<Rightarrow> call \<Rightarrow> proposal \<Rightarrow> (knowledge_payload \<Rightarrow> proposal_error + entity) \<Rightarrow> proposal_error + entity" where
  "entity_with b c q item =
     (if pp_type q = TypeGoal then from_decode (DecodeGoalParams (pp_payload q)) (\<lambda>gp.
        Inr (EGoal (goal_of (ts_of b) (c_scope c) (time_of b c ''goal'') (c_nid c) gp)))
      else if pp_type q = TypeProject then from_decode (DecodeProjectParams (c_parse c) (pp_payload q)) (\<lambda>pp.
        Inr (EProject pp (project_at b c pp)))
      else if pp_type q = TypeConcept then from_decode (DecodeConceptPayload (pp_payload q)) (\<lambda>cp.
        Inr (EConcept (concept_of (ts_of b) (c_scope c) (time_of b c ''concept'') (c_nid c) cp)
          (schedule_of (ts_of b) (c_scope c) (time_of b c ''concept'') (c_sid c) (c_nid c))))
      else if pp_type q = TypeDecision then from_decode (DecodeDecisionParams (pp_payload q)) (\<lambda>dp.
        case log_check dp of Some e \<Rightarrow> Inl e
        | None \<Rightarrow> Inr (EDecision (decision_of (ts_of b) (c_scope c) (time_of b c ''decision'') (c_nid c) dp)))
      else if pp_type q = TypeTask then from_decode (DecodeTaskParams (c_quote c) (pp_payload q) (c_strict c)) (\<lambda>(p, ws).
        Inr (ETask (new_task (ts_of b) (c_scope c) (time_of b c ''task'') (c_nid c) p [] None) ws))
      else if pp_type q = TypeKnowledge then from_decode (DecodeKnowledgePayload (pp_payload q)) item
      else if pp_type q = TypePlaybook then Inl (PNotWired TypePlaybook)
      else Inl (PUnknownType (pp_type q)))"

definition entity_of :: "backend \<Rightarrow> call \<Rightarrow> proposal \<Rightarrow> proposal_error + entity" where
  "entity_of b c q =
     entity_with b c q (\<lambda>kp. Inr (EKnowledge (item_at b c (til_item q kp) (embedded b c (til_item q kp)))))"

fun add_entity :: "entity \<Rightarrow> proposal_db \<Rightarrow> proposal_error + proposal_db" where
  "add_entity (EGoal r) s =
     (if gl_id r \<in> set (map gl_id (goals s)) then Inl PConstraint else Inr (s\<lparr>goals := goals s @ [r]\<rparr>))"
| "add_entity (EProject p r) s = (case insert_project p r s of Inl e \<Rightarrow> Inl e | Inr (_, s') \<Rightarrow> Inr s')"
| "add_entity (EConcept r h) s =
     (if co_id r \<in> set (map co_id (concepts s)) \<or> sh_id h \<in> set (map sh_id (schedules s)) then Inl PConstraint
      else Inr (s\<lparr>concepts := concepts s @ [r], schedules := schedules s @ [h]\<rparr>))"
| "add_entity (EDecision r) s =
     (if dc_id r \<in> set (map dc_id (decision_log s)) then Inl PConstraint else Inr (s\<lparr>decision_log := decision_log s @ [r]\<rparr>))"
| "add_entity (ETask r ws) s =
     (if t_id r \<in> set (map t_id (tasks (gtd s))) \<or> \<not> task_check r then Inl (PGtd GConstraint)
      else Inr (s\<lparr>gtd := (gtd s)\<lparr>tasks := tasks (gtd s) @ [r]\<rparr>\<rparr>))"
| "add_entity (EKnowledge r) s =
     (if kn_id r \<in> set (map kn_id (knowledge s)) \<or> kn_type r \<notin> set KnowledgeTypes then Inl PConstraint else Inr (s\<lparr>knowledge := knowledge s @ [r]\<rparr>))"

fun created_of :: "backend \<Rightarrow> entity \<Rightarrow> created" where
  "created_of b (EGoal r) = (case b of Pg \<Rightarrow> CrGoal r | Sq \<Rightarrow> CrRef (gl_id r) [(''title'', gl_title r)])"
| "created_of b (EProject p r) =
     (case b of Pg \<Rightarrow> CrProject r | Sq \<Rightarrow> CrRef (pj_id r) [(''name'', pj_name r), (''title'', pj_title r)])"
| "created_of b (EConcept r h) = CrConcept r"
| "created_of b (EDecision r) = CrDecision r"
| "created_of b (ETask r ws) = warned r ws"
| "created_of b (EKnowledge r) = CrKnowledge (r\<lparr>kn_embedded := False\<rparr>)"

definition add_to :: "backend \<Rightarrow> proposal_error + entity \<Rightarrow> proposal_db \<Rightarrow> proposal_error + created \<times> proposal_db" where
  "add_to b x s = (case x of Inl e \<Rightarrow> Inl e
     | Inr en \<Rightarrow> (case add_entity en s of Inl e \<Rightarrow> Inl e | Inr s' \<Rightarrow> Inr (created_of b en, s')))"

definition accept_spec :: "backend \<Rightarrow> faults \<Rightarrow> call \<Rightarrow> uuid \<Rightarrow> proposal_db \<Rightarrow> proposal_error + (proposal \<times> created) \<times> proposal_db" where
  "accept_spec b fault c i s =
     (case get_row (c_scope c) i s of
        Inl e \<Rightarrow> Inl e
      | Inr q \<Rightarrow>
          if pp_status q \<noteq> StatusPending then Inl PAlreadyResolved
          else if duplicate_of b fault c q s then Inl PDuplicate
          else
            (case add_to b (entity_of b c q) s of
               Inl e \<Rightarrow> Inl e
             | Inr (x, s') \<Rightarrow>
                 (let q' = resolved StatusAccepted (ts_of b (time_of b c ''resolve'')) in
                  Inr ((q' q, x), s'\<lparr>proposals := update_rows (open_row (c_scope c) i) q' (proposals s')\<rparr>))))"

section \<open>Programs that implement a function on the tables\<close>

text \<open>A failing statement ends the program with nothing committed; otherwise it does exactly what the function says.\<close>

definition stops :: "faults \<Rightarrow> 'a pprog \<Rightarrow> proposal_db txn \<Rightarrow> bool" where
  "stops fault m t \<longleftrightarrow> (\<exists>n t'. fault n \<and> m t = (Inl (PDatabase n), t') \<and> outside t' = outside t)"

definition does :: "'a pprog \<Rightarrow> proposal_db txn \<Rightarrow> proposal_error + 'a \<times> proposal_db \<Rightarrow> bool" where
  "does m t r \<longleftrightarrow> (case r of
     Inl e \<Rightarrow> (\<exists>t'. m t = (Inl e, t') \<and> outside t' = outside t)
   | Inr (a, s) \<Rightarrow> m t = (Inr a, t\<lparr>seen := s\<rparr>))"

definition implements :: "faults \<Rightarrow> (proposal_db \<Rightarrow> bool) \<Rightarrow> 'a pprog \<Rightarrow> (proposal_db \<Rightarrow> proposal_error + 'a \<times> proposal_db) \<Rightarrow> bool" where
  "implements fault Q m f \<longleftrightarrow> (\<forall>t. Q (seen t) \<longrightarrow> stops fault m t \<or> does m t (f (seen t)))"

definition reads :: "faults \<Rightarrow> 'a pprog \<Rightarrow> (proposal_db \<Rightarrow> proposal_error + 'a) \<Rightarrow> bool" where
  "reads fault m f \<longleftrightarrow> (\<forall>t. seen t = outside t \<longrightarrow> stops fault m t \<or> does m t (reading f (seen t)))"

definition seq :: "('s \<Rightarrow> 'e + 'a \<times> 's) \<Rightarrow> ('a \<Rightarrow> 's \<Rightarrow> 'e + 'b \<times> 's) \<Rightarrow> 's \<Rightarrow> 'e + 'b \<times> 's" where
  "seq f g s = (case f s of Inl e \<Rightarrow> Inl e | Inr (a, s') \<Rightarrow> g a s')"

definition ret :: "'a \<Rightarrow> 's \<Rightarrow> 'e + 'a \<times> 's" where
  "ret a s = Inr (a, s)"

definition fail :: "'e \<Rightarrow> 's \<Rightarrow> 'e + 'a \<times> 's" where
  "fail e s = Inl e"

lemma implementsD: "implements fault Q m f \<Longrightarrow> Q (seen t) \<Longrightarrow> stops fault m t \<or> does m t (f (seen t))"
  by (simp add: implements_def)

lemma readsD: "reads fault m f \<Longrightarrow> seen t = outside t \<Longrightarrow> stops fault m t \<or> does m t (reading f (seen t))"
  by (simp add: reads_def)

lemma does_simps [simp]:
  "does m t (Inl e) \<longleftrightarrow> (\<exists>t'. m t = (Inl e, t') \<and> outside t' = outside t)"
  "does m t (Inr (a, s)) \<longleftrightarrow> m t = (Inr a, t\<lparr>seen := s\<rparr>)"
  by (simp_all add: does_def)

lemma implements_give: "implements fault Q (give a) (ret a)"
  by (simp add: implements_def ret_def)

lemma implements_refuse: "implements fault Q (refuse e) (fail e)"
  by (simp add: implements_def fail_def)

lemma tick_undisturbed [simp]: "tick undisturbed name t = t"
  by (simp add: tick_def)

lemma implements_in_tx: "implements fault Q (in_tx undisturbed fault name f) f"
  by (auto simp: implements_def in_tx_def stmt_def stops_def Let_def split: sum.split prod.split)

lemma stops_and_then: "stops fault m t \<Longrightarrow> stops fault (and_then m k) t"
  by (auto simp: stops_def)

lemma implements_and_then:
  assumes "implements fault Q m f" and "\<And>a. implements fault R (k a) (g a)"
    and "\<And>s a s'. Q s \<Longrightarrow> f s = Inr (a, s') \<Longrightarrow> R s'"
  shows "implements fault Q (and_then m k) (seq f g)"
  unfolding implements_def
proof (intro allI impI)
  fix t :: "proposal_db txn" assume "Q (seen t)"
  with assms(1) have m: "stops fault m t \<or> does m t (f (seen t))" by (rule implementsD)
  show "stops fault (and_then m k) t \<or> does (and_then m k) t (seq f g (seen t))"
  proof (cases "f (seen t)")
    case (Inl e)
    with m show ?thesis by (auto simp: seq_def intro: stops_and_then)
  next
    case (Inr r)
    obtain a s' where r: "r = (a, s')" by (cases r)
    show ?thesis
    proof (cases "stops fault m t")
      case True
      then show ?thesis by (blast intro: stops_and_then)
    next
      case False
      with m Inr r have mt: "m t = (Inr a, t\<lparr>seen := s'\<rparr>)" by simp
      have "R s'" using assms(3) \<open>Q (seen t)\<close> Inr r by blast
      then have "stops fault (k a) (t\<lparr>seen := s'\<rparr>) \<or> does (k a) (t\<lparr>seen := s'\<rparr>) (g a s')"
        using implementsD [OF assms(2) [of a], of "t\<lparr>seen := s'\<rparr>"] by simp
      moreover have "seq f g (seen t) = g a s'" using Inr r by (simp add: seq_def)
      ultimately show ?thesis
        using mt by (cases "g a s'") (auto simp: stops_def)
    qed
  qed
qed

lemma implements_and_then_any:
  "implements fault Q m f \<Longrightarrow> (\<And>a. implements fault (\<lambda>_. True) (k a) (g a)) \<Longrightarrow> implements fault Q (and_then m k) (seq f g)"
  by (rule implements_and_then) auto

lemma implements_cong: "implements fault Q m f \<Longrightarrow> (\<And>s. Q s \<Longrightarrow> f s = g s) \<Longrightarrow> implements fault Q m g"
  by (simp add: implements_def)

lemma implements_weak: "implements fault R m f \<Longrightarrow> (\<And>s. Q s \<Longrightarrow> R s) \<Longrightarrow> implements fault Q m f"
  by (simp add: implements_def)

lemma implements_or_refuse:
  "(\<And>a. d = Inr a \<Longrightarrow> implements fault Q (k a) (g a)) \<Longrightarrow>
     implements fault Q (or_refuse d k) (case d of Inl e \<Rightarrow> fail (PDecode e) | Inr a \<Rightarrow> g a)"
  by (cases d) (auto simp: or_refuse_def implements_refuse)

lemma reads_give: "reads fault (give a) (\<lambda>_. Inr a)"
  by (simp add: reads_def reading_def)

lemma reads_refuse: "reads fault (refuse e) (\<lambda>_. Inl e)"
  by (simp add: reads_def reading_def)

lemma reads_direct: "reads fault (direct undisturbed fault name (reading f)) f"
  by (auto simp: reads_def direct_def reading_def stops_def Let_def split: sum.split)

lemma reads_and_then:
  assumes "reads fault m f" and "\<And>a. reads fault (k a) (g a)"
  shows "reads fault (and_then m k) (\<lambda>s. case f s of Inl e \<Rightarrow> Inl e | Inr a \<Rightarrow> g a s)"
  unfolding reads_def
proof (intro allI impI)
  fix t :: "proposal_db txn" assume q: "seen t = outside t"
  with assms(1) have m: "stops fault m t \<or> does m t (reading f (seen t))" by (simp add: reads_def)
  have k: "stops fault (k a) t \<or> does (k a) t (reading (g a) (seen t))" for a using assms(2) q by (simp add: reads_def)
  have t: "t\<lparr>seen := seen t\<rparr> = t" by simp
  show "stops fault (and_then m k) t \<or> does (and_then m k) t (reading (\<lambda>s. case f s of Inl e \<Rightarrow> Inl e | Inr a \<Rightarrow> g a s) (seen t))"
  proof (cases "f (seen t)")
    case (Inl e)
    with m show ?thesis by (auto simp: reading_def intro: stops_and_then)
  next
    case (Inr a)
    show ?thesis
    proof (cases "stops fault m t")
      case True
      then show ?thesis by (blast intro: stops_and_then)
    next
      case False
      with m Inr t have "m t = (Inr a, t)" by (simp add: reading_def)
      with k [of a] Inr show ?thesis by (auto simp: reading_def stops_def does_def split: sum.splits)
    qed
  qed
qed

section \<open>The contract of an adapter\<close>

definition one_id :: "proposal_db \<Rightarrow> bool" where
  "one_id s \<longleftrightarrow> distinct (map pp_id (proposals s))"

locale accepting =
  fixes ad :: accept_adapter and fault :: faults and scope :: "uuid option" and i :: uuid and at :: instant
    and prep :: "proposal \<Rightarrow> proposal_db \<Rightarrow> proposal_error + prepared_item option"
    and mat :: "proposal \<Rightarrow> prepared_item option \<Rightarrow> proposal_db \<Rightarrow> proposal_error + created \<times> proposal_db"
  assumes read: "reads fault (ad_read ad) (get_row scope i)"
    and prepare: "reads fault (ad_prepare ad q) (prep q)"
    and begins: "reads fault (ad_begin ad) (\<lambda>_. Inr ())"
    and materialize: "implements fault (\<lambda>_. True) (ad_materialize ad q p) (mat q p)"
    and keeps: "mat q p s = Inr (c, s') \<Longrightarrow> proposals s' = proposals s"
    and resolve: "implements fault one_id (ad_resolve ad) (resolve_row scope i StatusAccepted at)"
    and commit: "stops fault (ad_commit ad) t \<or> ad_commit ad t = (Inr (), t\<lparr>outside := seen t\<rparr>)"
begin

definition effect :: "proposal_db \<Rightarrow> proposal_error + (proposal \<times> created) \<times> proposal_db" where
  "effect s =
     (case get_row scope i s of
        Inl e \<Rightarrow> Inl e
      | Inr q \<Rightarrow>
          if pp_status q \<noteq> StatusPending then Inl PAlreadyResolved
          else
            (case prep q s of
               Inl e \<Rightarrow> Inl e
             | Inr p \<Rightarrow> seq (mat q p) (\<lambda>c. seq (resolve_row scope i StatusAccepted at) (\<lambda>r. ret (r, c))) s))"

definition transaction :: "proposal \<Rightarrow> prepared_item option \<Rightarrow> (proposal \<times> created) pprog" where
  "transaction q p =
     and_then (ad_materialize ad q p) (\<lambda>c. and_then (ad_resolve ad) (\<lambda>r. give (r, c)))"

lemma transaction_implements:
  "implements fault one_id (transaction q p)
     (seq (mat q p) (\<lambda>c. seq (resolve_row scope i StatusAccepted at) (\<lambda>r. ret (r, c))))"
  unfolding transaction_def
proof (rule implements_and_then [where R = one_id])
  show "implements fault one_id (ad_materialize ad q p) (mat q p)"
    using materialize by (rule implements_weak) simp
  show "implements fault one_id (and_then (ad_resolve ad) (\<lambda>r. give (r, c)))
      (seq (resolve_row scope i StatusAccepted at) (\<lambda>r. ret (r, c)))" for c
    using resolve by (rule implements_and_then_any) (rule implements_give)
  show "one_id s'" if "one_id s" "mat q p s = Inr (c, s')" for s c s'
    using keeps [OF that(2)] that(1) by (simp add: one_id_def)
qed

definition ending :: "proposal \<Rightarrow> prepared_item option \<Rightarrow> (proposal \<times> created) pprog" where
  "ending q p =
     and_then (ad_materialize ad q p) (\<lambda>c. and_then (ad_resolve ad) (\<lambda>r. and_then (ad_commit ad) (\<lambda>_. give (r, c))))"

lemma transaction_commit:
  "ending q p = and_then (transaction q p) (\<lambda>x. and_then (ad_commit ad) (\<lambda>_. give x))"
  by (auto simp: transaction_def ending_def and_then_def fun_eq_iff split: prod.split sum.split)

lemma stops_run: "stops fault m \<lparr>seen = s, outside = s\<rparr> \<Longrightarrow> \<exists>n. fault n \<and> run m s = (Inl (PDatabase n), s)"
  by (auto simp: stops_def run_def)

text \<open>\<open>runs m f s\<close>: a failed statement and nothing written, or what \<open>f\<close> says.\<close>

definition runs :: "'x pprog \<Rightarrow> proposal_error + 'x \<times> proposal_db \<Rightarrow> proposal_db \<Rightarrow> bool" where
  "runs m r s \<longleftrightarrow> (\<exists>n. fault n \<and> run m s = (Inl (PDatabase n), s)) \<or>
     run m s = (case r of Inl e \<Rightarrow> (Inl e, s) | Inr (x, s') \<Rightarrow> (Inr x, s'))"

lemma runs_read:
  assumes "reads fault m f" and "\<And>a. f s = Inr a \<Longrightarrow> runs (k a) (g a) s"
  shows "runs (and_then m k) (case f s of Inl e \<Rightarrow> Inl e | Inr a \<Rightarrow> g a) s"
proof -
  let ?t = "\<lparr>seen = s, outside = s\<rparr>"
  have "stops fault m ?t \<or> does m ?t (reading f s)" using readsD [OF assms(1), of ?t] by simp
  then show ?thesis
  proof
    assume "stops fault m ?t"
    then show ?thesis using stops_run [OF stops_and_then] by (auto simp: runs_def)
  next
    assume m: "does m ?t (reading f s)"
    show ?thesis
    proof (cases "f s")
      case (Inl e)
      with m show ?thesis by (auto simp: runs_def reading_def run_def)
    next
      case (Inr a)
      with m have "m ?t = (Inr a, ?t)" by (simp add: reading_def)
      then have "run (and_then m k) s = run (k a) s" by (simp add: run_def)
      with assms(2) [OF Inr] Inr show ?thesis by (simp add: runs_def)
    qed
  qed
qed

lemma runs_refuse: "runs (refuse e) (Inl e) s"
  by (simp add: runs_def run_def)

lemma runs_ending:
  assumes "one_id s"
  shows "runs (ending q p) (seq (mat q p) (\<lambda>c. seq (resolve_row scope i StatusAccepted at) (\<lambda>r. ret (r, c))) s) s"
    (is "runs _ ?f s")
proof -
  let ?t = "\<lparr>seen = s, outside = s\<rparr>"
  have "stops fault (transaction q p) ?t \<or> does (transaction q p) ?t ?f"
    using implementsD [OF transaction_implements [of q p], of ?t] assms by simp
  then consider "stops fault (transaction q p) ?t"
    | e t' where "?f = Inl e" "transaction q p ?t = (Inl e, t')" "outside t' = s"
    | x s' where "?f = Inr (x, s')" "transaction q p ?t = (Inr x, \<lparr>seen = s', outside = s\<rparr>)"
    by (cases ?f) auto
  then show ?thesis
  proof cases
    case 1
    then show ?thesis using stops_run [OF stops_and_then] unfolding runs_def transaction_commit by blast
  next
    case 2
    then show ?thesis by (simp add: runs_def run_def transaction_commit)
  next
    case 3
    from commit [of "\<lparr>seen = s', outside = s\<rparr>"] show ?thesis
      using 3 by (auto simp: runs_def run_def transaction_commit stops_def)
  qed
qed

lemma runs_begin: "runs (k ()) r s \<Longrightarrow> runs (and_then (ad_begin ad) k) r s"
  using runs_read [OF begins, where k = k and g = "\<lambda>_. r" and s = s] by simp

lemma orchestration_outcome:
  assumes "one_id s"
  shows "runs (AcceptOrchestration ad) (effect s) s"
proof -
  have "AcceptOrchestration ad = and_then (ad_read ad) (\<lambda>q. if pp_status q \<noteq> StatusPending then refuse PAlreadyResolved
      else and_then (ad_prepare ad q) (\<lambda>p. and_then (ad_begin ad) (\<lambda>_. ending q p)))"
    unfolding AcceptOrchestration_def ending_def ..
  moreover have "runs (and_then (ad_begin ad) (\<lambda>_. ending q p))
      (seq (mat q p) (\<lambda>c. seq (resolve_row scope i StatusAccepted at) (\<lambda>r. ret (r, c))) s) s" for q p
    using runs_ending [OF assms] by (rule runs_begin)
  ultimately show ?thesis
    unfolding effect_def
    by (auto intro!: runs_read [OF read] runs_read [OF prepare] intro: runs_refuse)
qed

end

end
