(* ===== verification/Proposal_Refine.thy ===== *)
theory Proposal_Refine
  imports Proposal_Laws
begin

text \<open>
  Both accept adapters keep the contract of \<open>Proposal_Laws\<close>: what each statement of their transactions
  does, the interpretations, and the refinement of \<open>accept_spec\<close>.
\<close>

section \<open>Statements\<close>

lemma first_row_fresh: "first_row P xs = None \<Longrightarrow> P r \<Longrightarrow> first_row P (xs @ [r]) = Some r"
  unfolding first_row_append by (simp add: first_row_def)

lemma fresh_none: "k \<notin> set (map g xs) \<Longrightarrow> first_row (\<lambda>r. g r = k \<and> Q r) xs = None"
  by (auto simp: first_row_None)

lemma fresh_none': "k \<notin> set (map g xs) \<Longrightarrow> first_row (\<lambda>r. g r = k) xs = None"
  by (auto simp: first_row_None)

lemma in_scope_own [simp]: "in_scope scope scope"
  by (cases scope) simp_all

lemma update_none: "k \<notin> g ` set xs \<Longrightarrow> update_rows (\<lambda>r. g r = k) f xs = xs"
  by (rule update_rows_id) auto

lemma new_row_ids [simp]:
  "gl_id (goal_of ts scope now nid gp) = nid" "co_id (concept_of ts scope now nid cp) = nid"
  "sh_id (schedule_of ts scope now sid nid) = sid" "dc_id (decision_of ts scope now nid dp) = nid"
  "t_id (new_task ts scope now nid tp a v) = nid" "kn_id (item_of ts scope now nid ip) = nid"
  "kn_embedded (item_of ts scope now nid ip) = False"
  by (simp_all add: goal_of_def concept_of_def schedule_of_def decision_of_def new_task_def item_of_def)

lemma or_refuse_cases:
  "(\<And>e. d = Inl e \<Longrightarrow> implements fault Q (refuse (PDecode e)) f) \<Longrightarrow> (\<And>a. d = Inr a \<Longrightarrow> implements fault Q (k a) f) \<Longrightarrow>
     implements fault Q (or_refuse d k) f"
  by (cases d) (simp_all add: or_refuse_def)

lemma implements_fail: "(\<And>s. f s = Inl e) \<Longrightarrow> implements fault Q (refuse e) f"
  by (simp add: implements_def)

lemma implements_one:
  assumes "\<And>s. f s = (case g s of Inl e \<Rightarrow> Inl e | Inr (r, s') \<Rightarrow> Inr (h r, s'))"
  shows "implements fault Q (and_then (in_tx undisturbed fault n g) (\<lambda>r. give (h r))) f"
  by (rule implements_cong [OF implements_and_then_any [OF implements_in_tx implements_give]])
    (simp add: assms seq_def ret_def split: sum.split)

lemma implements_two:
  assumes "\<And>s. f s = (case g s of Inl e \<Rightarrow> Inl e | Inr (r, s') \<Rightarrow> (case k r s' of Inl e \<Rightarrow> Inl e | Inr (x, s'') \<Rightarrow> Inr (h r x, s'')))"
  shows "implements fault Q (and_then (in_tx undisturbed fault n g) (\<lambda>r. and_then (in_tx undisturbed fault m (k r)) (\<lambda>x. give (h r x)))) f"
proof -
  have "implements fault (\<lambda>_. True) (and_then (in_tx undisturbed fault m (k r)) (\<lambda>x. give (h r x))) (seq (k r) (\<lambda>x. ret (h r x)))" for r
    by (rule implements_and_then_any [OF implements_in_tx implements_give])
  then have "implements fault Q (and_then (in_tx undisturbed fault n g) (\<lambda>r. and_then (in_tx undisturbed fault m (k r)) (\<lambda>x. give (h r x))))
      (seq g (\<lambda>r. seq (k r) (\<lambda>x. ret (h r x))))"
    by (rule implements_and_then_any [OF implements_in_tx])
  then show ?thesis
    by (rule implements_cong) (simp add: assms seq_def ret_def split: sum.split prod.split)
qed

lemma pprog_assoc: "and_then (and_then m k) h = and_then m (\<lambda>a. and_then (k a) h)"
  by (auto simp: and_then_def fun_eq_iff split: prod.split sum.split)

lemma and_then_give [simp]: "and_then (give a) k = k a"
  by (simp add: and_then_def fun_eq_iff)

lemma and_then_refuse [simp]: "and_then (refuse e) k = refuse e"
  by (simp add: and_then_def fun_eq_iff)

section \<open>What is materialized\<close>

definition prep_of :: "backend \<Rightarrow> faults \<Rightarrow> call \<Rightarrow> proposal \<Rightarrow> proposal_db \<Rightarrow> proposal_error + prepared_item option" where
  "prep_of b fault c q s =
     (if pp_type q \<noteq> TypeKnowledge then Inr None
      else from_decode (DecodeKnowledgePayload (pp_payload q)) (\<lambda>kp.
        if duplicate_item b fault c (til_item q kp) s then Inl PDuplicate
        else Inr (Some \<lparr>pi_params = til_item q kp, pi_vec = embedded b c (til_item q kp)\<rparr>)))"

definition mat_of :: "backend \<Rightarrow> call \<Rightarrow> proposal \<Rightarrow> prepared_item option \<Rightarrow> proposal_db \<Rightarrow> proposal_error + created \<times> proposal_db" where
  "mat_of b c q p =
     (if pp_type q = TypeKnowledge then
        (case p of None \<Rightarrow> fail (PNotWired ''prepared value has unexpected type'')
         | Some pr \<Rightarrow> add_to b (Inr (EKnowledge (item_at b c (pi_params pr) (b = Pg \<and> pi_vec pr)))))
      else add_to b (entity_of b c q))"

lemma add_entity_proposals: "add_entity x s = Inr s' \<Longrightarrow> proposals s' = proposals s"
  by (cases x) (auto simp: insert_project_def split: if_splits sum.splits)

lemma mat_of_keeps: "mat_of b c q p s = Inr (x, s') \<Longrightarrow> proposals s' = proposals s"
  by (auto simp: mat_of_def add_to_def fail_def dest: add_entity_proposals split: if_splits option.splits sum.splits)

lemma task_params_plain: "task_params e quote p strict = Inr (c, ws) \<Longrightarrow> ct_assignee c = [] \<and> ct_vision c = None"
  by (erule task_params_cases [where e' = e and strict' = strict]) (auto simp: checked_task_def plain_task_def Let_def split: prod.splits if_splits)

lemma TrimSpace_Nil [simp]: "create_assignee [] = Inr []"
  by (simp add: create_assignee_def TrimSpace_def)

lemma type_eqs [simp]:
  "TypeGoal \<noteq> TypeProject" "TypeGoal \<noteq> TypeTask" "TypeGoal \<noteq> TypeConcept" "TypeGoal \<noteq> TypeKnowledge" "TypeGoal \<noteq> TypePlaybook" "TypeGoal \<noteq> TypeDecision"
  "TypeProject \<noteq> TypeGoal" "TypeProject \<noteq> TypeTask" "TypeProject \<noteq> TypeConcept" "TypeProject \<noteq> TypeKnowledge" "TypeProject \<noteq> TypePlaybook" "TypeProject \<noteq> TypeDecision"
  "TypeTask \<noteq> TypeGoal" "TypeTask \<noteq> TypeProject" "TypeTask \<noteq> TypeConcept" "TypeTask \<noteq> TypeKnowledge" "TypeTask \<noteq> TypePlaybook" "TypeTask \<noteq> TypeDecision"
  "TypeConcept \<noteq> TypeGoal" "TypeConcept \<noteq> TypeProject" "TypeConcept \<noteq> TypeTask" "TypeConcept \<noteq> TypeKnowledge" "TypeConcept \<noteq> TypePlaybook" "TypeConcept \<noteq> TypeDecision"
  "TypeKnowledge \<noteq> TypeGoal" "TypeKnowledge \<noteq> TypeProject" "TypeKnowledge \<noteq> TypeTask" "TypeKnowledge \<noteq> TypeConcept" "TypeKnowledge \<noteq> TypePlaybook" "TypeKnowledge \<noteq> TypeDecision"
  "TypePlaybook \<noteq> TypeGoal" "TypePlaybook \<noteq> TypeProject" "TypePlaybook \<noteq> TypeTask" "TypePlaybook \<noteq> TypeConcept" "TypePlaybook \<noteq> TypeKnowledge" "TypePlaybook \<noteq> TypeDecision"
  "TypeDecision \<noteq> TypeGoal" "TypeDecision \<noteq> TypeProject" "TypeDecision \<noteq> TypeTask" "TypeDecision \<noteq> TypeConcept" "TypeDecision \<noteq> TypeKnowledge" "TypeDecision \<noteq> TypePlaybook"
  by (simp_all add: type_defs)

subsection \<open>Postgres\<close>

lemmas mat_defs = mat_of_def entity_of_def entity_with_def from_decode_def add_to_def ts_of_def time_of_def

lemma mat_goal_pg: "pp_type q = TypeGoal \<Longrightarrow> implements fault Q (materializeGoal_pg undisturbed fault c q) (mat_of Pg c q p)"
  unfolding materializeGoal_pg_def
  by (rule or_refuse_cases, rule implements_fail, simp add: mat_defs,
      rule implements_one, simp add: mat_defs CreateGoal_pg_def insert_goal_def)

lemma mat_project_pg: "pp_type q = TypeProject \<Longrightarrow> implements fault Q (materializeProject_pg undisturbed fault c q) (mat_of Pg c q p)"
  unfolding materializeProject_pg_def
  by (rule or_refuse_cases, rule implements_fail, simp add: mat_defs,
      rule implements_one, simp add: mat_defs CreateProject_pg_def project_at_def insert_project_def)

lemma mat_concept_pg: "pp_type q = TypeConcept \<Longrightarrow> implements fault Q (materializeConcept_pg undisturbed fault c q) (mat_of Pg c q p)"
  unfolding materializeConcept_pg_def CreateConcept_pg_def pprog_assoc and_then_give
  by (rule or_refuse_cases, rule implements_fail, simp add: mat_defs,
      rule implements_two, simp add: mat_defs insert_concept_def insert_schedule_def)

lemma mat_decision_pg: "pp_type q = TypeDecision \<Longrightarrow> implements fault Q (materializeDecision_pg undisturbed fault c q) (mat_of Pg c q p)"
  unfolding materializeDecision_pg_def Log_pg_def
  by (rule or_refuse_cases, rule implements_fail, simp add: mat_defs, split option.split, intro conjI impI allI,
      rule implements_one, simp add: mat_defs insert_decision_def,
      simp, rule implements_fail, simp add: mat_defs)

lemma mat_task_pg:
  assumes "pp_type q = TypeTask"
  shows "implements fault Q (materializeTask_pg undisturbed fault c q) (mat_of Pg c q p)"
  unfolding materializeTask_pg_def
proof (rule or_refuse_cases)
  fix e assume "DecodeTaskParams (c_quote c) (pp_payload q) (c_strict c) = Inl e"
  then show "implements fault Q (refuse (PDecode e)) (mat_of Pg c q p)"
    by (intro implements_fail) (simp add: mat_defs assms)
next
  fix a assume a: "DecodeTaskParams (c_quote c) (pp_payload q) (c_strict c) = Inr a"
  obtain t ws where [simp]: "a = (t, ws)" by (cases a)
  have "ct_assignee t = [] \<and> ct_vision t = None"
    using a task_params_plain unfolding DecodeTaskParams_def by simp
  then show "implements fault Q (case a of (params, warnings) \<Rightarrow>
      and_then (in_tx undisturbed fault ''task'' (task_in_tx_pg (c_scope c) (c_clock c ''begin'') (c_nid c) params))
        (\<lambda>t. give (warned t warnings))) (mat_of Pg c q p)"
    using a by (simp, intro implements_one) (simp add: mat_defs assms task_in_tx_pg_def CreateTask_pg_def Let_def new_task_def)
qed

lemma mat_knowledge_pg: "pp_type q = TypeKnowledge \<Longrightarrow> implements fault Q (materializeKnowledge_pg undisturbed fault c p) (mat_of Pg c q p)"
proof (cases p)
  case None
  assume "pp_type q = TypeKnowledge"
  with None show ?thesis by (simp add: materializeKnowledge_pg_def implements_fail mat_of_def fail_def)
next
  case (Some pr)
  assume q: "pp_type q = TypeKnowledge"
  show ?thesis
    unfolding materializeKnowledge_pg_def WriteItemTx_pg_def Some option.case pprog_assoc
  proof (cases "pi_vec pr")
    case True
    show "implements fault Q (and_then (in_tx undisturbed fault ''knowledge'' (insert_item (item_of pg_ts (c_scope c) (c_clock c ''begin'') (c_nid c) (pi_params pr))))
        (\<lambda>a. and_then (if pi_vec pr then and_then (in_tx undisturbed fault ''embedding'' (set_embedding (c_nid c))) (\<lambda>_. give a) else give a)
          (\<lambda>r. give (CrKnowledge r)))) (mat_of Pg c q (Some pr))"
      unfolding if_P [OF True] pprog_assoc and_then_give
      by (rule implements_two) (simp add: True mat_defs q insert_item_def set_embedding_def item_at_def update_none)
  next
    case False
    show "implements fault Q (and_then (in_tx undisturbed fault ''knowledge'' (insert_item (item_of pg_ts (c_scope c) (c_clock c ''begin'') (c_nid c) (pi_params pr))))
        (\<lambda>a. and_then (if pi_vec pr then and_then (in_tx undisturbed fault ''embedding'' (set_embedding (c_nid c))) (\<lambda>_. give a) else give a)
          (\<lambda>r. give (CrKnowledge r)))) (mat_of Pg c q (Some pr))"
      unfolding if_not_P [OF False] and_then_give
      by (rule implements_one) (simp add: False mat_defs q insert_item_def item_at_def)
  qed
qed

lemma materialize_pg: "implements fault Q (Materialize_pg undisturbed fault c q p) (mat_of Pg c q p)"
proof -
  have "implements fault Q (refuse (PNotWired TypePlaybook)) (mat_of Pg c q p)" if "pp_type q = TypePlaybook"
    using that by (intro implements_fail) (simp add: mat_defs)
  moreover have "implements fault Q (refuse (PUnknownType (pp_type q))) (mat_of Pg c q p)"
    if "pp_type q \<notin> set proposal_types"
    using that by (intro implements_fail) (simp add: mat_defs proposal_types_def)
  ultimately show ?thesis
    unfolding Materialize_pg_def
    using mat_goal_pg mat_project_pg mat_concept_pg mat_decision_pg mat_task_pg mat_knowledge_pg
    by (auto simp: proposal_types_def)
qed

subsection \<open>SQLite\<close>

lemma mat_goal_sq: "pp_type q = TypeGoal \<Longrightarrow> implements fault Q (materializeGoal_sq fault c q) (mat_of Sq c q p)"
  unfolding materializeGoal_sq_def
  by (rule or_refuse_cases, rule implements_fail, simp add: mat_defs,
      rule implements_one, simp add: mat_defs CreateGoalTx_def insert_goal_def goal_of_def)

lemma mat_project_sq: "pp_type q = TypeProject \<Longrightarrow> implements fault Q (materializeProject_sq fault c q) (mat_of Sq c q p)"
  unfolding materializeProject_sq_def
  by (rule or_refuse_cases, rule implements_fail, simp add: mat_defs,
      rule implements_one, simp add: mat_defs CreateProjectTx_def insert_project_def project_at_def project_of_def)

text \<open>The row just inserted is the one read back.\<close>

lemma read_concept: "nid \<notin> set (map co_id (concepts s)) \<Longrightarrow>
    conceptByIDTx scope nid (s\<lparr>concepts := concepts s @ [concept_of ts scope now nid cp], schedules := h\<rparr>) = Inr (concept_of ts scope now nid cp)"
  unfolding conceptByIDTx_def by (simp add: first_row_fresh [OF fresh_none] concept_of_def)

lemma read_decision: "nid \<notin> set (map dc_id (decision_log s)) \<Longrightarrow>
    decisionByIDTx nid (s\<lparr>decision_log := decision_log s @ [decision_of ts scope now nid dp]\<rparr>) = Inr (decision_of ts scope now nid dp)"
  unfolding decisionByIDTx_def by (simp add: first_row_fresh [OF fresh_none'] decision_of_def)

lemma read_task: "nid \<notin> set (map t_id (tasks g)) \<Longrightarrow>
    taskByIDTx scope nid (s\<lparr>gtd := g\<lparr>tasks := tasks g @ [new_task ts scope now nid p a v]\<rparr>\<rparr>) = Inr (new_task ts scope now nid p a v)"
  unfolding taskByIDTx_def taskByID_def task_row_def by (simp add: first_row_fresh [OF fresh_none] new_task_def)

lemma read_item: "nid \<notin> set (map kn_id (knowledge s)) \<Longrightarrow>
    getByIDTx scope nid (s\<lparr>knowledge := knowledge s @ [item_of ts scope now nid p]\<rparr>) = Inr (item_of ts scope now nid p)"
  unfolding getByIDTx_def by (simp add: first_row_fresh [OF fresh_none] item_of_def)

lemma implements_three:
  assumes "\<And>s. f s = seq g (\<lambda>r. seq (k r) (\<lambda>x. seq (l r x) (\<lambda>y. ret (h y)))) s"
  shows "implements fault Q (and_then (in_tx undisturbed fault n g) (\<lambda>r. and_then (in_tx undisturbed fault m (k r))
    (\<lambda>x. and_then (in_tx undisturbed fault o' (l r x)) (\<lambda>y. give (h y))))) f"
proof -
  have "implements fault Q (and_then (in_tx undisturbed fault n g) (\<lambda>r. and_then (in_tx undisturbed fault m (k r))
    (\<lambda>x. and_then (in_tx undisturbed fault o' (l r x)) (\<lambda>y. give (h y)))))
      (seq g (\<lambda>r. seq (k r) (\<lambda>x. seq (l r x) (\<lambda>y. ret (h y)))))"
    by (intro implements_and_then_any implements_in_tx implements_give)
  then show ?thesis
    by (rule implements_cong) (simp add: assms)
qed

lemma mat_concept_sq: "pp_type q = TypeConcept \<Longrightarrow> implements fault Q (materializeConcept_sq fault c q) (mat_of Sq c q p)"
  unfolding materializeConcept_sq_def CreateConceptTx_def pprog_assoc and_then_give
  by (rule or_refuse_cases, rule implements_fail, simp add: mat_defs,
      rule implements_three, simp add: mat_defs insert_concept_def insert_schedule_def reading_def read_concept seq_def ret_def)

lemma mat_decision_sq: "pp_type q = TypeDecision \<Longrightarrow> implements fault Q (materializeDecision_sq fault c q) (mat_of Sq c q p)"
  unfolding materializeDecision_sq_def LogTx_def
  apply (rule or_refuse_cases, rule implements_fail, simp add: mat_defs)
  apply (split option.split, intro conjI impI allI)
   apply (unfold pprog_assoc and_then_give and_then_refuse)
   apply (rule implements_two, simp add: mat_defs insert_decision_def reading_def read_decision)
  by (rule implements_fail, simp add: mat_defs)

lemma mat_task_sq:
  assumes q: "pp_type q = TypeTask"
  shows "implements fault Q (materializeTask_sq fault c q) (mat_of Sq c q p)"
  unfolding materializeTask_sq_def
proof (rule or_refuse_cases)
  fix e assume "DecodeTaskParams (c_quote c) (pp_payload q) (c_strict c) = Inl e"
  then show "implements fault Q (refuse (PDecode e)) (mat_of Sq c q p)"
    by (intro implements_fail) (simp add: mat_defs q)
next
  fix a assume a: "DecodeTaskParams (c_quote c) (pp_payload q) (c_strict c) = Inr a"
  obtain t ws where [simp]: "a = (t, ws)" by (cases a)
  have t: "ct_assignee t = [] \<and> ct_vision t = None"
    using a task_params_plain unfolding DecodeTaskParams_def by simp
  have "implements fault Q (and_then (in_tx undisturbed fault ''task'' (task_in_tx_sq (c_scope c) (c_clock c ''task'') (c_nid c) t))
      (\<lambda>i. and_then (in_tx undisturbed fault ''task read'' (reading (taskByIDTx (c_scope c) i))) (\<lambda>t. give (warned t ws)))) (mat_of Sq c q p)"
    by (rule implements_two)
      (use a t in \<open>simp add: mat_defs q task_in_tx_sq_def CreateTaskTx_def Let_def reading_def read_task\<close>)
  then show "implements fault Q (case a of (params, warnings) \<Rightarrow>
      and_then (in_tx undisturbed fault ''task'' (task_in_tx_sq (c_scope c) (c_clock c ''task'') (c_nid c) params))
      (\<lambda>i. and_then (in_tx undisturbed fault ''task read'' (reading (taskByIDTx (c_scope c) i))) (\<lambda>t. give (warned t warnings))))
      (mat_of Sq c q p)" by simp
qed

lemma mat_knowledge_sq:
  assumes q: "pp_type q = TypeKnowledge"
  shows "implements fault Q (materializeKnowledge_sq fault c p) (mat_of Sq c q p)"
proof (cases p)
  case None
  with q show ?thesis by (simp add: materializeKnowledge_sq_def implements_fail mat_of_def fail_def)
next
  case (Some pr)
  have [simp]: "item_of ts scope now nid ip\<lparr>kn_embedded := False\<rparr> = item_of ts scope now nid ip" for ts scope now nid ip
    by (simp add: item_of_def)
  show ?thesis
    unfolding materializeKnowledge_sq_def WriteItemTx_sq_def Some option.case pprog_assoc
    by (rule implements_two) (simp add: mat_defs q insert_item_def item_at_def reading_def read_item)
qed

lemma materialize_sq: "implements fault Q (Materialize_sq fault c q p) (mat_of Sq c q p)"
proof -
  have "implements fault Q (refuse (PNotWired TypePlaybook)) (mat_of Sq c q p)" if "pp_type q = TypePlaybook"
    using that by (intro implements_fail) (simp add: mat_defs)
  moreover have "implements fault Q (refuse (PUnknownType (pp_type q))) (mat_of Sq c q p)"
    if "pp_type q \<notin> set proposal_types"
    using that by (intro implements_fail) (simp add: mat_defs proposal_types_def)
  ultimately show ?thesis
    unfolding Materialize_sq_def
    using mat_goal_sq mat_project_sq mat_concept_sq mat_decision_sq mat_task_sq mat_knowledge_sq
    by (auto simp: proposal_types_def)
qed

section \<open>Reading, preparing, resolving, committing\<close>

lemma reads_cong: "reads fault m f \<Longrightarrow> (\<And>s. f s = g s) \<Longrightarrow> reads fault m g"
  by (metis ext)

lemma reads_map: "reads fault m f \<Longrightarrow> (\<And>s. g s = (case f s of Inl e \<Rightarrow> Inl e | Inr a \<Rightarrow> Inr (h a))) \<Longrightarrow>
    reads fault (and_then m (\<lambda>a. give (h a))) g"
  using reads_and_then [OF _ reads_give, of fault m f h] by (metis ext)

lemma url_check_til [simp]: "url_check env fault scope (til_item q kp) = give ()"
  by (simp add: url_check_def til_item_def)

lemma prepare_pg_reads: "reads fault (prepare_pg undisturbed fault c q) (prep_of Pg fault c q)"
proof (cases "pp_type q = TypeKnowledge")
  case False
  then show ?thesis by (simp add: prepare_pg_def prep_of_def [abs_def] reads_give del: give_simp)
next
  case True
  have emb: "reads fault (embedAndCheckDupAtLevel undisturbed fault (c_embed c) (c_scope c) (ai_title p @ 32 # ai_content p) (ai_level p))
      (\<lambda>s. if duplicate_item Pg fault c p s then Inl PDuplicate else Inr (embedded Pg c p))" for p
    by (auto simp: reads_def embedAndCheckDupAtLevel_def duplicate_item_def embedded_def reading_def Let_def)
  show ?thesis
  proof (cases "DecodeKnowledgePayload (pp_payload q)")
    case (Inl e)
    with True show ?thesis
      unfolding prepare_pg_def or_refuse_def
      by (simp add: reads_cong [OF reads_refuse] prep_of_def from_decode_def)
  next
    case (Inr kp)
    show ?thesis
      unfolding prepare_pg_def or_refuse_def Inr Prepare_pg_def url_check_til and_then_give pprog_assoc
      by (simp add: True del: give_simp)
        (rule reads_map [OF emb [of "til_item q kp"]], simp add: True Inr prep_of_def from_decode_def)
  qed
qed

lemma prepare_sq_reads: "reads fault (prepare_sq undisturbed fault c q) (prep_of Sq fault c q)"
  unfolding prepare_sq_def or_refuse_def Prepare_sq_def url_check_til and_then_give
  by (auto simp: prep_of_def from_decode_def duplicate_item_def embedded_def reads_cong [OF reads_give] reads_cong [OF reads_refuse]
      simp del: give_simp refuse_simp split: sum.split)

lemma begin_reads: "reads fault (begin_tx undisturbed fault PDatabase) (\<lambda>_. Inr ())"
  by (auto simp: reads_def begin_tx_def stops_def Let_def reading_def)

lemma commit_alone: "stops fault (commit_tx undisturbed fault PDatabase) t \<or>
    commit_tx undisturbed fault PDatabase t = (Inr (), t\<lparr>outside := seen t\<rparr>)"
  by (auto simp: commit_tx_def stops_def Let_def)

lemma resolve_pg: "implements fault Q (Resolve_in_tx undisturbed fault ''resolve'' scope at i StatusAccepted) (resolve_row scope i StatusAccepted (pg_ts at))"
  by (simp add: Resolve_in_tx_def implements_in_tx)

lemma first_row_Cons: "first_row P (x # xs) = (if P x then Some x else first_row P xs)"
  by (simp add: first_row_def)

lemma first_row_Nil: "first_row P [] = None"
  by (simp add: first_row_def)

lemma resolved_read:
  assumes "distinct (map pp_id rows)" and "first_row (open_row scope i) rows = Some r"
  shows "first_row (proposal_row scope i) (update_rows (open_row scope i) (resolved st at) rows) = Some (resolved st at r)"
  using assms
proof (induction rows)
  case (Cons x rows)
  show ?case
  proof (cases "pp_id x = i")
    case True
    then have "first_row (open_row scope i) rows = None"
      using Cons.prems(1) by (auto simp: first_row_None open_row_def intro: rev_image_eqI)
    then have "open_row scope i x" "r = x" using Cons.prems(2) by (simp_all add: first_row_Cons split: if_splits)
    moreover from this have "proposal_row scope i (resolved st at x)" by (simp add: open_row_def proposal_row_def resolved_def)
    ultimately show ?thesis by (simp add: first_row_Cons)
  next
    case False
    then have "\<not> open_row scope i x" "\<not> proposal_row scope i x" by (simp_all add: open_row_def proposal_row_def)
    with Cons show ?thesis by (simp add: first_row_Cons)
  qed
qed (simp add: first_row_Nil)

lemma open_first: "first_row (proposal_row scope i) rows = Some q \<Longrightarrow> pp_status q = StatusPending \<Longrightarrow>
    first_row (open_row scope i) rows = Some q"
  by (induction rows) (auto simp: first_row_Cons first_row_Nil open_row_def proposal_row_def split: if_splits)

lemma resolve_sq:
  "implements fault one_id (and_then (ResolveTx undisturbed fault scope clock i StatusAccepted) (\<lambda>_. getPendingTx fault scope i))
     (resolve_row scope i StatusAccepted (sq_ts (clock ''resolve'')))"
proof -
  let ?r = "resolve_row scope i StatusAccepted (sq_ts (clock ''resolve''))"
  have "implements fault one_id (and_then (in_tx undisturbed fault ''resolve'' ?r) (\<lambda>_. in_tx undisturbed fault ''resolved read'' (reading (get_row scope i))))
      (seq ?r (\<lambda>_. reading (get_row scope i)))"
    by (intro implements_and_then_any implements_in_tx)
  then have "implements fault one_id (and_then (in_tx undisturbed fault ''resolve'' ?r) (\<lambda>_. in_tx undisturbed fault ''resolved read'' (reading (get_row scope i)))) ?r"
    by (rule implements_cong)
      (auto simp: seq_def resolve_row_def reading_def get_row_def one_id_def resolved_read split: option.split)
  then show ?thesis by (simp add: ResolveTx_def getPendingTx_def pprog_assoc del: give_simp)
qed

section \<open>The adapters\<close>

lemma pg_accepting:
  "accepting (pgAcceptAdapter undisturbed fault c i) fault (c_scope c) i (pg_ts (c_clock c ''begin'')) (prep_of Pg fault c) (mat_of Pg c)"
  by unfold_locales
    (auto simp: pgAcceptAdapter_def Get_pg_def intro: reads_direct prepare_pg_reads begin_reads materialize_pg mat_of_keeps
      resolve_pg commit_alone [THEN disjE])

lemma sq_accepting:
  "accepting (sqliteAcceptAdapter undisturbed fault c i) fault (c_scope c) i (sq_ts (c_clock c ''resolve'')) (prep_of Sq fault c) (mat_of Sq c)"
  by unfold_locales
    (auto simp: sqliteAcceptAdapter_def Get_sq_def intro: reads_direct prepare_sq_reads begin_reads materialize_sq mat_of_keeps
      resolve_sq commit_alone [THEN disjE])

interpretation pga: accepting "pgAcceptAdapter undisturbed fault c i" fault "c_scope c" i "pg_ts (c_clock c ''begin'')" "prep_of Pg fault c" "mat_of Pg c"
  for fault c i
  by (rule pg_accepting)

interpretation sqa: accepting "sqliteAcceptAdapter undisturbed fault c i" fault "c_scope c" i "sq_ts (c_clock c ''resolve'')" "prep_of Sq fault c" "mat_of Sq c"
  for fault c i
  by (rule sq_accepting)

section \<open>The refinement\<close>

definition accept_on :: "backend \<Rightarrow> p_others \<Rightarrow> faults \<Rightarrow> call \<Rightarrow> uuid \<Rightarrow> (proposal \<times> created) pprog" where
  "accept_on b env fault c i = (case b of Pg \<Rightarrow> accept_pg env fault c i | Sq \<Rightarrow> accept_sq env fault c i)"

lemma mat_prep:
  "(case prep_of b fault c q s of Inl e \<Rightarrow> Inl e | Inr p \<Rightarrow> seq (mat_of b c q p) k s) =
     (if duplicate_of b fault c q s then Inl PDuplicate
      else case add_to b (entity_of b c q) s of Inl e \<Rightarrow> Inl e | Inr (x, s') \<Rightarrow> k x s')"
proof (cases "pp_type q = TypeKnowledge")
  case True
  then show ?thesis
    by (cases b) (simp_all add: prep_of_def from_decode_def duplicate_of_def mat_of_def seq_def entity_of_def entity_with_def
        add_to_def embedded_def split: sum.split)
next
  case False
  then show ?thesis by (simp add: prep_of_def duplicate_of_def mat_of_def seq_def)
qed

lemma effect_spec:
  assumes "accepting ad fault (c_scope c) i (ts_of b (time_of b c ''resolve'')) (prep_of b fault c) (mat_of b c)"
  shows "accepting.effect (c_scope c) i (ts_of b (time_of b c ''resolve'')) (prep_of b fault c) (mat_of b c) s = accept_spec b fault c i s"
proof (cases "get_row (c_scope c) i s")
  case (Inl e)
  then show ?thesis by (simp add: accepting.effect_def [OF assms] accept_spec_def)
next
  case (Inr q)
  let ?at = "ts_of b (time_of b c ''resolve'')"
  have "add_to b (entity_of b c q) s = Inr (x, s') \<Longrightarrow> proposals s' = proposals s" for x s'
    by (auto simp: add_to_def dest: add_entity_proposals split: sum.splits)
  moreover have "pp_status q = StatusPending \<Longrightarrow> first_row (open_row (c_scope c) i) (proposals s) = Some q"
    using Inr by (auto simp: get_row_def intro: open_first split: option.splits)
  ultimately show ?thesis
    using Inr by (auto simp: accepting.effect_def [OF assms] accept_spec_def mat_prep seq_def resolve_row_def ret_def Let_def split: sum.split)
qed

lemma pg_time: "ts_of Pg (time_of Pg c ''resolve'') = pg_ts (c_clock c ''begin'')"
  and sq_time: "ts_of Sq (time_of Sq c ''resolve'') = sq_ts (c_clock c ''resolve'')"
  by (simp_all add: ts_of_def time_of_def)

lemma accept_on_runs:
  assumes "one_id s"
  shows "(\<exists>n. fault n \<and> run (accept_on b undisturbed fault c i) s = (Inl (PDatabase n), s)) \<or>
    run (accept_on b undisturbed fault c i) s = (case accept_spec b fault c i s of Inl e \<Rightarrow> (Inl e, s) | Inr (x, s') \<Rightarrow> (Inr x, s'))"
proof (cases b)
  case Pg
  show ?thesis
    using pga.orchestration_outcome [OF assms, where fault = fault and c = c and i = i] effect_spec [where b = Pg, unfolded pg_time, OF pg_accepting]
    by (simp add: Pg accept_on_def accept_pg_def pga.runs_def)
next
  case Sq
  show ?thesis
    using sqa.orchestration_outcome [OF assms, where fault = fault and c = c and i = i] effect_spec [where b = Sq, unfolded sq_time, OF sq_accepting]
    by (simp add: Sq accept_on_def accept_sq_def sqa.runs_def)
qed

end
