(* ===== verification/Proposal_Facts.thy ===== *)
theory Proposal_Facts
  imports Proposal_Refine
begin

text \<open>
  What holds of accepting a proposal on either backend: it refines \<open>accept_spec\<close>, a failed one leaves
  nothing behind whatever other connections commit meanwhile, and a proposal is accepted once.
\<close>

section \<open>A small database\<close>

definition no_tasks :: gtd_db where
  "no_tasks = \<lparr>tasks = [], projects = [], activity_log = [], work_sessions = [], session_tasks = [], evidence = [],
     candidates = [], vision_items = [], decisions = [], knowledge_items = [], handoffs = [], procedural = [], tombstones = []\<rparr>"

definition goal_proposal :: proposal where
  "goal_proposal = \<lparr>pp_id = 5, pp_workspace = None, pp_type = TypeGoal,
     pp_payload = Marshal False [\<lparr>sf_name = ''title'', sf_omitempty = False, sf_value = MStr (lit ''ship'')\<rparr>],
     pp_status = StatusPending, pp_proposed_by = None, pp_created = 0, pp_resolved = None, pp_reason = None\<rparr>"

definition one_goal :: proposal_db where
  "one_goal = \<lparr>gtd = no_tasks, goals = [], concepts = [], schedules = [], decision_log = [], knowledge = [], playbooks = [],
     proposals = [goal_proposal]\<rparr>"

definition plain_call :: call where
  "plain_call = \<lparr>c_scope = None, c_clock = (\<lambda>_. 3000), c_nid = 7, c_sid = 8, c_parse = (\<lambda>_. None), c_quote = (\<lambda>s. s),
     c_strict = False, c_embed = \<lparr>em_vector = (\<lambda>_. False), em_duplicate = (\<lambda>_ _. False)\<rparr>\<rparr>"

lemma goal_decoded: "DecodeGoalParams (pp_payload goal_proposal) = Inr \<lparr>cg_title = lit ''ship'', cg_area = [], cg_description = [], cg_due = None\<rparr>"
  by (simp add: DecodeGoalParams_def goal_params_def goal_proposal_def kept_fields_def string_field_def field_matches_def upper_fold_def
      byte_len_def utf8_len_def)

definition shipped :: goal where
  "shipped = goal_of pg_ts None 3000 7 \<lparr>cg_title = lit ''ship'', cg_area = [], cg_description = [], cg_due = None\<rparr>"

lemma goal_spec: "accept_spec Pg fault plain_call 5 one_goal =
    Inr ((resolved StatusAccepted (pg_ts 3000) goal_proposal, CrGoal shipped),
      one_goal\<lparr>goals := [shipped], proposals := [resolved StatusAccepted (pg_ts 3000) goal_proposal]\<rparr>)"
proof -
  have "get_row None 5 one_goal = Inr goal_proposal"
    by (simp add: get_row_def one_goal_def first_row_def proposal_row_def goal_proposal_def)
  moreover have "pp_status goal_proposal = StatusPending" "pp_type goal_proposal = TypeGoal" "open_row None 5 goal_proposal"
    by (simp_all add: goal_proposal_def open_row_def)
  ultimately show ?thesis
    by (simp add: accept_spec_def duplicate_of_def mat_defs goal_decoded plain_call_def shipped_def Let_def one_goal_def)
qed

lemma one_goal_id: "one_id one_goal"
  by (simp add: one_id_def one_goal_def)

lemma direct_undisturbed: "direct undisturbed no_failure name f t =
    (case f (outside t) of Inl e \<Rightarrow> (Inl e, t) | Inr (a, s) \<Rightarrow> (Inr a, \<lparr>seen = s, outside = s\<rparr>))"
  by (simp add: direct_def Let_def tick_undisturbed)

section \<open>Refinement\<close>

text \<open>C9. On either backend, and whichever statements fail, accepting a proposal while nobody else
  writes either reports a failed statement and leaves the database as it was, or does exactly what the
  specification says: it reports the error of the lookup, the duplicate check, the decoder or the
  insert with the database unchanged, or adds the one entity the payload decodes to and marks the
  proposal accepted, both at once.\<close>

theorem accept_refines:
  assumes "one_id s"
  shows "(\<exists>n. fault n \<and> run (accept_on b undisturbed fault c i) s = (Inl (PDatabase n), s)) \<or>
    run (accept_on b undisturbed fault c i) s =
      (case accept_spec b fault c i s of Inl e \<Rightarrow> (Inl e, s) | Inr (x, s') \<Rightarrow> (Inr x, s'))"
  using assms by (rule accept_on_runs)

theorem accept_refines_witness:
  "run (accept_on Pg undisturbed no_failure plain_call 5) one_goal =
     (Inr (resolved StatusAccepted (pg_ts 3000) goal_proposal, CrGoal shipped),
      one_goal\<lparr>goals := [shipped], proposals := [resolved StatusAccepted (pg_ts 3000) goal_proposal]\<rparr>)"
  using accept_refines [OF one_goal_id, of no_failure Pg plain_call 5] by (simp add: goal_spec)

section \<open>Once\<close>

lemma add_to_proposals: "add_to b x s = Inr (y, s') \<Longrightarrow> proposals s' = proposals s"
  by (auto simp: add_to_def dest: add_entity_proposals split: sum.splits)

lemma accept_spec_row:
  assumes "one_id s" and "accept_spec b fault c i s = Inr ((r, x), s')"
  shows "one_id s' \<and> get_row (c_scope c) i s' = Inr r \<and> pp_status r = StatusAccepted"
proof -
  let ?f = "resolved StatusAccepted (ts_of b (time_of b c ''resolve''))"
  from assms(2) obtain q s1 where q: "get_row (c_scope c) i s = Inr q" "pp_status q = StatusPending"
    and s1: "add_to b (entity_of b c q) s = Inr (x, s1)" and r: "r = ?f q"
    and s': "s' = s1\<lparr>proposals := update_rows (open_row (c_scope c) i) ?f (proposals s1)\<rparr>"
    by (auto simp: accept_spec_def Let_def split: sum.splits if_splits)
  have "first_row (open_row (c_scope c) i) (proposals s) = Some q"
    using q by (auto simp: get_row_def intro: open_first split: option.splits)
  then have "first_row (proposal_row (c_scope c) i) (update_rows (open_row (c_scope c) i) ?f (proposals s)) = Some (?f q)"
    using assms(1) by (intro resolved_read) (simp_all add: one_id_def)
  moreover have "map pp_id (update_rows (open_row (c_scope c) i) ?f (proposals s)) = map pp_id (proposals s)"
    by (rule map_update_rows) (simp add: resolved_def)
  ultimately show ?thesis
    using s1 r s' assms(1) by (simp add: add_to_proposals get_row_def one_id_def resolved_def)
qed

lemma accept_result:
  assumes "one_id s" and "run (accept_on b undisturbed fault c i) s = (Inr (r, x), s')"
  shows "accept_spec b fault c i s = Inr ((r, x), s')"
  using accept_on_runs [OF assms(1), of fault b c i] assms(2) by (auto split: sum.splits)

text \<open>C11. A proposal is accepted at most once: after an accept that succeeded on one backend, every
  further accept of the same proposal by a caller that sees the same row fails and changes nothing,
  whatever the payload, the clock and the identifiers of that call.\<close>

theorem accept_once:
  assumes "one_id s" and "run (accept_on b undisturbed fault c i) s = (Inr (r, x), s1)" and "c_scope c' = c_scope c"
  shows "\<exists>e. run (accept_on b' undisturbed fault' c' i) s1 = (Inl e, s1)"
proof -
  have "one_id s1" and "get_row (c_scope c) i s1 = Inr r" "pp_status r = StatusAccepted"
    using accept_spec_row [OF assms(1) accept_result [OF assms(1,2)]] by simp_all
  then show ?thesis
    using accept_on_runs [of s1 fault' b' c' i] assms(3) by (auto simp: accept_spec_def)
qed

theorem accept_once_witness:
  "\<exists>e. run (accept_on Sq undisturbed no_failure plain_call 5)
     (one_goal\<lparr>goals := [shipped], proposals := [resolved StatusAccepted (pg_ts 3000) goal_proposal]\<rparr>) =
     (Inl e, one_goal\<lparr>goals := [shipped], proposals := [resolved StatusAccepted (pg_ts 3000) goal_proposal]\<rparr>)"
  by (rule accept_once [OF one_goal_id _ refl, where b = Pg and fault = no_failure])
    (use accept_on_runs [OF one_goal_id, of no_failure Pg plain_call 5] in \<open>simp add: goal_spec\<close>)

section \<open>Interference\<close>

lemma uncommitted_undisturbed: "uncommitted undisturbed m \<Longrightarrow> uncommitted env m"
  by (auto simp: uncommitted_def by_others_undisturbed intro: by_others.nothing)

lemma failing_undisturbed: "failing undisturbed m \<Longrightarrow> failing env m"
  by (auto simp: failing_def by_others_undisturbed intro: by_others.nothing)

lemma uncommitted_direct: "uncommitted env (direct env fault name (reading f))"
  by (auto simp: uncommitted_def direct_def reading_def Let_def intro!: by_others.later by_others.nothing split: sum.split)

lemma uncommitted_in_tx: "uncommitted env (in_tx env fault name f)" and uncommitted_in_tx_sq: "uncommitted env (in_tx undisturbed fault name f)"
  by (auto simp: in_tx_def intro: uncommitted_undisturbed)

lemma uncommitted_embed: "uncommitted env (embedAndCheckDupAtLevel env fault em scope x l)"
  by (auto simp: uncommitted_def embedAndCheckDupAtLevel_def Let_def intro!: by_others.later by_others.nothing)

lemma uncommitted_or_refuse: "(\<And>a. uncommitted env (k a)) \<Longrightarrow> uncommitted env (or_refuse d k)"
  by (cases d) (auto simp: or_refuse_def simp del: refuse_simp)

lemmas uncommitted_rules = uncommitted_and_then uncommitted_direct uncommitted_in_tx uncommitted_in_tx_sq uncommitted_embed
  uncommitted_or_refuse uncommitted_give uncommitted_refuse uncommitted_begin

lemma uncommitted_materialize_pg: "uncommitted env (Materialize_pg env fault c q p)"
  unfolding Materialize_pg_def materializeGoal_pg_def materializeProject_pg_def materializeConcept_pg_def materializeDecision_pg_def
    materializeTask_pg_def materializeKnowledge_pg_def CreateConcept_pg_def Log_pg_def WriteItemTx_pg_def
  by (auto intro!: uncommitted_rules simp del: give_simp refuse_simp split: option.split)

lemma uncommitted_materialize_sq: "uncommitted env (Materialize_sq fault c q p)"
  unfolding Materialize_sq_def materializeGoal_sq_def materializeProject_sq_def materializeConcept_sq_def materializeDecision_sq_def
    materializeTask_sq_def materializeKnowledge_sq_def CreateConceptTx_def LogTx_def WriteItemTx_sq_def
  by (auto intro!: uncommitted_rules simp del: give_simp refuse_simp split: option.split)

lemma uncommitted_prepare: "uncommitted env (prepare_pg env fault c q)" "uncommitted env (prepare_sq env fault c q)"
  unfolding prepare_pg_def Prepare_pg_def url_check_def prepare_sq_def Prepare_sq_def
  by (auto intro!: uncommitted_rules simp del: give_simp refuse_simp)

lemma failing_orchestration:
  assumes "uncommitted env (ad_read ad)" "\<And>q. uncommitted env (ad_prepare ad q)" "uncommitted env (ad_begin ad)"
    "\<And>q p. uncommitted env (ad_materialize ad q p)" "uncommitted env (ad_resolve ad)"
    "\<And>x :: proposal \<times> created. failing env (and_then (ad_commit ad) (\<lambda>_. give x))"
  shows "failing env (AcceptOrchestration ad)"
  unfolding AcceptOrchestration_def
proof (rule failing_and_then [OF assms(1)])
  have refuse: "failing env (refuse PAlreadyResolved)" by (rule uncommitted_failing) (rule uncommitted_refuse)
  show "failing env (if pp_status q \<noteq> StatusPending then refuse PAlreadyResolved
      else and_then (ad_prepare ad q) (\<lambda>prepared. and_then (ad_begin ad) (\<lambda>_. and_then (ad_materialize ad q prepared)
        (\<lambda>created. and_then (ad_resolve ad) (\<lambda>row. and_then (ad_commit ad) (\<lambda>_. give (row, created)))))))" for q
    using refuse by (split if_split, intro conjI impI, assumption)
      (rule failing_and_then [OF assms(2)], rule failing_and_then [OF assms(3)],
        rule failing_and_then [OF assms(4)], rule failing_and_then [OF assms(5)], rule assms(6))
qed

lemma failing_accept: "failing env (accept_on b env fault c i)"
proof (cases b)
  case Pg
  show ?thesis
    unfolding accept_on_def Pg backend.case accept_pg_def
    by (rule failing_orchestration)
      (auto simp: pgAcceptAdapter_def Get_pg_def Resolve_in_tx_def simp del: give_simp refuse_simp
        intro!: uncommitted_rules uncommitted_materialize_pg uncommitted_prepare failing_commit_give)
next
  case Sq
  show ?thesis
    unfolding accept_on_def Sq backend.case accept_sq_def
    by (rule failing_orchestration)
      (auto simp: sqliteAcceptAdapter_def Get_sq_def ResolveTx_def getPendingTx_def simp del: give_simp refuse_simp
        intro!: uncommitted_rules uncommitted_materialize_sq uncommitted_prepare failing_undisturbed [OF failing_commit_give])
qed

text \<open>C10. Whatever other connections commit between its statements, whichever statements fail and
  wherever the accept itself gives up (lookup, decoder, duplicate check, insert, lost race, commit), an
  accept that reports an error has written nothing: the database holds what the others committed and
  no row of the entity.\<close>

theorem accept_failure_clean:
  assumes "run (accept_on b env fault c i) s = (Inl e, s')"
  shows "by_others env s s'"
  using failing_accept assms by (rule failing_run)

theorem accept_failure_clean_witness:
  "\<exists>e. run (accept_on Pg undisturbed no_failure plain_call 6) one_goal = (Inl e, one_goal) \<and> by_others undisturbed one_goal one_goal"
proof -
  have "run (accept_on Pg undisturbed no_failure plain_call 6) one_goal = (Inl PNotFound, one_goal)"
    using accept_on_runs [OF one_goal_id, of no_failure Pg plain_call 6]
    by (simp add: accept_spec_def get_row_def one_goal_def first_row_def proposal_row_def goal_proposal_def plain_call_def)
  with accept_failure_clean [OF this] show ?thesis by blast
qed

lemma and_then_Inr: "and_then m k t = (Inr x, t') \<Longrightarrow> \<exists>a t1. m t = (Inr a, t1) \<and> k a t1 = (Inr x, t')"
  by (auto simp: and_then_def split: prod.splits sum.splits)

text \<open>Two callers may accept the same proposal at the same time.  On Postgres both read it as
  pending and both insert; the one whose resolve statement finds no pending row any more, because the
  other resolved it (or the nightly job rejected or deleted it) meanwhile, fails and its insert is
  rolled back.\<close>

theorem accept_loses_race:
  assumes "\<And>d. \<not> list_ex (open_row (c_scope c) i) (proposals (env ''resolve'' d))"
  shows "\<exists>e s'. run (accept_pg env fault c i) s = (Inl e, s') \<and> by_others env s s'"
proof -
  have "fst (accept_pg env fault c i t) \<noteq> Inr y" for t y
  proof
    assume "fst (accept_pg env fault c i t) = Inr y"
    then obtain t' where "accept_pg env fault c i t = (Inr y, t')" by (metis fst_conv surj_pair)
    then obtain r t1 t2 where "Resolve_in_tx env fault ''resolve'' (c_scope c) (c_clock c ''begin'') i StatusAccepted t1 = (Inr r, t2)"
      unfolding accept_pg_def AcceptOrchestration_def pgAcceptAdapter_def
      by (auto dest!: and_then_Inr split: if_splits)
    moreover have "first_row (open_row (c_scope c) i) (proposals (env ''resolve'' d)) = None" for d
      using assms [of d] by (auto simp: first_row_None list_ex_iff)
    ultimately show False
      by (simp add: Resolve_in_tx_def in_tx_def stmt_def Let_def resolve_row_def split: if_splits)
  qed
  then obtain e t' where "accept_pg env fault c i \<lparr>seen = s, outside = s\<rparr> = (Inl e, t')"
    by (metis fst_conv surj_pair sum.exhaust)
  then have "run (accept_pg env fault c i) s = (Inl e, outside t')" by (simp add: run_def)
  moreover from this have "by_others env s (outside t')"
    using failing_run [OF failing_accept [of env Pg fault c i]] by (simp add: accept_on_def)
  ultimately show ?thesis by blast
qed

text \<open>The other caller: it commits its own resolve just before.\<close>

definition other_resolves :: "uuid \<Rightarrow> p_others" where
  "other_resolves i name s =
     (if name = ''resolve'' then s\<lparr>proposals := update_rows (open_row None i) (resolved StatusRejected 1) (proposals s)\<rparr> else s)"

theorem accept_loses_race_witness:
  "\<exists>e s'. run (accept_pg (other_resolves 5) no_failure plain_call 5) one_goal = (Inl e, s') \<and> by_others (other_resolves 5) one_goal s'"
  by (rule accept_loses_race) (auto simp: other_resolves_def plain_call_def list_ex_iff set_update_rows open_row_def resolved_def)

end
