(* ===== verification/Proposal_Handler.thy ===== *)
theory Proposal_Handler
  imports Proposal_Accept
begin

text \<open>
  The HTTP side of proposals: \<open>internal/handler/proposal_handler.go\<close>.  A handler record holds the store
  operations it calls and, when it is wired, the factory of accept adapters.  A response is its status
  and body; the times of a row are not rendered.  \<open>uuid.Parse\<close> is \<open>h_parse\<close>.
\<close>

section \<open>Responses\<close>

record handler =
  h_get :: "uuid \<Rightarrow> proposal pprog"
  h_resolve :: "uuid \<Rightarrow> proposal_status \<Rightarrow> proposal pprog"
  h_pending :: "proposal_db \<Rightarrow> proposal list"
  h_all :: "string \<Rightarrow> int \<Rightarrow> proposal_db \<Rightarrow> proposal_error + proposal list"
  h_adapter :: "(uuid \<Rightarrow> accept_adapter) option"
  h_parse :: "ustr \<Rightarrow> uuid option"
  h_quote :: "ustr \<Rightarrow> ustr"
  h_strict :: bool

record confirm_response =
  cf_proposal :: proposal
  cf_concept :: "concept option"
  cf_decision :: "decision option"
  cf_knowledge :: "knowledge_item option"
  cf_task :: "task option"
  cf_warnings :: "ustr list"

record batch_entry =
  be_id :: uuid
  be_ok :: bool
  be_skipped :: bool
  be_error :: "bad_request option"
  be_warnings :: "ustr list"

datatype body =
    ErrorBody string
  | BadBody bad_request
  | ConfirmBody confirm_response
  | BatchBody "batch_entry list"
  | ListBody "proposal list"

type_synonym response = "nat \<times> body"
type_synonym handling = "proposal_db txn \<Rightarrow> response \<times> proposal_db txn"

definition answer :: "nat \<Rightarrow> string \<Rightarrow> handling" where
  "answer status message t = ((status, ErrorBody message), t)"

definition bad_action :: string where
  "bad_action = ''action must be '' @ CHR 0x27 # ''accept'' @ CHR 0x27 # '' or '' @ CHR 0x27 # ''reject'' @ [CHR 0x27]"

definition errInternalGeneric :: string where
  "errInternalGeneric = ''internal error''"

definition only_proposal :: "proposal \<Rightarrow> confirm_response" where
  "only_proposal r = \<lparr>cf_proposal = r, cf_concept = None, cf_decision = None, cf_knowledge = None, cf_task = None, cf_warnings = []\<rparr>"

text \<open>The deferred rollback of the orchestration: what it did not commit is gone.\<close>

definition rolled_back :: "'a pprog \<Rightarrow> 'a pprog" where
  "rolled_back m t = (case m t of (r, t') \<Rightarrow> (r, t'\<lparr>seen := outside t'\<rparr>))"

section \<open>Lists\<close>

definition ListPendingProposals :: "handler \<Rightarrow> string \<Rightarrow> proposal_db \<Rightarrow> response" where
  "ListPendingProposals h typeFilter s =
     (200, ListBody (filter (\<lambda>r. \<not> (typeFilter \<noteq> '''' \<and> pp_type r \<noteq> typeFilter)) (h_pending h s)))"

definition status_text :: "proposal_status \<Rightarrow> string" where
  "status_text st = (case st of StatusPending \<Rightarrow> ''pending'' | StatusAccepted \<Rightarrow> ''accepted'' | StatusRejected \<Rightarrow> ''rejected'')"

definition allowedProposalStatuses :: "string list" where
  "allowedProposalStatuses = [''pending'', ''accepted'', ''rejected'', ''all'']"

definition allowedProposalTypes :: "string list" where
  "allowedProposalTypes = [''concept'', ''goal'', ''project'', ''task'', ''decision'', ''knowledge'']"

definition ListProposals :: "handler \<Rightarrow> string \<Rightarrow> string \<Rightarrow> proposal_db \<Rightarrow> response" where
  "ListProposals h status proposalType s =
     (if status \<noteq> '''' \<and> status \<notin> set allowedProposalStatuses
        then (400, ErrorBody ''status must be pending, accepted, rejected, or all'')
      else if proposalType \<noteq> '''' \<and> proposalType \<notin> set allowedProposalTypes
        then (400, ErrorBody ''type must be concept, goal, project, task, decision, or knowledge'')
      else (let status = (if status = '''' then ''pending'' else status);
                proposalType = (if proposalType = '''' then ''concept'' else proposalType)
        in case h_all h proposalType 200 s of
             Inl e \<Rightarrow> (500, ErrorBody errInternalGeneric)
           | Inr rows \<Rightarrow> (200, ListBody (filter (\<lambda>r. status = ''all'' \<or> status_text (pp_status r) = status) rows))))"

section \<open>Accepting one\<close>

definition resolve_only :: "handler \<Rightarrow> uuid \<Rightarrow> handling" where
  "resolve_only h i t = (case h_resolve h i StatusAccepted t of
     (Inl e, t') \<Rightarrow>
       if e = PNotFound then answer 409 ''proposal already resolved'' t' else answer 500 errInternalGeneric t'
   | (Inr r, t') \<Rightarrow> ((200, ConfirmBody (only_proposal r)), t'))"

definition taskFromCreated :: "created \<Rightarrow> task option" where
  "taskFromCreated c = (case c of CrTask t \<Rightarrow> Some t | CrTaskWarnings t ws \<Rightarrow> Some t | _ \<Rightarrow> None)"

definition seamAcceptResponse :: "string \<Rightarrow> proposal \<Rightarrow> created \<Rightarrow> ustr list \<Rightarrow> confirm_response" where
  "seamAcceptResponse ty r c warnings =
     (let resp = only_proposal r in
      if ty = TypeKnowledge then (case c of CrKnowledge k \<Rightarrow> resp\<lparr>cf_knowledge := Some k\<rparr> | _ \<Rightarrow> resp)
      else if ty = TypeDecision then (case c of CrDecision d \<Rightarrow> resp\<lparr>cf_decision := Some d\<rparr> | _ \<Rightarrow> resp)
      else if ty = TypeConcept then (case c of CrConcept k \<Rightarrow> resp\<lparr>cf_concept := Some k\<rparr> | _ \<Rightarrow> resp)
      else if ty = TypeTask then resp\<lparr>cf_task := taskFromCreated c, cf_warnings := warnings\<rparr>
      else resp)"

definition seam_types :: "string list" where
  "seam_types = [TypeGoal, TypeProject, TypeKnowledge, TypeDecision, TypeConcept, TypeTask]"

definition acceptGoalOrProject :: "handler \<Rightarrow> uuid \<Rightarrow> proposal \<Rightarrow> handling" where
  "acceptGoalOrProject h i prop t =
     (case h_adapter h of
        None \<Rightarrow>
          if pp_type prop \<in> {TypeDecision, TypeConcept, TypeTask} then answer 500 errInternalGeneric t
          else resolve_only h i t
      | Some factory \<Rightarrow>
          (case acceptPayloadGate (h_quote h) (h_parse h) (h_strict h) (pp_type prop) (pp_payload prop) of
             Inl bad \<Rightarrow> ((400, BadBody bad), t)
           | Inr warnings \<Rightarrow>
               (case rolled_back (AcceptOrchestration (factory i)) t of
                  (Inl e, t') \<Rightarrow>
                    if e = PNotFound \<or> e = PAlreadyResolved then answer 409 ''proposal already resolved'' t'
                    else if e = PGtd GConflict then answer 409 ''project name already exists'' t'
                    else answer 500 errInternalGeneric t'
                | (Inr (r, c), t') \<Rightarrow> ((200, ConfirmBody (seamAcceptResponse (pp_type prop) r c warnings)), t'))))"

definition handleAccept :: "handler \<Rightarrow> uuid \<Rightarrow> handling" where
  "handleAccept h i t = (case h_get h i t of
     (Inl e, t') \<Rightarrow> if e = PNotFound then answer 404 ''proposal not found'' t' else answer 500 errInternalGeneric t'
   | (Inr prop, t') \<Rightarrow>
       if pp_status prop \<noteq> StatusPending then answer 409 ''proposal already resolved'' t'
       else if pp_type prop \<in> set seam_types then acceptGoalOrProject h i prop t'
       else resolve_only h i t')"

definition ConfirmProposal :: "handler \<Rightarrow> ustr \<Rightarrow> ustr option \<Rightarrow> handling" where
  "ConfirmProposal h rawID action t =
     (case h_parse h rawID of
        None \<Rightarrow> answer 400 ''invalid proposal id'' t
      | Some i \<Rightarrow>
          (case action of
             None \<Rightarrow> answer 400 ''invalid request body'' t
           | Some a \<Rightarrow>
               if a = lit ''reject'' then
                 (case h_resolve h i StatusRejected t of
                    (Inl e, t') \<Rightarrow>
                      if e = PNotFound then answer 409 ''proposal not found or already resolved'' t'
                      else answer 500 errInternalGeneric t'
                  | (Inr r, t') \<Rightarrow> ((200, ConfirmBody (only_proposal r)), t'))
               else if a = lit ''accept'' then handleAccept h i t
               else answer 400 bad_action t))"

section \<open>Accepting a batch\<close>

record batch_meta =
  bm_seam :: bool
  bm_notWired :: bool
  bm_warnings :: "ustr list"
  bm_payloadErr :: "bad_request option"
  bm_lookupFailed :: bool

definition no_meta :: batch_meta where
  "no_meta = \<lparr>bm_seam = False, bm_notWired = False, bm_warnings = [], bm_payloadErr = None, bm_lookupFailed = False\<rparr>"

fun join_with :: "ustr \<Rightarrow> ustr list \<Rightarrow> ustr" where
  "join_with sep [] = []"
| "join_with sep [x] = x"
| "join_with sep (x # xs) = x @ sep @ join_with sep xs"

definition batchTaskMeta :: "handler \<Rightarrow> payload_text \<Rightarrow> batch_meta" where
  "batchTaskMeta h payload = (case DecodeTaskParams (h_quote h) payload False of
     Inl e \<Rightarrow> no_meta\<lparr>bm_seam := True, bm_payloadErr := Some (publicDecodeErr e)\<rparr>
   | Inr (_, warnings) \<Rightarrow>
       if warnings \<noteq> [] \<and> h_strict h
       then no_meta\<lparr>bm_seam := True,
              bm_payloadErr := Some (BadRequest (lit ''vagueness check failed: '' @ join_with (lit ''; '') warnings))\<rparr>
       else no_meta\<lparr>bm_seam := True, bm_warnings := warnings\<rparr>)"

definition batchProposalMetaForType :: "handler \<Rightarrow> proposal \<Rightarrow> batch_meta" where
  "batchProposalMetaForType h prop =
     (if pp_type prop \<in> set seam_types then
        (if h_adapter h = None then
           (if pp_type prop \<in> {TypeDecision, TypeConcept, TypeTask} then no_meta\<lparr>bm_notWired := True\<rparr> else no_meta)
         else if pp_type prop = TypeTask then batchTaskMeta h (pp_payload prop)
         else (case validateGoalProjectPayload (h_parse h) (pp_type prop) (pp_payload prop) of
             Some bad \<Rightarrow> no_meta\<lparr>bm_seam := True, bm_payloadErr := Some bad\<rparr>
           | None \<Rightarrow> no_meta\<lparr>bm_seam := True\<rparr>))
      else no_meta)"

text \<open>An id that is not found has no entry.\<close>

fun batchProposalMeta :: "handler \<Rightarrow> uuid list \<Rightarrow> (uuid \<times> batch_meta) list \<Rightarrow> proposal_db txn
    \<Rightarrow> (uuid \<times> batch_meta) list \<times> proposal_db txn" where
  "batchProposalMeta h [] meta t = (meta, t)"
| "batchProposalMeta h (i # ids) meta t =
     (case h_get h i t of
        (Inl e, t') \<Rightarrow>
          if e = PNotFound then batchProposalMeta h ids meta t'
          else batchProposalMeta h ids (AList.update i (no_meta\<lparr>bm_lookupFailed := True\<rparr>) meta) t'
      | (Inr prop, t') \<Rightarrow> batchProposalMeta h ids (AList.update i (batchProposalMetaForType h prop) meta) t')"

definition entry_of :: "uuid \<Rightarrow> batch_entry" where
  "entry_of i = \<lparr>be_id = i, be_ok = False, be_skipped = False, be_error = None, be_warnings = []\<rparr>"

definition failed_entry :: "uuid \<Rightarrow> string \<Rightarrow> batch_entry" where
  "failed_entry i message = (entry_of i)\<lparr>be_error := Some (BadRequest (lit message))\<rparr>"

definition skipped_entry :: "uuid \<Rightarrow> batch_entry" where
  "skipped_entry i = (failed_entry i ''not found or already resolved'')\<lparr>be_skipped := True\<rparr>"

definition batchResolveOne :: "handler \<Rightarrow> proposal_status \<Rightarrow> (uuid \<times> batch_meta) list \<Rightarrow> uuid \<Rightarrow> proposal_db txn
    \<Rightarrow> batch_entry \<times> proposal_db txn" where
  "batchResolveOne h status meta i t =
     (let m = map_of meta i; seam = (case m of None \<Rightarrow> no_meta | Some x \<Rightarrow> x) in
      if status = StatusAccepted \<and> bm_lookupFailed seam then (failed_entry i errInternalGeneric, t)
      else if status = StatusAccepted \<and> bm_notWired seam then (failed_entry i errInternalGeneric, t)
      else if status = StatusAccepted \<and> bm_seam seam then
        (case (bm_payloadErr seam, h_adapter h) of
           (Some bad, _) \<Rightarrow> ((entry_of i)\<lparr>be_error := Some bad\<rparr>, t)
         | (None, None) \<Rightarrow> (failed_entry i errInternalGeneric, t)
         | (None, Some factory) \<Rightarrow>
             (case rolled_back (AcceptOrchestration (factory i)) t of
                (Inl e, t') \<Rightarrow>
                  (if e = PNotFound \<or> e = PAlreadyResolved then skipped_entry i
                   else if e = PGtd GConflict then failed_entry i ''project name already exists''
                   else failed_entry i errInternalGeneric, t')
              | (Inr _, t') \<Rightarrow> ((entry_of i)\<lparr>be_ok := True, be_warnings := bm_warnings seam\<rparr>, t')))
      else
        (case h_resolve h i status t of
           (Inl e, t') \<Rightarrow> (if e = PNotFound then skipped_entry i else failed_entry i errInternalGeneric, t')
         | (Inr _, t') \<Rightarrow> ((entry_of i)\<lparr>be_ok := True\<rparr>, t')))"

fun batch_entries :: "handler \<Rightarrow> proposal_status \<Rightarrow> (uuid \<times> batch_meta) list \<Rightarrow> uuid list \<Rightarrow> proposal_db txn
    \<Rightarrow> batch_entry list \<times> proposal_db txn" where
  "batch_entries h status meta [] t = ([], t)"
| "batch_entries h status meta (i # ids) t =
     (case batchResolveOne h status meta i t of
        (e, t') \<Rightarrow> (case batch_entries h status meta ids t' of (es, t'') \<Rightarrow> (e # es, t'')))"

definition maxBatchConfirmIDs :: nat where "maxBatchConfirmIDs = 100"
definition minBatchConfirmIDs :: nat where "minBatchConfirmIDs = 1"

text \<open>\<open>None\<close> when the body is not JSON of the right shape within its limit.\<close>

definition ConfirmBatch :: "handler \<Rightarrow> (ustr list \<times> ustr) option \<Rightarrow> handling" where
  "ConfirmBatch h req t =
     (case req of
        None \<Rightarrow> answer 400 ''invalid request body'' t
      | Some (raws, action) \<Rightarrow>
          if action \<noteq> lit ''accept'' \<and> action \<noteq> lit ''reject'' then answer 400 bad_action t
          else if length raws < minBatchConfirmIDs then answer 400 ''ids must contain at least 1 proposal UUID'' t
          else if maxBatchConfirmIDs < length raws then answer 400 ''ids must contain at most 100 proposal UUIDs'' t
          else (case those (map (h_parse h) raws) of
                  None \<Rightarrow> answer 400 ''ids[] is not a valid UUID'' t
                | Some ids \<Rightarrow>
                    (let status = (if action = lit ''accept'' then StatusAccepted else StatusRejected) in
                     case (if action = lit ''accept'' then batchProposalMeta h ids [] t else ([], t)) of
                       (meta, t') \<Rightarrow>
                         (case batch_entries h status meta ids t' of (es, t'') \<Rightarrow> ((200, BatchBody es), t'')))))"

section \<open>The two wirings\<close>

text \<open>Every proposal has its own call, with its own identifiers, interference and faults.\<close>

definition prefixed :: "string \<Rightarrow> (string \<Rightarrow> 'a) \<Rightarrow> string \<Rightarrow> 'a" where
  "prefixed p f name = f (p @ name)"

definition handler_pg :: "(uuid \<Rightarrow> p_others) \<Rightarrow> (uuid \<Rightarrow> faults) \<Rightarrow> (uuid \<Rightarrow> call) \<Rightarrow> handler" where
  "handler_pg env fault c =
     \<lparr>h_get = (\<lambda>i. Get_pg (prefixed ''handler '' (env i)) (prefixed ''handler '' (fault i)) (c_scope (c i)) i),
      h_resolve = (\<lambda>i. Resolve_pg (prefixed ''handler '' (env i)) (prefixed ''handler '' (fault i)) (c_scope (c i))
                    (c_clock (c i)) i),
      h_pending = ListPending_pg (c_scope (c 0)), h_all = ListAll_pg (c_scope (c 0)),
      h_adapter = Some (\<lambda>i. pgAcceptAdapter (env i) (fault i) (c i) i),
      h_parse = c_parse (c 0), h_quote = c_quote (c 0), h_strict = c_strict (c 0)\<rparr>"

definition handler_sq :: "(uuid \<Rightarrow> p_others) \<Rightarrow> (uuid \<Rightarrow> faults) \<Rightarrow> (uuid \<Rightarrow> call) \<Rightarrow> handler" where
  "handler_sq env fault c =
     \<lparr>h_get = (\<lambda>i. Get_sq (prefixed ''handler '' (env i)) (prefixed ''handler '' (fault i)) (c_scope (c i)) i),
      h_resolve = (\<lambda>i. Resolve_sq (prefixed ''handler '' (env i)) (prefixed ''handler '' (fault i)) (c_scope (c i))
                    (c_clock (c i)) i),
      h_pending = ListPending_sq (c_scope (c 0)), h_all = ListAll_sq (c_scope (c 0)),
      h_adapter = Some (\<lambda>i. sqliteAcceptAdapter (env i) (fault i) (c i) i),
      h_parse = c_parse (c 0), h_quote = c_quote (c 0), h_strict = c_strict (c 0)\<rparr>"

end
