(* ===== verification/Proposal_Mcp.thy ===== *)
theory Proposal_Mcp
  imports Proposal_Accept
begin

text \<open>
  The agent's side of proposals: \<open>internal/mcp/tools_proposal.go\<close> with \<open>knowledge.AddItem\<close> and
  \<open>playbook.Create\<close> of both backends.  A tool answers with an error or a result; the JSON around a row
  is left out.  Splitting Markdown into sections (goldmark) is the parameter \<open>m_sections\<close>;
  \<open>m_child k\<close> is the identifier of the k-th section row.

  The Postgres path writes knowledge items and playbooks through the pool while its transaction is
  open, so they are committed at once.  On SQLite the open transaction holds the only connection of
  the pool: a statement through the pool waits until the call's context ends (\<open>PBlocked\<close>).
\<close>

section \<open>Answers\<close>

datatype tool_error =
    Said string
  | StoreFailed string proposal_error        \<comment> \<open>\<open>storeErrorText\<close> of the operation and the error\<close>
  | AlreadyIs proposal_status
  | BadPayload decode_error
  | FieldTooLong string nat nat              \<comment> \<open>the field, its length and the limit\<close>
  | NotAUUID nat

record confirm_result =
  cr_proposal :: "proposal option"
  cr_created :: created

type_synonym 'a tool = "proposal_db txn \<Rightarrow> (tool_error + 'a) \<times> proposal_db txn"

record section_text =
  se_level :: int
  se_title :: ustr
  se_path :: ustr
  se_content :: ustr

record mcp_call =
  m_call :: call
  m_session :: ustr
  m_sections :: "ustr \<Rightarrow> section_text list"
  m_child :: "nat \<Rightarrow> uuid"

definition failing_with :: "string \<Rightarrow> 'a pprog \<Rightarrow> 'a tool" where
  "failing_with op m t = (case m t of (Inl e, t') \<Rightarrow> (Inl (StoreFailed op e), t') | (Inr a, t') \<Rightarrow> (Inr a, t'))"

definition tool_error :: "tool_error \<Rightarrow> 'a tool" where
  "tool_error e t = (Inl e, t)"

definition then_do :: "'a tool \<Rightarrow> ('a \<Rightarrow> 'b tool) \<Rightarrow> 'b tool" where
  "then_do m k t = (case m t of (Inl e, t') \<Rightarrow> (Inl e, t') | (Inr a, t') \<Rightarrow> k a t')"

definition decoded :: "decode_error + 'a \<Rightarrow> ('a \<Rightarrow> 'b tool) \<Rightarrow> 'b tool" where
  "decoded d k = (case d of Inl e \<Rightarrow> tool_error (BadPayload e) | Inr a \<Rightarrow> k a)"

definition tool_rollback :: "'a tool \<Rightarrow> 'a tool" where
  "tool_rollback m t = (case m t of (r, t') \<Rightarrow> (r, t'\<lparr>seen := outside t'\<rparr>))"

section \<open>Proposing\<close>

definition proposeTextMaxBytes :: nat where "proposeTextMaxBytes = 65536"
definition proposeShortMaxBytes :: nat where "proposeShortMaxBytes = 512"

definition proposeFieldTooLong :: "string \<Rightarrow> ustr \<Rightarrow> nat \<Rightarrow> tool_error option" where
  "proposeFieldTooLong field value maxBytes =
     (if byte_len value \<le> maxBytes then None else Some (FieldTooLong field (byte_len value) maxBytes))"

fun first_error :: "'e option list \<Rightarrow> 'e option" where
  "first_error [] = None"
| "first_error (x # xs) = (case x of Some e \<Rightarrow> Some e | None \<Rightarrow> first_error xs)"

definition goalPayload :: "ustr \<Rightarrow> ustr \<Rightarrow> ustr \<Rightarrow> ustr \<Rightarrow> struct_field list" where
  "goalPayload title area description due =
     [\<lparr>sf_name = ''title'', sf_omitempty = False, sf_value = MStr title\<rparr>,
      \<lparr>sf_name = ''area'', sf_omitempty = False, sf_value = MStr area\<rparr>,
      \<lparr>sf_name = ''description'', sf_omitempty = True, sf_value = MStr description\<rparr>,
      \<lparr>sf_name = ''due_date'', sf_omitempty = True, sf_value = MStr due\<rparr>]"

definition projectPayload :: "ustr \<Rightarrow> ustr \<Rightarrow> ustr \<Rightarrow> ustr \<Rightarrow> ustr \<Rightarrow> int \<Rightarrow> struct_field list" where
  "projectPayload name title area description goal priority =
     [\<lparr>sf_name = ''name'', sf_omitempty = False, sf_value = MStr name\<rparr>,
      \<lparr>sf_name = ''title'', sf_omitempty = False, sf_value = MStr title\<rparr>,
      \<lparr>sf_name = ''area'', sf_omitempty = False, sf_value = MStr area\<rparr>,
      \<lparr>sf_name = ''description'', sf_omitempty = True, sf_value = MStr description\<rparr>,
      \<lparr>sf_name = ''goal_id'', sf_omitempty = True, sf_value = MStr goal\<rparr>,
      \<lparr>sf_name = ''priority'', sf_omitempty = True, sf_value = MInt priority\<rparr>]"

type_synonym creator = "create_proposal \<Rightarrow> proposal pprog"

definition propose :: "creator \<Rightarrow> string \<Rightarrow> struct_field list \<Rightarrow> ustr \<Rightarrow> proposal tool" where
  "propose create ty fs by =
     failing_with ''creating proposal''
       (create \<lparr>cq_workspace = None, cq_type = ty, cq_payload = Marshal True fs, cq_by = by\<rparr>)"

definition handleProposeGoal :: "creator \<Rightarrow> (string \<Rightarrow> ustr) \<Rightarrow> proposal tool" where
  "handleProposeGoal create stringArg =
     (let title = stringArg ''title''; area = stringArg ''area''; dueDate = stringArg ''due_date'';
          description = stringArg ''description'' in
      if title = [] \<or> area = [] then tool_error (Said ''title and area are required'')
      else if dueDate \<noteq> [] \<and> ParseRFC3339 dueDate = None then tool_error (Said ''invalid due_date: must be RFC3339'')
      else (case first_error [proposeFieldTooLong ''title'' title proposeShortMaxBytes,
                   proposeFieldTooLong ''area'' area proposeShortMaxBytes,
                   proposeFieldTooLong ''description'' description proposeTextMaxBytes] of
              Some e \<Rightarrow> tool_error e
            | None \<Rightarrow> propose create TypeGoal (goalPayload title area description dueDate) (stringArg ''proposed_by'')))"

definition handleProposeProject :: "(ustr \<Rightarrow> uuid option) \<Rightarrow> creator \<Rightarrow> (string \<Rightarrow> ustr) \<Rightarrow> int \<Rightarrow> proposal tool" where
  "handleProposeProject parse_uuid create stringArg priority =
     (let name = stringArg ''name''; title = stringArg ''title''; area = stringArg ''area''; goalID = stringArg ''goal_id'';
          description = stringArg ''description'' in
      if name = [] \<or> title = [] \<or> area = [] then tool_error (Said ''name, title and area are required'')
      else if priority \<noteq> 0 \<and> (priority < 1 \<or> 5 < priority) then tool_error (Said ''priority must be between 1 and 5'')
      else if goalID \<noteq> [] \<and> parse_uuid goalID = None then tool_error (Said ''invalid goal_id UUID'')
      else (case first_error [proposeFieldTooLong ''name'' name proposeShortMaxBytes,
                   proposeFieldTooLong ''title'' title proposeShortMaxBytes,
                   proposeFieldTooLong ''area'' area proposeShortMaxBytes,
                   proposeFieldTooLong ''description'' description proposeTextMaxBytes] of
              Some e \<Rightarrow> tool_error e
            | None \<Rightarrow> propose create TypeProject (projectPayload name title area description goalID priority)
                        (stringArg ''proposed_by'')))"

section \<open>One page of the queue\<close>

definition listPageDefaultLimit :: int where "listPageDefaultLimit = 50"
definition listPageMaxLimit :: int where "listPageMaxLimit = 200"

definition listPageBounds :: "int \<Rightarrow> int \<Rightarrow> int \<times> int" where
  "listPageBounds rawLimit rawOffset =
     (let limit = (if rawLimit \<le> 0 then listPageDefaultLimit else rawLimit);
          limit = (if listPageMaxLimit < limit then listPageMaxLimit else limit)
      in (limit, if rawOffset < 0 then 0 else rawOffset))"

record proposal_page =
  pg_proposals :: "proposal list"
  pg_limit :: int
  pg_offset :: int
  pg_has_more :: bool

definition handleListPendingProposals :: "(int \<Rightarrow> int \<Rightarrow> proposal_db \<Rightarrow> proposal list) \<Rightarrow> int \<Rightarrow> int \<Rightarrow> proposal_db \<Rightarrow> proposal_page" where
  "handleListPendingProposals pager rawLimit rawOffset s =
     (case listPageBounds rawLimit rawOffset of (limit, offset) \<Rightarrow>
        (let rows = pager (limit + 1) offset s; hasMore = limit < int (length rows)
         in \<lparr>pg_proposals = (if hasMore then take (nat limit) rows else rows), pg_limit = limit, pg_offset = offset,
             pg_has_more = hasMore\<rparr>))"

section \<open>Knowledge through the pool\<close>

definition child_item :: "add_item \<Rightarrow> uuid \<Rightarrow> section_text \<Rightarrow> add_item" where
  "child_item p root sec =
     \<lparr>ai_type = ai_type p, ai_title = se_title sec, ai_content = se_content sec, ai_url = [], ai_tags = ai_tags p,
      ai_source = ai_source p, ai_parent = Some root, ai_path = se_path sec, ai_level = se_level sec\<rparr>"

text \<open>A failed embedding write is logged.\<close>

definition or_logged :: "unit pprog \<Rightarrow> unit pprog" where
  "or_logged m t = (case m t of (_, t') \<Rightarrow> (Inr (), t'))"

definition write_row_pg :: "p_others \<Rightarrow> faults \<Rightarrow> call \<Rightarrow> uuid \<Rightarrow> prepared_item \<Rightarrow> knowledge_item pprog" where
  "write_row_pg env fault c nid prep =
     and_then (direct env fault ''knowledge''
       (insert_item (item_of pg_ts (c_scope c) (c_clock c ''knowledge'') nid (pi_params prep)))) (\<lambda>r.
     if pi_vec prep
     then and_then (or_logged (direct env fault ''embedding'' (set_embedding nid))) (\<lambda>_. give r) else give r)"

definition add_row_pg :: "p_others \<Rightarrow> faults \<Rightarrow> call \<Rightarrow> uuid \<Rightarrow> add_item \<Rightarrow> knowledge_item pprog" where
  "add_row_pg env fault c nid p =
     and_then (Prepare_pg env fault (c_embed c) (c_scope c) p) (\<lambda>prep. write_row_pg env fault c nid prep)"

fun fan_out :: "(nat \<Rightarrow> add_item \<Rightarrow> knowledge_item pprog) \<Rightarrow> add_item \<Rightarrow> uuid \<Rightarrow> nat \<Rightarrow> section_text list \<Rightarrow> unit pprog" where
  "fan_out add p root k [] t = (Inr (), t)"
| "fan_out add p root k (sec # secs) t =
     (case add k (child_item p root sec) t of (_, t') \<Rightarrow> fan_out add p root (k + 1) secs t')"

definition AddItem_pg :: "p_others \<Rightarrow> faults \<Rightarrow> mcp_call \<Rightarrow> add_item \<Rightarrow> knowledge_item pprog" where
  "AddItem_pg env fault m p =
     and_then (add_row_pg env fault (m_call m) (c_nid (m_call m)) p) (\<lambda>item.
     if ai_parent p = None
     then and_then (fan_out (\<lambda>k. add_row_pg (\<lambda>n. env (numbered n k)) (\<lambda>n. fault (numbered n k)) (m_call m) (m_child m k))
                      p (kn_id item) 0 (m_sections m (ai_content p))) (\<lambda>_. give item)
     else give item)"

definition add_row_sq :: "p_others \<Rightarrow> faults \<Rightarrow> call \<Rightarrow> uuid \<Rightarrow> add_item \<Rightarrow> knowledge_item pprog" where
  "add_row_sq env fault c nid p =
     and_then (Prepare_sq env fault (c_scope c) p) (\<lambda>prep.
     and_then (direct env fault ''knowledge''
       (insert_item (item_of sq_ts (c_scope c) (c_clock c ''knowledge'') nid (pi_params prep)))) (\<lambda>_.
     direct env fault ''knowledge read'' (reading (getByIDTx (c_scope c) nid))))"

definition AddItem_sq :: "p_others \<Rightarrow> faults \<Rightarrow> mcp_call \<Rightarrow> add_item \<Rightarrow> knowledge_item pprog" where
  "AddItem_sq env fault m p =
     and_then (add_row_sq env fault (m_call m) (c_nid (m_call m)) p) (\<lambda>item.
     if ai_parent p = None
     then and_then (fan_out (\<lambda>k. add_row_sq (\<lambda>n. env (numbered n k)) (\<lambda>n. fault (numbered n k)) (m_call m) (m_child m k))
                      p (kn_id item) 0 (m_sections m (ai_content p))) (\<lambda>_. give item)
     else give item)"

text \<open>Both playbook stores write their own workspace, not the one of the parameters.\<close>

definition playbook_of :: "(instant \<Rightarrow> instant) \<Rightarrow> uuid option \<Rightarrow> instant \<Rightarrow> uuid \<Rightarrow> playbook_params \<Rightarrow> playbook" where
  "playbook_of ts scope now nid p =
     \<lparr>pb_id = nid, pb_workspace = scope, pb_trigger = pl_trigger p, pb_action = pl_action p, pb_sources = pl_sources p,
      pb_created = ts now\<rparr>"

definition insert_playbook :: "playbook \<Rightarrow> proposal_db \<Rightarrow> proposal_error + playbook \<times> proposal_db" where
  "insert_playbook r s =
     (if pb_id r \<in> set (map pb_id (playbooks s)) then Inl PConstraint else Inr (r, s\<lparr>playbooks := playbooks s @ [r]\<rparr>))"

definition CreatePlaybook_pg :: "p_others \<Rightarrow> faults \<Rightarrow> call \<Rightarrow> playbook_params \<Rightarrow> playbook pprog" where
  "CreatePlaybook_pg env fault c p =
     direct env fault ''playbook'' (insert_playbook (playbook_of pg_ts (c_scope c) (c_clock c ''playbook'') (c_nid c) p))"

section \<open>Accepting on Postgres\<close>

definition materializeKnowledgePg :: "p_others \<Rightarrow> faults \<Rightarrow> mcp_call \<Rightarrow> proposal \<Rightarrow> created tool" where
  "materializeKnowledgePg env fault m prop =
     decoded (decodeKnowledgePayload (pp_payload prop)) (\<lambda>kp.
       failing_with ''creating knowledge item''
         (and_then (AddItem_pg env fault m (til_item prop kp)) (\<lambda>r. give (CrKnowledge r))))"

definition materializeTaskPg :: "p_others \<Rightarrow> faults \<Rightarrow> mcp_call \<Rightarrow> proposal \<Rightarrow> created tool" where
  "materializeTaskPg env fault m prop =
     decoded (decodeTaskProposalParams (c_quote (m_call m)) (pp_payload prop) (c_strict (m_call m))) (\<lambda>(params, warnings).
       failing_with ''creating task''
         (and_then (in_tx env fault ''task'' (task_in_tx_pg (c_scope (m_call m)) (c_clock (m_call m) ''begin'') (c_nid (m_call m)) params))
            (\<lambda>t. give (warned t warnings))))"

definition materializeDecisionPg :: "p_others \<Rightarrow> faults \<Rightarrow> mcp_call \<Rightarrow> proposal \<Rightarrow> created tool" where
  "materializeDecisionPg env fault m prop =
     decoded (decodeDecisionParams (m_session m) (pp_payload prop)) (\<lambda>dp.
       failing_with ''creating decision''
         (and_then (Log_pg env fault (c_scope (m_call m)) (c_clock (m_call m) ''begin'') (c_nid (m_call m)) dp) (\<lambda>r. give (CrDecision r))))"

definition materializeFromPayloadPg :: "p_others \<Rightarrow> faults \<Rightarrow> mcp_call \<Rightarrow> proposal \<Rightarrow> created tool" where
  "materializeFromPayloadPg env fault m prop =
     (let c = m_call m; now = c_clock c ''begin'' in
      if pp_type prop = TypeDecision then materializeDecisionPg env fault m prop
      else if pp_type prop = TypeGoal then
        decoded (decodeGoalParams (pp_payload prop)) (\<lambda>gp. failing_with ''creating goal''
          (and_then (in_tx env fault ''goal'' (CreateGoal_pg (c_scope c) now (c_nid c) gp)) (\<lambda>r. give (CrGoal r))))
      else if pp_type prop = TypeProject then
        decoded (decodeProjectParams (c_parse c) (pp_payload prop)) (\<lambda>pp. failing_with ''creating project''
          (and_then (in_tx env fault ''project'' (CreateProject_pg (c_scope c) now (c_nid c) pp)) (\<lambda>r. give (CrProject r))))
      else if pp_type prop = TypeConcept then
        decoded (decodeConceptPayload (pp_payload prop)) (\<lambda>cp. failing_with ''creating concept''
          (and_then (CreateConcept_pg env fault c now cp) (\<lambda>r. give (CrConcept r))))
      else if pp_type prop = TypeKnowledge then materializeKnowledgePg env fault m prop
      else if pp_type prop = TypeTask then materializeTaskPg env fault m prop
      else if pp_type prop = TypePlaybook then
        decoded (decodePlaybookPayload (c_parse c) (pp_payload prop) (pp_workspace prop)) (\<lambda>p. failing_with ''creating playbook''
          (and_then (CreatePlaybook_pg env fault c p) (\<lambda>r. give (CrPlaybook r))))
      else tool_error (Said ''unknown proposal type''))"

definition acceptProposalPg :: "p_others \<Rightarrow> faults \<Rightarrow> mcp_call \<Rightarrow> uuid \<Rightarrow> confirm_result tool" where
  "acceptProposalPg env fault m i = tool_rollback
     (then_do (failing_with ''beginning tx'' (begin_tx env fault PDatabase)) (\<lambda>_ t.
        case in_tx env fault ''get'' (reading (get_row (c_scope (m_call m)) i)) t of
          (Inl e, t') \<Rightarrow>
            (Inl (if e = PNotFound then Said ''proposal not found'' else StoreFailed ''fetching proposal'' e), t')
        | (Inr prop, t') \<Rightarrow>
            if pp_status prop \<noteq> StatusPending then (Inl (AlreadyIs (pp_status prop)), t')
            else
              then_do (materializeFromPayloadPg env fault m prop) (\<lambda>c.
              then_do (failing_with ''resolving proposal''
                 (Resolve_in_tx env fault ''resolve'' (c_scope (m_call m)) (c_clock (m_call m) ''begin'') i StatusAccepted)) (\<lambda>r.
              then_do (failing_with ''committing'' (commit_tx env fault PDatabase)) (\<lambda>_ t.
                (Inr \<lparr>cr_proposal = Some r, cr_created = c\<rparr>, t)))) t'))"

section \<open>Accepting on SQLite\<close>

definition materializeDecisionSQLite :: "faults \<Rightarrow> mcp_call \<Rightarrow> proposal \<Rightarrow> created tool" where
  "materializeDecisionSQLite fault m prop =
     decoded (decodeDecisionParams (m_session m) (pp_payload prop)) (\<lambda>dp. failing_with ''creating decision''
       (and_then (LogTx undisturbed fault (c_scope (m_call m)) (c_clock (m_call m) ''decision'') (c_nid (m_call m)) dp)
          (\<lambda>i. give (CrRef i [(''title'', lp_title dp)]))))"

definition materializeTaskSQLite :: "mcp_call \<Rightarrow> proposal \<Rightarrow> created tool" where
  "materializeTaskSQLite m prop =
     decoded (decodeTaskProposalParams (c_quote (m_call m)) (pp_payload prop) (c_strict (m_call m))) (\<lambda>_ t. (Inr CrNothing, t))"

definition materializeFromPayloadSQLiteTx :: "faults \<Rightarrow> mcp_call \<Rightarrow> proposal \<Rightarrow> created tool" where
  "materializeFromPayloadSQLiteTx fault m prop =
     (let c = m_call m in
      if pp_type prop = TypeDecision then materializeDecisionSQLite fault m prop
      else if pp_type prop = TypeGoal then
        decoded (decodeGoalParams (pp_payload prop)) (\<lambda>gp. failing_with ''creating goal''
          (and_then (in_tx undisturbed fault ''goal'' (CreateGoalTx (c_scope c) (c_clock c ''goal'') (c_nid c) gp))
            (\<lambda>i. give (CrRef i [(''title'', cg_title gp)]))))
      else if pp_type prop = TypeProject then
        decoded (decodeProjectParams (c_parse c) (pp_payload prop)) (\<lambda>pp. failing_with ''creating project''
          (and_then (in_tx undisturbed fault ''project'' (CreateProjectTx (c_scope c) (c_clock c ''project'') (c_nid c) pp))
            (\<lambda>i. give (CrRef i [(''name'', cp_name pp), (''title'', cp_title pp)]))))
      else if pp_type prop = TypeConcept then
        decoded (decodeConceptPayload (pp_payload prop)) (\<lambda>cp. failing_with ''creating concept''
          (and_then (CreateConceptTx undisturbed fault c (c_clock c ''concept'') cp)
            (\<lambda>i. give (CrRef i [(''title'', cn_title cp)]))))
      else if pp_type prop = TypeKnowledge then decoded (decodeKnowledgePayload (pp_payload prop)) (\<lambda>_ t. (Inr CrNothing, t))
      else if pp_type prop = TypeTask then materializeTaskSQLite m prop
      else if pp_type prop = TypePlaybook then
        decoded (decodePlaybookPayload (c_parse c) (pp_payload prop) (pp_workspace prop))
          (\<lambda>_. tool_error (StoreFailed ''creating playbook'' PBlocked))
      else tool_error (Said ''unknown proposal type''))"

definition materializeKnowledgeIface :: "p_others \<Rightarrow> faults \<Rightarrow> mcp_call \<Rightarrow> proposal \<Rightarrow> created tool" where
  "materializeKnowledgeIface env fault m prop =
     decoded (decodeKnowledgePayload (pp_payload prop)) (\<lambda>kp. failing_with ''creating knowledge item''
       (and_then (AddItem_sq env fault m (til_item prop kp)) (\<lambda>r. give (CrKnowledge r))))"

definition create_task_sq :: "p_others \<Rightarrow> faults \<Rightarrow> call \<Rightarrow> create_task_params \<Rightarrow> task pprog" where
  "create_task_sq env fault c p =
     and_then (direct env fault ''task'' (task_in_tx_sq (c_scope c) (c_clock c ''task'') (c_nid c) p)) (\<lambda>i.
       direct env fault ''task read'' (reading (taskByIDTx (c_scope c) i)))"

definition materializeTaskIface :: "p_others \<Rightarrow> faults \<Rightarrow> mcp_call \<Rightarrow> proposal \<Rightarrow> created tool" where
  "materializeTaskIface env fault m prop =
     decoded (decodeTaskProposalParams (c_quote (m_call m)) (pp_payload prop) (c_strict (m_call m))) (\<lambda>(params, warnings).
       failing_with ''creating task''
         (and_then (create_task_sq env fault (m_call m) params) (\<lambda>t. give (warned t warnings))))"

text \<open>A failure here is logged: the transaction has committed.\<close>

definition runSQLitePostCommitMaterialisers :: "p_others \<Rightarrow> faults \<Rightarrow> mcp_call \<Rightarrow> proposal \<Rightarrow> created \<Rightarrow> proposal_db txn \<Rightarrow> created \<times> proposal_db txn" where
  "runSQLitePostCommitMaterialisers env fault m prop c t =
     (if c \<noteq> CrNothing then (c, t)
      else if pp_type prop = TypeKnowledge then
        (case materializeKnowledgeIface env fault m prop t of (Inl e, t') \<Rightarrow> (c, t') | (Inr c', t') \<Rightarrow> (c', t'))
      else if pp_type prop = TypeTask then
        (case materializeTaskIface env fault m prop t of (Inl e, t') \<Rightarrow> (c, t') | (Inr c', t') \<Rightarrow> (c', t'))
      else (c, t))"

definition acceptProposalSQLite :: "p_others \<Rightarrow> faults \<Rightarrow> mcp_call \<Rightarrow> uuid \<Rightarrow> confirm_result tool" where
  "acceptProposalSQLite env fault m i t =
     (case Get_sq env fault (c_scope (m_call m)) i t of
        (Inl e, t1) \<Rightarrow> (Inl (if e = PNotFound then Said ''proposal not found'' else StoreFailed ''fetching proposal'' e), t1)
      | (Inr prop, t1) \<Rightarrow>
          if pp_status prop \<noteq> StatusPending then (Inl (AlreadyIs (pp_status prop)), t1)
          else
            (case tool_rollback
               (then_do (failing_with ''beginning transaction'' (begin_tx env fault PDatabase)) (\<lambda>_.
                then_do (materializeFromPayloadSQLiteTx fault m prop) (\<lambda>c.
                then_do (\<lambda>t. case ResolveTx undisturbed fault (c_scope (m_call m)) (c_clock (m_call m)) i StatusAccepted t of
                    (Inl e, t') \<Rightarrow>
                      (Inl (if e = PNotFound then Said ''proposal already resolved by concurrent request''
                            else StoreFailed ''resolving proposal'' e), t')
                  | (Inr _, t') \<Rightarrow> (Inr (), t')) (\<lambda>_.
                then_do (failing_with ''committing transaction'' (commit_tx undisturbed fault PDatabase)) (\<lambda>_ t. (Inr c, t)))))) t1 of
               (Inl e, t2) \<Rightarrow> (Inl e, t2)
             | (Inr c, t2) \<Rightarrow>
                 (case runSQLitePostCommitMaterialisers env fault m prop c t2 of
                    (c', t3) \<Rightarrow>
                      (case Get_sq (\<lambda>n. env (''reread '' @ n)) (\<lambda>n. fault (''reread '' @ n)) (c_scope (m_call m)) i t3 of
                         (Inl e, t4) \<Rightarrow> (Inr \<lparr>cr_proposal = None, cr_created = c'\<rparr>, t4)
                       | (Inr r, t4) \<Rightarrow> (Inr \<lparr>cr_proposal = Some r, cr_created = c'\<rparr>, t4)))))"

section \<open>Confirming\<close>

definition handleConfirmProposal :: "(ustr \<Rightarrow> uuid option) \<Rightarrow> (uuid \<Rightarrow> proposal_status \<Rightarrow> proposal pprog) \<Rightarrow> (uuid \<Rightarrow> confirm_result tool)
    \<Rightarrow> (string \<Rightarrow> ustr) \<Rightarrow> confirm_result tool" where
  "handleConfirmProposal parse_uuid resolve accept stringArg t =
     (let rawID = stringArg ''proposal_id''; action = stringArg ''action'' in
      if rawID = [] \<or> action = [] then (Inl (Said ''proposal_id and action are required''), t)
      else (case parse_uuid rawID of
              None \<Rightarrow> (Inl (Said ''invalid proposal_id UUID''), t)
            | Some i \<Rightarrow>
                if action = lit ''reject'' then
                  (case resolve i StatusRejected t of
                     (Inl e, t') \<Rightarrow>
                       (Inl (if e = PNotFound then Said ''proposal not found or already resolved'' else StoreFailed ''rejecting'' e), t')
                   | (Inr r, t') \<Rightarrow> (Inr \<lparr>cr_proposal = Some r, cr_created = CrNothing\<rparr>, t'))
                else if action = lit ''accept'' then accept i t
                else (Inl (Said ''action must be accept or reject''), t)))"

record accept_item =
  xi_id :: uuid
  xi_error :: "tool_error option"

fun batchAccept :: "(uuid \<Rightarrow> confirm_result tool) \<Rightarrow> uuid list \<Rightarrow> proposal_db txn \<Rightarrow> accept_item list \<times> proposal_db txn" where
  "batchAccept accept [] t = ([], t)"
| "batchAccept accept (i # ids) t =
     (case accept i t of (r, t') \<Rightarrow>
        (case batchAccept accept ids t' of (items, t'') \<Rightarrow>
           (\<lparr>xi_id = i, xi_error = (case r of Inl e \<Rightarrow> Some e | Inr _ \<Rightarrow> None)\<rparr> # items, t'')))"

datatype confirmed_batch = AcceptedBatch "accept_item list" | RejectedBatch batch_result

fun parse_ids :: "(ustr \<Rightarrow> uuid option) \<Rightarrow> nat \<Rightarrow> ustr option list \<Rightarrow> tool_error + uuid list" where
  "parse_ids parse_uuid k [] = Inr []"
| "parse_ids parse_uuid k (raw # raws) =
     (case Option.bind raw parse_uuid of
        None \<Rightarrow> Inl (NotAUUID k)
      | Some i \<Rightarrow> (case parse_ids parse_uuid (k + 1) raws of Inl e \<Rightarrow> Inl e | Inr is \<Rightarrow> Inr (i # is)))"

text \<open>An element of \<open>ids\<close> that is not a string is \<open>None\<close>.\<close>

definition handleConfirmProposals :: "(ustr \<Rightarrow> uuid option) \<Rightarrow> (uuid list \<Rightarrow> proposal_status \<Rightarrow> batch_result pprog)
    \<Rightarrow> (uuid \<Rightarrow> confirm_result tool) \<Rightarrow> ustr \<Rightarrow> ustr option list \<Rightarrow> confirmed_batch tool" where
  "handleConfirmProposals parse_uuid batch accept action rawIDs t =
     (if action \<noteq> lit ''accept'' \<and> action \<noteq> lit ''reject'' then (Inl (Said ''action must be accept or reject''), t)
      else if length rawIDs < 1 then (Inl (Said ''ids must contain at least 1 proposal UUID''), t)
      else if 100 < length rawIDs then (Inl (Said ''ids must contain at most 100 proposal UUIDs''), t)
      else (case parse_ids parse_uuid 0 rawIDs of
              Inl e \<Rightarrow> (Inl e, t)
            | Inr ids \<Rightarrow>
                if action = lit ''accept'' then (case batchAccept accept ids t of (items, t') \<Rightarrow> (Inr (AcceptedBatch items), t'))
                else (case batch ids StatusRejected t of
                        (Inl e, t') \<Rightarrow> (Inl (StoreFailed ''batch confirm'' e), t')
                      | (Inr r, t') \<Rightarrow> (Inr (RejectedBatch r), t'))))"

end
