(* ===== verification/Proposal_Queue.thy ===== *)
theory Proposal_Queue
  imports Proposal_Facts Proposal_Handler Proposal_Mcp
begin

text \<open>
  What every operation on the queue keeps, with any statement failing and other connections writing
  between the statements: the locale \<open>queue_property\<close> states what a property of the rows must survive,
  and every command of either backend, of the HTTP handler, of the agent's tools and of the nightly
  job then keeps it.
\<close>

section \<open>Programs that keep a property of the rows\<close>

definition holds :: "(proposal list \<Rightarrow> bool) \<Rightarrow> proposal_db txn \<Rightarrow> bool" where
  "holds I t \<longleftrightarrow> I (proposals (seen t)) \<and> I (proposals (outside t))"

definition keeps :: "(proposal list \<Rightarrow> bool) \<Rightarrow> (proposal_db txn \<Rightarrow> 'x \<times> proposal_db txn) \<Rightarrow> bool" where
  "keeps I m \<longleftrightarrow> (\<forall>t. holds I t \<longrightarrow> holds I (snd (m t)))"

definition polite :: "(proposal list \<Rightarrow> bool) \<Rightarrow> p_others \<Rightarrow> bool" where
  "polite I env \<longleftrightarrow> (\<forall>n s. I (proposals s) \<longrightarrow> I (proposals (env n s)))"

definition sound :: "(proposal list \<Rightarrow> bool) \<Rightarrow> (proposal_db \<Rightarrow> proposal_error + 'a \<times> proposal_db) \<Rightarrow> bool" where
  "sound I f \<longleftrightarrow> (\<forall>s a s'. I (proposals s) \<longrightarrow> f s = Inr (a, s') \<longrightarrow> I (proposals s'))"

lemma keepsI: "(\<And>t. holds I t \<Longrightarrow> holds I (snd (m t))) \<Longrightarrow> keeps I m"
  by (simp add: keeps_def)

lemma keepsD: "keeps I m \<Longrightarrow> m t = (r, t') \<Longrightarrow> holds I t \<Longrightarrow> holds I t'"
  by (metis keeps_def snd_conv)

lemma polite_undisturbed [simp]: "polite I undisturbed"
  by (simp add: polite_def)

lemma polite_renamed: "polite I env \<Longrightarrow> polite I (\<lambda>n. env (f n))"
  by (simp add: polite_def)

lemma polite_prefixed: "polite I env \<Longrightarrow> polite I (prefixed p env)"
  by (simp add: polite_def prefixed_def)

lemma holds_tick: "polite I env \<Longrightarrow> holds I t \<Longrightarrow> holds I (tick env n t)"
  by (simp add: polite_def holds_def)

lemma keeps_give: "keeps I (give a)" and keeps_refuse: "keeps I (refuse e)"
  by (simp_all add: keeps_def)

lemma keeps_and_then: "keeps I m \<Longrightarrow> (\<And>a. keeps I (k a)) \<Longrightarrow> keeps I (and_then m k)"
  by (rule keepsI) (auto simp: and_then_def keeps_def split: prod.split sum.split)

lemma keeps_direct: "polite I env \<Longrightarrow> sound I f \<Longrightarrow> keeps I (direct env fault n f)"
  using holds_tick [of I env]
  by (intro keepsI) (fastforce simp: direct_def Let_def holds_def sound_def split: sum.split)

lemma keeps_in_tx: "polite I env \<Longrightarrow> sound I f \<Longrightarrow> keeps I (in_tx env fault n f)"
  using holds_tick [of I env]
  by (intro keepsI) (fastforce simp: in_tx_def stmt_def Let_def holds_def sound_def split: sum.split)

lemma keeps_begin: "polite I env \<Longrightarrow> keeps I (begin_tx env fault err)"
  using holds_tick [of I env] by (intro keepsI) (auto simp: begin_tx_def Let_def holds_def)

lemma keeps_commit: "polite I env \<Longrightarrow> keeps I (commit_tx env fault err)"
  using holds_tick [of I env] by (intro keepsI) (auto simp: commit_tx_def Let_def holds_def)

lemma keeps_or_refuse: "(\<And>a. keeps I (k a)) \<Longrightarrow> keeps I (or_refuse d k)"
  by (cases d) (simp_all add: or_refuse_def keeps_refuse del: refuse_simp)

lemma keeps_embed: "polite I env \<Longrightarrow> keeps I (embedAndCheckDupAtLevel env fault em scope x l)"
  using holds_tick [of I env] by (intro keepsI) (auto simp: embedAndCheckDupAtLevel_def Let_def)

lemma keeps_rollback: "keeps I m \<Longrightarrow> keeps I (\<lambda>t. case m t of (r, t') \<Rightarrow> (r, t'\<lparr>seen := outside t'\<rparr>))"
  by (intro keepsI) (fastforce simp: holds_def dest: keepsD split: prod.split)

subsection \<open>Statements that leave the queue alone\<close>

definition frames :: "(proposal_db \<Rightarrow> proposal_error + 'a \<times> proposal_db) \<Rightarrow> bool" where
  "frames f \<longleftrightarrow> (\<forall>s a s'. f s = Inr (a, s') \<longrightarrow> proposals s' = proposals s)"

lemma sound_frames: "frames f \<Longrightarrow> sound I f"
  by (auto simp: frames_def sound_def)

lemma frames_rules:
  "frames (reading g)" "frames (CreateGoal_pg scope now nid gp)" "frames (CreateGoalTx scope now nid gp)"
  "frames (CreateProject_pg scope now nid pp)" "frames (CreateProjectTx scope now nid pp)"
  "frames (insert_concept r)" "frames (insert_schedule h)" "frames (insert_decision d)"
  "frames (task_in_tx_pg scope now nid tp)" "frames (task_in_tx_sq scope now nid tp)"
  "frames (insert_item k)" "frames (set_embedding nid)" "frames (insert_playbook b)"
  by (auto simp: frames_def reading_def CreateGoal_pg_def CreateGoalTx_def insert_goal_def CreateProject_pg_def CreateProjectTx_def
      insert_project_def insert_concept_def insert_schedule_def insert_decision_def task_in_tx_pg_def task_in_tx_sq_def
      insert_item_def set_embedding_def insert_playbook_def split: sum.splits if_splits prod.splits)

lemmas keeps_rules = keeps_give keeps_refuse keeps_and_then keeps_direct keeps_in_tx keeps_begin keeps_commit keeps_or_refuse
  keeps_embed sound_frames frames_rules polite_undisturbed

lemma keeps_materialize_pg: "polite I env \<Longrightarrow> keeps I (Materialize_pg env fault c q p)"
  unfolding Materialize_pg_def materializeGoal_pg_def materializeProject_pg_def materializeConcept_pg_def materializeDecision_pg_def
    materializeTask_pg_def materializeKnowledge_pg_def CreateConcept_pg_def Log_pg_def WriteItemTx_pg_def
  by (auto intro!: keeps_rules simp del: give_simp refuse_simp split: option.split)

lemma keeps_materialize_sq: "keeps I (Materialize_sq fault c q p)"
  unfolding Materialize_sq_def materializeGoal_sq_def materializeProject_sq_def materializeConcept_sq_def materializeDecision_sq_def
    materializeTask_sq_def materializeKnowledge_sq_def CreateConceptTx_def LogTx_def WriteItemTx_sq_def
  by (auto intro!: keeps_rules simp del: give_simp refuse_simp undisturbed_simp split: option.split)

lemma keeps_prepare: "polite I env \<Longrightarrow> keeps I (prepare_pg env fault c q)" "polite I env \<Longrightarrow> keeps I (prepare_sq env fault c q)"
  unfolding prepare_pg_def Prepare_pg_def url_check_def prepare_sq_def Prepare_sq_def
  by (auto intro!: keeps_rules simp del: give_simp refuse_simp)

lemma keeps_get: "polite I env \<Longrightarrow> keeps I (Get_pg env fault scope i)" "polite I env \<Longrightarrow> keeps I (Get_sq env fault scope i)"
  by (simp_all add: Get_pg_def Get_sq_def keeps_rules)

section \<open>What a property must survive\<close>

text \<open>A row as an insert may write it, and the ids the environment hands out.\<close>

definition row_ok :: "proposal \<Rightarrow> bool" where
  "row_ok r \<longleftrightarrow> pp_type r \<in> set proposal_types \<and> (pp_status r = StatusPending \<longleftrightarrow> pp_resolved r = None) \<and>
     (pp_reason r \<noteq> None \<longrightarrow> pp_status r = StatusRejected)"

locale queue_property =
  fixes I :: "proposal list \<Rightarrow> bool" and mintable :: "uuid \<Rightarrow> bool"
  assumes insert: "I rows \<Longrightarrow> pp_id r \<notin> set (map pp_id rows) \<Longrightarrow> row_ok r \<Longrightarrow> mintable (pp_id r) \<Longrightarrow> I (rows @ [r])"
    and resolve: "I rows \<Longrightarrow> status \<noteq> StatusPending \<Longrightarrow> I (update_rows (open_row scope i) (resolved status at) rows)"
    and mark: "I rows \<Longrightarrow> (\<And>r. P r \<Longrightarrow> pp_status r = StatusPending) \<Longrightarrow> I (update_rows P (expire at reason) rows)"
    and drop_rows: "I rows \<Longrightarrow> I (filter P rows)"
begin

lemma sound_insert: "row_ok r \<Longrightarrow> mintable (pp_id r) \<Longrightarrow> sound I (insert_proposal r)"
  by (auto simp: sound_def insert_proposal_def split: if_splits intro!: insert)

lemma sound_resolve: "status \<noteq> StatusPending \<Longrightarrow> sound I (resolve_row scope i status at)"
  by (auto simp: sound_def resolve_row_def split: option.splits intro!: resolve)

lemma sound_mark: "(\<And>r. P r \<Longrightarrow> pp_status r = StatusPending) \<Longrightarrow> sound I (mark_rows P at reason)"
  by (auto simp: sound_def mark_rows_def intro!: mark)

lemma sound_delete: "sound I (delete_rows P)"
  by (auto simp: sound_def delete_rows_def intro!: drop_rows)

lemma new_row_ok: "pp_type (new_proposal ts now nid ws p payload) \<in> set proposal_types \<Longrightarrow> row_ok (new_proposal ts now nid ws p payload)"
  by (simp add: row_ok_def new_proposal_def)

lemma insert_typed: "insert_proposal r s = Inr (a, s') \<Longrightarrow> pp_type r \<in> set proposal_types"
  by (auto simp: insert_proposal_def split: if_splits)

lemma sound_new: "mintable nid \<Longrightarrow> sound I (insert_proposal (new_proposal ts now nid ws p payload))"
  unfolding sound_def
proof (intro allI impI)
  fix s a s'
  assume *: "mintable nid" "I (proposals s)" "insert_proposal (new_proposal ts now nid ws p payload) s = Inr (a, s')"
  have "row_ok (new_proposal ts now nid ws p payload)" using insert_typed [OF *(3)] by (rule new_row_ok)
  then have "sound I (insert_proposal (new_proposal ts now nid ws p payload))"
    using *(1) by (intro sound_insert) (simp_all add: new_proposal_def)
  then show "I (proposals s')" using * by (auto simp: sound_def)
qed

lemma keeps_create_pg: "polite I env \<Longrightarrow> mintable nid \<Longrightarrow> keeps I (Create_pg env fault scope clock nid p)"
proof -
  assume *: "polite I env" "mintable nid"
  have "sound I (\<lambda>s. case jsonb_column (cq_payload p) of None \<Rightarrow> Inl PConstraint
        | Some payload \<Rightarrow>
            if 0 \<in> set (cq_by p) then Inl PConstraint
            else insert_proposal (new_proposal pg_ts (clock ''insert'') nid (create_scope scope p) p payload) s)"
    using sound_new [OF *(2)] by (auto simp: sound_def split: option.splits)
  then show ?thesis
    unfolding Create_pg_def using *(1) by (auto intro!: keeps_refuse keeps_direct simp del: refuse_simp)
qed

lemma keeps_create_sq: "polite I env \<Longrightarrow> mintable nid \<Longrightarrow> keeps I (Create_sq env fault scope clock nid p)"
  unfolding Create_sq_def
  using sound_new [of nid]
  by (auto intro!: keeps_refuse keeps_and_then keeps_direct keeps_get simp del: refuse_simp)

lemma keeps_import:
  assumes "polite I env" "mintable (pp_id p)" "row_ok p"
  shows "keeps I (ImportProposal env fault p)"
proof -
  let ?r = "p\<lparr>pp_created := sq_ts (pp_created p), pp_resolved := map_option sq_ts (pp_resolved p)\<rparr>"
  have "sound I (insert_proposal ?r)" using assms by (intro sound_insert) (auto simp: row_ok_def)
  then show ?thesis
    unfolding ImportProposal_def using assms(1) by (intro keeps_direct) (fastforce simp: sound_def split: sum.splits)+
qed

lemma keeps_resolve:
  "polite I env \<Longrightarrow> keeps I (Resolve_pg env fault scope clock i status)"
  "polite I env \<Longrightarrow> keeps I (Resolve_sq env fault scope clock i status)"
  "polite I env \<Longrightarrow> keeps I (ResolveTx env fault scope clock i status)"
  "polite I env \<Longrightarrow> keeps I (Resolve_in_tx env fault name scope at i status)"
  unfolding Resolve_pg_def Resolve_sq_def ResolveTx_def Resolve_in_tx_def
  by (auto intro!: keeps_refuse keeps_and_then keeps_direct keeps_in_tx keeps_give keeps_get sound_resolve simp del: refuse_simp give_simp)

lemma keeps_orchestration:
  assumes "keeps I (ad_read ad)" "\<And>q. keeps I (ad_prepare ad q)" "keeps I (ad_begin ad)"
    "\<And>q p. keeps I (ad_materialize ad q p)" "keeps I (ad_resolve ad)" "keeps I (ad_commit ad)"
  shows "keeps I (AcceptOrchestration ad)"
  unfolding AcceptOrchestration_def
  by (auto intro!: keeps_and_then keeps_give keeps_refuse assms simp del: refuse_simp give_simp)

lemma keeps_accept:
  "polite I env \<Longrightarrow> keeps I (AcceptOrchestration (pgAcceptAdapter env fault c i))"
  "polite I env \<Longrightarrow> keeps I (AcceptOrchestration (sqliteAcceptAdapter env fault c i))"
  by (auto intro!: keeps_orchestration keeps_get keeps_prepare keeps_begin keeps_commit keeps_materialize_pg keeps_materialize_sq
      keeps_resolve keeps_and_then keeps_in_tx sound_frames frames_rules
      simp: pgAcceptAdapter_def sqliteAcceptAdapter_def getPendingTx_def simp del: undisturbed_simp)

lemma keeps_logged: "keeps I m \<Longrightarrow> keeps I (logged m)"
  by (intro keepsI) (auto simp: logged_def split: prod.split sum.split dest: keepsD)

lemma holds_snd: "keeps I m \<Longrightarrow> holds I t \<Longrightarrow> holds I (snd (m t))"
  by (simp add: keeps_def)

lemma keeps_marking: "polite I env \<Longrightarrow> keeps I (direct env fault n (mark_rows (stale_task cutoff) at reason))"
    "polite I env \<Longrightarrow> keeps I (direct env fault n (mark_rows (stale_family cutoff) at reason))"
  by (auto intro!: keeps_direct sound_mark simp: stale_task_def stale_family_def)

lemma keeps_deleting: "polite I env \<Longrightarrow> keeps I (direct env fault n (delete_rows P))"
  by (intro keeps_direct sound_delete)

lemma keeps_counting: "polite I env \<Longrightarrow> keeps I (direct env fault n (reading f))"
  by (intro keeps_direct sound_frames frames_rules)

lemma holds_nightly_pg: "polite I env \<Longrightarrow> holds I t \<Longrightarrow> holds I (runDailyPendingProposalsPrunePG dry env fault clock t)"
  unfolding runDailyPendingProposalsPrunePG_def markStaleGoalFamilyProposalsPG_def Let_def
  by (auto intro!: holds_snd keeps_logged keeps_marking keeps_deleting keeps_counting)

lemma keeps_mark_delete: "polite I env \<Longrightarrow> keeps I (MarkAndDeleteStaleProposals env fault clock a b c reason)"
proof (rule keepsI)
  fix t assume env: "polite I env" and t: "holds I t"
  show "holds I (snd (MarkAndDeleteStaleProposals env fault clock a b c reason t))"
    unfolding MarkAndDeleteStaleProposals_def Let_def using t
    by (auto split: prod.split dest: keepsD [OF keeps_marking(1) [OF env]] keepsD [OF keeps_deleting [OF env]])
qed

lemma holds_nightly_sq: "polite I env \<Longrightarrow> holds I t \<Longrightarrow> holds I (runDailyPendingProposalsPruneSQLite dry env fault clock t)"
  unfolding runDailyPendingProposalsPruneSQLite_def MarkStaleGoalFamilyProposals_def Let_def
  by (auto intro!: holds_snd keeps_logged keeps_marking keeps_mark_delete keeps_counting)

subsection \<open>Batches\<close>

lemma keeps_resolve_all: "polite I env \<Longrightarrow> keeps I (resolve_all env fault scope at status k ids)"
proof (induction ids arbitrary: k)
  case (Cons i ids)
  show ?case
    by (rule keepsI) (use Cons in \<open>auto split: prod.split sum.split dest: keepsD [OF keeps_resolve(4)] intro: holds_snd\<close>)
qed (simp add: keeps_def)

lemma keeps_confirm_pg: "polite I env \<Longrightarrow> keeps I (BatchConfirm_pg pool env fault scope clock ids status)"
proof -
  assume env: "polite I env"
  have "keeps I (\<lambda>t. case resolve_all env fault scope (clock ''begin'') status 0 ids t of
          (Some (i, e), t') \<Rightarrow>
            (Inr \<lparr>br_results = map (\<lambda>f. \<lparr>bi_id = f, bi_ok = False,
                     bi_error = (if f = i then BatchItemErrMsg e else sibling_failure)\<rparr>) ids,
                   br_accepted = 0, br_failed = length ids\<rparr>, t'\<lparr>seen := outside t'\<rparr>)
        | (None, t') \<Rightarrow>
            and_then (commit_tx env fault PDatabase)
              (\<lambda>_. give \<lparr>br_results = map (\<lambda>f. \<lparr>bi_id = f, bi_ok = True, bi_error = ''''\<rparr>) ids,
                       br_accepted = length ids, br_failed = 0\<rparr>) t')"
  proof (rule keepsI)
    fix t assume t: "holds I t"
    obtain r t' where r: "resolve_all env fault scope (clock ''begin'') status 0 ids t = (r, t')"
      by (cases "resolve_all env fault scope (clock ''begin'') status 0 ids t") auto
    have "holds I t'" using keepsD [OF keeps_resolve_all [OF env] r t] .
    moreover from this have "holds I (t'\<lparr>seen := outside t'\<rparr>)" by (simp add: holds_def)
    moreover have "keeps I (and_then (commit_tx env fault PDatabase) (\<lambda>_. give x))" for x :: batch_result
      using env by (intro keeps_and_then keeps_commit keeps_give)
    ultimately show "holds I (snd (case resolve_all env fault scope (clock ''begin'') status 0 ids t of
          (Some (i, e), t') \<Rightarrow>
            (Inr \<lparr>br_results = map (\<lambda>f. \<lparr>bi_id = f, bi_ok = False,
                     bi_error = (if f = i then BatchItemErrMsg e else sibling_failure)\<rparr>) ids,
                   br_accepted = 0, br_failed = length ids\<rparr>, t'\<lparr>seen := outside t'\<rparr>)
        | (None, t') \<Rightarrow>
            and_then (commit_tx env fault PDatabase)
              (\<lambda>_. give \<lparr>br_results = map (\<lambda>f. \<lparr>bi_id = f, bi_ok = True, bi_error = ''''\<rparr>) ids,
                       br_accepted = length ids, br_failed = 0\<rparr>) t'))"
      by (cases r) (auto simp: r split: prod.split simp del: give_simp intro: holds_snd)
  qed
  then show ?thesis
    unfolding BatchConfirm_pg_def using env by (auto intro!: keeps_refuse keeps_and_then keeps_begin simp del: refuse_simp)
qed

lemma keeps_batch_loop: "polite I env \<Longrightarrow> keeps I (batch_loop env fault scope clock status k ids acc)"
proof (induction ids arbitrary: k acc)
  case (Cons i ids)
  have p: "polite I (\<lambda>name. env (numbered name k))" using Cons.prems by (rule polite_renamed)
  show ?case
    by (rule keepsI) (use Cons in \<open>auto split: prod.split sum.split dest: keepsD [OF keeps_resolve(2) [OF p]] intro: holds_snd\<close>)
qed (simp add: keeps_def)

lemma keeps_confirm_sq: "polite I env \<Longrightarrow> keeps I (BatchConfirm_sq env fault scope clock ids status)"
  unfolding BatchConfirm_sq_def by (auto intro!: keeps_refuse keeps_batch_loop simp del: refuse_simp)

subsection \<open>The handler\<close>

lemma keeps_answer: "keeps I (answer n x)"
  by (simp add: keeps_def answer_def)

lemma keeps_pure: "keeps I (\<lambda>t. (r, t))"
  by (simp add: keeps_def)

lemma keeps_case: "keeps I m \<Longrightarrow> (\<And>e. keeps I (f e)) \<Longrightarrow> (\<And>a. keeps I (g a)) \<Longrightarrow>
    keeps I (\<lambda>t. case m t of (Inl e, t') \<Rightarrow> f e t' | (Inr a, t') \<Rightarrow> g a t')"
  by (rule keepsI) (auto split: prod.split sum.split dest: keepsD intro: holds_snd)

definition keeping :: "handler \<Rightarrow> bool" where
  "keeping h \<longleftrightarrow> (\<forall>i. keeps I (h_get h i)) \<and> (\<forall>i st. keeps I (h_resolve h i st)) \<and>
     (\<forall>f i. h_adapter h = Some f \<longrightarrow> keeps I (AcceptOrchestration (f i)))"

lemma keeps_rolled_back: "keeps I m \<Longrightarrow> keeps I (rolled_back m)"
  unfolding rolled_back_def by (rule keeps_rollback)

lemma keepingD:
  "keeping h \<Longrightarrow> keeps I (h_get h i)" "keeping h \<Longrightarrow> keeps I (h_resolve h i st)"
  "keeping h \<Longrightarrow> h_adapter h = Some f \<Longrightarrow> keeps I (rolled_back (AcceptOrchestration (f i)))"
  by (auto simp: keeping_def intro: keeps_rolled_back)

lemma keeps_resolve_only: "keeping h \<Longrightarrow> keeps I (resolve_only h i)"
  by (rule keepsI) (auto simp: resolve_only_def answer_def split: prod.split sum.split dest: keepsD [OF keepingD(2)])

lemma keeps_acceptGoalOrProject: "keeping h \<Longrightarrow> keeps I (acceptGoalOrProject h i q)"
  by (rule keepsI) (auto simp: acceptGoalOrProject_def answer_def split: prod.split sum.split option.split
      dest: keepsD [OF keepingD(3)] intro: holds_snd [OF keeps_resolve_only])

lemma keeps_handleAccept: "keeping h \<Longrightarrow> keeps I (handleAccept h i)"
  by (rule keepsI) (auto simp: handleAccept_def answer_def split: prod.split sum.split
      dest: keepsD [OF keepingD(1)] intro: holds_snd [OF keeps_resolve_only] holds_snd [OF keeps_acceptGoalOrProject])

lemma keeps_ConfirmProposal: "keeping h \<Longrightarrow> keeps I (ConfirmProposal h raw action)"
  by (rule keepsI) (auto simp: ConfirmProposal_def answer_def split: prod.split sum.split option.split
      dest: keepsD [OF keepingD(2)] intro: holds_snd [OF keeps_handleAccept])

lemma keeps_batchProposalMeta: "keeping h \<Longrightarrow> keeps I (batchProposalMeta h ids meta)"
proof (induction ids arbitrary: meta)
  case (Cons i ids)
  show ?case
    by (rule keepsI) (use Cons in \<open>auto split: prod.split sum.split dest: keepsD [OF keepingD(1)] intro: holds_snd\<close>)
qed (simp add: keeps_def)

lemma keeps_batchResolveOne: "keeping h \<Longrightarrow> keeps I (batchResolveOne h status meta i)"
  by (rule keepsI) (auto simp: batchResolveOne_def Let_def split: prod.split sum.split option.split
      dest: keepsD [OF keepingD(2)] keepsD [OF keepingD(3)])

lemma keeps_batch_entries: "keeping h \<Longrightarrow> keeps I (batch_entries h status meta ids)"
proof (induction ids)
  case (Cons i ids)
  show ?case
    by (rule keepsI) (use Cons in \<open>auto split: prod.split dest: keepsD [OF keeps_batchResolveOne] keepsD\<close>)
qed (simp add: keeps_def)

lemma keeps_ConfirmBatch: "keeping h \<Longrightarrow> keeps I (ConfirmBatch h req)"
  by (rule keepsI) (auto simp: ConfirmBatch_def answer_def Let_def split: prod.split option.split
      dest: keepsD [OF keeps_batch_entries] keepsD [OF keeps_batchProposalMeta])

lemma keeping_wirings: "(\<And>i. polite I (env i)) \<Longrightarrow> keeping (handler_pg env fault c)" "(\<And>i. polite I (env i)) \<Longrightarrow> keeping (handler_sq env fault c)"
  by (auto simp: keeping_def handler_pg_def handler_sq_def intro!: keeps_get keeps_resolve keeps_accept polite_prefixed)

subsection \<open>The tools\<close>

lemma keeps_failing_with: "keeps I m \<Longrightarrow> keeps I (failing_with op m)"
  by (rule keepsI) (auto simp: failing_with_def split: prod.split sum.split dest: keepsD)

lemma keeps_then_do: "keeps I m \<Longrightarrow> (\<And>a. keeps I (k a)) \<Longrightarrow> keeps I (then_do m k)"
  by (rule keepsI) (auto simp: then_do_def keeps_def split: prod.split sum.split)

lemma keeps_tool_error: "keeps I (tool_error e)"
  by (simp add: keeps_def tool_error_def)

lemma keeps_decoded: "(\<And>a. keeps I (k a)) \<Longrightarrow> keeps I (decoded d k)"
  by (cases d) (simp_all add: decoded_def keeps_tool_error)

lemma keeps_tool_rollback: "keeps I m \<Longrightarrow> keeps I (tool_rollback m)"
  unfolding tool_rollback_def by (rule keeps_rollback)

lemmas tool_rules = keeps_failing_with keeps_then_do keeps_tool_error keeps_decoded keeps_pure

lemma keeps_or_logged: "keeps I m \<Longrightarrow> keeps I (or_logged m)"
  by (intro keepsI) (auto simp: or_logged_def split: prod.split dest: keepsD)

lemma keeps_add_row:
  "polite I env \<Longrightarrow> keeps I (add_row_pg env fault c nid p)" "polite I env \<Longrightarrow> keeps I (add_row_sq env fault c nid p)"
  unfolding add_row_pg_def write_row_pg_def Prepare_pg_def url_check_def add_row_sq_def Prepare_sq_def
  by (auto intro!: keeps_or_logged keeps_rules simp del: give_simp)

lemma keeps_fan_out: "(\<And>k p. keeps I (add k p)) \<Longrightarrow> keeps I (fan_out add p root k secs)"
proof (induction secs arbitrary: k)
  case (Cons sec secs)
  show ?case
  proof (rule keepsI)
    fix t assume t: "holds I t"
    obtain r t' where r: "add k (child_item p root sec) t = (r, t')" by (cases "add k (child_item p root sec) t") auto
    have "holds I t'" using keepsD [OF Cons.prems r t] .
    then show "holds I (snd (fan_out add p root k (sec # secs) t))"
      using holds_snd [OF Cons.IH [OF Cons.prems]] r by simp
  qed
qed (simp add: keeps_def)

lemma keeps_AddItem:
  "polite I env \<Longrightarrow> keeps I (AddItem_pg env fault m p)" "polite I env \<Longrightarrow> keeps I (AddItem_sq env fault m p)"
  unfolding AddItem_pg_def AddItem_sq_def
  by (auto intro!: keeps_and_then keeps_give keeps_add_row keeps_fan_out polite_renamed simp del: give_simp)

lemma keeps_acceptProposalPg:
  assumes env: "polite I env"
  shows "keeps I (acceptProposalPg env fault m i)"
proof -
  have mat: "keeps I (materializeFromPayloadPg env fault m q)" for q
    unfolding materializeFromPayloadPg_def materializeKnowledgePg_def materializeTaskPg_def materializeDecisionPg_def Log_pg_def
      CreateConcept_pg_def CreatePlaybook_pg_def Let_def using env
    by (auto intro!: tool_rules keeps_rules keeps_AddItem simp del: give_simp refuse_simp split: option.split)
  have rest: "keeps I (then_do (materializeFromPayloadPg env fault m q) (\<lambda>c.
              then_do (failing_with ''resolving proposal''
                 (Resolve_in_tx env fault ''resolve'' (c_scope (m_call m)) (c_clock (m_call m) ''begin'') i StatusAccepted)) (\<lambda>r.
              then_do (failing_with ''committing'' (commit_tx env fault PDatabase)) (\<lambda>_ t.
                (Inr \<lparr>cr_proposal = Some r, cr_created = c\<rparr>, t)))))" for q
    using env by (intro tool_rules mat keeps_resolve keeps_commit)
  have get: "keeps I (in_tx env fault ''get'' (reading (get_row (c_scope (m_call m)) i)))"
    using env by (intro keeps_rules)
  show ?thesis
    unfolding acceptProposalPg_def
    by (intro keeps_tool_rollback keeps_then_do keeps_failing_with keeps_begin env, rule keepsI)
      (auto split: prod.split sum.split dest: keepsD [OF get] intro: holds_snd [OF rest])
qed

lemma keeps_acceptProposalSQLite:
  assumes env: "polite I env"
  shows "keeps I (acceptProposalSQLite env fault m i)"
proof -
  have mat: "keeps I (materializeFromPayloadSQLiteTx fault m q)" for q
    unfolding materializeFromPayloadSQLiteTx_def materializeDecisionSQLite_def materializeTaskSQLite_def LogTx_def CreateConceptTx_def Let_def
    by (auto intro!: tool_rules keeps_rules simp del: give_simp refuse_simp undisturbed_simp split: option.split)
  have res: "keeps I (\<lambda>t. case ResolveTx undisturbed fault scope clock i StatusAccepted t of
                    (Inl e, t') \<Rightarrow> (Inl (if e = PNotFound then Said ''proposal already resolved by concurrent request''
                            else StoreFailed ''resolving proposal'' e), t')
                  | (Inr _, t') \<Rightarrow> (Inr (), t'))" for scope clock
    by (rule keepsI) (auto split: prod.split sum.split dest: keepsD [OF keeps_resolve(3) [OF polite_undisturbed]])
  have tx: "keeps I (tool_rollback
               (then_do (failing_with ''beginning transaction'' (begin_tx env fault PDatabase)) (\<lambda>_.
                then_do (materializeFromPayloadSQLiteTx fault m q) (\<lambda>c.
                then_do (\<lambda>t. case ResolveTx undisturbed fault (c_scope (m_call m)) (c_clock (m_call m)) i StatusAccepted t of
                    (Inl e, t') \<Rightarrow>
                      (Inl (if e = PNotFound then Said ''proposal already resolved by concurrent request''
                            else StoreFailed ''resolving proposal'' e), t')
                  | (Inr _, t') \<Rightarrow> (Inr (), t')) (\<lambda>_.
                then_do (failing_with ''committing transaction'' (commit_tx undisturbed fault PDatabase)) (\<lambda>_ t. (Inr c, t)))))))" for q
    using env by (intro keeps_tool_rollback tool_rules mat res keeps_begin keeps_commit polite_undisturbed)
  have k: "keeps I (materializeKnowledgeIface env fault m q)" "keeps I (materializeTaskIface env fault m q)" for q
    unfolding materializeKnowledgeIface_def materializeTaskIface_def create_task_sq_def using env
    by (auto intro!: tool_rules keeps_rules keeps_AddItem simp del: give_simp)
  have post: "keeps I (runSQLitePostCommitMaterialisers env fault m q c)" for q c
    by (rule keepsI) (auto simp: runSQLitePostCommitMaterialisers_def split: prod.split sum.split dest: keepsD [OF k(1)] keepsD [OF k(2)])
  have again: "keeps I (Get_sq (\<lambda>n. env (f n)) fault' scope i)" for f fault' scope
    using polite_renamed [OF env] by (intro keeps_get)
  note again = again [of "\<lambda>n. ''reread '' @ n", simplified]
  show ?thesis
    by (rule keepsI) (auto simp: acceptProposalSQLite_def split: prod.split sum.split
        dest: keepsD [OF keeps_get(2) [OF env]] keepsD [OF tx] keepsD [OF post] keepsD [OF again])
qed

lemma keeps_handleConfirmProposal:
  "(\<And>i st. keeps I (resolve i st)) \<Longrightarrow> (\<And>i. keeps I (accept i)) \<Longrightarrow> keeps I (handleConfirmProposal parse resolve accept args)"
  by (rule keepsI) (auto simp: handleConfirmProposal_def Let_def split: prod.split sum.split option.split dest: keepsD intro: holds_snd)

lemma keeps_propose: "(\<And>p. keeps I (create p)) \<Longrightarrow> keeps I (propose create ty fs by)"
  unfolding propose_def by (intro keeps_failing_with)

end

end
