(* ===== verification/Proposal_Invariant.thy ===== *)
theory Proposal_Invariant
  imports Proposal_Queue
begin

text \<open>
  Every way a program of the repository changes the queue (\<open>queue_op\<close>), the type invariant of its rows
  and the finality of a resolved row.
\<close>

section \<open>The operations\<close>

text \<open>\<open>new\<close> are the ids the operation may draw for a row of the queue, \<open>env\<close> what others do between its
  statements; times, payloads, faults and identifiers are arbitrary.\<close>

inductive queue_op :: "p_others \<Rightarrow> (uuid \<Rightarrow> bool) \<Rightarrow> (proposal_db txn \<Rightarrow> proposal_db txn) \<Rightarrow> bool" for env new where
  create_pg: "new nid \<Longrightarrow> queue_op env new (\<lambda>t. snd (Create_pg env fault scope clock nid p t))"
| create_sq: "new nid \<Longrightarrow> queue_op env new (\<lambda>t. snd (Create_sq env fault scope clock nid p t))"
| import_row: "new (pp_id r) \<Longrightarrow> row_ok r \<Longrightarrow> queue_op env new (\<lambda>t. snd (ImportProposal env fault r t))"
| propose_goal: "new nid \<Longrightarrow> queue_op env new (\<lambda>t. snd (handleProposeGoal (Create_pg env fault scope clock nid) args t))"
| propose_goal_sq: "new nid \<Longrightarrow> queue_op env new (\<lambda>t. snd (handleProposeGoal (Create_sq env fault scope clock nid) args t))"
| auto_propose_pg: "new nid \<Longrightarrow> queue_op env new (\<lambda>t. snd (AutoPropose_pg env fault scope clock nid item by' t))"
| auto_propose_sq: "new nid \<Longrightarrow> queue_op env new (\<lambda>t. snd (AutoPropose_sq env fault scope clock nid item by' t))"
| resolve_pg: "queue_op env new (\<lambda>t. snd (Resolve_pg env fault scope clock i status t))"
| resolve_sq: "queue_op env new (\<lambda>t. snd (Resolve_sq env fault scope clock i status t))"
| batch_pg: "queue_op env new (\<lambda>t. snd (BatchConfirm_pg pool env fault scope clock ids status t))"
| batch_sq: "queue_op env new (\<lambda>t. snd (BatchConfirm_sq env fault scope clock ids status t))"
| http_pg: "queue_op env new (\<lambda>t. snd (ConfirmProposal (handler_pg (\<lambda>_. env) faults c) raw action t))"
| http_sq: "queue_op env new (\<lambda>t. snd (ConfirmProposal (handler_sq (\<lambda>_. env) faults c) raw action t))"
| http_batch_pg: "queue_op env new (\<lambda>t. snd (ConfirmBatch (handler_pg (\<lambda>_. env) faults c) req t))"
| http_batch_sq: "queue_op env new (\<lambda>t. snd (ConfirmBatch (handler_sq (\<lambda>_. env) faults c) req t))"
| mcp_pg: "queue_op env new (\<lambda>t. snd (handleConfirmProposal parse (Resolve_pg env fault scope clock) (acceptProposalPg env fault m) args t))"
| mcp_sq: "queue_op env new (\<lambda>t. snd (handleConfirmProposal parse (Resolve_sq env fault scope clock) (acceptProposalSQLite env fault m) args t))"
| nightly_pg: "queue_op env new (runDailyPendingProposalsPrunePG dry env fault clock)"
| nightly_sq: "queue_op env new (runDailyPendingProposalsPruneSQLite dry env fault clock)"

context queue_property
begin

lemma keeps_goal: "(\<And>p. keeps I (create p)) \<Longrightarrow> keeps I (handleProposeGoal create args)"
  unfolding handleProposeGoal_def Let_def
  by (auto intro!: keeps_tool_error keeps_propose split: option.split)

lemma keeps_auto:
  "polite I env \<Longrightarrow> mintable nid \<Longrightarrow> keeps I (AutoPropose_pg env fault scope clock nid item by')"
  "polite I env \<Longrightarrow> mintable nid \<Longrightarrow> keeps I (AutoPropose_sq env fault scope clock nid item by')"
  unfolding AutoPropose_pg_def AutoPropose_sq_def
  by (auto intro!: keeps_give keeps_and_then keeps_create_pg keeps_create_sq simp del: give_simp)

lemma op_holds: "queue_op env mintable op \<Longrightarrow> polite I env \<Longrightarrow> holds I t \<Longrightarrow> holds I (op t)"
  by (induction rule: queue_op.induct)
    (auto intro!: holds_snd keeps_create_pg keeps_create_sq keeps_import keeps_goal keeps_auto keeps_resolve keeps_confirm_pg keeps_confirm_sq
      keeps_ConfirmProposal keeps_ConfirmBatch keeping_wirings keeps_handleConfirmProposal keeps_acceptProposalPg
      keeps_acceptProposalSQLite holds_nightly_pg holds_nightly_sq)

lemma op_run: "queue_op env mintable op \<Longrightarrow> polite I env \<Longrightarrow> I (proposals s) \<Longrightarrow> I (proposals (outside (op \<lparr>seen = s, outside = s\<rparr>)))"
  using op_holds [of env op "\<lparr>seen = s, outside = s\<rparr>"] by (simp add: holds_def)

end

section \<open>The type of a row\<close>

definition queue_typed :: "proposal list \<Rightarrow> bool" where
  "queue_typed rows \<longleftrightarrow> distinct (map pp_id rows) \<and> list_all row_ok rows"

lemma row_ok_resolved: "row_ok r \<Longrightarrow> pp_status r = StatusPending \<Longrightarrow> st \<noteq> StatusPending \<Longrightarrow> row_ok (resolved st at r)"
  by (auto simp: row_ok_def resolved_def)

lemma row_ok_expire: "row_ok r \<Longrightarrow> pp_status r = StatusPending \<Longrightarrow> row_ok (expire at reason r)"
  by (auto simp: row_ok_def expire_def)

lemma distinct_map_filter_rows: "distinct (map f rows) \<Longrightarrow> distinct (map f (filter P rows))"
  by (induction rows) auto

interpretation typed: queue_property queue_typed "\<lambda>_. True"
proof unfold_locales
  show "queue_typed (rows @ [r])" if "queue_typed rows" "pp_id r \<notin> set (map pp_id rows)" "row_ok r" for rows r
    using that by (simp add: queue_typed_def)
  show "queue_typed (update_rows (open_row scope i) (resolved status at) rows)" if "queue_typed rows" "status \<noteq> StatusPending"
    for rows status scope i at
  proof -
    have "map pp_id (update_rows (open_row scope i) (resolved status at) rows) = map pp_id rows"
      by (rule map_update_rows) (simp add: resolved_def)
    with that show ?thesis by (auto simp: queue_typed_def list_all_iff set_update_rows open_row_def intro: row_ok_resolved)
  qed
  show "queue_typed (update_rows P (expire at reason) rows)" if "queue_typed rows" "\<And>r. P r \<Longrightarrow> pp_status r = StatusPending"
    for rows P at reason
  proof -
    have "map pp_id (update_rows P (expire at reason) rows) = map pp_id rows"
      by (rule map_update_rows) (simp add: expire_def)
    with that show ?thesis by (auto simp: queue_typed_def list_all_iff set_update_rows intro: row_ok_expire)
  qed
  show "queue_typed (filter P rows)" if "queue_typed rows" for rows P
    using that by (auto simp: queue_typed_def list_all_iff distinct_map_filter_rows)
qed



section \<open>Finality\<close>

definition unchanged_row :: "proposal \<Rightarrow> proposal list \<Rightarrow> bool" where
  "unchanged_row r0 rows \<longleftrightarrow> (\<forall>r \<in> set rows. pp_id r = pp_id r0 \<longrightarrow> r = r0)"

lemma final: "pp_status r0 \<noteq> StatusPending \<Longrightarrow> queue_property (unchanged_row r0) (\<lambda>n. n \<noteq> pp_id r0)"
  by unfold_locales
    (fastforce simp: unchanged_row_def set_update_rows open_row_def resolved_def expire_def)+



end
