(* ===== verification/Proposal_Retention.thy ===== *)
theory Proposal_Retention
  imports Proposal_Queue
begin

text \<open>What the nightly job does to the queue, row by row, on either backend.\<close>

definition nightly :: "backend \<Rightarrow> bool \<Rightarrow> p_others \<Rightarrow> faults \<Rightarrow> clock \<Rightarrow> proposal_db txn \<Rightarrow> proposal_db txn" where
  "nightly b = (case b of Pg \<Rightarrow> runDailyPendingProposalsPrunePG | Sq \<Rightarrow> runDailyPendingProposalsPruneSQLite)"

text \<open>The fate of a row at the time \<open>n\<close>: dropped, expired, or untouched.\<close>

definition dropped :: "instant \<Rightarrow> proposal \<Rightarrow> bool" where
  "dropped n = prunable (n - 90 * nanos_per_day) (n - 180 * nanos_per_day)"

definition aged :: "instant \<Rightarrow> proposal \<Rightarrow> proposal" where
  "aged n r =
     (if stale_task (n - 30 * nanos_per_day) r then expire n pendingProposalsTaskTTLReason r
      else if stale_family (n - 90 * nanos_per_day) r then expire n pendingProposalsGoalFamilyTTLReason r
      else r)"

lemma sq_ts_days: "sq_ts (n - k * nanos_per_day) = sq_ts n - k * nanos_per_day"
proof -
  have "(n - 1000000 * (k * 86400000)) div 1000000 = n div 1000000 - k * 86400000" by simp
  then show ?thesis by (simp add: sq_ts_def nanos_per_day_def algebra_simps)
qed

lemmas retention_defs = pendingProposalsResolvedRetentionDuration_def pendingProposalsPendingDecisionRetentionDuration_def
  pendingProposalsPendingTaskRetentionDuration_def pendingProposalsPendingGoalFamilyTTLRetentionDuration_def

lemma dropped_pending: "dropped n r \<Longrightarrow> pp_status r = StatusPending \<Longrightarrow> pp_type r = TypeDecision"
  by (auto simp: dropped_def prunable_def)

lemma stale_kinds: "stale_task c r \<Longrightarrow> \<not> stale_family d r" "\<not> stale_task c (expire n x r)" "\<not> stale_family d (expire n x r)"
  by (auto simp: stale_task_def stale_family_def expire_def goal_family_def)

lemma aged_map:
  "update_rows (stale_family (n - 90 * nanos_per_day)) (expire n pendingProposalsGoalFamilyTTLReason)
     (update_rows (stale_task (n - 30 * nanos_per_day)) (expire n pendingProposalsTaskTTLReason) rows) = map (aged n) rows"
  "update_rows (stale_task (n - 30 * nanos_per_day)) (expire n pendingProposalsTaskTTLReason)
     (update_rows (stale_family (n - 90 * nanos_per_day)) (expire n pendingProposalsGoalFamilyTTLReason) rows) = map (aged n) rows"
  by (induction rows) (simp_all add: aged_def stale_kinds)

lemma dropped_aged: "dropped n (aged n r) = dropped n r"
  by (auto simp: dropped_def aged_def prunable_def stale_task_def stale_family_def expire_def nanos_per_day_def goal_family_def type_defs)

lemma survivors:
  "filter (\<lambda>r. \<not> prunable (n - 90 * nanos_per_day) (n - 180 * nanos_per_day) r) (map (aged n) rows) =
     map (aged n) (filter (\<lambda>r. \<not> dropped n r) rows)"
  by (induction rows) (simp_all add: dropped_aged flip: dropped_def)

text \<open>C16. One night at one time, on either backend: a resolved row is dropped when it was resolved more
  than 90 days ago and is no review task of the decision-outcome job, a pending decision when it is more than 180
  days old; a pending task older than 30 days and a pending goal, project, concept, knowledge item or
  playbook older than 90 days is rejected with its reason; every other row, and every other table,
  stays as it is, and the order of the rows too.\<close>

theorem nightly_exact:
  "nightly b False undisturbed no_failure (\<lambda>_. now) \<lparr>seen = s, outside = s\<rparr> =
     (let s' = s\<lparr>proposals := map (aged (ts_of b now)) (filter (\<lambda>r. \<not> dropped (ts_of b now) r) (proposals s))\<rparr>
      in \<lparr>seen = s', outside = s'\<rparr>)"
proof (cases b)
  case Pg
  show ?thesis
    unfolding nightly_def Pg backend.case runDailyPendingProposalsPrunePG_def markStaleGoalFamilyProposalsPG_def Let_def
    by (simp add: direct_undisturbed mark_rows_def delete_rows_def logged_def retention_defs aged_map ts_of_def survivors
        del: undisturbed_simp no_failure_simp)
next
  case Sq
  show ?thesis
    unfolding nightly_def Sq backend.case runDailyPendingProposalsPruneSQLite_def MarkStaleGoalFamilyProposals_def
      MarkAndDeleteStaleProposals_def Let_def
    by (simp add: direct_undisturbed mark_rows_def delete_rows_def logged_def retention_defs sq_ts_days aged_map ts_of_def survivors
        del: undisturbed_simp no_failure_simp)
qed

section \<open>Review tasks\<close>

definition review_kept :: "uuid \<Rightarrow> proposal list \<Rightarrow> bool" where
  "review_kept i rows \<longleftrightarrow> (\<exists>r \<in> set rows. pp_id r = i \<and> review_task r)"

lemma update_rows_ex: "(\<And>r. Q (f r) = Q r) \<Longrightarrow> (\<exists>r \<in> set (update_rows P f rows). Q r) = (\<exists>r \<in> set rows. Q r)"
  by (induction rows) auto

lemma review_mark: "sound (review_kept i) (mark_rows P at reason)"
proof -
  have "pp_id (expire at reason r) = i \<and> review_task (expire at reason r) \<longleftrightarrow> pp_id r = i \<and> review_task r" for r
    by (simp add: review_task_def expire_def)
  then show ?thesis by (simp add: sound_def mark_rows_def review_kept_def update_rows_ex)
qed

lemma review_delete: "sound (review_kept i) (delete_rows (prunable a b))"
  by (auto simp: sound_def delete_rows_def review_kept_def prunable_def review_task_def)

lemma logged_keeps: "keeps I m \<Longrightarrow> keeps I (logged m)"
  by (intro keepsI) (auto simp: logged_def split: prod.split sum.split dest: keepsD)

lemma snd_keeps: "keeps I m \<Longrightarrow> holds I t \<Longrightarrow> holds I (snd (m t))"
  by (simp add: keeps_def)

text \<open>The nightly job never deletes a review task of the decision-outcome job, whatever its status and
  age, whichever of its steps fail, whatever the clock says at each step and whatever other connections
  do that keep the row: that job takes the existence of such a row as the mark that the decision has
  been proposed for review.\<close>

theorem review_tasks_survive:
  assumes "polite (review_kept i) env" and "review_kept i (proposals s)"
  shows "review_kept i (proposals (outside (nightly b dry env fault clock \<lparr>seen = s, outside = s\<rparr>)))"
proof -
  let ?I = "review_kept i"
  have m: "keeps ?I (direct env fault n (mark_rows P at reason))" and d: "keeps ?I (direct env fault n (delete_rows (prunable a c)))"
    and r: "keeps ?I (direct env fault n (reading f))" for n P at reason a c and f :: "proposal_db \<Rightarrow> proposal_error + nat"
    using assms(1) by (auto intro!: keeps_direct review_mark review_delete sound_frames frames_rules)
  have md: "keeps ?I (MarkAndDeleteStaleProposals env fault clock a c e reason)" for a c e reason
    unfolding MarkAndDeleteStaleProposals_def Let_def
    by (rule keepsI) (auto split: prod.split dest: keepsD [OF m] keepsD [OF d])
  have "holds ?I \<lparr>seen = s, outside = s\<rparr>" using assms(2) by (simp add: holds_def)
  then have "holds ?I (nightly b dry env fault clock \<lparr>seen = s, outside = s\<rparr>)"
    unfolding nightly_def runDailyPendingProposalsPrunePG_def runDailyPendingProposalsPruneSQLite_def markStaleGoalFamilyProposalsPG_def
      MarkStaleGoalFamilyProposals_def Let_def
    by (cases b) (auto intro!: snd_keeps logged_keeps m d r md)
  then show ?thesis by (simp add: holds_def)
qed

definition review_row :: proposal where
  "review_row = goal_proposal\<lparr>pp_type := TypeTask, pp_status := StatusRejected, pp_resolved := Some 0,
     pp_proposed_by := Some (lit ''scheduler:decision_outcome_review'')\<rparr>"

theorem review_tasks_survive_witness:
  "review_kept 5 (proposals (outside (nightly Sq False undisturbed no_failure (\<lambda>_. 10 ^ 18)
     \<lparr>seen = one_goal\<lparr>proposals := [review_row]\<rparr>, outside = one_goal\<lparr>proposals := [review_row]\<rparr>\<rparr>)))"
  by (rule review_tasks_survive [OF polite_undisturbed])
    (simp add: review_kept_def review_row_def review_task_def goal_proposal_def text_of_def)

end
