(* ===== verification/Proposal_Roundtrip.thy ===== *)
theory Proposal_Roundtrip
  imports Proposal_Facts Proposal_Mcp
begin

text \<open>
  From an agent's \<open>propose_goal\<close> to the row of the goal: what the tool stores, in the text of a SQLite
  column or in the \<open>jsonb\<close> form of Postgres, decodes to the arguments, and accepting it writes them.
\<close>

definition goal_args :: "(string \<Rightarrow> ustr) \<Rightarrow> create_goal_params" where
  "goal_args args =
     \<lparr>cg_title = args ''title'', cg_area = args ''area'', cg_description = args ''description'',
      cg_due = (if args ''due_date'' = [] then None else ParseRFC3339 (args ''due_date''))\<rparr>"

definition good_goal :: "(string \<Rightarrow> ustr) \<Rightarrow> bool" where
  "good_goal args \<longleftrightarrow> args ''title'' \<noteq> [] \<and> args ''area'' \<noteq> [] \<and>
     (args ''due_date'' = [] \<or> ParseRFC3339 (args ''due_date'') \<noteq> None) \<and>
     byte_len (args ''title'') \<le> 512 \<and> byte_len (args ''area'') \<le> 512 \<and> byte_len (args ''description'') \<le> 65536"

text \<open>The members in the order of the struct and in the order of \<open>jsonb\<close>.\<close>

definition goal_members :: "ustr \<Rightarrow> ustr \<Rightarrow> ustr \<Rightarrow> ustr \<Rightarrow> (ustr \<times> jvalue) list" where
  "goal_members title area description due =
     (lit ''title'', JvStr title) # (lit ''area'', JvStr area) #
     (if description = [] then [] else [(lit ''description'', JvStr description)]) @
     (if due = [] then [] else [(lit ''due_date'', JvStr due)])"

definition goal_jsonb :: "ustr \<Rightarrow> ustr \<Rightarrow> ustr \<Rightarrow> ustr \<Rightarrow> (ustr \<times> jvalue) list" where
  "goal_jsonb title area description due =
     (lit ''area'', JvStr area) # (lit ''title'', JvStr title) #
     (if due = [] then [] else [(lit ''due_date'', JvStr due)]) @
     (if description = [] then [] else [(lit ''description'', JvStr description)])"

lemma goal_marshal: "pl_json (Marshal e (goalPayload title area description due)) = Json (JvObj (goal_members title area description due))"
  by (simp add: Marshal_def Let_def goalPayload_def kept_fields_def goal_members_def)

lemma goal_norm: "jsonb_norm (JvObj (goal_members title area description due)) = JvObj (goal_jsonb title area description due)"
  by (cases "description = []"; cases "due = []")
    (simp_all add: goal_members_def goal_jsonb_def last_members_def byte_len_def utf8_len_def)

lemma goal_fields:
  assumes "kvs = goal_members title area description due \<or> kvs = goal_jsonb title area description due"
  shows "string_field ''title'' kvs = Some title" "string_field ''area'' kvs = Some area"
    "string_field ''description'' kvs = Some description" "string_field ''due_date'' kvs = Some due"
  using assms by (elim disjE; simp add: string_field_def goal_members_def goal_jsonb_def field_matches_def upper_fold_def)+

lemma goal_decodes:
  assumes "pl_json p = Json (JvObj kvs)"
    and "kvs = goal_members (args ''title'') (args ''area'') (args ''description'') (args ''due_date'') \<or>
      kvs = goal_jsonb (args ''title'') (args ''area'') (args ''description'') (args ''due_date'')"
    and "good_goal args"
  shows "DecodeGoalParams p = Inr (goal_args args)"
  using goal_fields [OF assms(2)] assms(1,3)
  by (auto simp: DecodeGoalParams_def goal_params_def struct_members_def good_goal_def goal_args_def simp del: list.map)

section \<open>Proposing\<close>

definition creating :: "backend \<Rightarrow> call \<Rightarrow> uuid \<Rightarrow> create_proposal \<Rightarrow> proposal pprog" where
  "creating b c nid = (case b of
     Pg \<Rightarrow> Create_pg undisturbed no_failure (c_scope c) (c_clock c) nid
   | Sq \<Rightarrow> Create_sq undisturbed no_failure (c_scope c) (c_clock c) nid)"

definition proposed_row :: "backend \<Rightarrow> call \<Rightarrow> uuid \<Rightarrow> create_proposal \<Rightarrow> payload_text \<Rightarrow> proposal" where
  "proposed_row b c nid p payload = new_proposal (ts_of b) (c_clock c ''insert'') nid (create_scope (c_scope c) p) p payload"

lemma created_row:
  assumes "creating b c nid p \<lparr>seen = s, outside = s\<rparr> = (Inr q, t')"
  shows "\<exists>payload. outside t' = s\<lparr>proposals := proposals s @ [proposed_row b c nid p payload]\<rparr> \<and> nid \<notin> set (map pp_id (proposals s)) \<and>
    (payload = cq_payload p \<or> jsonb_column (cq_payload p) = Some payload)"
  using assms
  by (cases b) (auto simp: creating_def Create_pg_def Create_sq_def Get_sq_def direct_def Let_def tick_undisturbed insert_proposal_def
      proposed_row_def ts_of_def reading_def new_proposal_def and_then_def
      split: if_splits option.splits sum.splits simp del: undisturbed_simp no_failure_simp)

lemma proposed_goal:
  assumes "handleProposeGoal create args t = (Inr q, t')"
  shows "good_goal args \<and> create \<lparr>cq_workspace = None, cq_type = TypeGoal,
    cq_payload = Marshal True (goalPayload (args ''title'') (args ''area'') (args ''description'') (args ''due_date'')),
    cq_by = args ''proposed_by''\<rparr> t = (Inr q, t')"
  using assms
  by (auto simp: handleProposeGoal_def tool_error_def propose_def failing_with_def good_goal_def proposeFieldTooLong_def
      proposeShortMaxBytes_def proposeTextMaxBytes_def Let_def split: if_splits option.splits prod.splits sum.splits)

text \<open>C14. What an agent proposes is what it gets: whenever \<open>propose_goal\<close> succeeds on either backend, accepting
  the new proposal there adds exactly one goal, with the title, area, description and due date of the
  call, although the payload goes through \<open>json.Marshal\<close>, on Postgres through \<open>jsonb\<close>, and back through the
  decoder with its own limits.\<close>

theorem propose_goal_roundtrip:
  assumes "handleProposeGoal (creating b c nid) args \<lparr>seen = s, outside = s\<rparr> = (Inr q, t')"
    and "one_id s" and "c_nid c \<notin> set (map gl_id (goals s))"
  shows "\<exists>r s'. run (accept_on b undisturbed no_failure c nid) (outside t') =
      (Inr (r, created_of b (EGoal (goal_of (ts_of b) (c_scope c) (time_of b c ''goal'') (c_nid c) (goal_args args)))), s') \<and>
    goals s' = goals s @ [goal_of (ts_of b) (c_scope c) (time_of b c ''goal'') (c_nid c) (goal_args args)]"
proof -
  let ?fs = "goalPayload (args ''title'') (args ''area'') (args ''description'') (args ''due_date'')"
  let ?p = "\<lparr>cq_workspace = None, cq_type = TypeGoal, cq_payload = Marshal True ?fs, cq_by = args ''proposed_by''\<rparr>"
  let ?g = "goal_of (ts_of b) (c_scope c) (time_of b c ''goal'') (c_nid c) (goal_args args)"
  from proposed_goal [OF assms(1)] have good: "good_goal args" and "creating b c nid ?p \<lparr>seen = s, outside = s\<rparr> = (Inr q, t')"
    by simp_all
  from created_row [OF this(2)] obtain payload where
    t': "outside t' = s\<lparr>proposals := proposals s @ [proposed_row b c nid ?p payload]\<rparr>" and fresh: "nid \<notin> set (map pp_id (proposals s))"
    and pl: "payload = Marshal True ?fs \<or> jsonb_column (Marshal True ?fs) = Some payload" by auto
  let ?q = "proposed_row b c nid ?p payload"
  have q: "pp_id ?q = nid" "pp_workspace ?q = c_scope c" "pp_status ?q = StatusPending" "pp_type ?q = TypeGoal" "pp_payload ?q = payload"
    by (simp_all add: proposed_row_def new_proposal_def create_scope_def)
  have "DecodeGoalParams payload = Inr (goal_args args)"
    using pl
  proof
    assume "payload = Marshal True ?fs"
    with goal_marshal show ?thesis by (intro goal_decodes [OF _ disjI1 [OF refl] good]) simp
  next
    assume "jsonb_column (Marshal True ?fs) = Some payload"
    then have "pl_json payload = Json (jsonb_norm (JvObj (goal_members (args ''title'') (args ''area'') (args ''description'') (args ''due_date''))))"
      unfolding jsonb_column_def goal_marshal by (auto split: if_splits)
    with goal_norm show ?thesis by (intro goal_decodes [OF _ disjI2 [OF refl] good]) simp
  qed
  then have entity: "entity_of b c ?q = Inr (EGoal ?g)"
    by (simp add: entity_of_def entity_with_def from_decode_def q)
  have one: "one_id (outside t')" using assms(2) fresh q t' by (simp add: one_id_def)
  have row: "get_row (c_scope c) nid (outside t') = Inr ?q"
  proof -
    have "first_row (proposal_row (c_scope c) nid) (proposals s @ [?q]) = Some ?q"
      by (rule first_row_fresh) (use fresh q in \<open>auto simp: first_row_None proposal_row_def\<close>)
    then show ?thesis using t' by (simp add: get_row_def)
  qed
  have "accept_spec b no_failure c nid (outside t') = Inr ((resolved StatusAccepted (ts_of b (time_of b c ''resolve'')) ?q, created_of b (EGoal ?g)),
      (outside t')\<lparr>goals := goals s @ [?g], proposals := update_rows (open_row (c_scope c) nid)
        (resolved StatusAccepted (ts_of b (time_of b c ''resolve''))) (proposals (outside t'))\<rparr>)"
    unfolding accept_spec_def row using q entity assms(3) t'
    by (simp add: duplicate_of_def add_to_def Let_def)
  with accept_on_runs [OF one, of no_failure b c nid] show ?thesis
    by (simp del: no_failure_simp) (auto simp: no_failure_def)
qed

definition small_args :: "string \<Rightarrow> ustr" where
  "small_args name = (if name = ''title'' then lit ''ship'' else if name = ''area'' then lit ''work'' else [])"

lemma small_goal: "\<exists>q t'. handleProposeGoal (creating Sq plain_call 9) small_args \<lparr>seen = one_goal, outside = one_goal\<rparr> = (Inr q, t')"
proof -
  have size: "pl_size (Marshal True (goalPayload (lit ''ship'') (lit ''work'') [] [])) \<le> MaxPayloadBytes"
    by (simp add: Marshal_def Let_def goalPayload_def kept_fields_def str_json_len_def rune_json_len_def utf8_len_def MaxPayloadBytes_def)
  have args: "small_args ''title'' = lit ''ship''" "small_args ''area'' = lit ''work''" "small_args ''description'' = []"
    "small_args ''due_date'' = []" "small_args ''proposed_by'' = []" by (simp_all add: small_args_def)
  have len: "byte_len (lit ''ship'') = 4" "byte_len (lit ''work'') = 4" "byte_len [] = 0" by (simp_all add: byte_len_def utf8_len_def)
  have "lit ''ship'' \<noteq> []" "lit ''work'' \<noteq> []" by simp_all
  then show ?thesis
    unfolding handleProposeGoal_def args Let_def proposeFieldTooLong_def len
    using size
    by (simp add: proposeShortMaxBytes_def proposeTextMaxBytes_def propose_def failing_with_def creating_def Create_sq_def Get_sq_def
        direct_undisturbed insert_proposal_def new_proposal_def proposal_types_def one_goal_def goal_proposal_def reading_def
        get_row_def first_row_def proposal_row_def create_scope_def plain_call_def and_then_def
        del: list.map undisturbed_simp no_failure_simp)
qed

theorem propose_goal_roundtrip_witness:
  "\<exists>q t' r s'. handleProposeGoal (creating Sq plain_call 9) small_args \<lparr>seen = one_goal, outside = one_goal\<rparr> = (Inr q, t') \<and>
     run (accept_on Sq undisturbed no_failure plain_call 9) (outside t') = (Inr r, s') \<and>
     goals s' = [goal_of sq_ts None 3000 7 (goal_args small_args)]"
proof -
  obtain q t' where p: "handleProposeGoal (creating Sq plain_call 9) small_args \<lparr>seen = one_goal, outside = one_goal\<rparr> = (Inr q, t')"
    using small_goal by blast
  have "c_nid plain_call \<notin> set (map gl_id (goals one_goal))" by (simp add: one_goal_def)
  from propose_goal_roundtrip [OF p one_goal_id this] p show ?thesis
    by (auto simp: one_goal_def ts_of_def time_of_def plain_call_def)
qed

end
