(* ===== verification/Proposal_Batch.thy ===== *)
theory Proposal_Batch
  imports Proposal_Facts
begin

text \<open>
  What \<open>BatchConfirm\<close> promises: on Postgres one transaction that resolves every id or none, on SQLite
  one resolve after the other.
\<close>

section \<open>Postgres\<close>

definition in_batch :: "uuid option \<Rightarrow> uuid list \<Rightarrow> proposal \<Rightarrow> bool" where
  "in_batch scope ids r \<longleftrightarrow> (\<exists>i \<in> set ids. open_row scope i r)"

lemma in_batch_Cons: "in_batch scope (i # ids) r \<longleftrightarrow> open_row scope i r \<or> in_batch scope ids r"
  by (auto simp: in_batch_def)

lemma open_resolved [simp]: "status \<noteq> StatusPending \<Longrightarrow> \<not> open_row scope i (resolved status at r)"
  by (simp add: open_row_def resolved_def)

lemma in_batch_resolved [simp]: "status \<noteq> StatusPending \<Longrightarrow> \<not> in_batch scope ids (resolved status at r)"
  by (simp add: in_batch_def)

lemma update_update:
  "(\<And>r. \<not> Q (f r)) \<Longrightarrow> update_rows Q f (update_rows P f rows) = update_rows (\<lambda>r. P r \<or> Q r) f rows"
  by (induction rows) auto

text \<open>What the loop does from any state: it stops at the first id without a pending row.\<close>

fun all_open :: "uuid option \<Rightarrow> uuid list \<Rightarrow> proposal list \<Rightarrow> bool" where
  "all_open scope [] rows = True"
| "all_open scope (i # ids) rows \<longleftrightarrow> list_ex (open_row scope i) rows \<and> i \<notin> set ids \<and> all_open scope ids rows"

lemma open_row_other: "i \<noteq> j \<Longrightarrow> list_ex (open_row scope j) (update_rows (open_row scope i) (resolved st at) rows) =
    list_ex (open_row scope j) rows"
  by (induction rows) (auto simp: open_row_def resolved_def)

lemma open_row_same: "st \<noteq> StatusPending \<Longrightarrow> \<not> list_ex (open_row scope i) (update_rows (open_row scope i) (resolved st at) rows)"
  by (induction rows) auto

lemma all_open_update: "st \<noteq> StatusPending \<Longrightarrow> all_open scope ids (update_rows (open_row scope i) (resolved st at) rows) =
    (all_open scope ids rows \<and> i \<notin> set ids)"
proof (induction ids)
  case (Cons j ids)
  then show ?case
    by (cases "i = j") (auto simp: open_row_other open_row_same)
qed simp

lemma first_open: "first_row (open_row scope i) rows = None \<longleftrightarrow> \<not> list_ex (open_row scope i) rows"
  by (auto simp: first_row_None list_ex_iff)

lemma resolve_step:
  assumes "status = StatusAccepted \<or> status = StatusRejected"
  shows "Resolve_in_tx undisturbed no_failure name scope at i status t =
    (if list_ex (open_row scope i) (proposals (seen t))
     then (Inr (resolved status (pg_ts at) (the (first_row (open_row scope i) (proposals (seen t))))),
           t\<lparr>seen := (seen t)\<lparr>proposals := update_rows (open_row scope i) (resolved status (pg_ts at)) (proposals (seen t))\<rparr>\<rparr>)
     else (Inl PNotFound, t))"
  using assms first_open [of scope i "proposals (seen t)"]
  by (auto simp: Resolve_in_tx_def in_tx_def stmt_def resolve_row_def Let_def tick_undisturbed)

lemma in_batch_step: "st \<noteq> StatusPending \<Longrightarrow>
    update_rows (in_batch scope ids) (resolved st at) (update_rows (open_row scope i) (resolved st at) rows) =
    update_rows (in_batch scope (i # ids)) (resolved st at) rows"
  by (subst update_update) (simp_all add: in_batch_Cons [abs_def])

lemma resolve_all_ok:
  assumes "status = StatusAccepted \<or> status = StatusRejected" and "all_open scope ids (proposals (seen t))"
  shows "resolve_all undisturbed no_failure scope at status k ids t =
    (None, t\<lparr>seen := (seen t)\<lparr>proposals := update_rows (in_batch scope ids) (resolved status (pg_ts at)) (proposals (seen t))\<rparr>\<rparr>)"
  using assms
proof (induction ids arbitrary: k t)
  case Nil
  have "update_rows (in_batch scope []) f rows = rows" for f rows
    by (rule update_rows_id) (simp add: in_batch_def)
  then show ?case by simp
next
  case (Cons i ids)
  then have "status \<noteq> StatusPending" by auto
  with Cons show ?case
    by (simp add: resolve_step all_open_update in_batch_step del: undisturbed_simp no_failure_simp)
qed

lemma resolve_all_stops:
  assumes "status = StatusAccepted \<or> status = StatusRejected" and "\<not> all_open scope ids (proposals (seen t))"
  shows "\<exists>i t'. i \<in> set ids \<and> resolve_all undisturbed no_failure scope at status k ids t = (Some (i, PNotFound), t') \<and> outside t' = outside t"
  using assms
proof (induction ids arbitrary: k t)
  case (Cons i ids)
  then have st: "status \<noteq> StatusPending" by auto
  show ?case
  proof (cases "list_ex (open_row scope i) (proposals (seen t))")
    case True
    let ?t = "t\<lparr>seen := (seen t)\<lparr>proposals := update_rows (open_row scope i) (resolved status (pg_ts at)) (proposals (seen t))\<rparr>\<rparr>"
    have "\<not> all_open scope ids (proposals (seen ?t))" using Cons.prems True st by (auto simp: all_open_update)
    from Cons.IH [OF Cons.prems(1) this, of "k + 1"] show ?thesis
      using True Cons.prems(1) by (auto simp: resolve_step simp del: undisturbed_simp no_failure_simp)
  next
    case False
    with Cons.prems(1) show ?thesis by (simp add: resolve_step del: undisturbed_simp no_failure_simp)
  qed
qed simp

definition batch_done :: "uuid list \<Rightarrow> batch_result" where
  "batch_done ids = \<lparr>br_results = map (\<lambda>i. \<lparr>bi_id = i, bi_ok = True, bi_error = ''''\<rparr>) ids, br_accepted = length ids, br_failed = 0\<rparr>"

definition batch_refused :: "uuid list \<Rightarrow> uuid \<Rightarrow> batch_result" where
  "batch_refused ids i = \<lparr>br_results = map (\<lambda>f. \<lparr>bi_id = f, bi_ok = False,
     bi_error = (if f = i then ''proposal: not found'' else sibling_failure)\<rparr>) ids, br_accepted = 0, br_failed = length ids\<rparr>"

text \<open>C15. \<open>BatchConfirm\<close> on Postgres is all or nothing: when every id has a pending row the caller sees and no
  id is repeated, it resolves exactly those rows and reports every item as done; otherwise the database
  stays as it was, no item is reported as done, and exactly the copies of one id carry ``not found''
  while the others are rolled back.\<close>

theorem batch_all_or_nothing:
  assumes "status = StatusAccepted \<or> status = StatusRejected"
  shows "if all_open scope ids (proposals s)
    then run (BatchConfirm_pg True undisturbed no_failure scope clock ids status) s =
      (Inr (batch_done ids),
       s\<lparr>proposals := update_rows (in_batch scope ids) (resolved status (pg_ts (clock ''begin''))) (proposals s)\<rparr>)
    else (\<exists>i \<in> set ids. run (BatchConfirm_pg True undisturbed no_failure scope clock ids status) s = (Inr (batch_refused ids i), s))"
proof -
  have [simp]: "BatchItemErrMsg PNotFound = ''proposal: not found''" by (simp add: BatchItemErrMsg_def)
  have b: "begin_tx undisturbed no_failure PDatabase \<lparr>seen = s, outside = s\<rparr> = (Inr (), \<lparr>seen = s, outside = s\<rparr>)"
    by (simp add: begin_tx_def Let_def tick_undisturbed)
  have c: "commit_tx undisturbed no_failure PDatabase t = (Inr (), t\<lparr>outside := seen t\<rparr>)" for t
    by (simp add: commit_tx_def Let_def tick_undisturbed)
  let ?t = "\<lparr>seen = s, outside = s\<rparr>"
  show ?thesis
  proof (cases "all_open scope ids (proposals s)")
    case True
    with resolve_all_ok [OF assms, of scope ids ?t "clock ''begin''" 0] show ?thesis
      using assms b by (auto simp: run_def BatchConfirm_pg_def batch_done_def c simp del: undisturbed_simp no_failure_simp)
  next
    case False
    with resolve_all_stops [OF assms, of scope ids ?t "clock ''begin''" 0] obtain i t' where "i \<in> set ids"
      and "resolve_all undisturbed no_failure scope (clock ''begin'') status 0 ids ?t = (Some (i, PNotFound), t')" "outside t' = s"
      by auto
    with False show ?thesis
      using assms b by (auto simp: run_def BatchConfirm_pg_def batch_refused_def simp del: undisturbed_simp no_failure_simp)
  qed
qed

theorem batch_all_or_nothing_witness:
  "run (BatchConfirm_pg True undisturbed no_failure None (\<lambda>_. 2000) [5] StatusRejected) one_goal =
     (Inr (batch_done [5]), one_goal\<lparr>proposals := [resolved StatusRejected (pg_ts 2000) goal_proposal]\<rparr>) \<and>
   run (BatchConfirm_pg True undisturbed no_failure None (\<lambda>_. 2000) [6] StatusRejected) one_goal = (Inr (batch_refused [6] 6), one_goal)"
proof
  have o: "open_row None 5 goal_proposal" by (simp add: open_row_def goal_proposal_def)
  show "run (BatchConfirm_pg True undisturbed no_failure None (\<lambda>_. 2000) [5] StatusRejected) one_goal =
     (Inr (batch_done [5]), one_goal\<lparr>proposals := [resolved StatusRejected (pg_ts 2000) goal_proposal]\<rparr>)"
    using batch_all_or_nothing [of StatusRejected None "[5]" one_goal "\<lambda>_. 2000"] o
    by (simp add: one_goal_def in_batch_def)
  have n: "\<not> open_row None 6 goal_proposal" by (simp add: open_row_def goal_proposal_def)
  show "run (BatchConfirm_pg True undisturbed no_failure None (\<lambda>_. 2000) [6] StatusRejected) one_goal = (Inr (batch_refused [6] 6), one_goal)"
    using batch_all_or_nothing [of StatusRejected None "[6]" one_goal "\<lambda>_. 2000"] n
    by (simp add: one_goal_def)
qed

end
