(* ===== verification/Proposal_Gaps.thy ===== *)
theory Proposal_Gaps
  imports Proposal_Facts Proposal_Handler Proposal_Mcp
begin

text \<open>
  The gates in front of the transaction, and what the ways of accepting do differently: playbooks over
  HTTP and on SQLite, and candidates too long for every decoder.
\<close>

section \<open>The gate of the handler\<close>

lemma from_decode_Inr: "(\<And>a. k a \<noteq> Inl (PDecode e)) \<Longrightarrow> from_decode (Inr x) k \<noteq> Inl (PDecode e)"
  by (simp add: from_decode_def)

lemma log_check_decode: "log_check p \<noteq> Some (PDecode e)"
proof -
  have "noisy_field fs \<noteq> Some (PDecode e)" for fs
    by (induction fs rule: noisy_field.induct) (auto split: option.split)
  then show ?thesis by (auto simp: log_check_def split: option.split)
qed

text \<open>The gate a payload passes before the handler opens a transaction is at least as strict as the
  decoder inside it: after an accepted gate the transaction never fails on the payload, so a malformed
  payload is always a 400 and never a 500, for all types, on both backends, in both modes of the
  vagueness check.\<close>

theorem gate_covers_decoder:
  assumes "acceptPayloadGate (c_quote c) (c_parse c) (c_strict c) (pp_type q) (pp_payload q) = Inr ws"
  shows "entity_of b c q \<noteq> Inl (PDecode e)"
proof -
  have concept: "\<exists>x. DecodeConceptPayload (pp_payload q) = Inr x" if "decodeConceptCandidatePayload (pp_payload q) = Inr y" for y
    using that concept_params_ok unfolding DecodeConceptPayload_def decodeConceptCandidatePayload_def by blast
  have task: "\<exists>x. DecodeTaskParams (c_quote c) (pp_payload q) (c_strict c) = Inr x" if "pp_type q = TypeTask"
  proof -
    have gate: "taskPayloadGate (c_quote c) (c_strict c) (pp_payload q) = Inr ws" using assms that by (simp add: acceptPayloadGate_def)
    obtain p ws' where d: "DecodeTaskParams (c_quote c) (pp_payload q) False = Inr (p, ws')" and w: "\<not> c_strict c \<or> ws' = []"
      using gate unfolding taskPayloadGate_def by (cases "DecodeTaskParams (c_quote c) (pp_payload q) False") (auto split: if_splits)
    show ?thesis using task_params_warns [OF d [unfolded DecodeTaskParams_def] w] unfolding DecodeTaskParams_def by blast
  qed
  show ?thesis
    using assms task concept log_check_decode
    by (auto simp: entity_of_def entity_with_def from_decode_def acceptPayloadGate_def validateGoalProjectPayload_def
        split: if_splits option.splits sum.splits)
qed

theorem gate_covers_decoder_witness:
  "acceptPayloadGate (c_quote plain_call) (c_parse plain_call) (c_strict plain_call) (pp_type goal_proposal) (pp_payload goal_proposal) = Inr [] \<and>
   entity_of Pg plain_call goal_proposal \<noteq> Inl (PDecode (VaguenessFailed []))"
proof -
  have "pp_type goal_proposal = TypeGoal" by (simp add: goal_proposal_def)
  then have "acceptPayloadGate (c_quote plain_call) (c_parse plain_call) (c_strict plain_call) (pp_type goal_proposal) (pp_payload goal_proposal) = Inr []"
    by (simp add: acceptPayloadGate_def validateGoalProjectPayload_def goal_decoded)
  with gate_covers_decoder [OF this] show ?thesis by blast
qed

section \<open>Playbooks\<close>

lemma playbook_http:
  assumes "first_row (open_row (c_scope c) i) (proposals s) = Some q" and "get_row (c_scope c) i s = Inr q" and "pp_type q = TypePlaybook"
    and "c_parse c raw = Some i" and "one_id s"
    and "h = handler_pg (\<lambda>_. undisturbed) (\<lambda>_. no_failure) (\<lambda>_. c) \<or> h = handler_sq (\<lambda>_. undisturbed) (\<lambda>_. no_failure) (\<lambda>_. c)"
  shows "\<exists>r s'. ConfirmProposal h raw (Some (lit ''accept'')) \<lparr>seen = s, outside = s\<rparr> =
      ((200, ConfirmBody (only_proposal r)), \<lparr>seen = s', outside = s'\<rparr>) \<and> pp_status r = StatusAccepted \<and> playbooks s' = playbooks s"
proof -
  have eq: "prefixed ''handler '' undisturbed = undisturbed" "prefixed ''handler '' no_failure = no_failure"
    by (simp_all add: prefixed_def fun_eq_iff no_failure_def)
  have pending: "pp_status q = StatusPending" using assms(1) by (auto dest: first_row_Some simp: open_row_def)
  have seam: "pp_type q \<notin> set seam_types" by (simp add: assms(3) seam_types_def)
  have ids: "distinct (map pp_id (proposals s))" using assms(5) by (simp add: one_id_def)
  have act: "lit ''accept'' \<noteq> lit ''reject''" by simp
  have parse: "h_parse h raw = Some i" using assms(4,6) by (auto simp: handler_pg_def handler_sq_def)
  have get: "h_get h i \<lparr>seen = s, outside = s\<rparr> = (Inr q, \<lparr>seen = s, outside = s\<rparr>)"
    using assms(6) by (auto simp: handler_pg_def handler_sq_def Get_pg_def Get_sq_def eq direct_undisturbed reading_def assms(2)
        simp del: undisturbed_simp no_failure_simp)
  have "\<exists>r s'. h_resolve h i StatusAccepted \<lparr>seen = s, outside = s\<rparr> = (Inr r, \<lparr>seen = s', outside = s'\<rparr>) \<and>
      pp_status r = StatusAccepted \<and> playbooks s' = playbooks s"
    using assms(1,6)
    by (auto simp: handler_pg_def handler_sq_def Resolve_pg_def Resolve_sq_def Get_sq_def eq direct_undisturbed reading_def
        resolve_row_def and_then_def get_row_def resolved_read [OF ids] resolved_def [symmetric]
        simp del: undisturbed_simp no_failure_simp) (simp_all add: resolved_def)
  then show ?thesis
    using act by (auto simp: ConfirmProposal_def parse handleAccept_def get pending seam resolve_only_def simp del: list.map)
qed

text \<open>A playbook proposal cannot be turned into a playbook where it matters: accepted over HTTP, on either
  backend, it is marked accepted and no playbook is written (which is final); and \<open>confirm_proposal\<close>
  on SQLite always fails and leaves the database as it was.\<close>

theorem playbook_dead_ends:
  assumes "get_row (c_scope c) i s = Inr q" and "pp_status q = StatusPending" and "pp_type q = TypePlaybook" and "one_id s"
    and "c_parse c raw = Some i"
    and "h = handler_pg (\<lambda>_. undisturbed) (\<lambda>_. no_failure) (\<lambda>_. c) \<or> h = handler_sq (\<lambda>_. undisturbed) (\<lambda>_. no_failure) (\<lambda>_. c)"
    and "m_call m = c"
  shows "(\<exists>r s'. ConfirmProposal h raw (Some (lit ''accept'')) \<lparr>seen = s, outside = s\<rparr> =
      ((200, ConfirmBody (only_proposal r)), \<lparr>seen = s', outside = s'\<rparr>) \<and> pp_status r = StatusAccepted \<and> playbooks s' = playbooks s) \<and>
    (\<exists>e. acceptProposalSQLite undisturbed fault m i \<lparr>seen = s, outside = s\<rparr> = (Inl e, \<lparr>seen = s, outside = s\<rparr>))"
proof
  have "first_row (open_row (c_scope c) i) (proposals s) = Some q"
    using assms(1,2) by (auto simp: get_row_def intro: open_first split: option.splits)
  then show "\<exists>r s'. ConfirmProposal h raw (Some (lit ''accept'')) \<lparr>seen = s, outside = s\<rparr> =
      ((200, ConfirmBody (only_proposal r)), \<lparr>seen = s', outside = s'\<rparr>) \<and> pp_status r = StatusAccepted \<and> playbooks s' = playbooks s"
    using assms by (intro playbook_http [where i = i and q = q and c = c])
  show "\<exists>e. acceptProposalSQLite undisturbed fault m i \<lparr>seen = s, outside = s\<rparr> = (Inl e, \<lparr>seen = s, outside = s\<rparr>)"
    using assms(1,2,3,7)
    by (cases "fault ''get''"; cases "fault ''begin''"; cases "decodePlaybookPayload (c_parse c) (pp_payload q) (pp_workspace q)")
      (auto simp: acceptProposalSQLite_def Get_sq_def direct_def tick_undisturbed reading_def tool_rollback_def then_do_def failing_with_def
        begin_tx_def Let_def materializeFromPayloadSQLiteTx_def decoded_def tool_error_def)
qed

definition playbook_proposal :: proposal where
  "playbook_proposal = goal_proposal\<lparr>pp_type := TypePlaybook\<rparr>"

theorem playbook_dead_ends_witness:
  "\<exists>r s'. ConfirmProposal (handler_sq (\<lambda>_. undisturbed) (\<lambda>_. no_failure) (\<lambda>_. plain_call\<lparr>c_parse := \<lambda>_. Some 5\<rparr>)) [] (Some (lit ''accept''))
      \<lparr>seen = one_goal\<lparr>proposals := [playbook_proposal]\<rparr>, outside = one_goal\<lparr>proposals := [playbook_proposal]\<rparr>\<rparr> =
      ((200, ConfirmBody (only_proposal r)), \<lparr>seen = s', outside = s'\<rparr>) \<and> pp_status r = StatusAccepted \<and> playbooks s' = []"
proof -
  let ?c = "plain_call\<lparr>c_parse := \<lambda>_. Some 5\<rparr>" and ?s = "one_goal\<lparr>proposals := [playbook_proposal]\<rparr>"
  have "get_row (c_scope ?c) 5 ?s = Inr playbook_proposal"
    by (simp add: get_row_def first_row_def proposal_row_def playbook_proposal_def goal_proposal_def plain_call_def)
  moreover have "pp_status playbook_proposal = StatusPending" "pp_type playbook_proposal = TypePlaybook" "one_id ?s"
    by (simp_all add: playbook_proposal_def goal_proposal_def one_id_def)
  moreover have "m_call \<lparr>m_call = ?c, m_session = [], m_sections = \<lambda>_. [], m_child = \<lambda>_. 0\<rparr> = ?c" by simp
  moreover have "c_parse ?c [] = Some 5" "playbooks ?s = []" by (simp_all add: one_goal_def)
  ultimately show ?thesis
    using playbook_dead_ends [of ?c 5 ?s playbook_proposal "[]" "handler_sq (\<lambda>_. undisturbed) (\<lambda>_. no_failure) (\<lambda>_. ?c)"] by metis
qed

section \<open>Candidates no decoder takes\<close>

text \<open>\<open>AutoProposeConceptFromKnowledge\<close> proposes a concept for items with up to a megabyte of content;
  every decoder refuses content above 64 KB.\<close>

lemma long_candidate_refused:
  assumes "65536 < byte_len (kn_content k)" and "byte_len (kn_title k) \<le> 512"
  shows "DecodeConceptPayload (cq_payload (concept_proposal k by')) = Inl (InvalidField ''concept content exceeds 64 KB'')"
proof -
  let ?p = "cq_payload (concept_proposal k by')"
  obtain kvs where kvs: "struct_members ?p = Some kvs" and
    f: "string_field ''title'' kvs = Some (kn_title k)" "string_field ''content'' kvs = Some (kn_content k)"
      "\<exists>x. strings_field ''tags'' kvs = Some x" "\<exists>x. string_field ''source_item_id'' kvs = Some x" "\<exists>x. string_field ''source_item_type'' kvs = Some x"
    unfolding concept_proposal_def MarshalConceptCandidate_def ConceptCandidate_def
    by (cases "kn_tags k = []"; cases "uuid_text (kn_id k) = []"; cases "kn_type k = []")
      (simp_all add: kept_fields_def string_field_def strings_field_def list_field_def field_matches_def upper_fold_def comp_def)
  then show ?thesis using assms
    by (auto simp: DecodeConceptPayload_def concept_params_def)
qed

end
