(* ===== verification/Reconcile_Model.thy ===== *)
theory Reconcile_Model
  imports Go_Json Gtd_Postgres
begin

text \<open>
  The matcher of \<open>internal/gtd/reconcile.go\<close>: which open task a merged pull request closes.  The lists
  it reads are those of \<open>Tasks\<close>, \<open>ProjectsFiltered\<close> and \<open>ActiveRepos\<close>.  A \<open>map\<close> of slices is a function
  to lists, a \<open>map\<close> to \<open>bool\<close> the set of its keys.  \<open>strings.EqualFold\<close> is exact when one side is ASCII,
  which the validation of the request makes the pull request's repository.
\<close>

section \<open>Reading tasks, projects and repositories\<close>

definition open_in :: "uuid option \<Rightarrow> uuid option \<Rightarrow> task \<Rightarrow> bool" where
  "open_in scope projectID t \<longleftrightarrow> (case projectID of None \<Rightarrow> True | Some p \<Rightarrow> t_project t = Some p) \<and>
     open_status (t_status t) \<and> in_scope scope (t_workspace t)"

definition Tasks_sq :: "uuid option \<Rightarrow> uuid option \<Rightarrow> gtd_db \<Rightarrow> task list" where
  "Tasks_sq scope projectID s =
     sort_key (\<lambda>t. (t_priority t, t_created t)) (filter (open_in scope projectID) (tasks s))"

definition Tasks_pg :: "uuid option \<Rightarrow> uuid option \<Rightarrow> gtd_db \<Rightarrow> task list" where
  "Tasks_pg scope projectID s =
     (case projectID of
        Some p \<Rightarrow> sort_key (\<lambda>t. (t_priority t, t_created t))
          (filter (\<lambda>t. t_project t = Some p \<and> t_status t \<in> {Pending, InProgress} \<and> in_scope scope (t_workspace t)) (tasks s))
      | None \<Rightarrow> sort_key (\<lambda>t. (t_priority t, t_created t))
          (filter (\<lambda>t. t_status t \<in> {Pending, InProgress} \<and> in_scope scope (t_workspace t)) (tasks s)))"

lemma Tasks_pg_sq: "Tasks_pg = Tasks_sq"
  by (auto simp: fun_eq_iff Tasks_pg_def Tasks_sq_def open_in_def open_status_def split: option.splits
      intro!: arg_cong [where f = "sort_key _"] filter_cong)

lemma set_Tasks: "t \<in> set (Tasks_sq scope None s) \<longleftrightarrow> t \<in> set (tasks s) \<and> open_status (t_status t) \<and> in_scope scope (t_workspace t)"
  by (auto simp: Tasks_sq_def open_in_def)

fun project_status_text :: "project_status \<Rightarrow> string" where
  "project_status_text ProjActive = ''active''"
| "project_status_text ProjCompleted = ''completed''"
| "project_status_text ProjArchived = ''archived''"
| "project_status_text ProjOnHold = ''on_hold''"

text \<open>Both stores: the active projects (also for an empty filter), all of them, or those of one status.\<close>

definition ProjectsFiltered :: "uuid option \<Rightarrow> string \<Rightarrow> gtd_db \<Rightarrow> project list" where
  "ProjectsFiltered scope status s =
     (let mine = filter (\<lambda>p. in_scope scope (pj_workspace p)) (projects s) in
      if status = [] \<or> status = ''active''
      then sort_key (\<lambda>p. (pj_priority p, - pj_updated p, pj_id p)) (filter (\<lambda>p. pj_status p = ProjActive) mine)
      else if status = ''all'' then sort_key (\<lambda>p. (pj_priority p, - pj_updated p)) mine
      else sort_key (\<lambda>p. (pj_priority p, - pj_updated p)) (filter (\<lambda>p. project_status_text (pj_status p) = status) mine))"

lemma set_all_projects: "set (ProjectsFiltered scope ''all'' s) = {p \<in> set (projects s). in_scope scope (pj_workspace p)}"
  by (auto simp: ProjectsFiltered_def)

text \<open>A row of \<open>repos\<close>, with the columns the resolver and its query read.\<close>

record repo_row =
  rr_name :: ustr
  rr_workspace :: "uuid option"
  rr_active :: bool
  rr_slug :: "ustr option"
  rr_last_activity :: "instant option"

definition activity_order :: "repo_row \<Rightarrow> bool \<times> int \<times> ustr" where
  "activity_order r = (rr_last_activity r = None, (case rr_last_activity r of None \<Rightarrow> 0 | Some at \<Rightarrow> - at), rr_name r)"

definition ActiveRepos :: "uuid option \<Rightarrow> repo_row list \<Rightarrow> repo_row list" where
  "ActiveRepos scope rows = sort_key activity_order (filter (\<lambda>r. rr_active r \<and> in_scope scope (rr_workspace r)) rows)"

section \<open>Merged pull requests and what the matcher says of them\<close>

record merged_pr =
  mp_url :: ustr
  mp_head_ref :: ustr
  mp_merged_at :: "instant option"     \<comment> \<open>\<open>None\<close>: the zero time\<close>
  mp_title :: ustr
  mp_body :: ustr
  mp_repo :: ustr

record ambiguous =
  ab_task :: uuid
  ab_reason :: match_reason
  ab_pr_url :: ustr
  ab_head_ref :: ustr

record pr_match_result =
  mr_matches :: "pr_match list"
  mr_ambiguous :: "ambiguous list"
  mr_no_match :: nat
  mr_mismatch :: nat
  mr_unverified :: "ambiguous list"

section \<open>Whose repository a task belongs to\<close>

type_synonym repo_resolver = "task \<Rightarrow> ustr option"     \<comment> \<open>\<open>None\<close>: unknown\<close>

definition EqualFold :: "ustr \<Rightarrow> ustr \<Rightarrow> bool" where
  "EqualFold a b \<longleftrightarrow> map upper_fold a = map upper_fold b"

definition AssumeSameRepo :: repo_resolver where
  "AssumeSameRepo t = Some []"

definition sameRepo :: "ustr \<Rightarrow> ustr \<Rightarrow> bool" where
  "sameRepo taskSlug prRepo \<longleftrightarrow> taskSlug = [] \<or> EqualFold taskSlug prRepo"

definition slugByRepo :: "repo_row list \<Rightarrow> ustr \<rightharpoonup> ustr" where
  "slugByRepo repos = fold (\<lambda>r m. case rr_slug r of None \<Rightarrow> m | Some g \<Rightarrow> if g = [] then m else m(rr_name r \<mapsto> g))
     repos Map.empty"

definition repoByProject :: "project list \<Rightarrow> uuid \<rightharpoonup> ustr" where
  "repoByProject ps = fold (\<lambda>p m. case pj_repo p of None \<Rightarrow> m | Some n \<Rightarrow> if n = [] then m else m(pj_id p \<mapsto> n))
     ps Map.empty"

definition NewRepoResolver :: "project list \<Rightarrow> repo_row list \<Rightarrow> repo_resolver" where
  "NewRepoResolver ps repos t =
     (case t_project t of
        None \<Rightarrow> None
      | Some p \<Rightarrow> (case repoByProject ps p of None \<Rightarrow> None | Some name \<Rightarrow> slugByRepo repos name))"

section \<open>The matcher\<close>

definition bodyExcerptMaxLen :: nat where
  "bodyExcerptMaxLen = 500"

fun excerpt_loop :: "nat \<Rightarrow> ustr \<Rightarrow> ustr" where
  "excerpt_loop count [] = []"
| "excerpt_loop count (r # s) =
     (if r = 0 \<or> (r < 32 \<and> r \<noteq> 9 \<and> r \<noteq> 10) then excerpt_loop count s
      else if count \<ge> bodyExcerptMaxLen then []
      else r # excerpt_loop (Suc count) s)"

definition sanitiseBodyExcerpt :: "ustr \<Rightarrow> ustr" where
  "sanitiseBodyExcerpt s = TrimSpace (excerpt_loop 0 s)"

definition url_key :: "ustr \<Rightarrow> ustr" where
  "url_key u = ToLower (TrimSpace u)"

text \<open>The two lookup tables, built in one pass over the open tasks.\<close>

fun index_tasks :: "task list \<Rightarrow> (ustr \<Rightarrow> task list) \<times> (ustr \<Rightarrow> task list) \<Rightarrow> (ustr \<Rightarrow> task list) \<times> (ustr \<Rightarrow> task list)" where
  "index_tasks [] (byURL, byBranch) = (byURL, byBranch)"
| "index_tasks (t # ts) (byURL, byBranch) =
     (if \<not> open_status (t_status t) then index_tasks ts (byURL, byBranch)
      else index_tasks ts
        ((case t_pr_url t of None \<Rightarrow> byURL | Some u \<Rightarrow>
            if u = [] then byURL else byURL(url_key u := byURL (url_key u) @ [t])),
         (case t_branch t of None \<Rightarrow> byBranch | Some b \<Rightarrow>
            if b = [] then byBranch else byBranch(b := byBranch b @ [t]))))"

definition taskRecency :: "task \<Rightarrow> instant" where
  "taskRecency t = (if t_updated t > t_created t then t_updated t else t_created t)"

definition pickMostRecentUnclaimed :: "task list \<Rightarrow> uuid set \<Rightarrow> task option" where
  "pickMostRecentUnclaimed hits claimed =
     (case sort_key (\<lambda>t. - taskRecency t) (filter (\<lambda>t. t_id t \<notin> claimed) hits) of [] \<Rightarrow> None | t # _ \<Rightarrow> Some t)"

record pr_outcome =
  po_match :: "pr_match option"        \<comment> \<open>\<open>None\<close>: no hit\<close>
  po_ambiguous :: "ambiguous list"
  po_unverified :: "ambiguous list"
  po_mismatch :: nat

definition match_of :: "match_reason \<Rightarrow> merged_pr \<Rightarrow> task \<Rightarrow> pr_match" where
  "match_of reason pr t = \<lparr>m_task = t_id t, m_reason = reason, m_pr_url = mp_url pr, m_head_ref = mp_head_ref pr,
     m_body_excerpt = sanitiseBodyExcerpt (mp_body pr)\<rparr>"

definition branch_hit :: "merged_pr \<Rightarrow> task \<Rightarrow> ambiguous" where
  "branch_hit pr t = \<lparr>ab_task = t_id t, ab_reason = MatchReasonBranchNameExact, ab_pr_url = mp_url pr,
     ab_head_ref = mp_head_ref pr\<rparr>"

text \<open>The loop over the tasks of the branch: those of the same repository, of an unknown one, and how many of another.\<close>

fun split_hits :: "repo_resolver \<Rightarrow> merged_pr \<Rightarrow> uuid set \<Rightarrow> task list \<Rightarrow> task list \<times> ambiguous list \<times> nat" where
  "split_hits resolve pr claimed [] = ([], [], 0)"
| "split_hits resolve pr claimed (t # ts) =
     (case split_hits resolve pr claimed ts of (hits, unverified, mismatch) \<Rightarrow>
        if t_id t \<in> claimed then (hits, unverified, mismatch)
        else (case resolve t of
            None \<Rightarrow> (hits, branch_hit pr t # unverified, mismatch)
          | Some slug \<Rightarrow> if sameRepo slug (mp_repo pr) then (t # hits, unverified, mismatch)
                         else (hits, unverified, Suc mismatch)))"

definition url_pick :: "merged_pr \<Rightarrow> (ustr \<Rightarrow> task list) \<Rightarrow> uuid set \<Rightarrow> task option" where
  "url_pick pr prURLIndex claimed =
     (if mp_url pr = [] then None
      else pickMostRecentUnclaimed (filter (\<lambda>t. t_kind t \<noteq> ''fix-pr'') (prURLIndex (url_key (mp_url pr)))) claimed)"

definition matchSinglePR :: "merged_pr \<Rightarrow> (ustr \<Rightarrow> task list) \<Rightarrow> (ustr \<Rightarrow> task list) \<Rightarrow> uuid set \<Rightarrow> repo_resolver \<Rightarrow> pr_outcome" where
  "matchSinglePR pr prURLIndex branchIndex claimed resolve =
     (case url_pick pr prURLIndex claimed of
        Some t \<Rightarrow> \<lparr>po_match = Some (match_of MatchReasonPRURLExact pr t), po_ambiguous = [], po_unverified = [], po_mismatch = 0\<rparr>
      | None \<Rightarrow>
          if mp_head_ref pr = [] then \<lparr>po_match = None, po_ambiguous = [], po_unverified = [], po_mismatch = 0\<rparr>
          else (case split_hits resolve pr claimed (branchIndex (mp_head_ref pr)) of (hits, unverified, mismatch) \<Rightarrow>
            (case pickMostRecentUnclaimed hits claimed of
               None \<Rightarrow> \<lparr>po_match = None, po_ambiguous = [], po_unverified = unverified, po_mismatch = mismatch\<rparr>
             | Some t \<Rightarrow> \<lparr>po_match = Some (match_of MatchReasonBranchNameExact pr t),
                 po_ambiguous = map (branch_hit pr) (filter (\<lambda>h. t_id h \<noteq> t_id t) hits),
                 po_unverified = unverified, po_mismatch = mismatch\<rparr>)))"

definition empty_result :: pr_match_result where
  "empty_result = \<lparr>mr_matches = [], mr_ambiguous = [], mr_no_match = 0, mr_mismatch = 0, mr_unverified = []\<rparr>"

definition add_outcome :: "pr_outcome \<Rightarrow> pr_match_result \<Rightarrow> pr_match_result" where
  "add_outcome o' r =
     (case po_match o' of
        Some m \<Rightarrow> r\<lparr>mr_matches := mr_matches r @ [m], mr_ambiguous := mr_ambiguous r @ po_ambiguous o',
          mr_unverified := mr_unverified r @ po_unverified o', mr_mismatch := mr_mismatch r + po_mismatch o'\<rparr>
      | None \<Rightarrow> r\<lparr>mr_no_match := Suc (mr_no_match r), mr_ambiguous := mr_ambiguous r @ po_ambiguous o',
          mr_unverified := mr_unverified r @ po_unverified o', mr_mismatch := mr_mismatch r + po_mismatch o'\<rparr>)"

fun match_loop :: "(ustr \<Rightarrow> task list) \<Rightarrow> (ustr \<Rightarrow> task list) \<Rightarrow> repo_resolver \<Rightarrow> merged_pr list \<Rightarrow> uuid set \<Rightarrow> pr_match_result
    \<Rightarrow> pr_match_result" where
  "match_loop byURL byBranch resolve [] claimed r = r"
| "match_loop byURL byBranch resolve (pr # prs) claimed r =
     (let o' = matchSinglePR pr byURL byBranch claimed resolve
      in match_loop byURL byBranch resolve prs
           (case po_match o' of None \<Rightarrow> claimed | Some m \<Rightarrow> insert (m_task m) claimed) (add_outcome o' r))"

definition match_prs :: "task list \<Rightarrow> merged_pr list \<Rightarrow> repo_resolver \<Rightarrow> pr_match_result" where
  "match_prs ts prs resolve =
     (case index_tasks ts (\<lambda>_. [], \<lambda>_. []) of (byURL, byBranch) \<Rightarrow> match_loop byURL byBranch resolve prs {} empty_result)"

datatype match_error = NilResolver | LoadTasks gtd_error

text \<open>\<open>loaded\<close> is what \<open>store.Tasks\<close> answers.\<close>

definition MatchMergedPRs :: "gtd_error + task list \<Rightarrow> merged_pr list \<Rightarrow> repo_resolver option \<Rightarrow> match_error + pr_match_result" where
  "MatchMergedPRs loaded prs resolver =
     (case resolver of
        None \<Rightarrow> Inl NilResolver
      | Some resolve \<Rightarrow>
          if prs = [] then Inr empty_result
          else (case loaded of Inl e \<Rightarrow> Inl (LoadTasks e) | Inr ts \<Rightarrow> Inr (match_prs ts prs resolve)))"

end
