(* ===== verification/Candidate_Model.thy ===== *)
theory Candidate_Model
  imports Reconcile_Model
begin

text \<open>
  The stores of \<open>internal/completioncandidate\<close> and \<open>internal/mergedprs\<close>, on both backends, over the
  database they share with the tasks.  Operations run one after another on a \<open>world\<close>, which counts them:
  \<open>x_now k\<close> is the instant of the \<open>k\<close>-th operation, \<open>x_fresh k\<close> the identifier it draws, \<open>x_fault k n\<close>
  says that its \<open>n\<close>-th statement fails, and other connections commit \<open>x_env k n\<close> before that statement.
\<close>

section \<open>Rows, worlds, runs\<close>

record observed =          \<comment> \<open>a row of \<open>merged_prs_observed\<close>; \<open>url\<close> is unique\<close>
  ob_id :: uuid
  ob_workspace :: "uuid option"
  ob_repo :: ustr
  ob_url :: ustr
  ob_head_ref :: "ustr option"
  ob_title :: "ustr option"
  ob_body :: "ustr option"
  ob_merged_at :: instant
  ob_observed_at :: instant

record rec_db =
  rd_gtd :: gtd_db
  rd_observed :: "observed list"
  rd_repos :: "repo_row list"

record world =
  w_db :: rec_db
  w_step :: nat

record run_of =
  x_env :: "nat \<Rightarrow> nat \<Rightarrow> rec_db \<Rightarrow> rec_db"
  x_fault :: "nat \<Rightarrow> nat \<Rightarrow> bool"
  x_fresh :: "nat \<Rightarrow> uuid"
  x_now :: "nat \<Rightarrow> instant"

type_synonym ('e, 'a) op = "world \<Rightarrow> ('e + 'a) \<times> world"

definition operation :: "run_of \<Rightarrow> (nat \<Rightarrow> rec_db \<Rightarrow> ('e + 'a) \<times> rec_db) \<Rightarrow> ('e, 'a) op" where
  "operation x f w = (case f (w_step w) (x_env x (w_step w) 0 (w_db w)) of
     (r, s) \<Rightarrow> (r, \<lparr>w_db = s, w_step = Suc (w_step w)\<rparr>))"

definition on_gtd :: "(gtd_db \<Rightarrow> gtd_db) \<Rightarrow> rec_db \<Rightarrow> rec_db" where
  "on_gtd f s = s\<lparr>rd_gtd := f (rd_gtd s)\<rparr>"

section \<open>Timestamps as SQLite compares them\<close>

text \<open>
  The SQLite columns are text, \<open>YYYY-MM-DDTHH:MM:SS.mmmZ\<close> with three digits, and are compared as text: with the
  \<open>YYYY-MM-DD HH:MM:SS\<close> of \<open>datetime(\<dots>)\<close> the \<open>T\<close> against the blank decides on equal dates, with
  \<open>YYYY-MM-DDTHH:MM:SSZ\<close> the full stop against the \<open>Z\<close> on equal seconds.
\<close>

definition nanos_per_hour :: int where
  "nanos_per_hour = 3600 * 1000000000"

definition date_of :: "instant \<Rightarrow> int" where
  "date_of t = t div (24 * nanos_per_hour)"

definition second_of :: "instant \<Rightarrow> int" where
  "second_of t = t div 1000000000"

definition lt_datetime :: "instant \<Rightarrow> instant \<Rightarrow> bool" where
  "lt_datetime stored cutoff \<longleftrightarrow> date_of stored < date_of cutoff"

definition gt_datetime :: "instant \<Rightarrow> instant \<Rightarrow> bool" where
  "gt_datetime stored cutoff \<longleftrightarrow> date_of cutoff \<le> date_of stored"

definition lt_rfc3339 :: "instant \<Rightarrow> instant \<Rightarrow> bool" where
  "lt_rfc3339 stored cutoff \<longleftrightarrow> second_of stored \<le> second_of cutoff"

text \<open>\<open>RFC3339Nano\<close>: the fraction loses its trailing zeros, and with the last digit its full stop.\<close>

definition digits_of :: "nat \<Rightarrow> int \<Rightarrow> ustr" where
  "digits_of width n = map (\<lambda>k. 48 + nat ((n div 10 ^ (width - Suc k)) mod 10)) [0..<width]"

definition milli_suffix :: "instant \<Rightarrow> ustr" where
  "milli_suffix t = 46 # digits_of 3 (t mod 1000000000 div 1000000) @ [90]"

definition nano_suffix :: "instant \<Rightarrow> ustr" where
  "nano_suffix t = (let ds = rev (dropWhile (\<lambda>d. d = 48) (rev (digits_of 9 (t mod 1000000000))))
     in if ds = [] then [90] else 46 # ds @ [90])"

definition lt_rfc3339nano :: "instant \<Rightarrow> instant \<Rightarrow> bool" where
  "lt_rfc3339nano stored cutoff \<longleftrightarrow> second_of stored < second_of cutoff \<or>
     (second_of stored = second_of cutoff \<and> milli_suffix stored < nano_suffix cutoff)"

section \<open>Completion candidates\<close>

definition known_reasons :: "string list" where
  "known_reasons = [''stale_in_progress'', ''finish_work_gap'', ''artifact_evidence'', ''completion_signal'',
     ''pr_merged_fuzzy'', ''pr_merged_repo_unverified'']"

definition known_confidences :: "string list" where
  "known_confidences = [''high'', ''medium'', ''low'']"

record upsert_params =
  up_workspace :: "uuid option"
  up_task :: uuid
  up_repo :: ustr
  up_reason :: string
  up_evidence :: "ustr list"
  up_confidence :: string
  up_artifact :: ustr

datatype candidate_error =
    TaskIDRequired
  | UnknownReason string
  | UnknownConfidence string
  | CandidateConstraint
  | CandidateGone             \<comment> \<open>\<open>sql.ErrNoRows\<close> of the fetch\<close>
  | CandidateDatabase string

definition validateReason :: "string \<Rightarrow> candidate_error option" where
  "validateReason r = (if r \<in> set known_reasons then None else Some (UnknownReason r))"

definition validateConfidence :: "string \<Rightarrow> candidate_error option" where
  "validateConfidence c = (if c \<in> set known_confidences then None else Some (UnknownConfidence c))"

definition validateUpsertParams :: "upsert_params \<Rightarrow> candidate_error option" where
  "validateUpsertParams p =
     (if up_task p = 0 then Some TaskIDRequired
      else case validateReason (up_reason p) of
          Some e \<Rightarrow> Some e
        | None \<Rightarrow> validateConfidence (up_confidence p))"

definition for_key :: "uuid \<Rightarrow> string \<Rightarrow> candidate \<Rightarrow> bool" where
  "for_key i reason c \<longleftrightarrow> cc_task c = i \<and> cc_reason c = reason"

text \<open>\<open>INSERT \<dots> ON CONFLICT (task_id, reason) DO UPDATE\<close>: a taken identifier is another conflict, and fails.\<close>

definition put_candidate :: "candidate \<Rightarrow> (candidate \<Rightarrow> candidate) \<Rightarrow> gtd_db \<Rightarrow> candidate_error + gtd_db" where
  "put_candidate c refresh s =
     (if cc_id c \<in> cc_id ` set (candidates s) \<or> cc_confidence c \<notin> set known_confidences then Inl CandidateConstraint
      else if list_ex (for_key (cc_task c) (cc_reason c)) (candidates s)
      then Inr (s\<lparr>candidates := update_rows (for_key (cc_task c) (cc_reason c)) refresh (candidates s)\<rparr>)
      else Inr (s\<lparr>candidates := candidates s @ [c]\<rparr>))"

definition new_candidate :: "(instant \<Rightarrow> instant) \<Rightarrow> uuid option \<Rightarrow> instant \<Rightarrow> uuid \<Rightarrow> upsert_params \<Rightarrow> candidate" where
  "new_candidate ts scope now nid p =
     \<lparr>cc_id = nid, cc_workspace = (case up_workspace p of None \<Rightarrow> scope | Some w \<Rightarrow> Some w), cc_task = up_task p,
      cc_repo = nullIfEmpty (up_repo p), cc_reason = up_reason p, cc_evidence = up_evidence p,
      cc_confidence = up_confidence p, cc_artifact = nullIfEmpty (up_artifact p), cc_status = CandidatePending,
      cc_detected = ts now, cc_resolved = None\<rparr>"

definition coalesce :: "'a option \<Rightarrow> 'a option \<Rightarrow> 'a option" where
  "coalesce a b = (case a of None \<Rightarrow> b | Some v \<Rightarrow> Some v)"

definition refresh_candidate :: "candidate \<Rightarrow> candidate \<Rightarrow> candidate" where
  "refresh_candidate excluded c =
     c\<lparr>cc_detected := cc_detected excluded, cc_confidence := cc_confidence excluded, cc_evidence := cc_evidence excluded,
       cc_artifact := coalesce (cc_artifact excluded) (cc_artifact c)\<rparr>"

definition upsert_row :: "candidate \<Rightarrow> gtd_db \<Rightarrow> candidate_error + gtd_db" where
  "upsert_row c = put_candidate c (refresh_candidate c)"

definition fetch_candidate :: "uuid \<Rightarrow> string \<Rightarrow> gtd_db \<Rightarrow> candidate_error + candidate" where
  "fetch_candidate i reason s = (case first_row (for_key i reason) (candidates s) of None \<Rightarrow> Inl CandidateGone | Some c \<Rightarrow> Inr c)"

definition UpsertCandidate_pg :: "run_of \<Rightarrow> uuid option \<Rightarrow> upsert_params \<Rightarrow> (candidate_error, candidate) op" where
  "UpsertCandidate_pg x scope p w =
     (case validateUpsertParams p of
        Some e \<Rightarrow> (Inl e, w)
      | None \<Rightarrow> operation x (\<lambda>k s.
          if x_fault x k 0 then (Inl (CandidateDatabase ''upsert''), s)
          else case upsert_row (new_candidate pg_ts scope (x_now x k) (x_fresh x k) p) (rd_gtd s) of
              Inl e \<Rightarrow> (Inl e, s)
            | Inr g \<Rightarrow> (fetch_candidate (up_task p) (up_reason p) g, s\<lparr>rd_gtd := g\<rparr>)) w)"

text \<open>The SQLite store writes, then reads the row back by its key.\<close>

definition UpsertCandidate_sq :: "run_of \<Rightarrow> uuid option \<Rightarrow> upsert_params \<Rightarrow> (candidate_error, candidate) op" where
  "UpsertCandidate_sq x scope p w =
     (case validateUpsertParams p of
        Some e \<Rightarrow> (Inl e, w)
      | None \<Rightarrow> operation x (\<lambda>k s.
          if x_fault x k 0 then (Inl (CandidateDatabase ''upsert''), s)
          else case upsert_row (new_candidate sq_ts scope (x_now x k) (x_fresh x k) p) (rd_gtd s) of
              Inl e \<Rightarrow> (Inl e, s)
            | Inr g \<Rightarrow>
                (let s' = x_env x k 1 (s\<lparr>rd_gtd := g\<rparr>) in
                 if x_fault x k 1 then (Inl (CandidateDatabase ''fetch''), s')
                 else (fetch_candidate (up_task p) (up_reason p) (rd_gtd s'), s'))) w)"

definition auto_applied_row :: "(instant \<Rightarrow> instant) \<Rightarrow> uuid option \<Rightarrow> instant \<Rightarrow> uuid \<Rightarrow> uuid \<Rightarrow> ustr list \<Rightarrow> ustr \<Rightarrow> candidate" where
  "auto_applied_row ts scope now nid taskID evidenceRefs suggestedArtifact =
     \<lparr>cc_id = nid, cc_workspace = scope, cc_task = taskID, cc_repo = None, cc_reason = ''artifact_evidence'',
      cc_evidence = evidenceRefs, cc_confidence = ''high'', cc_artifact = nullIfEmpty suggestedArtifact,
      cc_status = CandidateAutoApplied, cc_detected = ts now, cc_resolved = Some (ts now)\<rparr>"

definition apply_candidate :: "candidate \<Rightarrow> candidate \<Rightarrow> candidate" where
  "apply_candidate excluded c =
     c\<lparr>cc_detected := cc_detected excluded, cc_evidence := cc_evidence excluded,
       cc_artifact := coalesce (cc_artifact excluded) (cc_artifact c), cc_status := CandidateAutoApplied,
       cc_resolved := Some (cc_detected excluded)\<rparr>"

definition auto_apply_row :: "candidate \<Rightarrow> gtd_db \<Rightarrow> candidate_error + gtd_db" where
  "auto_apply_row c = put_candidate c (apply_candidate c)"

definition write_auto_applied :: "(instant \<Rightarrow> instant) \<Rightarrow> run_of \<Rightarrow> uuid option \<Rightarrow> uuid \<Rightarrow> ustr list \<Rightarrow> ustr \<Rightarrow> (candidate_error, unit) op" where
  "write_auto_applied ts x scope taskID evidenceRefs suggestedArtifact w =
     (if taskID = 0 then (Inl TaskIDRequired, w)
      else operation x (\<lambda>k s.
        if x_fault x k 0 then (Inl (CandidateDatabase ''auto apply''), s)
        else case auto_apply_row (auto_applied_row ts scope (x_now x k) (x_fresh x k) taskID evidenceRefs suggestedArtifact) (rd_gtd s) of
            Inl e \<Rightarrow> (Inl e, s)
          | Inr g \<Rightarrow> (Inr (), s\<lparr>rd_gtd := g\<rparr>)) w)"

definition WriteAutoApplied_pg :: "run_of \<Rightarrow> uuid option \<Rightarrow> uuid \<Rightarrow> ustr list \<Rightarrow> ustr \<Rightarrow> (candidate_error, unit) op" where
  "WriteAutoApplied_pg = write_auto_applied pg_ts"

definition WriteAutoApplied_sq :: "run_of \<Rightarrow> uuid option \<Rightarrow> uuid \<Rightarrow> ustr list \<Rightarrow> ustr \<Rightarrow> (candidate_error, unit) op" where
  "WriteAutoApplied_sq = write_auto_applied sq_ts"

definition pending_candidate :: "uuid option \<Rightarrow> candidate \<Rightarrow> bool" where
  "pending_candidate scope c \<longleftrightarrow> cc_status c = CandidatePending \<and> in_scope scope (cc_workspace c)"

definition ListPendingCandidates :: "uuid option \<Rightarrow> uuid option \<Rightarrow> gtd_db \<Rightarrow> candidate list" where
  "ListPendingCandidates scope override s =
     (let ws = (case override of None \<Rightarrow> scope | Some w \<Rightarrow> Some w)
      in sort_key (\<lambda>c. - cc_detected c) (filter (pending_candidate ws) (candidates s)))"

definition prune_resolved :: "(instant \<Rightarrow> bool) \<Rightarrow> gtd_db \<Rightarrow> nat \<times> gtd_db" where
  "prune_resolved old s =
     (let gone = (\<lambda>c. case cc_resolved c of None \<Rightarrow> False | Some at \<Rightarrow> old at)
      in (length (filter gone (candidates s)), s\<lparr>candidates := filter (\<lambda>c. \<not> gone c) (candidates s)\<rparr>))"

definition PruneResolved_pg :: "instant \<Rightarrow> int \<Rightarrow> gtd_db \<Rightarrow> nat \<times> gtd_db" where
  "PruneResolved_pg now olderThan = prune_resolved (\<lambda>at. at < pg_ts (now - olderThan))"

definition PruneResolved_sq :: "instant \<Rightarrow> int \<Rightarrow> gtd_db \<Rightarrow> nat \<times> gtd_db" where
  "PruneResolved_sq now olderThan = prune_resolved (\<lambda>at. lt_rfc3339 at (now - olderThan))"

section \<open>Observed pull requests\<close>

definition AuditBodyExcerptMaxLen :: nat where
  "AuditBodyExcerptMaxLen = 500"

record observe_params =
  op_workspace :: "uuid option"
  op_repo :: ustr
  op_url :: ustr
  op_head_ref :: ustr
  op_title :: ustr
  op_body :: ustr
  op_merged_at :: "instant option"

datatype observe_error = URLRequired | RepoRequired | ObserveConstraint | ObserveDatabase

definition observed_row :: "(instant \<Rightarrow> instant) \<Rightarrow> uuid option \<Rightarrow> instant \<Rightarrow> uuid \<Rightarrow> observe_params \<Rightarrow> observed" where
  "observed_row ts scope now nid p =
     \<lparr>ob_id = nid, ob_workspace = (case op_workspace p of None \<Rightarrow> scope | Some w \<Rightarrow> Some w), ob_repo = op_repo p, ob_url = op_url p,
      ob_head_ref = nullIfEmpty (op_head_ref p), ob_title = nullIfEmpty (op_title p), ob_body = nullIfEmpty (op_body p),
      ob_merged_at = ts (case op_merged_at p of None \<Rightarrow> now | Some at \<Rightarrow> at), ob_observed_at = ts now\<rparr>"

definition refresh_observed :: "observed \<Rightarrow> observed \<Rightarrow> observed" where
  "refresh_observed excluded o' =
     o'\<lparr>ob_observed_at := ob_observed_at excluded, ob_repo := ob_repo excluded, ob_head_ref := ob_head_ref excluded,
        ob_title := ob_title excluded, ob_body := ob_body excluded, ob_merged_at := ob_merged_at excluded,
        ob_workspace := coalesce (ob_workspace excluded) (ob_workspace o')\<rparr>"

definition put_observed :: "observed \<Rightarrow> observed list \<Rightarrow> observe_error + observed list" where
  "put_observed o' rows =
     (if ob_id o' \<in> ob_id ` set rows then Inl ObserveConstraint
      else if list_ex (\<lambda>r. ob_url r = ob_url o') rows then Inr (update_rows (\<lambda>r. ob_url r = ob_url o') (refresh_observed o') rows)
      else Inr (rows @ [o']))"

definition observe :: "(instant \<Rightarrow> instant) \<Rightarrow> run_of \<Rightarrow> uuid option \<Rightarrow> observe_params \<Rightarrow> (observe_error, unit) op" where
  "observe ts x scope p w =
     (if op_url p = [] then (Inl URLRequired, w)
      else if op_repo p = [] then (Inl RepoRequired, w)
      else operation x (\<lambda>k s.
        if x_fault x k 0 then (Inl ObserveDatabase, s)
        else case put_observed (observed_row ts scope (x_now x k) (x_fresh x k) p) (rd_observed s) of
            Inl e \<Rightarrow> (Inl e, s)
          | Inr rows \<Rightarrow> (Inr (), s\<lparr>rd_observed := rows\<rparr>)) w)"

definition Upsert_pg :: "run_of \<Rightarrow> uuid option \<Rightarrow> observe_params \<Rightarrow> (observe_error, unit) op" where
  "Upsert_pg = observe pg_ts"

definition Upsert_sq :: "run_of \<Rightarrow> uuid option \<Rightarrow> observe_params \<Rightarrow> (observe_error, unit) op" where
  "Upsert_sq = observe sq_ts"

definition RecentObservedSince_pg :: "uuid option \<Rightarrow> instant \<Rightarrow> uuid option \<Rightarrow> observed list \<Rightarrow> observed list" where
  "RecentObservedSince_pg scope since override rows =
     (let ws = (case override of None \<Rightarrow> scope | Some w \<Rightarrow> Some w)
      in sort_key (\<lambda>r. - ob_observed_at r) (filter (\<lambda>r. pg_ts since \<le> ob_observed_at r \<and> in_scope ws (ob_workspace r)) rows))"

definition RecentObservedSince_sq :: "uuid option \<Rightarrow> instant \<Rightarrow> uuid option \<Rightarrow> observed list \<Rightarrow> observed list" where
  "RecentObservedSince_sq scope since override rows =
     (let ws = (case override of None \<Rightarrow> scope | Some w \<Rightarrow> Some w)
      in sort_key (\<lambda>r. - ob_observed_at r) (filter (\<lambda>r. \<not> lt_rfc3339nano (ob_observed_at r) since \<and> in_scope ws (ob_workspace r)) rows))"

definition PruneObserved_pg :: "instant \<Rightarrow> int \<Rightarrow> observed list \<Rightarrow> nat \<times> observed list" where
  "PruneObserved_pg now olderThan rows =
     (let old = (\<lambda>r. ob_observed_at r < pg_ts (now - olderThan)) in (length (filter old rows), filter (\<lambda>r. \<not> old r) rows))"

definition PruneObserved_sq :: "instant \<Rightarrow> int \<Rightarrow> observed list \<Rightarrow> nat \<times> observed list" where
  "PruneObserved_sq now olderThan rows =
     (let old = (\<lambda>r. lt_rfc3339nano (ob_observed_at r) (now - olderThan)) in (length (filter old rows), filter (\<lambda>r. \<not> old r) rows))"

end
