(* ===== verification/Reconcile_Match.thy ===== *)
theory Reconcile_Match
  imports Reconcile_Model
begin

text \<open>
  What the matcher promises, as a relation that knows no tables and no loops: \<open>closing\<close> takes the pull
  requests in order, and closes for each the newest eligible task no earlier one has closed, by address
  before branch; a request is passed over only when no task is eligible.  The code refines it.
\<close>

section \<open>The promise\<close>

definition url_eligible :: "task list \<Rightarrow> uuid set \<Rightarrow> merged_pr \<Rightarrow> task \<Rightarrow> bool" where
  "url_eligible ts claimed pr t \<longleftrightarrow> t \<in> set ts \<and> open_status (t_status t) \<and> t_id t \<notin> claimed \<and> t_kind t \<noteq> ''fix-pr'' \<and>
     mp_url pr \<noteq> [] \<and> (\<exists>u. t_pr_url t = Some u \<and> u \<noteq> [] \<and> url_key u = url_key (mp_url pr))"

definition on_branch :: "task list \<Rightarrow> uuid set \<Rightarrow> merged_pr \<Rightarrow> task \<Rightarrow> bool" where
  "on_branch ts claimed pr t \<longleftrightarrow> t \<in> set ts \<and> open_status (t_status t) \<and> t_id t \<notin> claimed \<and>
     mp_head_ref pr \<noteq> [] \<and> t_branch t = Some (mp_head_ref pr)"

definition known_same_repo :: "repo_resolver \<Rightarrow> merged_pr \<Rightarrow> task \<Rightarrow> bool" where
  "known_same_repo resolve pr t \<longleftrightarrow> (\<exists>slug. resolve t = Some slug \<and> sameRepo slug (mp_repo pr))"

definition most_recent :: "(task \<Rightarrow> bool) \<Rightarrow> task \<Rightarrow> bool" where
  "most_recent P t \<longleftrightarrow> P t \<and> (\<forall>t'. P t' \<longrightarrow> taskRecency t' \<le> taskRecency t)"

inductive closing :: "task list \<Rightarrow> repo_resolver \<Rightarrow> uuid set \<Rightarrow> merged_pr list \<Rightarrow> pr_match list \<Rightarrow> bool"
  for ts resolve where
  exhausted: "closing ts resolve claimed [] []"
| by_url: "most_recent (url_eligible ts claimed pr) t \<Longrightarrow> closing ts resolve (insert (t_id t) claimed) prs ms \<Longrightarrow>
     closing ts resolve claimed (pr # prs) (match_of MatchReasonPRURLExact pr t # ms)"
| by_branch: "\<forall>t'. \<not> url_eligible ts claimed pr t' \<Longrightarrow>
     most_recent (\<lambda>t. on_branch ts claimed pr t \<and> known_same_repo resolve pr t) t \<Longrightarrow>
     closing ts resolve (insert (t_id t) claimed) prs ms \<Longrightarrow>
     closing ts resolve claimed (pr # prs) (match_of MatchReasonBranchNameExact pr t # ms)"
| passed: "\<forall>t. \<not> url_eligible ts claimed pr t \<Longrightarrow>
     \<forall>t. on_branch ts claimed pr t \<longrightarrow> \<not> known_same_repo resolve pr t \<Longrightarrow>
     closing ts resolve claimed prs ms \<Longrightarrow> closing ts resolve claimed (pr # prs) ms"

section \<open>The tables\<close>

definition has_url :: "ustr \<Rightarrow> task \<Rightarrow> bool" where
  "has_url k t \<longleftrightarrow> open_status (t_status t) \<and> (\<exists>u. t_pr_url t = Some u \<and> u \<noteq> [] \<and> url_key u = k)"

definition has_branch :: "ustr \<Rightarrow> task \<Rightarrow> bool" where
  "has_branch b t \<longleftrightarrow> open_status (t_status t) \<and> b \<noteq> [] \<and> t_branch t = Some b"

lemma index_tasks_filter:
  "index_tasks ts (byURL, byBranch) =
     (\<lambda>k. byURL k @ filter (has_url k) ts, \<lambda>b. byBranch b @ filter (has_branch b) ts)"
proof (induction ts arbitrary: byURL byBranch)
  case (Cons t ts)
  show ?case
    by (simp add: Cons.IH)
      (auto simp: fun_eq_iff has_url_def has_branch_def split: option.splits)
qed simp

lemma match_of_task [simp]: "m_task (match_of reason pr t) = t_id t"
  by (simp add: match_of_def)

section \<open>Picking\<close>

lemma pick_None: "pickMostRecentUnclaimed hits claimed = None \<longleftrightarrow> (\<forall>h \<in> set hits. t_id h \<in> claimed)"
proof -
  have "pickMostRecentUnclaimed hits claimed = None \<longleftrightarrow>
      sort_key (\<lambda>t. - taskRecency t) (filter (\<lambda>t. t_id t \<notin> claimed) hits) = []"
    by (simp add: pickMostRecentUnclaimed_def split: list.split)
  also have "\<dots> \<longleftrightarrow> set (sort_key (\<lambda>t. - taskRecency t) (filter (\<lambda>t. t_id t \<notin> claimed) hits)) = {}"
    by (simp only: set_empty)
  finally show ?thesis by auto
qed

lemma pick_newest:
  assumes "pickMostRecentUnclaimed hits claimed = Some t"
  shows "most_recent (\<lambda>h. h \<in> set hits \<and> t_id h \<notin> claimed) t"
proof -
  define sorted where "sorted = sort_key (\<lambda>t. - taskRecency t) (filter (\<lambda>t. t_id t \<notin> claimed) hits)"
  from assms obtain rest where s: "sorted = t # rest"
    by (auto simp: pickMostRecentUnclaimed_def sorted_def split: list.splits)
  have mem: "set sorted = {h \<in> set hits. t_id h \<notin> claimed}" by (auto simp: sorted_def)
  have "sorted_wrt (\<le>) (map (\<lambda>t. - taskRecency t) sorted)" by (simp add: sorted_def)
  then have "\<forall>h \<in> set rest. taskRecency h \<le> taskRecency t" by (simp add: s)
  with mem show ?thesis by (auto simp: most_recent_def s)
qed

lemma split_hits_spec:
  "split_hits resolve pr claimed ts =
     (filter (\<lambda>t. t_id t \<notin> claimed \<and> known_same_repo resolve pr t) ts,
      map (branch_hit pr) (filter (\<lambda>t. t_id t \<notin> claimed \<and> resolve t = None) ts),
      length (filter (\<lambda>t. t_id t \<notin> claimed \<and> resolve t \<noteq> None \<and> \<not> known_same_repo resolve pr t) ts))"
  by (induction ts) (auto simp: known_same_repo_def split: option.splits)

section \<open>One pull request\<close>

lemma url_pick_Some:
  assumes "url_pick pr (\<lambda>k. filter (has_url k) ts) claimed = Some t"
  shows "most_recent (url_eligible ts claimed pr) t"
proof -
  have "(\<lambda>h. h \<in> set (filter (\<lambda>t. t_kind t \<noteq> ''fix-pr'') (filter (has_url (url_key (mp_url pr))) ts)) \<and> t_id h \<notin> claimed)
      = url_eligible ts claimed pr" if "mp_url pr \<noteq> []"
    using that by (auto simp: fun_eq_iff url_eligible_def has_url_def)
  with assms show ?thesis by (auto simp: url_pick_def split: if_splits dest!: pick_newest)
qed

lemma url_pick_None:
  assumes "url_pick pr (\<lambda>k. filter (has_url k) ts) claimed = None"
  shows "\<not> url_eligible ts claimed pr t"
  using assms by (auto simp: url_pick_def pick_None url_eligible_def has_url_def split: if_splits)

lemma branch_newest:
  assumes "pickMostRecentUnclaimed (filter (\<lambda>t. t_id t \<notin> claimed \<and> known_same_repo resolve pr t)
      (filter (has_branch (mp_head_ref pr)) ts)) claimed = Some t"
  shows "most_recent (\<lambda>t. on_branch ts claimed pr t \<and> known_same_repo resolve pr t) t"
proof -
  have "(\<lambda>h. h \<in> set (filter (\<lambda>t. t_id t \<notin> claimed \<and> known_same_repo resolve pr t)
        (filter (has_branch (mp_head_ref pr)) ts)) \<and> t_id h \<notin> claimed)
      = (\<lambda>t. on_branch ts claimed pr t \<and> known_same_repo resolve pr t)"
    by (auto simp: fun_eq_iff on_branch_def has_branch_def)
  with pick_newest [OF assms] show ?thesis by simp
qed

lemma branch_none:
  assumes "pickMostRecentUnclaimed (filter (\<lambda>t. t_id t \<notin> claimed \<and> known_same_repo resolve pr t)
      (filter (has_branch (mp_head_ref pr)) ts)) claimed = None"
    and "on_branch ts claimed pr t"
  shows "\<not> known_same_repo resolve pr t"
  using assms by (auto simp: pick_None on_branch_def has_branch_def)

lemma single_closes:
  assumes rest: "closing ts resolve (case po_match o' of None \<Rightarrow> claimed | Some m \<Rightarrow> insert (m_task m) claimed) prs ms"
    and o': "o' = matchSinglePR pr (\<lambda>k. filter (has_url k) ts) (\<lambda>b. filter (has_branch b) ts) claimed resolve"
  shows "closing ts resolve claimed (pr # prs) (case po_match o' of None \<Rightarrow> ms | Some m \<Rightarrow> m # ms)"
proof (cases "url_pick pr (\<lambda>k. filter (has_url k) ts) claimed")
  case (Some t)
  then have "po_match o' = Some (match_of MatchReasonPRURLExact pr t)" by (simp add: o' matchSinglePR_def)
  with rest url_pick_Some [OF Some] show ?thesis by (auto intro: closing.by_url)
next
  case None
  note none = url_pick_None [OF None]
  show ?thesis
  proof (cases "mp_head_ref pr = []")
    case True
    then have "po_match o' = None" by (simp add: o' matchSinglePR_def None)
    with rest none True show ?thesis by (auto intro!: closing.passed simp: on_branch_def)
  next
    case False
    let ?hits = "filter (\<lambda>t. t_id t \<notin> claimed \<and> known_same_repo resolve pr t) (filter (has_branch (mp_head_ref pr)) ts)"
    show ?thesis
    proof (cases "pickMostRecentUnclaimed ?hits claimed")
      case n: None
      then have "po_match o' = None" using False by (simp add: o' matchSinglePR_def None split_hits_spec)
      with rest none branch_none [OF n] show ?thesis by (auto intro!: closing.passed)
    next
      case (Some t)
      then have "po_match o' = Some (match_of MatchReasonBranchNameExact pr t)"
        using False by (simp add: o' matchSinglePR_def None split_hits_spec)
      with rest none branch_newest [OF Some] show ?thesis by (auto intro!: closing.by_branch)
    qed
  qed
qed

section \<open>The loop\<close>

lemma match_loop_matches:
  "\<exists>ms. mr_matches (match_loop (\<lambda>k. filter (has_url k) ts) (\<lambda>b. filter (has_branch b) ts) resolve prs claimed r) = mr_matches r @ ms \<and>
     closing ts resolve claimed prs ms"
proof (induction prs arbitrary: claimed r)
  case Nil
  then show ?case by (simp add: closing.exhausted)
next
  case (Cons pr prs)
  define o' where "o' = matchSinglePR pr (\<lambda>k. filter (has_url k) ts) (\<lambda>b. filter (has_branch b) ts) claimed resolve"
  from Cons.IH [where r = "add_outcome o' r" and claimed = "case po_match o' of None \<Rightarrow> claimed | Some m \<Rightarrow> insert (m_task m) claimed"]
  obtain ms where ms: "mr_matches (match_loop (\<lambda>k. filter (has_url k) ts) (\<lambda>b. filter (has_branch b) ts) resolve (pr # prs) claimed r)
        = mr_matches (add_outcome o' r) @ ms"
      and c: "closing ts resolve (case po_match o' of None \<Rightarrow> claimed | Some m \<Rightarrow> insert (m_task m) claimed) prs ms"
    by (auto simp: o'_def Let_def)
  have "mr_matches (add_outcome o' r) @ ms = mr_matches r @ (case po_match o' of None \<Rightarrow> ms | Some m \<Rightarrow> m # ms)"
    by (auto simp: add_outcome_def split: option.split)
  with ms single_closes [OF c o'_def] show ?case by auto
qed

lemma match_prs_tables:
  "match_prs ts prs resolve =
     match_loop (\<lambda>k. filter (has_url k) ts) (\<lambda>b. filter (has_branch b) ts) resolve prs {} empty_result"
  by (simp add: match_prs_def index_tasks_filter)

lemma match_loop_closing: "closing ts resolve {} prs (mr_matches (match_prs ts prs resolve))"
  using match_loop_matches [of ts resolve prs "{}" empty_result] by (auto simp: match_prs_tables empty_result_def)

section \<open>What follows for every closing\<close>

lemma closing_tasks:
  "closing ts resolve claimed prs ms \<Longrightarrow> distinct (map m_task ms) \<and> m_task ` set ms \<inter> claimed = {}"
  by (induction rule: closing.induct) (auto simp: match_of_def most_recent_def url_eligible_def on_branch_def)

lemma closing_justified:
  "closing ts resolve claimed prs ms \<Longrightarrow> m \<in> set ms \<Longrightarrow>
     \<exists>pr \<in> set prs. \<exists>t. (m = match_of MatchReasonPRURLExact pr t \<and> url_eligible ts {} pr t) \<or>
       (m = match_of MatchReasonBranchNameExact pr t \<and> on_branch ts {} pr t \<and> known_same_repo resolve pr t)"
proof (induction arbitrary: m rule: closing.induct)
  case (by_url claimed pr t prs ms)
  then show ?case by (auto simp: most_recent_def url_eligible_def)
next
  case (by_branch claimed pr t prs ms)
  then show ?case by (auto simp: most_recent_def on_branch_def)
qed auto

lemma closing_length: "closing ts resolve claimed prs ms \<Longrightarrow> length ms \<le> length prs"
  by (induction rule: closing.induct) auto

lemma match_count:
  "length (mr_matches (match_loop u b resolve prs claimed r)) + mr_no_match (match_loop u b resolve prs claimed r) =
     length (mr_matches r) + mr_no_match r + length prs"
  by (induction prs arbitrary: claimed r) (simp_all add: Let_def add_outcome_def split: option.split)

text \<open>
  C35. The matcher answers one of the assignments \<open>closing\<close> allows: pull requests in order, for each the newest
  eligible task no earlier one has taken, by address before branch, and on a branch only with a known, equal
  repository; no task twice, and every request counted once, as a match or as a miss.
\<close>

theorem match_prs_closing:
  "closing ts resolve {} prs (mr_matches (match_prs ts prs resolve)) \<and>
   distinct (map m_task (mr_matches (match_prs ts prs resolve))) \<and>
   length (mr_matches (match_prs ts prs resolve)) + mr_no_match (match_prs ts prs resolve) = length prs"
proof (intro conjI)
  show c: "closing ts resolve {} prs (mr_matches (match_prs ts prs resolve))" by (rule match_loop_closing)
  from closing_tasks [OF c] show "distinct (map m_task (mr_matches (match_prs ts prs resolve)))" by simp
  show "length (mr_matches (match_prs ts prs resolve)) + mr_no_match (match_prs ts prs resolve) = length prs"
    by (simp add: match_prs_tables match_count) (simp add: empty_result_def)
qed

text \<open>Of one pull request that finds no task by its address, every open task on the branch is accounted for.\<close>

lemma length_parts:
  "(\<And>x. x \<in> set xs \<Longrightarrow> P x \<Longrightarrow> \<not> Q x) \<Longrightarrow>
     length xs = length (filter P xs) + length (filter Q xs) + length (filter (\<lambda>x. \<not> P x \<and> \<not> Q x) xs)"
  by (induction xs) auto

lemma drop_one:
  "distinct (map f xs) \<Longrightarrow> x \<in> set xs \<Longrightarrow> Suc (length (filter (\<lambda>y. f y \<noteq> f x) xs)) = length xs"
proof (induction xs)
  case (Cons a xs)
  show ?case
  proof (cases "a = x")
    case True
    with Cons.prems have "filter (\<lambda>y. f y \<noteq> f x) xs = xs" by (auto simp: filter_id_conv image_iff)
    with True show ?thesis by simp
  next
    case False
    with Cons show ?thesis by auto
  qed
qed simp

lemma branch_accounts:
  assumes "url_pick pr (\<lambda>k. filter (has_url k) ts) claimed = None" and "mp_head_ref pr \<noteq> []" and "distinct (map t_id ts)"
    and o': "o' = matchSinglePR pr (\<lambda>k. filter (has_url k) ts) (\<lambda>b. filter (has_branch b) ts) claimed resolve"
  shows "(case po_match o' of None \<Rightarrow> 0 | Some _ \<Rightarrow> 1) + length (po_ambiguous o') + length (po_unverified o') + po_mismatch o' =
      length (filter (on_branch ts claimed pr) ts)"
proof -
  let ?b = "filter (\<lambda>t. t_id t \<notin> claimed) (filter (has_branch (mp_head_ref pr)) ts)"
  let ?same = "known_same_repo resolve pr"
  let ?hits = "filter ?same ?b"
  note flat = filter_filter [simp del]
  have narrow: "filter (\<lambda>t. t_id t \<notin> claimed \<and> P t) xs = filter P (filter (\<lambda>t. t_id t \<notin> claimed) xs)" for P and xs :: "task list"
    by (induction xs) auto
  have all: "filter (on_branch ts claimed pr) ts = ?b"
    using assms(2) by (auto simp: on_branch_def has_branch_def filter_filter intro!: filter_cong)
  have parts: "length ?b = length ?hits + length (filter (\<lambda>t. resolve t = None) ?b) +
      length (filter (\<lambda>t. resolve t \<noteq> None \<and> \<not> ?same t) ?b)"
    by (subst length_parts [where P = ?same and Q = "\<lambda>t. resolve t = None"]) (auto simp: known_same_repo_def conj_commute)
  have split: "split_hits resolve pr claimed (filter (has_branch (mp_head_ref pr)) ts) =
      (?hits, map (branch_hit pr) (filter (\<lambda>t. resolve t = None) ?b), length (filter (\<lambda>t. resolve t \<noteq> None \<and> \<not> ?same t) ?b))"
    by (simp only: split_hits_spec narrow)
  have one: "Suc (length (filter (\<lambda>h. t_id h \<noteq> t_id t) ?hits)) = length ?hits" if "t \<in> set ?hits" for t
    using that assms(3) by (intro drop_one) (simp_all add: distinct_map_filter)
  show ?thesis
  proof (cases "pickMostRecentUnclaimed ?hits claimed")
    case None
    then have "length ?hits = 0" by (auto simp: pick_None filter_empty_conv)
    with parts have "length ?b = length (filter (\<lambda>t. resolve t = None) ?b) +
        length (filter (\<lambda>t. resolve t \<noteq> None \<and> \<not> ?same t) ?b)" by linarith
    with None assms(1,2) show ?thesis by (simp add: o' matchSinglePR_def split all flat)
  next
    case (Some t)
    then have "t \<in> set ?hits" using pick_newest [OF Some] by (simp add: most_recent_def)
    with one [of t] parts Some assms(1,2) show ?thesis by (simp add: o' matchSinglePR_def split all flat)
  qed
qed

end
