(* ===== verification/Candidate_Detect.thy ===== *)
theory Candidate_Detect
  imports Candidate_Model Reconcile_Match
begin

text \<open>
  The four detection rules of the candidate stores and the loop that records their hits, and the audit
  notes (\<open>internal/mcp/middleware_autolog.go\<close>) two of them search.  Each query answers in table order; a
  \<open>LIMIT\<close> without \<open>ORDER BY\<close> keeps the first rows of that order.  \<open>log_id n\<close> is the text of the identifier
  of the \<open>n\<close>-th \<open>activity_log\<close> row and \<open>pg_text\<close> the rendering of \<open>::text\<close> on a timestamp.
\<close>

section \<open>Rendering instants\<close>

definition civil_of :: "int \<Rightarrow> int \<times> int \<times> int" where
  "civil_of days =
     (let z = days + 719468; era = z div 146097; doe = z mod 146097;
          yoe = (doe - doe div 1460 + doe div 36524 - doe div 146096) div 365;
          doy = doe - (365 * yoe + yoe div 4 - yoe div 100);
          mp = (5 * doy + 2) div 153;
          d = doy - (153 * mp + 2) div 5 + 1;
          m = (if mp < 10 then mp + 3 else mp - 9)
      in (yoe + era * 400 + (if m \<le> 2 then 1 else 0), m, d))"

definition FormatSeconds :: "instant \<Rightarrow> ustr" where
  "FormatSeconds t =
     (case civil_of (date_of t) of (y, m, d) \<Rightarrow>
       let sod = second_of t mod 86400 in
       digits_of 4 y @ 45 # digits_of 2 m @ 45 # digits_of 2 d @ 84 # digits_of 2 (sod div 3600) @
       58 # digits_of 2 (sod mod 3600 div 60) @ 58 # digits_of 2 (sod mod 60))"

definition FormatRFC3339 :: "instant \<Rightarrow> ustr" where
  "FormatRFC3339 t = FormatSeconds t @ [90]"

definition FormatMillis :: "instant \<Rightarrow> ustr" where
  "FormatMillis t = FormatSeconds t @ milli_suffix t"

section \<open>Searching texts\<close>

text \<open>\<open>LIKE '%' || id || '%'\<close> for an identifier, which has no wildcards: SQLite folds ASCII letters, Postgres does not.\<close>

definition ascii_lower :: "rune \<Rightarrow> rune" where
  "ascii_lower r = (if 65 \<le> r \<and> r \<le> 90 then r + 32 else r)"

definition like_sq :: "ustr option \<Rightarrow> ustr \<Rightarrow> bool" where
  "like_sq notes i \<longleftrightarrow> (case notes of None \<Rightarrow> False | Some n \<Rightarrow> sublist (map ascii_lower i) (map ascii_lower n))"

definition like_pg :: "ustr option \<Rightarrow> ustr \<Rightarrow> bool" where
  "like_pg notes i \<longleftrightarrow> (case notes of None \<Rightarrow> False | Some n \<Rightarrow> sublist i n)"

text \<open>\<open>https?://\S+\<close>, the leftmost match, as long as it goes; \<open>\S\<close> is every rune but the five ASCII blanks.\<close>

definition re_space :: "rune \<Rightarrow> bool" where
  "re_space r \<longleftrightarrow> r = 9 \<or> r = 10 \<or> r = 12 \<or> r = 13 \<or> r = 32"

definition url_at :: "ustr \<Rightarrow> ustr option" where
  "url_at s =
     (let body = (\<lambda>p. let tail = takeWhile (\<lambda>r. \<not> re_space r) (drop (length p) s)
                      in if prefix p s \<and> tail \<noteq> [] then Some (p @ tail) else None)
      in (case body (lit ''https://'') of Some u \<Rightarrow> Some u | None \<Rightarrow> body (lit ''http://'')))"

fun extractURLFromNotes :: "ustr \<Rightarrow> ustr" where
  "extractURLFromNotes [] = []"
| "extractURLFromNotes (r # s) = (case url_at (r # s) of Some u \<Rightarrow> u | None \<Rightarrow> extractURLFromNotes s)"

section \<open>The rules\<close>

record detect_params =
  dp_workspace :: "uuid option"
  dp_stale :: int            \<comment> \<open>a duration, in nanoseconds\<close>
  dp_lookback :: int

definition staleHours :: "detect_params \<Rightarrow> int" where
  "staleHours p = (let h = dp_stale p div nanos_per_hour in if h \<le> 0 then 24 else h)"

definition lookbackDays :: "detect_params \<Rightarrow> int" where
  "lookbackDays p = (let d = dp_lookback p; d = (if d \<le> 0 then 7 else d) in if d > 30 then 30 else d)"

definition maxStaleHours :: int where
  "maxStaleHours = 168 * 7"

definition hours_ago :: "instant \<Rightarrow> int \<Rightarrow> instant" where
  "hours_ago now h = now - h * nanos_per_hour"

definition days_ago :: "instant \<Rightarrow> int \<Rightarrow> instant" where
  "days_ago now d = now - d * (24 * nanos_per_hour)"

definition stale_tasks :: "(instant \<Rightarrow> bool) \<Rightarrow> uuid option \<Rightarrow> gtd_db \<Rightarrow> task list" where
  "stale_tasks old ws s = filter (\<lambda>t. t_status t = InProgress \<and> in_scope ws (t_workspace t) \<and> old (t_updated t)) (tasks s)"

definition finished_links :: "(instant \<Rightarrow> bool) \<Rightarrow> uuid option \<Rightarrow> gtd_db \<Rightarrow> (uuid \<times> instant) list" where
  "finished_links recent ws s = remdups
     (concat (map (\<lambda>st. concat (map (\<lambda>k. concat (map (\<lambda>t.
        case wk_completed k of
          None \<Rightarrow> []
        | Some at \<Rightarrow>
            if wk_id k = st_session st \<and> t_id t = st_task st \<and> wk_status k = SessionDone \<and> open_status (t_status t) \<and>
               in_scope ws (Some (wk_workspace k)) \<and> recent at
            then [(st_task st, at)] else []) (tasks s))) (work_sessions s))) (session_tasks s)))"

definition logged_tasks :: "(ustr option \<Rightarrow> ustr \<Rightarrow> bool) \<Rightarrow> (instant \<Rightarrow> bool) \<Rightarrow> string list \<Rightarrow> uuid option \<Rightarrow> gtd_db \<Rightarrow> (nat \<times> activity \<times> task) list" where
  "logged_tasks like recent actions ws s = take 50
     (concat (map (\<lambda>(n, a). map (\<lambda>t. (n, a, t))
        (filter (\<lambda>t. open_status (t_status t) \<and> like (a_notes a) (uuid_text (t_id t)) \<and> a_action a \<in> set actions \<and>
            in_scope ws (a_workspace a) \<and> recent (a_created a)) (tasks s)))
      (enumerate 0 (activity_log s))))"

definition hit :: "uuid option \<Rightarrow> uuid \<Rightarrow> string \<Rightarrow> string \<Rightarrow> ustr \<Rightarrow> ustr \<Rightarrow> upsert_params" where
  "hit ws i reason confidence ref artifact =
     \<lparr>up_workspace = ws, up_task = i, up_repo = [], up_reason = reason, up_evidence = [ref],
      up_confidence = confidence, up_artifact = artifact\<rparr>"

definition log_ref :: "(nat \<Rightarrow> ustr) \<Rightarrow> nat \<Rightarrow> ustr" where
  "log_ref log_id n = lit ''activity_log:'' @ log_id n"

definition evidence_actions :: "string list" where
  "evidence_actions = [''worksession:finished'']"

definition signal_actions :: "string list" where
  "signal_actions = [''task:updated'', ''plan:confirmed'', ''complete_task'']"

definition artifact_of :: "activity \<Rightarrow> ustr" where
  "artifact_of a = (case a_notes a of None \<Rightarrow> [] | Some n \<Rightarrow> extractURLFromNotes n)"

definition detectStaleInProgress_sq :: "instant \<Rightarrow> uuid option \<Rightarrow> int \<Rightarrow> gtd_db \<Rightarrow> upsert_params list" where
  "detectStaleInProgress_sq now ws hours s =
     (let hours = (if hours > maxStaleHours then maxStaleHours else hours) in
      map (\<lambda>t. hit ws (t_id t) ''stale_in_progress'' ''medium'' (lit ''stale since '' @ FormatMillis (t_updated t)) [])
        (stale_tasks (\<lambda>at. lt_datetime at (hours_ago now hours)) ws s))"

definition detectStaleInProgress_pg :: "instant \<Rightarrow> uuid option \<Rightarrow> int \<Rightarrow> gtd_db \<Rightarrow> upsert_params list" where
  "detectStaleInProgress_pg now ws hours s =
     map (\<lambda>t. hit ws (t_id t) ''stale_in_progress'' ''medium'' (lit ''stale since '' @ FormatRFC3339 (t_updated t)) [])
       (stale_tasks (\<lambda>at. at < hours_ago (pg_ts now) hours) ws s)"

definition detectFinishWorkGap_sq :: "instant \<Rightarrow> uuid option \<Rightarrow> int \<Rightarrow> gtd_db \<Rightarrow> upsert_params list" where
  "detectFinishWorkGap_sq now ws days s =
     map (\<lambda>(i, at). hit ws i ''finish_work_gap'' ''high'' (lit ''work_session completed at '' @ FormatMillis at) [])
       (finished_links (\<lambda>at. gt_datetime at (days_ago now days)) ws s)"

definition detectFinishWorkGap_pg :: "(instant \<Rightarrow> ustr) \<Rightarrow> instant \<Rightarrow> uuid option \<Rightarrow> int \<Rightarrow> gtd_db \<Rightarrow> upsert_params list" where
  "detectFinishWorkGap_pg pg_text now ws days s =
     map (\<lambda>(i, at). hit ws i ''finish_work_gap'' ''high'' (lit ''work_session completed at '' @ pg_text at) [])
       (finished_links (\<lambda>at. days_ago (pg_ts now) days < at) ws s)"

definition detectArtifactEvidence_sq :: "(nat \<Rightarrow> ustr) \<Rightarrow> instant \<Rightarrow> uuid option \<Rightarrow> int \<Rightarrow> gtd_db \<Rightarrow> upsert_params list" where
  "detectArtifactEvidence_sq log_id now ws days s =
     map (\<lambda>(n, a, t). hit ws (t_id t) ''artifact_evidence'' ''medium'' (log_ref log_id n) (artifact_of a))
       (logged_tasks like_sq (\<lambda>at. gt_datetime at (days_ago now days)) evidence_actions ws s)"

definition detectArtifactEvidence_pg :: "(nat \<Rightarrow> ustr) \<Rightarrow> instant \<Rightarrow> uuid option \<Rightarrow> int \<Rightarrow> gtd_db \<Rightarrow> upsert_params list" where
  "detectArtifactEvidence_pg log_id now ws days s =
     map (\<lambda>(n, a, t). hit ws (t_id t) ''artifact_evidence'' ''medium'' (log_ref log_id n) (artifact_of a))
       (logged_tasks like_pg (\<lambda>at. days_ago (pg_ts now) days < at) evidence_actions ws s)"

definition detectCompletionSignal_sq :: "(nat \<Rightarrow> ustr) \<Rightarrow> instant \<Rightarrow> uuid option \<Rightarrow> int \<Rightarrow> gtd_db \<Rightarrow> upsert_params list" where
  "detectCompletionSignal_sq log_id now ws days s =
     map (\<lambda>(n, a, t). hit ws (t_id t) ''completion_signal'' ''low'' (log_ref log_id n) [])
       (logged_tasks like_sq (\<lambda>at. gt_datetime at (days_ago now days)) signal_actions ws s)"

definition detectCompletionSignal_pg :: "(nat \<Rightarrow> ustr) \<Rightarrow> instant \<Rightarrow> uuid option \<Rightarrow> int \<Rightarrow> gtd_db \<Rightarrow> upsert_params list" where
  "detectCompletionSignal_pg log_id now ws days s =
     map (\<lambda>(n, a, t). hit ws (t_id t) ''completion_signal'' ''low'' (log_ref log_id n) [])
       (logged_tasks like_pg (\<lambda>at. days_ago (pg_ts now) days < at) signal_actions ws s)"

section \<open>Recording the hits\<close>

text \<open>One rule: its query is an operation of its own, then its hits are recorded one by one; the first error ends the scan.\<close>

fun record_hits :: "(upsert_params \<Rightarrow> (candidate_error, candidate) op) \<Rightarrow> upsert_params list \<Rightarrow> (candidate_error, candidate list) op" where
  "record_hits upsert [] w = (Inr [], w)"
| "record_hits upsert (p # ps) w =
     (case upsert p w of
        (Inl e, w1) \<Rightarrow> (Inl e, w1)
      | (Inr c, w1) \<Rightarrow> (case record_hits upsert ps w1 of
            (Inl e, w2) \<Rightarrow> (Inl e, w2)
          | (Inr cs, w2) \<Rightarrow> (Inr (c # cs), w2)))"

definition run_rule :: "run_of \<Rightarrow> (upsert_params \<Rightarrow> (candidate_error, candidate) op) \<Rightarrow> (instant \<Rightarrow> gtd_db \<Rightarrow> upsert_params list)
    \<Rightarrow> (candidate_error, candidate list) op" where
  "run_rule x upsert rule w =
     (case operation x (\<lambda>k s. if x_fault x k 0 then (Inl (CandidateDatabase ''query''), s) else (Inr (rule (x_now x k) (rd_gtd s)), s)) w of
        (Inl e, w1) \<Rightarrow> (Inl e, w1)
      | (Inr ps, w1) \<Rightarrow> record_hits upsert ps w1)"

fun run_rules :: "run_of \<Rightarrow> (upsert_params \<Rightarrow> (candidate_error, candidate) op) \<Rightarrow> (instant \<Rightarrow> gtd_db \<Rightarrow> upsert_params list) list
    \<Rightarrow> (candidate_error, candidate list) op" where
  "run_rules x upsert [] w = (Inr [], w)"
| "run_rules x upsert (rule # rules) w =
     (case run_rule x upsert rule w of
        (Inl e, w1) \<Rightarrow> (Inl e, w1)
      | (Inr cs, w1) \<Rightarrow> (case run_rules x upsert rules w1 of
            (Inl e, w2) \<Rightarrow> (Inl e, w2)
          | (Inr cs', w2) \<Rightarrow> (Inr (cs @ cs'), w2)))"

definition detect_scope :: "uuid option \<Rightarrow> detect_params \<Rightarrow> uuid option" where
  "detect_scope scope p = (case dp_workspace p of None \<Rightarrow> scope | Some w \<Rightarrow> Some w)"

definition DetectAndUpsert_sq :: "run_of \<Rightarrow> (nat \<Rightarrow> ustr) \<Rightarrow> uuid option \<Rightarrow> detect_params \<Rightarrow> (candidate_error, candidate list) op" where
  "DetectAndUpsert_sq x log_id scope p =
     (let ws = detect_scope scope p; days = lookbackDays p in
      run_rules x (UpsertCandidate_sq x scope)
        [\<lambda>now. detectStaleInProgress_sq now ws (staleHours p), \<lambda>now. detectFinishWorkGap_sq now ws days,
         \<lambda>now. detectArtifactEvidence_sq log_id now ws days, \<lambda>now. detectCompletionSignal_sq log_id now ws days])"

definition DetectAndUpsert_pg :: "run_of \<Rightarrow> (instant \<Rightarrow> ustr) \<Rightarrow> (nat \<Rightarrow> ustr) \<Rightarrow> uuid option \<Rightarrow> detect_params \<Rightarrow> (candidate_error, candidate list) op" where
  "DetectAndUpsert_pg x pg_text log_id scope p =
     (let ws = detect_scope scope p; days = lookbackDays p in
      run_rules x (UpsertCandidate_pg x scope)
        [\<lambda>now. detectStaleInProgress_pg now ws (staleHours p), \<lambda>now. detectFinishWorkGap_pg pg_text now ws days,
         \<lambda>now. detectArtifactEvidence_pg log_id now ws days, \<lambda>now. detectCompletionSignal_pg log_id now ws days])"

section \<open>The audit notes the rules search\<close>

text \<open>
  \<open>autoLogEntry\<close>: the action and notes recorded for a tool call; \<open>arg\<close> reads a string argument, \<open>items\<close> is
  \<open>jsonArrayLen\<close>.  A note cut inside a rune ends in one replacement rune per byte left of it.
\<close>

definition maxNotesBytes :: nat where
  "maxNotesBytes = 2000"

fun cut_note :: "nat \<Rightarrow> ustr \<Rightarrow> ustr" where
  "cut_note n [] = []"
| "cut_note n (r # s) = (if utf8_len r \<le> n then r # cut_note (n - utf8_len r) s else replicate n 65533)"

definition truncate_notes :: "ustr \<Rightarrow> ustr" where
  "truncate_notes s = (if byte_len s \<le> maxNotesBytes then s else cut_note maxNotesBytes s)"

definition maxJSONArgBytes :: nat where
  "maxJSONArgBytes = 512 * 1024"

definition counted :: "(ustr \<Rightarrow> nat) \<Rightarrow> ustr \<Rightarrow> nat" where
  "counted items raw = items (if byte_len raw > maxJSONArgBytes then [] else raw)"

definition autoLogEntry :: "(ustr \<Rightarrow> nat) \<Rightarrow> string \<Rightarrow> (string \<Rightarrow> ustr) \<Rightarrow> (string \<times> ustr) option" where
  "autoLogEntry items tool arg =
     (if tool = ''begin_task'' then Some (''task:begin'', truncate_notes (lit ''task_id='' @ arg ''task_id''))
      else if tool = ''complete_task''
      then Some (''task:completed'', truncate_notes (lit ''task_id='' @ arg ''task_id'' @ lit '' artifact='' @ arg ''artifact''))
      else if tool = ''update_task'' then Some (''task:updated'', truncate_notes (lit ''task_id='' @ arg ''task_id''))
      else if tool = ''add_task'' then Some (''task:added'', truncate_notes (arg ''title''))
      else if tool = ''log_decision'' then Some (''decision:logged'', truncate_notes (arg ''title''))
      else if tool = ''confirm_plan''
      then Some (''plan:confirmed'', lit ''phases='' @ decimal (counted items (arg ''phases'')) @
             lit '' decisions='' @ decimal (counted items (arg ''decisions'')))
      else if tool = ''set_session_handoff'' then Some (''session:handoff'', truncate_notes (arg ''intent''))
      else if tool = ''start_work'' then Some (''worksession:started'', truncate_notes (arg ''repo_name''))
      else if tool = ''finish_work'' then Some (''worksession:finished'', truncate_notes (arg ''session_id''))
      else if tool = ''checkpoint_work'' then Some (''worksession:checkpointed'', truncate_notes (arg ''session_id''))
      else if tool = ''reconcile_dashboard'' then Some (''dashboard:reconciled'', [])
      else None)"

text \<open>The row \<open>LogActivity\<close> writes for such an entry: an empty note is NULL on SQLite.\<close>

definition auto_log_row :: "uuid option \<Rightarrow> uuid option \<Rightarrow> instant \<Rightarrow> string \<times> ustr \<Rightarrow> activity" where
  "auto_log_row scope project at entry =
     \<lparr>a_workspace = scope, a_actor = lit ''wayneblacktea-auto'', a_project = project, a_action = fst entry,
      a_notes = nullIfEmpty (Notes (snd entry)), a_created = at\<rparr>"

lemma format_examples:
  "FormatRFC3339 1798675200000000000 = lit ''2026-12-31T00:00:00Z''"
  "FormatMillis 951839999500000000 = lit ''2000-02-29T15:59:59.500Z''"
  by code_simp+

end
