(* ===== verification/Reconcile_Fuzzy.thy ===== *)
theory Reconcile_Fuzzy
  imports Reconcile_Match
begin

text \<open>
  The fuzzy matcher of \<open>internal/gtd/fuzzy_reconcile.go\<close>, for tasks with neither branch nor address.  A
  token set is the list of its elements without repetition; a score is the fraction it is before the
  division, \<open>(0, 1)\<close> for the constant zero: for sets of fewer than \<open>2 ^ 26\<close> tokens (a title has at most
  500 runes) comparing the \<open>float64\<close> quotients is comparing the fractions.
\<close>

section \<open>Tokens\<close>

definition matchThreshold :: "nat \<times> nat" where
  "matchThreshold = (3, 5)"

definition minTokenLen :: nat where
  "minTokenLen = 3"

definition stopwords :: "ustr list" where
  "stopwords = map lit [''the'', ''and'', ''for'', ''with'', ''from'', ''this'', ''that'', ''into'', ''fix'', ''feat'',
     ''chore'', ''refactor'', ''docs'', ''test'', ''ci'']"

definition flush_token :: "ustr \<Rightarrow> ustr list \<Rightarrow> ustr list" where
  "flush_token cur out =
     (if length cur = 0 then out
      else if length cur < minTokenLen then out
      else if cur \<in> set stopwords then out
      else if cur \<in> set out then out else out @ [cur])"

fun tokenise_loop :: "ustr \<Rightarrow> ustr \<Rightarrow> ustr list \<Rightarrow> ustr list" where
  "tokenise_loop [] cur out = flush_token cur out"
| "tokenise_loop (r # s) cur out =
     (if 97 \<le> r \<and> r \<le> 122 then tokenise_loop s (cur @ [r]) out
      else if 65 \<le> r \<and> r \<le> 90 then tokenise_loop s (cur @ [r + 32]) out
      else if 48 \<le> r \<and> r \<le> 57 then tokenise_loop s (cur @ [r]) out
      else if r = 95 then tokenise_loop s (cur @ [r]) out
      else tokenise_loop s [] (flush_token cur out))"

definition tokenise :: "ustr \<Rightarrow> ustr list" where
  "tokenise s = tokenise_loop s [] []"

section \<open>Scores\<close>

type_synonym score = "nat \<times> nat"

definition score_ge :: "score \<Rightarrow> score \<Rightarrow> bool" where
  "score_ge a b \<longleftrightarrow> fst a * snd b \<ge> fst b * snd a"

definition score_gt :: "score \<Rightarrow> score \<Rightarrow> bool" where
  "score_gt a b \<longleftrightarrow> fst a * snd b > fst b * snd a"

definition jaccard :: "ustr list \<Rightarrow> ustr list \<Rightarrow> score" where
  "jaccard a b =
     (if length a = 0 \<or> length b = 0 then (0, 1)
      else let (smaller, larger) = (if length b < length a then (b, a) else (a, b));
               inter = length (filter (\<lambda>k. k \<in> set larger) smaller);
               union = length a + length b - inter
           in if union = 0 then (0, 1) else (inter, union))"

section \<open>The best pull request for a task\<close>

datatype fuzzy_reason = FuzzyReasonTaskIDInBody | FuzzyReasonJaccardTitle

fun fuzzy_reason_text :: "fuzzy_reason \<Rightarrow> string" where
  "fuzzy_reason_text FuzzyReasonTaskIDInBody = ''task_id_in_body''"
| "fuzzy_reason_text FuzzyReasonJaccardTitle = ''jaccard_title''"

record fuzzy_match =
  fm_task :: uuid
  fm_pr_url :: ustr
  fm_score :: score
  fm_reason :: fuzzy_reason

definition other_repo :: "ustr option \<Rightarrow> merged_pr \<Rightarrow> bool" where
  "other_repo repo pr \<longleftrightarrow> (case repo of None \<Rightarrow> False | Some slug \<Rightarrow> \<not> sameRepo slug (mp_repo pr))"

definition body_names :: "task \<Rightarrow> merged_pr \<Rightarrow> bool" where
  "body_names t pr \<longleftrightarrow> mp_body pr \<noteq> [] \<and> sublist (uuid_text (t_id t)) (mp_body pr)"

fun best_loop :: "task \<Rightarrow> ustr list \<Rightarrow> ustr option \<Rightarrow> (merged_pr \<times> ustr list) list \<Rightarrow> score \<Rightarrow> fuzzy_match option \<Rightarrow> fuzzy_match option" where
  "best_loop t taskTok repo [] bestScore best = best"
| "best_loop t taskTok repo ((pr, prTok) # prs) bestScore best =
     (if other_repo repo pr then best_loop t taskTok repo prs bestScore best
      else if body_names t pr
      then Some \<lparr>fm_task = t_id t, fm_pr_url = mp_url pr, fm_score = (1, 1), fm_reason = FuzzyReasonTaskIDInBody\<rparr>
      else (let score = jaccard taskTok prTok in
        if score_ge score matchThreshold \<and> score_gt score bestScore
        then best_loop t taskTok repo prs score
               (Some \<lparr>fm_task = t_id t, fm_pr_url = mp_url pr, fm_score = score, fm_reason = FuzzyReasonJaccardTitle\<rparr>)
        else best_loop t taskTok repo prs bestScore best))"

definition bestFuzzyMatchForTask :: "task \<Rightarrow> merged_pr list \<Rightarrow> ustr list list \<Rightarrow> repo_resolver option \<Rightarrow> fuzzy_match option" where
  "bestFuzzyMatchForTask t prs prTokens resolve =
     best_loop t (tokenise (t_title t)) (case resolve of None \<Rightarrow> None | Some f \<Rightarrow> f t) (zip prs prTokens) (0, 1) None"

definition isFuzzyEligible :: "task \<Rightarrow> bool" where
  "isFuzzyEligible t \<longleftrightarrow>
     (if t_status t \<noteq> Pending \<and> t_status t \<noteq> InProgress then False
      else if t_branch t \<noteq> None \<and> t_branch t \<noteq> Some [] then False
      else if t_pr_url t \<noteq> None \<and> t_pr_url t \<noteq> Some [] then False
      else True)"

definition MatchPendingTasksFuzzy :: "merged_pr list \<Rightarrow> task list \<Rightarrow> repo_resolver option \<Rightarrow> fuzzy_match list" where
  "MatchPendingTasksFuzzy prs ts resolve =
     (if prs = [] \<or> ts = [] then []
      else let prTokens = map (\<lambda>pr. tokenise (mp_title pr)) prs
           in List.map_filter (\<lambda>t. if isFuzzyEligible t then bestFuzzyMatchForTask t prs prTokens resolve else None) ts)"

section \<open>Token sets\<close>

lemma flush_token_distinct [simp]: "distinct out \<Longrightarrow> distinct (flush_token cur out)"
  by (simp add: flush_token_def)

lemma tokenise_loop_distinct: "distinct out \<Longrightarrow> distinct (tokenise_loop s cur out)"
  by (induction s cur out rule: tokenise_loop.induct) auto

lemma tokenise_distinct [simp]: "distinct (tokenise s)"
  by (simp add: tokenise_def tokenise_loop_distinct)

definition token_rune :: "rune \<Rightarrow> bool" where
  "token_rune r \<longleftrightarrow> (97 \<le> r \<and> r \<le> 122) \<or> (48 \<le> r \<and> r \<le> 57) \<or> r = 95"

definition a_token :: "ustr \<Rightarrow> bool" where
  "a_token tok \<longleftrightarrow> minTokenLen \<le> length tok \<and> tok \<notin> set stopwords \<and> (\<forall>r \<in> set tok. token_rune r)"

text \<open>One rune: the lower-case rune it adds to the current token, or the end of that token.\<close>

definition token_of :: "rune \<Rightarrow> rune option" where
  "token_of r = (if 65 \<le> r \<and> r \<le> 90 then Some (r + 32) else if token_rune r then Some r else None)"

lemma tokenise_step: "tokenise_loop (r # s) cur out =
    (case token_of r of Some c \<Rightarrow> tokenise_loop s (cur @ [c]) out | None \<Rightarrow> tokenise_loop s [] (flush_token cur out))"
  by (auto simp: token_of_def token_rune_def)

lemma token_of_rune: "token_of r = Some c \<Longrightarrow> token_rune c"
  by (auto simp: token_of_def token_rune_def split: if_splits)

lemma flush_token_tokens:
  "\<forall>tok \<in> set out. a_token tok \<Longrightarrow> \<forall>r \<in> set cur. token_rune r \<Longrightarrow> \<forall>tok \<in> set (flush_token cur out). a_token tok"
  by (auto simp: flush_token_def a_token_def)

lemma tokenise_loop_tokens:
  "\<forall>tok \<in> set out. a_token tok \<Longrightarrow> \<forall>r \<in> set cur. token_rune r \<Longrightarrow> \<forall>tok \<in> set (tokenise_loop s cur out). a_token tok"
proof (induction s arbitrary: cur out)
  case Nil
  then show ?case by (simp add: flush_token_tokens)
next
  case (Cons r s)
  show ?case
  proof (cases "token_of r")
    case None
    then show ?thesis using Cons.IH [of "flush_token cur out" "[]"] Cons.prems
      by (simp add: tokenise_step flush_token_tokens del: tokenise_loop.simps)
  next
    case (Some c)
    then show ?thesis using Cons.IH [of out "cur @ [c]"] Cons.prems
      by (simp add: tokenise_step token_of_rune del: tokenise_loop.simps)
  qed
qed

lemma tokenise_tokens: "tok \<in> set (tokenise s) \<Longrightarrow> a_token tok"
  using tokenise_loop_tokens [of "[]" "[]"] by (simp add: tokenise_def)

text \<open>Other runes only separate: a title without ASCII letters, digits and underscores has no tokens at all.\<close>

lemma tokenise_loop_no_ascii: "\<forall>r \<in> set s. token_of r = None \<Longrightarrow> tokenise_loop s [] out = out"
proof (induction s)
  case (Cons r s)
  then show ?case by (simp add: tokenise_step flush_token_def del: tokenise_loop.simps)
qed (simp add: flush_token_def)

lemma tokenise_no_ascii: "\<forall>r \<in> set s. token_of r = None \<Longrightarrow> tokenise s = []"
  by (simp add: tokenise_def tokenise_loop_no_ascii)

section \<open>The Jaccard index\<close>

lemma inter_length: "distinct xs \<Longrightarrow> length (filter (\<lambda>k. k \<in> set ys) xs) = card (set xs \<inter> set ys)"
  by (metis distinct_card distinct_filter set_filter Int_def mem_Collect_eq)

lemma jaccard_cards:
  assumes "distinct a" "distinct b" "a \<noteq> []" "b \<noteq> []"
  shows "jaccard a b = (card (set a \<inter> set b), card (set a \<union> set b))"
proof -
  have "card (set a) + card (set b) = card (set a \<union> set b) + card (set a \<inter> set b)"
    by (rule card_Un_Int) simp_all
  then have union: "length a + length b - card (set a \<inter> set b) = card (set a \<union> set b)"
    using assms(1,2) by (simp add: distinct_card)
  moreover have "card (set a \<union> set b) \<noteq> 0" using assms(3) by simp
  ultimately show ?thesis
    using assms by (auto simp: jaccard_def Let_def inter_length Int_commute)
qed

lemma jaccard_empty: "a = [] \<or> b = [] \<Longrightarrow> jaccard a b = (0, 1)"
  by (auto simp: jaccard_def)

lemma jaccard_commute: "distinct a \<Longrightarrow> distinct b \<Longrightarrow> jaccard a b = jaccard b a"
  by (cases "a = [] \<or> b = []") (auto simp: jaccard_empty jaccard_cards Int_commute Un_commute)

lemma jaccard_denominator: "distinct a \<Longrightarrow> distinct b \<Longrightarrow> 0 < snd (jaccard a b) \<and> fst (jaccard a b) \<le> snd (jaccard a b)"
  by (cases "a = [] \<or> b = []") (auto simp: jaccard_empty jaccard_cards card_gt_0_iff intro!: card_mono)

lemma below_threshold_without_tokens: "a = [] \<or> b = [] \<Longrightarrow> \<not> score_ge (jaccard a b) matchThreshold"
  by (auto simp: jaccard_empty score_ge_def matchThreshold_def)

section \<open>The loop against its description\<close>

text \<open>
  The first request of an eligible repository whose body names the task; failing that, the first of
  those with the greatest title score, when that score reaches the threshold.
\<close>

definition title_score :: "task \<Rightarrow> merged_pr \<Rightarrow> score" where
  "title_score t pr = jaccard (tokenise (t_title t)) (tokenise (mp_title pr))"

definition by_body :: "task \<Rightarrow> merged_pr \<Rightarrow> fuzzy_match" where
  "by_body t pr = \<lparr>fm_task = t_id t, fm_pr_url = mp_url pr, fm_score = (1, 1), fm_reason = FuzzyReasonTaskIDInBody\<rparr>"

definition by_title :: "task \<Rightarrow> merged_pr \<Rightarrow> fuzzy_match" where
  "by_title t pr = \<lparr>fm_task = t_id t, fm_pr_url = mp_url pr, fm_score = title_score t pr, fm_reason = FuzzyReasonJaccardTitle\<rparr>"

definition title_pick :: "task \<Rightarrow> merged_pr list \<Rightarrow> merged_pr option" where
  "title_pick t prs = pick_best (\<lambda>b r. score_gt (title_score t b) (title_score t r))
     (filter (\<lambda>pr. score_ge (title_score t pr) matchThreshold) prs)"

definition fuzzy_reference :: "task \<Rightarrow> merged_pr list \<Rightarrow> ustr option \<Rightarrow> fuzzy_match option" where
  "fuzzy_reference t prs repo =
     (let mine = filter (\<lambda>pr. \<not> other_repo repo pr) prs in
      case first_row (body_names t) mine of
        Some pr \<Rightarrow> Some (by_body t pr)
      | None \<Rightarrow> map_option (by_title t) (title_pick t mine))"

lemma title_score_denominator: "0 < snd (title_score t pr)"
  using jaccard_denominator [of "tokenise (t_title t)" "tokenise (mp_title pr)"] by (simp add: title_score_def)

lemma score_gt_trans:
  assumes "score_gt a b" "score_gt b c" "0 < snd a" "0 < snd b" "0 < snd c"
  shows "score_gt a c"
proof -
  have "fst c * snd b * snd a < fst b * snd c * snd a"
    using assms(2,3) by (simp add: score_gt_def)
  also have "\<dots> = fst b * snd a * snd c" by simp
  also have "\<dots> < fst a * snd b * snd c"
    using assms(1,5) by (simp add: score_gt_def)
  finally have "fst c * snd a * snd b < fst a * snd c * snd b" by (simp add: mult.commute mult.left_commute)
  then show ?thesis by (simp add: score_gt_def)
qed

lemma score_ge_trans:
  assumes "\<not> score_gt b a" "\<not> score_gt c b" "0 < snd a" "0 < snd b" "0 < snd c"
  shows "\<not> score_gt c a"
proof -
  have "fst c * snd b * snd a \<le> fst b * snd c * snd a"
    using assms(2) by (simp add: score_gt_def not_less)
  also have "\<dots> = fst b * snd a * snd c" by simp
  also have "\<dots> \<le> fst a * snd b * snd c"
    using assms(1) by (simp add: score_gt_def not_less)
  finally have "fst c * snd a * snd b \<le> fst a * snd c * snd b" by (simp add: mult.commute mult.left_commute)
  then show ?thesis using assms(4) by (simp add: score_gt_def)
qed

text \<open>The running best is the pick over what is still to come with the current holder in front.\<close>

abbreviation beats :: "task \<Rightarrow> merged_pr \<Rightarrow> merged_pr \<Rightarrow> bool" where
  "beats t b r \<equiv> score_gt (title_score t b) (title_score t r)"

lemma pick_beaten: "beats t pr h \<Longrightarrow> pick_best (beats t) (h # pr # prs) = pick_best (beats t) (pr # prs)"
  by (auto split: option.split dest: score_gt_trans intro: title_score_denominator)

lemma pick_unbeaten: "\<not> beats t pr h \<Longrightarrow> pick_best (beats t) (h # pr # prs) = pick_best (beats t) (h # prs)"
  by (auto split: option.split dest: score_ge_trans [OF _ _ title_score_denominator title_score_denominator title_score_denominator])

lemma threshold_positive: "score_ge (title_score t pr) matchThreshold \<Longrightarrow> score_gt (title_score t pr) (0, 1)"
  using title_score_denominator [of t pr] by (auto simp: score_ge_def score_gt_def matchThreshold_def)

definition held :: "task \<Rightarrow> merged_pr option \<Rightarrow> score" where
  "held t h = (case h of None \<Rightarrow> (0, 1) | Some pr \<Rightarrow> title_score t pr)"

lemma best_loop_reference:
  "best_loop t (tokenise (t_title t)) repo (map (\<lambda>pr. (pr, tokenise (mp_title pr))) prs) (held t h) (map_option (by_title t) h) =
     (case first_row (body_names t) (filter (\<lambda>pr. \<not> other_repo repo pr) prs) of
        Some pr \<Rightarrow> Some (by_body t pr)
      | None \<Rightarrow> map_option (by_title t) (pick_best (beats t)
          ((case h of None \<Rightarrow> [] | Some pr \<Rightarrow> [pr]) @
           filter (\<lambda>pr. score_ge (title_score t pr) matchThreshold) (filter (\<lambda>pr. \<not> other_repo repo pr) prs))))"
proof (induction prs arbitrary: h)
  case Nil
  then show ?case by (auto simp: first_row_def split: option.split)
next
  case (Cons pr prs)
  let ?wins = "score_ge (title_score t pr) matchThreshold \<and> score_gt (title_score t pr) (held t h)"
  have score: "jaccard (tokenise (t_title t)) (tokenise (mp_title pr)) = title_score t pr" by (simp add: title_score_def)
  consider "other_repo repo pr" | "\<not> other_repo repo pr" "body_names t pr"
    | "\<not> other_repo repo pr" "\<not> body_names t pr" "?wins"
    | "\<not> other_repo repo pr" "\<not> body_names t pr" "\<not> ?wins" by blast
  then show ?case
  proof cases
    case 1
    with Cons.IH [of h] show ?thesis by (simp cong: option.case_cong)
  next
    case 2
    then show ?thesis by (simp add: first_row_def by_body_def)
  next
    case 3
    then have "best_loop t (tokenise (t_title t)) repo
        (map (\<lambda>pr. (pr, tokenise (mp_title pr))) (pr # prs)) (held t h) (map_option (by_title t) h) =
      best_loop t (tokenise (t_title t)) repo (map (\<lambda>pr. (pr, tokenise (mp_title pr))) prs)
        (held t (Some pr)) (map_option (by_title t) (Some pr))"
      by (simp add: score held_def by_title_def Let_def)
    also note Cons.IH [of "Some pr"]
    finally have "best_loop t (tokenise (t_title t)) repo
        (map (\<lambda>pr. (pr, tokenise (mp_title pr))) (pr # prs)) (held t h) (map_option (by_title t) h) =
      (case first_row (body_names t) (filter (\<lambda>pr. \<not> other_repo repo pr) prs) of
        Some pr \<Rightarrow> Some (by_body t pr)
      | None \<Rightarrow> map_option (by_title t) (pick_best (beats t) (pr #
           filter (\<lambda>pr. score_ge (title_score t pr) matchThreshold) (filter (\<lambda>pr. \<not> other_repo repo pr) prs))))"
      by (simp del: pick_best.simps(2) cong: option.case_cong)
    with 3 show ?thesis by (cases h) (simp_all add: first_row_def held_def pick_beaten del: pick_best.simps(2) cong: option.case_cong)
  next
    case 4
    then have "best_loop t (tokenise (t_title t)) repo
        (map (\<lambda>pr. (pr, tokenise (mp_title pr))) (pr # prs)) (held t h) (map_option (by_title t) h) =
      best_loop t (tokenise (t_title t)) repo (map (\<lambda>pr. (pr, tokenise (mp_title pr))) prs) (held t h) (map_option (by_title t) h)"
      by (auto simp: score)
    moreover have "\<not> score_ge (title_score t pr) matchThreshold" if "h = None"
      using 4 that threshold_positive [of t pr] by (auto simp: held_def)
    ultimately show ?thesis using 4 Cons.IH [of h]
      by (cases h) (simp_all add: first_row_def held_def pick_unbeaten del: pick_best.simps(2) cong: option.case_cong)
  qed
qed

lemma bestFuzzy_reference:
  "bestFuzzyMatchForTask t prs (map (\<lambda>pr. tokenise (mp_title pr)) prs) resolve =
     fuzzy_reference t prs (case resolve of None \<Rightarrow> None | Some f \<Rightarrow> f t)"
  using best_loop_reference [of t "case resolve of None \<Rightarrow> None | Some f \<Rightarrow> f t" prs None]
  by (simp add: bestFuzzyMatchForTask_def fuzzy_reference_def title_pick_def held_def zip_map2 map_zip_map2 zip_same_conv_map Let_def comp_def cong: option.case_cong)

text \<open>
  C40. For every task that is open and has neither branch nor address, and for no other, the fuzzy matcher names
  the first request whose body names the task or else the first with the best title score of at least 0.6,
  requests of another repository left out.
\<close>

theorem fuzzy_matches_reference:
  "MatchPendingTasksFuzzy prs ts resolve =
     List.map_filter (\<lambda>t. if isFuzzyEligible t
       then fuzzy_reference t prs (case resolve of None \<Rightarrow> None | Some f \<Rightarrow> f t) else None) ts"
proof (cases "prs = []")
  case True
  have "fuzzy_reference t [] repo = None" for t repo
    by (simp add: fuzzy_reference_def title_pick_def first_row_def)
  with True show ?thesis by (simp add: MatchPendingTasksFuzzy_def map_filter_def)
qed (simp add: MatchPendingTasksFuzzy_def bestFuzzy_reference map_filter_def Let_def)

section \<open>Who is matched\<close>

lemma fuzzy_sound:
  assumes "m \<in> set (MatchPendingTasksFuzzy prs ts resolve)"
  obtains t pr where "t \<in> set ts" "isFuzzyEligible t" "pr \<in> set prs"
    "\<not> other_repo (case resolve of None \<Rightarrow> None | Some f \<Rightarrow> f t) pr"
    "(m = by_body t pr \<and> body_names t pr) \<or> (m = by_title t pr \<and> score_ge (title_score t pr) matchThreshold)"
proof -
  from assms obtain t where t: "t \<in> set ts" "isFuzzyEligible t"
      and "Some m = fuzzy_reference t prs (case resolve of None \<Rightarrow> None | Some f \<Rightarrow> f t)"
    by (auto simp: MatchPendingTasksFuzzy_def bestFuzzy_reference map_filter_def Let_def split: if_splits)
  let ?repo = "case resolve of None \<Rightarrow> None | Some f \<Rightarrow> f t"
  let ?mine = "filter (\<lambda>pr. \<not> other_repo ?repo pr) prs"
  have m: "fuzzy_reference t prs ?repo = Some m" using \<open>Some m = _\<close> by simp
  show thesis
  proof (cases "first_row (body_names t) ?mine")
    case (Some pr)
    with m first_row_Some [OF Some] show thesis by (intro that [OF t, of pr]) (auto simp: fuzzy_reference_def)
  next
    case None
    with m obtain pr where pr: "title_pick t ?mine = Some pr" "m = by_title t pr" by (auto simp: fuzzy_reference_def)
    from pick_best_mem [OF pr(1) [unfolded title_pick_def]] pr(2) show thesis by (intro that [OF t, of pr]) auto
  qed
qed

lemma fuzzy_eligible_open: "isFuzzyEligible t \<Longrightarrow> open_status (t_status t)"
  by (auto simp: isFuzzyEligible_def open_status_def split: if_splits)

text \<open>No task the exact matcher closes is open to the fuzzy one.\<close>

lemma exact_not_fuzzy:
  "url_eligible ts c pr t \<or> on_branch ts c pr t \<Longrightarrow> \<not> isFuzzyEligible t"
  by (auto simp: url_eligible_def on_branch_def isFuzzyEligible_def)

end
