(* ===== verification/Reconcile_Handler.thy ===== *)
theory Reconcile_Handler
  imports Candidate_Model Reconcile_Fuzzy
begin

text \<open>
  \<open>POST /api/tasks/reconcile-merged-prs\<close> (\<open>internal/handler/reconcile_handler.go\<close>) and the MCP tool
  \<open>reconcile_merged_prs\<close> (\<open>internal/mcp/tools_reconcile.go\<close>).  A \<open>reconcile_backend\<close> holds the store
  operations they call, an absent store as \<open>None\<close>; the decoded request is an argument.
\<close>

section \<open>What the two surfaces call\<close>

record candidate_ops =
  co_upsert :: "upsert_params \<Rightarrow> (candidate_error, candidate) op"
  co_auto_applied :: "uuid \<Rightarrow> ustr list \<Rightarrow> ustr \<Rightarrow> (candidate_error, unit) op"

record reconcile_backend =
  rb_projects :: "(gtd_error, project list) op"
  rb_tasks :: "(gtd_error, task list) op"
  rb_complete :: "pr_match list \<Rightarrow> (gtd_error, uuid list) op"
  rb_repos :: "(gtd_error, repo_row list) op option"
  rb_candidates :: "candidate_ops option"
  rb_observed :: "(observe_params \<Rightarrow> (observe_error, unit) op) option"

definition reading_gtd :: "run_of \<Rightarrow> string \<Rightarrow> (gtd_db \<Rightarrow> 'a) \<Rightarrow> (gtd_error, 'a) op" where
  "reading_gtd x name f = operation x (\<lambda>k s. if x_fault x k 0 then (Inl (GDatabase name), s) else (Inr (f (rd_gtd s)), s))"

definition reading_repos :: "run_of \<Rightarrow> uuid option \<Rightarrow> (gtd_error, repo_row list) op" where
  "reading_repos x scope = operation x (\<lambda>k s. if x_fault x k 0 then (Inl (GDatabase ''repos''), s)
     else (Inr (ActiveRepos scope (rd_repos s)), s))"

definition completing :: "run_of \<Rightarrow> ((nat \<Rightarrow> bool) \<Rightarrow> instant \<Rightarrow> pr_match list \<Rightarrow> gtd_db \<Rightarrow> (gtd_error + uuid list) \<times> gtd_db)
    \<Rightarrow> pr_match list \<Rightarrow> (gtd_error, uuid list) op" where
  "completing x batch ms w =
     (if ms = [] then (Inr [], w)
      else operation x (\<lambda>k s. case batch (x_fault x k) (x_now x k) ms (rd_gtd s) of (r, g) \<Rightarrow> (r, s\<lparr>rd_gtd := g\<rparr>)) w)"

definition sqlite_backend :: "run_of \<Rightarrow> uuid option \<Rightarrow> reconcile_backend" where
  "sqlite_backend x scope =
     \<lparr>rb_projects = reading_gtd x ''ProjectsFiltered'' (ProjectsFiltered scope ''all''),
      rb_tasks = reading_gtd x ''Tasks'' (Tasks_sq scope None),
      rb_complete = completing x (\<lambda>fault. BatchCompleteTasksByPRMatch fault scope),
      rb_repos = Some (reading_repos x scope),
      rb_candidates = Some \<lparr>co_upsert = UpsertCandidate_sq x scope, co_auto_applied = WriteAutoApplied_sq x scope\<rparr>,
      rb_observed = Some (Upsert_sq x scope)\<rparr>"

definition postgres_backend :: "run_of \<Rightarrow> uuid option \<Rightarrow> reconcile_backend" where
  "postgres_backend x scope =
     \<lparr>rb_projects = reading_gtd x ''ProjectsFiltered'' (ProjectsFiltered scope ''all''),
      rb_tasks = reading_gtd x ''Tasks'' (Tasks_pg scope None),
      rb_complete = completing x (\<lambda>fault. BatchCompleteTasksByPRMatch_pg fault scope),
      rb_repos = Some (reading_repos x scope),
      rb_candidates = Some \<lparr>co_upsert = UpsertCandidate_pg x scope, co_auto_applied = WriteAutoApplied_pg x scope\<rparr>,
      rb_observed = Some (Upsert_pg x scope)\<rparr>"

section \<open>The entries of a request\<close>

record request_pr =
  rq_url :: ustr
  rq_head_ref :: ustr
  rq_merged_at :: ustr
  rq_title :: ustr
  rq_body :: ustr
  rq_repo :: ustr

fun slash_parts :: "ustr \<Rightarrow> ustr list" where
  "slash_parts [] = [[]]"
| "slash_parts (c # s) = (if c = 47 then [] # slash_parts s
     else (case slash_parts s of [] \<Rightarrow> [[c]] | w # ws \<Rightarrow> (c # w) # ws))"

definition pull_path :: "ustr \<Rightarrow> ustr \<Rightarrow> ustr \<Rightarrow> ustr \<Rightarrow> bool" where
  "pull_path owner repo pull number \<longleftrightarrow> owner \<noteq> [] \<and> repo \<noteq> [] \<and> pull = lit ''pull'' \<and> number \<noteq> [] \<and> list_all is_digit number"

text \<open>\<open>^https://github\.com/[^/]+/[^/]+/pull/\d+(/)?$\<close> and \<open>^[A-Za-z0-9._-]+/[A-Za-z0-9._-]+$\<close>.\<close>

definition GitHubPRURLRe :: "ustr \<Rightarrow> bool" where
  "GitHubPRURLRe u \<longleftrightarrow> prefix (lit ''https://github.com/'') u \<and>
     (case slash_parts (drop 19 u) of
        [owner, repo, pull, number] \<Rightarrow> pull_path owner repo pull number
      | [owner, repo, pull, number, rest] \<Rightarrow> pull_path owner repo pull number \<and> rest = []
      | _ \<Rightarrow> False)"

definition slug_rune :: "rune \<Rightarrow> bool" where
  "slug_rune c \<longleftrightarrow> (65 \<le> c \<and> c \<le> 90) \<or> (97 \<le> c \<and> c \<le> 122) \<or> (48 \<le> c \<and> c \<le> 57) \<or> c = 46 \<or> c = 95 \<or> c = 45"

definition RepoSlugRe :: "ustr \<Rightarrow> bool" where
  "RepoSlugRe s \<longleftrightarrow> (case slash_parts s of
     [owner, repo] \<Rightarrow> owner \<noteq> [] \<and> repo \<noteq> [] \<and> list_all slug_rune owner \<and> list_all slug_rune repo | _ \<Rightarrow> False)"

definition hasReconcileControlChars :: "ustr \<Rightarrow> bool" where
  "hasReconcileControlChars s \<longleftrightarrow> list_ex (\<lambda>r. r < 32 \<or> r = 127) s"

definition reconcileMaxEntries :: nat where
  "reconcileMaxEntries = 200"

definition reconcileMaxBodyBytes :: nat where
  "reconcileMaxBodyBytes = 4 * 1024 * 1024"

definition reconcileMaxStringField :: nat where
  "reconcileMaxStringField = 4 * 1024"

definition entry_text :: "ustr \<Rightarrow> string \<Rightarrow> ustr" where
  "entry_text index rest = lit ''merged_prs['' @ index @ lit rest"

text \<open>The first field that is too long; the HTTP surface writes a literal \<open>i\<close> for the index.\<close>

definition checkReconcileFieldLen :: "ustr \<Rightarrow> request_pr \<Rightarrow> ustr option" where
  "checkReconcileFieldLen index e =
     map_option (\<lambda>(name, _). entry_text index (''].'' @ name @ '' exceeds 4 KiB''))
       (List.find (\<lambda>(_, v). length v > reconcileMaxStringField)
         [(''url'', rq_url e), (''head_ref'', rq_head_ref e), (''title'', rq_title e), (''body'', rq_body e), (''repo'', rq_repo e)])"

definition zero_time :: instant where
  "zero_time = - 62135596800 * 1000000000"

definition parseReconcileMergedAt :: "ustr \<Rightarrow> ustr \<Rightarrow> ustr + instant option" where
  "parseReconcileMergedAt index s =
     (if TrimSpace s = [] then Inr None
      else case ParseRFC3339 (TrimSpace s) of
          None \<Rightarrow> Inl (entry_text index ''].merged_at must be RFC3339'')
        | Some t \<Rightarrow> Inr (if t = zero_time then None else Some t))"

definition convert_entry :: "(nat \<Rightarrow> ustr) \<Rightarrow> nat \<Rightarrow> request_pr \<Rightarrow> ustr + merged_pr" where
  "convert_entry late i e =
     (if rq_url e = [] then Inl (entry_text (decimal i) ''].url is required'')
      else if \<not> GitHubPRURLRe (rq_url e) then Inl (entry_text (decimal i) ''].url must be a valid GitHub PR URL'')
      else if rq_head_ref e = [] then Inl (entry_text (decimal i) ''].head_ref is required'')
      else if hasReconcileControlChars (rq_head_ref e)
      then Inl (entry_text (decimal i) ''].head_ref must not contain control characters'')
      else if rq_repo e = [] then Inl (entry_text (decimal i) ''].repo is required'')
      else if \<not> RepoSlugRe (rq_repo e) then Inl (entry_text (decimal i) ''].repo must match owner/repo slug pattern'')
      else case checkReconcileFieldLen (late i) e of
          Some msg \<Rightarrow> Inl msg
        | None \<Rightarrow> (case parseReconcileMergedAt (late i) (rq_merged_at e) of
            Inl msg \<Rightarrow> Inl msg
          | Inr at \<Rightarrow> Inr \<lparr>mp_url = TrimSpace (rq_url e), mp_head_ref = rq_head_ref e, mp_merged_at = at,
              mp_title = Notes (rq_title e), mp_body = Notes (rq_body e), mp_repo = Notes (rq_repo e)\<rparr>))"

fun convert_entries :: "(nat \<Rightarrow> ustr) \<Rightarrow> nat \<Rightarrow> request_pr list \<Rightarrow> ustr + merged_pr list" where
  "convert_entries late i [] = Inr []"
| "convert_entries late i (e # es) =
     (case convert_entry late i e of
        Inl msg \<Rightarrow> Inl msg
      | Inr pr \<Rightarrow> (case convert_entries late (Suc i) es of Inl msg \<Rightarrow> Inl msg | Inr prs \<Rightarrow> Inr (pr # prs)))"

definition validateAndConvertMergedPRs :: "request_pr list \<Rightarrow> ustr + merged_pr list" where
  "validateAndConvertMergedPRs = convert_entries (\<lambda>_. lit ''i'') 0"

definition reconcileMCPValidate :: "request_pr list \<Rightarrow> ustr + merged_pr list" where
  "reconcileMCPValidate = convert_entries decimal 0"

section \<open>The steps the surfaces share\<close>

definition capBodyExcerptForAudit :: "ustr \<Rightarrow> ustr" where
  "capBodyExcerptForAudit s = (if s = [] then [] else if length s \<le> AuditBodyExcerptMaxLen then s else take AuditBodyExcerptMaxLen s)"

definition observe_of :: "merged_pr \<Rightarrow> observe_params" where
  "observe_of pr = \<lparr>op_workspace = None, op_repo = mp_repo pr, op_url = mp_url pr, op_head_ref = mp_head_ref pr,
     op_title = mp_title pr, op_body = capBodyExcerptForAudit (mp_body pr), op_merged_at = mp_merged_at pr\<rparr>"

text \<open>Best-effort loops: how many writes succeeded.\<close>

fun count_writes :: "('p \<Rightarrow> ('e, 'a) op) \<Rightarrow> 'p list \<Rightarrow> world \<Rightarrow> nat \<times> world" where
  "count_writes write [] w = (0, w)"
| "count_writes write (p # ps) w =
     (case write p w of (r, w1) \<Rightarrow>
        (case count_writes write ps w1 of (n, w2) \<Rightarrow> (case r of Inl _ \<Rightarrow> n | Inr _ \<Rightarrow> Suc n, w2)))"

definition persistObservedPRs :: "reconcile_backend \<Rightarrow> merged_pr list \<Rightarrow> world \<Rightarrow> world" where
  "persistObservedPRs rb prs w =
     (case rb_observed rb of None \<Rightarrow> w | Some upsert \<Rightarrow> snd (count_writes upsert (map observe_of prs) w))"

definition unknown_repo :: repo_resolver where
  "unknown_repo t = None"

definition repoResolver :: "reconcile_backend \<Rightarrow> world \<Rightarrow> repo_resolver \<times> world" where
  "repoResolver rb w =
     (case rb_repos rb of
        None \<Rightarrow> (unknown_repo, w)
      | Some repos \<Rightarrow>
          (case rb_projects rb w of
             (Inl _, w1) \<Rightarrow> (unknown_repo, w1)
           | (Inr ps, w1) \<Rightarrow> (case repos w1 of
                 (Inl _, w2) \<Rightarrow> (unknown_repo, w2)
               | (Inr rs, w2) \<Rightarrow> (NewRepoResolver ps rs, w2))))"

definition matched :: "reconcile_backend \<Rightarrow> merged_pr list \<Rightarrow> repo_resolver \<Rightarrow> world \<Rightarrow> (match_error + pr_match_result) \<times> world" where
  "matched rb prs resolve w =
     (if prs = [] then (MatchMergedPRs (Inr []) prs (Some resolve), w)
      else case rb_tasks rb w of (loaded, w1) \<Rightarrow> (MatchMergedPRs loaded prs (Some resolve), w1))"

definition write_applied :: "reconcile_backend \<Rightarrow> uuid list \<Rightarrow> pr_match list \<Rightarrow> world \<Rightarrow> nat \<times> world" where
  "write_applied rb appliedIDs ms w =
     (case rb_candidates rb of
        None \<Rightarrow> (0, w)
      | Some cs \<Rightarrow> count_writes (\<lambda>m. co_auto_applied cs (m_task m) [m_pr_url m] (m_pr_url m))
          (filter (\<lambda>m. m_task m \<in> set appliedIDs) ms) w)"

definition fuzzy_params :: "fuzzy_match \<Rightarrow> upsert_params" where
  "fuzzy_params m = \<lparr>up_workspace = None, up_task = fm_task m, up_repo = [], up_reason = ''pr_merged_fuzzy'',
     up_evidence = [lit (fuzzy_reason_text (fm_reason m)), fm_pr_url m], up_confidence = ''medium'', up_artifact = fm_pr_url m\<rparr>"

definition writeFuzzyCandidates :: "reconcile_backend \<Rightarrow> merged_pr list \<Rightarrow> uuid list \<Rightarrow> repo_resolver \<Rightarrow> world \<Rightarrow> nat \<times> world" where
  "writeFuzzyCandidates rb prs excludeTaskIDs resolve w =
     (case rb_candidates rb of
        None \<Rightarrow> (0, w)
      | Some cs \<Rightarrow>
          if prs = [] then (0, w)
          else (case rb_tasks rb w of
              (Inl _, w1) \<Rightarrow> (0, w1)
            | (Inr ts, w1) \<Rightarrow> count_writes (co_upsert cs) (map fuzzy_params
                (filter (\<lambda>m. fm_task m \<notin> set excludeTaskIDs) (MatchPendingTasksFuzzy prs ts (Some resolve)))) w1))"

definition unverified_params :: "ambiguous \<Rightarrow> upsert_params" where
  "unverified_params a = \<lparr>up_workspace = None, up_task = ab_task a, up_repo = [], up_reason = ''pr_merged_repo_unverified'',
     up_evidence = [lit ''branch_name_exact:repo_unverified'', ab_pr_url a], up_confidence = ''medium'', up_artifact = ab_pr_url a\<rparr>"

definition writeUnverifiedRepoCandidates :: "reconcile_backend \<Rightarrow> ambiguous list \<Rightarrow> world \<Rightarrow> nat \<times> world" where
  "writeUnverifiedRepoCandidates rb hits w =
     (case rb_candidates rb of None \<Rightarrow> (0, w) | Some cs \<Rightarrow> count_writes (co_upsert cs) (map unverified_params hits) w)"

section \<open>Over HTTP\<close>

record reconcile_response =
  rs_matches :: "(pr_match \<times> bool) list"      \<comment> \<open>with \<open>applied\<close>\<close>
  rs_ambiguous :: "ambiguous list"
  rs_applied :: nat
  rs_no_match :: nat
  rs_candidate_writes :: nat
  rs_mismatch :: nat
  rs_unverified :: nat

datatype reconcile_reply = Refused nat ustr | InternalError | Reconciled reconcile_response

definition nothing_to_do :: reconcile_response where
  "nothing_to_do = \<lparr>rs_matches = [], rs_ambiguous = [], rs_applied = 0, rs_no_match = 0, rs_candidate_writes = 0,
     rs_mismatch = 0, rs_unverified = 0\<rparr>"

definition response_of :: "pr_match_result \<Rightarrow> uuid list \<Rightarrow> nat \<Rightarrow> nat \<Rightarrow> reconcile_response" where
  "response_of r appliedIDs writes unverified =
     \<lparr>rs_matches = map (\<lambda>m. (m, m_task m \<in> set appliedIDs)) (mr_matches r), rs_ambiguous = mr_ambiguous r,
      rs_applied = length (remdups appliedIDs), rs_no_match = mr_no_match r, rs_candidate_writes = writes,
      rs_mismatch = mr_mismatch r, rs_unverified = unverified\<rparr>"

definition reconcile_prs :: "reconcile_backend \<Rightarrow> merged_pr list \<Rightarrow> world \<Rightarrow> reconcile_reply \<times> world" where
  "reconcile_prs rb prs w =
     (case repoResolver rb (persistObservedPRs rb prs w) of (resolve, w1) \<Rightarrow>
      case matched rb prs resolve w1 of
        (Inl _, w2) \<Rightarrow> (InternalError, w2)
      | (Inr r, w2) \<Rightarrow>
          (case rb_complete rb (mr_matches r) w2 of
             (Inl _, w3) \<Rightarrow> (InternalError, w3)
           | (Inr appliedIDs, w3) \<Rightarrow>
               (case write_applied rb appliedIDs (mr_matches r) w3 of (n1, w4) \<Rightarrow>
                case writeFuzzyCandidates rb prs [] resolve w4 of (n2, w5) \<Rightarrow>
                case writeUnverifiedRepoCandidates rb (mr_unverified r) w5 of (n3, w6) \<Rightarrow>
                  (Reconciled (response_of r appliedIDs (n1 + n2 + n3) n3), w6))))"

text \<open>\<open>bytes\<close> is the size of the body, \<open>decoded\<close> the entries, \<open>None\<close> when decoding fails.\<close>

definition Reconcile :: "reconcile_backend \<Rightarrow> nat \<Rightarrow> request_pr list option \<Rightarrow> world \<Rightarrow> reconcile_reply \<times> world" where
  "Reconcile rb bytes decoded w =
     (if bytes > reconcileMaxBodyBytes then (Refused 413 (lit ''request body exceeds 4 MiB''), w)
      else case decoded of
          None \<Rightarrow> (Refused 400 (lit ''invalid request body''), w)
        | Some es \<Rightarrow>
            if length es = 0 then (Reconciled nothing_to_do, w)
            else if length es > reconcileMaxEntries then (Refused 413 (lit ''merged_prs exceeds 200 entries per call''), w)
            else case validateAndConvertMergedPRs es of
                Inl msg \<Rightarrow> (Refused 400 msg, w)
              | Inr prs \<Rightarrow> reconcile_prs rb prs w)"

section \<open>Over MCP: preview, then confirm\<close>

definition reconcileTokenTTL :: int where
  "reconcileTokenTTL = 60 * 1000000000"

definition maxPendingReconciles :: nat where
  "maxPendingReconciles = 256"

record confirmation =
  cf_matches :: "pr_match list"
  cf_ambiguous :: "ambiguous list"
  cf_no_match :: nat
  cf_expires :: instant
  cf_session :: ustr         \<comment> \<open>empty: no tracked session\<close>

type_synonym tokens = "(ustr \<times> confirmation) list"

datatype mcp_error =
    PayloadRequired | InvalidPayload | NoEntries | TooManyEntries | InvalidEntry ustr | MatchFailed
  | TooManyPending | TokenRequired | NoPending | TokenExpired | OtherSession | BatchFailed

record mcp_answer =
  ma_response :: reconcile_response
  ma_token :: "ustr option"

definition drop_expired :: "instant \<Rightarrow> tokens \<Rightarrow> tokens" where
  "drop_expired now ts = filter (\<lambda>(_, rec). \<not> now > cf_expires rec) ts"

definition issue_token :: "instant \<Rightarrow> ustr \<Rightarrow> ustr \<Rightarrow> pr_match_result \<Rightarrow> tokens \<Rightarrow> tokens option" where
  "issue_token now session token r ts =
     (let live = drop_expired now ts in
      if length live \<ge> maxPendingReconciles then None
      else Some (AList.update token \<lparr>cf_matches = mr_matches r, cf_ambiguous = mr_ambiguous r, cf_no_match = mr_no_match r,
             cf_expires = now + reconcileTokenTTL, cf_session = session\<rparr> live))"

text \<open>
  \<open>payload\<close>: absent, or the entries it decodes to.  \<open>token\<close> is the identifier the call draws; a preview with
  nothing to confirm stores none.
\<close>

definition handleReconcileMergedPRsPreview :: "reconcile_backend \<Rightarrow> instant \<Rightarrow> ustr \<Rightarrow> ustr \<Rightarrow> request_pr list option option \<Rightarrow>
    tokens \<times> world \<Rightarrow> (mcp_error + mcp_answer) \<times> tokens \<times> world" where
  "handleReconcileMergedPRsPreview rb now session token payload st =
     (case st of (ts, w) \<Rightarrow>
      case payload of
        None \<Rightarrow> (Inl PayloadRequired, ts, w)
      | Some None \<Rightarrow> (Inl InvalidPayload, ts, w)
      | Some (Some es) \<Rightarrow>
          if length es = 0 then (Inl NoEntries, ts, w)
          else if length es > reconcileMaxEntries then (Inl TooManyEntries, ts, w)
          else case reconcileMCPValidate es of
              Inl msg \<Rightarrow> (Inl (InvalidEntry msg), ts, w)
            | Inr prs \<Rightarrow>
                (case repoResolver rb (persistObservedPRs rb prs w) of (resolve, w1) \<Rightarrow>
                 case matched rb prs resolve w1 of
                   (Inl _, w2) \<Rightarrow> (Inl MatchFailed, ts, w2)
                 | (Inr r, w2) \<Rightarrow>
                     (case writeFuzzyCandidates rb prs (map m_task (mr_matches r)) resolve w2 of (n1, w3) \<Rightarrow>
                      case writeUnverifiedRepoCandidates rb (mr_unverified r) w3 of (n2, w4) \<Rightarrow>
                        if mr_matches r = [] \<and> mr_ambiguous r = []
                        then (Inr \<lparr>ma_response = response_of r [] (n1 + n2) n2, ma_token = None\<rparr>, ts, w4)
                        else (case issue_token now session token r ts of
                            None \<Rightarrow> (Inl TooManyPending, drop_expired now ts, w4)
                          | Some ts' \<Rightarrow> (Inr \<lparr>ma_response = response_of r [] (n1 + n2) n2, ma_token = Some token\<rparr>, ts', w4)))))"

text \<open>The confirming call in its two halves: what it checks before it takes the token, and what it does with it.\<close>

definition confirm_check :: "instant \<Rightarrow> ustr \<Rightarrow> ustr \<Rightarrow> tokens \<Rightarrow> (mcp_error + confirmation) \<times> tokens" where
  "confirm_check now session token ts =
     (if token = [] then (Inl TokenRequired, ts)
      else case map_of ts token of
          None \<Rightarrow> (Inl NoPending, ts)
        | Some rec \<Rightarrow>
            if now > cf_expires rec then (Inl TokenExpired, AList.delete token ts)
            else if session \<noteq> cf_session rec then (Inl OtherSession, ts)
            else (Inr rec, ts))"

definition take_token :: "ustr \<Rightarrow> tokens \<Rightarrow> bool \<times> tokens" where
  "take_token token ts = (map_of ts token \<noteq> None, AList.delete token ts)"

definition confirm_apply :: "reconcile_backend \<Rightarrow> confirmation \<Rightarrow> world \<Rightarrow> (mcp_error + mcp_answer) \<times> world" where
  "confirm_apply rb rec w =
     (case rb_complete rb (cf_matches rec) w of
        (Inl _, w1) \<Rightarrow> (Inl BatchFailed, w1)
      | (Inr appliedIDs, w1) \<Rightarrow>
          (case write_applied rb appliedIDs (cf_matches rec) w1 of (n, w2) \<Rightarrow>
            (Inr \<lparr>ma_response = \<lparr>rs_matches = map (\<lambda>m. (m, m_task m \<in> set appliedIDs)) (cf_matches rec),
               rs_ambiguous = cf_ambiguous rec, rs_applied = length (remdups appliedIDs), rs_no_match = cf_no_match rec,
               rs_candidate_writes = n, rs_mismatch = 0, rs_unverified = 0\<rparr>, ma_token = None\<rparr>, w2)))"

definition handleReconcileMergedPRsConfirm :: "reconcile_backend \<Rightarrow> instant \<Rightarrow> ustr \<Rightarrow> ustr \<Rightarrow> tokens \<times> world
    \<Rightarrow> (mcp_error + mcp_answer) \<times> tokens \<times> world" where
  "handleReconcileMergedPRsConfirm rb now session token st =
     (case st of (ts, w) \<Rightarrow>
      case confirm_check now session token ts of
        (Inl e, ts1) \<Rightarrow> (Inl e, ts1, w)
      | (Inr rec, ts1) \<Rightarrow>
          (case take_token token ts1 of
             (False, ts2) \<Rightarrow> (Inl NoPending, ts2, w)
           | (True, ts2) \<Rightarrow> (case confirm_apply rb rec w of (r, w1) \<Rightarrow> (r, ts2, w1))))"

definition handleReconcileMergedPRs :: "reconcile_backend \<Rightarrow> instant \<Rightarrow> ustr \<Rightarrow> ustr \<Rightarrow> bool \<Rightarrow> ustr \<Rightarrow> request_pr list option option \<Rightarrow>
    tokens \<times> world \<Rightarrow> (mcp_error + mcp_answer) \<times> tokens \<times> world" where
  "handleReconcileMergedPRs rb now session fresh confirm token payload st =
     (if confirm then handleReconcileMergedPRsConfirm rb now session token st
      else handleReconcileMergedPRsPreview rb now session fresh payload st)"

end
