(* ===== verification/Candidate_Laws.thy ===== *)
theory Candidate_Laws
  imports Candidate_Detect Reconcile_Handler Gtd_Parity
begin

text \<open>
  What every operation around the candidate table keeps.  A property of the tables that survives an
  upserted row (\<open>upsert_law\<close>), an auto-applied row and the two prunes (\<open>candidate_law\<close>), and the closing
  of tasks (\<open>reconcile_law\<close>) survives every operation built from them, failing statements included, as
  long as the other connections keep it too.
\<close>

section \<open>Keeping a property\<close>

definition env_keeps :: "(gtd_db \<Rightarrow> bool) \<Rightarrow> run_of \<Rightarrow> bool" where
  "env_keeps P x \<longleftrightarrow> (\<forall>k n s. P (rd_gtd s) \<longrightarrow> P (rd_gtd (x_env x k n s)))"

definition holds_in :: "(gtd_db \<Rightarrow> bool) \<Rightarrow> world \<Rightarrow> bool" where
  "holds_in P w \<longleftrightarrow> P (rd_gtd (w_db w))"

definition keeps_law :: "(gtd_db \<Rightarrow> bool) \<Rightarrow> (world \<Rightarrow> 'r \<times> world) \<Rightarrow> bool" where
  "keeps_law P f \<longleftrightarrow> (\<forall>w. holds_in P w \<longrightarrow> holds_in P (snd (f w)))"

lemma keeps_lawI: "(\<And>w. holds_in P w \<Longrightarrow> holds_in P (snd (f w))) \<Longrightarrow> keeps_law P f"
  by (simp add: keeps_law_def)

lemma keeps_lawD: "keeps_law P f \<Longrightarrow> f w = (r, w') \<Longrightarrow> holds_in P w \<Longrightarrow> holds_in P w'"
  by (metis keeps_law_def snd_conv)

lemma env_keepsD: "env_keeps P x \<Longrightarrow> P (rd_gtd s) \<Longrightarrow> P (rd_gtd (x_env x k n s))"
  by (simp add: env_keeps_def)

lemma operation_keeps:
  "env_keeps P x \<Longrightarrow> (\<And>k s. P (rd_gtd s) \<Longrightarrow> P (rd_gtd (snd (f k s)))) \<Longrightarrow> keeps_law P (operation x f)"
proof (rule keeps_lawI)
  fix w assume r: "env_keeps P x" and f: "\<And>k s. P (rd_gtd s) \<Longrightarrow> P (rd_gtd (snd (f k s)))" and w: "holds_in P w"
  have "P (rd_gtd (snd (f (w_step w) (x_env x (w_step w) 0 (w_db w)))))"
    using w by (intro f env_keepsD [OF r]) (simp add: holds_in_def)
  then show "holds_in P (snd (operation x f w))" by (auto simp: holds_in_def operation_def split: prod.split)
qed

lemma count_writes_keeps: "(\<And>p. p \<in> set ps \<Longrightarrow> keeps_law P (write p)) \<Longrightarrow> holds_in P w \<Longrightarrow> holds_in P (snd (count_writes write ps w))"
proof (induction ps arbitrary: w)
  case (Cons p ps)
  obtain r w1 where r: "write p w = (r, w1)" by fastforce
  with Cons.prems have "holds_in P w1" by (metis keeps_lawD list.set_intros(1))
  with Cons.IH [of w1] Cons.prems(1) show ?case by (auto simp: r split: prod.split sum.split)
qed simp

lemma reading_gtd_keeps: "env_keeps P x \<Longrightarrow> keeps_law P (reading_gtd x name f)"
  unfolding reading_gtd_def by (rule operation_keeps) auto

lemma reading_repos_keeps: "env_keeps P x \<Longrightarrow> keeps_law P (reading_repos x scope)"
  unfolding reading_repos_def by (rule operation_keeps) auto

lemma observe_keeps: "env_keeps P x \<Longrightarrow> keeps_law P (observe ts x scope p)"
proof (rule keeps_lawI)
  fix w assume "env_keeps P x" "holds_in P w"
  moreover from this(1) have "keeps_law P (operation x (\<lambda>k s. if x_fault x k 0 then (Inl ObserveDatabase, s)
      else case put_observed (observed_row ts scope (x_now x k) (x_fresh x k) p) (rd_observed s) of
          Inl e \<Rightarrow> (Inl e, s) | Inr rows \<Rightarrow> (Inr (), s\<lparr>rd_observed := rows\<rparr>)))"
    by (rule operation_keeps) (auto split: sum.split)
  ultimately show "holds_in P (snd (observe ts x scope p w))"
    by (auto simp: observe_def keeps_law_def)
qed

section \<open>The parts of a reconcile call\<close>

definition upserting :: "(gtd_db \<Rightarrow> bool) \<Rightarrow> reconcile_backend \<Rightarrow> bool" where
  "upserting P rb \<longleftrightarrow> keeps_law P (rb_projects rb) \<and> keeps_law P (rb_tasks rb) \<and>
     (\<forall>f. rb_repos rb = Some f \<longrightarrow> keeps_law P f) \<and> (\<forall>f p. rb_observed rb = Some f \<longrightarrow> keeps_law P (f p)) \<and>
     (\<forall>cs p. rb_candidates rb = Some cs \<longrightarrow> keeps_law P (co_upsert cs p))"

definition applying :: "(gtd_db \<Rightarrow> bool) \<Rightarrow> reconcile_backend \<Rightarrow> bool" where
  "applying P rb \<longleftrightarrow> (\<forall>ms. keeps_law P (rb_complete rb ms)) \<and>
     (\<forall>cs i refs a. rb_candidates rb = Some cs \<longrightarrow> keeps_law P (co_auto_applied cs i refs a))"

lemma persist_keeps: "upserting P rb \<Longrightarrow> holds_in P w \<Longrightarrow> holds_in P (persistObservedPRs rb prs w)"
  by (auto simp: persistObservedPRs_def upserting_def intro!: count_writes_keeps split: option.split)

lemma resolver_keeps: "upserting P rb \<Longrightarrow> holds_in P w \<Longrightarrow> holds_in P (snd (repoResolver rb w))"
  by (auto simp: repoResolver_def upserting_def split: option.split prod.split sum.split dest!: keeps_lawD)

lemma matched_keeps: "upserting P rb \<Longrightarrow> holds_in P w \<Longrightarrow> holds_in P (snd (matched rb prs resolve w))"
  by (auto simp: matched_def upserting_def split: prod.split dest!: keeps_lawD)

lemma unverified_keeps: "upserting P rb \<Longrightarrow> holds_in P w \<Longrightarrow> holds_in P (snd (writeUnverifiedRepoCandidates rb hits w))"
  by (auto simp: writeUnverifiedRepoCandidates_def upserting_def intro!: count_writes_keeps split: option.split)

lemma fuzzy_keeps:
  assumes u: "upserting P rb" and w: "holds_in P w"
  shows "holds_in P (snd (writeFuzzyCandidates rb prs ex resolve w))"
proof (cases "rb_candidates rb")
  case (Some cs)
  obtain loaded w1 where l: "rb_tasks rb w = (loaded, w1)" by fastforce
  with u w have "holds_in P w1" by (auto simp: upserting_def dest: keeps_lawD)
  with u Some show ?thesis
    by (auto simp: writeFuzzyCandidates_def l upserting_def w intro!: count_writes_keeps split: sum.split)
qed (simp add: writeFuzzyCandidates_def w)

lemma applied_keeps:
  assumes "\<And>cs (m :: pr_match). rb_candidates rb = Some cs \<Longrightarrow> m \<in> set ms \<Longrightarrow> m_task m \<in> set appliedIDs \<Longrightarrow>
      keeps_law P (co_auto_applied cs (m_task m) [m_pr_url m] (m_pr_url m))"
    and "holds_in P w"
  shows "holds_in P (snd (write_applied rb appliedIDs ms w))"
proof (cases "rb_candidates rb")
  case (Some cs)
  have "holds_in P (snd (count_writes (\<lambda>m. co_auto_applied cs (m_task m) [m_pr_url m] (m_pr_url m))
      (filter (\<lambda>m. m_task m \<in> set appliedIDs) ms) w))"
    by (rule count_writes_keeps [OF _ assms(2)]) (use assms(1) [OF Some] in simp)
  then show ?thesis by (simp add: write_applied_def Some)
qed (simp add: write_applied_def assms)

text \<open>Up to the closing, and after it.\<close>

definition before_closing :: "reconcile_backend \<Rightarrow> merged_pr list \<Rightarrow> world \<Rightarrow> (match_error + pr_match_result) \<times> repo_resolver \<times> world" where
  "before_closing rb prs w =
     (case repoResolver rb (persistObservedPRs rb prs w) of (resolve, w1) \<Rightarrow>
      case matched rb prs resolve w1 of (r, w2) \<Rightarrow> (r, resolve, w2))"

lemma before_closing_keeps: "upserting P rb \<Longrightarrow> holds_in P w \<Longrightarrow> holds_in P (snd (snd (before_closing rb prs w)))"
  using resolver_keeps [of P rb "persistObservedPRs rb prs w"] persist_keeps [of P rb w prs] matched_keeps [of P rb]
  by (auto simp: before_closing_def split: prod.split) (metis snd_conv)

lemma reconcile_prs_parts: "reconcile_prs rb prs w =
    (case before_closing rb prs w of
       (Inl _, _, w2) \<Rightarrow> (InternalError, w2)
     | (Inr r, resolve, w2) \<Rightarrow>
         (case rb_complete rb (mr_matches r) w2 of
            (Inl _, w3) \<Rightarrow> (InternalError, w3)
          | (Inr appliedIDs, w3) \<Rightarrow>
              (case write_applied rb appliedIDs (mr_matches r) w3 of (n1, w4) \<Rightarrow>
               case writeFuzzyCandidates rb prs [] resolve w4 of (n2, w5) \<Rightarrow>
               case writeUnverifiedRepoCandidates rb (mr_unverified r) w5 of (n3, w6) \<Rightarrow>
                 (Reconciled (response_of r appliedIDs (n1 + n2 + n3) n3), w6))))"
  by (auto simp: reconcile_prs_def before_closing_def split: prod.split sum.split)

lemma reconcile_prs_keeps:
  assumes u: "upserting P rb" and a: "applying P rb" and w: "holds_in P w"
  shows "holds_in P (snd (reconcile_prs rb prs w))"
proof -
  obtain r resolve w2 where b: "before_closing rb prs w = (r, resolve, w2)" by (metis prod_cases3)
  have w2: "holds_in P w2" using before_closing_keeps [OF u w, of prs] by (simp add: b)
  show ?thesis
  proof (cases r)
    case r: (Inr res)
    obtain q w3 where c: "rb_complete rb (mr_matches res) w2 = (q, w3)" by fastforce
    with a w2 have w3: "holds_in P w3" by (auto simp: applying_def dest: keeps_lawD)
    show ?thesis
    proof (cases q)
      case (Inr ids)
      have "holds_in P (snd (write_applied rb ids (mr_matches res) w3))"
        using a w3 by (auto simp: applying_def intro: applied_keeps)
      then show ?thesis
        using r Inr fuzzy_keeps [OF u] unverified_keeps [OF u]
        by (auto simp: reconcile_prs_parts b c split: prod.split) (metis snd_conv)
    qed (simp add: reconcile_prs_parts b c w3 r)
  qed (simp add: reconcile_prs_parts b w2)
qed

lemma Reconcile_keeps:
  "upserting P rb \<Longrightarrow> applying P rb \<Longrightarrow> keeps_law P (Reconcile rb n es)"
  by (rule keeps_lawI) (auto simp: Reconcile_def reconcile_prs_keeps split: option.split sum.split)

section \<open>Upserts\<close>

locale upsert_law =
  fixes P :: "gtd_db \<Rightarrow> bool"
  assumes upsert: "P g \<Longrightarrow> upsert_row (new_candidate ts scope now nid p) g = Inr g' \<Longrightarrow> P g'"
begin

lemma UpsertCandidate_sq_keeps: "env_keeps P x \<Longrightarrow> keeps_law P (UpsertCandidate_sq x scope p)"
proof (rule keeps_lawI)
  fix w assume r: "env_keeps P x" and w: "holds_in P w"
  show "holds_in P (snd (UpsertCandidate_sq x scope p w))"
  proof (cases "validateUpsertParams p")
    case None
    have "keeps_law P (operation x (\<lambda>k s.
          if x_fault x k 0 then (Inl (CandidateDatabase ''upsert''), s)
          else case upsert_row (new_candidate sq_ts scope (x_now x k) (x_fresh x k) p) (rd_gtd s) of
              Inl e \<Rightarrow> (Inl e, s)
            | Inr g \<Rightarrow>
                (let s' = x_env x k 1 (s\<lparr>rd_gtd := g\<rparr>) in
                 if x_fault x k 1 then (Inl (CandidateDatabase ''fetch''), s')
                 else (fetch_candidate (up_task p) (up_reason p) (rd_gtd s'), s'))))"
      by (rule operation_keeps [OF r]) (auto simp: Let_def split: sum.split dest: upsert intro!: env_keepsD [OF r])
    with None w show ?thesis by (simp add: UpsertCandidate_sq_def keeps_law_def)
  qed (simp add: UpsertCandidate_sq_def w)
qed

lemma UpsertCandidate_pg_keeps: "env_keeps P x \<Longrightarrow> keeps_law P (UpsertCandidate_pg x scope p)"
proof (rule keeps_lawI)
  fix w assume r: "env_keeps P x" and w: "holds_in P w"
  show "holds_in P (snd (UpsertCandidate_pg x scope p w))"
  proof (cases "validateUpsertParams p")
    case None
    have "keeps_law P (operation x (\<lambda>k s.
          if x_fault x k 0 then (Inl (CandidateDatabase ''upsert''), s)
          else case upsert_row (new_candidate pg_ts scope (x_now x k) (x_fresh x k) p) (rd_gtd s) of
              Inl e \<Rightarrow> (Inl e, s)
            | Inr g \<Rightarrow> (fetch_candidate (up_task p) (up_reason p) g, s\<lparr>rd_gtd := g\<rparr>)))"
      by (rule operation_keeps [OF r]) (auto split: sum.split dest: upsert)
    with None w show ?thesis by (simp add: UpsertCandidate_pg_def keeps_law_def)
  qed (simp add: UpsertCandidate_pg_def w)
qed

lemma record_hits_keeps: "(\<And>p. keeps_law P (up p)) \<Longrightarrow> keeps_law P (record_hits up ps)"
proof (rule keeps_lawI)
  fix w assume up: "\<And>p. keeps_law P (up p)" and w: "holds_in P w"
  from w show "holds_in P (snd (record_hits up ps w))"
  proof (induction ps arbitrary: w)
    case (Cons p ps)
    obtain r w1 where r: "up p w = (r, w1)" by fastforce
    have "holds_in P w1" by (rule keeps_lawD [OF up r Cons.prems])
    with Cons.IH [of w1] show ?case by (auto simp: r split: prod.split sum.split)
  qed simp
qed

lemma run_rule_keeps:
  assumes r: "env_keeps P x" and up: "\<And>p. keeps_law P (up p)"
  shows "keeps_law P (run_rule x up rule)"
proof (rule keeps_lawI)
  fix w assume w: "holds_in P w"
  let ?query = "operation x (\<lambda>k s. if x_fault x k 0 then (Inl (CandidateDatabase ''query''), s) else (Inr (rule (x_now x k) (rd_gtd s)), s))"
  have "keeps_law P ?query" by (rule operation_keeps [OF r]) auto
  moreover obtain q w1 where q: "?query w = (q, w1)" by fastforce
  ultimately have "holds_in P w1" by (rule keeps_lawD [OF _ _ w])
  with record_hits_keeps [OF up] show "holds_in P (snd (run_rule x up rule w))"
    by (auto simp: run_rule_def q keeps_law_def split: sum.split)
qed

lemma run_rules_keeps:
  assumes r: "env_keeps P x" and up: "\<And>p. keeps_law P (up p)"
  shows "keeps_law P (run_rules x up rules)"
proof (rule keeps_lawI)
  fix w assume "holds_in P w"
  then show "holds_in P (snd (run_rules x up rules w))"
  proof (induction rules arbitrary: w)
    case (Cons rule rules)
    obtain q w1 where q: "run_rule x up rule w = (q, w1)" by fastforce
    have "holds_in P w1" by (rule keeps_lawD [OF run_rule_keeps [OF r up] q Cons.prems])
    with Cons.IH [of w1] show ?case by (auto simp: q split: prod.split sum.split)
  qed simp
qed

lemma DetectAndUpsert_sq_keeps: "env_keeps P x \<Longrightarrow> keeps_law P (DetectAndUpsert_sq x log_id scope p)"
  unfolding DetectAndUpsert_sq_def Let_def by (intro run_rules_keeps UpsertCandidate_sq_keeps)

lemma DetectAndUpsert_pg_keeps: "env_keeps P x \<Longrightarrow> keeps_law P (DetectAndUpsert_pg x pg_text log_id scope p)"
  unfolding DetectAndUpsert_pg_def Let_def by (intro run_rules_keeps UpsertCandidate_pg_keeps)

lemma sqlite_upserting: "env_keeps P x \<Longrightarrow> upserting P (sqlite_backend x scope)"
  by (simp add: upserting_def sqlite_backend_def reading_gtd_keeps reading_repos_keeps Upsert_sq_def observe_keeps
      UpsertCandidate_sq_keeps)

lemma postgres_upserting: "env_keeps P x \<Longrightarrow> upserting P (postgres_backend x scope)"
  by (simp add: upserting_def postgres_backend_def reading_gtd_keeps reading_repos_keeps Upsert_pg_def observe_keeps
      UpsertCandidate_pg_keeps)

end

section \<open>Settling candidates and closing tasks\<close>

locale candidate_law = upsert_law +
  assumes auto_apply: "P g \<Longrightarrow> auto_apply_row (auto_applied_row ts scope now nid i refs a) g = Inr g' \<Longrightarrow> P g'"
    and prune: "P g \<Longrightarrow> P (snd (prune_resolved old g))"
begin

lemma write_auto_applied_keeps: "env_keeps P x \<Longrightarrow> keeps_law P (write_auto_applied ts x scope i refs a)"
proof (rule keeps_lawI)
  fix w assume r: "env_keeps P x" and w: "holds_in P w"
  have "keeps_law P (operation x (\<lambda>k s. if x_fault x k 0 then (Inl (CandidateDatabase ''auto apply''), s)
        else case auto_apply_row (auto_applied_row ts scope (x_now x k) (x_fresh x k) i refs a) (rd_gtd s) of
            Inl e \<Rightarrow> (Inl e, s) | Inr g \<Rightarrow> (Inr (), s\<lparr>rd_gtd := g\<rparr>)))"
    by (rule operation_keeps [OF r]) (auto split: sum.split dest: auto_apply)
  with w show "holds_in P (snd (write_auto_applied ts x scope i refs a w))"
    by (simp add: write_auto_applied_def keeps_law_def)
qed

lemma pruned_keeps: "P g \<Longrightarrow> P (snd (PruneResolved_sq now d g))" "P g \<Longrightarrow> P (snd (PruneResolved_pg now d g))"
  by (simp_all add: PruneResolved_sq_def PruneResolved_pg_def prune)

end

locale reconcile_law = candidate_law +
  assumes batch: "P g \<Longrightarrow> P (snd (BatchCompleteTasksByPRMatch fault scope now ms g))"
    and batch_pg: "P g \<Longrightarrow> P (snd (BatchCompleteTasksByPRMatch_pg fault scope now ms g))"
begin

lemma completing_keeps:
  assumes r: "env_keeps P x" and b: "\<And>fault now g. P g \<Longrightarrow> P (snd (b fault now ms g))"
  shows "keeps_law P (completing x b ms)"
proof (rule keeps_lawI)
  fix w assume w: "holds_in P w"
  have "keeps_law P (operation x (\<lambda>k s. case b (x_fault x k) (x_now x k) ms (rd_gtd s) of (r, g) \<Rightarrow> (r, s\<lparr>rd_gtd := g\<rparr>)))"
    by (rule operation_keeps [OF r]) (use b in \<open>auto simp: split_beta\<close>)
  with w show "holds_in P (snd (completing x b ms w))" by (simp add: completing_def keeps_law_def)
qed

lemma sqlite_applying: "env_keeps P x \<Longrightarrow> applying P (sqlite_backend x scope)"
  by (simp add: applying_def sqlite_backend_def WriteAutoApplied_sq_def write_auto_applied_keeps completing_keeps batch)

lemma postgres_applying: "env_keeps P x \<Longrightarrow> applying P (postgres_backend x scope)"
  by (simp add: applying_def postgres_backend_def WriteAutoApplied_pg_def write_auto_applied_keeps completing_keeps batch_pg)

end

end
