(* ===== verification/Candidate_Facts.thy ===== *)
theory Candidate_Facts
  imports Candidate_Laws Gtd_Deletion
begin

text \<open>
  The properties of the candidate table and of detection: what no operation breaks, which tasks the two
  backends call stale, and which audit rows the note-searching rules can ever hit.
\<close>

section \<open>One statement on the table\<close>

lemma put_candidate_Inr:
  "put_candidate c f g = Inr g' \<Longrightarrow> cc_id c \<notin> cc_id ` set (candidates g) \<and> cc_confidence c \<in> set known_confidences \<and>
     g' = g\<lparr>candidates := (if list_ex (for_key (cc_task c) (cc_reason c)) (candidates g)
       then update_rows (for_key (cc_task c) (cc_reason c)) f (candidates g) else candidates g @ [c])\<rparr>"
  by (auto simp: put_candidate_def split: if_splits)

lemma put_candidate_rows:
  assumes "put_candidate c f g = Inr g'" "r \<in> set (candidates g')"
  shows "r = c \<or> r \<in> set (candidates g) \<or> (\<exists>r0 \<in> set (candidates g). for_key (cc_task c) (cc_reason c) r0 \<and> r = f r0)"
  using put_candidate_Inr [OF assms(1)] assms(2) by (auto simp: set_update_rows split: if_splits)

lemma batch_candidates [simp]:
  "candidates (snd (BatchCompleteTasksByPRMatch fault scope now ms g)) = candidates g"
  by (auto simp: BatchCompleteTasksByPRMatch_def split: sum.split dest: batch_close_closed)

lemma apply_matches_candidates:
  "candidates (snd (apply_matches_pg fault scope at n ms (applied, pending, g))) = candidates g"
  by (induction ms arbitrary: n applied pending g) (simp_all add: Let_def)

lemma batch_pg_candidates [simp]:
  "candidates (snd (BatchCompleteTasksByPRMatch_pg fault scope now ms g)) = candidates g"
  by (simp add: BatchCompleteTasksByPRMatch_pg_def apply_matches_candidates)

section \<open>The table\<close>

definition candidate_ok :: "candidate \<Rightarrow> bool" where
  "candidate_ok c \<longleftrightarrow> cc_confidence c \<in> set known_confidences \<and> cc_status c \<in> {CandidatePending, CandidateAutoApplied} \<and>
     (cc_resolved c \<noteq> None \<longleftrightarrow> cc_status c = CandidateAutoApplied)"

definition table_ok :: "gtd_db \<Rightarrow> bool" where
  "table_ok g \<longleftrightarrow> distinct (map (\<lambda>c. (cc_task c, cc_reason c)) (candidates g)) \<and> distinct (map cc_id (candidates g)) \<and>
     list_all candidate_ok (candidates g)"

definition keeps_key :: "(candidate \<Rightarrow> candidate) \<Rightarrow> bool" where
  "keeps_key f \<longleftrightarrow> (\<forall>c. cc_id (f c) = cc_id c \<and> cc_task (f c) = cc_task c \<and> cc_reason (f c) = cc_reason c)"

lemma put_keeps_table:
  assumes put: "put_candidate c f g = Inr g'" and ok: "table_ok g"
    and c: "candidate_ok c" and f: "keeps_key f" "\<And>r. candidate_ok r \<Longrightarrow> candidate_ok (f r)"
  shows "table_ok g'"
proof (cases "list_ex (for_key (cc_task c) (cc_reason c)) (candidates g)")
  case True
  let ?rows = "update_rows (for_key (cc_task c) (cc_reason c)) f (candidates g)"
  have "map (\<lambda>c. (cc_task c, cc_reason c)) ?rows = map (\<lambda>c. (cc_task c, cc_reason c)) (candidates g)"
    "map cc_id ?rows = map cc_id (candidates g)"
    using f(1) by (auto simp: keeps_key_def intro!: map_update_rows)
  with ok put_candidate_Inr [OF put] True f(2) show ?thesis
    by (auto simp: table_ok_def list_all_iff set_update_rows)
next
  case False
  then have "\<forall>r \<in> set (candidates g). (cc_task r, cc_reason r) \<noteq> (cc_task c, cc_reason c)"
    by (auto simp: list_ex_iff for_key_def)
  with ok put_candidate_Inr [OF put] False c show ?thesis by (auto simp: table_ok_def)
qed

lemma upsert_keeps_table:
  assumes ok: "table_ok g" and row: "upsert_row (new_candidate ts scope now nid p) g = Inr g'"
  shows "table_ok g'"
proof -
  have "cc_confidence (new_candidate ts scope now nid p) \<in> set known_confidences"
    using put_candidate_Inr [OF row [unfolded upsert_row_def]] by simp
  then show ?thesis
    by (intro put_keeps_table [OF row [unfolded upsert_row_def] ok])
      (auto simp: candidate_ok_def new_candidate_def keeps_key_def refresh_candidate_def)
qed

lemma auto_apply_keeps_table:
  assumes ok: "table_ok g" and row: "auto_apply_row (auto_applied_row ts scope now nid i refs a) g = Inr g'"
  shows "table_ok g'"
  by (intro put_keeps_table [OF row [unfolded auto_apply_row_def] ok])
    (auto simp: candidate_ok_def auto_applied_row_def keeps_key_def apply_candidate_def known_confidences_def)

lemma filter_keeps_table: "table_ok g \<Longrightarrow> table_ok (g\<lparr>candidates := filter Q (candidates g)\<rparr>)"
  by (auto simp: table_ok_def distinct_map_filter list_all_iff)

interpretation table: reconcile_law table_ok
proof
  show "table_ok g \<Longrightarrow> upsert_row (new_candidate ts scope now nid p) g = Inr g' \<Longrightarrow> table_ok g'" for g ts scope now nid p g'
    by (rule upsert_keeps_table)
  show "table_ok g \<Longrightarrow> auto_apply_row (auto_applied_row ts scope now nid i refs a) g = Inr g' \<Longrightarrow> table_ok g'"
    for g ts scope now nid i refs a g'
    by (rule auto_apply_keeps_table)
  show "table_ok g \<Longrightarrow> table_ok (snd (prune_resolved old g))" for g old
    by (simp add: prune_resolved_def Let_def filter_keeps_table)
qed (simp_all add: table_ok_def)

text \<open>What upserts, auto-applied rows and prunes leave alone: every table but this one.\<close>

definition elsewhere :: "gtd_db \<Rightarrow> gtd_db \<Rightarrow> bool" where
  "elsewhere g0 g \<longleftrightarrow> g\<lparr>candidates := []\<rparr> = g0\<lparr>candidates := []\<rparr>"

lemma elsewhere_tables: "elsewhere g0 g \<Longrightarrow> tasks g = tasks g0 \<and> projects g = projects g0 \<and> activity_log g = activity_log g0"
  by (cases g; cases g0) (simp add: elsewhere_def)

interpretation frame: candidate_law "elsewhere g0" for g0
  by unfold_locales
    (auto simp: elsewhere_def upsert_row_def auto_apply_row_def prune_resolved_def Let_def dest!: put_candidate_Inr)

text \<open>Upserts mark no task as closed automatically.\<close>

definition auto_only :: "uuid set \<Rightarrow> gtd_db \<Rightarrow> bool" where
  "auto_only A g \<longleftrightarrow> (\<forall>c \<in> set (candidates g). cc_status c = CandidateAutoApplied \<longrightarrow> cc_task c \<in> A)"

interpretation settled: upsert_law "auto_only A" for A
  by unfold_locales
    (auto simp: auto_only_def upsert_row_def new_candidate_def refresh_candidate_def dest!: put_candidate_rows)

section \<open>Every operation\<close>

inductive candidate_step :: "run_of \<Rightarrow> world \<Rightarrow> world \<Rightarrow> bool" for x :: run_of where
  upsert_sq: "UpsertCandidate_sq x scope p w = (r, w') \<Longrightarrow> candidate_step x w w'"
| upsert_pg: "UpsertCandidate_pg x scope p w = (r, w') \<Longrightarrow> candidate_step x w w'"
| auto_sq: "WriteAutoApplied_sq x scope i refs a w = (q, w') \<Longrightarrow> candidate_step x w w'"
| auto_pg: "WriteAutoApplied_pg x scope i refs a w = (q, w') \<Longrightarrow> candidate_step x w w'"
| detect_sq: "DetectAndUpsert_sq x log_id scope d w = (cs, w') \<Longrightarrow> candidate_step x w w'"
| detect_pg: "DetectAndUpsert_pg x pg_text log_id scope d w = (cs, w') \<Longrightarrow> candidate_step x w w'"
| reconcile_sq: "Reconcile (sqlite_backend x scope) bytes es w = (reply, w') \<Longrightarrow> candidate_step x w w'"
| reconcile_pg: "Reconcile (postgres_backend x scope) bytes es w = (reply, w') \<Longrightarrow> candidate_step x w w'"
| prune_sq: "candidate_step x w (w\<lparr>w_db := on_gtd (\<lambda>g. snd (PruneResolved_sq now old g)) (w_db w)\<rparr>)"
| prune_pg: "candidate_step x w (w\<lparr>w_db := on_gtd (\<lambda>g. snd (PruneResolved_pg now old g)) (w_db w)\<rparr>)"
| task_deleted: "candidate_step x w (w\<lparr>w_db := on_gtd (drop_candidates ids) (w_db w)\<rparr>)"

lemma candidate_step_keeps:
  assumes "candidate_step x w w'" and env: "env_keeps table_ok x" and ok: "holds_in table_ok w"
  shows "holds_in table_ok w'"
  using assms(1)
proof cases
  case upsert_sq
  then show ?thesis by (rule keeps_lawD [OF table.UpsertCandidate_sq_keeps [OF env] _ ok])
next
  case upsert_pg
  then show ?thesis by (rule keeps_lawD [OF table.UpsertCandidate_pg_keeps [OF env] _ ok])
next
  case auto_sq
  then show ?thesis unfolding WriteAutoApplied_sq_def by (rule keeps_lawD [OF table.write_auto_applied_keeps [OF env] _ ok])
next
  case auto_pg
  then show ?thesis unfolding WriteAutoApplied_pg_def by (rule keeps_lawD [OF table.write_auto_applied_keeps [OF env] _ ok])
next
  case detect_sq
  then show ?thesis by (rule keeps_lawD [OF table.DetectAndUpsert_sq_keeps [OF env] _ ok])
next
  case detect_pg
  then show ?thesis by (rule keeps_lawD [OF table.DetectAndUpsert_pg_keeps [OF env] _ ok])
next
  case reconcile_sq
  then show ?thesis
    by (rule keeps_lawD [OF Reconcile_keeps [OF table.sqlite_upserting [OF env] table.sqlite_applying [OF env]] _ ok])
next
  case reconcile_pg
  then show ?thesis
    by (rule keeps_lawD [OF Reconcile_keeps [OF table.postgres_upserting [OF env] table.postgres_applying [OF env]] _ ok])
qed (use ok in \<open>simp_all add: holds_in_def on_gtd_def table.pruned_keeps drop_candidates_def filter_keeps_table\<close>)

text \<open>
  C39. Whatever upserts, detections, reconcile calls, prunes and task deletions run, failing statements
  included, no two candidates share a task and reason, and a candidate is pending without a resolution
  time or applied automatically with one: nothing accepts or rejects.
\<close>

theorem candidate_table_kept:
  assumes "(candidate_step x)\<^sup>*\<^sup>* w w'" and "env_keeps table_ok x" and "holds_in table_ok w"
  shows "holds_in table_ok w'"
  using assms by (induction rule: rtranclp_induct) (auto intro: candidate_step_keeps)

section \<open>Stale tasks, on both backends\<close>

lemma date_le: "d * (24 * nanos_per_hour) \<le> t \<longleftrightarrow> d \<le> date_of t"
  unfolding date_of_def using zdiv_mono1 [of "d * (24 * nanos_per_hour)" t "24 * nanos_per_hour"]
  by (auto simp: nanos_per_hour_def)

lemma micro_floor: "k * 1000 \<le> t \<longleftrightarrow> k * 1000 \<le> pg_ts t"
  by (simp add: pg_ts_def) linarith

lemma earlier_date: "lt_datetime t (hours_ago now h) \<Longrightarrow> t < hours_ago (pg_ts now) h"
proof -
  let ?D = "24 * nanos_per_hour"
  assume "lt_datetime t (hours_ago now h)"
  then have t: "t < date_of (hours_ago now h) * ?D"
    using date_le [of "date_of (hours_ago now h)" t] by (simp add: lt_datetime_def)
  have "date_of (hours_ago now h) * ?D \<le> hours_ago now h" using date_le by blast
  then have "(date_of (hours_ago now h) * 24 * 3600 * 1000000 + h * 3600 * 1000000) * 1000 \<le> now"
    by (simp add: hours_ago_def nanos_per_hour_def)
  then have "(date_of (hours_ago now h) * 24 * 3600 * 1000000 + h * 3600 * 1000000) * 1000 \<le> pg_ts now"
    by (rule micro_floor [THEN iffD1])
  with t show ?thesis by (simp add: hours_ago_def nanos_per_hour_def)
qed

lemma day_earlier: "t < hours_ago (pg_ts now) (h + 24) \<Longrightarrow> lt_datetime t (hours_ago now h)"
proof -
  assume t: "t < hours_ago (pg_ts now) (h + 24)"
  have "pg_ts now \<le> now" by (simp add: pg_ts_def)
  with t have "t < now - h * nanos_per_hour - 24 * nanos_per_hour"
    by (simp add: hours_ago_def algebra_simps)
  then have "date_of t \<le> date_of (hours_ago now h - 24 * nanos_per_hour)"
    unfolding date_of_def by (intro zdiv_mono1) (simp_all add: hours_ago_def nanos_per_hour_def)
  also have "\<dots> = date_of (hours_ago now h) - 1"
    by (simp add: date_of_def nanos_per_hour_def)
  finally show ?thesis by (simp add: lt_datetime_def)
qed

lemma lookback_bounds:
  "days_ago (pg_ts now) d < t \<Longrightarrow> t \<le> now \<Longrightarrow> gt_datetime t (days_ago now d) \<or> t < days_ago now d"
  "gt_datetime t (days_ago now d) \<Longrightarrow> days_ago now (d + 1) < t"
proof -
  show "days_ago (pg_ts now) d < t \<Longrightarrow> t \<le> now \<Longrightarrow> gt_datetime t (days_ago now d) \<or> t < days_ago now d"
    unfolding gt_datetime_def date_of_def by (auto intro!: zdiv_mono1 simp: nanos_per_hour_def)
  assume "gt_datetime t (days_ago now d)"
  then have t: "date_of (days_ago now d) * (24 * nanos_per_hour) \<le> t"
    by (simp add: gt_datetime_def date_le)
  have "days_ago now d < (date_of (days_ago now d) + 1) * (24 * nanos_per_hour)"
    using date_le [of "date_of (days_ago now d) + 1" "days_ago now d"] by linarith
  with t show "days_ago now (d + 1) < t" by (simp add: days_ago_def algebra_simps)
qed

text \<open>
  Of the tasks in progress, SQLite calls stale only those Postgres calls stale, and all those Postgres
  calls stale with a threshold a day longer: comparing texts of two formats delays a hit by up to a day.
\<close>

theorem stale_tasks_parity:
  assumes "h \<le> maxStaleHours"
  shows "up_task ` set (detectStaleInProgress_pg now ws (h + 24) s) \<subseteq> up_task ` set (detectStaleInProgress_sq now ws h s) \<and>
    up_task ` set (detectStaleInProgress_sq now ws h s) \<subseteq> up_task ` set (detectStaleInProgress_pg now ws h s)"
proof -
  have sq: "up_task ` set (detectStaleInProgress_sq now ws h s) =
      t_id ` {t \<in> set (tasks s). t_status t = InProgress \<and> in_scope ws (t_workspace t) \<and> lt_datetime (t_updated t) (hours_ago now h)}"
    using assms by (auto simp: detectStaleInProgress_sq_def stale_tasks_def hit_def image_iff Let_def)
  have pg: "up_task ` set (detectStaleInProgress_pg now ws k s) =
      t_id ` {t \<in> set (tasks s). t_status t = InProgress \<and> in_scope ws (t_workspace t) \<and> t_updated t < hours_ago (pg_ts now) k}" for k
    by (auto simp: detectStaleInProgress_pg_def stale_tasks_def hit_def image_iff)
  show ?thesis unfolding sq pg by (auto dest: day_earlier earlier_date)
qed

section \<open>What the note-searching rules can hit\<close>

lemma uuid_text_runes: "r \<in> set (uuid_text i) \<Longrightarrow> r = 45 \<or> (48 \<le> r \<and> r \<le> 57) \<or> (97 \<le> r \<and> r \<le> 102)"
proof -
  assume "r \<in> set (uuid_text i)"
  then have "r = 45 \<or> r \<in> set (map hex_digit (uuid_nibbles i))"
    by (auto simp: uuid_text_def Let_def simp del: set_map dest!: in_set_takeD in_set_dropD)
  moreover have "n < 16" if "n \<in> set (uuid_nibbles i)" for n using that by (rule uuid_nibbles_bound)
  ultimately show ?thesis by (fastforce simp: hex_digit_def)
qed

lemma uuid_text_dash: "45 \<in> set (uuid_text i)"
  by (simp add: uuid_text_def Let_def)

lemma uuid_text_lower [simp]: "map ascii_lower (uuid_text i) = uuid_text i"
  by (rule map_idI) (auto simp: ascii_lower_def dest: uuid_text_runes)

lemma ascii_byte_len: "\<forall>r \<in> set s. r < 128 \<Longrightarrow> byte_len s = length s"
  by (induction s) (auto simp: byte_len_def utf8_len_def)

lemma uuid_text_stored: "Notes (truncate_notes (uuid_text i)) = uuid_text i"
proof -
  have "byte_len (uuid_text i) = 36"
    by (subst ascii_byte_len) (auto dest: uuid_text_runes)
  then have "truncate_notes (uuid_text i) = uuid_text i" by (simp add: truncate_notes_def maxNotesBytes_def)
  moreover have "strip_controls (uuid_text i) = uuid_text i"
    by (rule strip_controls_id) (auto simp: visible_rune_def dest: uuid_text_runes)
  ultimately show ?thesis by (simp add: Notes_def Let_def)
qed

lemma sublist_same_length: "sublist xs ys \<Longrightarrow> length xs = length ys \<Longrightarrow> xs = ys"
  by (auto simp: sublist_def)

lemma decimal_runes: "r \<in> set (decimal n) \<Longrightarrow> 48 \<le> r \<and> r \<le> 57"
  by (induction n rule: decimal.induct) (subst (asm) (2) decimal.simps, auto split: if_splits)

lemma strip_controls_subset: "set (strip_controls s) \<subseteq> set s"
proof (induction s rule: strip_controls.induct)
  case (2 r s)
  have csi: "set (skip_csi t) \<subseteq> set t" for t by (induction t) auto
  have "set (skipAnsi s) \<subseteq> set s" using csi by (cases s) auto
  with 2 show ?case by (auto split: if_splits)
qed simp

lemma Notes_subset: "set (Notes s) \<subseteq> set s"
  using strip_controls_subset [of s] by (auto simp: Notes_def Let_def dest: in_set_takeD)

lemma like_dash: "like_sq (nullIfEmpty n) (uuid_text i) \<or> like_pg (nullIfEmpty n) (uuid_text i) \<Longrightarrow> 45 \<in> set n"
proof -
  assume "like_sq (nullIfEmpty n) (uuid_text i) \<or> like_pg (nullIfEmpty n) (uuid_text i)"
  then have "sublist (uuid_text i) (map ascii_lower n) \<or> sublist (uuid_text i) n"
    by (auto simp: like_sq_def like_pg_def nullIfEmpty_def split: if_splits)
  then have "45 \<in> set (map ascii_lower n) \<or> 45 \<in> set n"
    using uuid_text_dash [of i] set_mono_sublist by blast
  then show ?thesis by (auto simp: ascii_lower_def split: if_splits)
qed

lemma like_uuid: "like_sq (nullIfEmpty (uuid_text j)) (uuid_text i) \<or> like_pg (nullIfEmpty (uuid_text j)) (uuid_text i) \<Longrightarrow> i = j"
  by (auto simp: like_sq_def like_pg_def nullIfEmpty_def uuid_text_inj split: if_splits dest!: sublist_same_length)

text \<open>
  Of the audit rows the MCP middleware writes, the completion-signal rule hits only those of
  \<open>update_task\<close> calls, and the artifact rule none whose session identifier is not the task's own: neither
  is a sign that the task is done.
\<close>

theorem detection_sources:
  assumes "autoLogEntry items tool arg = Some e" and "a = auto_log_row scope project at e"
    and "like_sq (a_notes a) (uuid_text i) \<or> like_pg (a_notes a) (uuid_text i)"
  shows "(a_action a \<in> set signal_actions \<longrightarrow> tool = ''update_task'') \<and>
    (a_action a \<in> set evidence_actions \<longrightarrow> (\<forall>sid. arg ''session_id'' = uuid_text sid \<longrightarrow> sid = i))"
proof -
  have logged: "a_notes a = nullIfEmpty (Notes (snd e))" and action: "a_action a = fst e"
    by (simp_all add: assms(2) auto_log_row_def)
  have plan: "45 \<notin> set (Notes (lit ''phases='' @ decimal m @ lit '' decisions='' @ decimal n))" for m n
  proof
    assume "45 \<in> set (Notes (lit ''phases='' @ decimal m @ lit '' decisions='' @ decimal n))"
    with Notes_subset have "45 \<in> set (lit ''phases='' @ decimal m @ lit '' decisions='' @ decimal n)" by blast
    then show False by (auto dest: decimal_runes)
  qed
  have dash: "45 \<in> set (Notes (snd e))" using like_dash assms(3) logged by metis
  have "tool = ''update_task''" if "a_action a \<in> set signal_actions"
    using assms(1) that action dash plan by (auto simp: autoLogEntry_def signal_actions_def split: if_splits)
  moreover have "sid = i" if "a_action a \<in> set evidence_actions" "arg ''session_id'' = uuid_text sid" for sid
  proof -
    have "snd e = truncate_notes (uuid_text sid)"
      using assms(1) that action by (auto simp: autoLogEntry_def evidence_actions_def split: if_splits)
    with assms(3) logged like_uuid [of sid i] show ?thesis by (auto simp: uuid_text_stored)
  qed
  ultimately show ?thesis by blast
qed

section \<open>At concrete inputs\<close>

definition quiet_run :: run_of where
  "quiet_run = \<lparr>x_env = (\<lambda>_ _ s. s), x_fault = (\<lambda>_ _. False), x_fresh = of_nat, x_now = (\<lambda>k. 1000000 * int k)\<rparr>"

definition no_rows :: gtd_db where
  "no_rows = \<lparr>tasks = [], projects = [], activity_log = [], work_sessions = [], session_tasks = [], evidence = [],
     candidates = [], vision_items = [], decisions = [], knowledge_items = [], handoffs = [], procedural = [], tombstones = []\<rparr>"

definition no_world :: world where
  "no_world = \<lparr>w_db = \<lparr>rd_gtd = no_rows, rd_observed = [], rd_repos = []\<rparr>, w_step = 1\<rparr>"

definition ex_hit :: upsert_params where
  "ex_hit = hit None 9 ''artifact_evidence'' ''medium'' (lit ''ref'') []"

lemma quiet_env [simp]: "x_env quiet_run k n s = s" "x_fault quiet_run k n = False"
  by (simp_all add: quiet_run_def)

lemma quiet_keeps [simp]: "env_keeps P quiet_run"
  by (simp add: env_keeps_def)

lemma one_put:
  "put_candidate c f (g\<lparr>candidates := [r]\<rparr>) =
     (if cc_id c = cc_id r \<or> cc_confidence c \<notin> set known_confidences then Inl CandidateConstraint
      else Inr (g\<lparr>candidates := (if for_key (cc_task c) (cc_reason c) r then [f r] else [r, c])\<rparr>))"
  by (auto simp: put_candidate_def update_rows_def)

definition ex_pending :: candidate where
  "ex_pending = new_candidate sq_ts (Some 7) 1000000 1 ex_hit"

definition ex_upserted :: world where
  "ex_upserted = \<lparr>w_db = \<lparr>rd_gtd = no_rows\<lparr>candidates := [ex_pending]\<rparr>, rd_observed = [], rd_repos = []\<rparr>, w_step = 2\<rparr>"

lemma ex_pending_fields:
  "cc_id ex_pending = 1" "cc_task ex_pending = 9" "cc_reason ex_pending = ''artifact_evidence''" "cc_confidence ex_pending = ''medium''"
  by (simp_all add: ex_pending_def new_candidate_def ex_hit_def hit_def)

lemma ex_hit_valid: "validateUpsertParams ex_hit = None"
  by (simp add: validateUpsertParams_def validateReason_def validateConfidence_def known_reasons_def known_confidences_def
      ex_hit_def hit_def)

lemma first_upsert: "snd (UpsertCandidate_sq quiet_run (Some 7) ex_hit no_world) = ex_upserted"
proof -
  have "upsert_row ex_pending no_rows = Inr (no_rows\<lparr>candidates := [ex_pending]\<rparr>)"
    by (simp add: upsert_row_def put_candidate_def no_rows_def ex_pending_fields known_confidences_def)
  moreover have "new_candidate sq_ts (Some 7) (x_now quiet_run 1) (x_fresh quiet_run 1) ex_hit = ex_pending"
    by (simp add: ex_pending_def quiet_run_def)
  ultimately show ?thesis
    by (simp add: UpsertCandidate_sq_def ex_hit_valid operation_def no_world_def ex_upserted_def Let_def split: prod.split)
qed

lemma then_applied:
  "map cc_status (candidates (rd_gtd (w_db (snd (WriteAutoApplied_sq quiet_run (Some 7) 9 [] [] ex_upserted))))) = [CandidateAutoApplied]"
proof -
  let ?c = "auto_applied_row sq_ts (Some 7) (x_now quiet_run 2) (x_fresh quiet_run 2) 9 [] []"
  have fields: "cc_id ?c = 2" "cc_task ?c = 9" "cc_reason ?c = ''artifact_evidence''" "cc_confidence ?c \<in> set known_confidences"
    by (simp_all add: auto_applied_row_def quiet_run_def known_confidences_def)
  have "auto_apply_row ?c (no_rows\<lparr>candidates := [ex_pending]\<rparr>) = Inr (no_rows\<lparr>candidates := [apply_candidate ?c ex_pending]\<rparr>)"
    by (simp add: auto_apply_row_def one_put fields ex_pending_fields for_key_def)
  moreover have "cc_status (apply_candidate ?c ex_pending) = CandidateAutoApplied" by (simp add: apply_candidate_def)
  ultimately show ?thesis
    by (simp add: WriteAutoApplied_sq_def write_auto_applied_def operation_def ex_upserted_def)
qed

theorem candidate_table_kept_witness:
  "\<exists>w'. (candidate_step quiet_run)\<^sup>*\<^sup>* no_world w' \<and> map cc_status (candidates (rd_gtd (w_db w'))) = [CandidateAutoApplied] \<and>
     holds_in table_ok w'"
proof -
  let ?w = "snd (WriteAutoApplied_sq quiet_run (Some 7) 9 [] [] ex_upserted)"
  have "candidate_step quiet_run no_world ex_upserted" by (metis first_upsert candidate_step.upsert_sq prod.collapse)
  moreover have "candidate_step quiet_run ex_upserted ?w" by (metis candidate_step.auto_sq prod.collapse)
  ultimately have steps: "(candidate_step quiet_run)\<^sup>*\<^sup>* no_world ?w" by (meson converse_rtranclp_into_rtranclp r_into_rtranclp)
  have ok: "holds_in table_ok no_world" by (simp add: holds_in_def no_world_def no_rows_def table_ok_def)
  show ?thesis by (intro exI [of _ ?w] conjI steps then_applied candidate_table_kept [OF steps quiet_keeps ok])
qed

text \<open>At 10:00 a task last touched at 9:00 the day before is stale for Postgres, and not yet for SQLite.\<close>

definition ex_running :: task where
  "ex_running = \<lparr>t_id = 9, t_workspace = None, t_project = None, t_title = lit ''T'', t_description = None, t_status = InProgress,
     t_priority = 3, t_importance = None, t_context = None, t_assignee = Some (lit ''claude''), t_due = None, t_artifact = None,
     t_checklist = [], t_kind = ''general'', t_branch = None, t_pr_url = None, t_commit_shas = [], t_vision_item = None,
     t_created = 0, t_updated = (9 * 24 + 9) * nanos_per_hour, t_area = lit ''unsorted''\<rparr>"

definition ex_stale :: gtd_db where
  "ex_stale = no_rows\<lparr>tasks := [ex_running]\<rparr>"

theorem stale_tasks_parity_witness:
  "(24::int) \<le> maxStaleHours \<and>
   up_task ` set (detectStaleInProgress_sq ((10 * 24 + 10) * nanos_per_hour) None 24 ex_stale) = {} \<and>
   up_task ` set (detectStaleInProgress_pg ((10 * 24 + 10) * nanos_per_hour) None 24 ex_stale) = {9} \<and>
   up_task ` set (detectStaleInProgress_pg ((10 * 24 + 10) * nanos_per_hour) None (24 + 24) ex_stale) = {}"
proof -
  have "up_task ` set (detectStaleInProgress_sq ((10 * 24 + 10) * nanos_per_hour) None 24 ex_stale) = {}"
    by (simp add: detectStaleInProgress_sq_def maxStaleHours_def Let_def stale_tasks_def ex_stale_def ex_running_def no_rows_def
        lt_datetime_def date_of_def hours_ago_def nanos_per_hour_def)
  moreover have "up_task ` set (detectStaleInProgress_pg ((10 * 24 + 10) * nanos_per_hour) None 24 ex_stale) = {9}"
    by (simp add: detectStaleInProgress_pg_def stale_tasks_def ex_stale_def ex_running_def no_rows_def hours_ago_def
        nanos_per_hour_def pg_ts_def hit_def)
  ultimately show ?thesis
    using stale_tasks_parity [of 24 "(10 * 24 + 10) * nanos_per_hour" None ex_stale] by (simp add: maxStaleHours_def)
qed

theorem detection_sources_witness:
  "like_pg (a_notes (auto_log_row None None 0 (''worksession:finished'', truncate_notes (uuid_text 5)))) (uuid_text 5) \<and>
   (\<forall>sid. uuid_text 5 = uuid_text sid \<longrightarrow> sid = 5)"
proof -
  let ?e = "(''worksession:finished'', truncate_notes (uuid_text 5))"
  have entry: "autoLogEntry (\<lambda>_. 0) ''finish_work'' (\<lambda>_. uuid_text 5) = Some ?e" by (simp add: autoLogEntry_def)
  have "uuid_text 5 \<noteq> []" using uuid_text_dash [of 5] by auto
  then have like: "like_pg (a_notes (auto_log_row None None 0 ?e)) (uuid_text 5)"
    by (simp add: auto_log_row_def uuid_text_stored nullIfEmpty_def like_pg_def)
  have "a_action (auto_log_row None None 0 ?e) \<in> set evidence_actions" by (simp add: auto_log_row_def evidence_actions_def)
  with detection_sources [OF entry refl, of None None 0 5] like show ?thesis by auto
qed

end
