(* ===== verification/Reconcile_Facts.thy ===== *)
theory Reconcile_Facts
  imports Candidate_Facts Reconcile_Match
begin

text \<open>
  Reconcile calls end to end: what a candidate marked as applied stands for, what one quiet_calls call
  does to the tasks, and what a preview leaves alone.
\<close>

section \<open>Which candidates a call marks as applied\<close>

definition applied_ids :: "gtd_db \<Rightarrow> uuid set" where
  "applied_ids g = cc_task ` {c \<in> set (candidates g). cc_status c = CandidateAutoApplied}"

definition answered :: "reconcile_reply \<Rightarrow> uuid set" where
  "answered reply = (case reply of Reconciled resp \<Rightarrow> m_task ` {m. (m, True) \<in> set (rs_matches resp)} | _ \<Rightarrow> {})"

lemma auto_only_applied: "auto_only A g \<longleftrightarrow> applied_ids g \<subseteq> A"
  by (auto simp: auto_only_def applied_ids_def)

lemma auto_only_more: "auto_only A g \<Longrightarrow> A \<subseteq> B \<Longrightarrow> auto_only B g"
  by (auto simp: auto_only_def)

lemma auto_row_keeps:
  "i \<in> A \<Longrightarrow> auto_only A g \<Longrightarrow> auto_apply_row (auto_applied_row ts scope now nid i refs a) g = Inr g' \<Longrightarrow> auto_only A g'"
  by (auto simp: auto_only_def auto_apply_row_def auto_applied_row_def for_key_def apply_candidate_def dest!: put_candidate_rows)

lemma write_auto_keeps:
  assumes env: "env_keeps (auto_only A) x" and i: "i \<in> A"
  shows "keeps_law (auto_only A) (write_auto_applied ts x scope i refs a)"
proof (rule keeps_lawI)
  fix w assume w: "holds_in (auto_only A) w"
  have "keeps_law (auto_only A) (operation x (\<lambda>k s. if x_fault x k 0 then (Inl (CandidateDatabase ''auto apply''), s)
        else case auto_apply_row (auto_applied_row ts scope (x_now x k) (x_fresh x k) i refs a) (rd_gtd s) of
            Inl e \<Rightarrow> (Inl e, s) | Inr g \<Rightarrow> (Inr (), s\<lparr>rd_gtd := g\<rparr>)))"
    by (rule operation_keeps [OF env]) (auto split: sum.split dest: auto_row_keeps [OF i])
  with w show "holds_in (auto_only A) (snd (write_auto_applied ts x scope i refs a w))"
    by (simp add: write_auto_applied_def keeps_law_def)
qed

definition either_backend :: "run_of \<Rightarrow> uuid option \<Rightarrow> reconcile_backend \<Rightarrow> bool" where
  "either_backend x scope rb \<longleftrightarrow> rb = sqlite_backend x scope \<or> rb = postgres_backend x scope"

lemma either_upserting: "upsert_law P \<Longrightarrow> env_keeps P x \<Longrightarrow> either_backend x scope rb \<Longrightarrow> upserting P rb"
  by (auto simp: either_backend_def upsert_law.sqlite_upserting upsert_law.postgres_upserting)

lemma settled_law: "upsert_law (auto_only A)"
  by (rule settled.upsert_law_axioms)

lemma either_auto_applied:
  assumes rb: "either_backend x scope rb" and cs: "rb_candidates rb = Some cs" and env: "env_keeps (auto_only A) x" and i: "i \<in> A"
  shows "keeps_law (auto_only A) (co_auto_applied cs i refs a)"
  using rb cs write_auto_keeps [OF env i]
  by (auto simp: either_backend_def sqlite_backend_def postgres_backend_def WriteAutoApplied_sq_def WriteAutoApplied_pg_def)

lemma completing_candidates:
  assumes b: "\<And>fault now g. candidates (snd (batch fault now ms g)) = candidates g" and env: "env_keeps (auto_only A) x"
  shows "keeps_law (auto_only A) (completing x batch ms)"
proof (rule keeps_lawI)
  fix w assume w: "holds_in (auto_only A) w"
  have "keeps_law (auto_only A) (operation x (\<lambda>k s. case batch (x_fault x k) (x_now x k) ms (rd_gtd s) of (r, g) \<Rightarrow> (r, s\<lparr>rd_gtd := g\<rparr>)))"
    by (rule operation_keeps [OF env]) (simp add: auto_only_def b split_beta)
  with w show "holds_in (auto_only A) (snd (completing x batch ms w))" by (simp add: completing_def keeps_law_def)
qed

lemma either_complete:
  "either_backend x scope rb \<Longrightarrow> env_keeps (auto_only A) x \<Longrightarrow> keeps_law (auto_only A) (rb_complete rb ms)"
  by (auto simp: either_backend_def sqlite_backend_def postgres_backend_def intro!: completing_candidates)

lemma applied_answer: "answered (Reconciled (response_of r ids n k)) = m_task ` set (mr_matches r) \<inter> set ids"
  by (auto simp: answered_def response_of_def)

lemma reconcile_prs_applied:
  assumes rb: "either_backend x scope rb" and env: "\<And>A. env_keeps (auto_only A) x"
    and run: "reconcile_prs rb prs w = (reply, w')"
  shows "applied_ids (rd_gtd (w_db w')) \<subseteq> applied_ids (rd_gtd (w_db w)) \<union> answered reply"
proof -
  let ?A = "applied_ids (rd_gtd (w_db w))"
  have up: "upserting (auto_only B) rb" for B by (rule either_upserting [OF settled_law env rb])
  have w: "holds_in (auto_only ?A) w" by (simp add: holds_in_def auto_only_applied)
  obtain r resolve w2 where b: "before_closing rb prs w = (r, resolve, w2)" by (metis prod_cases3)
  have w2: "holds_in (auto_only ?A) w2" using before_closing_keeps [OF up w, of prs] by (simp add: b)
  show ?thesis
  proof (cases r)
    case (Inl e)
    then show ?thesis using run w2 by (auto simp: reconcile_prs_parts b holds_in_def auto_only_applied)
  next
    case r: (Inr res)
    obtain q w3 where c: "rb_complete rb (mr_matches res) w2 = (q, w3)" by fastforce
    have w3: "holds_in (auto_only ?A) w3" by (rule keeps_lawD [OF either_complete [OF rb env] c w2])
    show ?thesis
    proof (cases q)
      case (Inl e)
      then show ?thesis using run w3 by (auto simp: reconcile_prs_parts b r c holds_in_def auto_only_applied)
    next
      case (Inr ids)
      let ?B = "?A \<union> (m_task ` set (mr_matches res) \<inter> set ids)"
      have w3: "holds_in (auto_only ?B) w3" using w3 by (auto simp: holds_in_def intro: auto_only_more)
      have law: "rb_candidates rb = Some cs \<Longrightarrow> m \<in> set (mr_matches res) \<Longrightarrow> m_task m \<in> set ids \<Longrightarrow>
          keeps_law (auto_only ?B) (co_auto_applied cs (m_task m) [m_pr_url m] (m_pr_url m))" for cs and m :: pr_match
        by (rule either_auto_applied [OF rb _ env]) auto
      have w4: "holds_in (auto_only ?B) (snd (write_applied rb ids (mr_matches res) w3))"
        by (rule applied_keeps [OF law w3])
      obtain n1 v4 n2 v5 n3 v6 where d: "write_applied rb ids (mr_matches res) w3 = (n1, v4)"
        "writeFuzzyCandidates rb prs [] resolve v4 = (n2, v5)" "writeUnverifiedRepoCandidates rb (mr_unverified res) v5 = (n3, v6)"
        by (meson surj_pair)
      have v5: "holds_in (auto_only ?B) v5" using fuzzy_keeps [OF up, of ?B v4 prs "[]" resolve] w4 by (simp add: d)
      have v6: "holds_in (auto_only ?B) v6" using unverified_keeps [OF up, of ?B v5 "mr_unverified res"] v5 by (simp add: d)
      have "w' = v6" "reply = Reconciled (response_of res ids (n1 + n2 + n3) n3)"
        using run by (auto simp: reconcile_prs_parts b r c Inr d)
      with v6 show ?thesis by (simp add: holds_in_def auto_only_applied applied_answer)
    qed
  qed
qed

text \<open>
  C37. On either backend, whatever statements fail, a reconcile call leaves a candidate marked as applied only
  for tasks that had one before or that the answer reports as closed; a call that is refused or fails marks none.
\<close>

theorem applied_means_closed:
  assumes "either_backend x scope rb" and "\<And>A. env_keeps (auto_only A) x"
    and "Reconcile rb bytes decoded w = (reply, w')"
  shows "applied_ids (rd_gtd (w_db w')) \<subseteq> applied_ids (rd_gtd (w_db w)) \<union> answered reply"
  using assms(3) reconcile_prs_applied [OF assms(1,2)]
  by (auto simp: Reconcile_def split: if_splits option.splits sum.splits)

section \<open>An quiet_calls call\<close>

definition quiet_calls :: "run_of \<Rightarrow> bool" where
  "quiet_calls x \<longleftrightarrow> (\<forall>k n s. x_env x k n s = s) \<and> (\<forall>k n. \<not> x_fault x k n)"

definition sources :: "world \<Rightarrow> gtd_db \<times> repo_row list" where
  "sources w = (rd_gtd (w_db w), rd_repos (w_db w))"

lemma undisturbed_operation:
  "quiet_calls x \<Longrightarrow> operation x f w = (case f (w_step w) (w_db w) of (r, s) \<Rightarrow> (r, \<lparr>w_db = s, w_step = Suc (w_step w)\<rparr>))"
  by (simp add: quiet_calls_def operation_def)

lemma undisturbed_keeps: "quiet_calls x \<Longrightarrow> env_keeps P x"
  by (simp add: quiet_calls_def env_keeps_def)

lemma observe_sources: "quiet_calls x \<Longrightarrow> sources (snd (observe ts x scope p w)) = sources w"
  by (auto simp: observe_def undisturbed_operation sources_def split: prod.split sum.split)

lemma count_sources: "(\<And>p w. sources (snd (write p w)) = sources w) \<Longrightarrow> sources (snd (count_writes write ps w)) = sources w"
proof (induction ps arbitrary: w)
  case (Cons p ps)
  obtain r w1 where r: "write p w = (r, w1)" by fastforce
  with Cons.prems have "sources w1 = sources w" by (metis snd_conv)
  with Cons.IH [OF Cons.prems, of w1] show ?case by (auto simp: r split: prod.split sum.split)
qed simp

lemma persist_sources: "quiet_calls x \<Longrightarrow> sources (persistObservedPRs (sqlite_backend x scope) prs w) = sources w"
  by (simp add: persistObservedPRs_def sqlite_backend_def Upsert_sq_def count_sources observe_sources)

lemma before_closing_undisturbed:
  assumes x: "quiet_calls x" and g: "sources w = (g, rows)"
  shows "\<exists>w2. before_closing (sqlite_backend x scope) prs w =
      (Inr (match_prs (Tasks_sq scope None g) prs (NewRepoResolver (ProjectsFiltered scope ''all'' g) (ActiveRepos scope rows))),
       NewRepoResolver (ProjectsFiltered scope ''all'' g) (ActiveRepos scope rows), w2) \<and> rd_gtd (w_db w2) = g"
proof -
  let ?w = "persistObservedPRs (sqlite_backend x scope) prs w"
  have src: "rd_gtd (w_db ?w) = g" "rd_repos (w_db ?w) = rows"
    using persist_sources [OF x, of scope prs w] g by (auto simp: sources_def)
  have none: "match_prs ts [] resolve = empty_result" for ts resolve
    by (simp add: match_prs_def split: prod.split)
  obtain w0 where w0: "persistObservedPRs (sqlite_backend x scope) prs w = w0" by blast
  have fields: "rb_repos (sqlite_backend x scope) = Some (reading_repos x scope)"
    "rb_projects (sqlite_backend x scope) = reading_gtd x ''ProjectsFiltered'' (ProjectsFiltered scope ''all'')"
    "rb_tasks (sqlite_backend x scope) = reading_gtd x ''Tasks'' (Tasks_sq scope None)"
    by (simp_all add: sqlite_backend_def)
  have read: "reading_gtd x name f v = (Inr (f (rd_gtd (w_db v))), \<lparr>w_db = w_db v, w_step = Suc (w_step v)\<rparr>)" for name f v
    using x by (simp add: reading_gtd_def undisturbed_operation) (simp add: quiet_calls_def)
  have repos: "reading_repos x scope v = (Inr (ActiveRepos scope (rd_repos (w_db v))), \<lparr>w_db = w_db v, w_step = Suc (w_step v)\<rparr>)" for v
    using x by (simp add: reading_repos_def undisturbed_operation) (simp add: quiet_calls_def)
  show ?thesis
    using src unfolding w0 by (simp add: before_closing_def repoResolver_def matched_def none MatchMergedPRs_def fields read repos w0)
qed

lemma match_hits:
  assumes "closing (Tasks_sq scope None g) resolve {} prs ms" "m \<in> set ms"
  shows "\<exists>t \<in> set (tasks g). close_hit scope m t"
  using closing_justified [OF assms] by (auto simp: url_eligible_def on_branch_def set_Tasks close_hit_def task_row_def)

lemma complete_undisturbed:
  assumes x: "quiet_calls x" and hits: "\<And>m. m \<in> set ms \<Longrightarrow> \<exists>t \<in> set (tasks (rd_gtd (w_db w))). close_hit scope m t"
  shows "\<exists>ids w' at. rb_complete (sqlite_backend x scope) ms w = (Inr ids, w') \<and> set ids = m_task ` set ms \<and>
    tasks (rd_gtd (w_db w')) = map (closed_row scope (sq_ts at) ms) (tasks (rd_gtd (w_db w)))"
proof (cases "ms = []")
  case True
  have "map (closed_row scope at []) ts = ts" for at ts by (induction ts) (simp_all add: closed_row_simps)
  with True show ?thesis by (simp add: sqlite_backend_def completing_def)
next
  case False
  let ?at = "x_now x (w_step w)" and ?g = "rd_gtd (w_db w)"
  have "x_fault x (w_step w) = (\<lambda>_. False)" using x by (auto simp: quiet_calls_def)
  moreover obtain ids g' where run: "batch_close (\<lambda>_. False) scope (sq_ts ?at) 0 ms ([], ?g) = Inr (ids, g')"
    using batch_close_quiet by (metis surj_pair)
  ultimately have "rb_complete (sqlite_backend x scope) ms w =
      (Inr ids, \<lparr>w_db = (w_db w)\<lparr>rd_gtd := g'\<rparr>, w_step = Suc (w_step w)\<rparr>)"
    using x False by (simp add: sqlite_backend_def completing_def undisturbed_operation BatchCompleteTasksByPRMatch_def)
  moreover have "set ids = m_task ` set (effective scope (tasks ?g) ms)" and "tasks g' = map (closed_row scope (sq_ts ?at) ms) (tasks ?g)"
    using batch_close_closed [OF run] by simp_all
  moreover have "m_task ` set (effective scope (tasks ?g) ms) = m_task ` set ms"
  proof -
    have "m_task m \<in> t_id ` {t \<in> set (tasks ?g). \<exists>m \<in> set ms. close_hit scope m t}" if m: "m \<in> set ms" for m :: pr_match
    proof -
      obtain t where "t \<in> set (tasks ?g)" "close_hit scope m t" using hits [OF m] by blast
      with m have "t \<in> {t \<in> set (tasks ?g). \<exists>m \<in> set ms. close_hit scope m t}" "m_task m = t_id t"
        by (auto simp: close_hit_id)
      then show ?thesis by blast
    qed
    then show ?thesis unfolding effective_ids by (auto dest: close_hit_id)
  qed
  ultimately show ?thesis by auto
qed

text \<open>
  C36. An quiet_calls reconcile call over HTTP answers with the matches the abstract matcher allows on the
  open tasks of the scope, all of them applied, closes exactly their tasks and leaves every other task as it was.
\<close>

theorem reconcile_closes:
  assumes x: "quiet_calls x" and g: "sources w = (g, rows)"
    and es: "bytes \<le> reconcileMaxBodyBytes" "es \<noteq> []" "length es \<le> reconcileMaxEntries" "validateAndConvertMergedPRs es = Inr prs"
  shows "\<exists>resp w' ms at. Reconcile (sqlite_backend x scope) bytes (Some es) w = (Reconciled resp, w') \<and>
    closing (Tasks_sq scope None g) (NewRepoResolver (ProjectsFiltered scope ''all'' g) (ActiveRepos scope rows)) {} prs ms \<and>
    rs_matches resp = map (\<lambda>m. (m, True)) ms \<and> tasks (rd_gtd (w_db w')) = map (closed_row scope (sq_ts at) ms) (tasks g)"
proof -
  let ?rb = "sqlite_backend x scope"
  let ?resolve = "NewRepoResolver (ProjectsFiltered scope ''all'' g) (ActiveRepos scope rows)"
  let ?r = "match_prs (Tasks_sq scope None g) prs ?resolve"
  obtain w2 where b: "before_closing ?rb prs w = (Inr ?r, ?resolve, w2)" and w2: "rd_gtd (w_db w2) = g"
    using before_closing_undisturbed [OF x g] by blast
  have c: "closing (Tasks_sq scope None g) ?resolve {} prs (mr_matches ?r)" by (rule match_loop_closing)
  obtain ids w3 at where d: "rb_complete ?rb (mr_matches ?r) w2 = (Inr ids, w3)" and ids: "set ids = m_task ` set (mr_matches ?r)"
    and t: "tasks (rd_gtd (w_db w3)) = map (closed_row scope (sq_ts at) (mr_matches ?r)) (tasks g)"
    using complete_undisturbed [OF x, of "mr_matches ?r" w2 scope] match_hits [OF c] unfolding w2 by blast
  let ?P = "elsewhere (rd_gtd (w_db w3))"
  have env: "env_keeps ?P x" by (rule undisturbed_keeps [OF x])
  have up: "upserting ?P ?rb" by (rule frame.sqlite_upserting [OF env])
  have auto: "rb_candidates ?rb = Some cs \<Longrightarrow> keeps_law ?P (co_auto_applied cs i refs a)" for cs i refs a
    using frame.write_auto_applied_keeps [OF env] by (auto simp: sqlite_backend_def WriteAutoApplied_sq_def)
  obtain n1 w4 n2 w5 n3 w6 where e: "write_applied ?rb ids (mr_matches ?r) w3 = (n1, w4)"
    "writeFuzzyCandidates ?rb prs [] ?resolve w4 = (n2, w5)" "writeUnverifiedRepoCandidates ?rb (mr_unverified ?r) w5 = (n3, w6)"
    by (meson surj_pair)
  have "holds_in ?P w3" by (simp add: holds_in_def elsewhere_def)
  with applied_keeps [of ?rb "mr_matches ?r" ids ?P w3] auto have "holds_in ?P w4" by (simp add: e)
  with fuzzy_keeps [OF up, of w4 prs "[]" ?resolve] have "holds_in ?P w5" by (simp add: e)
  with unverified_keeps [OF up, of w5 "mr_unverified ?r"] have "holds_in ?P w6" by (simp add: e)
  then have "tasks (rd_gtd (w_db w6)) = map (closed_row scope (sq_ts at) (mr_matches ?r)) (tasks g)"
    using t by (simp add: holds_in_def elsewhere_tables)
  moreover have "Reconcile ?rb bytes (Some es) w = (Reconciled (response_of ?r ids (n1 + n2 + n3) n3), w6)"
    using es by (simp add: Reconcile_def reconcile_prs_parts b d e)
  moreover have "rs_matches (response_of ?r ids (n1 + n2 + n3) n3) = map (\<lambda>m. (m, True)) (mr_matches ?r)"
    by (simp add: response_of_def ids)
  ultimately show ?thesis using c by blast
qed

section \<open>A preview\<close>

text \<open>
  A preview, on either backend and whatever statements fail, closes no task, marks no candidate as
  applied, and of the rows it reads changes only candidates.
\<close>

theorem preview_closes_nothing:
  assumes rb: "either_backend x scope rb" and env: "env_keeps (elsewhere (rd_gtd (w_db w))) x"
      "env_keeps (auto_only (applied_ids (rd_gtd (w_db w)))) x"
    and run: "handleReconcileMergedPRsPreview rb now session token payload (ts, w) = (r, ts', w')"
  shows "elsewhere (rd_gtd (w_db w)) (rd_gtd (w_db w')) \<and> applied_ids (rd_gtd (w_db w')) \<subseteq> applied_ids (rd_gtd (w_db w))"
proof -
  have keeps: "holds_in P w'" if up: "upserting P rb" and w: "holds_in P w" for P
  proof (cases "\<exists>es prs. payload = Some (Some es) \<and> es \<noteq> [] \<and> \<not> reconcileMaxEntries < length es \<and> reconcileMCPValidate es = Inr prs")
    case False
    with run w show ?thesis
      by (fastforce simp: handleReconcileMergedPRsPreview_def split: option.splits if_splits sum.splits)
  next
    case True
    then obtain es prs where p: "payload = Some (Some es)" "es \<noteq> []" "\<not> reconcileMaxEntries < length es" "reconcileMCPValidate es = Inr prs"
      by blast
    obtain resolve w1 q w2 where a: "repoResolver rb (persistObservedPRs rb prs w) = (resolve, w1)" "matched rb prs resolve w1 = (q, w2)"
      by (meson surj_pair)
    have w2: "holds_in P w2"
      using persist_keeps [OF up w, of prs] resolver_keeps [OF up, of "persistObservedPRs rb prs w"] matched_keeps [OF up, of w1 prs resolve]
      by (simp add: a)
    show ?thesis
    proof (cases q)
      case (Inl e)
      with run w2 show ?thesis by (simp add: handleReconcileMergedPRsPreview_def p a)
    next
      case (Inr res)
      obtain n1 w3 n2 w4 where b: "writeFuzzyCandidates rb prs (map m_task (mr_matches res)) resolve w2 = (n1, w3)"
        "writeUnverifiedRepoCandidates rb (mr_unverified res) w3 = (n2, w4)"
        by (meson surj_pair)
      have "holds_in P w4"
        using fuzzy_keeps [OF up w2, of prs "map m_task (mr_matches res)" resolve] unverified_keeps [OF up, of w3 "mr_unverified res"]
        by (simp add: b)
      with run Inr show ?thesis
        by (auto simp: handleReconcileMergedPRsPreview_def p a b split: if_splits option.splits)
    qed
  qed
  have "holds_in (elsewhere (rd_gtd (w_db w))) w'"
    by (rule keeps [OF either_upserting [OF frame.upsert_law_axioms env(1) rb]]) (simp add: holds_in_def elsewhere_def)
  moreover have "holds_in (auto_only (applied_ids (rd_gtd (w_db w)))) w'"
    by (rule keeps [OF either_upserting [OF settled_law env(2) rb]]) (simp add: holds_in_def auto_only_applied)
  ultimately show ?thesis by (simp add: holds_in_def auto_only_applied)
qed

section \<open>At concrete inputs\<close>

definition ex_url :: ustr where
  "ex_url = lit ''https://github.com/acme/api/pull/7''"

definition ex_entry :: request_pr where
  "ex_entry = \<lparr>rq_url = ex_url, rq_head_ref = lit ''fix'', rq_merged_at = [], rq_title = [], rq_body = [], rq_repo = lit ''acme/api''\<rparr>"

definition ex_merged :: merged_pr where
  "ex_merged = \<lparr>mp_url = ex_url, mp_head_ref = lit ''fix'', mp_merged_at = None, mp_title = [], mp_body = [], mp_repo = lit ''acme/api''\<rparr>"

definition ex_pr_task :: task where
  "ex_pr_task = ex_running\<lparr>t_pr_url := Some ex_url\<rparr>"

definition ex_world :: world where
  "ex_world = \<lparr>w_db = \<lparr>rd_gtd = no_rows\<lparr>tasks := [ex_pr_task]\<rparr>, rd_observed = [], rd_repos = []\<rparr>, w_step = 1\<rparr>"

lemma ex_entry_converted: "validateAndConvertMergedPRs [ex_entry] = Inr [ex_merged]" "reconcileMCPValidate [ex_entry] = Inr [ex_merged]"
  by code_simp+

lemma ex_world_quiet: "quiet_calls quiet_run" "applied_ids (rd_gtd (w_db ex_world)) = {}"
  by (simp_all add: quiet_calls_def applied_ids_def ex_world_def no_rows_def)

lemma ex_tasks: "Tasks_sq None None (rd_gtd (w_db ex_world)) = [ex_pr_task]"
  by (simp add: Tasks_sq_def ex_world_def open_in_def ex_pr_task_def ex_running_def open_status_def)

inductive_cases closing_one: "closing ts resolve claimed [pr] ms"
inductive_cases closing_none: "closing ts resolve claimed [] ms"

lemma ex_closing:
  assumes "closing [ex_pr_task] resolve {} [ex_merged] ms"
  shows "ms = [match_of MatchReasonPRURLExact ex_merged ex_pr_task]"
proof -
  have "ex_url \<noteq> []" by (simp add: ex_url_def)
  then have eligible: "url_eligible [ex_pr_task] {} ex_merged ex_pr_task"
    by (simp add: url_eligible_def ex_pr_task_def ex_running_def open_status_def ex_merged_def)
  have picked: "t = ex_pr_task" if "most_recent (url_eligible [ex_pr_task] {} ex_merged) t" for t
    using that by (simp add: most_recent_def url_eligible_def)
  show ?thesis using assms
    by (rule closing_one) (use eligible picked in \<open>auto elim: closing_none\<close>)
qed

theorem reconcile_closes_witness:
  "\<exists>resp w'. Reconcile (sqlite_backend quiet_run None) 100 (Some [ex_entry]) ex_world = (Reconciled resp, w') \<and>
     map t_status (tasks (rd_gtd (w_db w'))) = [Completed]"
proof -
  obtain resp w' ms at where run: "Reconcile (sqlite_backend quiet_run None) 100 (Some [ex_entry]) ex_world = (Reconciled resp, w')"
    and c: "closing (Tasks_sq None None (rd_gtd (w_db ex_world)))
      (NewRepoResolver (ProjectsFiltered None ''all'' (rd_gtd (w_db ex_world))) (ActiveRepos None [])) {} [ex_merged] ms"
    and t: "tasks (rd_gtd (w_db w')) = map (closed_row None (sq_ts at) ms) (tasks (rd_gtd (w_db ex_world)))"
    using reconcile_closes [of quiet_run ex_world "rd_gtd (w_db ex_world)" "[]" 100 "[ex_entry]" "[ex_merged]" None]
    by (auto simp: ex_world_quiet ex_entry_converted sources_def ex_world_def reconcileMaxBodyBytes_def reconcileMaxEntries_def)
  have "close_hit None (match_of MatchReasonPRURLExact ex_merged ex_pr_task) ex_pr_task"
    by (simp add: close_hit_def task_row_def ex_pr_task_def ex_running_def open_status_def)
  then have "map t_status (tasks (rd_gtd (w_db w'))) = [Completed]"
    using ex_closing [OF c [unfolded ex_tasks]] t by (simp add: ex_world_def closed_row_simps close_row_def)
  then show ?thesis by (intro exI conjI) (rule run)
qed

theorem applied_means_closed_witness:
  "\<exists>reply w'. Reconcile (postgres_backend quiet_run None) 100 (Some [ex_entry]) ex_world = (reply, w') \<and>
     applied_ids (rd_gtd (w_db w')) \<subseteq> answered reply"
proof -
  obtain reply w' where run: "Reconcile (postgres_backend quiet_run None) 100 (Some [ex_entry]) ex_world = (reply, w')" by fastforce
  have "either_backend quiet_run None (postgres_backend quiet_run None)" by (simp add: either_backend_def)
  from applied_means_closed [OF this quiet_keeps run] run show ?thesis by (auto simp: ex_world_quiet)
qed

theorem preview_closes_nothing_witness:
  "\<exists>r ts w'. handleReconcileMergedPRsPreview (sqlite_backend quiet_run None) 0 [] [1] (Some (Some [ex_entry])) ([], ex_world) = (r, ts, w') \<and>
     tasks (rd_gtd (w_db w')) = [ex_pr_task]"
proof -
  obtain r ts w' where run: "handleReconcileMergedPRsPreview (sqlite_backend quiet_run None) 0 [] [1] (Some (Some [ex_entry])) ([], ex_world) = (r, ts, w')"
    by (metis prod_cases3)
  have "either_backend quiet_run None (sqlite_backend quiet_run None)" by (simp add: either_backend_def)
  from preview_closes_nothing [OF this quiet_keeps quiet_keeps run] run show ?thesis
    by (auto simp: ex_world_def dest: elsewhere_tables)
qed

end
