(* ===== verification/Reconcile_Tokens.thy ===== *)
theory Reconcile_Tokens
  imports Reconcile_Handler
begin

text \<open>
  The confirmation tokens under concurrent calls.  The tokens live in a \<open>sync.Map\<close>: a preview's sweep and
  its store, and a confirmation's \<open>Load\<close> and \<open>LoadAndDelete\<close>, are separate atomic steps, and steps of
  other calls come between.  A call that passed the checks (\<open>tk_passed\<close>) goes on to take its token, and only
  the one that gets it (\<open>tk_spent\<close>) runs \<open>confirm_apply\<close>.
\<close>

section \<open>The machine\<close>

record token_use =
  us_token :: ustr
  us_session :: ustr
  us_checked :: instant
  us_record :: confirmation

record token_state =
  tk_live :: tokens
  tk_issued :: "(ustr \<times> confirmation) list"
  tk_passed :: "token_use list"
  tk_spent :: "token_use list"

definition confirmation_of :: "instant \<Rightarrow> ustr \<Rightarrow> pr_match_result \<Rightarrow> confirmation" where
  "confirmation_of now session r =
     \<lparr>cf_matches = mr_matches r, cf_ambiguous = mr_ambiguous r, cf_no_match = mr_no_match r,
      cf_expires = now + reconcileTokenTTL, cf_session = session\<rparr>"

definition use_of :: "ustr \<Rightarrow> ustr \<Rightarrow> instant \<Rightarrow> confirmation \<Rightarrow> token_use" where
  "use_of token session now rec = \<lparr>us_token = token, us_session = session, us_checked = now, us_record = rec\<rparr>"

inductive token_step :: "token_state \<Rightarrow> token_state \<Rightarrow> bool" where
  swept: "token_step s (s\<lparr>tk_live := drop_expired now (tk_live s)\<rparr>)"
| stored: "token \<notin> fst ` set (tk_issued s) \<Longrightarrow> rec = confirmation_of now session r \<Longrightarrow>
     token_step s (s\<lparr>tk_live := AList.update token rec (tk_live s), tk_issued := (token, rec) # tk_issued s\<rparr>)"
| passed: "confirm_check now session token (tk_live s) = (Inr rec, ts) \<Longrightarrow>
     token_step s (s\<lparr>tk_live := ts, tk_passed := use_of token session now rec # tk_passed s\<rparr>)"
| refused: "confirm_check now session token (tk_live s) = (Inl e, ts) \<Longrightarrow> token_step s (s\<lparr>tk_live := ts\<rparr>)"
| taken: "u \<in> set (tk_passed s) \<Longrightarrow> take_token (us_token u) (tk_live s) = (True, ts) \<Longrightarrow>
     token_step s (s\<lparr>tk_live := ts, tk_passed := remove1 u (tk_passed s), tk_spent := u # tk_spent s\<rparr>)"
| lost: "u \<in> set (tk_passed s) \<Longrightarrow> take_token (us_token u) (tk_live s) = (False, ts) \<Longrightarrow>
     token_step s (s\<lparr>tk_live := ts, tk_passed := remove1 u (tk_passed s)\<rparr>)"

definition no_tokens :: token_state where
  "no_tokens = \<lparr>tk_live = [], tk_issued = [], tk_passed = [], tk_spent = []\<rparr>"

text \<open>A preview that is alone with its tokens sweeps, then stores.\<close>

lemma issue_is_sweep_then_store:
  "issue_token now session token r ts = Some ts' \<Longrightarrow>
     ts' = AList.update token (confirmation_of now session r) (drop_expired now ts) \<and> length (drop_expired now ts) < maxPendingReconciles"
  by (auto simp: issue_token_def confirmation_of_def Let_def split: if_splits)

text \<open>And one that confirms alone passes, then takes.\<close>

lemma confirm_is_pass_then_take:
  assumes "handleReconcileMergedPRsConfirm rb now session token (tk_live s, w) = (Inr answer, ts, w')"
  shows "\<exists>rec s1 s2. token_step s s1 \<and> token_step s1 s2 \<and> tk_live s2 = ts \<and>
    tk_spent s2 = use_of token session now rec # tk_spent s \<and> confirm_apply rb rec w = (Inr answer, w')"
proof -
  obtain rec ts1 where check: "confirm_check now session token (tk_live s) = (Inr rec, ts1)"
    and take: "take_token token ts1 = (True, ts)" and fin: "confirm_apply rb rec w = (Inr answer, w')"
    using assms by (auto simp: handleReconcileMergedPRsConfirm_def split: prod.splits sum.splits bool.splits)
  let ?u = "use_of token session now rec"
  let ?s1 = "s\<lparr>tk_live := ts1, tk_passed := ?u # tk_passed s\<rparr>"
  let ?s2 = "?s1\<lparr>tk_live := ts, tk_passed := remove1 ?u (tk_passed ?s1), tk_spent := ?u # tk_spent ?s1\<rparr>"
  have "token_step s ?s1" by (rule token_step.passed [OF check])
  moreover have "token_step ?s1 ?s2" by (rule token_step.taken) (use take in \<open>simp_all add: use_of_def\<close>)
  ultimately show ?thesis using fin by (intro exI [of _ rec] exI [of _ ?s1] exI [of _ ?s2]) simp
qed

section \<open>What holds in every reachable state\<close>

definition use_ok :: "(ustr \<times> confirmation) list \<Rightarrow> token_use \<Rightarrow> bool" where
  "use_ok issued u \<longleftrightarrow> (us_token u, us_record u) \<in> set issued \<and> us_session u = cf_session (us_record u) \<and>
     us_checked u \<le> cf_expires (us_record u)"

definition tokens_ok :: "token_state \<Rightarrow> bool" where
  "tokens_ok s \<longleftrightarrow> distinct (map fst (tk_issued s)) \<and> set (tk_live s) \<subseteq> set (tk_issued s) \<and>
     distinct (map us_token (tk_spent s)) \<and> us_token ` set (tk_spent s) \<inter> fst ` set (tk_live s) = {} \<and>
     (\<forall>u \<in> set (tk_passed s) \<union> set (tk_spent s). use_ok (tk_issued s) u)"

lemma check_Inr:
  "confirm_check now session token ts = (Inr rec, ts') \<Longrightarrow>
     ts' = ts \<and> (token, rec) \<in> set ts \<and> session = cf_session rec \<and> now \<le> cf_expires rec"
  by (auto simp: confirm_check_def dest: map_of_SomeD split: if_splits option.splits)

lemma check_Inl: "confirm_check now session token ts = (Inl e, ts') \<Longrightarrow> ts' = ts \<or> ts' = AList.delete token ts"
  by (auto simp: confirm_check_def split: if_splits option.splits)

lemma delete_keys: "fst ` set (AList.delete k ts) = fst ` set ts - {k}" "set (AList.delete k ts) \<subseteq> set ts"
  by (auto simp: AList.delete_eq)

lemma set_update_sub: "set (AList.update k v ts) \<subseteq> insert (k, v) (set ts)"
  by (induction ts) auto

lemma tokens_ok_fewer:
  assumes ok: "tokens_ok s" and ts: "set ts \<subseteq> set (tk_live s)" and us: "set us \<subseteq> set (tk_passed s)"
  shows "tokens_ok (s\<lparr>tk_live := ts, tk_passed := us\<rparr>)"
proof -
  have "fst ` set ts \<subseteq> fst ` set (tk_live s)" by (rule image_mono [OF ts])
  with ok have "us_token ` set (tk_spent s) \<inter> fst ` set ts = {}" unfolding tokens_ok_def by blast
  moreover have "set ts \<subseteq> set (tk_issued s)" using ok ts unfolding tokens_ok_def by blast
  moreover have "\<forall>u \<in> set us \<union> set (tk_spent s). use_ok (tk_issued s) u" using ok us unfolding tokens_ok_def by blast
  ultimately show ?thesis using ok by (simp add: tokens_ok_def)
qed

lemma tokens_ok_live: "tokens_ok s \<Longrightarrow> set ts \<subseteq> set (tk_live s) \<Longrightarrow> tokens_ok (s\<lparr>tk_live := ts\<rparr>)"
  using tokens_ok_fewer [of s ts "tk_passed s"] by simp

lemma tokens_ok_stored:
  assumes ok: "tokens_ok s" and fresh: "token \<notin> fst ` set (tk_issued s)"
  shows "tokens_ok (s\<lparr>tk_live := AList.update token rec (tk_live s), tk_issued := (token, rec) # tk_issued s\<rparr>)"
proof -
  have live: "set (tk_live s) \<subseteq> set (tk_issued s)" "us_token ` set (tk_spent s) \<inter> fst ` set (tk_live s) = {}"
    and uses: "\<forall>u \<in> set (tk_passed s) \<union> set (tk_spent s). use_ok (tk_issued s) u"
    using ok unfolding tokens_ok_def by blast+
  have "us_token u \<noteq> token" if "use_ok (tk_issued s) u" for u
    using that fresh by (force simp: use_ok_def)
  with uses have new: "token \<notin> us_token ` set (tk_spent s)" by blast
  have "set (AList.update token rec (tk_live s)) \<subseteq> set ((token, rec) # tk_issued s)"
    using set_update_sub [of token rec "tk_live s"] live(1) by auto
  moreover have "us_token ` set (tk_spent s) \<inter> fst ` set (AList.update token rec (tk_live s)) = {}"
    using new live(2) by (simp add: dom_update)
  moreover have "\<forall>u \<in> set (tk_passed s) \<union> set (tk_spent s). use_ok ((token, rec) # tk_issued s) u"
    using uses by (simp add: use_ok_def)
  ultimately show ?thesis using ok fresh by (simp add: tokens_ok_def)
qed

lemma tokens_ok_taken:
  assumes ok: "tokens_ok s" and u: "u \<in> set (tk_passed s)" and take: "take_token (us_token u) (tk_live s) = (True, ts)"
  shows "tokens_ok (s\<lparr>tk_live := ts, tk_passed := remove1 u (tk_passed s), tk_spent := u # tk_spent s\<rparr>)"
proof -
  have live: "us_token u \<in> fst ` set (tk_live s)" and ts: "ts = AList.delete (us_token u) (tk_live s)"
    using take by (auto simp: take_token_def map_of_eq_None_iff)
  have keys: "fst ` set ts = fst ` set (tk_live s) - {us_token u}" "set ts \<subseteq> set (tk_live s)"
    unfolding ts by (rule delete_keys)+
  have "us_token u \<notin> us_token ` set (tk_spent s)" using ok live unfolding tokens_ok_def by blast
  moreover have "us_token ` set (tk_spent s) \<inter> fst ` set ts = {}" using ok unfolding tokens_ok_def keys by blast
  moreover have "set ts \<subseteq> set (tk_issued s)" using ok keys(2) unfolding tokens_ok_def by blast
  moreover have "\<forall>v \<in> set (remove1 u (tk_passed s)) \<union> set (u # tk_spent s). use_ok (tk_issued s) v"
    using ok u set_remove1_subset [of u "tk_passed s"] unfolding tokens_ok_def by auto
  ultimately show ?thesis using ok keys(1) by (simp add: tokens_ok_def)
qed

lemma no_tokens_ok: "tokens_ok no_tokens"
  by (simp add: tokens_ok_def no_tokens_def)

lemma token_step_ok: "token_step s s' \<Longrightarrow> tokens_ok s \<Longrightarrow> tokens_ok s'"
proof (induction rule: token_step.induct)
  case (swept s now)
  then show ?case by (rule tokens_ok_live) (auto simp: drop_expired_def)
next
  case (stored token s rec now session r)
  then show ?case by (simp add: tokens_ok_stored)
next
  case (passed now session token s rec ts)
  with check_Inr [OF passed.hyps] show ?case by (auto simp: tokens_ok_def use_ok_def use_of_def)
next
  case (refused now session token s e ts)
  have "set ts \<subseteq> set (tk_live s)" using check_Inl [OF refused.hyps] delete_keys(2) [of token "tk_live s"] by auto
  then show ?case by (rule tokens_ok_live [OF refused.prems])
next
  case (taken u s ts)
  then show ?case by (simp add: tokens_ok_taken)
next
  case (lost u s ts)
  have "set ts \<subseteq> set (tk_live s)" using lost.hyps(2) delete_keys(2) [of "us_token u" "tk_live s"] by (simp add: take_token_def)
  then show ?case by (rule tokens_ok_fewer [OF lost.prems]) (rule set_remove1_subset)
qed

text \<open>
  C38. However previews and confirmations interleave, a confirmation token is spent at most once, for the
  matches of the preview that issued it, by that preview's session and on checks made before the deadline.
\<close>

theorem token_spent_once:
  assumes "token_step\<^sup>*\<^sup>* no_tokens s"
  shows "distinct (map us_token (tk_spent s)) \<and>
    (\<forall>u \<in> set (tk_spent s). (us_token u, us_record u) \<in> set (tk_issued s) \<and> us_session u = cf_session (us_record u) \<and>
       us_checked u \<le> cf_expires (us_record u)) \<and>
    distinct (map fst (tk_issued s)) \<and> us_token ` set (tk_spent s) \<inter> fst ` set (tk_live s) = {}"
proof -
  have "tokens_ok s" using assms
    by (induction rule: rtranclp_induct) (rule no_tokens_ok, rule token_step_ok)
  then show ?thesis by (auto simp: tokens_ok_def use_ok_def)
qed

section \<open>Two confirmations of one token\<close>

text \<open>Both pass the checks before either takes the token: one gets it.\<close>

definition ex_record :: confirmation where
  "ex_record = confirmation_of 0 [] empty_result"

definition ex_use :: token_use where
  "ex_use = use_of [1] [] 5 ex_record"

definition raced :: "tokens \<Rightarrow> token_use list \<Rightarrow> token_use list \<Rightarrow> token_state" where
  "raced live us spent = \<lparr>tk_live = live, tk_issued = [([1], ex_record)], tk_passed = us, tk_spent = spent\<rparr>"

lemma race_steps:
  "token_step no_tokens (raced [([1], ex_record)] [] [])"
  "token_step (raced [([1], ex_record)] us []) (raced [([1], ex_record)] (ex_use # us) [])"
  "token_step (raced [([1], ex_record)] [ex_use, ex_use] []) (raced [] [ex_use] [ex_use])"
  "token_step (raced [] [ex_use] [ex_use]) (raced [] [] [ex_use])"
  using token_step.stored [of "[1]" no_tokens ex_record 0 "[]" empty_result]
    token_step.passed [of 5 "[]" "[1]" "raced [([1], ex_record)] us []" ex_record "[([1], ex_record)]"]
    token_step.taken [of ex_use "raced [([1], ex_record)] [ex_use, ex_use] []" "[]"]
    token_step.lost [of ex_use "raced [] [ex_use] [ex_use]" "[]"]
  by (simp_all add: raced_def no_tokens_def ex_use_def use_of_def ex_record_def confirmation_of_def confirm_check_def
      take_token_def reconcileTokenTTL_def)

theorem token_spent_once_witness:
  "token_step\<^sup>*\<^sup>* no_tokens (raced [] [] [ex_use]) \<and> distinct (map us_token (tk_spent (raced [] [] [ex_use]))) \<and>
     us_checked ex_use \<le> cf_expires (us_record ex_use)"
proof -
  have "token_step\<^sup>*\<^sup>* no_tokens (raced [] [] [ex_use])"
    by (meson race_steps converse_rtranclp_into_rtranclp rtranclp.rtrancl_refl)
  moreover have "tk_spent (raced [] [] [ex_use]) = [ex_use]" by (simp add: raced_def)
  ultimately show ?thesis using token_spent_once [of "raced [] [] [ex_use]"] by auto
qed

end
