(* ===== verification/Spec2Isabelle.thy ===== *)
theory Spec2Isabelle
  imports Outcome_Witnesses Rule_Lifecycle Session_Witnesses Guard_Witnesses Safe_Text_Facts
  Proposal_Invariant Proposal_Retention Proposal_Roundtrip Proposal_Batch Proposal_Gaps
  Reconcile_Facts Reconcile_Tokens
begin

text \<open>
  wayneblacktea: a verification of its stores, their business rules and its guard.

  wayneblacktea is a Go server that keeps an agent's working memory: tasks and projects, the work
  sessions on them, the outcomes of what was done, and behaviour rules learnt from them.  Every
  component has a Postgres store (\<open>internal/<component>\<close>) and a SQLite store
  (\<open>internal/storage/sqlite\<close>) that promise the same behaviour; a scheduler and the MCP tools drive
  them.  Beside the server a guard hook classifies every tool call of the agent by risk.  The development models the stores as
  functions on lists of rows, translated statement by statement from both backends, with the domain
  rules they call; its theorems say what each operation does on every branch, what holds in every
  reachable database, where the two backends agree and where they do not.

  How the code is modelled.  A table is a list of rows in insertion order, a row a record of its
  typed columns, a UUID a 128-bit word, an instant a number of nanoseconds that each backend stores
  at its own precision (\<open>pg_ts\<close>: microseconds, \<open>sq_ts\<close>: milliseconds), a text the list of its code
  points.  An operation takes the store's workspace scope, the instant of the call and the identifier
  it would generate, and returns its result (\<open>Inl\<close> an error of the domain) and the new database.  An
  operation that is several statements outside a transaction takes \<open>env n\<close>, what other connections do
  before its n-th later statement; a statement that may fail takes a \<open>fault\<close> predicate; a transaction
  (\<open>Gtd_Deletion\<close>) keeps what its statements see apart from what is committed.

  Theories, in the order they build on each other:

  \<^item> \<open>Prelude\<close>: identifiers, instants, texts, workspace scoping, row selection.
  \<^item> \<open>Outcome_Model\<close>, \<open>Outcome_Stores\<close>: \<open>internal/outcome/domain.go\<close>, \<open>store.go\<close> and
    \<open>storage/sqlite/outcome.go\<close>, with JSON metrics documents and both backends' merges.
    \<open>Outcome_Laws\<close>, \<open>Outcome_Interface\<close>: the table invariant and the locale \<open>outcome_store\<close>, the
    contract of \<open>StoreIface\<close>, interpreted on both stores.  \<open>Outcome_Lifecycle\<close>:
    \<open>RecordExecutionResult\<close> (\<open>lifecycle.go\<close>), whose retry loop runs on fuel
    \<open>maxFinalizeDraftRetries\<close>, the code's own bound.  \<open>Outcome_Recording\<close>, \<open>Outcome_Retry\<close>,
    \<open>Outcome_Parity\<close>: what it does under interference (C1 to C3), what retries do (C4), that
    the backends agree and the invariant holds in every reachable table (C5, C6).
  \<^item> \<open>Rule_Stores\<close>, \<open>Governance\<close>, \<open>Rule_Lifecycle\<close>: the behaviour rules
    (\<open>internal/behaviorrule\<close>, \<open>storage/sqlite/behaviorrule.go\<close>) and the weekly job of
    \<open>scheduler/behavior_governance.go\<close>, with NUMERIC(3,2) as hundredths and REAL as rationals rounded to
    53 bits (C7 to C8).
  \<^item> \<open>Texts\<close>: the text rules of \<open>gtd/actor.go\<close>, \<open>sanitize/notes.go\<close>, \<open>validator/repo_name.go\<close>.
  \<^item> \<open>Gtd_Model\<close>, \<open>Gtd_Postgres\<close>: the rows and the task and project operations of
    \<open>storage/sqlite/gtd.go\<close> and \<open>gtd/store.go\<close>.  \<open>Gtd_Invariant\<close>: the table invariant through every
    operation.  \<open>Gtd_Begin\<close>: \<open>BeginTaskOrchestration\<close> as a locale both adapters implement (C17, C18).
    \<open>Gtd_Gate\<close>, \<open>Gtd_Update\<close>, \<open>Gtd_Parity\<close>: the assignee gate and guarded status changes, updates,
    agreement of the backends and the pull-request batch (C19 to C22).
  \<^item> \<open>Digest\<close>: SHA-256 and \<open>TaskSetDigest\<close>.  \<open>Gtd_Deletion\<close>: the delete orchestrations, both adapters of
    each, \<open>RestoreProject\<close> and pruning, as transactions.  \<open>Gtd_Delete_Laws\<close>: the adapter contracts as
    the locales \<open>task_deleter\<close> and \<open>project_deleter\<close>.  \<open>Gtd_Delete_Facts\<close>, \<open>Gtd_Restore\<close>,
    \<open>Gtd_Roundtrip\<close>, \<open>Gtd_Reach\<close>: deletes are all or nothing and leave no dangling reference, the
    race on Postgres, restoring and its round trip, the retention window, and the invariant of every
    reachable database with no row lost (C23 to C27).
  \<^item> \<open>Redact\<close>: the credential patterns of \<open>internal/redact\<close>, the excerpt cap and the single-line rule.
    \<open>Session_Model\<close>, \<open>Session_Stores\<close>: work sessions (\<open>internal/worksession\<close>,
    \<open>storage/sqlite/worksession.go\<close>) on both backends, with failing statements and other connections'
    commits between statements.  \<open>Session_Invariant\<close>, \<open>Session_Reach\<close>: the invariant of the session,
    link and evidence tables under both stores and the GTD operations, and the session life cycle
    (C28).  \<open>Session_Finish\<close>, \<open>Session_Start\<close>: the two multi-statement operations as refinements of one
    abstract call each (C29, C30), and a start that leaves a task without an owner (\<open>session_start_without_owner\<close>).
    \<open>Session_Interface\<close>: the contract of \<open>StoreIface\<close> as the locale \<open>session_store\<close>, interpreted on both
    stores, and what a checkpoint does to the lookup of the running session (\<open>checkpoint_hides_session\<close>).
  \<^item> \<open>Guard_Path\<close>, \<open>Guard_Classifier\<close>, \<open>Guard_Hook\<close>: the guard (\<open>internal/guard/classifier.go\<close>,
    \<open>matcher.go\<close>, \<open>bypass.go\<close>, \<open>store.go\<close>, \<open>event.go\<close>, and the hook and bypass command of
    \<open>cmd/wbt-guard\<close> and \<open>cmd/wbt\<close>) with the path functions of Go's \<open>filepath\<close> it calls.
    \<open>strconv.Quote\<close> is the parameter \<open>quote\<close> and the file system's \<open>EvalSymlinks\<close> the parameter \<open>eval\<close>;
    the loop of \<open>resolveExistingPrefix\<close> runs at most 4096 times, the code's own bound.
    \<open>Guard_Sequence\<close>: a chain of commands is as risky as its riskiest command (C31).  \<open>Guard_Gaps\<close>:
    what the classifier misses (\<open>bash_escape_hides\<close>, \<open>bash_tier_understated\<close>).  \<open>Guard_Inside\<close>: the file check is containment of the
    resolved paths (C32).  \<open>Guard_Decision\<close>: one event per call, and which bypass it names (C33).
  \<^item> \<open>Go_Json\<close>: what the program uses of \<open>encoding/json\<close> and \<open>time.Parse\<close>, and the \<open>jsonb\<close> form of
    Postgres.  \<open>Safe_Text\<close>, \<open>Safe_Text_Facts\<close>: stored text on its way back to an agent
    (\<open>internal/safetext\<close>, the clipping and the fences of \<open>internal/mcp\<close>), where the order in which Go
    visits a map and the effect of a \<open>float64\<close> on a number are parameters (C34).
  \<^item> \<open>Validator\<close>: the checks of a task description and kind (\<open>internal/validator\<close>) and of tool-call
    fragments and control characters (\<open>internal/sanitize\<close>).  \<open>Txn\<close>: programs of statements on a database
    others write to, with what they leave when they fail.
  \<^item> \<open>Proposal_Model\<close>: the queue of proposals (\<open>internal/proposal\<close>, \<open>storage/sqlite/proposal.go\<close>) and
    the nightly retention of \<open>internal/scheduler/scheduler.go\<close>.  \<open>Proposal_Decode\<close>: what a payload decodes to, with the gates of the HTTP handler.
    \<open>Proposal_Accept\<close>: \<open>AcceptOrchestration\<close>, both adapters, and the statements of the goal, project,
    concept, decision, task and knowledge stores they run.  \<open>Proposal_Handler\<close>, \<open>Proposal_Mcp\<close>:
    \<open>internal/handler/proposal_handler.go\<close> and \<open>internal/mcp/tools_proposal.go\<close>.
  \<^item> \<open>Proposal_Laws\<close>, \<open>Proposal_Refine\<close>: the abstract accept, the contract of an adapter as the locale
    \<open>accepting\<close>, and its interpretations.  \<open>Proposal_Facts\<close>: the refinement, and what failures and
    races leave (C9 to C11).  \<open>Proposal_Queue\<close>, \<open>Proposal_Invariant\<close>: the locale \<open>queue_property\<close>, what a
    property of the rows must survive, and all operations as its consequence (C12, C13).
    \<open>Proposal_Roundtrip\<close>, \<open>Proposal_Batch\<close>, \<open>Proposal_Retention\<close>, \<open>Proposal_Gaps\<close>: from \<open>propose_goal\<close> to the
    goal, batches, the nightly job, and what the ways of accepting miss (C14 to C16).
  \<^item> \<open>Reconcile_Model\<close>: which open task a merged pull request closes (\<open>gtd/reconcile.go\<close>), with the lists it
    reads.  \<open>Reconcile_Match\<close>: the relation \<open>closing\<close> it refines (C35).  \<open>Reconcile_Fuzzy\<close>:
    \<open>gtd/fuzzy_reconcile.go\<close> and its description (C40).
  \<^item> \<open>Candidate_Model\<close>, \<open>Candidate_Detect\<close>: the stores of \<open>internal/completioncandidate\<close> and
    \<open>internal/mergedprs\<close>, the four detection rules and the audit notes they search; operations run one after
    another on a \<open>world\<close>, under a \<open>run_of\<close> that says what fails and what others commit.  \<open>Reconcile_Handler\<close>:
    \<open>handler/reconcile_handler.go\<close> and \<open>mcp/tools_reconcile.go\<close> over a \<open>reconcile_backend\<close>.
    \<open>Candidate_Laws\<close>: what every operation keeps, as the locales \<open>upsert_law\<close>, \<open>candidate_law\<close> and
    \<open>reconcile_law\<close>.  \<open>Candidate_Facts\<close>: their interpretations and the table (C39), which
    tasks are stale on which backend (\<open>stale_tasks_parity\<close>), and what the note-searching rules can hit
    (\<open>detection_sources\<close>).  \<open>Reconcile_Facts\<close>: calls end to end (C36, C37,
    \<open>preview_closes_nothing\<close>).  \<open>Reconcile_Tokens\<close>: the confirmation tokens under concurrent calls
    (C38).
  \<^item> \<open>Outcome_Witnesses\<close>, \<open>Gtd_Witnesses\<close>, \<open>Gtd_Delete_Witnesses\<close>, \<open>Session_Witnesses\<close>,
    \<open>Guard_Witnesses\<close>: concrete databases on which the
    hypotheses of the properties hold.

  Assumptions.  SQL statements are atomic and see the database as their isolation level promises;
  a Postgres transaction's row locks keep other transactions from the locked rows, which is what
  \<open>env\<close> in a transaction stands for.  Generated identifiers are fresh where a theorem says so.  A query
  without an order among equal keys returns table order, and the theorems that pick one row exclude
  ties.  An interval of n days is n times 24 hours (the session time zone of Postgres has no
  daylight saving).  NFKD normalisation, JSON libraries and drivers are not modelled.  In the matchers
  \<open>strings.EqualFold\<close> is compared rune by rune, which is exact when one side is ASCII, as validation makes
  the repository of a pull request, and \<open>float64\<close> scores are the fractions they are quotients of; years have four digits.

  Not modelled: listing queries and counts of the GTD stores other than those the matchers read, checklists, imports and the activity log's
  reserved action names; of the guard, opening its connection pool, its marker files and the redaction of
  recorded inputs; of the proposals, the rendering of rows and \<open>acceptProposalSequential\<close>, which no
  production wiring reaches; the other operations of knowledge, decisions and learning, skills, context
  packs, vision items beyond their references, the other MCP tools and HTTP handlers,
  the command line, the clients of language models and of Notion and Discord.  They are glue, remote
  services, or work for a later extension; PROJECT.json lists each with its reason.
\<close>

end
